(* ===== verification/JsValue.thy ===== *)
theory JsValue
  imports Complex_Main Prelude
begin

text \<open>
  The JavaScript values the console handles: what JSON bodies, query parameters and cookies
  hold, with the operations of the language on them that the sources use (property reads,
  truthiness, \<open>??\<close>, \<open>||\<close>, \<open>?.\<close>, \<open>===\<close>, relational operators, \<open>String\<close>, \<open>Number\<close>, object spread,
  \<open>JSON.stringify\<close> on values).

  Numbers are exact rationals with \<open>NaN\<close> and the infinities: rounding of doubles, the sign of
  zero and exponent notation are not represented. An object is its list of own enumerable
  properties in property order; reading a property that is not own finds the built-in members
  of the prototype (\<open>JFun\<close>). Two objects or arrays decoded from different places are different
  references, so \<open>===\<close> between them is false; no source compares a reference with itself.
\<close>

datatype jnum = NaN | PosInf | NegInf | Fin rat

datatype jsval =
    JUndef
  | JNull
  | JBool bool
  | JNum jnum
  | JStr string
  | JArr "jsval list"
  | JObj "(string \<times> jsval) list"
  | JFun string  \<comment> \<open>a built-in function inherited from a prototype, by name\<close>

text \<open>
  Exceptions: an \<open>Error\<close> object with its name and message, or any other thrown value.
\<close>

datatype exn = Error string string | Thrown jsval

type_synonym 'a res = "exn + 'a"

definition type_error :: "string \<Rightarrow> exn" where
  "type_error msg = Error ''TypeError'' msg"

text \<open>\<open>err instanceof Error ? err.message : fallback\<close>\<close>

definition err_message :: "exn \<Rightarrow> string \<Rightarrow> string" where
  "err_message e fallback = (case e of Error _ msg \<Rightarrow> msg | Thrown _ \<Rightarrow> fallback)"

definition jint :: "int \<Rightarrow> jsval" where
  "jint i = JNum (Fin (of_int i))"

section \<open>Tests\<close>

fun nullish :: "jsval \<Rightarrow> bool" where
  "nullish JUndef = True"
| "nullish JNull = True"
| "nullish _ = False"

fun truthy :: "jsval \<Rightarrow> bool" where
  "truthy JUndef = False"
| "truthy JNull = False"
| "truthy (JBool b) = b"
| "truthy (JNum NaN) = False"
| "truthy (JNum (Fin r)) = (r \<noteq> 0)"
| "truthy (JNum _) = True"
| "truthy (JStr s) = (s \<noteq> [])"
| "truthy _ = True"

fun is_str :: "jsval \<Rightarrow> bool" where
  "is_str (JStr _) = True"
| "is_str _ = False"

fun is_num :: "jsval \<Rightarrow> bool" where
  "is_num (JNum _) = True"
| "is_num _ = False"

fun is_arr :: "jsval \<Rightarrow> bool" where
  "is_arr (JArr _) = True"
| "is_arr _ = False"

text \<open>\<open>typeof v === "object"\<close>: \<open>null\<close> included.\<close>

fun is_object :: "jsval \<Rightarrow> bool" where
  "is_object JNull = True"
| "is_object (JArr _) = True"
| "is_object (JObj _) = True"
| "is_object _ = False"

definition js_or :: "jsval \<Rightarrow> jsval \<Rightarrow> jsval" where
  "js_or a b = (if truthy a then a else b)"

definition js_coalesce :: "jsval \<Rightarrow> jsval \<Rightarrow> jsval" where
  "js_coalesce a b = (if nullish a then b else a)"

definition js_default :: "jsval \<Rightarrow> jsval \<Rightarrow> jsval" where
  \<comment> \<open>the default of a destructuring pattern: only \<open>undefined\<close> is replaced\<close>
  "js_default a b = (case a of JUndef \<Rightarrow> b | _ \<Rightarrow> a)"

text \<open>\<open>Boolean(v)\<close>\<close>

definition js_bool :: "jsval \<Rightarrow> jsval" where
  "js_bool v = JBool (truthy v)"

lemma truthy_not_nullish: "truthy v \<Longrightarrow> \<not> nullish v"
  by (cases v rule: truthy.cases) auto

lemma truthy_js_or: "truthy (js_or a b) \<longleftrightarrow> truthy a \<or> truthy b"
  by (simp add: js_or_def)

lemma js_or_str: "js_or (JStr s) (JStr t) = JStr (if s = [] then t else s)"
  by (simp add: js_or_def)

section \<open>Numbers\<close>

fun num_eq :: "jnum \<Rightarrow> jnum \<Rightarrow> bool" where
  "num_eq NaN _ = False"
| "num_eq _ NaN = False"
| "num_eq a b = (a = b)"

fun num_lt :: "jnum \<Rightarrow> jnum \<Rightarrow> bool" where
  "num_lt (Fin a) (Fin b) = (a < b)"
| "num_lt NegInf (Fin _) = True"
| "num_lt NegInf PosInf = True"
| "num_lt (Fin _) PosInf = True"
| "num_lt _ _ = False"

definition num_le :: "jnum \<Rightarrow> jnum \<Rightarrow> bool" where
  "num_le a b \<longleftrightarrow> num_lt a b \<or> num_eq a b"

fun num_neg :: "jnum \<Rightarrow> jnum" where
  "num_neg NaN = NaN"
| "num_neg PosInf = NegInf"
| "num_neg NegInf = PosInf"
| "num_neg (Fin r) = Fin (- r)"

text \<open>\<open>a - b\<close> and \<open>a / k\<close> for a finite positive \<open>k\<close>.\<close>

fun num_sub :: "jnum \<Rightarrow> jnum \<Rightarrow> jnum" where
  "num_sub (Fin a) (Fin b) = Fin (a - b)"
| "num_sub NaN _ = NaN"
| "num_sub _ NaN = NaN"
| "num_sub PosInf PosInf = NaN"
| "num_sub NegInf NegInf = NaN"
| "num_sub PosInf _ = PosInf"
| "num_sub NegInf _ = NegInf"
| "num_sub (Fin _) PosInf = NegInf"
| "num_sub (Fin _) NegInf = PosInf"

fun num_scale :: "rat \<Rightarrow> jnum \<Rightarrow> jnum" where
  "num_scale k (Fin a) = Fin (k * a)"
| "num_scale k x = x"

text \<open>\<open>Math.round\<close>: the nearest integer, halves upwards.\<close>

fun num_round :: "jnum \<Rightarrow> jnum" where
  "num_round (Fin a) = Fin (of_int (floor (a + 1/2)))"
| "num_round x = x"

lemma num_lt_irrefl: "\<not> num_lt a a"
  by (cases a) auto

lemma num_lt_trans: "num_lt a b \<Longrightarrow> num_lt b c \<Longrightarrow> num_lt a c"
  by (cases a; cases b; cases c) auto

text \<open>\<open>Number::toString\<close>: decimal notation (at most 25 fractional digits).\<close>

fun frac_digits :: "nat \<Rightarrow> int \<Rightarrow> int \<Rightarrow> string" where
  "frac_digits 0 r d = []"
| "frac_digits (Suc n) r d =
     (if r = 0 then [] else digit_char (nat ((10 * r) div d)) # frac_digits n ((10 * r) mod d) d)"

definition show_rat :: "rat \<Rightarrow> string" where
  "show_rat q = (let (n, d) = quotient_of q in
     if d = 1 then show_int n
     else (if n < 0 then ''-'' else []) @ show_int (\<bar>n\<bar> div d) @ ''.'' @ frac_digits 25 (\<bar>n\<bar> mod d) d)"

fun show_num :: "jnum \<Rightarrow> string" where
  "show_num NaN = ''NaN''"
| "show_num PosInf = ''Infinity''"
| "show_num NegInf = ''-Infinity''"
| "show_num (Fin q) = show_rat q"

lemma show_rat_int [simp]: "show_rat (of_int i) = show_int i"
  by (simp add: show_rat_def quotient_of_int)

section \<open>Conversion to strings and numbers\<close>

fun to_str :: "jsval \<Rightarrow> string" where
  "to_str JUndef = ''undefined''"
| "to_str JNull = ''null''"
| "to_str (JBool b) = (if b then ''true'' else ''false'')"
| "to_str (JNum n) = show_num n"
| "to_str (JStr s) = s"
| "to_str (JArr xs) = join '','' (map (\<lambda>x. if nullish x then [] else to_str x) xs)"
| "to_str (JObj _) = ''[object Object]''"
| "to_str (JFun f) = ''function '' @ f @ ''() { [native code] }''"

text \<open>
  \<open>StringToNumber\<close>: white space trimmed, the empty string is 0, an optional sign before
  \<open>Infinity\<close> or a decimal literal; unsigned \<open>0x\<close>, \<open>0o\<close> and \<open>0b\<close> literals.
\<close>

definition radix_digit :: "char \<Rightarrow> nat" where
  "radix_digit c = (if is_digit c then digit_val c
     else if is_lower (lower_char c) then (of_char (lower_char c) :: nat) - 87 else 99)"

definition parse_radix :: "nat \<Rightarrow> string \<Rightarrow> jnum" where
  "parse_radix b ds = (if ds \<noteq> [] \<and> list_all (\<lambda>c. radix_digit c < b) ds
     then Fin (of_nat (foldl (\<lambda>n c. b * n + radix_digit c) 0 ds)) else NaN)"

definition parse_exponent :: "string \<Rightarrow> int option" where
  "parse_exponent s = (case s of
     [] \<Rightarrow> Some 0
   | c # t \<Rightarrow>
       if c = CHR ''e'' \<or> c = CHR ''E'' then
         (let (neg, ds) = (case t of [] \<Rightarrow> (False, [])
              | d # u \<Rightarrow> if d = CHR ''-'' then (True, u) else if d = CHR ''+'' then (False, u)
                        else (False, t))
          in if ds \<noteq> [] \<and> list_all is_digit ds
             then Some (if neg then - int (read_digits ds) else int (read_digits ds)) else None)
       else None)"

definition parse_decimal :: "string \<Rightarrow> jnum" where
  "parse_decimal s = (if s = ''Infinity'' then PosInf else
     let ip = takeWhile is_digit s; r1 = dropWhile is_digit s;
         dot = (case r1 of c # _ \<Rightarrow> c = CHR ''.'' | [] \<Rightarrow> False);
         r2 = (if dot then tl r1 else r1);
         fp = (if dot then takeWhile is_digit r2 else []);
         r3 = (if dot then dropWhile is_digit r2 else r2)
     in if ip = [] \<and> fp = [] then NaN else
        (case parse_exponent r3 of None \<Rightarrow> NaN
         | Some e \<Rightarrow> Fin (of_nat (read_digits (ip @ fp)) *
             (let k = e - int (length fp) in if 0 \<le> k then 10 ^ nat k else 1 / 10 ^ nat (- k)))))"

definition str_to_num :: "string \<Rightarrow> jnum" where
  "str_to_num s0 = (let s = trim s0 in
     case s of [] \<Rightarrow> Fin 0
     | c # t \<Rightarrow>
         if c = CHR ''-'' then num_neg (parse_decimal t)
         else if c = CHR ''+'' then parse_decimal t
         else if starts_with (to_lower s) ''0x'' then parse_radix 16 (drop 2 s)
         else if starts_with (to_lower s) ''0o'' then parse_radix 8 (drop 2 s)
         else if starts_with (to_lower s) ''0b'' then parse_radix 2 (drop 2 s)
         else parse_decimal s)"

fun to_num :: "jsval \<Rightarrow> jnum" where
  "to_num JUndef = NaN"
| "to_num JNull = Fin 0"
| "to_num (JBool b) = Fin (if b then 1 else 0)"
| "to_num (JNum n) = n"
| "to_num (JStr s) = str_to_num s"
| "to_num (JArr xs) = str_to_num (to_str (JArr xs))"
| "to_num (JObj _) = NaN"
| "to_num (JFun _) = NaN"

text \<open>Strict equality: never true between two references (see above).\<close>

fun strict_eq :: "jsval \<Rightarrow> jsval \<Rightarrow> bool" where
  "strict_eq JUndef JUndef = True"
| "strict_eq JNull JNull = True"
| "strict_eq (JBool a) (JBool b) = (a = b)"
| "strict_eq (JNum a) (JNum b) = num_eq a b"
| "strict_eq (JStr a) (JStr b) = (a = b)"
| "strict_eq (JFun a) (JFun b) = (a = b)"
| "strict_eq _ _ = False"

lemma strict_eq_str [simp]: "strict_eq v (JStr s) \<longleftrightarrow> v = JStr s"
  by (cases v) auto

lemma strict_eq_bool [simp]: "strict_eq v (JBool b) \<longleftrightarrow> v = JBool b"
  by (cases v) auto

section \<open>Properties\<close>

text \<open>The members every plain object inherits from \<open>Object.prototype\<close>.\<close>

definition object_proto_names :: "string list" where
  "object_proto_names = [''constructor'', ''__defineGetter__'', ''__defineSetter__'',
     ''hasOwnProperty'', ''__lookupGetter__'', ''__lookupSetter__'', ''isPrototypeOf'',
     ''propertyIsEnumerable'', ''toString'', ''valueOf'', ''toLocaleString'']"

definition array_proto_names :: "string list" where
  "array_proto_names = [''at'', ''concat'', ''copyWithin'', ''fill'', ''find'', ''findIndex'',
     ''findLast'', ''findLastIndex'', ''lastIndexOf'', ''pop'', ''push'', ''reverse'', ''shift'',
     ''unshift'', ''slice'', ''sort'', ''splice'', ''includes'', ''indexOf'', ''join'', ''keys'',
     ''entries'', ''values'', ''forEach'', ''filter'', ''flat'', ''flatMap'', ''map'', ''every'',
     ''some'', ''reduce'', ''reduceRight'', ''toReversed'', ''toSorted'', ''toSpliced'', ''with'']"

definition string_proto_names :: "string list" where
  "string_proto_names = [''anchor'', ''at'', ''big'', ''blink'', ''bold'', ''charAt'',
     ''charCodeAt'', ''codePointAt'', ''concat'', ''endsWith'', ''fontcolor'', ''fontsize'',
     ''fixed'', ''includes'', ''indexOf'', ''isWellFormed'', ''italics'', ''lastIndexOf'', ''link'',
     ''localeCompare'', ''match'', ''matchAll'', ''normalize'', ''padEnd'', ''padStart'', ''repeat'',
     ''replace'', ''replaceAll'', ''search'', ''slice'', ''small'', ''split'', ''strike'', ''sub'',
     ''substr'', ''substring'', ''sup'', ''startsWith'', ''toWellFormed'', ''trim'', ''trimStart'',
     ''trimLeft'', ''trimEnd'', ''trimRight'', ''toLocaleLowerCase'', ''toLocaleUpperCase'',
     ''toLowerCase'', ''toUpperCase'']"

definition number_proto_names :: "string list" where
  "number_proto_names = [''toExponential'', ''toFixed'', ''toPrecision'']"

definition proto_get :: "string list \<Rightarrow> string \<Rightarrow> jsval" where
  "proto_get names k = (if k \<in> set names \<or> k \<in> set object_proto_names then JFun k
     else if k = ''__proto__'' then JObj [] else JUndef)"

text \<open>An array index in canonical form, as the key of a property read.\<close>

definition array_index :: "string \<Rightarrow> nat option" where
  "array_index k = (if k \<noteq> [] \<and> list_all is_digit k \<and> show_nat (read_digits k) = k
     then Some (read_digits k) else None)"

text \<open>\<open>v[k]\<close> for a value that is neither \<open>null\<close> nor \<open>undefined\<close>.\<close>

fun member :: "jsval \<Rightarrow> string \<Rightarrow> jsval" where
  "member (JObj kvs) k = (case map_of kvs k of Some v \<Rightarrow> v | None \<Rightarrow> proto_get [] k)"
| "member (JArr xs) k =
     (if k = ''length'' then jint (int (length xs)) else
      case array_index k of
        Some i \<Rightarrow> (if i < length xs then xs ! i else JUndef)
      | None \<Rightarrow> proto_get array_proto_names k)"
| "member (JStr s) k =
     (if k = ''length'' then jint (int (length s)) else
      case array_index k of
        Some i \<Rightarrow> (if i < length s then JStr [s ! i] else JUndef)
      | None \<Rightarrow> proto_get string_proto_names k)"
| "member (JNum _) k = proto_get number_proto_names k"
| "member (JFun f) k = (if k = ''name'' then JStr f else
     proto_get [''apply'', ''arguments'', ''bind'', ''call'', ''caller'', ''length'', ''prototype''] k)"
| "member (JBool _) k = proto_get [] k"
| "member JUndef k = JUndef"
| "member JNull k = JUndef"

text \<open>\<open>v.k\<close>: a \<open>TypeError\<close> on \<open>null\<close> and \<open>undefined\<close> (the message is V8's).\<close>

definition get_prop :: "jsval \<Rightarrow> string \<Rightarrow> jsval res" where
  "get_prop v k = (if nullish v
     then Inl (type_error (''Cannot read properties of '' @ to_str v @ '' (reading '' @ [CHR 0x27] @
            k @ [CHR 0x27] @ '')''))
     else Inr (member v k))"

text \<open>\<open>v?.k\<close>\<close>

definition opt_prop :: "jsval \<Rightarrow> string \<Rightarrow> jsval" where
  "opt_prop v k = (if nullish v then JUndef else member v k)"

text \<open>\<open>const { k, ... } = src\<close> with \<open>k\<close> the first name of the pattern.\<close>

definition destructure :: "string \<Rightarrow> string \<Rightarrow> jsval \<Rightarrow> jsval res" where
  "destructure src k v = (if nullish v
     then Inl (type_error (''Cannot destructure property '' @ [CHR 0x27] @ k @ [CHR 0x27] @ '' of '' @
            [CHR 0x27] @ src @ [CHR 0x27] @ '' as it is '' @ to_str v @ ''.''))
     else Inr v)"

text \<open>
  \<open>obj[k] = v\<close> on a plain object. Assigning \<open>__proto__\<close> calls the setter of
  \<open>Object.prototype\<close>: no own property is created.
\<close>

definition obj_assign :: "string \<Rightarrow> jsval \<Rightarrow> (string \<times> jsval) list \<Rightarrow> (string \<times> jsval) list" where
  "obj_assign k v kvs = (if k = ''__proto__'' \<and> map_of kvs k = None then kvs else al_set k v kvs)"

text \<open>The own enumerable properties an object spread copies.\<close>

fun own_props :: "jsval \<Rightarrow> (string \<times> jsval) list" where
  "own_props (JObj kvs) = kvs"
| "own_props (JArr xs) = map (\<lambda>i. (show_nat i, xs ! i)) [0..<length xs]"
| "own_props (JStr s) = map (\<lambda>i. (show_nat i, JStr [s ! i])) [0..<length s]"
| "own_props _ = []"

text \<open>\<open>{...a, ...b}\<close>\<close>

definition obj_spread :: "jsval \<Rightarrow> jsval \<Rightarrow> jsval" where
  "obj_spread a b = JObj (al_merge (own_props a) (own_props b))"

text \<open>Array elements of a value known to be an array.\<close>

fun elems :: "jsval \<Rightarrow> jsval list" where
  "elems (JArr xs) = xs"
| "elems _ = []"

text \<open>
  What survives \<open>JSON.stringify\<close> followed by parsing: \<open>undefined\<close> and function members are
  dropped (\<open>null\<close> inside arrays), non-finite numbers become \<open>null\<close>.
\<close>

fun json_keeps :: "jsval \<Rightarrow> bool" where
  "json_keeps JUndef = False"
| "json_keeps (JFun _) = False"
| "json_keeps _ = True"

fun json_clean :: "jsval \<Rightarrow> jsval" where
  "json_clean (JObj kvs) =
     JObj (map (\<lambda>(k, v). (k, json_clean v)) (filter (\<lambda>(k, v). json_keeps v) kvs))"
| "json_clean (JArr xs) = JArr (map (\<lambda>x. if json_keeps x then json_clean x else JNull) xs)"
| "json_clean (JNum (Fin r)) = JNum (Fin r)"
| "json_clean (JNum _) = JNull"
| "json_clean v = v"

text \<open>
  \<open>Array.isArray(v) ? v : v.key || []\<close>, the way the routes unwrap an engine's list. The result
  is an arbitrary truthy value when the property is one.
\<close>

definition unwrap_list :: "string \<Rightarrow> jsval \<Rightarrow> jsval res" where
  "unwrap_list key v = (if is_arr v then Inr v
     else case get_prop v key of Inl e \<Rightarrow> Inl e | Inr d \<Rightarrow> Inr (js_or d (JArr [])))"

section \<open>Rules\<close>

lemma get_prop_obj [simp]: "get_prop (JObj kvs) k = Inr (member (JObj kvs) k)"
  by (simp add: get_prop_def)

lemma get_prop_not_nullish: "\<not> nullish v \<Longrightarrow> get_prop v k = Inr (member v k)"
  by (simp add: get_prop_def)

lemma member_obj_own: "map_of kvs k = Some v \<Longrightarrow> member (JObj kvs) k = v"
  by simp

lemma json_clean_keeps [simp]: "json_keeps (json_clean v) = json_keeps v"
  by (cases v rule: json_clean.cases) auto

lemma json_clean_idem [simp]: "json_clean (json_clean v) = json_clean v"
proof (induction v rule: json_clean.induct)
  case (1 kvs)
  have "\<And>k v. (k, v) \<in> set kvs \<Longrightarrow> json_keeps v \<Longrightarrow> json_clean (json_clean v) = json_clean v"
    using 1 by auto
  then show ?case
    by (auto simp: filter_map o_def case_prod_unfold intro!: map_cong)
next
  case (2 xs)
  then show ?case by auto
qed simp_all

lemmas js_ops [js_defs] =
  jint_def js_or_def js_coalesce_def js_default_def js_bool_def proto_get_def
  object_proto_names_def get_prop_def opt_prop_def destructure_def err_message_def type_error_def

end
