(* ===== verification/Json.thy ===== *)
theory Json
  imports JsValue
begin

text \<open>
  JSON text: \<open>JSON.parse\<close> as a recursive-descent parser, \<open>JSON.stringify\<close> (no indentation) as a
  printer. A \<open>\uXXXX\<close> escape above 255 has no code unit in the string model and is refused.
  The parser takes fuel, one unit per nested value or element; the length of the text is enough,
  since every recursive call consumes a character.
\<close>

section \<open>Printing\<close>

definition esc_char :: "char \<Rightarrow> string" where
  "esc_char c = (let n = (of_char c :: nat) in
     if n = 34 then [CHR 0x5C, CHR 0x22]
     else if n = 92 then [CHR 0x5C, CHR 0x5C]
     else if n = 8 then [CHR 0x5C, CHR ''b'']
     else if n = 12 then [CHR 0x5C, CHR ''f'']
     else if n = 10 then [CHR 0x5C, CHR ''n'']
     else if n = 13 then [CHR 0x5C, CHR ''r'']
     else if n = 9 then [CHR 0x5C, CHR ''t'']
     else if n < 32 then [CHR 0x5C, CHR ''u'', CHR ''0'', CHR ''0''] @ hex_byte n
     else [c])"

definition print_string :: "string \<Rightarrow> string" where
  "print_string s = [CHR 0x22] @ concat (map esc_char s) @ [CHR 0x22]"

fun print_json :: "jsval \<Rightarrow> string" where
  "print_json (JBool b) = (if b then ''true'' else ''false'')"
| "print_json (JNum n) = show_num n"
| "print_json (JStr s) = print_string s"
| "print_json (JArr xs) = ''['' @ join '','' (map print_json xs) @ '']''"
| "print_json (JObj kvs) =
     ''{'' @ join '','' (map (\<lambda>(k, v). print_string k @ '':'' @ print_json v) kvs) @ ''}''"
| "print_json _ = ''null''"

text \<open>\<open>JSON.stringify(v)\<close> for a value that is not \<open>undefined\<close> or a function.\<close>

definition json_stringify :: "jsval \<Rightarrow> string" where
  "json_stringify v = print_json (json_clean v)"

section \<open>Parsing\<close>

definition is_json_space :: "char \<Rightarrow> bool" where
  "is_json_space c \<longleftrightarrow> (of_char c :: nat) \<in> {9, 10, 13, 32}"

definition skip_ws :: "string \<Rightarrow> string" where
  "skip_ws s = dropWhile is_json_space s"

definition hex_val :: "char \<Rightarrow> nat option" where
  "hex_val c = (if radix_digit c < 16 then Some (radix_digit c) else None)"

definition hex4 :: "char \<Rightarrow> char \<Rightarrow> char \<Rightarrow> char \<Rightarrow> nat option" where
  "hex4 a b c d = (case (hex_val a, hex_val b, hex_val c, hex_val d) of
     (Some w, Some x, Some y, Some z) \<Rightarrow> Some (((w * 16 + x) * 16 + y) * 16 + z) | _ \<Rightarrow> None)"

definition unescape :: "char \<Rightarrow> char option" where
  "unescape c = (let n = (of_char c :: nat) in
     if n = 34 \<or> n = 92 \<or> n = 47 then Some c
     else if c = CHR ''b'' then Some (char_of (8::nat))
     else if c = CHR ''f'' then Some (char_of (12::nat))
     else if c = CHR ''n'' then Some (char_of (10::nat))
     else if c = CHR ''r'' then Some (char_of (13::nat))
     else if c = CHR ''t'' then Some (char_of (9::nat)) else None)"

text \<open>The rest of a string literal after its opening quote.\<close>

function parse_chars :: "string \<Rightarrow> string \<Rightarrow> (string \<times> string) option" where
  "parse_chars acc s = (case s of
     [] \<Rightarrow> None
   | c # t \<Rightarrow>
       if c = CHR 0x22 then Some (rev acc, t)
       else if c = CHR 0x5C then
         (case t of
            [] \<Rightarrow> None
          | e # u \<Rightarrow>
              if e = CHR ''u'' then
                (case u of
                   h1 # h2 # h3 # h4 # r \<Rightarrow>
                     (case hex4 h1 h2 h3 h4 of
                        Some n \<Rightarrow> if n < 256 then parse_chars (char_of n # acc) r else None
                      | None \<Rightarrow> None)
                 | _ \<Rightarrow> None)
              else (case unescape e of Some d \<Rightarrow> parse_chars (d # acc) u | None \<Rightarrow> None))
       else if (of_char c :: nat) < 32 then None
       else parse_chars (c # acc) t)"
  by pat_completeness auto
termination
  by (relation "measure (\<lambda>(acc, s). length s)") auto

declare parse_chars.simps [simp del]

definition parse_number :: "string \<Rightarrow> (jsval \<times> string) option" where
  "parse_number s =
     (let (neg, s1) = (case s of c # t \<Rightarrow> if c = CHR ''-'' then (True, t) else (False, s)
                        | [] \<Rightarrow> (False, s));
          ip = takeWhile is_digit s1; s2 = dropWhile is_digit s1;
          (fp, s3, okf) = (case s2 of c # t \<Rightarrow> if c = CHR ''.''
              then (takeWhile is_digit t, dropWhile is_digit t, takeWhile is_digit t \<noteq> [])
              else ([], s2, True) | [] \<Rightarrow> ([], s2, True));
          (ex, s4, oke) = (case s3 of c # t \<Rightarrow> if c = CHR ''e'' \<or> c = CHR ''E''
              then (let (sg, u) = (case t of d # u \<Rightarrow> if d = CHR ''-'' then (- 1, u)
                       else if d = CHR ''+'' then (1, u) else (1, t) | [] \<Rightarrow> (1, t));
                        ds = takeWhile is_digit u
                    in (sg * int (read_digits ds), dropWhile is_digit u, ds \<noteq> []))
              else (0, s3, True) | [] \<Rightarrow> (0, s3, True));
          k = ex - int (length fp);
          m = (of_nat (read_digits (ip @ fp)) :: rat);
          q = (if 0 \<le> k then m * 10 ^ nat k else m / 10 ^ nat (- k))
      in if ip = [] \<or> (2 \<le> length ip \<and> hd ip = CHR ''0'') \<or> \<not> okf \<or> \<not> oke then None
         else Some (JNum (Fin (if neg then - q else q)), s4))"

fun parse_value :: "nat \<Rightarrow> string \<Rightarrow> (jsval \<times> string) option"
  and parse_elems :: "nat \<Rightarrow> jsval list \<Rightarrow> string \<Rightarrow> (jsval \<times> string) option"
  and parse_members :: "nat \<Rightarrow> (string \<times> jsval) list \<Rightarrow> string \<Rightarrow> (jsval \<times> string) option" where
  "parse_value 0 s = None"
| "parse_value (Suc n) s0 = (let s = skip_ws s0 in
     case s of
       [] \<Rightarrow> None
     | c # t \<Rightarrow>
         if c = CHR 0x22 then map_option (\<lambda>(str, r). (JStr str, r)) (parse_chars [] t)
         else if c = CHR ''['' then
           (case skip_ws t of
              [] \<Rightarrow> None
            | d # u \<Rightarrow> if d = CHR '']'' then Some (JArr [], u) else parse_elems n [] t)
         else if c = CHR ''{'' then
           (case skip_ws t of
              [] \<Rightarrow> None
            | d # u \<Rightarrow> if d = CHR ''}'' then Some (JObj [], u) else parse_members n [] t)
         else if starts_with s ''true'' then Some (JBool True, drop 4 s)
         else if starts_with s ''false'' then Some (JBool False, drop 5 s)
         else if starts_with s ''null'' then Some (JNull, drop 4 s)
         else parse_number s)"
| "parse_elems 0 acc s = None"
| "parse_elems (Suc n) acc s =
     (case parse_value n s of
        None \<Rightarrow> None
      | Some (v, r) \<Rightarrow>
          (case skip_ws r of
             [] \<Rightarrow> None
           | c # u \<Rightarrow> if c = CHR '','' then parse_elems n (acc @ [v]) u
                      else if c = CHR '']'' then Some (JArr (acc @ [v]), u) else None))"
| "parse_members 0 acc s = None"
| "parse_members (Suc n) acc s =
     (case skip_ws s of
        [] \<Rightarrow> None
      | q # t \<Rightarrow>
          if q \<noteq> CHR 0x22 then None else
          (case parse_chars [] t of
             None \<Rightarrow> None
           | Some (k, r) \<Rightarrow>
               (case skip_ws r of
                  [] \<Rightarrow> None
                | c # u \<Rightarrow>
                    if c \<noteq> CHR '':'' then None else
                    (case parse_value n u of
                       None \<Rightarrow> None
                     | Some (v, r2) \<Rightarrow>
                         (case skip_ws r2 of
                            [] \<Rightarrow> None
                          | d # w \<Rightarrow>
                              if d = CHR '','' then parse_members n (al_set k v acc) w
                              else if d = CHR ''}'' then Some (JObj (al_set k v acc), w)
                              else None)))))"

definition json_parse :: "string \<Rightarrow> jsval option" where
  "json_parse s = (case parse_value (2 * length s + 2) s of
     Some (v, r) \<Rightarrow> if skip_ws r = [] then Some v else None | None \<Rightarrow> None)"

lemma json_parse_Nil: "json_parse [] = None"
  by (simp add: json_parse_def skip_ws_def numeral_2_eq_2)

section \<open>String literals round-trip\<close>

lemma hex_digit_val: "d < 16 \<Longrightarrow> hex_val (hex_digit d) = Some d"
proof -
  have "\<forall>d \<in> set [0..<16]. hex_val (hex_digit d) = Some d"
    by (simp add: hex_val_def hex_digit_def radix_digit_def is_digit_def lower_char_def
        is_upper_def is_lower_def digit_val_def upt_rec)
  then show "d < 16 \<Longrightarrow> hex_val (hex_digit d) = Some d" by simp
qed

lemma char_of_inj: "(of_char c :: nat) = n \<Longrightarrow> c = char_of n"
  by auto

lemma control_chars [simp]:
  "char_of (8::nat) = CHR 0x08" "char_of (9::nat) = CHR 0x09" "char_of (10::nat) = CHR 0x0A"
  "char_of (12::nat) = CHR 0x0C" "char_of (13::nat) = CHR 0x0D"
  by (simp_all add: char_of_def bit_iff_odd)

lemma parse_chars_esc: "parse_chars acc (esc_char c @ s) = parse_chars (c # acc) s"
proof -
  let ?n = "(of_char c :: nat)"
  have n256: "?n < 256" by simp
  consider "?n \<in> {34, 92, 8, 12, 10, 13, 9}" | "?n \<notin> {34, 92, 8, 12, 10, 13, 9}" "?n < 32"
    | "?n \<notin> {34, 92, 8, 12, 10, 13, 9}" "32 \<le> ?n" by linarith
  then show ?thesis
  proof cases
    case 1
    then have "c \<in> {CHR 0x22, CHR 0x5C, CHR 0x08, CHR 0x0C, CHR 0x0A, CHR 0x0D, CHR 0x09}"
      by (auto dest!: char_of_inj simp: char_of_def bit_simps)
    then show ?thesis
      by (elim insertE) (auto simp: esc_char_def Let_def parse_chars.simps [of _ "_ # _"] unescape_def)
  next
    case 2
    have h: "hex4 (CHR ''0'') (CHR ''0'') (hex_digit (?n div 16)) (hex_digit (?n mod 16)) = Some ?n"
      using 2 hex_digit_val [of "?n div 16"] hex_digit_val [of "?n mod 16"]
      by (simp add: hex4_def hex_val_def radix_digit_def is_digit_def digit_val_def)
    show ?thesis
      using 2 h by (subst parse_chars.simps) (auto simp: esc_char_def hex_byte_def Let_def)
  next
    case 3
    then have "c \<noteq> CHR 0x22" "c \<noteq> CHR 0x5C" by auto
    with 3 show ?thesis
      by (subst parse_chars.simps) (auto simp: esc_char_def Let_def)
  qed
qed

lemma parse_chars_print: "parse_chars acc (concat (map esc_char s) @ CHR 0x22 # r) = Some (rev acc @ s, r)"
proof (induction s arbitrary: acc)
  case Nil
  show ?case by (subst parse_chars.simps) simp
next
  case (Cons c s)
  then show ?case by (simp add: parse_chars_esc)
qed

end
