(* ===== verification/Url.thy ===== *)
theory Url
  imports JsValue
begin

text \<open>
  The parts of the URL standard library the sources use: \<open>encodeURIComponent\<close>,
  \<open>decodeURIComponent\<close>, \<open>URLSearchParams\<close> (a list of pairs in order) with its
  \<open>application/x-www-form-urlencoded\<close> serialization, and \<open>Date.prototype.toISOString\<close>.
  Code units from 128 to 255 are two bytes in UTF-8.
\<close>

section \<open>UTF-8 and percent encoding\<close>

definition utf8 :: "char \<Rightarrow> nat list" where
  "utf8 c = (let n = (of_char c :: nat) in if n < 128 then [n] else [192 + n div 64, 128 + n mod 64])"

definition hex_upper :: "nat \<Rightarrow> char" where
  "hex_upper d = ''0123456789ABCDEF'' ! d"

definition pct :: "nat \<Rightarrow> string" where
  "pct b = [CHR ''%'', hex_upper (b div 16), hex_upper (b mod 16)]"

definition is_alnum :: "char \<Rightarrow> bool" where
  "is_alnum c \<longleftrightarrow> is_digit c \<or> is_upper c \<or> is_lower c"

definition uri_unreserved :: "char \<Rightarrow> bool" where
  "uri_unreserved c \<longleftrightarrow> is_alnum c \<or> c \<in> set ''-_.!~*()'' \<or> c = CHR 0x27"

definition encode_uri_component :: "string \<Rightarrow> string" where
  "encode_uri_component s =
     concat (map (\<lambda>c. if uri_unreserved c then [c] else concat (map pct (utf8 c))) s)"

definition form_unreserved :: "char \<Rightarrow> bool" where
  "form_unreserved c \<longleftrightarrow> is_alnum c \<or> c \<in> set ''*-._''"

definition form_encode :: "string \<Rightarrow> string" where
  "form_encode s = concat (map (\<lambda>c. if form_unreserved c then [c]
     else if c = CHR '' '' then ''+'' else concat (map pct (utf8 c))) s)"

lemma hex_upper_props:
  assumes "d < 16"
  shows "radix_digit (hex_upper d) = d" "hex_upper d \<noteq> CHR ''&''" "hex_upper d \<noteq> CHR ''=''"
    "hex_upper d \<noteq> CHR ''/''" "hex_upper d \<noteq> CHR ''?''" "hex_upper d \<noteq> CHR ''#''"
    "hex_upper d \<noteq> CHR ''%''" "hex_upper d \<noteq> CHR ''+''"
proof -
  have "\<forall>d \<in> set [0..<16]. radix_digit (hex_upper d) = d \<and> hex_upper d \<notin> set ''&=/?#%+''"
    by (simp add: upt_rec hex_upper_def radix_digit_def is_digit_def lower_char_def is_upper_def
        is_lower_def digit_val_def)
  moreover have "d \<in> set [0..<16]" using assms by simp
  ultimately have "radix_digit (hex_upper d) = d \<and> hex_upper d \<notin> set ''&=/?#%+''" by blast
  then show "radix_digit (hex_upper d) = d" "hex_upper d \<noteq> CHR ''&''" "hex_upper d \<noteq> CHR ''=''"
    "hex_upper d \<noteq> CHR ''/''" "hex_upper d \<noteq> CHR ''?''" "hex_upper d \<noteq> CHR ''#''"
    "hex_upper d \<noteq> CHR ''%''" "hex_upper d \<noteq> CHR ''+''" by auto
qed

lemma utf8_byte: "b \<in> set (utf8 c) \<Longrightarrow> b < 256"
proof -
  have "(of_char c :: nat) div 64 < 4" using nat_of_char_less_256 [of c] by linarith
  moreover have "(of_char c :: nat) mod 64 < 64" by simp
  ultimately show "b \<in> set (utf8 c) \<Longrightarrow> b < 256"
    by (auto simp: utf8_def Let_def split: if_splits)
qed

text \<open>No delimiter of a path or of a query survives in an encoded component.\<close>

lemma uri_unreserved_plain:
  "uri_unreserved c \<Longrightarrow> c \<notin> set ''/?#&=%+''"
  by (auto simp: uri_unreserved_def is_alnum_def is_digit_def is_upper_def is_lower_def)

lemma pct_safe: "b < 256 \<Longrightarrow> c \<in> set (pct b) \<Longrightarrow> c \<notin> set ''/?#&=+''"
proof -
  assume "b < 256"
  then have "b div 16 < 16" "b mod 16 < 16" by auto
  then show "c \<in> set (pct b) \<Longrightarrow> c \<notin> set ''/?#&=+''" by (auto simp: pct_def hex_upper_props)
qed

lemma encode_uri_component_safe:
  assumes "c \<in> set (encode_uri_component s)"
  shows "c \<notin> set ''/?#&=+''"
proof -
  from assms obtain d where d: "c \<in> set (if uri_unreserved d then [d] else concat (map pct (utf8 d)))"
    unfolding encode_uri_component_def set_concat set_map by blast
  show ?thesis
  proof (cases "uri_unreserved d")
    case True
    with d uri_unreserved_plain [OF True] show ?thesis by simp
  next
    case False
    with d obtain b where "b \<in> set (utf8 d)" "c \<in> set (pct b)" by auto
    with pct_safe utf8_byte show ?thesis by blast
  qed
qed

lemma form_unreserved_plain: "form_unreserved c \<Longrightarrow> c \<notin> set ''/?#&=%+''"
  by (auto simp: form_unreserved_def is_alnum_def is_digit_def is_upper_def is_lower_def)

section \<open>Decoding\<close>

text \<open>Bytes of a percent-encoded string; \<open>pl\<close> says whether \<open>+\<close> is a space (form decoding).\<close>

fun pct_bytes :: "bool \<Rightarrow> string \<Rightarrow> nat list" where
  "pct_bytes pl [] = []"
| "pct_bytes pl (c # s) =
     (if c = CHR ''%'' then
        (case s of
           a # b # t \<Rightarrow> if radix_digit a < 16 \<and> radix_digit b < 16
             then (16 * radix_digit a + radix_digit b) # pct_bytes pl t
             else 37 # pct_bytes pl s
         | _ \<Rightarrow> 37 # pct_bytes pl s)
      else if pl \<and> c = CHR ''+'' then 32 # pct_bytes pl s
      else utf8 c @ pct_bytes pl s)"

fun utf8_decode :: "nat list \<Rightarrow> string option" where
  "utf8_decode [] = Some []"
| "utf8_decode (b # bs) =
     (if b < 128 then map_option ((#) (char_of b)) (utf8_decode bs)
      else (case bs of
        d # ds \<Rightarrow> if 194 \<le> b \<and> b < 196 \<and> 128 \<le> d \<and> d < 192
          then map_option ((#) (char_of (64 * (b - 192) + (d - 128)))) (utf8_decode ds) else None
      | [] \<Rightarrow> None))"

text \<open>\<open>None\<close> stands for text outside the string model (or, for \<open>decodeURIComponent\<close>, an error).\<close>

definition form_decode :: "string \<Rightarrow> string option" where
  "form_decode s = utf8_decode (pct_bytes True s)"

definition decode_uri_component :: "string \<Rightarrow> string option" where
  "decode_uri_component s = utf8_decode (pct_bytes False s)"

lemma utf8_decode_utf8: "utf8_decode (utf8 c @ bs) = map_option ((#) c) (utf8_decode bs)"
proof -
  let ?n = "(of_char c :: nat)"
  have n: "?n < 256" by simp
  show ?thesis
  proof (cases "?n < 128")
    case True
    then show ?thesis by (simp add: utf8_def)
  next
    case False
    have d: "2 \<le> ?n div 64" "?n div 64 < 4" using False n by linarith+
    have lt: "?n mod 64 < 64" and eq: "64 * (?n div 64) + ?n mod 64 = ?n" by simp_all
    from d have "?n div 64 = 2 \<or> ?n div 64 = 3" by linarith
    then show ?thesis using False eq lt by (auto simp: utf8_def Let_def)
  qed
qed

lemma pct_bytes_pct: "b < 256 \<Longrightarrow> pct_bytes pl (pct b @ s) = b # pct_bytes pl s"
proof -
  assume b: "b < 256"
  then have "b div 16 < 16" "b mod 16 < 16" by auto
  then show ?thesis by (simp add: pct_def hex_upper_props)
qed

lemma pct_bytes_pcts:
  "(\<forall>b \<in> set bs. b < 256) \<Longrightarrow> pct_bytes pl (concat (map pct bs) @ s) = bs @ pct_bytes pl s"
  by (induction bs) (auto simp: pct_bytes_pct)

lemma utf8_space: "utf8 (CHR '' '') = [32]"
  by (simp add: utf8_def)

lemma pct_bytes_form_encode: "pct_bytes True (form_encode s) = concat (map utf8 s)"
proof (induction s)
  case Nil
  show ?case by (simp add: form_encode_def)
next
  case (Cons c s)
  have split: "form_encode (c # s) = form_encode [c] @ form_encode s"
    by (simp add: form_encode_def)
  consider "form_unreserved c" | "\<not> form_unreserved c" "c = CHR '' ''"
    | "\<not> form_unreserved c" "c \<noteq> CHR '' ''" by blast
  then show ?case
  proof cases
    case 1
    then have "c \<noteq> CHR ''%''" "c \<noteq> CHR ''+''" using form_unreserved_plain by auto
    with 1 show ?thesis using Cons.IH by (simp add: split) (simp add: form_encode_def)
  next
    case 2
    then show ?thesis using Cons.IH by (simp add: split) (simp add: form_encode_def utf8_space)
  next
    case 3
    have "\<forall>b \<in> set (utf8 c). b < 256" using utf8_byte by blast
    from pct_bytes_pcts [OF this, of True "form_encode s"] 3
    show ?thesis using Cons.IH by (simp add: split) (simp add: form_encode_def)
  qed
qed

lemma utf8_decode_concat: "utf8_decode (concat (map utf8 s)) = Some s"
  by (induction s) (simp_all add: utf8_decode_utf8)

lemma form_decode_encode [simp]: "form_decode (form_encode s) = Some s"
  by (simp add: form_decode_def pct_bytes_form_encode utf8_decode_concat)

lemma pct_bytes_uri_encode: "pct_bytes False (encode_uri_component s) = concat (map utf8 s)"
proof (induction s)
  case Nil
  show ?case by (simp add: encode_uri_component_def)
next
  case (Cons c s)
  have split: "encode_uri_component (c # s) = encode_uri_component [c] @ encode_uri_component s"
    by (simp add: encode_uri_component_def)
  show ?case
  proof (cases "uri_unreserved c")
    case True
    then have "c \<noteq> CHR ''%''" using uri_unreserved_plain by auto
    with True show ?thesis using Cons.IH by (simp add: split) (simp add: encode_uri_component_def)
  next
    case False
    have "\<forall>b \<in> set (utf8 c). b < 256" using utf8_byte by blast
    from pct_bytes_pcts [OF this, of False "encode_uri_component s"] False
    show ?thesis using Cons.IH by (simp add: split) (simp add: encode_uri_component_def)
  qed
qed

lemma decode_encode_uri [simp]: "decode_uri_component (encode_uri_component s) = Some s"
  by (simp add: decode_uri_component_def pct_bytes_uri_encode utf8_decode_concat)

section \<open>Query parameters\<close>

type_synonym params = "(string \<times> string) list"

definition params_get :: "string \<Rightarrow> params \<Rightarrow> string option" where
  "params_get k ps = map_of ps k"

definition params_append :: "string \<Rightarrow> string \<Rightarrow> params \<Rightarrow> params" where
  "params_append k v ps = ps @ [(k, v)]"

text \<open>\<open>set\<close>: the first pair of the name gets the value, its other pairs are removed.\<close>

fun params_set :: "string \<Rightarrow> string \<Rightarrow> params \<Rightarrow> params" where
  "params_set k v [] = [(k, v)]"
| "params_set k v ((k', v') # ps) =
     (if k' = k then (k, v) # al_delete k ps else (k', v') # params_set k v ps)"

definition params_string :: "params \<Rightarrow> string" where
  "params_string ps = join ''&'' (map (\<lambda>(k, v). form_encode k @ ''='' @ form_encode v) ps)"

text \<open>The getter the routes use: \<open>searchParams.get(k)\<close> as a value, \<open>null\<close> when absent.\<close>

definition params_val :: "string \<Rightarrow> params \<Rightarrow> jsval" where
  "params_val k ps = (case params_get k ps of Some s \<Rightarrow> JStr s | None \<Rightarrow> JNull)"

text \<open>\<open>searchParams.get(k) || d\<close>\<close>

definition params_or :: "string \<Rightarrow> params \<Rightarrow> string \<Rightarrow> string" where
  "params_or k ps d = (case params_get k ps of Some s \<Rightarrow> if s = [] then d else s | None \<Rightarrow> d)"

lemma params_get_set [simp]:
  "params_get k' (params_set k v ps) = (if k' = k then Some v else params_get k' ps)"
proof -
  have "map_of (al_delete k qs) k' = map_of qs k'" if "k' \<noteq> k" for qs :: params
    using that by simp
  then show ?thesis by (induction ps) (auto simp: params_get_def simp del: map_of_al_delete)
qed

lemma params_get_append: "params_get k (params_append k' v ps) =
    (case params_get k ps of Some w \<Rightarrow> Some w | None \<Rightarrow> if k = k' then Some v else None)"
  by (auto simp: params_get_def params_append_def map_add_def split: option.splits)

lemma params_get_delete [simp]:
  "params_get k' (al_delete k ps) = (if k' = k then None else params_get k' ps)"
  by (simp add: params_get_def)

section \<open>Dates\<close>

text \<open>The proleptic Gregorian date of a day number (0 is 1970-01-01).\<close>

definition civil :: "int \<Rightarrow> int \<times> int \<times> int" where
  "civil days = (let z = days + 719468; era = z div 146097; doe = z mod 146097;
     yoe = (doe - doe div 1460 + doe div 36524 - doe div 146096) div 365;
     doy = doe - (365 * yoe + yoe div 4 - yoe div 100);
     mp = (5 * doy + 2) div 153; d = doy - (153 * mp + 2) div 5 + 1;
     m = (if mp < 10 then mp + 3 else mp - 9);
     y = yoe + era * 400 + (if m \<le> 2 then 1 else 0)
   in (y, m, d))"

definition pad :: "nat \<Rightarrow> int \<Rightarrow> string" where
  "pad w i = (let s = show_nat (nat i) in replicate (w - length s) (CHR ''0'') @ s)"

definition iso_date :: "int \<Rightarrow> string" where
  "iso_date ms = (let (y, m, d) = civil (ms div 86400000); t = ms mod 86400000 in
     (if 0 \<le> y \<and> y \<le> 9999 then pad 4 y else (if y < 0 then ''-'' else ''+'') @ pad 6 \<bar>y\<bar>) @
     ''-'' @ pad 2 m @ ''-'' @ pad 2 d @ ''T'' @ pad 2 (t div 3600000) @ '':'' @
     pad 2 (t div 60000 mod 60) @ '':'' @ pad 2 (t div 1000 mod 60) @ ''.'' @ pad 3 (t mod 1000) @ ''Z'')"

lemma iso_date_example: "iso_date 951827696789 = ''2000-02-29T12:34:56.789Z''"
  by code_simp

lemmas url_ops [str_defs] =
  utf8_def hex_upper_def pct_def is_alnum_def uri_unreserved_def encode_uri_component_def
  form_unreserved_def form_encode_def params_string_def params_val_def params_get_def params_or_def
  params_append_def

end
