(* ===== verification/ZodSchema.thy ===== *)
theory ZodSchema
  imports Json Url
begin

text \<open>
  The zod schemas of the console as data. A schema is the tree of combinator calls the source
  writes; what \<open>safeParse\<close> does with it is third-party code and stays a parameter of the model
  (the field \<open>w_zod\<close> of the world). \<open>ZTransform\<close> carries the callback of the source, given the current
  instant in ISO form, which one callback reads. A recursive \<open>z.lazy\<close> schema binds \<open>ZSelf\<close>.
  The file has the combinators of lib/api/schema.ts and the rendering of issues.
\<close>

datatype zstring_check = MinLen nat "string option" | MaxLen nat "string option" | Uuid | Email

datatype zschema =
    ZUnknown
  | ZAny
  | ZString "zstring_check list"
  | ZNumber
  | ZBoolean
  | ZEnum "string list"
  | ZArray zschema
  | ZArrayMin zschema nat string
  | ZObject "(string \<times> zschema) list"
  | ZRecord zschema zschema
  | ZUnion "zschema list"
  | ZOptional zschema
  | ZNullable zschema
  | ZDefault zschema jsval
  | ZTransform zschema "string \<Rightarrow> jsval \<Rightarrow> jsval"
  | ZLazy zschema
  | ZSelf

text \<open>An issue: its path, rendered piecewise, and its message.\<close>

type_synonym zissue = "string list \<times> string"

type_synonym zod = "string \<Rightarrow> zschema \<Rightarrow> jsval \<Rightarrow> zissue list + jsval"

abbreviation zstr :: zschema where "zstr \<equiv> ZString []"
abbreviation zopt :: "zschema \<Rightarrow> zschema" where "zopt \<equiv> ZOptional"

text \<open>\<open>issues.map((i) => `${i.path.join(".") || "(root)"}: ${i.message}`).join("; ")\<close>\<close>

definition render_issues :: "zissue list \<Rightarrow> string" where
  "render_issues is = join ''; '' (map (\<lambda>(path, msg).
     (let p = join ''.'' path in if p = [] then ''(root)'' else p) @ '': '' @ msg) is)"

section \<open>Combinators of lib/api/schema.ts\<close>

definition pagedListSchema :: "zschema \<Rightarrow> zschema" where
  "pagedListSchema itemSchema = ZUnion [
     ZArray itemSchema,
     ZTransform (ZObject [
       (''data'', zopt (ZNullable (ZArray itemSchema))),
       (''has_more'', zopt ZBoolean),
       (''next_cursor'', zopt zstr)])
     (\<lambda>_ val. js_coalesce (member val ''data'') (JArr []))]"

definition paginatedListSchema :: "zschema \<Rightarrow> zschema" where
  "paginatedListSchema itemSchema = ZObject [
     (''data'', ZTransform (ZNullable (ZArray itemSchema)) (\<lambda>_ val. js_coalesce val (JArr []))),
     (''has_more'', ZDefault (zopt ZBoolean) (JBool False)),
     (''next_cursor'', ZDefault (zopt zstr) (JStr []))]"

section \<open>A parser for examples\<close>

text \<open>
  A schema interpreter for the witnesses: it instantiates the parameter \<open>w_zod\<close> by a function with the
  documented behaviour on the schemas the examples use. No property depends on it. Unknown keys are
  stripped, missing keys are \<open>undefined\<close>, a union takes its first success. Fuel bounds the depth.
\<close>

definition zod_type :: "jsval \<Rightarrow> string" where
  "zod_type v = (case v of JUndef \<Rightarrow> ''undefined'' | JNull \<Rightarrow> ''null'' | JBool _ \<Rightarrow> ''boolean''
     | JNum _ \<Rightarrow> ''number'' | JStr _ \<Rightarrow> ''string'' | JArr _ \<Rightarrow> ''array'' | JObj _ \<Rightarrow> ''object''
     | JFun _ \<Rightarrow> ''function'')"

definition zfail :: "string \<Rightarrow> jsval \<Rightarrow> zissue list + jsval" where
  "zfail expected v = Inl [([], if v = JUndef then ''Required''
     else ''Expected '' @ expected @ '', received '' @ zod_type v)]"

fun at_key :: "string \<Rightarrow> zissue list + jsval \<Rightarrow> zissue list + jsval" where
  "at_key k (Inl is) = Inl (map (\<lambda>(p, m). (k # p, m)) is)"
| "at_key k (Inr v) = Inr v"

fun collect :: "(zissue list + jsval) list \<Rightarrow> zissue list + jsval list" where
  "collect [] = Inr []"
| "collect (r # rs) = (case (r, collect rs) of
     (Inl a, Inl b) \<Rightarrow> Inl (a @ b) | (Inl a, Inr _) \<Rightarrow> Inl a | (Inr _, Inl b) \<Rightarrow> Inl b
   | (Inr v, Inr vs) \<Rightarrow> Inr (v # vs))"

fun first_ok :: "(zissue list + jsval) list \<Rightarrow> zissue list + jsval" where
  "first_ok [] = Inl [([], ''Invalid input'')]"
| "first_ok (r # rs) = (case r of Inr v \<Rightarrow> Inr v | Inl _ \<Rightarrow> first_ok rs)"

definition check_str :: "zstring_check list \<Rightarrow> string \<Rightarrow> bool" where
  "check_str cs s = list_all (\<lambda>c. case c of MinLen n _ \<Rightarrow> n \<le> length s | MaxLen n _ \<Rightarrow> length s \<le> n
     | Uuid \<Rightarrow> length s = 36 | Email \<Rightarrow> CHR ''@'' \<in> set s) cs"

fun zref :: "nat \<Rightarrow> zschema \<Rightarrow> zod" where
  "zref 0 self now s v = Inl [([], ''too deep'')]"
| "zref (Suc n) self now s v = (case s of
     ZUnknown \<Rightarrow> Inr v
   | ZAny \<Rightarrow> Inr v
   | ZString cs \<Rightarrow> (case v of JStr t \<Rightarrow> if check_str cs t then Inr v else Inl [([], ''Invalid'')]
                    | _ \<Rightarrow> zfail ''string'' v)
   | ZNumber \<Rightarrow> (case v of JNum _ \<Rightarrow> Inr v | _ \<Rightarrow> zfail ''number'' v)
   | ZBoolean \<Rightarrow> (case v of JBool _ \<Rightarrow> Inr v | _ \<Rightarrow> zfail ''boolean'' v)
   | ZEnum ns \<Rightarrow> (case v of JStr t \<Rightarrow> if t \<in> set ns then Inr v else Inl [([], ''Invalid enum value'')]
                  | _ \<Rightarrow> zfail ''string'' v)
   | ZArray e \<Rightarrow> (case v of JArr xs \<Rightarrow>
         map_sum id JArr (collect (map (zref n self now e) xs)) | _ \<Rightarrow> zfail ''array'' v)
   | ZArrayMin e k msg \<Rightarrow> (case v of JArr xs \<Rightarrow> if length xs < k then Inl [([], msg)] else
         map_sum id JArr (collect (map (zref n self now e) xs)) | _ \<Rightarrow> zfail ''array'' v)
   | ZObject fs \<Rightarrow> (case v of JObj kvs \<Rightarrow>
         map_sum id (\<lambda>vs. JObj (filter (\<lambda>(k, x). x \<noteq> JUndef) (zip (map fst fs) vs)))
           (collect (map (\<lambda>(k, f). at_key k (zref n self now f
              (case map_of kvs k of Some x \<Rightarrow> x | None \<Rightarrow> JUndef))) fs))
       | _ \<Rightarrow> zfail ''object'' v)
   | ZRecord _ e \<Rightarrow> (case v of JObj kvs \<Rightarrow>
         map_sum id (\<lambda>vs. JObj (zip (map fst kvs) vs))
           (collect (map (\<lambda>(k, x). at_key k (zref n self now e x)) kvs))
       | _ \<Rightarrow> zfail ''object'' v)
   | ZUnion ss \<Rightarrow> first_ok (map (\<lambda>s'. zref n self now s' v) ss)
   | ZOptional s' \<Rightarrow> (if v = JUndef then Inr v else zref n self now s' v)
   | ZNullable s' \<Rightarrow> (if v = JNull then Inr v else zref n self now s' v)
   | ZDefault s' d \<Rightarrow> zref n self now s' (if v = JUndef then d else v)
   | ZTransform s' f \<Rightarrow> map_sum id (f now) (zref n self now s' v)
   | ZLazy s' \<Rightarrow> zref n s' now s' v
   | ZSelf \<Rightarrow> zref n self now self v)"

definition zod_example :: zod where
  "zod_example = zref 30 ZUnknown"

lemma pagedListSchema_envelope:
  "zod_example now (pagedListSchema zstr) (JObj [(''data'', JNull)]) = Inr (JArr [])"
  by (simp add: zod_example_def pagedListSchema_def numeral_eq_Suc zfail_def js_coalesce_def)

lemmas zod_eval = zod_example_def numeral_eq_Suc zfail_def check_str_def zod_type_def

end
