(* ===== verification/Effects.thy ===== *)
theory Effects
  imports ZodSchema
begin

text \<open>
  The effects of the server code. An action takes the world and returns an exception or a value
  together with the new world. The world holds what the code reads (environment, request cookies, the
  clock, random identifiers, the answers of the engines, the schema parser) and what it changes:
  the log of requests sent and the counters of the oracles. Components with a state of their
  own extend the record.

  Requests sent are logged in order; the answer of the network to a request is a function of the
  log, so every behaviour of the engines, failures and time-outs included, is one world.
\<close>

section \<open>Messages\<close>

datatype http_body = NoBody | JsonBody jsval | TextBody string

record http_request =
  rq_method :: string
  rq_url :: string
  rq_headers :: "(string \<times> string) list"
  rq_body :: http_body

record http_response =
  rs_status :: int
  rs_headers :: "(string \<times> string) list"
  rs_text :: "exn + string"

text \<open>\<open>Response.ok\<close>\<close>

definition rs_ok :: "http_response \<Rightarrow> bool" where
  "rs_ok r \<longleftrightarrow> 200 \<le> rs_status r \<and> rs_status r \<le> 299"

datatype cookie_op =
    SetCookie string string "(string \<times> jsval) list"
  | DeleteCookie string

text \<open>What a route handler returns.\<close>

record response =
  rp_status :: int
  rp_headers :: "(string \<times> string) list"
  rp_body :: http_body
  rp_cookies :: "cookie_op list"

text \<open>What a route handler is given.\<close>

record request =
  req_method :: string
  req_path :: string
  req_query :: params
  req_headers :: "(string \<times> string) list"
  req_text :: "exn + string"
  req_form :: "exn + params"  \<comment> \<open>\<open>await req.formData()\<close>, text fields only\<close>
  req_search :: string  \<comment> \<open>\<open>req.nextUrl.search\<close>\<close>
  req_origin :: string

text \<open>\<open>JSON.stringify(v)\<close> as a request body: no body when it is \<open>undefined\<close>.\<close>

definition json_body :: "jsval \<Rightarrow> http_body" where
  "json_body v = (if json_keeps v then JsonBody (json_clean v) else NoBody)"

section \<open>The world\<close>

record world =
  w_env :: "string \<Rightarrow> string option"
  w_cookies :: "(string \<times> string) list"
  w_upstream :: "http_request list \<Rightarrow> exn + http_response"
  w_sent :: "http_request list"
  w_uuid :: "nat \<Rightarrow> string"
  w_uuids :: nat
  w_clock :: "nat \<Rightarrow> int"
  w_ticks :: nat
  w_bytes :: "nat \<Rightarrow> nat \<Rightarrow> nat list"
  w_draws :: nat
  w_zod :: zod
  w_syntax :: "string \<Rightarrow> string"
  w_date :: "string \<Rightarrow> jnum"

section \<open>Actions\<close>

type_synonym ('w, 'a) js = "'w \<Rightarrow> 'a res \<times> 'w"
type_synonym ('w, 'a) act = "('w world_scheme, 'a) js"

definition ret :: "'a \<Rightarrow> ('w, 'a) js" where
  "ret a = (\<lambda>w. (Inr a, w))"

definition throw :: "exn \<Rightarrow> ('w, 'a) js" where
  "throw e = (\<lambda>w. (Inl e, w))"

definition lift :: "'a res \<Rightarrow> ('w, 'a) js" where
  "lift r = (\<lambda>w. (r, w))"

definition bnd :: "('w, 'a) js \<Rightarrow> ('a \<Rightarrow> ('w, 'b) js) \<Rightarrow> ('w, 'b) js" where
  "bnd m f = (\<lambda>w. case m w of (Inl e, w') \<Rightarrow> (Inl e, w') | (Inr a, w') \<Rightarrow> f a w')"

definition try_catch :: "('w, 'a) js \<Rightarrow> (exn \<Rightarrow> ('w, 'a) js) \<Rightarrow> ('w, 'a) js" where
  "try_catch m h = (\<lambda>w. case m w of (Inl e, w') \<Rightarrow> h e w' | r \<Rightarrow> r)"

text \<open>
  \<open>try { ...; return p(...) } catch ...\<close> in an async function: the block computes the action whose
  promise is returned. The promise is not awaited inside the block, so the handler does not see its
  rejection.
\<close>

definition try_tail :: "('w, ('w, 'a) js) js \<Rightarrow> (exn \<Rightarrow> ('w, 'a) js) \<Rightarrow> ('w, 'a) js" where
  "try_tail m h = (\<lambda>w. case m w of (Inl e, w') \<Rightarrow> h e w' | (Inr k, w') \<Rightarrow> k w')"

definition asks :: "('w \<Rightarrow> 'a) \<Rightarrow> ('w, 'a) js" where
  "asks f = (\<lambda>w. (Inr (f w), w))"

definition modify :: "('w \<Rightarrow> 'w) \<Rightarrow> ('w, unit) js" where
  "modify f = (\<lambda>w. (Inr (), f w))"

fun map_m :: "('a \<Rightarrow> ('w, 'b) js) \<Rightarrow> 'a list \<Rightarrow> ('w, 'b list) js" where
  "map_m f [] = ret []"
| "map_m f (x # xs) = bnd (f x) (\<lambda>y. bnd (map_m f xs) (\<lambda>ys. ret (y # ys)))"

text \<open>The outcome of an action as a value (an element of \<open>Promise.allSettled\<close>).\<close>

definition settle :: "('w, 'a) js \<Rightarrow> ('w, 'a res) js" where
  "settle m = (\<lambda>w. case m w of (r, w') \<Rightarrow> (Inr r, w'))"

lemma bnd_ret [simp]: "bnd (ret a) f = f a"
  by (simp add: bnd_def ret_def)

lemma bnd_throw [simp]: "bnd (throw e) f = throw e"
  by (simp add: bnd_def throw_def fun_eq_iff)

lemma ret_bnd [simp]: "bnd m ret = m"
  by (auto simp: bnd_def ret_def fun_eq_iff split: prod.splits sum.splits)

lemma bnd_assoc: "bnd (bnd m f) g = bnd m (\<lambda>a. bnd (f a) g)"
  by (auto simp: bnd_def fun_eq_iff split: prod.splits sum.splits)

lemma try_catch_ret [simp]: "try_catch (ret a) h = ret a"
  by (simp add: try_catch_def ret_def)

lemma try_catch_throw [simp]: "try_catch (throw e) h = h e"
  by (simp add: try_catch_def throw_def)

lemma try_tail_ret [simp]: "try_tail (ret k) h = k"
  by (simp add: try_tail_def ret_def)

lemma try_tail_throw [simp]: "try_tail (throw e) h = h e"
  by (simp add: try_tail_def throw_def)

section \<open>Primitive operations\<close>

definition env_or :: "'w world_scheme \<Rightarrow> string \<Rightarrow> string \<Rightarrow> string" where
  \<comment> \<open>\<open>process.env.X || d\<close>\<close>
  "env_or w x d = (case w_env w x of Some v \<Rightarrow> if v = [] then d else v | None \<Rightarrow> d)"

definition fetch :: "http_request \<Rightarrow> ('w, http_response) act" where
  "fetch rq = (\<lambda>w. let sent = w_sent w @ [rq] in (w_upstream w sent, w\<lparr>w_sent := sent\<rparr>))"

definition randomUUID :: "('w, string) act" where
  "randomUUID = (\<lambda>w. (Inr (w_uuid w (w_uuids w)), w\<lparr>w_uuids := Suc (w_uuids w)\<rparr>))"

definition date_now :: "('w, int) act" where
  "date_now = (\<lambda>w. (Inr (w_clock w (w_ticks w)), w\<lparr>w_ticks := Suc (w_ticks w)\<rparr>))"

text \<open>\<open>new Date().toISOString()\<close>\<close>

definition now_iso :: "('w, string) act" where
  "now_iso = bnd date_now (\<lambda>ms. ret (iso_date ms))"

definition randomBytes :: "nat \<Rightarrow> ('w, nat list) act" where
  "randomBytes n = (\<lambda>w. (Inr (w_bytes w (w_draws w) n), w\<lparr>w_draws := Suc (w_draws w)\<rparr>))"

definition json_parse_js :: "'w world_scheme \<Rightarrow> string \<Rightarrow> jsval res" where
  "json_parse_js w s = (case json_parse s of Some v \<Rightarrow> Inr v | None \<Rightarrow> Inl (Error ''SyntaxError'' (w_syntax w s)))"

text \<open>\<open>await res.json()\<close> on an upstream response, \<open>await req.json()\<close> on the incoming request.\<close>

definition response_json :: "http_response \<Rightarrow> ('w, jsval) act" where
  "response_json r = (\<lambda>w. (case rs_text r of Inl e \<Rightarrow> Inl e | Inr t \<Rightarrow> json_parse_js w t, w))"

definition request_json :: "request \<Rightarrow> ('w, jsval) act" where
  "request_json rq = (\<lambda>w. (case req_text rq of Inl e \<Rightarrow> Inl e | Inr t \<Rightarrow> json_parse_js w t, w))"

text \<open>\<open>schema.safeParse(v)\<close>: transforms may read the clock.\<close>

definition safe_parse :: "zschema \<Rightarrow> jsval \<Rightarrow> ('w, zissue list + jsval) act" where
  "safe_parse s v = (\<lambda>w. (Inr (w_zod w (iso_date (w_clock w (w_ticks w))) s v), w))"

section \<open>Running an action\<close>

text \<open>One rewrite rule per primitive, for an action applied to a world.\<close>

named_theorems run "rules that run an action on a world"

lemma run_ret [run]: "ret a w = (Inr a, w)"
  by (simp add: ret_def)

lemma run_throw [run]: "throw e w = (Inl e, w)"
  by (simp add: throw_def)

lemma run_lift [run]: "lift r w = (r, w)"
  by (simp add: lift_def)

lemma run_asks [run]: "bnd (asks f) g w = g (f w) w"
  by (simp add: bnd_def asks_def)

lemma run_bnd_lift [run]: "bnd (lift r) g w = (case r of Inl e \<Rightarrow> (Inl e, w) | Inr a \<Rightarrow> g a w)"
  by (simp add: bnd_def lift_def)

lemma run_randomUUID [run]:
  "bnd randomUUID g w = g (w_uuid w (w_uuids w)) (w\<lparr>w_uuids := Suc (w_uuids w)\<rparr>)"
  by (simp add: bnd_def randomUUID_def)

lemma run_date_now [run]:
  "bnd date_now g w = g (w_clock w (w_ticks w)) (w\<lparr>w_ticks := Suc (w_ticks w)\<rparr>)"
  by (simp add: bnd_def date_now_def)

lemma run_now_iso [run]:
  "bnd now_iso g w = g (iso_date (w_clock w (w_ticks w))) (w\<lparr>w_ticks := Suc (w_ticks w)\<rparr>)"
  by (simp add: now_iso_def bnd_assoc run_date_now)

lemma run_randomBytes [run]:
  "bnd (randomBytes n) g w = g (w_bytes w (w_draws w) n) (w\<lparr>w_draws := Suc (w_draws w)\<rparr>)"
  by (simp add: bnd_def randomBytes_def)

lemma run_safe_parse [run]:
  "bnd (safe_parse s v) g w = g (w_zod w (iso_date (w_clock w (w_ticks w))) s v) w"
  by (simp add: bnd_def safe_parse_def)

definition parse_text :: "'w world_scheme \<Rightarrow> exn + string \<Rightarrow> jsval res" where
  "parse_text w t = (case t of Inl e \<Rightarrow> Inl e | Inr s \<Rightarrow> json_parse_js w s)"

lemma run_response_json [run]:
  "bnd (response_json r) g w = (case parse_text w (rs_text r) of Inl e \<Rightarrow> (Inl e, w) | Inr v \<Rightarrow> g v w)"
  by (simp add: bnd_def response_json_def parse_text_def)

lemma run_request_json [run]:
  "bnd (request_json r) g w = (case parse_text w (req_text r) of Inl e \<Rightarrow> (Inl e, w) | Inr v \<Rightarrow> g v w)"
  by (simp add: bnd_def request_json_def parse_text_def)

definition log_request :: "http_request \<Rightarrow> 'w world_scheme \<Rightarrow> 'w world_scheme" where
  "log_request rq w = w\<lparr>w_sent := w_sent w @ [rq]\<rparr>"

lemma run_fetch [run]:
  "bnd (fetch rq) g w = (case w_upstream w (w_sent w @ [rq]) of
     Inl e \<Rightarrow> (Inl e, log_request rq w) | Inr r \<Rightarrow> g r (log_request rq w))"
  by (simp add: bnd_def fetch_def Let_def log_request_def split: sum.split)

lemma run_settle_fetch [run]:
  "bnd (settle (fetch rq)) g w = g (w_upstream w (w_sent w @ [rq])) (log_request rq w)"
  by (simp add: bnd_def settle_def fetch_def Let_def log_request_def)

lemma run_modify [run]: "bnd (modify f) g w = g () (f w)"
  by (simp add: bnd_def modify_def)

lemma run_settle: "m w = (r, w') \<Longrightarrow> bnd (settle m) g w = g r w'"
  by (simp add: bnd_def settle_def)

lemma run_bnd: "m w = (Inr a, w') \<Longrightarrow> bnd m f w = f a w'"
  by (simp add: bnd_def)

lemma run_bnd_fail: "m w = (Inl e, w') \<Longrightarrow> bnd m f w = (Inl e, w')"
  by (simp add: bnd_def)

lemma log_request_sel [simp]:
  "w_sent (log_request rq w) = w_sent w @ [rq]" "w_env (log_request rq w) = w_env w"
  "w_cookies (log_request rq w) = w_cookies w" "w_upstream (log_request rq w) = w_upstream w"
  "w_uuid (log_request rq w) = w_uuid w" "w_uuids (log_request rq w) = w_uuids w"
  "w_clock (log_request rq w) = w_clock w" "w_ticks (log_request rq w) = w_ticks w"
  "w_zod (log_request rq w) = w_zod w" "w_syntax (log_request rq w) = w_syntax w"
  "w_date (log_request rq w) = w_date w"
  by (simp_all add: log_request_def)

lemma parse_text_log [simp]: "parse_text (log_request rq w) t = parse_text w t"
  by (simp add: parse_text_def json_parse_js_def split: sum.split option.split)

section \<open>Responses\<close>

text \<open>
  The constructor of \<open>Response\<close>: a status outside 200 to 599 is a \<open>RangeError\<close>, a body with a null
  body status a \<open>TypeError\<close>. \<open>NextResponse.json\<close> throws on a value JSON cannot represent.
\<close>

definition mk_response :: "http_body \<Rightarrow> int \<Rightarrow> (string \<times> string) list \<Rightarrow> response res" where
  "mk_response b st hs =
     (if st < 200 \<or> 599 < st
        then Inl (Error ''RangeError'' ''init[\"status\"] must be in the range of 200 to 599, inclusive.'')
      else if b \<noteq> NoBody \<and> st \<in> {204, 205, 304}
        then Inl (type_error (''Response constructor: Invalid response status code '' @ show_int st))
      else Inr \<lparr>rp_status = st, rp_headers = hs, rp_body = b, rp_cookies = []\<rparr>)"

definition next_json :: "jsval \<Rightarrow> int \<Rightarrow> (string \<times> string) list \<Rightarrow> response res" where
  "next_json v st hs = (if json_keeps v then mk_response (JsonBody (json_clean v)) st hs
     else Inl (type_error ''Value is not JSON serializable''))"

definition respond :: "jsval \<Rightarrow> int \<Rightarrow> ('w, response) js" where
  "respond v st = lift (next_json v st [])"

definition set_cookie :: "string \<Rightarrow> string \<Rightarrow> (string \<times> jsval) list \<Rightarrow> response \<Rightarrow> response" where
  "set_cookie k v opts r = r\<lparr>rp_cookies := rp_cookies r @ [SetCookie k v opts]\<rparr>"

definition delete_cookie :: "string \<Rightarrow> response \<Rightarrow> response" where
  "delete_cookie k r = r\<lparr>rp_cookies := rp_cookies r @ [DeleteCookie k]\<rparr>"

text \<open>The body \<open>{ error: msg }\<close> most failures have.\<close>

definition err_obj :: "string \<Rightarrow> jsval" where
  "err_obj msg = JObj [(''error'', JStr msg)]"

lemma next_json_obj:
  "\<lbrakk>200 \<le> st; st \<le> 599; st \<notin> {204, 205, 304}\<rbrakk> \<Longrightarrow> next_json (JObj kvs) st hs =
     Inr \<lparr>rp_status = st, rp_headers = hs, rp_body = JsonBody (json_clean (JObj kvs)), rp_cookies = []\<rparr>"
  by (auto simp: next_json_def mk_response_def)

lemma run_respond: "respond v st w = (next_json v st [], w)"
  by (simp add: respond_def lift_def)

lemma json_clean_err [simp]: "json_clean (err_obj m) = err_obj m"
  by (simp add: err_obj_def)

section \<open>Headers\<close>

text \<open>\<open>new Headers(init)\<close>: names in lower case, values of one name joined; \<open>set\<close> replaces.\<close>

fun headers_of :: "(string \<times> string) list \<Rightarrow> (string \<times> string) list \<Rightarrow> (string \<times> string) list" where
  "headers_of acc [] = acc"
| "headers_of acc ((k, v) # hs) = headers_of (al_set (to_lower k)
     (case map_of acc (to_lower k) of Some u \<Rightarrow> u @ '', '' @ v | None \<Rightarrow> v) acc) hs"

definition header :: "string \<Rightarrow> (string \<times> string) list \<Rightarrow> string option" where
  "header k hs = map_of hs k"

lemma header_set [simp]: "header k (al_set k' v hs) = (if k = k' then Some v else header k hs)"
  by (simp add: header_def)

section \<open>Frames: what an action leaves alone\<close>

text \<open>
  A relation between the world before and after that is reflexive and transitive is kept by a
  program as soon as its primitive steps keep it. The locale states this once; components instantiate
  it with the extension of the request log and with the immutability of their own state.
\<close>

definition keeps :: "('w \<Rightarrow> 'w \<Rightarrow> bool) \<Rightarrow> ('w, 'a) js \<Rightarrow> bool" where
  "keeps R m \<longleftrightarrow> (\<forall>w. R w (snd (m w)))"

definition keeps_tail :: "('w \<Rightarrow> 'w \<Rightarrow> bool) \<Rightarrow> ('w, ('w, 'a) js) js \<Rightarrow> bool" where
  "keeps_tail R m \<longleftrightarrow> keeps R m \<and> (\<forall>w k. fst (m w) = Inr k \<longrightarrow> keeps R k)"

lemma keepsD: "keeps R m \<Longrightarrow> m w = (r, w') \<Longrightarrow> R w w'"
  unfolding keeps_def by (metis snd_conv)

lemma keepsI: "(\<And>w. R w (snd (m w))) \<Longrightarrow> keeps R m"
  by (simp add: keeps_def)

locale frame =
  fixes R :: "'w \<Rightarrow> 'w \<Rightarrow> bool"
  assumes refl: "R w w"
    and trans: "R w w' \<Longrightarrow> R w' w'' \<Longrightarrow> R w w''"
begin

lemma k_ret: "keeps R (ret a)"
  by (simp add: keeps_def ret_def refl)

lemma k_throw: "keeps R (throw e)"
  by (simp add: keeps_def throw_def refl)

lemma k_lift: "keeps R (lift r)"
  by (simp add: keeps_def lift_def refl)

lemma k_asks: "keeps R (asks f)"
  by (simp add: keeps_def asks_def refl)

lemma k_bnd: "keeps R m \<Longrightarrow> (\<And>a. keeps R (f a)) \<Longrightarrow> keeps R (bnd m f)"
proof (rule keepsI)
  fix w
  assume a: "keeps R m" and b: "\<And>x. keeps R (f x)"
  obtain r w' where m: "m w = (r, w')" by (cases "m w")
  have "R w w'" using keepsD [OF a m] .
  moreover have "R w' (snd (f x w'))" for x using b by (simp add: keeps_def)
  ultimately show "R w (snd (bnd m f w))"
    by (cases r) (auto simp: bnd_def m intro: trans)
qed

lemma k_try: "keeps R m \<Longrightarrow> (\<And>e. keeps R (h e)) \<Longrightarrow> keeps R (try_catch m h)"
proof (rule keepsI)
  fix w
  assume a: "keeps R m" and b: "\<And>e. keeps R (h e)"
  obtain r w' where m: "m w = (r, w')" by (cases "m w")
  have "R w w'" using keepsD [OF a m] .
  moreover have "R w' (snd (h e w'))" for e using b by (simp add: keeps_def)
  ultimately show "R w (snd (try_catch m h w))"
    by (cases r) (auto simp: try_catch_def m intro: trans)
qed

lemma k_settle: "keeps R m \<Longrightarrow> keeps R (settle m)"
  by (auto simp: keeps_def settle_def split: prod.split dest: spec)
    (metis snd_conv)

lemma k_map_m: "(\<And>x. x \<in> set xs \<Longrightarrow> keeps R (f x)) \<Longrightarrow> keeps R (map_m f xs)"
  by (induction xs) (auto intro!: k_ret k_bnd)

lemma k_try_tail: "keeps_tail R m \<Longrightarrow> (\<And>e. keeps R (h e)) \<Longrightarrow> keeps R (try_tail m h)"
proof (rule keepsI)
  fix w
  assume a: "keeps_tail R m" and b: "\<And>e. keeps R (h e)"
  obtain r w' where m: "m w = (r, w')" by (cases "m w")
  have "keeps R m" using a by (simp add: keeps_tail_def)
  then have "R w w'" using m by (rule keepsD)
  moreover have "R w' (snd (h e w'))" for e using b by (simp add: keeps_def)
  moreover have "R w' (snd (k w'))" if "r = Inr k" for k
    using a m that by (auto simp: keeps_tail_def keeps_def dest: spec [of _ w])
  ultimately show "R w (snd (try_tail m h w))"
    by (cases r) (auto simp: try_tail_def m intro: trans)
qed

lemma t_ret: "keeps R k \<Longrightarrow> keeps_tail R (ret k)"
  by (simp add: keeps_tail_def k_ret) (simp add: ret_def)

lemma t_throw: "keeps_tail R (throw e)"
  by (simp add: keeps_tail_def k_throw) (simp add: throw_def)

lemma t_bnd: "keeps R m \<Longrightarrow> (\<And>a. keeps_tail R (f a)) \<Longrightarrow> keeps_tail R (bnd m f)"
  unfolding keeps_tail_def
  by (auto intro!: k_bnd) (auto simp: bnd_def split: prod.splits sum.splits; metis fst_conv)

lemmas rules = k_ret k_throw k_lift k_asks k_bnd k_try k_settle k_map_m k_try_tail t_ret t_throw t_bnd

end

text \<open>
  \<open>extends P\<close>: the log is extended, only with requests that satisfy \<open>P\<close>; the parameters of the world
  do not change.
\<close>

definition extends :: "(http_request \<Rightarrow> bool) \<Rightarrow> 'w world_scheme \<Rightarrow> 'w world_scheme \<Rightarrow> bool" where
  "extends P w w' \<longleftrightarrow> (\<exists>rs. w_sent w' = w_sent w @ rs \<and> list_all P rs) \<and>
     w_env w' = w_env w \<and> w_cookies w' = w_cookies w \<and> w_upstream w' = w_upstream w \<and> w_zod w' = w_zod w"

lemma extends_refl [simp, intro]: "extends P w w"
  by (auto simp: extends_def)

lemma extends_trans: "extends P w w' \<Longrightarrow> extends P w' w'' \<Longrightarrow> extends P w w''"
  by (auto simp: extends_def)

lemma extends_mono: "extends P w w' \<Longrightarrow> (\<And>r. P r \<Longrightarrow> Q r) \<Longrightarrow> extends Q w w'"
  by (auto simp: extends_def list_all_iff)

interpretation log: frame "extends P" for P :: "http_request \<Rightarrow> bool"
  by unfold_locales (auto intro: extends_trans)

named_theorems keeps_rules "frame rules of actions"

lemma keeps_fetch [keeps_rules]: "P rq \<Longrightarrow> keeps (extends P) (fetch rq)"
  by (auto simp: keeps_def extends_def fetch_def Let_def)

lemma keeps_randomUUID [keeps_rules]: "keeps (extends P) randomUUID"
  by (auto simp: keeps_def extends_def randomUUID_def)

lemma keeps_randomBytes [keeps_rules]: "keeps (extends P) (randomBytes n)"
  by (auto simp: keeps_def extends_def randomBytes_def)

lemma keeps_date_now [keeps_rules]: "keeps (extends P) date_now"
  by (auto simp: keeps_def extends_def date_now_def)

lemma keeps_now_iso [keeps_rules]: "keeps (extends P) now_iso"
  by (auto simp: now_iso_def intro!: log.rules keeps_rules)

lemma keeps_safe_parse [keeps_rules]: "keeps (extends P) (safe_parse s v)"
  by (simp add: keeps_def safe_parse_def)

lemma keeps_response_json [keeps_rules]: "keeps (extends P) (response_json r)"
  by (simp add: keeps_def response_json_def)

lemma keeps_request_json [keeps_rules]: "keeps (extends P) (request_json r)"
  by (simp add: keeps_def request_json_def)

lemma keeps_respond [keeps_rules]: "keeps (extends P) (respond v st)"
  by (simp add: respond_def log.rules)

lemma keeps_mono: "keeps (extends P) m \<Longrightarrow> (\<And>r. P r \<Longrightarrow> Q r) \<Longrightarrow> keeps (extends Q) m"
  by (auto simp: keeps_def intro: extends_mono)

section \<open>A concrete world\<close>

text \<open>The world of the examples: no environment, given cookies and answers, a clock that stands still.\<close>

definition example_world :: "(string \<times> string) list \<Rightarrow> (http_request list \<Rightarrow> exn + http_response) \<Rightarrow> world" where
  "example_world cookies up = \<lparr>w_env = (\<lambda>_. None), w_cookies = cookies, w_upstream = up, w_sent = [],
     w_uuid = (\<lambda>n. show_nat n), w_uuids = 0, w_clock = (\<lambda>_. 0), w_ticks = 0,
     w_bytes = (\<lambda>i n. replicate n i), w_draws = 0, w_zod = zod_example,
     w_syntax = (\<lambda>_. ''Unexpected token''), w_date = (\<lambda>_. NaN)\<rparr>"

definition ok_text :: "string \<Rightarrow> exn + http_response" where
  "ok_text t = Inr \<lparr>rs_status = 200, rs_headers = [], rs_text = Inr t\<rparr>"

lemma example_world_sel [simp]:
  "w_env (example_world ck up) = (\<lambda>_. None)" "w_cookies (example_world ck up) = ck"
  "w_upstream (example_world ck up) = up" "w_sent (example_world ck up) = []"
  "w_uuids (example_world ck up) = 0" "w_zod (example_world ck up) = zod_example"
  by (simp_all add: example_world_def)

lemmas eff_ops [eff_defs] =
  ret_def throw_def lift_def bnd_def try_catch_def try_tail_def asks_def modify_def settle_def
  env_or_def fetch_def randomUUID_def date_now_def now_iso_def randomBytes_def json_parse_js_def
  response_json_def request_json_def safe_parse_def mk_response_def next_json_def respond_def
  set_cookie_def delete_cookie_def err_obj_def json_body_def header_def rs_ok_def

end
