(* ===== verification/Auth.thy ===== *)
theory Auth
  imports Effects
begin

text \<open>
  The engines' addresses (lib/api-config.ts), the role table and \<open>hasPermission\<close> (lib/auth/types.ts) and
  the operator session (lib/auth/session.ts). Argus validates session tokens; its answer is whatever
  JSON it sends, so the operator and its role are values of the JavaScript model, not records.
\<close>

section \<open>lib/api-config.ts\<close>

definition JANUS_ADMIN_URL :: "'w world_scheme \<Rightarrow> string" where
  "JANUS_ADMIN_URL w = env_or w ''JANUS_ADMIN_INTERNAL_URL'' ''http://janus:4445''"

definition BACKEND_URLS :: "'w world_scheme \<Rightarrow> jsval" where
  "BACKEND_URLS w = JObj [
     (''ego'', JStr (env_or w ''EGO_INTERNAL_URL'' ''http://ego:4433'')),
     (''janus'', JStr (env_or w ''JANUS_INTERNAL_URL'' ''http://janus:4444'')),
     (''vulcan'', JStr (env_or w ''VULCAN_INTERNAL_URL'' ''http://vulcan:4466'')),
     (''hermes'', JStr (env_or w ''HERMES_INTERNAL_URL'' ''http://hermes:4477'')),
     (''aegis'', JStr (env_or w ''AEGIS_INTERNAL_URL'' ''http://aegis:4456'')),
     (''nexus'', JStr (env_or w ''NEXUS_INTERNAL_URL'' ''http://nexus:8080'')),
     (''themis'', JStr (env_or w ''THEMIS_INTERNAL_URL'' ''http://themis:4488'')),
     (''argus'', JStr (env_or w ''ARGUS_INTERNAL_URL'' ''http://argus:4400'')),
     (''prometheus'', JStr (env_or w ''PROMETHEUS_INTERNAL_URL'' ''http://prometheus:9090''))]"

definition publicPorts :: jsval where
  "publicPorts = JObj [(''ego'', jint 4433), (''janus'', jint 4444), (''vulcan'', jint 4466),
     (''hermes'', jint 4477), (''aegis'', jint 4456), (''nexus'', jint 8080), (''themis'', jint 4488),
     (''argus'', jint 4400), (''prometheus'', jint 9090)]"

text \<open>The test \<open>typeof window\<close> is the first argument; the server code calls it with \<open>False\<close>.\<close>

definition getServiceUrl_in :: "bool \<Rightarrow> 'w world_scheme \<Rightarrow> string \<Rightarrow> jsval" where
  "getServiceUrl_in browser w service =
     (if \<not> browser then
        js_or (member (BACKEND_URLS w) service) (JStr (''http://'' @ service @ '':4433''))
      else JStr (''http://localhost:'' @ to_str (js_or (member publicPorts service) (jint 3000))))"

abbreviation getServiceUrl :: "'w world_scheme \<Rightarrow> string \<Rightarrow> jsval" where
  "getServiceUrl \<equiv> getServiceUrl_in False"

definition engines :: "string list" where
  "engines = [''ego'', ''janus'', ''vulcan'', ''hermes'', ''aegis'', ''nexus'', ''themis'', ''argus'',
     ''prometheus'']"

lemma env_or_nonempty: "d \<noteq> [] \<Longrightarrow> env_or w x d \<noteq> []"
  by (auto simp: env_or_def split: option.splits)

lemma getServiceUrl_cong: "w_env w' = w_env w \<Longrightarrow> getServiceUrl w' s = getServiceUrl w s"
  by (simp only: getServiceUrl_in_def BACKEND_URLS_def env_or_def)

lemma BACKEND_URLS_own:
  assumes "s \<in> set engines"
  shows "\<exists>u. member (BACKEND_URLS w) s = JStr u \<and> u \<noteq> []"
proof -
  have "list_all (\<lambda>s. \<exists>u. map_of (own_props (BACKEND_URLS w)) s = Some (JStr u) \<and> u \<noteq> []) engines"
    by (simp add: engines_def BACKEND_URLS_def env_or_nonempty)
  then obtain u where "map_of (own_props (BACKEND_URLS w)) s = Some (JStr u)" "u \<noteq> []"
    using assms by (auto simp: list_all_iff)
  then show ?thesis by (simp add: BACKEND_URLS_def)
qed

lemma getServiceUrl_str:
  assumes "s \<in> set engines"
  shows "is_str (getServiceUrl w s) \<and> to_str (getServiceUrl w s) \<noteq> []"
  using BACKEND_URLS_own [OF assms, of w] by (auto simp: getServiceUrl_in_def js_or_def)

section \<open>lib/auth/types.ts\<close>

definition ROLE_PERMISSIONS :: jsval where
  "ROLE_PERMISSIONS = JObj [
     (''owner'', JArr [JStr ''*'']),
     (''admin'', JArr [JStr ''identities:*'', JStr ''oauth2:*'', JStr ''api-keys:*'', JStr ''policies:*'',
        JStr ''permissions:*'', JStr ''proxy-rules:*'', JStr ''enterprise:*'', JStr ''fleet:read'',
        JStr ''fleet:manage'', JStr ''audit:*'', JStr ''governance:*'', JStr ''compliance:*'']),
     (''operator'', JArr [JStr ''identities:read'', JStr ''identities:write'', JStr ''oauth2:read'',
        JStr ''api-keys:read'', JStr ''policies:read'', JStr ''permissions:read'', JStr ''proxy-rules:read'',
        JStr ''enterprise:read'', JStr ''fleet:read'', JStr ''audit:read'', JStr ''governance:read'',
        JStr ''compliance:read'']),
     (''auditor'', JArr [JStr ''identities:read'', JStr ''oauth2:read'', JStr ''api-keys:read'',
        JStr ''policies:read'', JStr ''permissions:read'', JStr ''proxy-rules:read'', JStr ''enterprise:read'',
        JStr ''fleet:read'', JStr ''audit:read'', JStr ''governance:read'', JStr ''compliance:read''])]"

text \<open>
  A role that names a member of \<open>Object.prototype\<close> finds a function, which has no \<open>includes\<close>.
\<close>

definition hasPermission :: "jsval \<Rightarrow> string \<Rightarrow> bool res" where
  "hasPermission role requiredPermission =
     (case js_or (member ROLE_PERMISSIONS (to_str role)) (JArr []) of
        JArr perms \<Rightarrow>
          if JStr ''*'' \<in> set perms then Inr True
          else if JStr requiredPermission \<in> set perms then Inr True
          else let domain = hd (split_on (CHR '':'') requiredPermission)
               in Inr (JStr (domain @ '':*'') \<in> set perms)
      | _ \<Rightarrow> Inl (type_error ''perms.includes is not a function''))"

text \<open>The role type of the source, in the order of the privileges.\<close>

datatype operator_role = Auditor | Operator | Admin | Owner

fun role_name :: "operator_role \<Rightarrow> string" where
  "role_name Auditor = ''auditor''"
| "role_name Operator = ''operator''"
| "role_name Admin = ''admin''"
| "role_name Owner = ''owner''"

fun role_rank :: "operator_role \<Rightarrow> nat" where
  "role_rank Auditor = 0"
| "role_rank Operator = 1"
| "role_rank Admin = 2"
| "role_rank Owner = 3"

instantiation operator_role :: linorder
begin

definition less_eq_operator_role :: "operator_role \<Rightarrow> operator_role \<Rightarrow> bool" where
  "less_eq_operator_role a b \<longleftrightarrow> role_rank a \<le> role_rank b"

definition less_operator_role :: "operator_role \<Rightarrow> operator_role \<Rightarrow> bool" where
  "less_operator_role a b \<longleftrightarrow> role_rank a < role_rank b"

instance
proof
  fix a b c :: operator_role
  show "a < b \<longleftrightarrow> a \<le> b \<and> \<not> b \<le> a"
    by (auto simp: less_eq_operator_role_def less_operator_role_def)
  show "a \<le> a" "a \<le> b \<Longrightarrow> b \<le> c \<Longrightarrow> a \<le> c" "a \<le> b \<or> b \<le> a"
    by (auto simp: less_eq_operator_role_def)
  show "a \<le> b \<Longrightarrow> b \<le> a \<Longrightarrow> a = b"
    by (cases a; cases b) (auto simp: less_eq_operator_role_def)
qed

end

definition role_can :: "operator_role \<Rightarrow> string \<Rightarrow> bool" where
  "role_can r p \<longleftrightarrow> hasPermission (JStr (role_name r)) p = Inr True"

lemma hasPermission_own:
  "member ROLE_PERMISSIONS r = JArr ps \<Longrightarrow> hasPermission (JStr r) p =
     Inr (JStr ''*'' \<in> set ps \<or> JStr p \<in> set ps \<or> JStr (hd (split_on (CHR '':'') p) @ '':*'') \<in> set ps)"
  by (simp add: hasPermission_def js_or_def Let_def)

lemma role_can_own: "member ROLE_PERMISSIONS (role_name r) = JArr ps \<Longrightarrow> role_can r p \<longleftrightarrow>
    JStr ''*'' \<in> set ps \<or> JStr p \<in> set ps \<or> JStr (hd (split_on (CHR '':'') p) @ '':*'') \<in> set ps"
  by (simp add: role_can_def hasPermission_own)

lemma append2_eq:
  "d @ [a, b] = s \<longleftrightarrow> 2 \<le> length s \<and> d = take (length s - 2) s \<and> drop (length s - 2) s = [a, b]"
proof
  assume "d @ [a, b] = s"
  then show "2 \<le> length s \<and> d = take (length s - 2) s \<and> drop (length s - 2) s = [a, b]"
    by (auto simp: numeral_2_eq_2)
next
  assume h: "2 \<le> length s \<and> d = take (length s - 2) s \<and> drop (length s - 2) s = [a, b]"
  then show "d @ [a, b] = s" using append_take_drop_id [of "length s - 2" s] by simp
qed

lemma role_can_Owner [simp]: "role_can Owner p"
  by (subst role_can_own, simp add: ROLE_PERMISSIONS_def) simp

lemma role_can_Admin: "role_can Admin p \<longleftrightarrow>
    p \<in> {''fleet:read'', ''fleet:manage''} \<or>
    hd (split_on (CHR '':'') p) \<in> {''identities'', ''oauth2'', ''api-keys'', ''policies'', ''permissions'',
      ''proxy-rules'', ''enterprise'', ''audit'', ''governance'', ''compliance''}"
  by (subst role_can_own, simp add: ROLE_PERMISSIONS_def)
    (simp add: append2_eq, rule iffI; elim disjE; simp)

lemma role_can_Auditor: "role_can Auditor p \<longleftrightarrow>
    p \<in> {''identities:read'', ''oauth2:read'', ''api-keys:read'', ''policies:read'', ''permissions:read'',
      ''proxy-rules:read'', ''enterprise:read'', ''fleet:read'', ''audit:read'', ''governance:read'',
      ''compliance:read''}"
  by (subst role_can_own, simp add: ROLE_PERMISSIONS_def) (simp add: append2_eq disj_ac)

lemma role_can_Operator: "role_can Operator p \<longleftrightarrow> p = ''identities:write'' \<or> role_can Auditor p"
  by (subst role_can_own, simp add: ROLE_PERMISSIONS_def)
    (simp add: append2_eq role_can_Auditor disj_ac)

text \<open>
  The role table is ordered: what a role may do, every role above it (auditor, operator, admin,
  owner) may do too.
\<close>

theorem hasPermission_monotone:
  "r \<le> r' \<Longrightarrow> hasPermission (JStr (role_name r)) p = Inr True \<Longrightarrow>
    hasPermission (JStr (role_name r')) p = Inr True"
proof -
  assume le: "r \<le> r'" and can: "hasPermission (JStr (role_name r)) p = Inr True"
  from can have c: "role_can r p" by (simp add: role_can_def)
  have au: "role_can Auditor p \<Longrightarrow> role_can Admin p"
    unfolding role_can_Auditor role_can_Admin by (simp, elim disjE; simp)
  then have oa: "role_can Operator p \<Longrightarrow> role_can Admin p"
    by (auto simp: role_can_Operator) (simp add: role_can_Admin)
  have "role_can r' p"
    using le c au oa
    by (cases r; cases r') (simp_all add: less_eq_operator_role_def role_can_Operator)
  then show ?thesis by (simp add: role_can_def)
qed

theorem hasPermission_monotone_witness:
  "hasPermission (JStr (role_name Admin)) ''identities:write'' = Inr True"
  by (rule hasPermission_monotone [of Operator])
    (simp_all add: less_eq_operator_role_def hasPermission_def ROLE_PERMISSIONS_def js_or_def)

section \<open>lib/auth/session.ts\<close>

definition SESSION_COOKIE_NAME :: string where
  "SESSION_COOKIE_NAME = ''autorix_session''"

definition getSessionToken :: "('w, string option) act" where
  "getSessionToken = asks (\<lambda>w. map_of (w_cookies w) SESSION_COOKIE_NAME)"

definition session_request :: "'w world_scheme \<Rightarrow> string \<Rightarrow> http_request" where
  "session_request w token =
     \<lparr>rq_method = ''GET'', rq_url = to_str (getServiceUrl w ''argus'') @ ''/v1/auth/session'',
      rq_headers = headers_of [] [(''Authorization'', ''Bearer '' @ token)], rq_body = NoBody\<rparr>"

text \<open>The result \<open>{ valid, operator }\<close>; \<open>operator\<close> is \<open>undefined\<close> when the session is refused.\<close>

definition validateSessionToken :: "string \<Rightarrow> ('w, jsval \<times> jsval) act" where
  "validateSessionToken token =
     (if token = [] then ret (JBool False, JUndef)
      else try_catch
        (bnd (asks (\<lambda>w. session_request w token)) (\<lambda>rq.
         bnd (fetch rq) (\<lambda>res.
         if \<not> rs_ok res then ret (JBool False, JUndef)
         else bnd (response_json res) (\<lambda>data.
           bnd (lift (get_prop data ''valid'')) (\<lambda>v.
           bnd (lift (get_prop data ''operator'')) (\<lambda>op. ret (v, op)))))))
        (\<lambda>_. ret (JBool False, JUndef)))"

definition getCurrentOperator :: "('w, jsval) act" where
  "getCurrentOperator =
     bnd getSessionToken (\<lambda>token.
     case token of
       None \<Rightarrow> ret JNull
     | Some t \<Rightarrow> if t = [] then ret JNull else
         bnd (validateSessionToken t) (\<lambda>(valid, operator).
         ret (if truthy valid \<and> truthy operator then operator else JNull)))"

text \<open>The only request the session check sends.\<close>

definition is_session_check :: "'w world_scheme \<Rightarrow> http_request \<Rightarrow> bool" where
  "is_session_check w rq \<longleftrightarrow> (\<exists>t. rq = session_request w t)"

lemma getSessionToken_keeps [keeps_rules]: "keeps (extends P) getSessionToken"
  by (simp add: getSessionToken_def log.rules)

lemma validateSessionToken_no_throw: "fst (validateSessionToken t w) \<noteq> Inl e"
  by (auto simp: validateSessionToken_def try_catch_def ret_def split: prod.split sum.split)

end
