(* ===== verification/Proxy.thy ===== *)
theory Proxy
  imports Auth
begin

text \<open>
  The shared server-side proxy, lib/api/proxy.ts: destination check, role check, forwarding with the
  console's own headers, classification of failures and validation of the response body.

  The service is a string and \<open>BACKEND_URLS[service]\<close> a JavaScript property read, as in the source.
  Every route handler passes a literal name.
\<close>

record proxy_options =
  po_method :: "string option"
  po_headers :: "(string \<times> string) list"
  po_body :: http_body
  po_permission :: "string option"

definition po_get :: proxy_options where
  "po_get = \<lparr>po_method = None, po_headers = [], po_body = NoBody, po_permission = None\<rparr>"

text \<open>\<open>{ requiredPermission: p }\<close>\<close>

definition po_perm :: "string \<Rightarrow> proxy_options" where
  "po_perm p = po_get\<lparr>po_permission := Some p\<rparr>"

text \<open>\<open>{ method: m, requiredPermission: p }\<close>\<close>

definition po_call :: "string \<Rightarrow> string \<Rightarrow> proxy_options" where
  "po_call m p = po_get\<lparr>po_method := Some m, po_permission := Some p\<rparr>"

text \<open>\<open>{ method, headers: { "Content-Type": "application/json" }, body: JSON.stringify(v), requiredPermission }\<close>\<close>

definition json_type :: "(string \<times> string) list" where
  "json_type = [(''Content-Type'', ''application/json'')]"

definition po_send :: "string \<Rightarrow> jsval \<Rightarrow> string \<Rightarrow> proxy_options" where
  "po_send m v p = \<lparr>po_method = Some m, po_headers = json_type, po_body = json_body v, po_permission = Some p\<rparr>"

definition extractMessage :: "jsval \<Rightarrow> string \<Rightarrow> int \<Rightarrow> string" where
  "extractMessage body rawText status =
     (case (if truthy body \<and> is_object body then member body ''error'' else JUndef) of
        JStr e \<Rightarrow> e
      | _ \<Rightarrow> if trim rawText \<noteq> [] then rawText
             else ''upstream request failed with status '' @ show_int status)"

definition id_headers :: "string \<Rightarrow> (string \<times> string) list" where
  "id_headers requestId = [(''x-request-id'', requestId), (''x-correlation-id'', requestId)]"

definition permission_domain :: "string \<Rightarrow> string option" where
  "permission_domain service = (if service = ''janus'' then Some ''oauth2''
     else if service = ''aegis'' then Some ''proxy-rules'' else None)"

definition option_method :: "proxy_options option \<Rightarrow> string" where
  "option_method options = (case options of None \<Rightarrow> ''GET''
     | Some po \<Rightarrow> (case po_method po of Some m \<Rightarrow> if m = [] then ''GET'' else m | None \<Rightarrow> ''GET''))"

definition required_permissions :: "string \<Rightarrow> proxy_options option \<Rightarrow> string list" where
  "required_permissions service options =
     (let action = (if to_upper (option_method options) \<in> {''GET'', ''HEAD''} then ''read'' else ''write'');
          baseline = map_option (\<lambda>d. d @ '':'' @ action) (permission_domain service);
          extra = (case options of None \<Rightarrow> None | Some po \<Rightarrow> po_permission po)
      in filter (\<lambda>p. p \<noteq> []) (List.map_filter id [baseline, extra]))"

text \<open>\<open>requiredPermissions.find((p) => !hasPermission(role, p))\<close>\<close>

fun find_lacking :: "jsval \<Rightarrow> string list \<Rightarrow> string option res" where
  "find_lacking role [] = Inr None"
| "find_lacking role (p # ps) = (case hasPermission role p of
     Inl e \<Rightarrow> Inl e | Inr b \<Rightarrow> if b then find_lacking role ps else Inr (Some p))"

definition unauthorized_response :: "string \<Rightarrow> ('w, response) js" where
  "unauthorized_response requestId =
     bnd (lift (next_json (err_obj ''unauthorized: authentication required'') 401 (id_headers requestId)))
       (\<lambda>r. ret (delete_cookie SESSION_COOKIE_NAME r))"

definition forbidden_response :: "string \<Rightarrow> jsval \<Rightarrow> string \<Rightarrow> ('w, response) js" where
  "forbidden_response requestId role p = lift (next_json (JObj [
       (''error'', JStr (''forbidden: operator role '' @ [CHR 0x27] @ to_str role @ [CHR 0x27] @
          '' lacks required permission '' @ [CHR 0x27] @ p @ [CHR 0x27])),
       (''required_permission'', JStr p), (''role'', role)]) 403 (id_headers requestId))"

text \<open>The role check: \<open>Some\<close> the refusal, or \<open>None\<close> to go on.\<close>

definition proxy_rbac :: "string \<Rightarrow> string list \<Rightarrow> ('w, response option) act" where
  "proxy_rbac requestId perms =
     (if perms = [] then ret None else
      bnd getCurrentOperator (\<lambda>operator.
      if \<not> truthy operator then bnd (unauthorized_response requestId) (\<lambda>r. ret (Some r))
      else bnd (lift (get_prop operator ''role'')) (\<lambda>role.
        bnd (lift (find_lacking role perms)) (\<lambda>lacking.
        case lacking of None \<Rightarrow> ret None
        | Some p \<Rightarrow> bnd (forbidden_response requestId role p) (\<lambda>r. ret (Some r))))))"

definition console_headers :: "string \<Rightarrow> (string \<times> string) list \<Rightarrow> (string \<times> string) list" where
  "console_headers requestId hs =
     al_set ''x-autorix-console-token'' ''act_internal_console_trusted''
       (al_set ''x-autorix-caller'' ''console''
         (al_set ''x-correlation-id'' requestId (al_set ''x-request-id'' requestId (headers_of [] hs))))"

definition proxy_url :: "'w world_scheme \<Rightarrow> string \<Rightarrow> string \<Rightarrow> string" where
  "proxy_url w service path =
     (if service = ''janus'' \<and> starts_with path ''/admin/'' then JANUS_ADMIN_URL w
      else to_str (getServiceUrl w service)) @ path"

definition proxy_outgoing ::
    "'w world_scheme \<Rightarrow> string \<Rightarrow> string \<Rightarrow> string \<Rightarrow> proxy_options option \<Rightarrow> http_request" where
  "proxy_outgoing w requestId service path options =
     \<lparr>rq_method = (case options of None \<Rightarrow> ''GET''
        | Some po \<Rightarrow> (case po_method po of Some m \<Rightarrow> m | None \<Rightarrow> ''GET'')), rq_url = proxy_url w service path,
      rq_headers = console_headers requestId (case options of None \<Rightarrow> [] | Some po \<Rightarrow> po_headers po),
      rq_body = (case options of None \<Rightarrow> NoBody | Some po \<Rightarrow> po_body po)\<rparr>"

text \<open>The body as the proxy reads it: \<open>null\<close> when it is empty or not JSON.\<close>

definition upstream_value :: "string \<Rightarrow> jsval" where
  "upstream_value rawText = (if rawText = [] then JNull
     else case json_parse rawText of Some v \<Rightarrow> v | None \<Rightarrow> JNull)"

text \<open>What is made of the upstream response.\<close>

definition proxy_answer :: "string \<Rightarrow> zschema \<Rightarrow> string \<Rightarrow> http_response \<Rightarrow> ('w, response) act" where
  "proxy_answer service schema requestId res =
     bnd (lift (rs_text res)) (\<lambda>rawText.
     let body = upstream_value rawText;
         hs = id_headers requestId
     in if \<not> rs_ok res then
          lift (next_json (err_obj (extractMessage body rawText (rs_status res))) (rs_status res) hs)
        else if rs_status res = 204 then lift (mk_response NoBody 204 hs)
        else bnd (safe_parse schema body) (\<lambda>parsed.
          case parsed of
            Inl issues \<Rightarrow> lift (next_json (err_obj
               (''unexpected response shape from '' @ service @ '': '' @ render_issues issues)) 502 hs)
          | Inr data \<Rightarrow> lift (next_json data (rs_status res) hs)))"

definition unreachable_message :: "string \<Rightarrow> exn \<Rightarrow> string" where
  "unreachable_message service e = (case e of
     Error _ msg \<Rightarrow> service @ '' is unreachable: '' @ msg | Thrown _ \<Rightarrow> service @ '' is unreachable'')"

definition proxy_forward ::
    "string \<Rightarrow> string \<Rightarrow> zschema \<Rightarrow> proxy_options option \<Rightarrow> string \<Rightarrow> ('w, response) act" where
  "proxy_forward service path schema options requestId =
     bnd (asks (\<lambda>w. proxy_outgoing w requestId service path options)) (\<lambda>rq.
     bnd (settle (fetch rq)) (\<lambda>outcome.
     case outcome of
       Inl e \<Rightarrow> lift (next_json (err_obj (unreachable_message service e)) 502 (id_headers requestId))
     | Inr res \<Rightarrow> proxy_answer service schema requestId res))"

definition proxyRequest :: "string \<Rightarrow> string \<Rightarrow> zschema \<Rightarrow> proxy_options option \<Rightarrow> ('w, response) act" where
  "proxyRequest service path schema options =
     bnd randomUUID (\<lambda>requestId.
     bnd (asks (\<lambda>w. truthy (member (BACKEND_URLS w) service))) (\<lambda>registered.
     if \<not> registered then
       lift (next_json (err_obj (''forbidden: destination service '' @ service @
         '' is not a valid registered engine'')) 403 (id_headers requestId))
     else bnd (proxy_rbac requestId (required_permissions service options)) (\<lambda>refused.
       case refused of
         Some r \<Rightarrow> ret r
       | None \<Rightarrow> proxy_forward service path schema options requestId)))"

section \<open>The session check\<close>

text \<open>The operator the request's cookie stands for, \<open>null\<close> when there is none.\<close>

definition current_operator :: "'w world_scheme \<Rightarrow> jsval" where
  "current_operator w = (case fst (getCurrentOperator w) of Inr op \<Rightarrow> op | Inl _ \<Rightarrow> JNull)"

definition session_checks :: "'w world_scheme \<Rightarrow> http_request list" where
  "session_checks w = (case map_of (w_cookies w) SESSION_COOKIE_NAME of
     Some t \<Rightarrow> if t = [] then [] else [session_request w t] | None \<Rightarrow> [])"

definition operator_can :: "'w world_scheme \<Rightarrow> string \<Rightarrow> bool" where
  "operator_can w p \<longleftrightarrow> truthy (current_operator w) \<and>
     hasPermission (member (current_operator w) ''role'') p = Inr True"

lemma validate_world:
  "t \<noteq> [] \<Longrightarrow> snd (validateSessionToken t w) = w\<lparr>w_sent := w_sent w @ [session_request w t]\<rparr>"
  by (auto simp: validateSessionToken_def try_catch_def bnd_def asks_def fetch_def ret_def lift_def
      response_json_def Let_def split: sum.split)

lemma getCurrentOperator_eq:
  "getCurrentOperator w = (Inr (current_operator w), w\<lparr>w_sent := w_sent w @ session_checks w\<rparr>)"
proof (cases "map_of (w_cookies w) SESSION_COOKIE_NAME")
  case None
  then show ?thesis
    by (simp add: current_operator_def getCurrentOperator_def getSessionToken_def asks_def bnd_def
        ret_def session_checks_def)
next
  case (Some t)
  show ?thesis
  proof (cases "t = []")
    case True
    with Some show ?thesis
      by (simp add: current_operator_def getCurrentOperator_def getSessionToken_def asks_def bnd_def
          ret_def session_checks_def)
  next
    case False
    obtain v op where v: "fst (validateSessionToken t w) = Inr (v, op)"
      using validateSessionToken_no_throw [of t w] by (cases "fst (validateSessionToken t w)") auto
    then have "validateSessionToken t w =
        (Inr (v, op), w\<lparr>w_sent := w_sent w @ [session_request w t]\<rparr>)"
      using validate_world [OF False, of w] by (cases "validateSessionToken t w") simp
    with Some False show ?thesis
      by (simp add: current_operator_def getCurrentOperator_def getSessionToken_def asks_def bnd_def
          ret_def session_checks_def)
  qed
qed

lemma session_request_cong: "w_env w' = w_env w \<Longrightarrow> session_request w' t = session_request w t"
  using getServiceUrl_cong [of w' w "''argus''"] by (simp add: session_request_def)

lemma session_checks_uuids [simp]: "session_checks (w\<lparr>w_uuids := n\<rparr>) = session_checks w"
  by (simp add: session_checks_def session_request_cong [of "w\<lparr>w_uuids := n\<rparr>" w] split: option.split)

lemma current_operator_uuids [simp]: "current_operator (w\<lparr>w_uuids := n\<rparr>) = current_operator w"
  by (simp add: current_operator_def getCurrentOperator_def getSessionToken_def asks_def bnd_def
      ret_def validateSessionToken_def try_catch_def fetch_def response_json_def json_parse_js_def
      lift_def Let_def session_request_cong [of "w\<lparr>w_uuids := n\<rparr>" w]
      split: option.split sum.split)

section \<open>The role check\<close>

lemma find_lacking_None: "find_lacking role ps = Inr None \<longleftrightarrow> (\<forall>p \<in> set ps. hasPermission role p = Inr True)"
  by (induction ps) (auto split: sum.split)

lemma find_lacking_Some: "find_lacking role ps = Inr (Some p) \<Longrightarrow> p \<in> set ps \<and> hasPermission role p = Inr False"
  by (induction ps) (auto split: sum.splits if_splits)

text \<open>The outcome of the role check, as a value.\<close>

definition rbac_outcome :: "'w world_scheme \<Rightarrow> string \<Rightarrow> string list \<Rightarrow> response option res" where
  "rbac_outcome w requestId perms =
     (if perms = [] then Inr None
      else if \<not> truthy (current_operator w) then
        Inr (Some \<lparr>rp_status = 401, rp_headers = id_headers requestId,
          rp_body = JsonBody (err_obj ''unauthorized: authentication required''),
          rp_cookies = [DeleteCookie SESSION_COOKIE_NAME]\<rparr>)
      else case find_lacking (member (current_operator w) ''role'') perms of
        Inl e \<Rightarrow> Inl e
      | Inr None \<Rightarrow> Inr None
      | Inr (Some p) \<Rightarrow>
          map_sum id Some (fst (forbidden_response requestId (member (current_operator w) ''role'') p w)))"

lemma next_json_err:
  "\<lbrakk>200 \<le> st; st \<le> 599; st \<notin> {204, 205, 304}\<rbrakk> \<Longrightarrow> next_json (err_obj m) st hs =
     Inr \<lparr>rp_status = st, rp_headers = hs, rp_body = JsonBody (err_obj m), rp_cookies = []\<rparr>"
  by (auto simp: next_json_def mk_response_def err_obj_def)

lemma proxy_rbac_eq:
  "proxy_rbac requestId perms w = (rbac_outcome w requestId perms,
     if perms = [] then w else w\<lparr>w_sent := w_sent w @ session_checks w\<rparr>)"
  by (auto simp: proxy_rbac_def rbac_outcome_def bnd_def getCurrentOperator_eq ret_def lift_def
      unauthorized_response_def forbidden_response_def next_json_err delete_cookie_def
      get_prop_not_nullish truthy_not_nullish split: sum.split option.split)

lemma map_sum_Some [simp]: "map_sum id Some x \<noteq> Inr None"
  by (cases x) auto

lemma rbac_pass:
  assumes "rbac_outcome w requestId perms = Inr None" "p \<in> set perms"
  shows "operator_can w p"
proof -
  let ?role = "member (current_operator w) ''role''"
  have ne: "perms \<noteq> []" using assms(2) by auto
  with assms(1) have op: "truthy (current_operator w)"
    by (simp add: rbac_outcome_def split: if_splits)
  have "find_lacking ?role perms = Inr None"
    using assms(1) ne op by (auto simp: rbac_outcome_def split: sum.splits option.splits)
  with op assms(2) show ?thesis by (simp add: operator_can_def find_lacking_None)
qed

section \<open>Forwarding\<close>

lemma proxy_answer_world [simp]: "snd (proxy_answer service schema rid res w) = w"
  by (auto simp: proxy_answer_def bnd_def lift_def safe_parse_def Let_def split: sum.split option.split)

lemma proxy_forward_world:
  "snd (proxy_forward service path schema options rid w) =
     w\<lparr>w_sent := w_sent w @ [proxy_outgoing w rid service path options]\<rparr>"
  by (auto simp: proxy_forward_def bnd_def asks_def settle_def fetch_def lift_def Let_def split: sum.split)

lemma proxy_outgoing_cong:
  assumes "w_env w' = w_env w"
  shows "proxy_outgoing w' rid service path options = proxy_outgoing w rid service path options"
  using getServiceUrl_cong [OF assms, of service] assms
  by (simp add: proxy_outgoing_def proxy_url_def JANUS_ADMIN_URL_def env_or_def)

lemma BACKEND_URLS_cong: "w_env w' = w_env w \<Longrightarrow> BACKEND_URLS w' = BACKEND_URLS w"
  by (simp only: BACKEND_URLS_def env_or_def)

text \<open>The world after the role check let a request pass.\<close>

definition checked_world :: "'w world_scheme \<Rightarrow> string list \<Rightarrow> 'w world_scheme" where
  "checked_world w perms = w\<lparr>w_uuids := Suc (w_uuids w),
     w_sent := w_sent w @ (if perms = [] then [] else session_checks w)\<rparr>"

lemma checked_world_sel [simp]:
  "w_sent (checked_world w ps) = w_sent w @ (if ps = [] then [] else session_checks w)"
  "w_env (checked_world w ps) = w_env w" "w_upstream (checked_world w ps) = w_upstream w"
  "w_zod (checked_world w ps) = w_zod w" "w_cookies (checked_world w ps) = w_cookies w"
  by (simp_all add: checked_world_def)

text \<open>The proxy as a decision on its inputs: the three ways it ends.\<close>

lemma proxyRequest_cases:
  fixes w :: "'w world_scheme"
  defines "rid \<equiv> w_uuid w (w_uuids w)"
  defines "perms \<equiv> \<lambda>service options. required_permissions service options"
  shows "proxyRequest service path schema options w =
     (if \<not> truthy (member (BACKEND_URLS w) service) then
        (Inr \<lparr>rp_status = 403, rp_headers = id_headers rid, rp_body = JsonBody (err_obj
           (''forbidden: destination service '' @ service @ '' is not a valid registered engine'')),
           rp_cookies = []\<rparr>, w\<lparr>w_uuids := Suc (w_uuids w)\<rparr>)
      else case rbac_outcome w rid (perms service options) of
        Inl e \<Rightarrow> (Inl e, checked_world w (perms service options))
      | Inr (Some r) \<Rightarrow> (Inr r, checked_world w (perms service options))
      | Inr None \<Rightarrow> proxy_forward service path schema options rid
          (checked_world w (perms service options)))"
proof -
  let ?w1 = "w\<lparr>w_uuids := Suc (w_uuids w)\<rparr>"
  have env: "BACKEND_URLS ?w1 = BACKEND_URLS w" by (rule BACKEND_URLS_cong) simp
  have op: "rbac_outcome ?w1 rid ps = rbac_outcome w rid ps" for ps
    by (simp add: rbac_outcome_def forbidden_response_def lift_def cong: sum.case_cong option.case_cong)
  have rb: "proxy_rbac rid ps ?w1 = (rbac_outcome w rid ps, checked_world w ps)" for ps
    by (simp add: proxy_rbac_eq op checked_world_def)
  show ?thesis
    unfolding proxyRequest_def perms_def
    by (simp add: run env rid_def [symmetric] rb bnd_def [of "proxy_rbac _ _"] next_json_err
        split: sum.split option.split)
qed

section \<open>What the proxy guarantees\<close>

lemma proxyRequest_log:
  fixes w :: "'w world_scheme"
  assumes "proxyRequest service path schema options w = (r, w')"
  shows "\<exists>chk fwd. w_sent w' = w_sent w @ chk @ fwd \<and> set chk \<subseteq> set (session_checks w) \<and>
    (fwd \<noteq> [] \<longrightarrow>
       fwd = [proxy_outgoing w (w_uuid w (w_uuids w)) service path options] \<and>
       truthy (member (BACKEND_URLS w) service) \<and>
       (\<forall>p \<in> set (required_permissions service options). operator_can w p))"
proof -
  let ?rid = "w_uuid w (w_uuids w)" and ?ps = "required_permissions service options"
  let ?cw = "checked_world w ?ps"
  have cw: "w_sent ?cw = w_sent w @ (if ?ps = [] then [] else session_checks w)"
    by (simp add: checked_world_def)
  have out: "proxy_outgoing ?cw ?rid service path options = proxy_outgoing w ?rid service path options"
    by (rule proxy_outgoing_cong) (simp add: checked_world_def)
  show ?thesis
  proof (cases "truthy (member (BACKEND_URLS w) service)")
    case False
    then have "w_sent w' = w_sent w @ [] @ []" using assms by (auto simp: proxyRequest_cases)
    then show ?thesis by (intro exI [of _ "[]"]) simp
  next
    case True
    show ?thesis
    proof (cases "rbac_outcome w ?rid ?ps = Inr None")
      case False
      then have "w' = ?cw"
        using assms True by (auto simp: proxyRequest_cases split: sum.splits option.splits)
      then show ?thesis using cw
        by (intro exI [of _ "if ?ps = [] then [] else session_checks w"] exI [of _ "[]"]) auto
    next
      case pass: True
      have "w' = snd (proxy_forward service path schema options ?rid ?cw)"
        using assms True pass by (auto simp: proxyRequest_cases)
      then have "w_sent w' = w_sent w @ (if ?ps = [] then [] else session_checks w) @
          [proxy_outgoing w ?rid service path options]"
        by (simp add: proxy_forward_world cw out)
      then show ?thesis using True rbac_pass [OF pass]
        by (intro exI [of _ "if ?ps = [] then [] else session_checks w"]
            exI [of _ "[proxy_outgoing w ?rid service path options]"]) auto
    qed
  qed
qed

text \<open>
  C1. The proxy sends at most one request besides the session check, and sends it only to a
  registered service and for an operator whose role has every required permission.
\<close>

theorem proxyRequest_sends:
  "proxyRequest service path schema options w = (r, w') \<Longrightarrow>
    \<exists>chk fwd. w_sent w' = w_sent w @ chk @ fwd \<and> set chk \<subseteq> set (session_checks w) \<and>
      (fwd \<noteq> [] \<longrightarrow>
         fwd = [proxy_outgoing w (w_uuid w (w_uuids w)) service path options] \<and>
         truthy (member (BACKEND_URLS w) service) \<and>
         (\<forall>p \<in> set (required_permissions service options). operator_can w p))"
  by (rule proxyRequest_log)

theorem proxyRequest_sends_witness:
  "let w = example_world [] (\<lambda>_. ok_text ''null'');
       w' = snd (proxyRequest ''ego'' ''/admin/identities'' ZAny None w)
   in \<exists>chk fwd. w_sent w' = chk @ fwd \<and> set chk \<subseteq> set (session_checks w) \<and>
      (fwd \<noteq> [] \<longrightarrow> fwd = [proxy_outgoing w (w_uuid w 0) ''ego'' ''/admin/identities'' None])"
  using proxyRequest_sends [of "''ego''" "''/admin/identities''" ZAny None
      "example_world [] (\<lambda>_. ok_text ''null'')", OF surjective_pairing]
  by (simp add: Let_def) blast

text \<open>
  C2. Janus and Aegis are never reached without their own permission: whatever else a route handler passes, an operator without
  \<open>oauth2:read\<close> (to read) or \<open>oauth2:write\<close> (any other method) makes the proxy send nothing to Janus but the session check, and
  likewise \<open>proxy-rules:read\<close> and \<open>proxy-rules:write\<close> for Aegis. A request without a method, or with an empty one, is a reading one.
\<close>

theorem private_engines_guarded:
  assumes "(service, reads, perm) \<in> {(''janus'', True, ''oauth2:read''), (''janus'', False, ''oauth2:write''),
      (''aegis'', True, ''proxy-rules:read''), (''aegis'', False, ''proxy-rules:write'')}"
    and "reads \<longleftrightarrow> (case Option.bind options po_method of None \<Rightarrow> True | Some m \<Rightarrow> to_upper m \<in> {[], ''GET'', ''HEAD''})"
    and "\<not> operator_can w perm"
  shows "set (drop (length (w_sent w)) (w_sent (snd (proxyRequest service path schema options w))))
      \<subseteq> set (session_checks w)"
proof -
  have "(to_upper (option_method options) \<in> {''GET'', ''HEAD''}) = reads"
    unfolding assms(2) option_method_def
    by (auto simp: to_upper_def upper_char_def is_lower_def split: option.split)
  then have p: "perm \<in> set (required_permissions service options)"
    using assms(1) by (auto simp: required_permissions_def permission_domain_def Let_def List.map_filter_def)
  obtain r w' where run: "proxyRequest service path schema options w = (r, w')"
    by (cases "proxyRequest service path schema options w")
  from proxyRequest_log [OF this] assms(3) p show ?thesis
    by (auto simp: run)
qed

theorem private_engines_guarded_witness:
  "let w = example_world [] (\<lambda>_. ok_text ''null'')
   in set (w_sent (snd (proxyRequest ''janus'' ''/admin/clients'' ZAny None w))) \<subseteq> set (session_checks w) \<and>
      set (w_sent (snd (proxyRequest ''aegis'' ''/rules'' ZAny (Some (po_get\<lparr>po_method := Some ''delete''\<rparr>)) w))) \<subseteq> set (session_checks w)"
  using private_engines_guarded [of "''janus''" True "''oauth2:read''" None "example_world [] (\<lambda>_. ok_text ''null'')" "''/admin/clients''" ZAny]
    private_engines_guarded [of "''aegis''" False "''proxy-rules:write''" "Some (po_get\<lparr>po_method := Some ''delete''\<rparr>)"
      "example_world [] (\<lambda>_. ok_text ''null'')" "''/rules''" ZAny]
  by (simp add: Let_def to_upper_def upper_char_def is_lower_def operator_can_def current_operator_def getCurrentOperator_def
      getSessionToken_def run)

section \<open>Headers\<close>

lemma to_lower_idem [simp]: "to_lower (to_lower s) = to_lower s"
proof -
  have "lower_char (lower_char c) = lower_char c" for c
    by (auto simp: lower_char_def is_upper_def)
  then show ?thesis by (simp add: to_lower_def)
qed

text \<open>Names in lower case, each once: what \<open>new Headers\<close> and \<open>set\<close> keep.\<close>

definition plain_names :: "(string \<times> string) list \<Rightarrow> bool" where
  "plain_names hs \<longleftrightarrow> distinct (map fst hs) \<and> (\<forall>(k, v) \<in> set hs. to_lower k = k)"

lemma plain_names_set: "plain_names hs \<Longrightarrow> to_lower k = k \<Longrightarrow> plain_names (al_set k v hs)"
proof -
  assume p: "plain_names hs" and k: "to_lower k = k"
  have "to_lower n = n" if "n \<in> fst ` set (al_set k v hs)" for n
    using that p k unfolding keys_al_set by (auto simp: plain_names_def)
  then show ?thesis using p distinct_al_set by (fastforce simp: plain_names_def)
qed

lemma plain_names_of: "plain_names acc \<Longrightarrow> plain_names (headers_of acc hs)"
  by (induction acc hs rule: headers_of.induct) (simp_all add: plain_names_set)

lemma plain_names_filter:
  assumes "plain_names hs" "map_of hs n = Some v"
  shows "filter (\<lambda>(k, _). to_lower k = n) hs = [(n, v)]"
  using assms
proof (induction hs)
  case (Cons kv hs)
  obtain k u where kv: "kv = (k, u)" by fastforce
  have k: "to_lower k = k" and tl: "plain_names hs" and fresh: "k \<notin> fst ` set hs"
    using Cons.prems(1) by (auto simp: plain_names_def kv)
  show ?case
  proof (cases "k = n")
    case True
    have "filter (\<lambda>(k, _). to_lower k = n) hs = []"
      using tl fresh True by (force simp: filter_empty_conv plain_names_def)
    then show ?thesis using Cons.prems(2) k True by (simp add: kv)
  next
    case False
    then show ?thesis using Cons.IH [OF tl] Cons.prems(2) k by (simp add: kv)
  qed
qed simp

lemma plain_console_headers: "plain_names (console_headers rid hs)"
proof -
  have l: "to_lower ''x-request-id'' = ''x-request-id''" "to_lower ''x-correlation-id'' = ''x-correlation-id''"
    "to_lower ''x-autorix-caller'' = ''x-autorix-caller''"
    "to_lower ''x-autorix-console-token'' = ''x-autorix-console-token''"
    by (simp_all add: to_lower_def lower_char_def is_upper_def)
  have "plain_names []" by (simp add: plain_names_def)
  then show ?thesis unfolding console_headers_def by (intro plain_names_set plain_names_of l)
qed

text \<open>
  C11. Every forwarded request identifies the console and nobody else: under each of the four identity headers, the name read in any case, the
  request carries exactly one entry, the proxy's own, whatever headers (\<open>X-Request-Id\<close> or \<open>x-AUTORIX-caller\<close> alike) the route
  handler passed.
\<close>

theorem forwarded_headers:
  "filter (\<lambda>(k, _). to_lower k = ''x-request-id'') (rq_headers (proxy_outgoing w rid service path options)) =
     [(''x-request-id'', rid)] \<and>
   filter (\<lambda>(k, _). to_lower k = ''x-correlation-id'') (rq_headers (proxy_outgoing w rid service path options)) =
     [(''x-correlation-id'', rid)] \<and>
   filter (\<lambda>(k, _). to_lower k = ''x-autorix-caller'') (rq_headers (proxy_outgoing w rid service path options)) =
     [(''x-autorix-caller'', ''console'')] \<and>
   filter (\<lambda>(k, _). to_lower k = ''x-autorix-console-token'') (rq_headers (proxy_outgoing w rid service path options)) =
     [(''x-autorix-console-token'', ''act_internal_console_trusted'')]"
proof -
  obtain hs where out: "rq_headers (proxy_outgoing w rid service path options) = console_headers rid hs"
    by (simp add: proxy_outgoing_def)
  show ?thesis unfolding out
    by (intro conjI plain_names_filter plain_console_headers) (simp_all add: console_headers_def)
qed

lemma refusal_status:
  "rbac_outcome w rid ps = Inr (Some r) \<Longrightarrow> rp_status r = 401 \<or> rp_status r = 403"
  by (auto simp: rbac_outcome_def forbidden_response_def run_lift next_json_def mk_response_def
      split: if_splits sum.splits option.splits)

lemma answer_ok:
  assumes "fst (proxy_answer service schema rid res w) = Inr resp"
    and "200 \<le> rp_status resp" "rp_status resp \<le> 299" "rp_body resp \<noteq> NoBody"
  shows "\<exists>raw now data. rs_text res = Inr raw \<and> w_zod w now schema (upstream_value raw) = Inr data \<and>
    rp_body resp = JsonBody (json_clean data) \<and> rp_status resp = rs_status res"
  using assms
  by (auto simp: proxy_answer_def run Let_def next_json_def mk_response_def rs_ok_def
      split: sum.splits if_splits) blast

text \<open>
  C4. A success that carries a body is always the output of the response schema: no upstream
  body reaches the browser unvalidated, and the status is the engine's own.
\<close>

theorem success_is_validated:
  fixes w :: "'w world_scheme"
  shows "proxyRequest service path schema options w = (Inr resp, w') \<Longrightarrow> 200 \<le> rp_status resp \<Longrightarrow>
    rp_status resp \<le> 299 \<Longrightarrow> rp_body resp \<noteq> NoBody \<Longrightarrow>
    \<exists>res raw now data. w_upstream w (w_sent w') = Inr res \<and> rs_text res = Inr raw \<and>
      w_zod w now schema (upstream_value raw) = Inr data \<and>
      rp_body resp = JsonBody (json_clean data) \<and> rp_status resp = rs_status res"
proof -
  let ?cw = "checked_world w (required_permissions service options)"
  let ?rid = "w_uuid w (w_uuids w)"
  let ?rq = "proxy_outgoing ?cw ?rid service path options"
  assume ok: "proxyRequest service path schema options w = (Inr resp, w')"
    and st: "200 \<le> rp_status resp" "rp_status resp \<le> 299" "rp_body resp \<noteq> NoBody"
  have fw: "proxy_forward service path schema options ?rid ?cw = (Inr resp, w')"
    using ok st by (auto simp: proxyRequest_cases dest: refusal_status split: if_splits sum.splits option.splits)
  then obtain res where up: "w_upstream ?cw (w_sent ?cw @ [?rq]) = Inr res"
    and "fst (proxy_answer service schema ?rid res (log_request ?rq ?cw)) = Inr resp"
    using st by (auto simp: proxy_forward_def run next_json_err split: sum.splits)
  from answer_ok [OF this(2) st] obtain raw now data where
    "rs_text res = Inr raw" "w_zod w now schema (upstream_value raw) = Inr data"
    "rp_body resp = JsonBody (json_clean data)" "rp_status resp = rs_status res"
    by (auto simp: checked_world_def)
  moreover have "w_sent w' = w_sent ?cw @ [?rq]"
    using fw proxy_forward_world [of service path schema options ?rid ?cw] by simp
  moreover have "w_upstream ?cw = w_upstream w" by (simp add: checked_world_def)
  ultimately show ?thesis using up by metis
qed

lemma example_ego_registered:
  "truthy (member (BACKEND_URLS (example_world ck up)) ''ego'')"
  by (simp add: BACKEND_URLS_def env_or_def)

lemma example_forward:
  "proxyRequest ''ego'' path ZAny None (example_world ck (\<lambda>_. ok_text ''null'')) =
     (let w = example_world ck (\<lambda>_. ok_text ''null'');
          rq = proxy_outgoing (checked_world w []) (w_uuid w 0) ''ego'' path None
      in (Inr \<lparr>rp_status = 200, rp_headers = id_headers (w_uuid w 0), rp_body = JsonBody JNull,
            rp_cookies = []\<rparr>, log_request rq (checked_world w [])))"
  by (simp add: proxyRequest_cases example_ego_registered required_permissions_def permission_domain_def
      List.map_filter_def rbac_outcome_def proxy_forward_def run ok_text_def proxy_answer_def Let_def
      rs_ok_def upstream_value_def json_parse_def skip_ws_def is_json_space_def
      starts_with_def zod_example_def next_json_def mk_response_def numeral_eq_Suc)

theorem success_is_validated_witness:
  "\<exists>res raw now data. ok_text ''null'' = Inr res \<and> rs_text res = Inr raw \<and>
     zod_example now ZAny (upstream_value raw) = Inr data \<and> JsonBody JNull = JsonBody (json_clean data) \<and>
     200 = rs_status res"
  using success_is_validated [OF example_forward [of "''/x''" "[]", unfolded Let_def]] by simp

text \<open>
  The refusals: without an operator the answer is 401 and the session cookie is deleted; an operator
  whose role lacks a permission gets 403 naming the first permission it lacks. Nothing is forwarded.
\<close>

theorem proxyRequest_refuses:
  fixes w :: "'w world_scheme"
  shows "service \<in> set engines \<Longrightarrow> required_permissions service options \<noteq> [] \<Longrightarrow>
    (\<not> truthy (current_operator w) \<longrightarrow>
       proxyRequest service path schema options w =
         (Inr \<lparr>rp_status = 401, rp_headers = id_headers (w_uuid w (w_uuids w)),
            rp_body = JsonBody (err_obj ''unauthorized: authentication required''),
            rp_cookies = [DeleteCookie SESSION_COOKIE_NAME]\<rparr>,
          checked_world w (required_permissions service options))) \<and>
    (truthy (current_operator w) \<and>
     find_lacking (member (current_operator w) ''role'') (required_permissions service options) = Inr (Some p) \<longrightarrow>
       (\<exists>r. proxyRequest service path schema options w =
              (Inr r, checked_world w (required_permissions service options)) \<and>
            rp_status r = 403 \<and> rp_headers r = id_headers (w_uuid w (w_uuids w)) \<and>
            (\<exists>kvs. rp_body r = JsonBody (JObj kvs) \<and> map_of kvs ''required_permission'' = Some (JStr p))))"
proof (intro impI conjI)
  assume e: "service \<in> set engines" and ne: "required_permissions service options \<noteq> []"
  have reg: "truthy (member (BACKEND_URLS w) service)" using BACKEND_URLS_own [OF e, of w] by auto
  {
    assume "\<not> truthy (current_operator w)"
    then show "proxyRequest service path schema options w =
         (Inr \<lparr>rp_status = 401, rp_headers = id_headers (w_uuid w (w_uuids w)),
            rp_body = JsonBody (err_obj ''unauthorized: authentication required''),
            rp_cookies = [DeleteCookie SESSION_COOKIE_NAME]\<rparr>,
          checked_world w (required_permissions service options))"
      using reg ne by (simp add: proxyRequest_cases rbac_outcome_def)
  next
    let ?role = "member (current_operator w) ''role''"
    assume "truthy (current_operator w) \<and>
      find_lacking ?role (required_permissions service options) = Inr (Some p)"
    then show "\<exists>r. proxyRequest service path schema options w =
              (Inr r, checked_world w (required_permissions service options)) \<and>
            rp_status r = 403 \<and> rp_headers r = id_headers (w_uuid w (w_uuids w)) \<and>
            (\<exists>kvs. rp_body r = JsonBody (JObj kvs) \<and> map_of kvs ''required_permission'' = Some (JStr p))"
      using reg ne by (simp add: proxyRequest_cases rbac_outcome_def forbidden_response_def run
          next_json_def mk_response_def)
  }
qed

theorem proxyRequest_refuses_witness:
  "rp_status (case fst (proxyRequest ''aegis'' ''/rules'' ZAny (Some (po_call ''POST'' ''proxy-rules:write''))
     (example_world [] (\<lambda>_. ok_text ''null''))) of Inr r \<Rightarrow> r) = 401"
  using proxyRequest_refuses [of "''aegis''" "Some (po_call ''POST'' ''proxy-rules:write'')"
      "example_world [] (\<lambda>_. ok_text ''null'')" "''/rules''" ZAny]
  by (simp add: engines_def required_permissions_def permission_domain_def List.map_filter_def
      po_call_def po_get_def Let_def current_operator_def getCurrentOperator_def getSessionToken_def run)

text \<open>
  When the request cannot be sent the proxy still answers, with 502 and the name of the service;
  when the engine answers with an error status from 400 to 599 the proxy repeats the status, with the
  engine's own \<open>error\<close> string as the message when its body has one.
\<close>

theorem proxyRequest_failures:
  fixes w :: "'w world_scheme"
  shows "service \<in> set engines \<Longrightarrow> required_permissions service options = [] \<Longrightarrow>
    w_upstream w (w_sent w @ [proxy_outgoing w (w_uuid w (w_uuids w)) service path options]) = answer \<Longrightarrow>
    (\<forall>msg nm. answer = Inl (Error nm msg) \<longrightarrow>
       fst (proxyRequest service path schema options w) = Inr \<lparr>rp_status = 502,
         rp_headers = id_headers (w_uuid w (w_uuids w)),
         rp_body = JsonBody (err_obj (service @ '' is unreachable: '' @ msg)), rp_cookies = []\<rparr>) \<and>
    (\<forall>res raw. answer = Inr res \<and> rs_text res = Inr raw \<and> 400 \<le> rs_status res \<and> rs_status res \<le> 599 \<longrightarrow>
       fst (proxyRequest service path schema options w) = Inr \<lparr>rp_status = rs_status res,
         rp_headers = id_headers (w_uuid w (w_uuids w)),
         rp_body = JsonBody (err_obj (extractMessage (upstream_value raw) raw (rs_status res))), rp_cookies = []\<rparr>)"
proof -
  let ?rid = "w_uuid w (w_uuids w)"
  assume e: "service \<in> set engines" and ne: "required_permissions service options = []"
    and up: "w_upstream w (w_sent w @ [proxy_outgoing w ?rid service path options]) = answer"
  have reg: "truthy (member (BACKEND_URLS w) service)" using BACKEND_URLS_own [OF e, of w] by auto
  have out: "proxy_outgoing (checked_world w []) ?rid service path options =
      proxy_outgoing w ?rid service path options"
    by (rule proxy_outgoing_cong) simp
  show ?thesis
    using reg ne up
    by (simp add: proxyRequest_cases rbac_outcome_def proxy_forward_def run out)
      (auto simp: next_json_err unreachable_message_def proxy_answer_def run rs_ok_def Let_def)
qed

theorem proxyRequest_failures_witness:
  "fst (proxyRequest ''ego'' ''/x'' ZAny None (example_world [] (\<lambda>_. Inl (type_error ''fetch failed'')))) =
     Inr \<lparr>rp_status = 502, rp_headers = id_headers (w_uuid (example_world [] (\<lambda>_. Inl (type_error ''fetch failed''))) 0),
       rp_body = JsonBody (err_obj ''ego is unreachable: fetch failed''), rp_cookies = []\<rparr>"
  using proxyRequest_failures [of "''ego''" None "example_world [] (\<lambda>_. Inl (type_error ''fetch failed''))" "''/x''"
      "Inl (type_error ''fetch failed'')" ZAny]
  by (simp add: engines_def required_permissions_def permission_domain_def List.map_filter_def Let_def
      type_error_def)

end
