(* ===== verification/Middleware.thy ===== *)
theory Middleware
  imports Effects
begin

text \<open>
  The edge middleware, middleware.ts: which requests pass, which are redirected to the login page or
  refused, the double-submit CSRF check and the CSRF cookie. \<open>new URL(origin).origin\<close> is a parameter
  (\<open>None\<close> when the constructor throws), as are the random bytes and the production flag.
\<close>

record mw_request =
  mw_path :: string
  mw_method :: string
  mw_cookies :: "(string \<times> string) list"
  mw_headers :: "(string \<times> string) list"
  mw_origin :: string  \<comment> \<open>\<open>request.nextUrl.origin\<close>\<close>

record mw_env =
  mv_url_origin :: "string \<Rightarrow> string option"
  mv_random :: "nat list"
  mv_production :: bool

datatype mw_action =
    Next
  | Redirect string params  \<comment> \<open>path on the request's own origin, search parameters\<close>
  | Reject int string

record mw_response =
  ma_action :: mw_action
  ma_cookie :: "cookie_op option"

definition CSRF_COOKIE_NAME :: string where
  "CSRF_COOKIE_NAME = ''autorix_csrf''"

definition MW_SESSION_COOKIE :: string where
  "MW_SESSION_COOKIE = ''autorix_session''"

definition PUBLIC_PATHS :: "string list" where
  "PUBLIC_PATHS = [''/login'', ''/login/mfa'', ''/setup'', ''/session-expired'', ''/403'',
     ''/health/alive'', ''/health/ready'', ''/info'']"

definition PUBLIC_API_PATHS :: "string list" where
  "PUBLIC_API_PATHS = [''/api/auth/login'', ''/api/auth/setup'', ''/api/auth/status'', ''/api/auth/logout'']"

definition path_in :: "string list \<Rightarrow> string \<Rightarrow> bool" where
  "path_in paths p \<longleftrightarrow> list_ex (\<lambda>q. p = q \<or> starts_with p (q @ ''/'')) paths"

definition is_asset_path :: "string \<Rightarrow> bool" where
  "is_asset_path p \<longleftrightarrow> starts_with p ''/_next'' \<or> starts_with p ''/static'' \<or> str_includes p ''.''"

definition isTrustedSameOrigin :: "mw_env \<Rightarrow> string option \<Rightarrow> string \<Rightarrow> bool" where
  "isTrustedSameOrigin env origin expectedOrigin =
     (case origin of None \<Rightarrow> False
      | Some og \<Rightarrow> if og = [] then False
          else case mv_url_origin env og of Some o' \<Rightarrow> o' = expectedOrigin | None \<Rightarrow> False)"

definition csrf_token :: "nat list \<Rightarrow> string" where
  "csrf_token bs = join [] (map hex_byte bs)"

definition ensureCsrfCookie :: "mw_env \<Rightarrow> mw_request \<Rightarrow> cookie_op option" where
  "ensureCsrfCookie env rq =
     (if al_has CSRF_COOKIE_NAME (mw_cookies rq) then None
      else Some (SetCookie CSRF_COOKIE_NAME (csrf_token (mv_random env))
        [(''httpOnly'', JBool False), (''secure'', JBool (mv_production env)),
         (''sameSite'', JStr ''lax''), (''path'', JStr ''/'')]))"

text \<open>A cookie or header that is present and not empty.\<close>

definition nonempty :: "string option \<Rightarrow> bool" where
  "nonempty v \<longleftrightarrow> v \<noteq> None \<and> v \<noteq> Some []"

definition csrf_ok :: "mw_env \<Rightarrow> mw_request \<Rightarrow> bool" where
  "csrf_ok env rq =
     (let csrfCookie = map_of (mw_cookies rq) CSRF_COOKIE_NAME;
          csrfHeader = header ''x-csrf-token'' (mw_headers rq);
          origin = header ''origin'' (mw_headers rq);
          isSameOrigin = isTrustedSameOrigin env origin (mw_origin rq);
          hasValidToken = nonempty csrfCookie \<and> nonempty csrfHeader \<and> csrfCookie = csrfHeader
      in isSameOrigin \<or> hasValidToken)"

definition is_mutating_api :: "mw_request \<Rightarrow> bool" where
  "is_mutating_api rq \<longleftrightarrow> starts_with (mw_path rq) ''/api/'' \<and>
     to_upper (mw_method rq) \<in> {''POST'', ''PUT'', ''PATCH'', ''DELETE''}"

definition middleware :: "mw_env \<Rightarrow> mw_request \<Rightarrow> mw_response" where
  "middleware env rq =
     (let pathname = mw_path rq;
          sessionCookie = map_of (mw_cookies rq) MW_SESSION_COOKIE;
          hasSession = nonempty sessionCookie
      in if is_asset_path pathname then \<lparr>ma_action = Next, ma_cookie = None\<rparr>
         else if hasSession \<and> (pathname = ''/login'' \<or> pathname = ''/setup'')
           then \<lparr>ma_action = Redirect ''/'' [], ma_cookie = None\<rparr>
         else if path_in PUBLIC_PATHS pathname \<or> path_in PUBLIC_API_PATHS pathname
           then \<lparr>ma_action = Next, ma_cookie = ensureCsrfCookie env rq\<rparr>
         else if \<not> hasSession then
           (if starts_with pathname ''/api/''
            then \<lparr>ma_action = Reject 401 ''unauthorized: authentication required'', ma_cookie = None\<rparr>
            else \<lparr>ma_action = Redirect ''/login''
                    (if pathname \<noteq> ''/'' then params_set ''from'' pathname [] else []), ma_cookie = None\<rparr>)
         else if is_mutating_api rq \<and> \<not> csrf_ok env rq
           then \<lparr>ma_action = Reject 403 ''forbidden: csrf verification failed'', ma_cookie = None\<rparr>
         else \<lparr>ma_action = Next, ma_cookie = ensureCsrfCookie env rq\<rparr>)"

section \<open>Properties\<close>

definition is_public :: "string \<Rightarrow> bool" where
  "is_public p \<longleftrightarrow> path_in PUBLIC_PATHS p \<or> path_in PUBLIC_API_PATHS p"

definition session_present :: "mw_request \<Rightarrow> bool" where
  "session_present rq \<longleftrightarrow> (\<exists>t. t \<noteq> [] \<and> map_of (mw_cookies rq) MW_SESSION_COOKIE = Some t)"

lemma nonempty_session [simp]: "nonempty (map_of (mw_cookies rq) MW_SESSION_COOKIE) = session_present rq"
  by (auto simp: nonempty_def session_present_def)

text \<open>
  C3. Without a session cookie a request passes only to an asset path or to a public path; on the API
  it is refused with 401, elsewhere sent to the login page with its own path in \<open>from\<close>.
\<close>

theorem middleware_protects:
  "\<not> session_present rq \<Longrightarrow> \<not> is_asset_path (mw_path rq) \<Longrightarrow> \<not> is_public (mw_path rq) \<Longrightarrow>
    ma_action (middleware env rq) =
      (if starts_with (mw_path rq) ''/api/'' then Reject 401 ''unauthorized: authentication required''
       else Redirect ''/login'' (if mw_path rq = ''/'' then [] else [(''from'', mw_path rq)])) \<and>
    ma_cookie (middleware env rq) = None"
  by (auto simp: middleware_def is_public_def Let_def)

definition example_request :: "string \<Rightarrow> string \<Rightarrow> (string \<times> string) list \<Rightarrow> mw_request" where
  "example_request m p ck = \<lparr>mw_path = p, mw_method = m, mw_cookies = ck, mw_headers = [],
     mw_origin = ''https://console.local''\<rparr>"

definition example_env :: mw_env where
  "example_env = \<lparr>mv_url_origin = Some, mv_random = replicate 16 171, mv_production = True\<rparr>"

theorem middleware_protects_witness:
  "ma_action (middleware example_env (example_request ''GET'' ''/keys'' [])) =
    Redirect ''/login'' [(''from'', ''/keys'')]"
  using middleware_protects [of "example_request ''GET'' ''/keys'' []" example_env]
  by (simp add: example_request_def session_present_def is_asset_path_def is_public_def path_in_def
      PUBLIC_PATHS_def PUBLIC_API_PATHS_def starts_with_def)

text \<open>
  A mutating API request that the middleware lets through comes from the console's own origin or
  repeats the CSRF cookie in its header, unless its path is an asset path or a public one.
\<close>

theorem middleware_csrf:
  "ma_action (middleware env rq) = Next \<Longrightarrow> is_mutating_api rq \<Longrightarrow> \<not> is_asset_path (mw_path rq) \<Longrightarrow>
    \<not> is_public (mw_path rq) \<Longrightarrow>
    (\<exists>og. header ''origin'' (mw_headers rq) = Some og \<and> og \<noteq> [] \<and>
       mv_url_origin env og = Some (mw_origin rq)) \<or>
    (\<exists>t. t \<noteq> [] \<and> map_of (mw_cookies rq) CSRF_COOKIE_NAME = Some t \<and>
       header ''x-csrf-token'' (mw_headers rq) = Some t)"
  by (auto simp: middleware_def is_public_def Let_def csrf_ok_def nonempty_def isTrustedSameOrigin_def
      split: if_splits option.splits)

theorem middleware_csrf_witness:
  "let rq = (example_request ''POST'' ''/api/keys'' [(MW_SESSION_COOKIE, ''s''), (CSRF_COOKIE_NAME, ''t'')])
       \<lparr>mw_headers := [(''x-csrf-token'', ''t'')]\<rparr>
   in \<exists>t. map_of (mw_cookies rq) CSRF_COOKIE_NAME = Some t \<and> header ''x-csrf-token'' (mw_headers rq) = Some t"
proof -
  let ?rq = "(example_request ''POST'' ''/api/keys'' [(MW_SESSION_COOKIE, ''s''), (CSRF_COOKIE_NAME, ''t'')])
       \<lparr>mw_headers := [(''x-csrf-token'', ''t'')]\<rparr>"
  have p: "\<not> is_asset_path (mw_path ?rq)" "\<not> is_public (mw_path ?rq)"
    by (simp_all add: example_request_def is_asset_path_def is_public_def path_in_def
        PUBLIC_PATHS_def PUBLIC_API_PATHS_def starts_with_def)
  have m: "is_mutating_api ?rq"
    by (simp add: is_mutating_api_def example_request_def starts_with_def to_upper_def upper_char_def is_lower_def)
  have n: "ma_action (middleware example_env ?rq) = Next"
    using p by (simp add: middleware_def Let_def csrf_ok_def nonempty_def example_request_def header_def
        MW_SESSION_COOKIE_def CSRF_COOKIE_NAME_def is_public_def)
  show ?thesis using middleware_csrf [OF n m p]
    by (simp add: Let_def header_def example_request_def CSRF_COOKIE_NAME_def MW_SESSION_COOKIE_def)
qed

lemma hex_bytes_length: "length (csrf_token bs) = 2 * length bs"
proof -
  have "join [] (map hex_byte bs) = concat (map hex_byte bs)"
    by (induction bs rule: induct_list012) auto
  moreover have "length (concat (map hex_byte bs)) = 2 * length bs"
    by (induction bs) (simp_all add: hex_byte_def)
  ultimately show ?thesis by (simp add: csrf_token_def)
qed

text \<open>
  A dot anywhere in the path takes a request past every check of the middleware: no session, no CSRF
  token, whatever the method.
\<close>

theorem middleware_dot_bypass:
  "CHR ''.'' \<in> set (mw_path rq) \<Longrightarrow> middleware env rq = \<lparr>ma_action = Next, ma_cookie = None\<rparr>"
proof -
  assume "CHR ''.'' \<in> set (mw_path rq)"
  then have "sublist ''.'' (mw_path rq)"
    by (metis append_Cons append_Nil split_list sublist_appendI)
  then show ?thesis by (simp add: middleware_def is_asset_path_def str_includes_sublist)
qed

theorem middleware_dot_bypass_witness:
  "middleware example_env (example_request ''DELETE'' ''/api/oauth2/scopes/read.all'' []) =
    \<lparr>ma_action = Next, ma_cookie = None\<rparr>"
  by (rule middleware_dot_bypass) (simp add: example_request_def)

text \<open>
  Every page or API request the middleware lets through (assets apart) leaves with a CSRF cookie: it had
  one, or gets a fresh one of two hexadecimal digits per random byte that scripts can read.
\<close>

theorem middleware_csrf_cookie:
  "ma_action (middleware env rq) = Next \<Longrightarrow> \<not> is_asset_path (mw_path rq) \<Longrightarrow>
    al_has CSRF_COOKIE_NAME (mw_cookies rq) \<or>
    (\<exists>t opts. ma_cookie (middleware env rq) = Some (SetCookie CSRF_COOKIE_NAME t opts) \<and>
       length t = 2 * length (mv_random env) \<and> map_of opts ''httpOnly'' = Some (JBool False) \<and>
       map_of opts ''secure'' = Some (JBool (mv_production env)))"
  by (auto simp: middleware_def Let_def ensureCsrfCookie_def hex_bytes_length split: if_splits)

theorem middleware_csrf_cookie_witness:
  "\<exists>t opts. ma_cookie (middleware example_env (example_request ''GET'' ''/login'' [])) =
     Some (SetCookie CSRF_COOKIE_NAME t opts) \<and> length t = 32"
proof -
  let ?rq = "example_request ''GET'' ''/login'' []"
  have "\<not> is_asset_path (mw_path ?rq)" "path_in PUBLIC_PATHS (mw_path ?rq)" "\<not> session_present ?rq"
    by (simp_all add: example_request_def is_asset_path_def starts_with_def path_in_def PUBLIC_PATHS_def
        session_present_def)
  moreover from this have "ma_action (middleware example_env ?rq) = Next"
    by (simp add: middleware_def Let_def)
  moreover have "\<not> al_has CSRF_COOKIE_NAME (mw_cookies ?rq)"
    by (simp add: example_request_def al_has_def)
  ultimately show ?thesis
    using middleware_csrf_cookie [of example_env ?rq] by (auto simp: example_env_def)
qed

end
