(* ===== verification/ShadowDetector.thy ===== *)
theory ShadowDetector
  imports Prelude
begin

text \<open>
  The proxy rule editor's shadowing check, app/proxy-rules/shadowing-detector.ts. A rule is shadowed when an
  earlier rule has a broader or equal pattern and set of methods. The two nested loops with
  \<open>break\<close> are two recursions; the lemmas give their declarative meaning.
\<close>

record rule =
  ru_id :: string
  ru_url :: string
  ru_methods :: "string list"

record shadow_warning =
  sw_rule :: string
  sw_by :: string
  sw_reason :: string

text \<open>
  \<open>/^(.*?)(?:<.*>|\*|\.\*)$/\<close>: the shortest prefix without line terminators whose rest is \<open>*\<close>, \<open>.*\<close> or any
  text without line terminators between angle brackets.
\<close>

definition line_end :: "char \<Rightarrow> bool" where
  "line_end c \<longleftrightarrow> (of_char c :: nat) \<in> {10, 13}"

definition wild_tail :: "string \<Rightarrow> bool" where
  "wild_tail s \<longleftrightarrow> s = ''*'' \<or> s = ''.*'' \<or>
     (2 \<le> length s \<and> hd s = CHR ''<'' \<and> last s = CHR ''>'' \<and> \<not> list_ex line_end s)"

fun prefixMatch :: "string \<Rightarrow> string option" where
  "prefixMatch s = (if wild_tail s then Some []
     else case s of [] \<Rightarrow> None
       | c # t \<Rightarrow> if line_end c then None else map_option ((#) c) (prefixMatch t))"

declare prefixMatch.simps [simp del]

definition isPatternSuperset :: "string \<Rightarrow> string \<Rightarrow> bool" where
  "isPatternSuperset broadPattern specificPattern =
     (let broad = trim broadPattern; specific = trim specificPattern
      in if broad = specific then True
         else if broad = ''<.*>'' \<or> broad = ''.*'' \<or> broad = ''*'' then True
         else case prefixMatch broad of
           Some p \<Rightarrow> starts_with specific p
         | None \<Rightarrow> False)"

definition isMethodsSuperset :: "string list \<Rightarrow> string list \<Rightarrow> bool" where
  "isMethodsSuperset methodsA methodsB =
     (if methodsA = [] then True
      else list_all (\<lambda>m. to_upper m \<in> set (map to_upper methodsA)) methodsB)"

definition shadow_reason :: "rule \<Rightarrow> rule \<Rightarrow> string" where
  "shadow_reason prior current =
     (if ru_url prior = ru_url current
      then ''Duplicate identical match criteria in earlier rule '' @ [CHR 0x27] @ ru_id prior @ [CHR 0x27] @ ''.''
      else ''Catch-all or broader path pattern in rule '' @ [CHR 0x27] @ ru_id prior @ [CHR 0x27] @
        '' intercepts requests before '' @ [CHR 0x27] @ ru_id current @ [CHR 0x27] @ '' can be evaluated.'')"

definition shadows :: "rule \<Rightarrow> rule \<Rightarrow> bool" where
  "shadows prior current \<longleftrightarrow> isMethodsSuperset (ru_methods prior) (ru_methods current) \<and>
     isPatternSuperset (ru_url prior) (ru_url current)"

definition shadow_of :: "rule \<Rightarrow> rule \<Rightarrow> shadow_warning" where
  "shadow_of prior current = \<lparr>sw_rule = ru_id current, sw_by = ru_id prior,
     sw_reason = shadow_reason prior current\<rparr>"

text \<open>The inner loop over the earlier rules, left at the first hit.\<close>

fun scan_prior :: "rule \<Rightarrow> rule list \<Rightarrow> shadow_warning list" where
  "scan_prior current [] = []"
| "scan_prior current (prior # ps) =
     (if \<not> isMethodsSuperset (ru_methods prior) (ru_methods current) then scan_prior current ps
      else if isPatternSuperset (ru_url prior) (ru_url current) then [shadow_of prior current]
      else scan_prior current ps)"

text \<open>The outer loop: \<open>before\<close> are the rules already passed.\<close>

fun scan_rules :: "rule list \<Rightarrow> rule list \<Rightarrow> shadow_warning list" where
  "scan_rules before [] = []"
| "scan_rules before (current # rest) = scan_prior current before @ scan_rules (before @ [current]) rest"

definition detectShadowedRules :: "rule list \<Rightarrow> shadow_warning list" where
  "detectShadowedRules rules = scan_rules [] rules"

section \<open>Meaning of the loops\<close>

lemma scan_prior_find:
  "scan_prior c ps = (case find_first (\<lambda>p. shadows p c) ps of Some p \<Rightarrow> [shadow_of p c] | None \<Rightarrow> [])"
  by (induction ps) (auto simp: shadows_def)

lemma scan_rules_nth:
  "scan_rules bs rs = concat (map (\<lambda>i. scan_prior (rs ! i) (bs @ take i rs)) [0..<length rs])"
proof (induction rs arbitrary: bs)
  case Nil
  show ?case by simp
next
  case (Cons r rs)
  have "[0..<length (r # rs)] = 0 # map Suc [0..<length rs]"
    by (simp add: upt_conv_Cons map_Suc_upt del: upt_Suc)
  then show ?case using Cons.IH [of "bs @ [r]"] by (simp add: o_def)
qed

lemma detect_concat: "detectShadowedRules rs = concat (map (\<lambda>i.
    case find_first (\<lambda>p. shadows p (rs ! i)) (take i rs) of Some p \<Rightarrow> [shadow_of p (rs ! i)] | None \<Rightarrow> [])
    [0..<length rs])"
  by (simp add: detectShadowedRules_def scan_rules_nth scan_prior_find)

lemma find_first_nth: "find_first P xs = Some x \<longleftrightarrow> (\<exists>j < length xs. xs ! j = x \<and> P x \<and> (\<forall>k < j. \<not> P (xs ! k)))"
proof (induction xs)
  case Nil
  show ?case by simp
next
  case (Cons y ys)
  have s: "(\<exists>j < length (y # ys). Q j) \<longleftrightarrow> Q 0 \<or> (\<exists>j < length ys. Q (Suc j))" for Q
    by (metis Suc_less_eq length_Cons nat.exhaust zero_less_Suc)
  show ?case
    unfolding s using Cons.IH by (auto simp: All_less_Suc2)
qed

text \<open>
  C9. The warnings are exactly those of the rules some earlier rule shadows, each naming the earliest
  such rule; a rule nothing shadows has none.
\<close>

theorem detect_exact:
  "warn \<in> set (detectShadowedRules rs) \<longleftrightarrow>
    (\<exists>i j. i < length rs \<and> j < i \<and> shadows (rs ! j) (rs ! i) \<and> (\<forall>k. k < j \<longrightarrow> \<not> shadows (rs ! k) (rs ! i)) \<and>
       warn = shadow_of (rs ! j) (rs ! i))"
proof -
  have inner: "(\<exists>p. find_first (\<lambda>p. shadows p (rs ! i)) (take i rs) = Some p \<and> warn = shadow_of p (rs ! i)) \<longleftrightarrow>
      (\<exists>j. j < i \<and> shadows (rs ! j) (rs ! i) \<and> (\<forall>k. k < j \<longrightarrow> \<not> shadows (rs ! k) (rs ! i)) \<and>
        warn = shadow_of (rs ! j) (rs ! i))" if "i < length rs" for i
  proof -
    have "find_first (\<lambda>p. shadows p (rs ! i)) (take i rs) = Some p \<longleftrightarrow>
        (\<exists>j. j < i \<and> rs ! j = p \<and> shadows p (rs ! i) \<and> (\<forall>k. k < j \<longrightarrow> \<not> shadows (rs ! k) (rs ! i)))" for p
      unfolding find_first_nth using that by (intro iff_exI conj_cong refl) simp_all
    then show ?thesis by (simp only:) auto
  qed
  have "warn \<in> set (detectShadowedRules rs) \<longleftrightarrow>
      (\<exists>i. i < length rs \<and> (\<exists>p. find_first (\<lambda>p. shadows p (rs ! i)) (take i rs) = Some p \<and>
        warn = shadow_of p (rs ! i)))"
    unfolding detect_concat by (auto split: option.split_asm)
      (metis, rule bexI, rule exI, rule conjI, erule sym, simp, simp)
  then show ?thesis using inner by blast
qed

theorem detect_exact_witness:
  "detectShadowedRules [\<lparr>ru_id = ''a'', ru_url = ''/api/<.*>'', ru_methods = []\<rparr>,
      \<lparr>ru_id = ''b'', ru_url = ''/api/users'', ru_methods = [''get'']\<rparr>] \<noteq> []"
proof -
  let ?rs = "[\<lparr>ru_id = ''a'', ru_url = ''/api/<.*>'', ru_methods = []\<rparr>,
      \<lparr>ru_id = ''b'', ru_url = ''/api/users'', ru_methods = [''get'']\<rparr>]"
  have "shadows (?rs ! 0) (?rs ! 1)"
    by (simp add: shadows_def isMethodsSuperset_def isPatternSuperset_def trim_def is_space_def
        prefixMatch.simps wild_tail_def line_end_def starts_with_def Let_def)
  then have "shadow_of (?rs ! 0) (?rs ! 1) \<in> set (detectShadowedRules ?rs)"
    unfolding detect_exact by (intro exI [of _ 1] exI [of _ 0]) simp
  then show ?thesis by auto
qed

lemma shadow_of_rule [simp]: "sw_rule (shadow_of p c) = ru_id c"
  by (simp add: shadow_of_def)

text \<open>
  At most one warning per rule, in the order of the rules: the shadowed identifiers are a
  subsequence of the identifiers of all rules but the first.
\<close>

theorem detect_subsequence:
  "subseq (map sw_rule (detectShadowedRules rs)) (map ru_id (tl rs))"
proof -
  have gen: "subseq (map sw_rule (scan_rules bs rs)) (map ru_id rs)" for bs rs
    by (induction rs arbitrary: bs)
      (auto simp: scan_prior_find split: option.split intro: subseq_Cons2 list_emb_Cons)
  show ?thesis
    by (cases rs) (auto simp: detectShadowedRules_def gen)
qed

section \<open>Patterns with other regular expressions\<close>

text \<open>
  The comparison takes any text in angle brackets for a wildcard: a rule for numeric identifiers is
  reported to shadow a rule for a path it does not match.
\<close>

theorem pattern_superset_regex:
  "isPatternSuperset ''/users/<[0-9]+>'' ''/users/me''"
  by (simp add: isPatternSuperset_def trim_def is_space_def Let_def prefixMatch.simps wild_tail_def
      line_end_def starts_with_def)

end
