(* ===== verification/GatewayMatcher.thy ===== *)
theory GatewayMatcher
  imports ShadowDetector
begin

text \<open>
  The matcher of the gateway the console's proxy rules are for, aegis/internal/rule/matcher.go: the pattern of a rule becomes an anchored regular expression, its angle
  brackets groups, and a request is handled by the first rule whose methods and expression match. Of the syntax of Go's \<open>regexp\<close> the model reads
  characters, the dot, the star after one of them, and groups without an operator behind them; any other expression is \<open>None\<close>. The
  theorems compare the detector of the console with this matcher.
\<close>

section \<open>Expressions\<close>

datatype atom = Ch char | AnyChar

datatype item = One atom | Many atom

definition go_operator :: "char \<Rightarrow> bool" where
  "go_operator c \<longleftrightarrow> c \<in> set ''*+?[]{}|^$'' \<or> c = CHR 0x5C"

text \<open>The first argument counts the groups that are open.\<close>

fun go_items :: "nat \<Rightarrow> string \<Rightarrow> item list option" where
  "go_items d [] = (if d = 0 then Some [] else None)"
| "go_items d (c # s) =
     (if c = CHR ''('' then go_items (Suc d) s
      else if c = CHR '')'' then (if d = 0 \<or> (s \<noteq> [] \<and> hd s \<in> set ''*+?{'') then None else go_items (d - 1) s)
      else if go_operator c then None
      else let a = (if c = CHR ''.'' then AnyChar else Ch c) in
        case s of
          x # t \<Rightarrow> if x = CHR ''*'' then map_option ((#) (Many a)) (go_items d t) else map_option ((#) (One a)) (go_items d s)
        | [] \<Rightarrow> map_option ((#) (One a)) (go_items d s))"

fun atom_match :: "atom \<Rightarrow> char \<Rightarrow> bool" where
  "atom_match (Ch x) c \<longleftrightarrow> c = x"
| "atom_match AnyChar c \<longleftrightarrow> (of_char c :: nat) \<noteq> 10"

fun items_match :: "item list \<Rightarrow> string \<Rightarrow> bool" where
  "items_match [] u \<longleftrightarrow> u = []"
| "items_match (One a # is) [] \<longleftrightarrow> False"
| "items_match (One a # is) (c # u) \<longleftrightarrow> atom_match a c \<and> items_match is u"
| "items_match (Many a # is) [] \<longleftrightarrow> items_match is []"
| "items_match (Many a # is) (c # u) \<longleftrightarrow> items_match is (c # u) \<or> atom_match a c \<and> items_match (Many a # is) u"

section \<open>The matcher\<close>

text \<open>The text given to \<open>regexp.Compile\<close>: it always begins with \<open>^\<close> and ends with \<open>$\<close>.\<close>

definition url_expression :: "string \<Rightarrow> string" where
  "url_expression url =
     (let p = (if starts_with url ''^'' then url else ''^'' @ url);
          q = (if last p = CHR ''$'' then p else p @ ''$'')
      in map (\<lambda>c. if c = CHR ''<'' then CHR ''('' else if c = CHR ''>'' then CHR '')'' else c) q)"

definition regexp_Compile :: "string \<Rightarrow> item list option" where
  "regexp_Compile pattern = go_items 0 (butlast (tl pattern))"

fun compileRules :: "rule list \<Rightarrow> (rule \<times> item list) list option" where
  "compileRules [] = Some []"
| "compileRules (r # rs) = (case regexp_Compile (url_expression (ru_url r)) of None \<Rightarrow> None
     | Some reg \<Rightarrow> map_option ((#) (r, reg)) (compileRules rs))"

definition rule_serves :: "rule \<times> item list \<Rightarrow> string \<Rightarrow> string \<Rightarrow> bool" where
  "rule_serves cr reqMethod path = (let methods = map to_upper (ru_methods (fst cr))
     in (''*'' \<in> set methods \<or> to_upper reqMethod \<in> set methods) \<and> items_match (snd cr) path)"

definition gateway_Match :: "(rule \<times> item list) list \<Rightarrow> string \<Rightarrow> string \<Rightarrow> rule option" where
  "gateway_Match m reqMethod path = map_option fst (find_first (\<lambda>cr. rule_serves cr reqMethod path) m)"

section \<open>Patterns of a literal and a wildcard\<close>

definition literal :: "string \<Rightarrow> bool" where
  "literal s \<longleftrightarrow> list_all (\<lambda>c. c \<notin> set ''<>.()*+?[]{}|^$'' \<and> c \<noteq> CHR 0x5C \<and> \<not> line_end c \<and> \<not> is_space c) s"

datatype pattern = Exact string | Under string string



lemma wild_tail_literal: "wild \<in> {''<.*>'', ''*'', ''.*''} \<Longrightarrow> literal s \<Longrightarrow> wild_tail (s @ wild) \<longleftrightarrow> s = []"
  by (cases s) (auto simp: wild_tail_def literal_def line_end_def)

lemma prefixMatch_under:
  "wild \<in> {''<.*>'', ''*'', ''.*''} \<Longrightarrow> literal s \<Longrightarrow> prefixMatch (s @ wild) = Some s"
proof (induction s)
  case Nil
  then show ?case by (subst prefixMatch.simps) (auto simp: wild_tail_def line_end_def)
next
  case (Cons c s)
  then have "\<not> wild_tail ((c # s) @ wild)" using wild_tail_literal by blast
  then show ?case using Cons by (subst prefixMatch.simps) (simp add: literal_def)
qed





lemma wild_nospace: "wild \<in> {''<.*>'', ''*'', ''.*''} \<Longrightarrow> list_all (\<lambda>c. \<not> is_space c) wild"
  by (auto simp: is_space_def)







lemma append_wild_inj:
  assumes "literal s" "literal t" "wild \<in> {''<.*>'', ''*'', ''.*''}" "wild' \<in> {''<.*>'', ''*'', ''.*''}"
    "s @ wild = t @ wild'"
  shows "s = t"
proof -
  have "prefixMatch (s @ wild) = Some s" "prefixMatch (t @ wild') = Some t"
    using prefixMatch_under assms by blast+
  with assms(5) show ?thesis by simp
qed

section \<open>What the patterns match\<close>







section \<open>Soundness of the detector\<close>






definition rule_for :: "string \<Rightarrow> string \<Rightarrow> string list \<Rightarrow> rule" where
  "rule_for ident url methods = \<lparr>ru_id = ident, ru_url = url, ru_methods = methods\<rparr>"

lemmas pattern_simps = rule_for_def isMethodsSuperset_def isPatternSuperset_def trim_def is_space_def prefixMatch.simps wild_tail_def line_end_def
  starts_with_def Let_def

lemma get_upper: "to_upper ''get'' = ''GET''" "to_upper ''GET'' = ''GET''" "to_upper ''*'' = ''*''"
  by code_simp+


section \<open>Where they disagree\<close>

text \<open>
  False alarms: a star after a prefix is the detector's wildcard, but repeats the character before it at the gateway, so that a rule for \<open>/api/*\<close> does not
  take the requests of one for \<open>/api/users\<close>; and a rule without methods, which the detector takes for one of all methods, serves no request.
\<close>

theorem false_alarms:
  "map sw_rule (detectShadowedRules [rule_for ''a'' ''/api/*'' [''GET''], rule_for ''b'' ''/api/users'' [''GET'']]) = [''b''] \<and>
   map_option (\<lambda>m. map_option ru_id (gateway_Match m ''GET'' ''/api/users''))
     (compileRules [rule_for ''a'' ''/api/*'' [''GET''], rule_for ''b'' ''/api/users'' [''GET'']]) = Some (Some ''b'') \<and>
   map sw_rule (detectShadowedRules [rule_for ''a'' ''/api/users'' [], rule_for ''b'' ''/api/users'' [''GET'']]) = [''b''] \<and>
   map_option (\<lambda>m. map_option ru_id (gateway_Match m ''GET'' ''/api/users''))
     (compileRules [rule_for ''a'' ''/api/users'' [], rule_for ''b'' ''/api/users'' [''GET'']]) = Some (Some ''b'')"
  by (intro conjI)
    (simp_all add: detectShadowedRules_def pattern_simps shadow_of_def gateway_Match_def regexp_Compile_def url_expression_def go_operator_def
      rule_serves_def get_upper)

text \<open>
  Missed: a rule whose method is the star, which serves every method at the gateway, is not reported to shadow a rule of one method on the same path.
\<close>

theorem star_method_missed:
  "detectShadowedRules [rule_for ''a'' ''/api/users'' [''*''], rule_for ''b'' ''/api/users'' [''GET'']] = [] \<and>
   map_option (\<lambda>m. map_option ru_id (gateway_Match m ''GET'' ''/api/users''))
     (compileRules [rule_for ''a'' ''/api/users'' [''*''], rule_for ''b'' ''/api/users'' [''GET'']]) = Some (Some ''a'')"
  by (intro conjI)
    (simp_all add: detectShadowedRules_def pattern_simps shadow_of_def gateway_Match_def regexp_Compile_def url_expression_def go_operator_def
      rule_serves_def get_upper)

end
