(* ===== verification/JsCalls.thy ===== *)
theory JsCalls
  imports Proxy "HOL-Library.Multiset"
begin

text \<open>
  Idioms of the route handlers: property reads as actions, method calls on values that came out of
  JSON (with the \<open>TypeError\<close> of a missing method), \<open>for ... of\<close>, \<open>+\<close>, \<open>parseInt\<close>, stable sorting,
  and reading back the JSON of a response the proxy returned.
\<close>

section \<open>Reading properties\<close>

definition jget :: "jsval \<Rightarrow> string \<Rightarrow> (jsval \<Rightarrow> ('w, 'a) js) \<Rightarrow> ('w, 'a) js" where
  "jget v k f = bnd (lift (get_prop v k)) f"

definition fail_with :: "int \<Rightarrow> string \<Rightarrow> ('w, response) js" where
  "fail_with st msg = respond (err_obj msg) st"

text \<open>\<open>catch (err) { const message = err instanceof Error ? err.message : fallback; ... }\<close>\<close>

definition catch_with :: "int \<Rightarrow> string \<Rightarrow> exn \<Rightarrow> ('w, response) js" where
  "catch_with st fallback e = fail_with st (err_message e fallback)"

definition not_function :: "string \<Rightarrow> exn" where
  "not_function f = type_error (f @ '' is not a function'')"

text \<open>A call \<open>expr.m(...)\<close> where \<open>expr\<close> is a string: otherwise \<open>null\<close> has no properties, and no
  other JSON value has the method.\<close>

definition str_method :: "string \<Rightarrow> string \<Rightarrow> (string \<Rightarrow> jsval) \<Rightarrow> jsval \<Rightarrow> jsval res" where
  "str_method expr m f v = (case v of JStr s \<Rightarrow> Inr (f s)
     | _ \<Rightarrow> if nullish v then map_sum id (\<lambda>_. JUndef) (get_prop v m)
            else Inl (not_function (expr @ ''.'' @ m)))"

text \<open>\<open>v.slice(0, n)\<close> on strings and arrays.\<close>

definition js_slice :: "string \<Rightarrow> nat \<Rightarrow> jsval \<Rightarrow> jsval res" where
  "js_slice expr n v = (case v of JArr xs \<Rightarrow> Inr (JArr (take n xs))
     | _ \<Rightarrow> str_method expr ''slice'' (\<lambda>s. JStr (take n s)) v)"

text \<open>\<open>v?.toLowerCase().includes(q)\<close> and \<open>v?.includes(q)\<close>\<close>

definition lower_includes :: "string \<Rightarrow> string \<Rightarrow> jsval \<Rightarrow> jsval res" where
  "lower_includes expr q v = (if nullish v then Inr JUndef
     else str_method expr ''toLowerCase'' (\<lambda>s. JBool (str_includes (to_lower s) q)) v)"

definition opt_includes :: "string \<Rightarrow> string \<Rightarrow> jsval \<Rightarrow> jsval res" where
  "opt_includes expr q v = (if nullish v then Inr JUndef else case v of
       JArr xs \<Rightarrow> Inr (JBool (JStr q \<in> set xs))
     | _ \<Rightarrow> str_method expr ''includes'' (\<lambda>s. JBool (str_includes s q)) v)"

definition iterate :: "string \<Rightarrow> jsval \<Rightarrow> jsval list res" where
  "iterate expr v = (case v of JArr xs \<Rightarrow> Inr xs | JStr s \<Rightarrow> Inr (map (\<lambda>c. JStr [c]) s)
     | _ \<Rightarrow> Inl (type_error (expr @ '' is not iterable'')))"

text \<open>A call of an array method on a value: only arrays have it.\<close>

definition as_array :: "string \<Rightarrow> string \<Rightarrow> jsval \<Rightarrow> jsval list res" where
  "as_array expr m v = (case v of JArr xs \<Rightarrow> Inr xs
     | _ \<Rightarrow> if nullish v then map_sum id (\<lambda>_. []) (get_prop v m) else Inl (not_function (expr @ ''.'' @ m)))"

lemma as_array_JArr [simp]: "as_array expr m (JArr xs) = Inr xs"
  by (simp add: as_array_def)

definition as_string :: "string \<Rightarrow> jsval \<Rightarrow> string res" where
  "as_string name v = (case v of JStr s \<Rightarrow> Inr s
     | _ \<Rightarrow> Inl (type_error (''The '' @ name @ '' argument must be of type string'')))"

section \<open>Operators\<close>

fun num_add :: "jnum \<Rightarrow> jnum \<Rightarrow> jnum" where
  "num_add a b = num_sub a (num_neg b)"

definition is_text :: "jsval \<Rightarrow> bool" where
  "is_text v \<longleftrightarrow> is_str v \<or> (is_object v \<and> v \<noteq> JNull) \<or> (case v of JFun _ \<Rightarrow> True | _ \<Rightarrow> False)"

definition js_plus :: "jsval \<Rightarrow> jsval \<Rightarrow> jsval" where
  "js_plus a b = (if is_text a \<or> is_text b then JStr (to_str a @ to_str b)
     else JNum (num_add (to_num a) (to_num b)))"

text \<open>\<open>parseInt(s, 10)\<close>, \<open>None\<close> for \<open>NaN\<close>.\<close>

definition parse_int :: "string \<Rightarrow> int option" where
  "parse_int s0 = (let s = dropWhile is_space s0;
     (neg, t) = (case s of c # u \<Rightarrow> if c = CHR ''-'' then (True, u) else if c = CHR ''+'' then (False, u)
                   else (False, s) | [] \<Rightarrow> (False, s));
     ds = takeWhile is_digit t
   in if ds = [] then None else Some (if neg then - int (read_digits ds) else int (read_digits ds)))"

text \<open>\<open>s.replace(c, "")\<close> for a one-character pattern: the first occurrence.\<close>

fun remove_first :: "char \<Rightarrow> string \<Rightarrow> string" where
  "remove_first c [] = []"
| "remove_first c (x # s) = (if x = c then s else x # remove_first c s)"

text \<open>
  \<open>xs.sort(cmp)\<close>: stable; \<open>cmp a b\<close> is the number the comparator returns. With a comparator that is not
  consistent the result is implementation-defined; this is insertion sort.
\<close>

fun js_insert :: "('a \<Rightarrow> 'a \<Rightarrow> jnum) \<Rightarrow> 'a \<Rightarrow> 'a list \<Rightarrow> 'a list" where
  "js_insert cmp x [] = [x]"
| "js_insert cmp x (y # ys) = (if num_lt (Fin 0) (cmp x y) then y # js_insert cmp x ys else x # y # ys)"

definition js_sort :: "('a \<Rightarrow> 'a \<Rightarrow> jnum) \<Rightarrow> 'a list \<Rightarrow> 'a list" where
  "js_sort cmp xs = foldr (js_insert cmp) xs []"

lemma mset_js_insert [simp]: "mset (js_insert cmp x ys) = add_mset x (mset ys)"
  by (induction ys) auto

lemma mset_js_sort [simp]: "mset (js_sort cmp xs) = mset xs"
  by (induction xs) (simp_all add: js_sort_def)

lemma length_js_sort [simp]: "length (js_sort cmp xs) = length xs"
  by (metis mset_js_sort size_mset)

lemma set_js_sort [simp]: "set (js_sort cmp xs) = set xs"
  by (metis mset_js_sort set_mset_mset)

text \<open>Sorting by a finite key, largest first.\<close>

lemma js_sort_sorted:
  assumes "\<And>a b. a \<in> set xs \<Longrightarrow> b \<in> set xs \<Longrightarrow> cmp a b = Fin (key b - key a)"
  shows "sorted_wrt (\<lambda>a b. key a \<ge> (key b :: rat)) (js_sort cmp xs)"
proof -
  have ins: "sorted_wrt (\<lambda>a b. key a \<ge> key b) (js_insert cmp x ys)"
    if "sorted_wrt (\<lambda>a b. key a \<ge> key b) ys" "x \<in> set xs" "set ys \<subseteq> set xs" for x ys
    using that
  proof (induction ys)
    case Nil
    then show ?case by simp
  next
    case (Cons y ys)
    have c: "cmp x y = Fin (key y - key x)" using Cons.prems assms by auto
    have "set (js_insert cmp x ys) = insert x (set ys)"
      by (metis mset_js_insert set_mset_add_mset_insert set_mset_mset)
    then show ?case using Cons c by auto
  qed
  have "sorted_wrt (\<lambda>a b. key a \<ge> key b) (foldr (js_insert cmp) ys [])" if "set ys \<subseteq> set xs" for ys
    using that
  proof (induction ys)
    case (Cons y ys)
    have "set (foldr (js_insert cmp) ys []) = set ys" using set_js_sort [of cmp ys] by (simp add: js_sort_def)
    then show ?case using Cons ins by simp
  qed simp
  then show ?thesis by (simp add: js_sort_def)
qed

section \<open>Responses of the proxy\<close>

definition rp_ok :: "response \<Rightarrow> bool" where
  "rp_ok r \<longleftrightarrow> 200 \<le> rp_status r \<and> rp_status r \<le> 299"

text \<open>\<open>await res.json()\<close> on such a response.\<close>

definition resp_json :: "response \<Rightarrow> ('w, jsval) js" where
  "resp_json r = (case rp_body r of JsonBody v \<Rightarrow> ret v
     | _ \<Rightarrow> throw (Error ''SyntaxError'' ''Unexpected end of JSON input''))"

text \<open>\<open>fetch(url, { cache: "no-store" })\<close> and its POST form with a JSON body.\<close>

definition get_request :: "string \<Rightarrow> http_request" where
  "get_request url = \<lparr>rq_method = ''GET'', rq_url = url, rq_headers = [], rq_body = NoBody\<rparr>"

definition post_request :: "string \<Rightarrow> jsval \<Rightarrow> http_request" where
  "post_request url v = \<lparr>rq_method = ''POST'', rq_url = url, rq_headers = headers_of [] json_type, rq_body = json_body v\<rparr>"

definition service_url :: "string \<Rightarrow> ('w, string) act" where
  "service_url s = asks (\<lambda>w. to_str (getServiceUrl w s))"

definition fetch_get :: "string \<Rightarrow> string \<Rightarrow> ('w, http_response) act" where
  "fetch_get s path = bnd (service_url s) (\<lambda>u. fetch (get_request (u @ path)))"

definition fetch_post :: "string \<Rightarrow> string \<Rightarrow> jsval \<Rightarrow> ('w, http_response) act" where
  "fetch_post s path v = bnd (service_url s) (\<lambda>u. fetch (post_request (u @ path) v))"

text \<open>\<open>for (const x of xs) ...\<close> with an accumulator.\<close>

fun fold_m :: "('a \<Rightarrow> 'b \<Rightarrow> ('w, 'b) js) \<Rightarrow> 'a list \<Rightarrow> 'b \<Rightarrow> ('w, 'b) js" where
  "fold_m f [] acc = ret acc"
| "fold_m f (x # xs) acc = bnd (f x acc) (\<lambda>acc'. fold_m f xs acc')"

text \<open>\<open>undefined\<close>-free objects: \<open>{ k: v }\<close> keeps the key, JSON drops it.\<close>

definition opt_str :: "string option \<Rightarrow> jsval" where
  "opt_str s = (case s of Some t \<Rightarrow> JStr t | None \<Rightarrow> JNull)"

lemma run_jget [run]: "jget v k f w = (case get_prop v k of Inl e \<Rightarrow> (Inl e, w) | Inr x \<Rightarrow> f x w)"
  by (simp add: jget_def run_bnd_lift)

lemma run_fetch_get [run]: "bnd (fetch_get s path) g w =
    bnd (fetch (get_request (to_str (getServiceUrl w s) @ path))) g w"
  by (simp add: fetch_get_def service_url_def bnd_assoc run_asks)

lemma run_service_url [run]: "bnd (service_url s) g w = g (to_str (getServiceUrl w s)) w"
  by (simp add: service_url_def run_asks)

section \<open>Shapes of route handlers\<close>

definition add_qs :: "string \<Rightarrow> params \<Rightarrow> string" where
  "add_qs path query = path @ (if params_string query \<noteq> [] then ''?'' @ params_string query else [])"

text \<open>\<open>if (v) query.set(k, v)\<close>\<close>

definition set_if :: "string \<Rightarrow> string \<Rightarrow> params \<Rightarrow> params" where
  "set_if k v ps = (if v = [] then ps else params_set k v ps)"

definition po_json :: "string \<Rightarrow> jsval \<Rightarrow> proxy_options" where
  \<comment> \<open>\<open>po_send\<close> without a required permission\<close>
  "po_json m v = \<lparr>po_method = Some m, po_headers = json_type, po_body = json_body v, po_permission = None\<rparr>"

definition po_method_only :: "string \<Rightarrow> proxy_options" where
  "po_method_only m = po_get\<lparr>po_method := Some m\<rparr>"

definition date_key :: "'w world_scheme \<Rightarrow> jsval \<Rightarrow> jnum" where
  \<comment> \<open>\<open>new Date(v).getTime()\<close> for the values the store and the engines hold\<close>
  "date_key w v = (case v of JStr s \<Rightarrow> w_date w s | JNum n \<Rightarrow> n | JNull \<Rightarrow> Fin 0 | _ \<Rightarrow> NaN)"

text \<open>\<open>searchParams.toString() ? `?${searchParams.toString()}` : ""\<close> after a path.\<close>

definition with_search :: "string \<Rightarrow> request \<Rightarrow> string" where
  "with_search path req = add_qs path (req_query req)"

text \<open>\<open>const body = await req.json(); return proxyRequest(..., JSON.stringify(body), ...)\<close>\<close>

definition forward_json ::
    "request \<Rightarrow> string \<Rightarrow> string \<Rightarrow> zschema \<Rightarrow> (jsval \<Rightarrow> proxy_options) \<Rightarrow> ('w, response) act" where
  "forward_json req service path schema po =
     bnd (request_json req) (\<lambda>body. proxyRequest service path schema (Some (po body)))"

text \<open>The same inside \<open>try { ... } catch (err) { 400 }\<close>, the promise returned and not awaited.\<close>

definition try_forward_json ::
    "request \<Rightarrow> string \<Rightarrow> string \<Rightarrow> zschema \<Rightarrow> (jsval \<Rightarrow> proxy_options) \<Rightarrow> string \<Rightarrow> ('w, response) act" where
  "try_forward_json req service path schema po fallback = try_tail
     (bnd (request_json req) (\<lambda>body. ret (proxyRequest service path schema (Some (po body)))))
     (catch_with 400 fallback)"

text \<open>\<open>await req.json().catch(() => ({}))\<close>\<close>

definition json_or_empty :: "request \<Rightarrow> ('w, jsval) act" where
  "json_or_empty req = try_catch (request_json req) (\<lambda>_. ret (JObj []))"

text \<open>\<open>encodeURIComponent(v)\<close> of any value.\<close>

definition encode_val :: "jsval \<Rightarrow> string" where
  "encode_val v = encode_uri_component (to_str v)"

text \<open>\<open>(v).split(" ").filter(Boolean)\<close> and \<open>(v).split(/\s+/).filter(Boolean)\<close>\<close>

definition split_spaces :: "string \<Rightarrow> jsval \<Rightarrow> jsval res" where
  "split_spaces expr v = str_method expr ''split''
     (\<lambda>s. JArr (map JStr (filter (\<lambda>x. x \<noteq> []) (split_on (CHR '' '') s)))) v"

definition split_words :: "string \<Rightarrow> jsval \<Rightarrow> jsval res" where
  "split_words expr v = str_method expr ''split'' (\<lambda>s. JArr (map JStr (words s))) v"

section \<open>Denied handlers\<close>

text \<open>What an action sends from a world, and: nothing beyond the session check.\<close>

definition sends :: "'w world_scheme \<Rightarrow> ('w, 'a) act \<Rightarrow> http_request list" where
  "sends w m = drop (length (w_sent w)) (w_sent (snd (m w)))"

definition denied :: "'w world_scheme \<Rightarrow> ('w, 'a) act \<Rightarrow> bool" where
  "denied w m \<longleftrightarrow> set (sends w m) \<subseteq> set (session_checks w)"

named_theorems denied_rules "rules for denied handlers"

lemma denied_proxy:
  assumes "p \<in> set (required_permissions service options)" "\<not> operator_can w p"
  shows "denied w (proxyRequest service path schema options)"
proof -
  obtain r w' where run: "proxyRequest service path schema options w = (r, w')"
    by (cases "proxyRequest service path schema options w")
  from proxyRequest_log [OF this] assms show ?thesis
    by (auto simp: denied_def sends_def run)
qed

lemma denied_request_json [denied_rules]:
  "(\<And>b. denied w (f b)) \<Longrightarrow> denied w (bnd (request_json req) f)"
  by (auto simp: denied_def sends_def run split: sum.split)

lemma denied_lift [denied_rules]: "(\<And>b. denied w (f b)) \<Longrightarrow> denied w (bnd (lift r) f)"
  by (auto simp: denied_def sends_def run split: sum.split)

lemma denied_jget [denied_rules]: "(\<And>b. denied w (f b)) \<Longrightarrow> denied w (jget v k f)"
  by (auto simp: jget_def intro: denied_lift)

lemma denied_respond [denied_rules]: "denied w (respond v st)"
  by (simp add: denied_def sends_def respond_def run)

lemma denied_catch_with [denied_rules]: "denied w (catch_with st fb e)"
  by (simp add: catch_with_def fail_with_def denied_respond)

lemma denied_forward_json [denied_rules]:
  "(\<And>b. denied w (proxyRequest service path schema (Some (po b)))) \<Longrightarrow>
    denied w (forward_json req service path schema po)"
  by (simp add: forward_json_def denied_request_json)

lemma denied_try_forward_json [denied_rules]:
  "(\<And>b. denied w (proxyRequest service path schema (Some (po b)))) \<Longrightarrow>
    denied w (try_forward_json req service path schema po fb)"
proof -
  assume p: "\<And>b. denied w (proxyRequest service path schema (Some (po b)))"
  show ?thesis
  proof (cases "parse_text w (req_text req)")
    case (Inl e)
    then show ?thesis
      using denied_catch_with [of w 400 fb e]
      by (simp add: try_forward_json_def denied_def sends_def try_tail_def run)
  next
    case (Inr b)
    then show ?thesis using p [of b]
      by (simp add: try_forward_json_def denied_def sends_def try_tail_def run)
  qed
qed

lemma required_extra:
  "po_permission po = Some p \<Longrightarrow> p \<noteq> [] \<Longrightarrow> p \<in> set (required_permissions service (Some po))"
  by (simp add: required_permissions_def Let_def List.map_filter_def)

text \<open>A service without a baseline permission, called without one, is reached whoever asks.\<close>

lemma unguarded_sent:
  assumes "service \<in> set engines" "required_permissions service options = []"
  shows "w_sent (snd (proxyRequest service path schema options w)) =
    w_sent w @ [proxy_outgoing w (w_uuid w (w_uuids w)) service path options]"
proof -
  have reg: "truthy (member (BACKEND_URLS w) service)" using BACKEND_URLS_own [OF assms(1), of w] by auto
  have out: "proxy_outgoing (checked_world w []) (w_uuid w (w_uuids w)) service path options =
      proxy_outgoing w (w_uuid w (w_uuids w)) service path options"
    by (rule proxy_outgoing_cong) simp
  show ?thesis
    using assms reg by (simp add: proxyRequest_cases rbac_outcome_def proxy_forward_world out)
qed

lemma unguarded_sends:
  assumes "service \<in> set engines" "required_permissions service options = []"
  shows "sends w (proxyRequest service path schema options) =
    [proxy_outgoing w (w_uuid w (w_uuids w)) service path options]"
  by (simp add: sends_def unguarded_sent [OF assms])

section \<open>A request for the examples\<close>

definition json_request :: "string \<Rightarrow> request" where
  "json_request body = \<lparr>req_method = ''POST'', req_path = ''/api'', req_query = [], req_headers = [],
     req_text = Inr body, req_form = Inr [], req_search = [], req_origin = ''http://localhost:3000''\<rparr>"

lemma json_request_text [simp]: "req_text (json_request body) = Inr body"
  by (simp add: json_request_def)

lemma parse_text_Inr: "json_parse s = Some v \<Longrightarrow> parse_text w (Inr s) = Inr v"
  by (simp add: parse_text_def json_parse_js_def)

text \<open>\<open>xs.map(f)\<close> for a callback that may throw.\<close>

fun map_res :: "('a \<Rightarrow> 'b res) \<Rightarrow> 'a list \<Rightarrow> 'b list res" where
  "map_res f [] = Inr []"
| "map_res f (x # xs) = (case f x of Inl e \<Rightarrow> Inl e
     | Inr y \<Rightarrow> map_sum id (\<lambda>ys. y # ys) (map_res f xs))"

lemma proxyRequest_frame:
  fixes w :: "'w world_scheme"
  shows "\<exists>n s. snd (proxyRequest service path schema options w) = w\<lparr>w_uuids := n, w_sent := s\<rparr>"
proof -
  have b: "\<exists>n s. w\<lparr>w_uuids := a, w_sent := b\<rparr> = w\<lparr>w_uuids := n, w_sent := s\<rparr>" for a b
    by (rule exI [of _ a], rule exI [of _ b], rule refl)
  have u: "\<exists>m s. w\<lparr>w_uuids := n\<rparr> = w\<lparr>w_uuids := m, w_sent := s\<rparr>" for n
    by (rule exI [of _ n], rule exI [of _ "w_sent w"]) simp
  show ?thesis
    by (simp add: proxyRequest_cases proxy_forward_world checked_world_def b u split: sum.split option.split)
qed

text \<open>\<open>xs.filter(f)\<close> for a callback that may throw.\<close>

fun filter_res :: "('a \<Rightarrow> bool res) \<Rightarrow> 'a list \<Rightarrow> 'a list res" where
  "filter_res f [] = Inr []"
| "filter_res f (x # xs) = (case f x of Inl e \<Rightarrow> Inl e
     | Inr b \<Rightarrow> map_sum id (\<lambda>ys. if b then x # ys else ys) (filter_res f xs))"

section \<open>The proxy on a world where the engine answers\<close>

lemma unguarded_forward:
  assumes "service \<in> set engines" "required_permissions service options = []"
  shows "proxyRequest service path schema options w =
    proxy_forward service path schema options (w_uuid w (w_uuids w)) (checked_world w [])"
  using assms BACKEND_URLS_own [OF assms(1), of w] by (auto simp: proxyRequest_cases rbac_outcome_def)

lemma unguarded_ok:
  assumes "service \<in> set engines" "required_permissions service options = []"
    and "w_upstream w = (\<lambda>_. ok_text t)" "\<forall>now. w_zod w now schema (upstream_value t) = Inr data" "json_keeps data"
  shows "proxyRequest service path schema options w =
    (Inr \<lparr>rp_status = 200, rp_headers = id_headers (w_uuid w (w_uuids w)), rp_body = JsonBody (json_clean data), rp_cookies = []\<rparr>,
     log_request (proxy_outgoing w (w_uuid w (w_uuids w)) service path options) (checked_world w []))"
proof -
  have out: "proxy_outgoing (checked_world w []) (w_uuid w (w_uuids w)) service path options =
      proxy_outgoing w (w_uuid w (w_uuids w)) service path options"
    by (rule proxy_outgoing_cong) simp
  show ?thesis
    using assms(3-5)
    by (simp add: unguarded_forward [OF assms(1,2)] proxy_forward_def run out ok_text_def proxy_answer_def Let_def
        rs_ok_def next_json_def mk_response_def)
qed

lemma unguarded_down:
  assumes "service \<in> set engines" "required_permissions service options = []" "w_upstream w = (\<lambda>_. Inl e)"
  shows "proxyRequest service path schema options w =
    (Inr \<lparr>rp_status = 502, rp_headers = id_headers (w_uuid w (w_uuids w)),
       rp_body = JsonBody (err_obj (unreachable_message service e)), rp_cookies = []\<rparr>,
     log_request (proxy_outgoing w (w_uuid w (w_uuids w)) service path options) (checked_world w []))"
proof -
  have out: "proxy_outgoing (checked_world w []) (w_uuid w (w_uuids w)) service path options =
      proxy_outgoing w (w_uuid w (w_uuids w)) service path options"
    by (rule proxy_outgoing_cong) simp
  show ?thesis
    using assms(3) by (simp add: unguarded_forward [OF assms(1,2)] proxy_forward_def run out lift_def next_json_err)
qed

lemma required_none: "permission_domain service = None \<Longrightarrow> required_permissions service None = []"
  by (simp add: required_permissions_def)

lemma required_json: "permission_domain service = None \<Longrightarrow> required_permissions service (Some (po_json m v)) = []"
  by (simp add: required_permissions_def po_json_def)

lemma required_method: "permission_domain service = None \<Longrightarrow> required_permissions service (Some (po_method_only m)) = []"
  by (simp add: required_permissions_def po_method_only_def po_get_def)

end
