(* ===== verification/Macaroons.thy ===== *)
theory Macaroons
  imports Effects
begin

text \<open>
  Macaroons, lib/server/macaroons.ts: a chain of HMAC-SHA256 signatures over the key identifier and the
  caveats. The hash is a parameter \<open>hmac key message\<close> on bytes; the one thing the properties ask of it
  is the documented shape of a digest (32 bytes), and the proofs of completeness not even more. Digests
  travel as hexadecimal text, which \<open>Buffer.from(s, "hex")\<close> reads leniently.
\<close>

type_synonym hmac = "nat list \<Rightarrow> nat list \<Rightarrow> nat list"

text \<open>The documented shape of a digest.\<close>

definition digest_shape :: "hmac \<Rightarrow> bool" where
  "digest_shape hmac \<longleftrightarrow> (\<forall>k m. length (hmac k m) = 32 \<and> list_all (\<lambda>b. b < 256) (hmac k m))"

lemma digest_length: "digest_shape hmac \<Longrightarrow> length (hmac k m) = 32"
  by (simp add: digest_shape_def)

section \<open>Buffers\<close>

definition utf8_bytes :: "string \<Rightarrow> nat list" where
  "utf8_bytes s = concat (map utf8 s)"

definition to_hex :: "nat list \<Rightarrow> string" where
  "to_hex bs = concat (map hex_byte bs)"

text \<open>\<open>Buffer.from(s, "hex")\<close>: stops at the first pair that is not two hexadecimal digits.\<close>

fun from_hex :: "string \<Rightarrow> nat list" where
  "from_hex (a # b # s) = (if radix_digit a < 16 \<and> radix_digit b < 16
     then (16 * radix_digit a + radix_digit b) # from_hex s else [])"
| "from_hex _ = []"

definition b64_char :: "nat \<Rightarrow> char" where
  "b64_char i = ''ABCDEFGHIJKLMNOPQRSTUVWXYZabcdefghijklmnopqrstuvwxyz0123456789-_'' ! i"

fun to_base64url :: "nat list \<Rightarrow> string" where
  "to_base64url (a # b # c # bs) =
     [b64_char (a div 4), b64_char (a mod 4 * 16 + b div 16), b64_char (b mod 16 * 4 + c div 64),
      b64_char (c mod 64)] @ to_base64url bs"
| "to_base64url [a, b] =
     [b64_char (a div 4), b64_char (a mod 4 * 16 + b div 16), b64_char (b mod 16 * 4)]"
| "to_base64url [a] = [b64_char (a div 4), b64_char (a mod 4 * 16)]"
| "to_base64url [] = []"

text \<open>The value of a character of either base64 alphabet.\<close>

definition b64_val :: "char \<Rightarrow> nat option" where
  "b64_val c = (let n = (of_char c :: nat) in
     if is_upper c then Some (n - 65) else if is_lower c then Some (n - 71)
     else if is_digit c then Some (n + 4)
     else if c = CHR ''-'' \<or> c = CHR ''+'' then Some 62
     else if c = CHR ''_'' \<or> c = CHR ''/'' then Some 63 else None)"

fun sextets :: "nat list \<Rightarrow> nat list" where
  "sextets (a # b # c # d # xs) =
     (4 * a + b div 16) # (b mod 16 * 16 + c div 4) # (c mod 4 * 64 + d) # sextets xs"
| "sextets [a, b, c] = [4 * a + b div 16, b mod 16 * 16 + c div 4]"
| "sextets [a, b] = [4 * a + b div 16]"
| "sextets _ = []"

text \<open>\<open>Buffer.from(s, "base64url")\<close>: other characters are skipped, \<open>=\<close> ends the data.\<close>

definition from_base64url :: "string \<Rightarrow> nat list" where
  "from_base64url s = sextets (List.map_filter b64_val (takeWhile (\<lambda>c. c \<noteq> CHR ''='') s))"

section \<open>The operations\<close>

record macaroon =
  mc_id :: string
  mc_location :: string
  mc_caveats :: "string list"
  mc_signature :: string

definition generateRootSecret :: "('w, string) act" where
  "generateRootSecret = bnd (randomBytes 32) (\<lambda>bs. ret (to_base64url bs))"

definition createMacaroon :: "hmac \<Rightarrow> string \<Rightarrow> string \<Rightarrow> string \<Rightarrow> macaroon" where
  "createMacaroon hmac rootKeyId rootSecret location =
     \<lparr>mc_id = rootKeyId, mc_location = location, mc_caveats = [],
      mc_signature = to_hex (hmac (utf8_bytes rootSecret) (utf8_bytes rootKeyId))\<rparr>"

definition addCaveat :: "hmac \<Rightarrow> macaroon \<Rightarrow> string \<Rightarrow> macaroon" where
  "addCaveat hmac m caveat = m\<lparr>mc_caveats := mc_caveats m @ [caveat],
     mc_signature := to_hex (hmac (from_hex (mc_signature m)) (utf8_bytes caveat))\<rparr>"

fun resign :: "hmac \<Rightarrow> string \<Rightarrow> string list \<Rightarrow> string" where
  "resign hmac currentSig [] = currentSig"
| "resign hmac currentSig (caveat # cs) =
     resign hmac (to_hex (hmac (from_hex currentSig) (utf8_bytes caveat))) cs"

text \<open>\<open>timingSafeEqual\<close> throws on buffers of different lengths; the code answers \<open>false\<close> then.\<close>

definition timingSafeEqual :: "nat list \<Rightarrow> nat list \<Rightarrow> bool res" where
  "timingSafeEqual a b = (if length a \<noteq> length b
     then Inl (Error ''RangeError'' ''Input buffers must have the same byte length'') else Inr (a = b))"

definition verifyMacaroon :: "hmac \<Rightarrow> macaroon \<Rightarrow> string \<Rightarrow> bool" where
  "verifyMacaroon hmac m rootSecret =
     (let currentSig = resign hmac (to_hex (hmac (utf8_bytes rootSecret) (utf8_bytes (mc_id m)))) (mc_caveats m)
      in case timingSafeEqual (from_hex currentSig) (from_hex (mc_signature m)) of
           Inr b \<Rightarrow> b | Inl _ \<Rightarrow> False)"

definition macaroon_json :: "macaroon \<Rightarrow> jsval" where
  "macaroon_json m = JObj [(''id'', JStr (mc_id m)), (''location'', JStr (mc_location m)),
     (''caveats'', JArr (map JStr (mc_caveats m))), (''signature'', JStr (mc_signature m))]"

definition serializeMacaroon :: "macaroon \<Rightarrow> string" where
  "serializeMacaroon m = to_base64url (utf8_bytes (json_stringify (macaroon_json m)))"

text \<open>Bytes that are no text of the string model are reported as a failure to parse.\<close>

definition deserializeMacaroon :: "string \<Rightarrow> ('w, jsval) act" where
  "deserializeMacaroon token = (\<lambda>w. (case utf8_decode (from_base64url token) of
     Some s \<Rightarrow> json_parse_js w s
   | None \<Rightarrow> Inl (Error ''SyntaxError'' (w_syntax w [])), w))"

section \<open>Hexadecimal and base64 text\<close>

lemma hex_digit_radix: "d < 16 \<Longrightarrow> radix_digit (hex_digit d) = d"
  using hex_digit_val [of d] by (auto simp: hex_val_def split: if_splits)

lemma from_to_hex: "list_all (\<lambda>b. b < 256) bs \<Longrightarrow> from_hex (to_hex bs) = bs"
proof (induction bs)
  case Nil
  show ?case by (simp add: to_hex_def)
next
  case (Cons b bs)
  then have "b div 16 < 16" "b mod 16 < 16" by auto
  with Cons show ?case by (simp add: to_hex_def hex_byte_def hex_digit_radix)
qed

lemma b64_val_char: "i < 64 \<Longrightarrow> b64_val (b64_char i) = Some i \<and> b64_char i \<noteq> CHR ''=''"
proof -
  have "\<forall>i \<in> set [0..<64]. b64_val (b64_char i) = Some i \<and> b64_char i \<noteq> CHR ''=''"
    by (simp add: upt_rec b64_char_def b64_val_def is_upper_def is_lower_def is_digit_def)
  then show "i < 64 \<Longrightarrow> ?thesis" by simp
qed

lemma to_base64url_sextets:
  "list_all (\<lambda>b. b < 256) bs \<Longrightarrow> \<exists>ss. to_base64url bs = map b64_char ss \<and> list_all (\<lambda>s. s < 64) ss \<and> sextets ss = bs"
proof (induction bs rule: to_base64url.induct)
  case (1 a b c bs)
  then obtain ss where ss: "to_base64url bs = map b64_char ss" "list_all (\<lambda>s. s < 64) ss" "sextets ss = bs" by auto
  have "a mod 4 * 16 + b div 16 < 64" "b mod 16 * 4 + c div 64 < 64" "a div 4 < 64" "c mod 64 < 64"
    using 1 by auto
  moreover have "4 * (a div 4) + (a mod 4 * 16 + b div 16) div 16 = a"
    "(a mod 4 * 16 + b div 16) mod 16 * 16 + (b mod 16 * 4 + c div 64) div 4 = b"
    "(b mod 16 * 4 + c div 64) mod 4 * 64 + c mod 64 = c"
    using 1 by auto
  ultimately show ?case using ss
    by (intro exI [of _ "[a div 4, a mod 4 * 16 + b div 16, b mod 16 * 4 + c div 64, c mod 64] @ ss"]) simp
next
  case (2 a b)
  then show ?case
    by (intro exI [of _ "[a div 4, a mod 4 * 16 + b div 16, b mod 16 * 4]"]) auto
next
  case (3 a)
  then show ?case by (intro exI [of _ "[a div 4, a mod 4 * 16]"]) auto
next
  case 4
  then show ?case by simp
qed

lemma from_to_base64url:
  assumes "list_all (\<lambda>b. b < 256) bs"
  shows "from_base64url (to_base64url bs) = bs"
proof -
  obtain ss where ss: "to_base64url bs = map b64_char ss" "list_all (\<lambda>s. s < 64) ss" "sextets ss = bs"
    using to_base64url_sextets [OF assms] by blast
  have "takeWhile (\<lambda>c. c \<noteq> CHR ''='') (map b64_char ss) = map b64_char ss"
    using ss(2) b64_val_char by (auto simp: takeWhile_eq_all_conv list_all_iff)
  moreover have "List.map_filter b64_val (map b64_char ss) = ss"
    using ss(2) by (induction ss) (auto simp: List.map_filter_simps b64_val_char)
  ultimately show ?thesis by (simp only: from_base64url_def ss)
qed

section \<open>Signatures\<close>

lemma resign_append: "resign hmac sig (cs @ ds) = resign hmac (resign hmac sig cs) ds"
  by (induction cs arbitrary: sig) simp_all

lemma verify_iff: "verifyMacaroon hmac m secret \<longleftrightarrow>
    from_hex (resign hmac (to_hex (hmac (utf8_bytes secret) (utf8_bytes (mc_id m)))) (mc_caveats m)) =
    from_hex (mc_signature m)"
  by (auto simp: verifyMacaroon_def timingSafeEqual_def Let_def)

lemma verify_addCaveat: "verifyMacaroon hmac m secret \<Longrightarrow> verifyMacaroon hmac (addCaveat hmac m c) secret"
  by (simp add: verify_iff addCaveat_def resign_append)

lemma verify_createMacaroon: "verifyMacaroon hmac (createMacaroon hmac keyId secret loc) secret"
  by (simp add: verify_iff createMacaroon_def)

lemma verify_foldl: "verifyMacaroon hmac m secret \<Longrightarrow> verifyMacaroon hmac (foldl (addCaveat hmac) m ds) secret"
  by (induction ds arbitrary: m) (simp_all add: verify_addCaveat)

text \<open>
  C5. Completeness: a macaroon issued for a key and narrowed by any caveats verifies under the key's secret,
  and so does every further attenuation of a macaroon that verifies, made without the secret.
\<close>

theorem attenuated_verifies:
  "verifyMacaroon hmac (foldl (addCaveat hmac) (createMacaroon hmac keyId secret loc) cs) secret \<and>
   (verifyMacaroon hmac m secret \<longrightarrow> verifyMacaroon hmac (foldl (addCaveat hmac) m ds) secret)"
  by (simp add: verify_createMacaroon verify_foldl)

definition toy_hmac :: hmac where
  "toy_hmac k m = replicate 31 0 @ [(sum_list k + sum_list m) mod 256]"

lemma toy_hmac_shape: "digest_shape toy_hmac"
  by (simp add: digest_shape_def toy_hmac_def list_all_iff)

theorem attenuated_verifies_witness:
  "verifyMacaroon toy_hmac (addCaveat toy_hmac (createMacaroon toy_hmac ''k'' ''s'' ''autorix.console'') ''op = read'') ''s''"
  using attenuated_verifies [of toy_hmac "''k''" "''s''" "''autorix.console''" "[''op = read'']"] by simp

text \<open>The digests of the chain, and every pair of key and message that is hashed for it.\<close>

definition chain :: "hmac \<Rightarrow> string \<Rightarrow> string \<Rightarrow> string list \<Rightarrow> nat list" where
  "chain hmac secret i cs = foldl (\<lambda>d c. hmac d (utf8_bytes c)) (hmac (utf8_bytes secret) (utf8_bytes i)) cs"

fun hashed_from :: "hmac \<Rightarrow> nat list \<Rightarrow> string list \<Rightarrow> (nat list \<times> nat list) list" where
  "hashed_from hmac d [] = []"
| "hashed_from hmac d (c # cs) = (d, utf8_bytes c) # hashed_from hmac (hmac d (utf8_bytes c)) cs"

definition hashed :: "hmac \<Rightarrow> string \<Rightarrow> string \<Rightarrow> string list \<Rightarrow> (nat list \<times> nat list) list" where
  "hashed hmac secret i cs = (utf8_bytes secret, utf8_bytes i) #
     hashed_from hmac (hmac (utf8_bytes secret) (utf8_bytes i)) cs"

lemma hashed_from_snoc:
  "hashed_from hmac d (cs @ [c]) = hashed_from hmac d cs @ [(foldl (\<lambda>d c. hmac d (utf8_bytes c)) d cs, utf8_bytes c)]"
  by (induction cs arbitrary: d) simp_all

lemma hashed_snoc: "hashed hmac secret i (cs @ [c]) = hashed hmac secret i cs @ [(chain hmac secret i cs, utf8_bytes c)]"
  by (simp add: hashed_def hashed_from_snoc chain_def)

lemma chain_snoc: "chain hmac secret i (cs @ [c]) = hmac (chain hmac secret i cs) (utf8_bytes c)"
  by (simp add: chain_def)

lemma chain_length: "digest_shape hmac \<Longrightarrow> length (chain hmac secret i cs) = 32"
proof (cases cs rule: rev_cases)
  case Nil
  assume "digest_shape hmac"
  then show ?thesis unfolding Nil chain_def foldl_Nil by (rule digest_length)
next
  case (snoc ds d)
  assume "digest_shape hmac"
  then show ?thesis unfolding snoc chain_snoc by (rule digest_length)
qed

lemma utf8_bytes_inj: "utf8_bytes s = utf8_bytes t \<Longrightarrow> s = t"
  unfolding utf8_bytes_def by (metis option.inject utf8_decode_concat)

lemma resign_chain:
  "digest_shape hmac \<Longrightarrow>
    from_hex (resign hmac (to_hex (hmac (utf8_bytes secret) (utf8_bytes i))) cs) = chain hmac secret i cs"
proof (induction cs rule: rev_induct)
  case Nil
  then show ?case by (simp add: chain_def digest_shape_def from_to_hex)
next
  case (snoc c cs)
  then show ?case by (simp add: resign_append chain_snoc digest_shape_def from_to_hex)
qed

definition collide :: "hmac \<Rightarrow> (nat list \<times> nat list) list \<Rightarrow> (nat list \<times> nat list) list \<Rightarrow> bool" where
  "collide hmac qs qs' \<longleftrightarrow>
     (\<exists>q \<in> set qs. \<exists>q' \<in> set qs'. q \<noteq> q' \<and> hmac (fst q) (snd q) = hmac (fst q') (snd q'))"

lemma collideI: "(k, m) \<in> set qs \<Longrightarrow> (k', m') \<in> set qs' \<Longrightarrow> (k, m) \<noteq> (k', m') \<Longrightarrow> hmac k m = hmac k' m' \<Longrightarrow>
    collide hmac qs qs'"
  unfolding collide_def by (metis fst_conv snd_conv)

lemma collide_mono: "collide hmac qs qs' \<Longrightarrow> set qs \<subseteq> set rs \<Longrightarrow> set qs' \<subseteq> set rs' \<Longrightarrow> collide hmac rs rs'"
  unfolding collide_def by blast

lemma chain_binding:
  assumes shape: "digest_shape hmac" and len: "length (utf8_bytes secret) \<noteq> 32"
  shows "chain hmac secret i cs = chain hmac secret i' cs' \<Longrightarrow>
    i = i' \<and> cs = cs' \<or> collide hmac (hashed hmac secret i cs) (hashed hmac secret i' cs')"
proof (induction cs arbitrary: cs' rule: rev_induct)
  case Nil
  show ?case
  proof (cases cs' rule: rev_cases)
    case Nil2: Nil
    show ?thesis
    proof (cases "i = i'")
      case False
      then have "collide hmac (hashed hmac secret i []) (hashed hmac secret i' [])"
        using Nil Nil2 utf8_bytes_inj [of i i']
        by (intro collideI [of "utf8_bytes secret" "utf8_bytes i" _ "utf8_bytes secret" "utf8_bytes i'"])
          (auto simp: hashed_def chain_def)
      then show ?thesis by (simp add: Nil2)
    qed (simp add: Nil2)
  next
    case (snoc ds d)
    have "collide hmac (hashed hmac secret i []) (hashed hmac secret i' cs')"
      using Nil snoc len chain_length [OF shape, of secret i' ds]
      by (intro collideI [of "utf8_bytes secret" "utf8_bytes i" _ "chain hmac secret i' ds" "utf8_bytes d"])
        (auto simp: hashed_snoc chain_snoc, auto simp: hashed_def chain_def)
    then show ?thesis ..
  qed
next
  case (snoc c cs)
  show ?case
  proof (cases cs' rule: rev_cases)
    case Nil
    have "collide hmac (hashed hmac secret i (cs @ [c])) (hashed hmac secret i' cs')"
      using snoc.prems Nil len chain_length [OF shape, of secret i cs]
      by (intro collideI [of "chain hmac secret i cs" "utf8_bytes c" _ "utf8_bytes secret" "utf8_bytes i'"])
        (auto simp: hashed_snoc chain_snoc, auto simp: hashed_def chain_def)
    then show ?thesis ..
  next
    case (snoc ds d)
    show ?thesis
    proof (cases "(chain hmac secret i cs, utf8_bytes c) = (chain hmac secret i' ds, utf8_bytes d)")
      case True
      then have "c = d" using utf8_bytes_inj by blast
      from snoc.IH [of ds] True have
        "i = i' \<and> cs = ds \<or> collide hmac (hashed hmac secret i cs) (hashed hmac secret i' ds)" by simp
      then show ?thesis
      proof
        assume "collide hmac (hashed hmac secret i cs) (hashed hmac secret i' ds)"
        then have "collide hmac (hashed hmac secret i (cs @ [c])) (hashed hmac secret i' cs')"
          by (rule collide_mono) (auto simp: hashed_snoc snoc)
        then show ?thesis ..
      qed (use \<open>c = d\<close> snoc in simp)
    next
      case False
      then have "collide hmac (hashed hmac secret i (cs @ [c])) (hashed hmac secret i' cs')"
        using snoc.prems snoc
        by (intro collideI [of "chain hmac secret i cs" "utf8_bytes c" _ "chain hmac secret i' ds" "utf8_bytes d"])
          (auto simp: hashed_snoc chain_snoc)
      then show ?thesis ..
    qed
  qed
qed

text \<open>
  C6. Tampering: two macaroons that carry the same signature and both verify under one secret have the
  same key identifier and the same caveats in the same order, unless two of the inputs hashed for them
  are a collision of the hash. (The console's secrets are longer than a digest.)
\<close>

theorem macaroon_binding:
  "digest_shape hmac \<Longrightarrow> length (utf8_bytes secret) \<noteq> 32 \<Longrightarrow> verifyMacaroon hmac m secret \<Longrightarrow>
    verifyMacaroon hmac m' secret \<Longrightarrow> mc_signature m = mc_signature m' \<Longrightarrow>
    mc_id m = mc_id m' \<and> mc_caveats m = mc_caveats m' \<or>
    collide hmac (hashed hmac secret (mc_id m) (mc_caveats m)) (hashed hmac secret (mc_id m') (mc_caveats m'))"
  by (rule chain_binding) (simp_all add: verify_iff resign_chain)

theorem macaroon_binding_witness:
  "mc_id (createMacaroon toy_hmac ''k'' ''s'' ''a'') = mc_id (createMacaroon toy_hmac ''k'' ''s'' ''b'') \<and>
   mc_caveats (createMacaroon toy_hmac ''k'' ''s'' ''a'') = mc_caveats (createMacaroon toy_hmac ''k'' ''s'' ''b'') \<or>
   collide toy_hmac (hashed toy_hmac ''s'' ''k'' []) (hashed toy_hmac ''s'' ''k'' [])"
  using macaroon_binding [OF toy_hmac_shape, of "''s''" "createMacaroon toy_hmac ''k'' ''s'' ''a''"
      "createMacaroon toy_hmac ''k'' ''s'' ''b''"]
  by (simp add: utf8_bytes_def utf8_def verify_iff createMacaroon_def)

end
