(* ===== verification/KeyStore.thy ===== *)
theory KeyStore
  imports JsCalls Macaroons
begin

text \<open>
  The console's own store of root keys, lib/server/db.ts: one JSON file, read whole by every operation and
  written whole by every change. The file's content is a JSON value the code wrote, or any other text,
  or missing. The contract the routes rely on is a locale; it is interpreted on the lists of
  records the file holds.
\<close>

datatype keyfile = NoFile | JsonFile jsval | RawFile string

record vworld = world +
  k_file :: keyfile
  k_hmac :: hmac
  k_reset :: bool  \<comment> \<open>whether a test double with a \<open>_reset\<close> method replaces \<open>vulcanDb\<close>\<close>
  k_zformat :: "zissue list \<Rightarrow> jsval"  \<comment> \<open>\<open>ZodError.format\<close>\<close>

type_synonym ('w, 'a) vact = "('w vworld_scheme, 'a) js"

section \<open>The operations\<close>

text \<open>What importing the module does.\<close>

definition init_db :: "('w, unit) vact" where
  "init_db = modify (\<lambda>w. if k_file w = NoFile then w\<lparr>k_file := JsonFile (JArr [])\<rparr> else w)"

definition readDB :: "('w, jsval) vact" where
  "readDB = asks (\<lambda>w. case k_file w of
     NoFile \<Rightarrow> JArr []
   | JsonFile v \<Rightarrow> v
   | RawFile t \<Rightarrow> (case json_parse t of Some v \<Rightarrow> v | None \<Rightarrow> JArr []))"

definition writeDB :: "jsval \<Rightarrow> ('w, unit) vact" where
  "writeDB data = modify (\<lambda>w. w\<lparr>k_file := JsonFile (json_clean data)\<rparr>)"

text \<open>\<open>keys.find((k) => k.id === id)\<close> and \<open>findIndex\<close>\<close>

fun find_key :: "jsval \<Rightarrow> jsval list \<Rightarrow> jsval option res" where
  "find_key kid [] = Inr None"
| "find_key kid (k # ks) = (case get_prop k ''id'' of Inl e \<Rightarrow> Inl e
     | Inr v \<Rightarrow> if strict_eq v kid then Inr (Some k) else find_key kid ks)"

fun find_key_index :: "jsval \<Rightarrow> nat \<Rightarrow> jsval list \<Rightarrow> nat option res" where
  "find_key_index kid i [] = Inr None"
| "find_key_index kid i (k # ks) = (case get_prop k ''id'' of Inl e \<Rightarrow> Inl e
     | Inr v \<Rightarrow> if strict_eq v kid then Inr (Some i) else find_key_index kid (Suc i) ks)"

definition getKeys :: "('w, jsval) vact" where
  "getKeys = readDB"

definition getKeyById :: "jsval \<Rightarrow> ('w, jsval) vact" where
  "getKeyById kid = bnd readDB (\<lambda>db.
     bnd (lift (as_array ''readDB()'' ''find'' db)) (\<lambda>ks.
     bnd (lift (find_key kid ks)) (\<lambda>r. ret (case r of Some k \<Rightarrow> k | None \<Rightarrow> JUndef))))"

definition addKey :: "jsval \<Rightarrow> ('w, unit) vact" where
  "addKey key = bnd readDB (\<lambda>db.
     bnd (lift (as_array ''keys'' ''push'' db)) (\<lambda>ks. writeDB (JArr (ks @ [key]))))"

text \<open>\<open>keys[index].revoked = true\<close>\<close>

fun set_revoked :: "jsval \<Rightarrow> jsval" where
  "set_revoked (JObj kvs) = JObj (al_set ''revoked'' (JBool True) kvs)"
| "set_revoked v = v"

definition revokeKey :: "jsval \<Rightarrow> ('w, bool) vact" where
  "revokeKey kid = bnd readDB (\<lambda>db.
     bnd (lift (as_array ''keys'' ''findIndex'' db)) (\<lambda>ks.
     bnd (lift (find_key_index kid 0 ks)) (\<lambda>r.
     case r of
       Some i \<Rightarrow> bnd (writeDB (JArr (ks[i := set_revoked (ks ! i)]))) (\<lambda>_. ret True)
     | None \<Rightarrow> ret False)))"

section \<open>The contract\<close>

text \<open>
  A store of identified records that can be marked dead. The client's lemma: a record once dead is
  found dead for ever, whatever is added or revoked afterwards.
\<close>

datatype ('i, 'k) store_op = Add 'k | Revoke 'i

locale key_store =
  fixes wf :: "'s \<Rightarrow> bool"
    and lookup :: "'i \<Rightarrow> 's \<Rightarrow> 'k option"
    and add :: "'k \<Rightarrow> 's \<Rightarrow> 's"
    and revoke :: "'i \<Rightarrow> 's \<Rightarrow> 's"
    and ident :: "'k \<Rightarrow> 'i"
    and ok :: "'k \<Rightarrow> bool"
    and dead :: "'k \<Rightarrow> bool"
    and kill :: "'k \<Rightarrow> 'k"
  assumes wf_add: "wf s \<Longrightarrow> ok k \<Longrightarrow> wf (add k s)"
    and wf_revoke: "wf s \<Longrightarrow> wf (revoke i s)"
    and lookup_add: "wf s \<Longrightarrow> ok k \<Longrightarrow> lookup i (add k s) =
      (case lookup i s of Some r \<Rightarrow> Some r | None \<Rightarrow> if ident k = i then Some k else None)"
    and lookup_revoke: "wf s \<Longrightarrow> lookup j (revoke i s) =
      (if j = i then map_option kill (lookup i s) else lookup j s)"
    and lookup_ok: "wf s \<Longrightarrow> lookup i s = Some k \<Longrightarrow> ok k"
    and dead_kill: "ok k \<Longrightarrow> dead (kill k)"
begin

fun apply_op :: "('i, 'k) store_op \<Rightarrow> 's \<Rightarrow> 's" where
  "apply_op (Add k) s = add k s"
| "apply_op (Revoke i) s = revoke i s"

fun op_ok :: "('i, 'k) store_op \<Rightarrow> bool" where
  "op_ok (Add k) = ok k"
| "op_ok (Revoke i) = True"

lemma wf_op: "wf s \<Longrightarrow> op_ok opn \<Longrightarrow> wf (apply_op opn s)"
  by (cases opn) (auto simp: wf_add wf_revoke)

lemma dead_step:
  "wf s \<Longrightarrow> op_ok opn \<Longrightarrow> lookup i s = Some k \<Longrightarrow> dead k \<Longrightarrow> \<exists>k'. lookup i (apply_op opn s) = Some k' \<and> dead k'"
  by (cases opn) (auto simp: lookup_add lookup_revoke dest: lookup_ok dead_kill)

lemma dead_forever:
  "wf s \<Longrightarrow> list_all op_ok ops \<Longrightarrow> lookup i s = Some k \<Longrightarrow> dead k \<Longrightarrow>
    \<exists>k'. lookup i (fold apply_op ops s) = Some k' \<and> dead k'"
proof (induction ops arbitrary: s k)
  case Nil
  then show ?case by simp
next
  case (Cons opn ops)
  then obtain k' where "lookup i (apply_op opn s) = Some k'" "dead k'" using dead_step by fastforce
  moreover have "wf (apply_op opn s)" using Cons.prems wf_op by simp
  ultimately show ?case using Cons.IH [of "apply_op opn s" k'] Cons.prems by simp
qed

lemma revoke_forever:
  "wf s \<Longrightarrow> list_all op_ok ops \<Longrightarrow> lookup i s = Some k \<Longrightarrow>
    \<exists>k'. lookup i (fold apply_op ops (revoke i s)) = Some k' \<and> dead k'"
  using dead_forever [of "revoke i s" ops i "kill k"] by (auto simp: lookup_revoke wf_revoke dead_kill lookup_ok)

end

section \<open>The contract holds of the file's records\<close>

text \<open>The records the code itself writes: objects with a string identifier.\<close>

definition key_ok :: "jsval \<Rightarrow> bool" where
  "key_ok k = (case k of JObj kvs \<Rightarrow> (case map_of kvs ''id'' of Some v \<Rightarrow> is_str v | None \<Rightarrow> False) | _ \<Rightarrow> False)"

definition key_ident :: "jsval \<Rightarrow> string" where
  "key_ident k = to_str (member k ''id'')"

definition key_revoked :: "jsval \<Rightarrow> bool" where
  "key_revoked k \<longleftrightarrow> truthy (member k ''revoked'')"

definition keys_wf :: "jsval list \<Rightarrow> bool" where
  "keys_wf ks \<longleftrightarrow> list_all key_ok ks"

definition keys_lookup :: "string \<Rightarrow> jsval list \<Rightarrow> jsval option" where
  "keys_lookup i ks = find_first (\<lambda>k. key_ident k = i) ks"

definition keys_add :: "jsval \<Rightarrow> jsval list \<Rightarrow> jsval list" where
  "keys_add k ks = ks @ [k]"

fun keys_revoke :: "string \<Rightarrow> jsval list \<Rightarrow> jsval list" where
  "keys_revoke i [] = []"
| "keys_revoke i (k # ks) = (if key_ident k = i then set_revoked k # ks else k # keys_revoke i ks)"

lemma key_okE: "key_ok k \<Longrightarrow> (\<And>kvs i. k = JObj kvs \<Longrightarrow> map_of kvs ''id'' = Some (JStr i) \<Longrightarrow> P) \<Longrightarrow> P"
  by (cases k) (auto simp: key_ok_def elim!: is_str.elims split: option.splits)

lemma set_revoked_ok [simp]: "key_ok k \<Longrightarrow> key_ok (set_revoked k)"
  by (elim key_okE) (simp add: key_ok_def)

lemma set_revoked_ident [simp]: "key_ok k \<Longrightarrow> key_ident (set_revoked k) = key_ident k"
  by (elim key_okE) (simp add: key_ident_def)

lemma set_revoked_dead [simp]: "key_ok k \<Longrightarrow> key_revoked (set_revoked k)"
  by (elim key_okE) (simp add: key_revoked_def)

lemma keys_lookup_append: "keys_lookup i (ks @ [k]) =
    (case keys_lookup i ks of Some r \<Rightarrow> Some r | None \<Rightarrow> if key_ident k = i then Some k else None)"
  by (induction ks) (auto simp: keys_lookup_def)

lemma keys_lookup_revoke: "keys_wf ks \<Longrightarrow> keys_lookup j (keys_revoke i ks) =
    (if j = i then map_option set_revoked (keys_lookup i ks) else keys_lookup j ks)"
  by (induction ks) (auto simp: keys_lookup_def keys_wf_def)

lemma keys_revoke_wf: "keys_wf ks \<Longrightarrow> keys_wf (keys_revoke i ks)"
  by (induction ks) (auto simp: keys_wf_def)

lemma keys_lookup_ok: "keys_wf ks \<Longrightarrow> keys_lookup i ks = Some k \<Longrightarrow> key_ok k"
  by (auto simp: keys_lookup_def keys_wf_def list_all_iff dest: find_first_Some)

interpretation keys: key_store keys_wf keys_lookup keys_add keys_revoke key_ident key_ok key_revoked set_revoked
  by unfold_locales
    (auto simp: keys_add_def keys_wf_def keys_lookup_append keys_lookup_revoke [unfolded keys_wf_def]
      keys_revoke_wf [unfolded keys_wf_def] dest: keys_lookup_ok [unfolded keys_wf_def])

section \<open>The operations implement the contract\<close>

lemma key_id_get: "key_ok k \<Longrightarrow> get_prop k ''id'' = Inr (JStr (key_ident k))"
  by (elim key_okE) (simp add: key_ident_def)

lemma find_key_lookup: "keys_wf ks \<Longrightarrow> find_key (JStr i) ks = Inr (keys_lookup i ks)"
  by (induction ks) (auto simp: keys_lookup_def keys_wf_def key_id_get)

lemma find_key_index_revoke:
  "keys_wf ks \<Longrightarrow> (case find_key_index (JStr i) n ks of
     Inr (Some j) \<Rightarrow> n \<le> j \<and> j - n < length ks \<and> ks[j - n := set_revoked (ks ! (j - n))] = keys_revoke i ks \<and>
       keys_lookup i ks \<noteq> None
   | Inr None \<Rightarrow> keys_lookup i ks = None
   | Inl _ \<Rightarrow> False)"
proof (induction ks arbitrary: n)
  case Nil
  then show ?case by (simp add: keys_lookup_def)
next
  case (Cons k ks)
  then have ok: "key_ok k" and wf: "keys_wf ks" by (simp_all add: keys_wf_def)
  show ?case
  proof (cases "key_ident k = i")
    case True
    then show ?thesis by (simp add: key_id_get [OF ok] keys_lookup_def)
  next
    case False
    have "j - n = Suc (j - Suc n)" if "Suc n \<le> j" for j using that by simp
    then show ?thesis using Cons.IH [OF wf, of "Suc n"] False
      by (auto simp: key_id_get [OF ok] keys_lookup_def split: sum.splits option.splits)
  qed
qed

definition holds :: "'w vworld_scheme \<Rightarrow> jsval list \<Rightarrow> bool" where
  "holds w ks \<longleftrightarrow> k_file w = JsonFile (JArr ks) \<and> keys_wf ks"

lemma run_readDB [run]: "holds w ks \<Longrightarrow> readDB w = (Inr (JArr ks), w)"
  by (simp add: readDB_def asks_def holds_def)

lemma bnd_readDB: "holds w ks \<Longrightarrow> bnd readDB f w = f (JArr ks) w"
  by (rule run_bnd) (rule run_readDB)

lemma run_writeDB: "bnd (writeDB v) f w = f () (w\<lparr>k_file := JsonFile (json_clean v)\<rparr>)"
  by (simp add: writeDB_def modify_def bnd_def)

lemma run_getKeyById:
  assumes h: "holds w ks"
  shows "getKeyById (JStr i) w = (Inr (case keys_lookup i ks of Some k \<Rightarrow> k | None \<Rightarrow> JUndef), w)"
proof -
  have "find_key (JStr i) ks = Inr (keys_lookup i ks)"
    using h by (simp add: holds_def find_key_lookup)
  then show ?thesis by (simp only: getKeyById_def bnd_readDB [OF h] run as_array_JArr sum.case)
qed

lemma run_addKey:
  assumes h: "holds w ks"
  shows "addKey k w = (Inr (), w\<lparr>k_file := JsonFile (json_clean (JArr (ks @ [k])))\<rparr>)"
  by (simp only: addKey_def bnd_readDB [OF h] run as_array_JArr sum.case writeDB_def modify_def)

lemma run_revokeKey:
  assumes h: "holds w ks"
  shows "revokeKey (JStr i) w =
    (if keys_lookup i ks = None then (Inr False, w)
     else (Inr True, w\<lparr>k_file := JsonFile (json_clean (JArr (keys_revoke i ks)))\<rparr>))"
proof -
  have wf: "keys_wf ks" using h by (simp add: holds_def)
  note idx = find_key_index_revoke [OF wf, of i 0]
  show ?thesis
  proof (cases "find_key_index (JStr i) 0 ks")
    case (Inl e)
    with idx show ?thesis by simp
  next
    case (Inr r)
    show ?thesis
    proof (cases r)
      case None
      with idx Inr have "keys_lookup i ks = None" by simp
      then show ?thesis
        by (simp only: revokeKey_def bnd_readDB [OF h] run as_array_JArr sum.case Inr None option.case simp_thms if_True)
    next
      case (Some j)
      with idx Inr have "keys_lookup i ks \<noteq> None" "ks[j := set_revoked (ks ! j)] = keys_revoke i ks" by simp_all
      then show ?thesis
        by (simp only: revokeKey_def bnd_readDB [OF h] run as_array_JArr sum.case Inr Some option.case simp_thms if_False
            run_writeDB)
    qed
  qed
qed

text \<open>A file the code wrote holds clean JSON.\<close>

definition clean_keys :: "jsval list \<Rightarrow> bool" where
  "clean_keys ks \<longleftrightarrow> json_clean (JArr ks) = JArr ks"

text \<open>
  C7. Refinement: on a file that holds a list of key records the operations of \<open>vulcanDb\<close> are the
  operations of the abstract store: \<open>getKeyById\<close> looks up, \<open>addKey\<close> adds, \<open>revokeKey\<close> marks the record
  and reports whether there was one.
\<close>

theorem vulcanDb_refines_store:
  fixes w :: "'w vworld_scheme"
  shows "holds w ks \<Longrightarrow> clean_keys (ks @ [k]) \<Longrightarrow> clean_keys (keys_revoke i ks) \<Longrightarrow> key_ok k \<Longrightarrow>
    getKeyById (JStr i) w = (Inr (case keys_lookup i ks of Some r \<Rightarrow> r | None \<Rightarrow> JUndef), w) \<and>
    (fst (addKey k w) = Inr () \<and> holds (snd (addKey k w)) (keys_add k ks)) \<and>
    (fst (revokeKey (JStr i) w) = Inr (keys_lookup i ks \<noteq> None) \<and>
     holds (snd (revokeKey (JStr i) w)) (if keys_lookup i ks = None then ks else keys_revoke i ks))"
proof -
  assume h: "holds w ks" and c: "clean_keys (ks @ [k])" "clean_keys (keys_revoke i ks)" and k: "key_ok k"
  have wf: "keys_wf ks" "keys_wf (keys_add k ks)" "keys_wf (keys_revoke i ks)"
    using h k by (auto simp: holds_def intro: keys.wf_add keys.wf_revoke)
  show ?thesis
    using h wf c
    by (simp add: run_getKeyById [OF h] run_addKey [OF h] run_revokeKey [OF h] clean_keys_def)
      (simp add: holds_def keys_add_def)
qed

definition example_vworld :: "jsval list \<Rightarrow> vworld" where
  "example_vworld ks = world.extend (example_world [] (\<lambda>_. Inl (type_error ''fetch failed'')))
     \<lparr>k_file = JsonFile (JArr ks), k_hmac = toy_hmac, k_reset = False, k_zformat = (\<lambda>_. JNull)\<rparr>"

definition example_key :: "string \<Rightarrow> bool \<Rightarrow> jsval" where
  "example_key i r = JObj [(''id'', JStr i), (''revoked'', JBool r), (''secret'', JStr ''s'')]"

lemma example_holds: "holds (example_vworld [example_key i r]) [example_key i r]"
  by (simp add: holds_def example_vworld_def world.defs keys_wf_def key_ok_def example_key_def)

theorem vulcanDb_refines_store_witness:
  "fst (revokeKey (JStr ''a'') (example_vworld [example_key ''a'' False])) = Inr True"
  using vulcanDb_refines_store [OF example_holds [of "''a''" False], of "example_key ''b'' False" "''a''"]
  by (simp add: clean_keys_def example_key_def key_ok_def keys_lookup_def key_ident_def)

section \<open>Revocation\<close>

text \<open>What the routes do with the store, as a sequence of calls on the file.\<close>

datatype store_call = AddKey jsval | RevokeKey string | GetKey string | GetKeys

fun store_call_run :: "store_call \<Rightarrow> ('w, unit) vact" where
  "store_call_run (AddKey k) = addKey k"
| "store_call_run (RevokeKey i) = bnd (revokeKey (JStr i)) (\<lambda>_. ret ())"
| "store_call_run (GetKey i) = bnd (getKeyById (JStr i)) (\<lambda>_. ret ())"
| "store_call_run GetKeys = bnd getKeys (\<lambda>_. ret ())"

fun store_call_ok :: "store_call \<Rightarrow> bool" where
  "store_call_ok (AddKey k) = key_ok k"
| "store_call_ok _ = True"

text \<open>Writing the file drops undefined members; it keeps a record a record, of the same identifier, and dead.\<close>

lemma map_of_clean:
  "map_of kvs k = Some v \<Longrightarrow> json_keeps v \<Longrightarrow> map_of (map (\<lambda>(k, v). (k, json_clean v)) (filter (\<lambda>(k, v). json_keeps v) kvs)) k = Some (json_clean v)"
  by (induction kvs) (auto split: if_splits)

lemma key_clean:
  assumes "key_ok k"
  shows "key_ok (json_clean k)" "key_ident (json_clean k) = key_ident k"
    "member k ''revoked'' = JBool True \<Longrightarrow> member (json_clean k) ''revoked'' = JBool True"
proof -
  obtain kvs i where k: "k = JObj kvs" "map_of kvs ''id'' = Some (JStr i)" using assms by (rule key_okE)
  note c = map_of_clean [OF k(2), simplified]
  show "key_ok (json_clean k)" "key_ident (json_clean k) = key_ident k"
    using c k by (simp_all add: key_ok_def key_ident_def)
  show "member (json_clean k) ''revoked'' = JBool True" if m: "member k ''revoked'' = JBool True"
  proof -
    have "proto_get [] ''revoked'' \<noteq> JBool True" by (simp add: proto_get_def)
    then have "map_of kvs ''revoked'' = Some (JBool True)" using m by (simp add: k(1) split: option.splits)
    from map_of_clean [OF this] show ?thesis by (simp add: k(1))
  qed
qed

lemma keys_clean: "keys_wf ks \<Longrightarrow> json_clean (JArr ks) = JArr (map json_clean ks)"
  by (auto simp: keys_wf_def list_all_iff elim!: key_okE dest!: bspec)

lemma keys_lookup_clean: "keys_wf ks \<Longrightarrow> keys_lookup i (map json_clean ks) = map_option json_clean (keys_lookup i ks)"
  by (induction ks) (auto simp: keys_lookup_def keys_wf_def key_clean)

definition file_keys :: "'w vworld_scheme \<Rightarrow> jsval list \<Rightarrow> bool" where
  "file_keys w ks \<longleftrightarrow> k_file w = JsonFile (JArr ks) \<and> list_all key_ok ks"

lemma file_keys_holds: "file_keys w ks = holds w ks"
  by (simp add: file_keys_def holds_def keys_wf_def)

text \<open>The file holds key records and the one found by the identifier is revoked.\<close>

definition revoked_in_file :: "string \<Rightarrow> 'w vworld_scheme \<Rightarrow> bool" where
  "revoked_in_file i w \<longleftrightarrow> (\<exists>ks k. holds w ks \<and> keys_lookup i ks = Some k \<and> member k ''revoked'' = JBool True)"

lemma revoked_writeI:
  assumes "keys_wf ks" "keys_lookup i ks = Some k" "member k ''revoked'' = JBool True"
  shows "revoked_in_file i (w\<lparr>k_file := JsonFile (json_clean (JArr ks))\<rparr>)"
proof -
  have "key_ok k" using keys_lookup_ok [OF assms(1,2)] .
  moreover have "keys_wf (map json_clean ks)"
    using assms(1) by (auto simp: keys_wf_def list_all_iff key_clean)
  ultimately show ?thesis
    using assms unfolding revoked_in_file_def keys_clean [OF assms(1)]
    by (intro exI [of _ "map json_clean ks"] exI [of _ "json_clean k"])
      (simp add: holds_def keys_lookup_clean key_clean)
qed

lemma set_revoked_true: "key_ok k \<Longrightarrow> member (set_revoked k) ''revoked'' = JBool True"
  by (elim key_okE) simp

lemma revoked_in_file_step:
  fixes w :: "'w vworld_scheme"
  assumes "revoked_in_file i w" "store_call_ok c"
  shows "revoked_in_file i (snd (store_call_run c w))"
proof -
  obtain ks k where h: "holds w ks" and l: "keys_lookup i ks = Some k" and d: "member k ''revoked'' = JBool True"
    using assms(1) by (auto simp: revoked_in_file_def)
  then have wf: "keys_wf ks" by (simp add: holds_def)
  show ?thesis
  proof (cases c)
    case (AddKey k')
    have "keys_wf (ks @ [k'])" "keys_lookup i (ks @ [k']) = Some k"
      using wf assms(2) l by (simp_all add: AddKey keys_wf_def keys_lookup_append)
    from revoked_writeI [OF this d] show ?thesis by (simp only: AddKey store_call_run.simps run_addKey [OF h] snd_conv)
  next
    case (RevokeKey j)
    have "keys_wf (keys_revoke j ks)" using wf by (rule keys_revoke_wf)
    moreover have "\<exists>k'. keys_lookup i (keys_revoke j ks) = Some k' \<and> member k' ''revoked'' = JBool True"
      using l d wf keys_lookup_ok [OF wf l] by (auto simp: keys_lookup_revoke set_revoked_true)
    ultimately show ?thesis using assms(1)
      by (auto simp: RevokeKey bnd_def ret_def run_revokeKey [OF h] simp del: json_clean.simps intro: revoked_writeI)
  qed (use assms(1) in \<open>simp_all add: bnd_def ret_def getKeys_def run_readDB [OF h] run_getKeyById [OF h]\<close>)
qed

lemma revoked_in_file_steps:
  "revoked_in_file i w \<Longrightarrow> list_all store_call_ok cs \<Longrightarrow> revoked_in_file i (fold (\<lambda>c w. snd (store_call_run c w)) cs w)"
  by (induction cs arbitrary: w) (simp_all add: revoked_in_file_step)

text \<open>
  C8. Revocation is for ever: once \<open>revokeKey\<close> has reported success on a file of key records, any further calls of \<open>addKey\<close>, \<open>revokeKey\<close>,
  \<open>getKeyById\<close> and \<open>getKeys\<close>, in any order and also with the same identifier, leave \<open>getKeyById\<close> finding a record
  of that identifier whose \<open>revoked\<close> is \<open>true\<close>.
\<close>

theorem revocation_permanent:
  fixes w :: "'w vworld_scheme"
  assumes "file_keys w ks" "revokeKey (JStr i) w = (Inr True, w1)" "list_all store_call_ok calls"
  defines "w2 \<equiv> fold (\<lambda>c w. snd (store_call_run c w)) calls w1"
  shows "\<exists>k. getKeyById (JStr i) w2 = (Inr k, w2) \<and> member k ''id'' = JStr i \<and> member k ''revoked'' = JBool True"
proof -
  have h: "holds w ks" using assms(1) by (simp add: file_keys_holds)
  then have wf: "keys_wf ks" by (simp add: holds_def)
  obtain k where l: "keys_lookup i ks = Some k" and w1: "w1 = w\<lparr>k_file := JsonFile (json_clean (JArr (keys_revoke i ks)))\<rparr>"
    using assms(2) by (auto simp: run_revokeKey [OF h] split: if_splits)
  have "keys_lookup i (keys_revoke i ks) = Some (set_revoked k)"
    using l wf by (simp add: keys_lookup_revoke)
  then have "revoked_in_file i w1" unfolding w1
    using set_revoked_true [OF keys_lookup_ok [OF wf l]] by (intro revoked_writeI keys_revoke_wf wf)
  then have "revoked_in_file i w2" unfolding w2_def using assms(3) by (rule revoked_in_file_steps)
  then obtain ks2 k2 where h2: "holds w2 ks2" and l2: "keys_lookup i ks2 = Some k2" and d2: "member k2 ''revoked'' = JBool True"
    by (auto simp: revoked_in_file_def)
  have "key_ident k2 = i" using l2 by (auto simp: keys_lookup_def dest: find_first_Some)
  moreover have "key_ok k2" using h2 l2 by (auto simp: holds_def intro: keys_lookup_ok)
  ultimately have "member k2 ''id'' = JStr i" by (elim key_okE) (simp add: key_ident_def)
  then show ?thesis using run_getKeyById [OF h2, of i] l2 d2 by simp
qed

theorem revocation_permanent_witness:
  "let w = example_vworld [example_key ''a'' False];
       w2 = fold (\<lambda>c w. snd (store_call_run c w)) [AddKey (example_key ''a'' False), RevokeKey ''b'', GetKey ''a'', RevokeKey ''a''] (snd (revokeKey (JStr ''a'') w))
   in \<exists>k. getKeyById (JStr ''a'') w2 = (Inr k, w2) \<and> member k ''id'' = JStr ''a'' \<and> member k ''revoked'' = JBool True"
  unfolding Let_def
proof (rule revocation_permanent)
  let ?w = "example_vworld [example_key ''a'' False]"
  show "file_keys ?w [example_key ''a'' False]" using example_holds by (simp add: file_keys_holds)
  show "revokeKey (JStr ''a'') ?w = (Inr True, snd (revokeKey (JStr ''a'') ?w))"
    using run_revokeKey [OF example_holds [of "''a''" False], of "''a''"] by (simp add: keys_lookup_def key_ident_def example_key_def)
qed (simp add: key_ok_def example_key_def)

end
