(* ===== verification/SchemasEngines.thy ===== *)
theory SchemasEngines
  imports ZodSchema
begin

text \<open>
  The response schemas of the engines, lib/api/schemas of the console, one definition per exported schema.
  Two names the sources use twice carry the name of their file in front.
\<close>

section \<open>lib/api/schemas/aegis.ts\<close>

definition matchConfigSchema :: zschema where
  "matchConfigSchema = ZObject [(''url'', zstr),
     (''methods'', (ZArray zstr))]"

definition handlerConfigSchema :: zschema where
  "handlerConfigSchema = ZObject [(''handler'', zstr),
     (''config'', (zopt (ZRecord zstr ZUnknown)))]"

definition upstreamConfigSchema :: zschema where
  "upstreamConfigSchema = ZObject [(''url'', zstr),
     (''strip_prefix'', (zopt zstr)),
     (''rewrite'', (zopt zstr))]"

definition ruleSchema :: zschema where
  "ruleSchema = ZObject [(''id'', zstr),
     (''description'', (zopt zstr)),
     (''order_idx'', (zopt ZNumber)),
     (''match'', matchConfigSchema),
     (''authenticators'', (ZArray handlerConfigSchema)),
     (''authorizer'', handlerConfigSchema),
     (''mutators'', (ZArray handlerConfigSchema)),
     (''upstream'', upstreamConfigSchema)]"

definition ruleListSchema :: zschema where
  "ruleListSchema = pagedListSchema ruleSchema"

definition deleteRuleResponseSchema :: zschema where
  "deleteRuleResponseSchema = ZObject [(''status'', zstr)]"

definition aegis_sessionSchema :: zschema where
  "aegis_sessionSchema = ZObject [(''subject'', (ZDefault zstr (JStr []))),
     (''scopes'', (ZDefault (ZArray zstr) (JArr []))),
     (''extra'', (ZDefault (ZRecord zstr ZUnknown) (JObj []))),
     (''headers'', (ZDefault (ZRecord zstr (ZUnion [zstr, (ZArray zstr)])) (JObj [])))]"

definition pipelineTraceStepSchema :: zschema where
  "pipelineTraceStepSchema = ZObject [(''stage'', zstr),
     (''handler'', (zopt zstr)),
     (''status'', zstr),
     (''details'', (zopt zstr)),
     (''allowed'', (zopt ZBoolean)),
     (''session'', (zopt aegis_sessionSchema)),
     (''mutated_headers'', (zopt (ZRecord zstr (ZUnion [zstr, (ZArray zstr)])))),
     (''target_url'', (zopt zstr)),
     (''error'', (zopt zstr))]"

definition pipelineTraceSchema :: zschema where
  "pipelineTraceSchema = ZObject [(''matched_rule_id'', (zopt zstr)),
     (''steps'', (ZArray pipelineTraceStepSchema)),
     (''final_verdict'', zstr),
     (''error'', (zopt zstr))]"

definition testMatchResponseSchema :: zschema where
  "testMatchResponseSchema = ZObject [(''matched'', ZBoolean),
     (''rule'', (zopt ruleSchema)),
     (''trace'', (zopt pipelineTraceSchema))]"

definition handlerInfoSchema :: zschema where
  "handlerInfoSchema = ZObject [(''name'', zstr),
     (''description'', zstr),
     (''config_schema'', (ZDefault (ZRecord zstr ZUnknown) (JObj [])))]"

definition handlerCatalogueSchema :: zschema where
  "handlerCatalogueSchema = ZObject [(''authenticators'', (ZDefault (ZArray handlerInfoSchema) (JArr []))),
     (''authorizers'', (ZDefault (ZArray handlerInfoSchema) (JArr []))),
     (''mutators'', (ZDefault (ZArray handlerInfoSchema) (JArr [])))]"

definition ruleVersionSchema :: zschema where
  "ruleVersionSchema = ZObject [(''version'', ZNumber),
     (''description'', (zopt zstr)),
     (''rules'', (ZArray ruleSchema)),
     (''created_at'', zstr)]"

definition ruleVersionListSchema :: zschema where
  "ruleVersionListSchema = ZArray ruleVersionSchema"

definition reorderRulesRequestSchema :: zschema where
  "reorderRulesRequestSchema = ZObject [(''ids'', (ZArray zstr))]"

definition reorderResponseSchema :: zschema where
  "reorderResponseSchema = ZObject [(''status'', zstr)]"

definition rollbackResponseSchema :: zschema where
  "rollbackResponseSchema = ZObject [(''status'', zstr),
     (''version'', (zopt ZNumber))]"

section \<open>lib/api/schemas/hermes.ts\<close>

definition certificateInfoSchema :: zschema where
  "certificateInfoSchema = ZObject [(''subject'', zstr),
     (''issuer'', zstr),
     (''serial_number'', zstr),
     (''not_before'', zstr),
     (''not_after'', zstr),
     (''expired'', ZBoolean),
     (''expiring_soon'', ZBoolean),
     (''days_until_expiry'', ZNumber),
     (''warning'', (zopt zstr))]"

definition samlProviderSchema :: zschema where
  "samlProviderSchema = ZObject [(''id'', zstr),
     (''display_name'', zstr),
     (''idp_entity_id'', zstr),
     (''idp_sso_url'', zstr),
     (''idp_certificate_pem'', zstr),
     (''idp_cert_expires_at'', (zopt zstr)),
     (''sp_entity_id'', zstr),
     (''attribute_mapping'', (ZRecord zstr zstr)),
     (''enabled'', ZBoolean),
     (''certificates'', (zopt (ZArray certificateInfoSchema))),
     (''warnings'', (zopt (ZArray zstr))),
     (''created_at'', zstr),
     (''updated_at'', zstr)]"

definition samlProviderListSchema :: zschema where
  "samlProviderListSchema = pagedListSchema samlProviderSchema"

definition scimEmailSchema :: zschema where
  "scimEmailSchema = ZObject [(''value'', zstr),
     (''type'', zstr),
     (''primary'', ZBoolean)]"

definition scimMetaSchema :: zschema where
  "scimMetaSchema = ZObject [(''resourceType'', zstr),
     (''created'', zstr),
     (''lastModified'', zstr),
     (''location'', zstr)]"

definition scimUserSchema :: zschema where
  "scimUserSchema = ZObject [(''schemas'', (ZArray zstr)),
     (''id'', zstr),
     (''externalId'', (zopt zstr)),
     (''userName'', zstr),
     (''displayName'', (zopt zstr)),
     (''emails'', (ZArray scimEmailSchema)),
     (''active'', ZBoolean),
     (''meta'', scimMetaSchema)]"

definition scimListResponseSchema :: zschema where
  "scimListResponseSchema = ZObject [(''schemas'', (ZArray zstr)),
     (''totalResults'', ZNumber),
     (''startIndex'', ZNumber),
     (''itemsPerPage'', ZNumber),
     (''Resources'', (ZArray scimUserSchema))]"

definition scimMemberSchema :: zschema where
  "scimMemberSchema = ZObject [(''value'', zstr),
     (''display'', (zopt zstr))]"

definition scimGroupSchema :: zschema where
  "scimGroupSchema = ZObject [(''schemas'', (ZArray zstr)),
     (''id'', zstr),
     (''displayName'', zstr),
     (''members'', (ZDefault (ZArray scimMemberSchema) (JArr []))),
     (''meta'', scimMetaSchema)]"

definition scimGroupListResponseSchema :: zschema where
  "scimGroupListResponseSchema = ZObject [(''schemas'', (ZArray zstr)),
     (''totalResults'', ZNumber),
     (''startIndex'', ZNumber),
     (''itemsPerPage'', ZNumber),
     (''Resources'', (ZArray scimGroupSchema))]"

definition scimSyncHistorySchema :: zschema where
  "scimSyncHistorySchema = ZObject [(''id'', zstr),
     (''provider_id'', (zopt zstr)),
     (''resource_type'', zstr),
     (''status'', zstr),
     (''total_records'', ZNumber),
     (''created_count'', ZNumber),
     (''updated_count'', ZNumber),
     (''deleted_count'', ZNumber),
     (''error_count'', ZNumber),
     (''errors'', (ZDefault (ZArray zstr) (JArr []))),
     (''started_at'', zstr),
     (''completed_at'', (zopt zstr))]"

definition scimSyncHistoryListSchema :: zschema where
  "scimSyncHistoryListSchema = ZArray scimSyncHistorySchema"

section \<open>lib/api/schemas/identity.ts\<close>

definition identitySchema :: zschema where
  "identitySchema = ZObject [(''id'', zstr),
     (''schema_id'', zstr),
     (''traits'', (ZRecord zstr ZUnknown)),
     (''state'', zstr),
     (''created_at'', zstr),
     (''updated_at'', zstr)]"

definition identityListSchema :: zschema where
  "identityListSchema = pagedListSchema identitySchema"

definition paginatedIdentityListSchema :: zschema where
  "paginatedIdentityListSchema = paginatedListSchema identitySchema"

definition identity_sessionSchema :: zschema where
  "identity_sessionSchema = ZObject [(''id'', zstr),
     (''identity_id'', zstr),
     (''identity'', (zopt identitySchema)),
     (''token'', (zopt zstr)),
     (''expires_at'', zstr),
     (''authenticated_at'', zstr)]"

definition sessionListSchema :: zschema where
  "sessionListSchema = ZArray identity_sessionSchema"

definition paginatedSessionListSchema :: zschema where
  "paginatedSessionListSchema = paginatedListSchema identity_sessionSchema"

definition credentialInspectionSchema :: zschema where
  "credentialInspectionSchema = ZObject [(''id'', zstr),
     (''identity_id'', zstr),
     (''credential_type'', zstr),
     (''created_at'', zstr),
     (''updated_at'', zstr),
     (''force_rotation'', (zopt ZBoolean))]"

definition credentialListSchema :: zschema where
  "credentialListSchema = ZArray credentialInspectionSchema"

definition resetPasswordResultSchema :: zschema where
  "resetPasswordResultSchema = ZObject [(''status'', zstr),
     (''temporary_password'', (ZNullable (zopt zstr))),
     (''force_rotation'', ZBoolean)]"

definition recoveryLinkResultSchema :: zschema where
  "recoveryLinkResultSchema = ZObject [(''recovery_link'', zstr),
     (''token'', zstr),
     (''expires_at'', zstr)]"

definition mfaStatusSchema :: zschema where
  "mfaStatusSchema = ZObject [(''totp_enabled'', ZBoolean),
     (''confirmed'', (zopt ZBoolean)),
     (''backup_codes_remaining'', (zopt ZNumber)),
     (''webauthn_enabled'', (zopt ZBoolean))]"

definition identitySchemaDefinitionSchema :: zschema where
  "identitySchemaDefinitionSchema = ZObject [(''id'', zstr),
     (''name'', zstr),
     (''schema'', (ZRecord zstr ZUnknown)),
     (''version'', (zopt ZNumber)),
     (''created_at'', (zopt zstr)),
     (''updated_at'', (zopt zstr))]"

definition identitySchemaListSchema :: zschema where
  "identitySchemaListSchema = ZArray identitySchemaDefinitionSchema"

definition bulkImportResultSchema :: zschema where
  "bulkImportResultSchema = ZObject [(''total'', ZNumber),
     (''succeeded'', ZNumber),
     (''failed'', ZNumber),
     (''errors'', (ZArray (ZObject [(''row'', ZNumber),
     (''email'', (zopt zstr)),
     (''error'', zstr)])))]"

definition registrationResponseSchema :: zschema where
  "registrationResponseSchema = ZObject [(''session'', identity_sessionSchema),
     (''identity'', identitySchema)]"

section \<open>lib/api/schemas/nexus.ts\<close>

definition tupleSchema :: zschema where
  "tupleSchema = ZObject [(''namespace'', zstr),
     (''object'', zstr),
     (''relation'', zstr),
     (''subject_namespace'', zstr),
     (''subject_id'', zstr),
     (''subject_relation'', (zopt zstr)),
     (''caveat_name'', (zopt zstr)),
     (''caveat_context'', (zopt (ZRecord zstr ZUnknown)))]"

definition tupleListSchema :: zschema where
  "tupleListSchema = pagedListSchema tupleSchema"

definition paginatedTupleListSchema :: zschema where
  "paginatedTupleListSchema = paginatedListSchema tupleSchema"

definition writeTuplesResponseSchema :: zschema where
  "writeTuplesResponseSchema = tupleListSchema"

definition deleteTuplesResponseSchema :: zschema where
  "deleteTuplesResponseSchema = ZObject [(''status'', zstr)]"

definition caveatResultSchema :: zschema where
  "caveatResultSchema = ZObject [(''caveat_name'', zstr),
     (''allowed'', ZBoolean),
     (''reason'', (zopt zstr)),
     (''context'', (zopt (ZRecord zstr ZUnknown)))]"

definition decisionNodeSchema :: zschema where
  "decisionNodeSchema = ZLazy (ZObject [(''node_id'', (zopt zstr)),
     (''namespace'', zstr),
     (''object'', zstr),
     (''relation'', zstr),
     (''subject'', (zopt (ZObject [(''namespace'', (zopt zstr)),
     (''object'', (zopt zstr)),
     (''relation'', (zopt zstr))]))),
     (''allowed'', ZBoolean),
     (''reason'', (zopt zstr)),
     (''caveat'', (zopt caveatResultSchema)),
     (''rewrite_type'', (zopt zstr)),
     (''children'', (zopt (ZArray ZSelf)))])"

definition checkResponseSchema :: zschema where
  "checkResponseSchema = ZObject [(''allowed'', ZBoolean),
     (''reason'', zstr),
     (''trace'', (zopt decisionNodeSchema))]"

definition expandTreeNodeSchema :: zschema where
  "expandTreeNodeSchema = ZLazy (ZObject [(''type'', zstr),
     (''tuple'', (zopt tupleSchema)),
     (''children'', (zopt (ZArray ZSelf)))])"

definition expandResponseSchema :: zschema where
  "expandResponseSchema = ZObject [(''tree'', (zopt expandTreeNodeSchema))]"

definition lookupSubjectsResponseSchema :: zschema where
  "lookupSubjectsResponseSchema = ZObject [(''subjects'', (ZArray (ZObject [(''namespace'', zstr),
     (''object'', zstr),
     (''relation'', (zopt zstr))])))]"

definition lookupResourcesResponseSchema :: zschema where
  "lookupResourcesResponseSchema = ZObject [(''resources'', (ZArray zstr))]"

definition rewriteRuleSchema :: zschema where
  "rewriteRuleSchema = ZLazy (ZObject [(''type'', zstr),
     (''relation'', (zopt zstr)),
     (''tupleset_relation'', (zopt zstr)),
     (''computed_relation'', (zopt zstr)),
     (''children'', (zopt (ZArray ZSelf)))])"

definition relationDefinitionSchema :: zschema where
  "relationDefinitionSchema = ZObject [(''rewrite'', (zopt rewriteRuleSchema))]"

definition namespaceSchema :: zschema where
  "namespaceSchema = ZObject [(''name'', zstr),
     (''relations'', (ZDefault (ZRecord zstr relationDefinitionSchema) (JObj []))),
     (''created_at'', (zopt zstr)),
     (''updated_at'', (zopt zstr))]"

definition namespaceListSchema :: zschema where
  "namespaceListSchema = ZArray namespaceSchema"

definition nexus_caveatSchema :: zschema where
  "nexus_caveatSchema = ZObject [(''name'', zstr),
     (''cel_expression'', zstr),
     (''created_at'', (zopt zstr))]"

definition caveatListSchema :: zschema where
  "caveatListSchema = ZArray nexus_caveatSchema"

section \<open>lib/api/schemas/oauth2.ts\<close>

definition oauth2ClientSchema :: zschema where
  "oauth2ClientSchema = ZObject [(''client_id'', zstr),
     (''client_name'', zstr),
     (''grant_types'', (ZArray zstr)),
     (''response_types'', (ZArray zstr)),
     (''redirect_uris'', (ZArray zstr)),
     (''scopes'', (ZArray zstr)),
     (''allowed_audiences'', (ZDefault (ZArray zstr) (JArr []))),
     (''is_public'', ZBoolean),
     (''previous_secret_expires_at'', (zopt (ZNullable zstr))),
     (''has_previous_secret'', (zopt ZBoolean)),
     (''created_at'', zstr),
     (''updated_at'', zstr)]"

definition oauth2ClientListSchema :: zschema where
  "oauth2ClientListSchema = pagedListSchema oauth2ClientSchema"

definition rotateSecretResponseSchema :: zschema where
  "rotateSecretResponseSchema = ZObject [(''client_id'', zstr),
     (''client_secret'', zstr),
     (''previous_secret_expires_at'', (zopt (ZNullable zstr)))]"

definition oauth2ScopeSchema :: zschema where
  "oauth2ScopeSchema = ZObject [(''name'', zstr),
     (''description'', (ZDefault zstr (JStr []))),
     (''claims'', (ZDefault (ZArray zstr) (JArr []))),
     (''created_at'', (zopt zstr))]"

definition oauth2ScopeListSchema :: zschema where
  "oauth2ScopeListSchema = pagedListSchema oauth2ScopeSchema"

definition createScopeRequestSchema :: zschema where
  "createScopeRequestSchema = ZObject [(''name'', (ZString [MinLen 1 None])),
     (''description'', (ZDefault zstr (JStr []))),
     (''claims'', (ZDefault (ZArray zstr) (JArr [])))]"

definition introspectRequestSchema :: zschema where
  "introspectRequestSchema = ZObject [(''token'', (ZString [MinLen 1 None])),
     (''token_type_hint'', (zopt zstr))]"

definition introspectResponseSchema :: zschema where
  "introspectResponseSchema = ZObject [(''active'', ZBoolean),
     (''scope'', (zopt zstr)),
     (''client_id'', (zopt zstr)),
     (''sub'', (zopt zstr)),
     (''exp'', (zopt ZNumber)),
     (''iat'', (zopt ZNumber)),
     (''iss'', (zopt zstr)),
     (''token_type'', (zopt zstr))]"

definition revokeTokenRequestSchema :: zschema where
  "revokeTokenRequestSchema = ZObject [(''token'', (ZString [MinLen 1 None])),
     (''token_type_hint'', (zopt zstr))]"

definition revokeTokenResponseSchema :: zschema where
  "revokeTokenResponseSchema = ZObject [(''status'', zstr)]"

definition rotateKeysResponseSchema :: zschema where
  "rotateKeysResponseSchema = ZObject [(''status'', zstr),
     (''new_kid'', (zopt zstr)),
     (''active_keys_count'', (zopt ZNumber))]"

definition oauth2GrantSchema :: zschema where
  "oauth2GrantSchema = ZObject [(''grant_id'', zstr),
     (''client_id'', zstr),
     (''subject'', zstr),
     (''scopes'', (ZArray zstr)),
     (''created_at'', zstr),
     (''expires_at'', (zopt (ZNullable zstr)))]"

definition oauth2GrantListSchema :: zschema where
  "oauth2GrantListSchema = pagedListSchema oauth2GrantSchema"

definition jwkSchema :: zschema where
  "jwkSchema = ZObject [(''kty'', zstr),
     (''use'', zstr),
     (''alg'', zstr),
     (''kid'', zstr),
     (''n'', zstr),
     (''e'', zstr)]"

definition jwksSchema :: zschema where
  "jwksSchema = ZObject [(''keys'', (ZArray jwkSchema))]"

section \<open>lib/api/schemas/themis.ts\<close>

definition policySchema :: zschema where
  "policySchema = ZObject [(''ID'', zstr),
     (''TenantID'', (ZDefault (zopt zstr) (JStr ''default''))),
     (''Name'', zstr),
     (''Description'', (ZDefault (zopt zstr) (JStr []))),
     (''Expression'', zstr),
     (''Priority'', (ZDefault (zopt ZNumber) (jint 1))),
     (''Enabled'', (ZDefault (zopt ZBoolean) (JBool True))),
     (''Labels'', (ZDefault (zopt (ZRecord zstr zstr)) (JObj []))),
     (''CreatedAt'', (ZDefault (zopt zstr) (JStr []))),
     (''UpdatedAt'', (ZDefault (zopt zstr) (JStr [])))]"

definition policyListSchema :: zschema where
  "policyListSchema = pagedListSchema policySchema"

definition paginatedPolicyListSchema :: zschema where
  "paginatedPolicyListSchema = paginatedListSchema policySchema"

definition policyResultSchema :: zschema where
  "policyResultSchema = ZObject [(''PolicyID'', (ZDefault (zopt zstr) (JStr []))),
     (''PolicyName'', (ZDefault (zopt zstr) (JStr []))),
     (''Passed'', ZBoolean),
     (''Error'', (zopt zstr)),
     (''Expression'', (ZDefault (zopt zstr) (JStr [])))]"

definition evaluateResponseSchema :: zschema where
  "evaluateResponseSchema = ZObject [(''AllPassed'', ZBoolean),
     (''Results'', (ZDefault (zopt (ZArray policyResultSchema)) (JArr []))),
     (''TotalEvaluated'', (ZDefault (zopt ZNumber) (jint 0)))]"

definition deletePolicyResponseSchema :: zschema where
  "deletePolicyResponseSchema = ZObject [(''status'', zstr)]"

definition goPolicySchema :: zschema where
  "goPolicySchema = ZObject [(''id'', zstr),
     (''tenant_id'', (ZDefault (zopt zstr) (JStr ''default''))),
     (''name'', zstr),
     (''description'', (ZDefault (zopt zstr) (JStr []))),
     (''expression'', zstr),
     (''priority'', (ZDefault (zopt ZNumber) (jint 1))),
     (''enabled'', (ZDefault (zopt ZBoolean) (JBool True))),
     (''labels'', (ZDefault (zopt (ZRecord zstr zstr)) (JObj []))),
     (''created_at'', (ZDefault (zopt zstr) (JStr []))),
     (''updated_at'', (ZDefault (zopt zstr) (JStr [])))]"

definition goPolicyListSchema :: zschema where
  "goPolicyListSchema = ZArray goPolicySchema"

definition policyVersionSchema :: zschema where
  "policyVersionSchema = ZObject [(''id'', zstr),
     (''policy_id'', zstr),
     (''tenant_id'', (ZDefault (zopt zstr) (JStr ''default''))),
     (''version'', ZNumber),
     (''name'', zstr),
     (''description'', (ZDefault (zopt zstr) (JStr []))),
     (''expression'', zstr),
     (''priority'', (ZDefault (zopt ZNumber) (jint 1))),
     (''enabled'', (ZDefault (zopt ZBoolean) (JBool True))),
     (''labels'', (ZDefault (zopt (ZRecord zstr zstr)) (JObj []))),
     (''created_at'', (ZDefault (zopt zstr) (JStr [])))]"

definition policyVersionListSchema :: zschema where
  "policyVersionListSchema = ZArray policyVersionSchema"

definition policyFixtureSchema :: zschema where
  "policyFixtureSchema = ZObject [(''id'', zstr),
     (''policy_id'', zstr),
     (''tenant_id'', (ZDefault (zopt zstr) (JStr ''default''))),
     (''name'', zstr),
     (''description'', (ZDefault (zopt zstr) (JStr []))),
     (''payload'', (ZDefault (zopt (ZRecord zstr ZUnknown)) (JObj []))),
     (''expected_result'', ZBoolean),
     (''created_at'', (ZDefault (zopt zstr) (JStr []))),
     (''updated_at'', (ZDefault (zopt zstr) (JStr [])))]"

definition policyFixtureListSchema :: zschema where
  "policyFixtureListSchema = ZArray policyFixtureSchema"

definition fixtureRunResultSchema :: zschema where
  "fixtureRunResultSchema = ZObject [(''fixture_id'', zstr),
     (''fixture_name'', zstr),
     (''expected_result'', ZBoolean),
     (''actual_result'', ZBoolean),
     (''passed'', ZBoolean),
     (''error'', (ZDefault (zopt zstr) (JStr [])))]"

definition testSuiteResultSchema :: zschema where
  "testSuiteResultSchema = ZObject [(''policy_id'', zstr),
     (''all_passed'', ZBoolean),
     (''total_tests'', ZNumber),
     (''passed_tests'', ZNumber),
     (''failed_tests'', ZNumber),
     (''results'', (ZArray fixtureRunResultSchema))]"

definition validationErrorSchema :: zschema where
  "validationErrorSchema = ZObject [(''line'', (ZDefault (zopt ZNumber) (jint 0))),
     (''column'', (ZDefault (zopt ZNumber) (jint 0))),
     (''message'', zstr)]"

definition validationResultSchema :: zschema where
  "validationResultSchema = ZObject [(''valid'', ZBoolean),
     (''variables'', (ZDefault (zopt (ZArray zstr)) (JArr []))),
     (''errors'', (ZDefault (zopt (ZArray validationErrorSchema)) (JArr [])))]"

definition dryRunResultSchema :: zschema where
  "dryRunResultSchema = ZObject [(''passed'', ZBoolean),
     (''error'', (ZDefault (zopt zstr) (JStr [])))]"

section \<open>lib/api/schemas/vulcan.ts\<close>

definition apiKeySchema :: zschema where
  "apiKeySchema = ZObject [(''id'', zstr),
     (''key_prefix'', zstr),
     (''key_hint'', zstr),
     (''name'', zstr),
     (''description'', (zopt zstr)),
     (''owner_id'', zstr),
     (''scopes'', (ZArray zstr)),
     (''expires_at'', (zopt zstr)),
     (''last_used_at'', (zopt zstr)),
     (''call_count'', (ZDefault (zopt ZNumber) (jint 0))),
     (''last_source_ip'', (zopt zstr)),
     (''grace_period_expires_at'', (zopt zstr)),
     (''state'', zstr),
     (''created_at'', zstr),
     (''updated_at'', zstr)]"

definition apiKeyListSchema :: zschema where
  "apiKeyListSchema = pagedListSchema apiKeySchema"

definition paginatedApiKeyListSchema :: zschema where
  "paginatedApiKeyListSchema = paginatedListSchema apiKeySchema"

definition vulcan_caveatSchema :: zschema where
  "vulcan_caveatSchema = ZObject [(''predicate'', zstr)]"

definition macaroonSchema :: zschema where
  "macaroonSchema = ZObject [(''location'', zstr),
     (''key_id'', zstr),
     (''caveats'', (ZArray vulcan_caveatSchema)),
     (''signature'', zstr)]"

definition createKeyResponseSchema :: zschema where
  "createKeyResponseSchema = ZObject [(''api_key'', apiKeySchema),
     (''raw_token'', zstr),
     (''macaroon'', macaroonSchema)]"

definition rotateKeyResponseSchema :: zschema where
  "rotateKeyResponseSchema = ZObject [(''api_key'', apiKeySchema),
     (''raw_token'', zstr),
     (''macaroon'', macaroonSchema)]"

definition scopeSchema :: zschema where
  "scopeSchema = ZObject [(''name'', zstr),
     (''description'', (ZDefault (zopt zstr) (JStr []))),
     (''created_at'', (zopt zstr))]"

definition scopeListSchema :: zschema where
  "scopeListSchema = ZArray scopeSchema"

definition verifyKeyResponseSchema :: zschema where
  "verifyKeyResponseSchema = ZObject [(''valid'', ZBoolean),
     (''error'', (zopt zstr))]"

definition attenuateResponseSchema :: zschema where
  "attenuateResponseSchema = macaroonSchema"

end
