(* ===== verification/SchemasPlatform.thy ===== *)
theory SchemasPlatform
  imports ZodSchema
begin

text \<open>
  The schemas of the platform's own services (audit, compliance, diagnostics, explorer, governance, health,
  observability, operators) and of the key form, one definition per exported schema.
\<close>

section \<open>lib/api/schemas/audit.ts\<close>

definition auditOutcomeSchema :: zschema where
  "auditOutcomeSchema = ZEnum [''success'', ''denied'', ''failed'']"

text \<open>
  The normalization at the end of \<open>auditEntrySchema\<close>: the names of two engine versions are merged and
  missing values get defaults. The first argument is the current instant, read when an entry has no
  timestamp at all.
\<close>

definition auditEntrySchema_transform :: "string \<Rightarrow> jsval \<Rightarrow> jsval" where
  "auditEntrySchema_transform now data = JObj [
     (''id'', member data ''id''),
     (''timestamp'', js_or (js_or (member data ''created_at'') (member data ''timestamp'')) (JStr now)),
     (''actor'', js_or (js_or (member data ''actor'') (member data ''actor_id'')) (JStr ''system'')),
     (''actor_type'', js_or (member data ''actor_type'') (JStr ''operator'')),
     (''action'', member data ''action''),
     (''resource_type'', member data ''resource_type''),
     (''resource_id'', member data ''resource_id''),
     (''environment'', js_or (member data ''environment'') (JStr ''production'')),
     (''request_id'', js_or (member data ''request_id'') (JStr [])),
     (''ip_address'', js_or (js_or (member data ''source_ip'') (member data ''ip_address'')) (JStr ''127.0.0.1'')),
     (''user_agent'', js_or (member data ''user_agent'') (JStr [])),
     (''outcome'', js_or (member data ''outcome'') (JStr ''success'')),
     (''reason'', member data ''reason''),
     (''before_state'', member data ''before_state''),
     (''after_state'', member data ''after_state''),
     (''hash'', js_or (js_or (member data ''record_hash'') (member data ''hash'')) (JStr [])),
     (''prev_hash'', js_or (member data ''prev_hash'') (JStr [])),
     (''sequence'', js_coalesce (member data ''sequence'') (jint 0))]"

definition auditEntrySchema :: zschema where
  "auditEntrySchema = ZTransform (ZObject [(''id'', zstr),
     (''created_at'', (zopt zstr)),
     (''timestamp'', (zopt zstr)),
     (''actor'', (zopt zstr)),
     (''actor_id'', (zopt zstr)),
     (''actor_type'', (ZDefault (zopt zstr) (JStr ''operator''))),
     (''action'', zstr),
     (''resource_type'', zstr),
     (''resource_id'', zstr),
     (''environment'', (ZDefault (zopt zstr) (JStr ''production''))),
     (''request_id'', (ZDefault (zopt zstr) (JStr []))),
     (''ip_address'', (zopt zstr)),
     (''source_ip'', (zopt zstr)),
     (''user_agent'', (ZDefault (zopt zstr) (JStr []))),
     (''outcome'', (ZDefault (zopt zstr) (JStr ''success''))),
     (''reason'', (zopt zstr)),
     (''before_state'', (zopt (ZNullable (ZRecord zstr ZUnknown)))),
     (''after_state'', (zopt (ZNullable (ZRecord zstr ZUnknown)))),
     (''hash'', (zopt zstr)),
     (''record_hash'', (zopt zstr)),
     (''prev_hash'', (ZDefault (zopt zstr) (JStr []))),
     (''sequence'', (ZDefault (zopt ZNumber) (jint 0)))]) auditEntrySchema_transform"

definition auditListResponseSchema :: zschema where
  "auditListResponseSchema = ZUnion [(ZArray auditEntrySchema), (ZObject [(''data'', (ZArray auditEntrySchema)),
     (''next_cursor'', (zopt zstr)),
     (''has_more'', (zopt ZBoolean)),
     (''total_count'', (zopt ZNumber))])]"

definition auditVerificationSchema :: zschema where
  "auditVerificationSchema = ZObject [(''verified'', ZBoolean),
     (''chain_length'', ZNumber),
     (''head_hash'', zstr),
     (''genesis_hash'', (zopt zstr)),
     (''broken_link'', (zopt (ZNullable (ZObject [(''id'', zstr),
     (''sequence'', ZNumber),
     (''expected_prev_hash'', zstr),
     (''actual_prev_hash'', zstr)])))),
     (''verified_at'', zstr),
     (''algorithm'', (ZDefault (zopt zstr) (JStr ''SHA-256'')))]"

definition auditExportResponseSchema :: zschema where
  "auditExportResponseSchema = ZObject [(''format'', zstr),
     (''content'', (zopt zstr)),
     (''download_url'', (zopt zstr)),
     (''filename'', (zopt zstr)),
     (''record_count'', (zopt ZNumber)),
     (''generated_at'', (zopt zstr)),
     (''signature'', (zopt zstr))]"

section \<open>lib/api/schemas/compliance.ts\<close>

definition complianceControlStatusSchema :: zschema where
  "complianceControlStatusSchema = ZEnum [''compliant'', ''needs_review'', ''non_compliant'']"

definition complianceEvidenceItemSchema :: zschema where
  "complianceEvidenceItemSchema = ZObject [(''id'', zstr),
     (''framework'', zstr),
     (''control_id'', zstr),
     (''control_name'', zstr),
     (''status'', complianceControlStatusSchema),
     (''evidence_type'', zstr),
     (''description'', zstr),
     (''engine'', (zopt zstr)),
     (''last_evaluated_at'', zstr),
     (''evaluator'', zstr),
     (''artifacts_count'', (ZDefault (zopt ZNumber) (jint 1))),
     (''details'', (zopt (ZRecord zstr ZUnknown)))]"

definition complianceEvidenceResponseSchema :: zschema where
  "complianceEvidenceResponseSchema = ZUnion [(ZArray complianceEvidenceItemSchema), (ZObject [(''data'', (ZArray complianceEvidenceItemSchema)),
     (''summary'', (zopt (ZObject [(''total_controls'', (zopt ZNumber)),
     (''compliant_controls'', (zopt ZNumber)),
     (''review_required'', (zopt ZNumber)),
     (''score_percent'', (zopt ZNumber))])))])]"

definition compliancePackageRequestSchema :: zschema where
  "compliancePackageRequestSchema = ZObject [(''framework'', zstr),
     (''period'', (zopt zstr)),
     (''from'', (zopt zstr)),
     (''to'', (zopt zstr)),
     (''include_audit_trail'', (ZDefault (zopt ZBoolean) (JBool True))),
     (''include_access_review'', (ZDefault (zopt ZBoolean) (JBool True))),
     (''include_cryptographic_proof'', (ZDefault (zopt ZBoolean) (JBool True)))]"

definition compliancePackageResponseSchema :: zschema where
  "compliancePackageResponseSchema = ZObject [(''package_id'', zstr),
     (''framework'', zstr),
     (''period_start'', zstr),
     (''period_end'', zstr),
     (''status'', zstr),
     (''generated_at'', zstr),
     (''download_url'', (zopt zstr)),
     (''content'', (zopt zstr)),
     (''summary'', (zopt (ZObject [(''total_controls'', ZNumber),
     (''passing_controls'', ZNumber),
     (''failing_controls'', ZNumber),
     (''review_required'', ZNumber)]))),
     (''controls'', (zopt (ZArray complianceEvidenceItemSchema)))]"

section \<open>lib/api/schemas/diagnostics.ts\<close>

definition connectivityStageStatusSchema :: zschema where
  "connectivityStageStatusSchema = ZEnum [''healthy'', ''degraded'', ''failed'', ''skipped'']"

definition connectivityProbeResultSchema :: zschema where
  "connectivityProbeResultSchema = ZObject [(''probe_id'', zstr),
     (''timestamp'', zstr),
     (''source_instance_id'', zstr),
     (''source_engine'', zstr),
     (''target_instance_id'', zstr),
     (''target_engine'', zstr),
     (''target_endpoint'', zstr),
     (''dns_status'', connectivityStageStatusSchema),
     (''dns_latency_ms'', ZNumber),
     (''tcp_status'', connectivityStageStatusSchema),
     (''tcp_latency_ms'', ZNumber),
     (''tls_status'', connectivityStageStatusSchema),
     (''tls_latency_ms'', ZNumber),
     (''http_status'', connectivityStageStatusSchema),
     (''http_code'', ZNumber),
     (''http_latency_ms'', ZNumber),
     (''overall_status'', (ZEnum [''healthy'', ''degraded'', ''failed''])),
     (''error_message'', (zopt zstr))]"

definition divergentInstanceSchema :: zschema where
  "divergentInstanceSchema = ZObject [(''instance_id'', zstr),
     (''value'', zstr)]"

definition configDriftFindingSchema :: zschema where
  "configDriftFindingSchema = ZObject [(''id'', zstr),
     (''engine_type'', zstr),
     (''environment'', zstr),
     (''parameter'', zstr),
     (''reference_value'', zstr),
     (''divergent_instances'', (ZArray divergentInstanceSchema)),
     (''severity'', (ZEnum [''warning'', ''critical'']))]"

definition configDriftListSchema :: zschema where
  "configDriftListSchema = ZArray configDriftFindingSchema"

definition migrationStatusSchema :: zschema where
  "migrationStatusSchema = ZObject [(''engine_type'', zstr),
     (''instance_id'', zstr),
     (''environment'', zstr),
     (''current_schema_version'', ZNumber),
     (''expected_schema_version'', ZNumber),
     (''up_to_date'', ZBoolean),
     (''pending_migrations_count'', ZNumber),
     (''last_migrated_at'', zstr)]"

definition migrationStatusListSchema :: zschema where
  "migrationStatusListSchema = ZArray migrationStatusSchema"

definition changeTimelineEventSchema :: zschema where
  "changeTimelineEventSchema = ZObject [(''id'', zstr),
     (''timestamp'', zstr),
     (''event_type'', (ZEnum [''deployment'', ''config_change'', ''registration'', ''schema_migration''])),
     (''engine_type'', zstr),
     (''title'', zstr),
     (''description'', zstr),
     (''actor'', zstr),
     (''correlated_error_spike'', (ZDefault ZBoolean (JBool False))),
     (''error_spike_rate'', (zopt ZNumber))]"

definition changeTimelineListSchema :: zschema where
  "changeTimelineListSchema = ZArray changeTimelineEventSchema"

definition diagnosticBundleSchema :: zschema where
  "diagnosticBundleSchema = ZObject [(''bundle_id'', zstr),
     (''created_at'', zstr),
     (''fleet_summary'', (ZObject [(''total_engines'', ZNumber),
     (''healthy_engines'', ZNumber),
     (''total_instances'', ZNumber)])),
     (''engines_included'', (ZArray zstr)),
     (''events_count'', ZNumber),
     (''logs_count'', ZNumber),
     (''redacted'', ZBoolean),
     (''download_url'', zstr)]"

section \<open>lib/api/schemas/explorer.ts\<close>

definition unifiedSubjectSchema :: zschema where
  "unifiedSubjectSchema = ZObject [(''id'', zstr),
     (''identity'', (zopt (ZObject [(''id'', zstr),
     (''state'', zstr),
     (''traits'', (ZRecord zstr ZUnknown)),
     (''created_at'', (zopt zstr)),
     (''schema_id'', (zopt zstr))]))),
     (''sessions'', (ZDefault (ZArray (ZObject [(''id'', zstr),
     (''identity_id'', zstr),
     (''active'', (ZDefault ZBoolean (JBool True))),
     (''ip_address'', (zopt zstr)),
     (''user_agent'', (zopt zstr)),
     (''created_at'', (zopt zstr)),
     (''expires_at'', (zopt zstr))])) (JArr []))),
     (''relations'', (ZDefault (ZArray (ZObject [(''namespace'', zstr),
     (''object'', zstr),
     (''relation'', zstr),
     (''subject'', zstr),
     (''caveat'', (zopt zstr))])) (JArr []))),
     (''oauth_grants'', (ZDefault (ZArray (ZObject [(''id'', zstr),
     (''client_id'', zstr),
     (''scope'', (zopt zstr)),
     (''created_at'', (zopt zstr)),
     (''expires_at'', (zopt zstr))])) (JArr []))),
     (''api_keys'', (ZDefault (ZArray (ZObject [(''id'', zstr),
     (''name'', zstr),
     (''prefix'', zstr),
     (''scopes'', (ZDefault (ZArray zstr) (JArr []))),
     (''call_count'', (ZDefault ZNumber (jint 0))),
     (''last_used_at'', (zopt zstr))])) (JArr []))),
     (''enterprise_linkage'', (zopt (ZObject [(''provider_id'', (zopt zstr)),
     (''external_id'', (zopt zstr)),
     (''email'', (zopt zstr)),
     (''active'', (ZDefault ZBoolean (JBool True))),
     (''last_sync_at'', (zopt zstr))])))]"

definition effectiveAccessResultSchema :: zschema where
  "effectiveAccessResultSchema = ZObject [(''subject'', zstr),
     (''resource'', zstr),
     (''action'', zstr),
     (''allowed'', ZBoolean),
     (''reason'', zstr),
     (''engine_breakdown'', (ZObject [(''aegis'', (ZObject [(''matched'', ZBoolean),
     (''rule_id'', (zopt zstr)),
     (''rule_name'', (zopt zstr)),
     (''upstream'', (zopt zstr))])),
     (''nexus'', (ZObject [(''checked'', ZBoolean),
     (''namespace'', (zopt zstr)),
     (''object'', (zopt zstr)),
     (''relation'', (zopt zstr)),
     (''allowed'', ZBoolean),
     (''path'', (zopt zstr))])),
     (''themis'', (ZObject [(''evaluated'', ZBoolean),
     (''policies_matched'', (ZDefault ZNumber (jint 0))),
     (''allowed'', ZBoolean),
     (''failed_policy'', (zopt zstr))]))]))]"

definition simulationTraceStepSchema :: zschema where
  "simulationTraceStepSchema = ZObject [(''step'', zstr),
     (''engine'', (ZEnum [''aegis'', ''ego'', ''janus'', ''vulcan'', ''nexus'', ''themis'', ''upstream''])),
     (''status'', (ZEnum [''pass'', ''fail'', ''skip''])),
     (''latency_ms'', ZNumber),
     (''details'', (ZDefault (ZRecord zstr ZUnknown) (JObj [])))]"

definition requestSimulationTraceSchema :: zschema where
  "requestSimulationTraceSchema = ZObject [(''trace_id'', zstr),
     (''request'', (ZObject [(''method'', zstr),
     (''path'', zstr),
     (''headers'', (ZDefault (ZRecord zstr zstr) (JObj []))),
     (''subject'', zstr)])),
     (''steps'', (ZArray simulationTraceStepSchema)),
     (''outcome'', (ZObject [(''allowed'', ZBoolean),
     (''status_code'', ZNumber),
     (''final_decision'', zstr),
     (''latency_total_ms'', ZNumber)]))]"

definition consistencyFindingSchema :: zschema where
  "consistencyFindingSchema = ZObject [(''id'', zstr),
     (''severity'', (ZEnum [''critical'', ''warning'', ''info''])),
     (''category'', (ZEnum [''nexus'', ''aegis'', ''oauth2'', ''vulcan'', ''hermes'', ''themis'', ''general''])),
     (''title'', zstr),
     (''description'', zstr),
     (''remediation'', zstr),
     (''remediation_link'', zstr)]"

definition consistencyFindingListSchema :: zschema where
  "consistencyFindingListSchema = ZArray consistencyFindingSchema"

section \<open>lib/api/schemas/governance.ts\<close>

definition organisationSchema :: zschema where
  "organisationSchema = ZObject [(''id'', zstr),
     (''name'', zstr),
     (''slug'', zstr),
     (''created_at'', (zopt zstr)),
     (''updated_at'', (zopt zstr)),
     (''status'', (zopt zstr)),
     (''plan'', (zopt zstr))]"

definition organisationsListSchema :: zschema where
  "organisationsListSchema = ZUnion [(ZArray organisationSchema), (ZObject [(''data'', (ZArray organisationSchema)),
     (''next_cursor'', (zopt zstr)),
     (''has_more'', (zopt ZBoolean))])]"

definition projectSchema :: zschema where
  "projectSchema = ZObject [(''id'', zstr),
     (''org_id'', zstr),
     (''name'', zstr),
     (''slug'', zstr),
     (''created_at'', (zopt zstr)),
     (''updated_at'', (zopt zstr))]"

definition projectsListSchema :: zschema where
  "projectsListSchema = ZUnion [(ZArray projectSchema), (ZObject [(''data'', (ZArray projectSchema)),
     (''next_cursor'', (zopt zstr)),
     (''has_more'', (zopt ZBoolean))])]"

definition environmentTierSchema :: zschema where
  "environmentTierSchema = ZEnum [''production'', ''staging'', ''development'', ''sandbox'']"

definition environmentSchema :: zschema where
  "environmentSchema = ZObject [(''id'', zstr),
     (''project_id'', (zopt zstr)),
     (''name'', zstr),
     (''slug'', zstr),
     (''tier'', (zopt environmentTierSchema)),
     (''is_production'', (zopt ZBoolean)),
     (''created_at'', (zopt zstr)),
     (''updated_at'', (zopt zstr))]"

definition environmentsListSchema :: zschema where
  "environmentsListSchema = ZUnion [(ZArray environmentSchema), (ZObject [(''data'', (ZArray environmentSchema)),
     (''next_cursor'', (zopt zstr)),
     (''has_more'', (zopt ZBoolean))])]"

section \<open>lib/api/schemas/health.ts\<close>

definition engineStatusSchema :: zschema where
  "engineStatusSchema = ZEnum [''healthy'', ''degraded'', ''unreachable'', ''unknown'']"

definition serviceHealthSchema :: zschema where
  "serviceHealthSchema = ZObject [(''key'', zstr),
     (''name'', zstr),
     (''port'', ZNumber),
     (''protocol'', zstr),
     (''status'', engineStatusSchema),
     (''latencyMs'', (ZNullable ZNumber))]"

definition healthResponseSchema :: zschema where
  "healthResponseSchema = ZObject [(''checkedAt'', zstr),
     (''services'', (ZArray serviceHealthSchema))]"

section \<open>lib/api/schemas/observability.ts\<close>

definition engineMetricSummarySchema :: zschema where
  "engineMetricSummarySchema = ZObject [(''engine_type'', zstr),
     (''status'', zstr),
     (''instance_count'', ZNumber),
     (''requests_total'', ZNumber),
     (''requests_per_second'', ZNumber),
     (''error_rate'', (ZNullable ZNumber)),
     (''latency_p50_ms'', (ZNullable ZNumber)),
     (''latency_p95_ms'', (ZNullable ZNumber)),
     (''latency_p99_ms'', (ZNullable ZNumber)),
     (''auth_decisions_total'', (ZNullable ZNumber)),
     (''auth_allow_rate'', (ZNullable ZNumber))]"

definition fleetMetricsSummarySchema :: zschema where
  "fleetMetricsSummarySchema = ZObject [(''timestamp'', zstr),
     (''total_engines'', ZNumber),
     (''total_instances'', ZNumber),
     (''healthy_instances'', ZNumber),
     (''requests_total'', ZNumber),
     (''fleet_qps'', ZNumber),
     (''fleet_error_rate'', ZNumber),
     (''fleet_latency_p95_ms'', (ZNullable ZNumber)),
     (''auth_decisions_total'', (ZNullable ZNumber)),
     (''auth_allow_rate'', (ZNullable ZNumber)),
     (''engines'', (ZArray engineMetricSummarySchema))]"

definition logEntrySchema :: zschema where
  "logEntrySchema = ZObject [(''id'', zstr),
     (''timestamp'', zstr),
     (''engine'', zstr),
     (''instance_id'', (zopt zstr)),
     (''level'', (ZEnum [''debug'', ''info'', ''warn'', ''error''])),
     (''message'', zstr),
     (''request_id'', (zopt zstr)),
     (''correlation_id'', (zopt zstr)),
     (''trace_id'', (zopt zstr)),
     (''attributes'', (ZDefault (ZRecord zstr ZUnknown) (JObj [])))]"

definition logEntryListSchema :: zschema where
  "logEntryListSchema = ZArray logEntrySchema"

definition traceSpanSchema :: zschema where
  "traceSpanSchema = ZObject [(''span_id'', zstr),
     (''parent_span_id'', (zopt zstr)),
     (''trace_id'', zstr),
     (''engine'', zstr),
     (''operation'', zstr),
     (''status'', (ZEnum [''ok'', ''error''])),
     (''start_time_ms'', ZNumber),
     (''duration_ms'', ZNumber),
     (''attributes'', (ZDefault (ZRecord zstr ZUnknown) (JObj [])))]"

definition traceDetailSchema :: zschema where
  "traceDetailSchema = ZObject [(''trace_id'', zstr),
     (''root_operation'', zstr),
     (''root_engine'', zstr),
     (''total_duration_ms'', ZNumber),
     (''timestamp'', zstr),
     (''status'', (ZEnum [''ok'', ''error''])),
     (''spans'', (ZArray traceSpanSchema))]"

definition traceListSchema :: zschema where
  "traceListSchema = ZArray traceDetailSchema"

definition alertRuleSchema :: zschema where
  "alertRuleSchema = ZObject [(''id'', zstr),
     (''name'', zstr),
     (''engine_type'', zstr),
     (''severity'', (ZEnum [''critical'', ''warning'', ''info''])),
     (''metric'', zstr),
     (''threshold'', (ZNullable ZNumber)),
     (''operator'', (ZNullable (ZEnum [''gt'', ''lt'', ''gte'', ''lte'']))),
     (''duration'', zstr),
     (''enabled'', (ZDefault ZBoolean (JBool True)))]"

definition alertRuleListSchema :: zschema where
  "alertRuleListSchema = ZArray alertRuleSchema"

definition alertEventSchema :: zschema where
  "alertEventSchema = ZObject [(''id'', zstr),
     (''rule_id'', zstr),
     (''rule_name'', zstr),
     (''engine_type'', zstr),
     (''severity'', (ZEnum [''critical'', ''warning'', ''info''])),
     (''state'', (ZEnum [''firing'', ''acknowledged'', ''silenced'', ''resolved''])),
     (''value'', ZNumber),
     (''threshold'', (ZNullable ZNumber)),
     (''triggered_at'', zstr),
     (''resolved_at'', (zopt zstr))]"

definition alertEventListSchema :: zschema where
  "alertEventListSchema = ZArray alertEventSchema"

definition sloDefinitionSchema :: zschema where
  "sloDefinitionSchema = ZObject [(''id'', zstr),
     (''name'', zstr),
     (''engine_type'', zstr),
     (''target_percentage'', ZNumber),
     (''current_percentage'', ZNumber),
     (''error_budget_remaining_percent'', ZNumber),
     (''burn_rate'', ZNumber),
     (''window'', zstr)]"

definition sloListSchema :: zschema where
  "sloListSchema = ZArray sloDefinitionSchema"

section \<open>lib/api/schemas/operator.ts\<close>

definition operatorSchema :: zschema where
  "operatorSchema = ZObject [(''id'', (ZString [Uuid])),
     (''email'', (ZString [Email])),
     (''name'', zstr),
     (''role'', (ZEnum [''owner'', ''admin'', ''operator'', ''auditor''])),
     (''is_local'', ZBoolean),
     (''is_active'', ZBoolean),
     (''created_at'', (zopt zstr)),
     (''updated_at'', (zopt zstr))]"

definition operatorsListSchema :: zschema where
  "operatorsListSchema = ZArray operatorSchema"

section \<open>lib/schemas/vulcan.ts\<close>

definition CreateKeySchema :: zschema where
  "CreateKeySchema = ZObject [(''name'', (ZString [MinLen 3 (Some ''Name must be at least 3 characters''), MaxLen 64 (Some ''Name is too long'')])),
     (''expires_in'', (ZEnum [''7d'', ''30d'', ''90d'', ''never''])),
     (''scopes'', (ZArrayMin zstr 1 ''Select at least one scope''))]"

definition KeyMetadataSchema :: zschema where
  "KeyMetadataSchema = ZObject [(''id'', zstr),
     (''name'', zstr),
     (''prefix'', zstr),
     (''scopes'', (ZArray zstr)),
     (''created_at'', zstr),
     (''expires_at'', (ZNullable zstr)),
     (''revoked'', ZBoolean)]"

section \<open>The audit entry\<close>

lemma js_or_truthy [simp]: "truthy a \<Longrightarrow> js_or a b = a"
  by (simp add: js_or_def)

lemma js_or_falsy [simp]: "\<not> truthy a \<Longrightarrow> js_or a b = b"
  by (simp add: js_or_def)

lemma truthy_or_str [simp]: "s \<noteq> [] \<Longrightarrow> truthy (js_or a (JStr s))"
  by (simp add: js_or_def)

lemma js_or_idem [simp]: "js_or (js_or a b) b = js_or a b"
  by (auto simp: js_or_def)

lemma js_coalesce_idem [simp]: "js_coalesce (js_coalesce a b) b = js_coalesce a b"
  by (auto simp: js_coalesce_def)

text \<open>
  The audit entry the console shows is in normal form: normalizing it again changes nothing, and its
  time, actor, environment, address and outcome are never empty.
\<close>

theorem audit_entry_normal:
  "now \<noteq> [] \<Longrightarrow>
    auditEntrySchema_transform now' (auditEntrySchema_transform now data) = auditEntrySchema_transform now data \<and>
    (\<forall>k \<in> set [''timestamp'', ''actor'', ''actor_type'', ''environment'', ''ip_address'', ''outcome''].
       truthy (member (auditEntrySchema_transform now data) k))"
  by (simp add: auditEntrySchema_transform_def proto_get_def object_proto_names_def)

theorem audit_entry_normal_witness:
  "truthy (member (auditEntrySchema_transform ''2026-01-01T00:00:00.000Z'' (JObj [])) ''timestamp'')"
  using audit_entry_normal [of "''2026-01-01T00:00:00.000Z''" "[]" "JObj []"] by simp

end
