(* ===== verification/VulcanRoutes.thy ===== *)
theory VulcanRoutes
  imports KeyStore SchemasEngines SchemasPlatform
begin

text \<open>
  The API key routes: app/api/vulcan (the console's own key store, Vulcan's admin API, macaroon
  attenuation) and app/api/keys. Each handler of a route file is one definition.
\<close>

section \<open>app/api/keys\<close>

definition keys_GET :: "request \<Rightarrow> ('w, response) act" where
  "keys_GET req =
     (let cursor = params_or ''cursor'' (req_query req) []; limit = params_or ''limit'' (req_query req) ''50'';
          query = set_if ''limit'' limit (set_if ''cursor'' cursor [])
      in proxyRequest ''vulcan'' (add_qs ''/keys'' query) paginatedApiKeyListSchema None)"

definition keys_POST :: "request \<Rightarrow> ('w, response) act" where
  "keys_POST req =
     bnd (request_json req) (\<lambda>body.
     jget body ''name'' (\<lambda>name.
     jget body ''ownerId'' (\<lambda>owner.
     jget body ''isLive'' (\<lambda>live.
     jget body ''scopes'' (\<lambda>scopes.
     let payload = JObj [(''name'', name), (''owner_id'', js_or owner (JStr ''system'')),
           (''is_live'', js_bool live), (''scopes'', js_or scopes (JArr []))]
     in proxyRequest ''vulcan'' ''/keys'' createKeyResponseSchema (Some (po_json ''POST'' payload)))))))"

definition keys_attenuate_POST :: "request \<Rightarrow> ('w, response) act" where
  "keys_attenuate_POST req = bnd (request_json req) (\<lambda>body.
     proxyRequest ''vulcan'' ''/keys/attenuate'' attenuateResponseSchema (Some (po_json ''POST'' body)))"

section \<open>app/api/vulcan/scopes, verify, rotate\<close>

definition vulcan_scopes_GET :: "('w, response) act" where
  "vulcan_scopes_GET = proxyRequest ''vulcan'' ''/admin/scopes'' scopeListSchema None"

definition vulcan_scopes_POST :: "request \<Rightarrow> ('w, response) act" where
  "vulcan_scopes_POST req = try_tail
     (bnd (request_json req) (\<lambda>body.
      bnd (lift (destructure ''body'' ''name'' body)) (\<lambda>b.
      let name = member b ''name''; description = member b ''description''
      in if \<not> truthy name then ret (fail_with 400 ''scope name is required'')
         else ret (proxyRequest ''vulcan'' ''/admin/scopes'' scopeSchema (Some (po_json ''POST''
           (JObj [(''name'', name), (''description'', js_or description (JStr []))])))))))
     (catch_with 400 ''Failed to create scope'')"

definition vulcan_scope_DELETE :: "string \<Rightarrow> ('w, response) act" where
  "vulcan_scope_DELETE name =
     proxyRequest ''vulcan'' (''/admin/scopes/'' @ encode_uri_component name) ZAny (Some (po_method_only ''DELETE''))"

definition vulcan_verify_POST :: "request \<Rightarrow> ('w, response) act" where
  "vulcan_verify_POST req = try_tail
     (bnd (request_json req) (\<lambda>body.
      bnd (lift (destructure ''body'' ''macaroon'' body)) (\<lambda>b.
      let macaroon = member b ''macaroon''; context = member b ''context''
      in if \<not> truthy macaroon then ret (fail_with 400 ''macaroon is required'')
         else bnd (if truthy context then ret context else bnd now_iso (\<lambda>now. ret (JObj [(''now'', JStr now),
                 (''ip_address'', JStr ''127.0.0.1''), (''method'', JStr ''GET''), (''path'', JStr ''/'')]))) (\<lambda>ctx.
           ret (proxyRequest ''vulcan'' ''/keys/verify'' verifyKeyResponseSchema (Some (po_json ''POST''
             (JObj [(''macaroon'', macaroon), (''context'', ctx)]))))))))
     (catch_with 400 ''Verification request failed'')"

definition vulcan_rotate_POST :: "string \<Rightarrow> request \<Rightarrow> ('w, response) act" where
  "vulcan_rotate_POST kid req = try_tail
     (bnd (try_catch
        (bnd (request_json req) (\<lambda>body. jget body ''grace_period'' (\<lambda>g. ret (js_or g (JStr ''24h'')))))
        (\<lambda>_. ret (JStr ''24h''))) (\<lambda>gracePeriod.
      ret (proxyRequest ''vulcan'' (''/admin/keys/'' @ kid @ ''/rotate'') rotateKeyResponseSchema
        (Some (po_json ''POST'' (JObj [(''grace_period'', gracePeriod)]))))))
     (catch_with 400 ''Key rotation failed'')"

section \<open>app/api/vulcan/keys\<close>

definition safe_fields :: "string list" where
  "safe_fields = [''id'', ''name'', ''prefix'', ''scopes'', ''created_at'', ''expires_at'', ''revoked'']"

text \<open>The metadata of a record: every field but the secret.\<close>

definition safe_key :: "jsval \<Rightarrow> jsval res" where
  "safe_key k = (if nullish k then map_sum id (\<lambda>_. JUndef) (get_prop k ''id'')
     else Inr (JObj (map (\<lambda>f. (f, member k f)) safe_fields)))"

definition vulcan_keys_GET :: "request \<Rightarrow> ('w, response) vact" where
  "vulcan_keys_GET req = bnd (asks k_reset) (\<lambda>reset.
     if reset then
       bnd getKeys (\<lambda>db.
       bnd (lift (as_array ''localKeys'' ''map'' db)) (\<lambda>localKeys.
       bnd (map_m (\<lambda>k. lift (safe_key k)) localKeys) (\<lambda>safeKeys.
       bnd (asks (\<lambda>w. js_sort (\<lambda>a b. num_sub (date_key w (member b ''created_at''))
              (date_key w (member a ''created_at''))) safeKeys)) (\<lambda>sorted.
       respond (JArr sorted) 200))))
     else
       let cursor = params_or ''cursor'' (req_query req) []; limit = params_or ''limit'' (req_query req) ''100'';
           qs = set_if ''limit'' limit (set_if ''cursor'' cursor [])
       in bnd (proxyRequest ''vulcan'' (''/keys?'' @ params_string qs) ZAny None) (\<lambda>res.
          if rp_ok res then
            bnd (resp_json res) (\<lambda>data.
            bnd (lift (unwrap_list ''data'' data)) (\<lambda>list. respond list 200))
          else ret res))"

text \<open>
  The expiry of a new key. \<open>setDate\<close> counts days of the server's time zone, which is taken to be UTC; a
  day count that is no number, or a date out of range, makes \<open>toISOString\<close> throw.
\<close>

definition expiry :: "jsval \<Rightarrow> ('w, jsval) act" where
  "expiry expires_in = (if strict_eq expires_in (JStr ''never'') then ret JNull
     else bnd (lift (str_method ''data.expires_in'' ''replace'' (\<lambda>s. JStr (remove_first (CHR ''d'') s)) expires_in)) (\<lambda>r.
       bnd date_now (\<lambda>now.
       case parse_int (to_str r) of
         None \<Rightarrow> throw (Error ''RangeError'' ''Invalid time value'')
       | Some days \<Rightarrow> (let ms = now + days * 86400000
           in if \<bar>ms\<bar> > 8640000000000000 then throw (Error ''RangeError'' ''Invalid time value'')
              else ret (JStr (iso_date ms))))))"

definition key_metadata :: "jsval \<Rightarrow> jsval" where
  "key_metadata newKey = JObj (map (\<lambda>f. (f, member newKey f)) safe_fields)"

definition created_metadata :: "jsval \<Rightarrow> jsval \<Rightarrow> jsval" where
  "created_metadata apiKey metadata = JObj [
     (''id'', js_or (opt_prop apiKey ''id'') (member metadata ''id'')),
     (''name'', js_or (opt_prop apiKey ''name'') (member metadata ''name'')),
     (''prefix'', js_plus (js_or (opt_prop apiKey ''key_prefix'') (JStr ''av_live_''))
        (js_or (opt_prop apiKey ''key_hint'') (JStr ''****''))),
     (''scopes'', js_or (opt_prop apiKey ''scopes'') (member metadata ''scopes'')),
     (''created_at'', js_or (opt_prop apiKey ''created_at'') (member metadata ''created_at'')),
     (''expires_at'', js_or (opt_prop apiKey ''expires_at'') (member metadata ''expires_at'')),
     (''revoked'', JBool (strict_eq (opt_prop apiKey ''state'') (JStr ''revoked'')))]"

definition vulcan_keys_POST :: "request \<Rightarrow> ('w, response) vact" where
  "vulcan_keys_POST req = try_catch
     (bnd (request_json req) (\<lambda>body.
      bnd (safe_parse CreateKeySchema body) (\<lambda>result.
      case result of
        Inl issues \<Rightarrow> bnd (asks (\<lambda>w. k_zformat w issues)) (\<lambda>details.
          respond (JObj [(''error'', JStr ''Invalid input''), (''details'', details)]) 400)
      | Inr data \<Rightarrow>
          bnd (expiry (member data ''expires_in'')) (\<lambda>expires_at.
          bnd randomUUID (\<lambda>kid.
          bnd generateRootSecret (\<lambda>rawSecret.
          bnd now_iso (\<lambda>created.
          let fullSecret = ''av_live_'' @ rawSecret;
              newKey = JObj [(''id'', JStr kid), (''name'', member data ''name''),
                (''prefix'', JStr (''av_live_'' @ take 4 rawSecret @ ''****'')),
                (''scopes'', member data ''scopes''), (''created_at'', JStr created),
                (''expires_at'', expires_at), (''revoked'', JBool False), (''secret'', JStr fullSecret)];
              metadata = key_metadata newKey;
              fallback = JObj [(''metadata'', metadata), (''secret'', JStr fullSecret)]
          in bnd (asks k_reset) (\<lambda>reset.
             if reset then bnd (addKey newKey) (\<lambda>_. respond fallback 201)
             else
               bnd (proxyRequest ''vulcan'' ''/keys'' ZAny (Some (po_json ''POST'' (JObj [
                 (''name'', member data ''name''), (''owner_id'', JStr ''system''), (''scopes'', member data ''scopes''),
                 (''is_live'', JBool True),
                 (''expires_at'', if truthy expires_at then expires_at else JUndef)])))) (\<lambda>res.
               if rp_ok res then
                 bnd (resp_json res) (\<lambda>resData.
                 jget resData ''api_key'' (\<lambda>apiKey.
                 jget resData ''raw_token'' (\<lambda>rawToken.
                 jget resData ''macaroon'' (\<lambda>macaroon.
                 respond (JObj [(''metadata'', created_metadata apiKey metadata),
                   (''secret'', js_or rawToken (JStr fullSecret)), (''macaroon'', macaroon)]) 201))))
               else respond fallback 201)))))))))
     (\<lambda>_. fail_with 500 ''Internal Server Error'')"

definition vulcan_key_GET :: "string \<Rightarrow> ('w, response) vact" where
  "vulcan_key_GET kid =
     bnd (proxyRequest ''vulcan'' (''/admin/keys/'' @ kid) ZAny None) (\<lambda>res.
     if rp_ok res then ret res
     else bnd (getKeyById (JStr kid)) (\<lambda>localKey.
       if truthy localKey then respond localKey 200 else ret res))"

text \<open>\<open>localKey.name = v\<close> on the object just parsed from the file.\<close>

fun assign_prop :: "string \<Rightarrow> jsval \<Rightarrow> jsval \<Rightarrow> jsval" where
  "assign_prop f v (JObj kvs) = JObj (al_set f v kvs)"
| "assign_prop f v k = k"

definition vulcan_key_PATCH :: "string \<Rightarrow> request \<Rightarrow> ('w, response) vact" where
  "vulcan_key_PATCH kid req = try_catch
     (bnd (request_json req) (\<lambda>body.
      bnd (proxyRequest ''vulcan'' (''/admin/keys/'' @ kid) ZAny (Some (po_json ''PATCH'' body))) (\<lambda>res.
      if rp_ok res then ret res
      else bnd (getKeyById (JStr kid)) (\<lambda>localKey.
        if truthy localKey then
          jget body ''name'' (\<lambda>name.
          jget body ''scopes'' (\<lambda>scopes.
          let k1 = (if truthy name then assign_prop ''name'' name localKey else localKey);
              k2 = (if truthy scopes then assign_prop ''scopes'' scopes k1 else k1)
          in respond k2 200))
        else ret res))))
     (catch_with 400 ''Failed to update key'')"

definition vulcan_key_DELETE :: "string \<Rightarrow> ('w, response) vact" where
  "vulcan_key_DELETE kid =
     (if kid = [] then fail_with 400 ''Missing ID''
      else bnd (proxyRequest ''vulcan'' (''/keys/'' @ kid) ZAny (Some (po_method_only ''DELETE''))) (\<lambda>res.
        if rp_ok res then ret res
        else bnd (revokeKey (JStr kid)) (\<lambda>success.
          if \<not> success then fail_with 404 ''Key not found''
          else respond (JObj [(''success'', JBool True)]) 200)))"

section \<open>app/api/vulcan/macaroons/attenuate\<close>

definition IssueSchema :: zschema where
  "IssueSchema = ZObject [(''keyId'', zstr), (''secret'', zstr), (''caveats'', ZArray zstr)]"

definition attenuate_POST :: "request \<Rightarrow> ('w, response) vact" where
  "attenuate_POST req = try_catch
     (bnd (request_json req) (\<lambda>body.
      bnd (safe_parse IssueSchema body) (\<lambda>result.
      case result of
        Inl _ \<Rightarrow> fail_with 400 ''Invalid input''
      | Inr data \<Rightarrow>
          bnd (lift (destructure ''result.data'' ''keyId'' data)) (\<lambda>d.
          let keyId = member d ''keyId''; secret = member d ''secret''; caveats = member d ''caveats''
          in bnd (getKeyById keyId) (\<lambda>rootKey.
             if \<not> truthy rootKey then fail_with 404 ''Root key not found''
             else if truthy (member rootKey ''revoked'') then fail_with 403 ''Root key is revoked''
             else if \<not> strict_eq (member rootKey ''secret'') secret then fail_with 401 ''Invalid root secret''
             else
               bnd (asks k_hmac) (\<lambda>hmac.
               bnd (lift (as_string ''key'' secret)) (\<lambda>sec.
               bnd (lift (as_string ''data'' keyId)) (\<lambda>kid.
               bnd (lift (iterate ''caveats'' caveats)) (\<lambda>cs.
               bnd (map_m (\<lambda>c. lift (as_string ''data'' c)) cs) (\<lambda>preds.
               let macaroon = foldl (addCaveat hmac) (createMacaroon hmac kid sec ''autorix.console'') preds;
                   token = serializeMacaroon macaroon
               in respond (JObj [(''macaroon'', macaroon_json macaroon), (''token'', JStr token)]) 200)))))))))
     )
     (\<lambda>_. fail_with 500 ''Internal Server Error'')"

section \<open>Issuing macaroons\<close>

lemma foldl_addCaveat:
  "mc_id (foldl (addCaveat hmac) m cs) = mc_id m \<and> mc_caveats (foldl (addCaveat hmac) m cs) = mc_caveats m @ cs"
  by (induction cs arbitrary: m) (simp_all add: addCaveat_def)

lemma as_string_JStr [simp]: "as_string n (JStr x) = Inr x"
  by (simp add: as_string_def)

lemma run_strings: "bnd (map_m (\<lambda>c. lift (as_string ''data'' c)) (map JStr cs)) g w = g cs w"
  by (induction cs arbitrary: g) (simp_all add: bnd_assoc run)

lemma clean_strings [simp]: "json_clean (JArr (map JStr cs)) = JArr (map JStr cs)"
  by simp

lemma clean_macaroon [simp]: "json_clean (macaroon_json m) = macaroon_json m" "json_keeps (macaroon_json m)"
  by (simp_all add: macaroon_json_def)

text \<open>
  C18. Issuing a macaroon: on a store of key records the route answers 200 exactly when the store holds an unrevoked
  key of that identifier with the secret given, and then the macaroon is for that key, carries the caveats
  asked for in order, and verifies under the secret; otherwise it answers 401, 403 or 404. The store
  is left as it was.
\<close>

theorem attenuate_issues_verifiable:
  fixes w :: "'w vworld_scheme"
  assumes "holds w ks" "parse_text w (req_text req) = Inr body"
    and "w_zod w (iso_date (w_clock w (w_ticks w))) IssueSchema body =
      Inr (JObj [(''keyId'', JStr i), (''secret'', JStr s), (''caveats'', JArr (map JStr cs))])"
  shows "\<exists>rp. attenuate_POST req w = (Inr rp, w) \<and> rp_status rp \<in> {200, 401, 403, 404} \<and>
    (rp_status rp = 200) = (\<exists>k. keys_lookup i ks = Some k \<and> \<not> key_revoked k \<and> member k ''secret'' = JStr s) \<and>
    (rp_status rp = 200 \<longrightarrow> (\<exists>m. rp_body rp = JsonBody (JObj [(''macaroon'', macaroon_json m), (''token'', JStr (serializeMacaroon m))]) \<and>
       mc_id m = i \<and> mc_caveats m = cs \<and> verifyMacaroon (k_hmac w) m s))"
proof -
  define m where "m = foldl (addCaveat (k_hmac w)) (createMacaroon (k_hmac w) i s ''autorix.console'') cs"
  have m: "mc_id m = i" "mc_caveats m = cs" "verifyMacaroon (k_hmac w) m s"
    by (simp_all add: m_def foldl_addCaveat verify_foldl verify_createMacaroon) (simp_all add: createMacaroon_def)
  have get: "bnd (getKeyById (JStr i)) g w = g (case keys_lookup i ks of Some k \<Rightarrow> k | None \<Rightarrow> JUndef) w"
    for g :: "jsval \<Rightarrow> ('w, response) vact"
    by (rule run_bnd) (rule run_getKeyById [OF assms(1)])
  have truthy: "truthy k" if "keys_lookup i ks = Some k" for k
    using assms(1) that by (auto simp: holds_def dest!: keys_lookup_ok elim!: key_okE)
  note start = attenuate_POST_def try_catch_def run assms(2,3) sum.case destructure_def Let_def get
  show ?thesis
  proof (cases "keys_lookup i ks")
    case None
    then show ?thesis by (simp add: start fail_with_def run_respond next_json_obj err_obj_def)
  next
    case (Some k)
    show ?thesis
    proof (cases "\<not> key_revoked k \<and> member k ''secret'' = JStr s")
      case True
      then show ?thesis using Some truthy [OF Some] m
        by (simp add: start key_revoked_def iterate_def run_strings m_def [symmetric] run_respond next_json_obj) blast
    next
      case False
      then show ?thesis using Some truthy [OF Some]
        by (auto simp: start key_revoked_def fail_with_def run_respond next_json_obj err_obj_def)
    qed
  qed
qed

theorem attenuate_issues_verifiable_witness:
  "\<exists>rp. attenuate_POST (json_request ''{\"keyId\":\"a\",\"secret\":\"s\",\"caveats\":[\"op = read\"]}'')
      (example_vworld [example_key ''a'' False]) = (Inr rp, example_vworld [example_key ''a'' False]) \<and> rp_status rp = 200"
proof -
  let ?b = "JObj [(''keyId'', JStr ''a''), (''secret'', JStr ''s''), (''caveats'', JArr (map JStr [''op = read'']))]"
  let ?w = "example_vworld [example_key ''a'' False]"
  have j: "json_parse ''{\"keyId\":\"a\",\"secret\":\"s\",\"caveats\":[\"op = read\"]}'' = Some ?b" by code_simp
  have z: "w_zod ?w (iso_date (w_clock ?w (w_ticks ?w))) IssueSchema ?b = Inr ?b"
    by (simp add: example_vworld_def world.defs zod_example_def IssueSchema_def numeral_eq_Suc check_str_def)
  have k: "keys_lookup ''a'' [example_key ''a'' False] = Some (example_key ''a'' False)" "\<not> key_revoked (example_key ''a'' False)"
    "member (example_key ''a'' False) ''secret'' = JStr ''s''"
    by (simp_all add: keys_lookup_def key_ident_def example_key_def key_revoked_def)
  have p: "parse_text ?w (req_text (json_request ''{\"keyId\":\"a\",\"secret\":\"s\",\"caveats\":[\"op = read\"]}'')) = Inr ?b"
    by (simp add: parse_text_Inr [OF j])
  show ?thesis
    using attenuate_issues_verifiable [OF example_holds p z] k by auto
qed

section \<open>The fallback of the key pages\<close>

lemma required_none_vulcan: "required_permissions ''vulcan'' None = []"
  by (rule required_none) (simp add: permission_domain_def)

lemma member_json_clean_self: "json_clean k = k \<Longrightarrow> next_json k 200 [] = (if json_keeps k
    then Inr \<lparr>rp_status = 200, rp_headers = [], rp_body = JsonBody k, rp_cookies = []\<rparr> else Inl (type_error ''Value is not JSON serializable''))"
  by (simp add: next_json_def mk_response_def)

lemma clean_lookup:
  assumes "clean_keys ks" "keys_wf ks" "keys_lookup i ks = Some k"
  shows "json_clean k = k" "json_keeps k" "truthy k"
proof -
  have k: "k \<in> set ks" using assms(3) by (auto simp: keys_lookup_def dest: find_first_Some)
  have ok: "key_ok k" using assms(2,3) by (rule keys_lookup_ok)
  then show kp: "json_keeps k" "truthy k" by (auto elim!: key_okE)
  have "map (\<lambda>x. if json_keeps x then json_clean x else JNull) ks = map id ks"
    using assms(1) by (simp add: clean_keys_def)
  then show "json_clean k = k" using k kp by (auto simp only: map_eq_conv id_apply split: if_splits)
qed

text \<open>
  The key page discloses root secrets: the list of keys leaves the secret out of every record, but while
  Vulcan cannot be reached the page of one key answers with the whole record of the console's store, its
  secret included, and for any caller.
\<close>

theorem key_page_discloses_secret:
  fixes w :: "'w vworld_scheme"
  assumes "w_upstream w = (\<lambda>_. Inl e)" "holds w ks" "clean_keys ks" "keys_lookup i ks = Some k" "member k ''secret'' = JStr s"
  shows "(\<exists>rp w' v. vulcan_key_GET i w = (Inr rp, w') \<and> rp_status rp = 200 \<and> rp_body rp = JsonBody v \<and> member v ''secret'' = JStr s) \<and>
    ''secret'' \<notin> set safe_fields"
proof -
  define path where "path = ''/admin/keys/'' @ i"
  let ?w' = "log_request (proxy_outgoing w (w_uuid w (w_uuids w)) ''vulcan'' path None) (checked_world w [])"
  have h: "holds ?w' ks" using assms(2) by (simp add: holds_def log_request_def checked_world_def)
  have down: "bnd (proxyRequest ''vulcan'' path ZAny None) g w = g \<lparr>rp_status = 502,
      rp_headers = id_headers (w_uuid w (w_uuids w)), rp_body = JsonBody (err_obj (unreachable_message ''vulcan'' e)), rp_cookies = []\<rparr> ?w'"
    for g :: "response \<Rightarrow> ('w, response) vact"
    by (rule run_bnd, rule unguarded_down [OF _ required_none_vulcan assms(1)]) (simp add: engines_def)
  have get: "bnd (getKeyById (JStr i)) g ?w' = g k ?w'" for g :: "jsval \<Rightarrow> ('w, response) vact"
    by (rule run_bnd) (simp add: run_getKeyById [OF h] assms(4))
  have wf: "keys_wf ks" using assms(2) by (simp add: holds_def)
  note c = clean_lookup [OF assms(3) wf assms(4)]
  show ?thesis
    unfolding vulcan_key_GET_def path_def [symmetric]
    using c by (simp add: down rp_ok_def get run_respond member_json_clean_self assms(5) safe_fields_def)
qed

theorem key_page_discloses_secret_witness:
  "\<exists>rp w' v. vulcan_key_GET ''a'' (example_vworld [example_key ''a'' False]) = (Inr rp, w') \<and> rp_status rp = 200 \<and>
     rp_body rp = JsonBody v \<and> member v ''secret'' = JStr ''s''"
  using key_page_discloses_secret [OF _ example_holds, of "''a''" False "type_error ''fetch failed''" "''a''" "example_key ''a'' False" "''s''"]
  by (simp add: example_vworld_def world.defs example_world_def clean_keys_def example_key_def keys_lookup_def key_ident_def)

end
