(* ===== verification/GatewayRoutes.thy ===== *)
theory GatewayRoutes
  imports JsCalls SchemasEngines SchemasPlatform
begin

text \<open>
  The route handlers in front of the private engines and of Argus: app/api/oauth2 (Janus),
  app/api/proxy-rules (Aegis), and audit, compliance, governance, fleet and operators (Argus). One
  definition per exported handler; the lemmas at the end say which permission each group demands.
\<close>

section \<open>app/api/oauth2\<close>

definition client_path :: "string \<Rightarrow> string" where
  "client_path cid = ''/admin/clients/'' @ encode_uri_component cid"

definition oauth2_clients_GET :: "('w, response) act" where
  "oauth2_clients_GET = proxyRequest ''janus'' ''/admin/clients'' oauth2ClientListSchema None"

definition oauth2_client_payload :: "jsval \<Rightarrow> jsval res" where
  "oauth2_client_payload body =
     (let scopes = member body ''scopes''; audiences = member body ''allowedAudiences'';
          pub = truthy (member body ''isPublic'')
      in case (if is_arr scopes then Inr scopes
               else split_spaces ''(body.scopes || \"\")'' (js_or scopes (JStr []))) of
           Inl e \<Rightarrow> Inl e
         | Inr sc \<Rightarrow>
             (case (if is_arr audiences then Inr audiences
                    else split_words ''(body.allowedAudiences || \"\")'' (js_or audiences (JStr []))) of
                Inl e \<Rightarrow> Inl e
              | Inr aud \<Rightarrow> Inr (JObj [
                  (''client_id'', member body ''clientId''), (''client_name'', member body ''clientName''),
                  (''client_secret'', js_or (member body ''clientSecret'') (JStr [])),
                  (''is_public'', JBool pub), (''scopes'', sc), (''allowed_audiences'', aud),
                  (''grant_types'', JArr (if pub then [JStr ''authorization_code'', JStr ''refresh_token'']
                                        else [JStr ''client_credentials''])),
                  (''redirect_uris'', js_or (member body ''redirectUris'') (JArr [])),
                  (''response_types'', JArr (if pub then [JStr ''code''] else []))])))"

definition oauth2_clients_POST :: "request \<Rightarrow> ('w, response) act" where
  "oauth2_clients_POST req = bnd (request_json req) (\<lambda>body.
     bnd (lift (get_prop body ''clientId'')) (\<lambda>_.
     bnd (lift (oauth2_client_payload body)) (\<lambda>payload.
     proxyRequest ''janus'' ''/admin/clients'' oauth2ClientSchema (Some (po_json ''POST'' payload)))))"

definition oauth2_client_GET :: "string \<Rightarrow> ('w, response) act" where
  "oauth2_client_GET cid = proxyRequest ''janus'' (client_path cid) oauth2ClientSchema None"

definition oauth2_client_PATCH :: "string \<Rightarrow> request \<Rightarrow> ('w, response) act" where
  "oauth2_client_PATCH cid req = bnd (request_json req) (\<lambda>inp.
     jget inp ''allowedAudiences'' (\<lambda>camel.
     let allowedAudiences = js_coalesce camel (member inp ''allowed_audiences'');
         extra = (if allowedAudiences \<noteq> JUndef
           then JObj [(''allowed_audiences'', if is_arr allowedAudiences then allowedAudiences
                        else JArr (map JStr (words (to_str allowedAudiences))))]
           else JObj []);
         body = obj_spread (obj_spread (JObj []) inp) extra
     in proxyRequest ''janus'' (client_path cid) oauth2ClientSchema (Some (po_json ''PATCH'' body))))"

definition oauth2_client_DELETE :: "string \<Rightarrow> ('w, response) act" where
  "oauth2_client_DELETE cid =
     proxyRequest ''janus'' (client_path cid) ZUnknown (Some (po_method_only ''DELETE''))"

text \<open>\<open>body: text\<close> with a JSON content type.\<close>

definition po_text :: "string \<Rightarrow> (string \<times> string) list \<Rightarrow> string \<Rightarrow> proxy_options" where
  "po_text m hs t = \<lparr>po_method = Some m, po_headers = hs, po_body = TextBody t, po_permission = None\<rparr>"

definition oauth2_rotate_secret_POST :: "string \<Rightarrow> request \<Rightarrow> ('w, response) act" where
  "oauth2_rotate_secret_POST cid req = bnd (lift (req_text req)) (\<lambda>body.
     proxyRequest ''janus'' (client_path cid @ ''/rotate-secret'') rotateSecretResponseSchema
       (Some (po_text ''POST'' json_type (if body = [] then ''{}'' else body))))"

definition oauth2_grants_GET :: "request \<Rightarrow> ('w, response) act" where
  "oauth2_grants_GET req = proxyRequest ''janus'' (''/admin/grants'' @ req_search req) oauth2GrantListSchema None"

definition oauth2_jwks_GET :: "('w, response) act" where
  "oauth2_jwks_GET = proxyRequest ''janus'' ''/.well-known/jwks.json'' jwksSchema None"

definition oauth2_keys_rotate_POST :: "('w, response) act" where
  "oauth2_keys_rotate_POST =
     proxyRequest ''janus'' ''/admin/keys/rotate'' rotateKeysResponseSchema (Some (po_method_only ''POST''))"

definition oauth2_scopes_GET :: "('w, response) act" where
  "oauth2_scopes_GET = proxyRequest ''janus'' ''/admin/scopes'' oauth2ScopeListSchema None"

definition oauth2_scopes_POST :: "request \<Rightarrow> ('w, response) act" where
  "oauth2_scopes_POST req = bnd (lift (req_text req)) (\<lambda>body.
     proxyRequest ''janus'' ''/admin/scopes'' oauth2ScopeSchema (Some (po_text ''POST'' json_type body)))"

definition oauth2_scope_DELETE :: "string \<Rightarrow> ('w, response) act" where
  "oauth2_scope_DELETE name =
     proxyRequest ''janus'' (''/admin/scopes/'' @ name) ZUnknown (Some (po_method_only ''DELETE''))"

text \<open>The token and its hint, from a JSON or a form body.\<close>

definition token_fields :: "request \<Rightarrow> ('w, jsval \<times> jsval) act" where
  "token_fields req =
     (let contentType = (case header ''content-type'' (req_headers req) of Some c \<Rightarrow> c | None \<Rightarrow> [])
      in if str_includes contentType ''application/json'' then
           bnd (request_json req) (\<lambda>json.
           jget json ''token'' (\<lambda>t. jget json ''token_type_hint'' (\<lambda>h.
             ret (js_or t (JStr []), js_or h (JStr [])))))
         else bnd (lift (req_form req)) (\<lambda>form.
           ret (JStr (params_or ''token'' form []), JStr (params_or ''token_type_hint'' form []))))"

definition token_params :: "jsval \<times> jsval \<Rightarrow> params" where
  "token_params th = (let p = params_set ''token'' (to_str (fst th)) []
     in if truthy (snd th) then params_set ''token_type_hint'' (to_str (snd th)) p else p)"

definition form_type :: "(string \<times> string) list" where
  "form_type = [(''Content-Type'', ''application/x-www-form-urlencoded'')]"

definition oauth2_introspect_POST :: "request \<Rightarrow> ('w, response) act" where
  "oauth2_introspect_POST req = bnd (token_fields req) (\<lambda>th.
     proxyRequest ''janus'' ''/oauth2/introspect'' introspectResponseSchema
       (Some (po_text ''POST'' form_type (params_string (token_params th)))))"

definition oauth2_revoke_POST :: "request \<Rightarrow> ('w, response) act" where
  "oauth2_revoke_POST req = bnd (token_fields req) (\<lambda>th.
     proxyRequest ''janus'' ''/oauth2/revoke'' ZUnknown
       (Some (po_text ''POST'' form_type (params_string (token_params th)))))"

section \<open>app/api/proxy-rules\<close>

definition rules_GET :: "('w, response) act" where
  "rules_GET = proxyRequest ''aegis'' ''/rules'' ruleListSchema None"

definition rules_POST :: "request \<Rightarrow> ('w, response) act" where
  "rules_POST req = forward_json req ''aegis'' ''/rules'' ruleSchema (po_json ''POST'')"

definition rule_GET :: "string \<Rightarrow> ('w, response) act" where
  "rule_GET rid = proxyRequest ''aegis'' (''/rules/'' @ rid) ruleSchema None"

definition rule_PUT :: "string \<Rightarrow> request \<Rightarrow> ('w, response) act" where
  "rule_PUT rid req = forward_json req ''aegis'' (''/rules/'' @ rid) ruleSchema (po_json ''PUT'')"

definition rule_DELETE :: "string \<Rightarrow> ('w, response) act" where
  "rule_DELETE rid =
     proxyRequest ''aegis'' (''/rules/'' @ rid) deleteRuleResponseSchema (Some (po_method_only ''DELETE''))"

definition rules_handlers_GET :: "('w, response) act" where
  "rules_handlers_GET = proxyRequest ''aegis'' ''/handlers'' handlerCatalogueSchema None"

text \<open>\<open>issues_json\<close> is how zod represents \<open>parsed.error.issues\<close> in JSON.\<close>

definition rules_reorder_PUT :: "(zissue list \<Rightarrow> jsval) \<Rightarrow> request \<Rightarrow> ('w, response) act" where
  "rules_reorder_PUT issues_json req = bnd (settle (request_json req)) (\<lambda>outcome.
     case outcome of
       Inl _ \<Rightarrow> fail_with 400 ''invalid json body''
     | Inr body \<Rightarrow> bnd (safe_parse reorderRulesRequestSchema body) (\<lambda>parsed.
         case parsed of
           Inl issues \<Rightarrow> respond (JObj [(''error'', JStr ''invalid reorder request: ids array required''),
             (''details'', issues_json issues)]) 400
         | Inr data \<Rightarrow> proxyRequest ''aegis'' ''/rules/reorder'' reorderResponseSchema (Some (po_json ''PUT'' data))))"

definition rules_rollback_POST :: "string \<Rightarrow> ('w, response) act" where
  "rules_rollback_POST version =
     proxyRequest ''aegis'' (''/rules/rollback/'' @ version) rollbackResponseSchema (Some (po_method_only ''POST''))"

definition rules_test_match_POST :: "request \<Rightarrow> ('w, response) act" where
  "rules_test_match_POST req = bnd (request_json req) (\<lambda>body.
     jget body ''method'' (\<lambda>m. jget body ''path'' (\<lambda>p.
     proxyRequest ''aegis'' ''/rules/test-match'' testMatchResponseSchema
       (Some (po_json ''POST'' (JObj [(''method'', m), (''path'', p)]))))))"

definition rules_versions_GET :: "('w, response) act" where
  "rules_versions_GET = proxyRequest ''aegis'' ''/rules/versions'' ruleVersionListSchema None"

section \<open>Argus: audit, compliance, governance, fleet, operators\<close>

definition audit_GET :: "request \<Rightarrow> ('w, response) act" where
  "audit_GET req = proxyRequest ''argus'' (with_search ''/admin/audit'' req) ZUnknown (Some (po_call ''GET'' ''audit:read''))"

definition audit_POST :: "request \<Rightarrow> ('w, response) act" where
  "audit_POST req = forward_json req ''argus'' ''/admin/audit'' ZUnknown (\<lambda>b. po_send ''POST'' b ''audit:write'')"

definition audit_export_GET :: "request \<Rightarrow> ('w, response) act" where
  "audit_export_GET req =
     proxyRequest ''argus'' (with_search ''/admin/audit/export'' req) ZUnknown (Some (po_call ''GET'' ''audit:read''))"

definition audit_verify_GET :: "request \<Rightarrow> ('w, response) act" where
  "audit_verify_GET req =
     proxyRequest ''argus'' (with_search ''/admin/audit/verify'' req) ZUnknown (Some (po_call ''GET'' ''audit:read''))"

definition compliance_GET :: "request \<Rightarrow> ('w, response) act" where
  "compliance_GET req = proxyRequest ''argus'' (with_search ''/admin/compliance/evidence'' req) ZUnknown
     (Some (po_call ''GET'' ''compliance:read''))"

definition compliance_POST :: "request \<Rightarrow> ('w, response) act" where
  "compliance_POST req = forward_json req ''argus'' ''/admin/compliance/evidence'' ZUnknown
     (\<lambda>b. po_send ''POST'' b ''compliance:write'')"

definition environments_GET :: "request \<Rightarrow> ('w, response) act" where
  "environments_GET req = proxyRequest ''argus'' (with_search ''/admin/environments'' req) ZUnknown
     (Some (po_call ''GET'' ''governance:read''))"

definition environments_POST :: "request \<Rightarrow> ('w, response) act" where
  "environments_POST req = forward_json req ''argus'' ''/admin/environments'' ZUnknown
     (\<lambda>b. po_send ''POST'' b ''governance:write'')"

definition orgs_GET :: "request \<Rightarrow> ('w, response) act" where
  "orgs_GET req = proxyRequest ''argus'' (with_search ''/admin/organisations'' req) ZUnknown
     (Some (po_call ''GET'' ''governance:read''))"

definition orgs_POST :: "request \<Rightarrow> ('w, response) act" where
  "orgs_POST req = forward_json req ''argus'' ''/admin/organisations'' ZUnknown
     (\<lambda>b. po_send ''POST'' b ''governance:write'')"

definition projects_GET :: "request \<Rightarrow> ('w, response) act" where
  "projects_GET req = proxyRequest ''argus'' (with_search ''/admin/projects'' req) ZUnknown
     (Some (po_call ''GET'' ''governance:read''))"

definition projects_POST :: "request \<Rightarrow> ('w, response) act" where
  "projects_POST req = forward_json req ''argus'' ''/admin/projects'' ZUnknown
     (\<lambda>b. po_send ''POST'' b ''governance:write'')"

definition fleet_engines_GET :: "('w, response) act" where
  "fleet_engines_GET = proxyRequest ''argus'' ''/v1/engines'' ZUnknown (Some (po_call ''GET'' ''fleet:read''))"

definition fleet_tokens_GET :: "('w, response) act" where
  "fleet_tokens_GET = proxyRequest ''argus'' ''/v1/enrollment-tokens'' ZUnknown (Some (po_call ''GET'' ''fleet:read''))"

definition fleet_tokens_POST :: "request \<Rightarrow> ('w, response) act" where
  "fleet_tokens_POST req = forward_json req ''argus'' ''/v1/enrollment-tokens'' ZUnknown
     (\<lambda>b. (po_call ''POST'' ''fleet:admin'')\<lparr>po_body := json_body b\<rparr>)"

definition fleet_events_GET :: "request \<Rightarrow> ('w, response) act" where
  "fleet_events_GET req = proxyRequest ''argus'' (with_search ''/v1/events'' req) ZUnknown
     (Some (po_call ''GET'' ''fleet:read''))"

definition fleet_instances_GET :: "request \<Rightarrow> ('w, response) act" where
  "fleet_instances_GET req = proxyRequest ''argus'' (with_search ''/v1/instances'' req) ZUnknown
     (Some (po_call ''GET'' ''fleet:read''))"

definition fleet_instance_GET :: "string \<Rightarrow> ('w, response) act" where
  "fleet_instance_GET iid = proxyRequest ''argus'' (''/v1/instances/'' @ iid) ZUnknown
     (Some (po_call ''GET'' ''fleet:read''))"

definition fleet_instance_DELETE :: "string \<Rightarrow> ('w, response) act" where
  "fleet_instance_DELETE iid = proxyRequest ''argus'' (''/v1/instances/'' @ iid) ZUnknown
     (Some (po_call ''DELETE'' ''fleet:admin''))"

definition fleet_topology_GET :: "('w, response) act" where
  "fleet_topology_GET = proxyRequest ''argus'' ''/v1/topology'' ZUnknown (Some (po_call ''GET'' ''fleet:read''))"

definition operators_GET :: "('w, response) act" where
  "operators_GET = proxyRequest ''argus'' ''/v1/operators'' operatorsListSchema (Some (po_perm ''identities:read''))"

definition operators_POST :: "request \<Rightarrow> ('w, response) act" where
  "operators_POST req = forward_json req ''argus'' ''/v1/operators'' operatorSchema
     (\<lambda>b. po_send ''POST'' b ''identities:write'')"

definition operator_PATCH :: "string \<Rightarrow> request \<Rightarrow> ('w, response) act" where
  "operator_PATCH oid req = try_forward_json req ''argus'' (''/v1/operators/'' @ oid) operatorSchema
     (\<lambda>b. po_send ''PATCH'' b ''identities:write'') ''Invalid update payload''"

definition operator_DELETE :: "string \<Rightarrow> ('w, response) act" where
  "operator_DELETE oid = proxyRequest ''argus'' (''/v1/operators/'' @ oid) ZAny
     (Some (po_call ''DELETE'' ''identities:write''))"

section \<open>The permission every handler demands\<close>

lemmas po_defs = po_json_def po_method_only_def po_get_def po_perm_def po_call_def po_send_def po_text_def

lemma required_read:
  "permission_domain service = Some d \<Longrightarrow> to_upper (option_method options) = ''GET'' \<Longrightarrow>
    d @ '':read'' \<in> set (required_permissions service options)"
  by (auto simp: required_permissions_def Let_def List.map_filter_def)

lemma required_write:
  "permission_domain service = Some d \<Longrightarrow> to_upper (option_method options) \<notin> {''GET'', ''HEAD''} \<Longrightarrow>
    d @ '':write'' \<in> set (required_permissions service options)"
  by (auto simp: required_permissions_def Let_def List.map_filter_def)

lemma method_GET: "to_upper (option_method None) = ''GET''"
  by (simp add: option_method_def to_upper_def upper_char_def is_lower_def)

lemma method_write:
  "po_method po \<in> {Some ''POST'', Some ''PUT'', Some ''PATCH'', Some ''DELETE''} \<Longrightarrow>
    to_upper (option_method (Some po)) \<notin> {''GET'', ''HEAD''}"
  by (auto simp: option_method_def to_upper_def upper_char_def is_lower_def)

lemma janus_read: "\<not> operator_can w ''oauth2:read'' \<Longrightarrow> denied w (proxyRequest ''janus'' path schema None)"
  using denied_proxy [OF required_read [of "''janus''" "''oauth2''" None]] method_GET
  by (simp add: permission_domain_def)

lemma aegis_read: "\<not> operator_can w ''proxy-rules:read'' \<Longrightarrow> denied w (proxyRequest ''aegis'' path schema None)"
  using denied_proxy [OF required_read [of "''aegis''" "''proxy-rules''" None]] method_GET
  by (simp add: permission_domain_def)

lemma janus_write:
  assumes "\<not> operator_can w ''oauth2:write''" "po_method po \<in> {Some ''POST'', Some ''PUT'', Some ''PATCH'', Some ''DELETE''}"
  shows "denied w (proxyRequest ''janus'' path schema (Some po))"
  by (rule denied_proxy [OF required_write [of "''janus''" "''oauth2''", simplified append.simps]])
    (use assms method_write [OF assms(2)] in \<open>simp_all add: permission_domain_def\<close>)

lemma aegis_write:
  assumes "\<not> operator_can w ''proxy-rules:write''" "po_method po \<in> {Some ''POST'', Some ''PUT'', Some ''PATCH'', Some ''DELETE''}"
  shows "denied w (proxyRequest ''aegis'' path schema (Some po))"
  by (rule denied_proxy [OF required_write [of "''aegis''" "''proxy-rules''", simplified append.simps]])
    (use assms method_write [OF assms(2)] in \<open>simp_all add: permission_domain_def\<close>)

lemma denied_extra:
  "(case po_permission po of None \<Rightarrow> False | Some p \<Rightarrow> p \<noteq> [] \<and> \<not> operator_can w p) \<Longrightarrow>
    denied w (proxyRequest service path schema (Some po))"
  by (cases "po_permission po") (auto intro: denied_proxy [OF required_extra])

lemma denied_token_fields: "(\<And>th. denied w (f th)) \<Longrightarrow> denied w (bnd (token_fields req) f)"
  by (auto simp: token_fields_def Let_def bnd_assoc jget_def intro!: denied_rules)

text \<open>The management handlers for OAuth2, by the permission they need.\<close>

definition oauth2_reads :: "string \<Rightarrow> request \<Rightarrow> ('w, response) act list" where
  "oauth2_reads i req = [oauth2_clients_GET, oauth2_client_GET i, oauth2_grants_GET req, oauth2_jwks_GET,
     oauth2_scopes_GET]"

definition oauth2_writes :: "string \<Rightarrow> request \<Rightarrow> ('w, response) act list" where
  "oauth2_writes i req = [oauth2_clients_POST req, oauth2_client_PATCH i req, oauth2_client_DELETE i,
     oauth2_rotate_secret_POST i req, oauth2_keys_rotate_POST, oauth2_scopes_POST req, oauth2_scope_DELETE i,
     oauth2_introspect_POST req, oauth2_revoke_POST req]"

definition rule_reads :: "string \<Rightarrow> ('w, response) act list" where
  "rule_reads i = [rules_GET, rule_GET i, rules_handlers_GET, rules_versions_GET]"

definition rule_writes :: "(zissue list \<Rightarrow> jsval) \<Rightarrow> string \<Rightarrow> request \<Rightarrow> ('w, response) act list" where
  "rule_writes issues_json i req = [rules_POST req, rule_PUT i req, rule_DELETE i, rules_reorder_PUT issues_json req,
     rules_rollback_POST i, rules_test_match_POST req]"

lemma denied_safe_parse: "(\<And>b. denied w (f b)) \<Longrightarrow> denied w (bnd (safe_parse s v) f)"
  by (auto simp: denied_def sends_def run)

lemma denied_settle_json: "(\<And>b. denied w (f b)) \<Longrightarrow> denied w (bnd (settle (request_json req)) f)"
  by (auto simp: denied_def sends_def bnd_def settle_def request_json_def split: sum.split)

text \<open>
  OAuth2 and proxy rule management is closed to callers without the domain's permission: none of the
  twenty-four handlers sends anything but the session check, whatever the request.
\<close>

theorem management_denied:
  "(\<not> operator_can w ''oauth2:read'' \<longrightarrow> list_all (denied w) (oauth2_reads i req)) \<and>
   (\<not> operator_can w ''oauth2:write'' \<longrightarrow> list_all (denied w) (oauth2_writes i req)) \<and>
   (\<not> operator_can w ''proxy-rules:read'' \<longrightarrow> list_all (denied w) (rule_reads i)) \<and>
   (\<not> operator_can w ''proxy-rules:write'' \<longrightarrow> list_all (denied w) (rule_writes issues_json i req))"
proof (intro conjI impI)
  assume "\<not> operator_can w ''oauth2:read''"
  note d = janus_read [OF this]
  show "list_all (denied w) (oauth2_reads i req)"
    by (simp add: oauth2_reads_def oauth2_clients_GET_def oauth2_client_GET_def oauth2_grants_GET_def
        oauth2_jwks_GET_def oauth2_scopes_GET_def d)
next
  assume "\<not> operator_can w ''oauth2:write''"
  note d = janus_write [OF this]
  show "list_all (denied w) (oauth2_writes i req)"
    unfolding oauth2_writes_def list.pred_inject(2)
    by (intro conjI TrueI list.pred_inject(1))
      (auto simp: oauth2_clients_POST_def oauth2_client_PATCH_def oauth2_client_DELETE_def
        oauth2_rotate_secret_POST_def oauth2_keys_rotate_POST_def oauth2_scopes_POST_def oauth2_scope_DELETE_def
        oauth2_introspect_POST_def oauth2_revoke_POST_def po_defs Let_def
        intro!: denied_rules denied_token_fields d)
next
  assume "\<not> operator_can w ''proxy-rules:read''"
  note d = aegis_read [OF this]
  show "list_all (denied w) (rule_reads i)"
    by (simp add: rule_reads_def rules_GET_def rule_GET_def rules_handlers_GET_def rules_versions_GET_def d)
next
  assume "\<not> operator_can w ''proxy-rules:write''"
  note d = aegis_write [OF this]
  show "list_all (denied w) (rule_writes issues_json i req)"
    unfolding rule_writes_def list.pred_inject(2)
    by (intro conjI TrueI list.pred_inject(1))
      (auto simp: rules_POST_def rule_PUT_def rule_DELETE_def rules_reorder_PUT_def rules_rollback_POST_def
        rules_test_match_POST_def po_defs fail_with_def
        intro!: denied_rules denied_safe_parse denied_settle_json d split: sum.split)
qed

theorem management_denied_witness:
  "list_all (denied (example_world [] (\<lambda>_. ok_text ''null''))) (rule_reads ''r1'')"
  using management_denied [of "example_world [] (\<lambda>_. ok_text ''null'')" "''r1''"]
  by (simp add: operator_can_def current_operator_def getCurrentOperator_def getSessionToken_def run)

text \<open>The handlers in front of Argus with the permission each passes to the proxy.\<close>

definition argus_handlers :: "string \<Rightarrow> request \<Rightarrow> (string \<times> ('w, response) act) list" where
  "argus_handlers i req = [
     (''audit:read'', audit_GET req), (''audit:write'', audit_POST req), (''audit:read'', audit_export_GET req),
     (''audit:read'', audit_verify_GET req), (''compliance:read'', compliance_GET req),
     (''compliance:write'', compliance_POST req), (''governance:read'', environments_GET req),
     (''governance:write'', environments_POST req), (''governance:read'', orgs_GET req),
     (''governance:write'', orgs_POST req), (''governance:read'', projects_GET req),
     (''governance:write'', projects_POST req), (''fleet:read'', fleet_engines_GET),
     (''fleet:read'', fleet_tokens_GET), (''fleet:admin'', fleet_tokens_POST req),
     (''fleet:read'', fleet_events_GET req), (''fleet:read'', fleet_instances_GET req),
     (''fleet:read'', fleet_instance_GET i), (''fleet:admin'', fleet_instance_DELETE i),
     (''fleet:read'', fleet_topology_GET), (''identities:read'', operators_GET),
     (''identities:write'', operators_POST req), (''identities:write'', operator_PATCH i req),
     (''identities:write'', operator_DELETE i)]"

lemmas argus_defs = audit_GET_def audit_POST_def audit_export_GET_def audit_verify_GET_def compliance_GET_def
  compliance_POST_def environments_GET_def environments_POST_def orgs_GET_def orgs_POST_def projects_GET_def
  projects_POST_def fleet_engines_GET_def fleet_tokens_GET_def fleet_tokens_POST_def fleet_events_GET_def
  fleet_instances_GET_def fleet_instance_GET_def fleet_instance_DELETE_def fleet_topology_GET_def
  operators_GET_def operators_POST_def operator_PATCH_def operator_DELETE_def

text \<open>
  Every handler in front of Argus sends nothing but the session check when the operator lacks the
  permission listed for it.
\<close>

theorem argus_denied:
  "\<forall>(p, h) \<in> set (argus_handlers i req). \<not> operator_can w p \<longrightarrow> denied w h"
proof -
  have "list_all (\<lambda>(p, h). \<not> operator_can w p \<longrightarrow> denied w h) (argus_handlers i req)"
    unfolding argus_handlers_def list.pred_inject(2) prod.case
    by (intro conjI impI TrueI list.pred_inject(1); unfold argus_defs;
        (rule denied_extra | rule denied_forward_json, rule denied_extra |
          rule denied_try_forward_json, rule denied_extra); simp add: po_defs)
  then show ?thesis by (simp add: list_all_iff)
qed

theorem argus_denied_witness:
  "denied (example_world [] (\<lambda>_. ok_text ''null'')) (fleet_instance_DELETE ''i-1'')"
  using argus_denied [of "''i-1''" undefined "example_world [] (\<lambda>_. ok_text ''null'')"]
  by (simp add: argus_handlers_def operator_can_def current_operator_def getCurrentOperator_def
      getSessionToken_def run)

text \<open>
  Only an owner can revoke an instance or mint an enrollment token: no other role of the table has
  the permission those handlers demand, \<open>admin\<close> and its \<open>fleet:manage\<close> included.
\<close>

theorem fleet_admin_owner_only:
  "hasPermission (JStr (role_name r)) ''fleet:admin'' = Inr True \<longleftrightarrow> r = Owner"
proof -
  have "role_can r ''fleet:admin'' \<longleftrightarrow> r = Owner"
    by (cases r) (simp_all add: role_can_Admin role_can_Operator role_can_Auditor)
  then show ?thesis by (simp add: role_can_def)
qed

end
