(* ===== verification/IdentityRoutes.thy ===== *)
theory IdentityRoutes
  imports JsCalls SchemasEngines SchemasPlatform
begin

text \<open>
  The route handlers in front of Ego (app/api/identities, app/api/sessions) and Hermes
  (app/api/enterprise), one definition per exported handler. The lemmas at the end account for the rows
  of a bulk import.
\<close>

section \<open>app/api/identities\<close>

definition identities_GET :: "request \<Rightarrow> ('w, response) act" where
  "identities_GET req =
     (let q = params_or ''q'' (req_query req) []; cursor = params_or ''cursor'' (req_query req) [];
          limit = params_or ''limit'' (req_query req) ''50''; state = params_or ''state'' (req_query req) [];
          query = set_if ''state'' state (set_if ''limit'' limit (set_if ''cursor'' cursor (set_if ''q'' q [])))
      in proxyRequest ''ego'' (''/admin/identities?'' @ params_string query) paginatedIdentityListSchema None)"

definition identities_POST :: "request \<Rightarrow> ('w, response) act" where
  "identities_POST req = bnd (request_json req) (\<lambda>body.
     jget body ''password'' (\<lambda>password.
     let payload = JObj [(''password'', password),
           (''traits'', JObj [(''email'', member body ''email''),
             (''name'', JObj [(''first'', js_or (member body ''firstName'') (JStr [])),
                            (''last'', js_or (member body ''lastName'') (JStr []))])])]
     in proxyRequest ''ego'' ''/self-service/registration'' registrationResponseSchema
          (Some (po_json ''POST'' payload))))"

definition identity_path :: "string \<Rightarrow> string" where
  "identity_path i = ''/admin/identities/'' @ i"

definition identity_GET :: "string \<Rightarrow> ('w, response) act" where
  "identity_GET i = proxyRequest ''ego'' (identity_path i) identitySchema None"

definition identity_PATCH :: "string \<Rightarrow> request \<Rightarrow> ('w, response) act" where
  "identity_PATCH i req = try_forward_json req ''ego'' (identity_path i) identitySchema (po_json ''PATCH'')
     ''Invalid update payload''"

definition identity_DELETE :: "string \<Rightarrow> ('w, response) act" where
  "identity_DELETE i = proxyRequest ''ego'' (identity_path i) ZAny (Some (po_method_only ''DELETE''))"

definition identity_reset_password_POST :: "string \<Rightarrow> request \<Rightarrow> ('w, response) act" where
  "identity_reset_password_POST i req = try_tail
     (bnd (json_or_empty req) (\<lambda>body.
      jget body ''password'' (\<lambda>password.
      ret (proxyRequest ''ego'' (identity_path i @ ''/credentials/reset-password'') resetPasswordResultSchema
        (Some (po_json ''POST'' (JObj [(''password'', js_or password JUndef),
           (''force_rotation'', js_bool (js_coalesce (member body ''force_rotation'') (JBool True)))])))))))
     (catch_with 400 ''Failed to reset password'')"

definition identity_credentials_GET :: "string \<Rightarrow> ('w, response) act" where
  "identity_credentials_GET i = proxyRequest ''ego'' (identity_path i @ ''/credentials'') credentialListSchema None"

definition identity_mfa_GET :: "string \<Rightarrow> ('w, response) act" where
  "identity_mfa_GET i = proxyRequest ''ego'' (identity_path i @ ''/mfa'') mfaStatusSchema None"

definition identity_mfa_DELETE :: "string \<Rightarrow> ('w, response) act" where
  "identity_mfa_DELETE i = proxyRequest ''ego'' (identity_path i @ ''/mfa'') ZAny (Some (po_method_only ''DELETE''))"

definition identity_recovery_link_POST :: "string \<Rightarrow> request \<Rightarrow> ('w, response) act" where
  "identity_recovery_link_POST i req = try_tail
     (bnd (json_or_empty req) (\<lambda>body.
      jget body ''expires_in'' (\<lambda>expires_in.
      ret (proxyRequest ''ego'' (identity_path i @ ''/recovery-link'') recoveryLinkResultSchema
        (Some (po_json ''POST'' (JObj [(''expires_in'', js_or expires_in (JStr ''1h''))])))))))
     (catch_with 400 ''Failed to issue recovery link'')"

definition identity_sessions_GET :: "string \<Rightarrow> ('w, response) act" where
  "identity_sessions_GET i = proxyRequest ''ego'' (identity_path i @ ''/sessions'') sessionListSchema None"

definition identity_sessions_DELETE :: "string \<Rightarrow> ('w, response) act" where
  "identity_sessions_DELETE i =
     proxyRequest ''ego'' (identity_path i @ ''/sessions'') ZAny (Some (po_method_only ''DELETE''))"

definition identity_schemas_GET :: "('w, response) act" where
  "identity_schemas_GET = proxyRequest ''ego'' ''/admin/schemas'' identitySchemaListSchema None"

definition identity_schemas_POST :: "request \<Rightarrow> ('w, response) act" where
  "identity_schemas_POST req = try_forward_json req ''ego'' ''/admin/schemas'' identitySchemaDefinitionSchema
     (po_json ''POST'') ''Failed to create schema''"

definition identity_schema_GET :: "string \<Rightarrow> ('w, response) act" where
  "identity_schema_GET i = proxyRequest ''ego'' (''/admin/schemas/'' @ i) identitySchemaDefinitionSchema None"

definition identity_schema_PATCH :: "string \<Rightarrow> request \<Rightarrow> ('w, response) act" where
  "identity_schema_PATCH i req = try_forward_json req ''ego'' (''/admin/schemas/'' @ i)
     identitySchemaDefinitionSchema (po_json ''PATCH'') ''Failed to update schema''"

definition identity_schema_DELETE :: "string \<Rightarrow> ('w, response) act" where
  "identity_schema_DELETE i =
     proxyRequest ''ego'' (''/admin/schemas/'' @ i) ZAny (Some (po_method_only ''DELETE''))"

section \<open>app/api/sessions\<close>

definition sessions_GET :: "request \<Rightarrow> ('w, response) act" where
  "sessions_GET req =
     (let cursor = params_or ''cursor'' (req_query req) []; limit = params_or ''limit'' (req_query req) ''50'';
          qs = set_if ''limit'' limit (set_if ''cursor'' cursor [])
      in proxyRequest ''ego'' (''/admin/sessions?'' @ params_string qs) paginatedSessionListSchema None)"

definition session_DELETE :: "string \<Rightarrow> ('w, response) act" where
  "session_DELETE i = proxyRequest ''ego'' (''/admin/sessions/'' @ i) ZAny (Some (po_method_only ''DELETE''))"

section \<open>app/api/identities/bulk-import\<close>

definition import_error :: "nat \<Rightarrow> jsval \<Rightarrow> string \<Rightarrow> jsval" where
  "import_error rowNum email msg =
     JObj [(''row'', jint (int rowNum)), (''email'', email), (''error'', JStr msg)]"

definition import_payload :: "jsval \<Rightarrow> jsval \<Rightarrow> jsval" where
  "import_payload row email = JObj [
     (''password'', js_or (member row ''password'') (JStr ''TempPassword#123'')),
     (''traits'', obj_spread
        (JObj [(''email'', email), (''name'', JObj [(''first'', js_or (member row ''firstName'') (JStr [])),
                                                (''last'', js_or (member row ''lastName'') (JStr []))])])
        (js_or (member row ''traits'') (JObj [])))]"

definition registration :: "jsval \<Rightarrow> ('w, response) act" where
  "registration payload = proxyRequest ''ego'' ''/self-service/registration'' registrationResponseSchema
     (Some (po_json ''POST'' payload))"

text \<open>One round of the loop: nothing for a success, the element pushed on \<open>errors\<close> for a failure.\<close>

definition import_row :: "bool \<Rightarrow> nat \<Rightarrow> jsval \<Rightarrow> ('w, jsval option) act" where
  "import_row dryRun rowNum row =
     jget row ''email'' (\<lambda>email.
     bnd (lift (if truthy email then opt_includes ''row.email'' ''@'' email else Inr (JBool False))) (\<lambda>has_at.
     if \<not> truthy has_at then ret (Some (import_error rowNum email ''Missing or invalid email address''))
     else if dryRun then ret None
     else bnd (settle (registration (import_payload row email))) (\<lambda>outcome.
       ret (case outcome of
           Inl e \<Rightarrow> Some (import_error rowNum email (err_message e ''Creation failed''))
         | Inr res \<Rightarrow> if rp_ok res then None
             else Some (import_error rowNum email ''Engine registration rejected'')))))"

text \<open>
  The rows the loop visits: \<open>rows[i]\<close> for \<open>i < rows.length\<close>. On a value that is no array the loop
  ends with a \<open>TypeError\<close> at the first index that is not an own property, so one index past their number
  is enough.
\<close>

definition rows_of :: "jsval \<Rightarrow> jsval list" where
  "rows_of rows = (case rows of JArr xs \<Rightarrow> xs | _ \<Rightarrow>
     (let cap = Suc (length (own_props rows));
          n = (case to_num (member rows ''length'') of Fin r \<Rightarrow> min cap (nat \<lceil>r\<rceil>) | PosInf \<Rightarrow> cap | _ \<Rightarrow> 0)
      in map (\<lambda>i. member rows (show_nat i)) [0..<n]))"

type_synonym tally = "nat \<times> nat \<times> jsval list"

fun tally_row :: "jsval option \<Rightarrow> tally \<Rightarrow> tally" where
  "tally_row None (succeeded, failed, errors) = (Suc succeeded, failed, errors)"
| "tally_row (Some e) (succeeded, failed, errors) = (succeeded, Suc failed, errors @ [e])"

fun import_rows :: "bool \<Rightarrow> nat \<Rightarrow> jsval list \<Rightarrow> tally \<Rightarrow> ('w, tally) act" where
  "import_rows dryRun i [] t = ret t"
| "import_rows dryRun i (row # rows) t =
     bnd (import_row dryRun (Suc i) row) (\<lambda>r. import_rows dryRun (Suc i) rows (tally_row r t))"

definition import_report :: "jsval \<Rightarrow> bool \<Rightarrow> tally \<Rightarrow> jsval" where
  "import_report rows dryRun t = (case t of (succeeded, failed, errors) \<Rightarrow> JObj [
     (''total'', member rows ''length''), (''succeeded'', jint (int succeeded)), (''failed'', jint (int failed)),
     (''errors'', JArr errors), (''dry_run'', JBool dryRun)])"

definition bulk_import_POST :: "request \<Rightarrow> ('w, response) act" where
  "bulk_import_POST req = try_catch
     (bnd (request_json req) (\<lambda>body.
      bnd (lift (unwrap_list ''rows'' body)) (\<lambda>rows.
      let dryRun = truthy (member body ''dry_run'')
      in bnd (import_rows dryRun 0 (rows_of rows) (0, 0, [])) (\<lambda>t.
         respond (import_report rows dryRun t) 200))))
     (catch_with 400 ''Failed to process bulk import'')"

section \<open>app/api/enterprise\<close>

definition provider_path :: "string \<Rightarrow> string" where
  "provider_path i = ''/admin/providers/'' @ encode_uri_component i"

definition po_typed :: "string \<Rightarrow> string \<Rightarrow> jsval \<Rightarrow> proxy_options" where
  "po_typed m ctype v =
     \<lparr>po_method = Some m, po_headers = [(''Content-Type'', ctype)], po_body = json_body v, po_permission = None\<rparr>"

definition saml_disable_POST :: "string \<Rightarrow> ('w, response) act" where
  "saml_disable_POST i =
     proxyRequest ''hermes'' (provider_path i @ ''/disable'') samlProviderSchema (Some (po_method_only ''POST''))"

definition saml_enable_POST :: "string \<Rightarrow> ('w, response) act" where
  "saml_enable_POST i =
     proxyRequest ''hermes'' (provider_path i @ ''/enable'') samlProviderSchema (Some (po_method_only ''POST''))"

definition saml_provider_GET :: "string \<Rightarrow> ('w, response) act" where
  "saml_provider_GET i = proxyRequest ''hermes'' (provider_path i) samlProviderSchema None"

definition saml_provider_PATCH :: "string \<Rightarrow> request \<Rightarrow> ('w, response) act" where
  "saml_provider_PATCH i req = try_forward_json req ''hermes'' (provider_path i) samlProviderSchema
     (po_json ''PATCH'') ''Failed to update provider''"

definition saml_provider_DELETE :: "string \<Rightarrow> ('w, response) act" where
  "saml_provider_DELETE i = proxyRequest ''hermes'' (provider_path i) ZAny (Some (po_method_only ''DELETE''))"

definition saml_providers_GET :: "('w, response) act" where
  "saml_providers_GET = proxyRequest ''hermes'' ''/admin/saml/providers'' samlProviderListSchema None"

definition saml_providers_POST :: "request \<Rightarrow> ('w, response) act" where
  "saml_providers_POST req = bnd (request_json req) (\<lambda>body.
     jget body ''id'' (\<lambda>i.
     let nl = [CHR 0x0A];
         payload = JObj [(''id'', i), (''display_name'', js_or (member body ''name'') i),
           (''idp_entity_id'', js_or (member body ''idpEntityId'') (JStr (''https://sts.example.com/'' @ to_str i))),
           (''idp_sso_url'', member body ''ssoUrl''),
           (''idp_certificate_pem'', js_or (member body ''certificatePem'')
              (JStr (''-----BEGIN CERTIFICATE-----'' @ nl @ ''MIID...AUTORIX...CERT'' @ nl @
                     ''-----END CERTIFICATE-----''))),
           (''enabled'', JBool True), (''attribute_mapping'', JObj [])]
     in proxyRequest ''hermes'' ''/admin/saml/providers'' samlProviderSchema (Some (po_json ''POST'' payload))))"

definition scim_group_path :: "string \<Rightarrow> string" where
  "scim_group_path i = ''/scim/v2/Groups/'' @ encode_uri_component i"

definition scim_group_GET :: "string \<Rightarrow> ('w, response) act" where
  "scim_group_GET i = proxyRequest ''hermes'' (scim_group_path i) scimGroupSchema None"

definition scim_group_PUT :: "string \<Rightarrow> request \<Rightarrow> ('w, response) act" where
  "scim_group_PUT i req = try_forward_json req ''hermes'' (scim_group_path i) scimGroupSchema
     (po_typed ''PUT'' ''application/scim+json'') ''Failed to update group''"

definition scim_group_PATCH :: "string \<Rightarrow> request \<Rightarrow> ('w, response) act" where
  "scim_group_PATCH i req = try_forward_json req ''hermes'' (scim_group_path i) scimGroupSchema
     (po_typed ''PATCH'' ''application/scim+json'') ''Failed to patch group''"

definition scim_group_DELETE :: "string \<Rightarrow> ('w, response) act" where
  "scim_group_DELETE i = proxyRequest ''hermes'' (scim_group_path i) ZAny (Some (po_method_only ''DELETE''))"

definition scim_groups_GET :: "('w, response) act" where
  "scim_groups_GET = proxyRequest ''hermes'' ''/scim/v2/Groups'' scimGroupListResponseSchema None"

definition scim_groups_POST :: "request \<Rightarrow> ('w, response) act" where
  "scim_groups_POST req = forward_json req ''hermes'' ''/scim/v2/Groups'' scimGroupSchema
     (po_typed ''POST'' ''application/scim+json'')"

definition scim_users_GET :: "('w, response) act" where
  "scim_users_GET = proxyRequest ''hermes'' ''/scim/v2/Users'' scimListResponseSchema None"

definition scim_users_POST :: "request \<Rightarrow> ('w, response) act" where
  "scim_users_POST req = forward_json req ''hermes'' ''/scim/v2/Users'' scimUserSchema
     (po_typed ''POST'' ''application/scim+json'')"

definition scim_sync_GET :: "('w, response) act" where
  "scim_sync_GET = proxyRequest ''hermes'' ''/admin/scim/sync-history'' scimSyncHistoryListSchema None"

definition scim_sync_payload :: jsval where
  "scim_sync_payload = JObj [(''resource_type'', JStr ''Users''), (''status'', JStr ''success''),
     (''total_records'', jint 0), (''created_count'', jint 0), (''updated_count'', jint 0),
     (''deleted_count'', jint 0), (''error_count'', jint 0), (''errors'', JArr [])]"

definition scim_sync_POST :: "request \<Rightarrow> ('w, response) act" where
  "scim_sync_POST req = try_tail
     (bnd (try_catch (bnd (request_json req) (\<lambda>body. ret (obj_spread scim_sync_payload body)))
            (\<lambda>_. ret scim_sync_payload)) (\<lambda>payload.
      ret (proxyRequest ''hermes'' ''/admin/scim/sync-history'' scimSyncHistorySchema
        (Some (po_json ''POST'' payload)))))
     (catch_with 400 ''Failed to record sync'')"

definition enterprise_metadata_GET :: "('w, response) act" where
  "enterprise_metadata_GET =
     bnd randomUUID (\<lambda>requestId.
     let hs = [(''x-request-id'', requestId)]
     in bnd (settle (fetch_get ''hermes'' ''/saml/metadata'')) (\<lambda>outcome.
        case outcome of
          Inl e \<Rightarrow> lift (next_json (err_obj (unreachable_message ''hermes'' e)) 502 hs)
        | Inr res \<Rightarrow> bnd (lift (rs_text res)) (\<lambda>body.
            let ctype = (case header ''content-type'' (rs_headers res) of
                  Some c \<Rightarrow> if c = [] then ''application/xml'' else c | None \<Rightarrow> ''application/xml'')
            in lift (mk_response (TextBody body) (rs_status res) (hs @ [(''Content-Type'', ctype)])))))"

section \<open>What a bulk import reports\<close>

lemma registration_sent:
  "\<exists>rq. w_sent (snd (registration payload w)) = w_sent w @ [rq] \<and>
     rq_method rq = ''POST'' \<and> rq_url rq = proxy_url w ''ego'' ''/self-service/registration''"
proof -
  have "required_permissions ''ego'' (Some (po_json ''POST'' payload)) = []"
    by (simp add: required_permissions_def permission_domain_def po_json_def)
  then have "w_sent (snd (registration payload w)) = w_sent w @ [proxy_outgoing w (w_uuid w (w_uuids w)) ''ego''
      ''/self-service/registration'' (Some (po_json ''POST'' payload))]"
    unfolding registration_def by (intro unguarded_sent) (simp_all add: engines_def)
  then show ?thesis by (simp add: proxy_outgoing_def po_json_def)
qed

lemma import_row_world:
  assumes "import_row dryRun n row w = (r, w')"
  shows "w' = w \<or> \<not> dryRun \<and> (\<exists>p. w' = snd (registration p w))"
proof (cases "get_prop row ''email''")
  case (Inl e)
  then show ?thesis using assms by (simp add: import_row_def run)
next
  case (Inr email)
  let ?has = "if truthy email then opt_includes ''row.email'' ''@'' email else Inr (JBool False)"
  obtain q w1 where q: "registration (import_payload row email) w = (q, w1)"
    by (cases "registration (import_payload row email) w")
  have set: "bnd (settle (registration (import_payload row email))) g w = g q w1" for g :: "response res \<Rightarrow> ('a, jsval option) act"
    using q by (rule run_settle)
  show ?thesis
  proof (cases ?has)
    case (Inl e)
    then show ?thesis using assms by (simp add: import_row_def run \<open>get_prop row ''email'' = Inr email\<close>)
  next
    case (Inr h)
    then have "w' = (if truthy h \<and> \<not> dryRun then w1 else w)"
      using assms
      by (simp add: import_row_def run \<open>get_prop row ''email'' = Inr email\<close> set split: if_splits)
    then show ?thesis using q by (cases "truthy h \<and> \<not> dryRun") (auto, metis snd_conv)
  qed
qed

lemma import_row_sent:
  assumes "import_row dryRun n row w = (r, w')"
  shows "dryRun \<longrightarrow> w' = w" "length (w_sent w') \<le> Suc (length (w_sent w))"
  using import_row_world [OF assms] registration_sent [of _ w] by auto (metis length_append_singleton order_refl)

lemma import_rows_tally:
  "import_rows dryRun i rows (s, f, es) w = (Inr (s', f', es'), w') \<Longrightarrow>
     s' + f' = s + f + length rows \<and> length es' + f = length es + f' \<and> (dryRun \<longrightarrow> w' = w) \<and>
     length (w_sent w') \<le> length (w_sent w) + length rows"
proof (induction rows arbitrary: i s f es w)
  case Nil
  then show ?case by (simp add: ret_def)
next
  case (Cons row rows)
  obtain r w1 where row: "import_row dryRun (Suc i) row w = (r, w1)"
    by (cases "import_row dryRun (Suc i) row w")
  with Cons.prems obtain x where r: "r = Inr x"
    by (cases r) (simp_all add: bnd_def)
  obtain s1 f1 es1 where t: "tally_row x (s, f, es) = (s1, f1, es1)" by (cases "tally_row x (s, f, es)")
  have "import_rows dryRun (Suc i) rows (s1, f1, es1) w1 = (Inr (s', f', es'), w')"
    using Cons.prems by (simp add: bnd_def row r t)
  from Cons.IH [OF this] import_row_sent [OF row] t show ?case
    by (cases x) auto
qed

text \<open>
  C12. A bulk import that answers 200 accounts for every row: successes and failures add up to the number
  of rows, each failure has its entry, at most one request is sent per row, and a dry run sends none.
\<close>

theorem bulk_import_accounts:
  assumes "parse_text w (req_text req) = Inr body" "unwrap_list ''rows'' body = Inr (JArr xs)"
    and "bulk_import_POST req w = (Inr r, w')" "rp_status r = 200"
  shows "\<exists>s f es. rp_body r = JsonBody (json_clean (import_report (JArr xs) (truthy (member body ''dry_run'')) (s, f, es))) \<and>
    s + f = length xs \<and> length es = f \<and> length (w_sent w') \<le> length (w_sent w) + length xs \<and>
    (truthy (member body ''dry_run'') \<longrightarrow> w_sent w' = w_sent w)"
proof -
  let ?dry = "truthy (member body ''dry_run'')"
  obtain q w1 where q: "import_rows ?dry 0 xs (0, 0, []) w = (q, w1)"
    by (cases "import_rows ?dry 0 xs (0, 0, []) w")
  have loop: "bnd (import_rows ?dry 0 xs (0, 0, [])) g w = (case q of Inl e \<Rightarrow> (Inl e, w1) | Inr t \<Rightarrow> g t w1)"
    for g :: "tally \<Rightarrow> ('a, response) act"
    by (simp add: bnd_def q split: sum.split)
  have run: "bulk_import_POST req w = (case q of Inl e \<Rightarrow> catch_with 400 ''Failed to process bulk import'' e w1
      | Inr t \<Rightarrow> respond (import_report (JArr xs) ?dry t) 200 w1)"
    using assms(1,2)
    by (cases q; (cases "projr q")?)
      (simp_all add: bulk_import_POST_def try_catch_def run Let_def rows_of_def loop
        run_respond next_json_obj import_report_def)
  obtain s f es where t: "q = Inr (s, f, es)"
  proof (cases q)
    case (Inl e)
    then have "rp_status r = 400" using run assms(3)
      by (auto simp: catch_with_def fail_with_def run_respond next_json_err)
    then show ?thesis using assms(4) by simp
  qed (use that in \<open>metis prod_cases3\<close>)
  have "w' = w1" "rp_body r = JsonBody (json_clean (import_report (JArr xs) ?dry (s, f, es)))"
    using run assms(3) by (auto simp: t run_respond import_report_def next_json_obj)
  with import_rows_tally [of ?dry 0 xs 0 0 "[]" w s f es w1] q t show ?thesis by auto
qed

lemma import_example_body:
  "json_parse ''{\"rows\":[{\"email\":\"a@b\"},{}],\"dry_run\":true}'' =
     Some (JObj [(''rows'', JArr [JObj [(''email'', JStr ''a@b'')], JObj []]), (''dry_run'', JBool True)])"
  by code_simp

lemma opt_includes_at: "opt_includes expr ''@'' (JStr ''a@b'') = Inr (JBool True)"
  by (simp add: opt_includes_def str_method_def starts_with_def)

theorem bulk_import_accounts_witness:
  "let w = example_world [] (\<lambda>_. ok_text ''null'')
   in w_sent (snd (bulk_import_POST (json_request ''{\"rows\":[{\"email\":\"a@b\"},{}],\"dry_run\":true}'') w)) = []"
proof -
  let ?w = "example_world [] (\<lambda>_. ok_text ''null'')"
  let ?req = "json_request ''{\"rows\":[{\"email\":\"a@b\"},{}],\"dry_run\":true}''"
  let ?rows = "[JObj [(''email'', JStr ''a@b'')], JObj []]"
  let ?body = "JObj [(''rows'', JArr ?rows), (''dry_run'', JBool True)]"
  have p: "parse_text ?w (req_text ?req) = Inr ?body"
    by (simp only: json_request_text) (rule parse_text_Inr [OF import_example_body])
  have u: "unwrap_list ''rows'' ?body = Inr (JArr ?rows)"
    by (simp add: unwrap_list_def js_or_def)
  have e1: "bnd (import_row True n (JObj [(''email'', JStr ''a@b'')])) g ?w = g None ?w"
    for n and g :: "jsval option \<Rightarrow> (unit, tally) act"
    by (rule run_bnd) (simp add: import_row_def run opt_includes_at)
  have e2: "bnd (import_row True n (JObj [])) g ?w =
      g (Some (import_error n JUndef ''Missing or invalid email address'')) ?w"
    for n and g :: "jsval option \<Rightarrow> (unit, tally) act"
    by (rule run_bnd) (simp add: import_row_def run proto_get_def object_proto_names_def)
  have i: "bnd (import_rows True 0 ?rows (0, 0, [])) g ?w =
      g (1, 1, [import_error 2 JUndef ''Missing or invalid email address'']) ?w"
    for g :: "tally \<Rightarrow> (unit, response) act"
    by (rule run_bnd) (simp add: e1 e2 run numeral_2_eq_2)
  have r: "bulk_import_POST ?req ?w = (next_json (import_report (JArr ?rows) True
      (1, 1, [import_error 2 JUndef ''Missing or invalid email address''])) 200 [], ?w)"
    using p u by (simp add: bulk_import_POST_def try_catch_def run rows_of_def i run_respond
        next_json_obj import_report_def del: import_rows.simps)
  then obtain rp where rp: "bulk_import_POST ?req ?w = (Inr rp, ?w)" "rp_status rp = 200"
    by (simp add: next_json_obj import_report_def)
  from bulk_import_accounts [OF p u rp] show ?thesis by (simp add: rp)
qed

end
