(* ===== verification/NexusRoutes.thy ===== *)
theory NexusRoutes
  imports JsCalls SchemasEngines
begin

text \<open>
  The route handlers in front of Nexus: app/api/permissions and app/api/nexus. The schema route keeps the
  last schema text in a variable of its module, the field \<open>x_schema\<close> of an extended world.
\<close>

section \<open>app/api/permissions\<close>

definition permissions_GET :: "request \<Rightarrow> ('w, response) act" where
  "permissions_GET req =
     (let namespace = params_or ''namespace'' (req_query req) []; cursor = params_or ''cursor'' (req_query req) [];
          limit = params_or ''limit'' (req_query req) ''50'';
          query = set_if ''limit'' limit (set_if ''cursor'' cursor (set_if ''namespace'' namespace []))
      in proxyRequest ''nexus'' (add_qs ''/tuples'' query) paginatedTupleListSchema None)"

definition permissions_POST :: "request \<Rightarrow> ('w, response) act" where
  "permissions_POST req = bnd (request_json req) (\<lambda>body.
     jget body ''namespace'' (\<lambda>namespace.
     let payload = JObj [(''tuples'', JArr [JObj [
           (''namespace'', namespace), (''object'', member body ''object''), (''relation'', member body ''relation''),
           (''subject_namespace'', js_or (member body ''subjectNamespace'') (JStr ''user'')),
           (''subject_id'', member body ''subjectId''),
           (''subject_relation'', js_or (member body ''subjectRelation'') (JStr [])),
           (''caveat_name'', js_or (member body ''caveatName'') (JStr [])),
           (''caveat_context'', js_or (member body ''caveatContext'') JUndef)]])]
     in proxyRequest ''nexus'' ''/tuples'' writeTuplesResponseSchema (Some (po_json ''POST'' payload))))"

definition permissions_DELETE :: "request \<Rightarrow> ('w, response) act" where
  "permissions_DELETE req = bnd (request_json req) (\<lambda>body.
     jget body ''tuples'' (\<lambda>tuples.
     proxyRequest ''nexus'' ''/tuples'' deleteTuplesResponseSchema
       (Some (po_json ''DELETE'' (JObj [(''tuples'', js_or tuples (JArr [body]))])))))"

definition permissions_check_POST :: "request \<Rightarrow> ('w, response) act" where
  "permissions_check_POST req = bnd (request_json req) (\<lambda>body.
     jget body ''namespace'' (\<lambda>namespace.
     let payload = JObj [(''namespace'', namespace), (''object'', member body ''object''),
           (''relation'', member body ''relation''), (''subject_namespace'', JStr ''user''),
           (''subject_id'', member body ''subjectId''),
           (''request_context'', js_or (member body ''requestContext'') JUndef)]
     in proxyRequest ''nexus'' ''/check'' checkResponseSchema (Some (po_json ''POST'' payload))))"

section \<open>app/api/nexus/caveats and expand\<close>

definition caveats_GET :: "('w, response) act" where
  "caveats_GET = proxyRequest ''nexus'' ''/admin/caveats'' caveatListSchema None"

definition caveats_POST :: "request \<Rightarrow> ('w, response) act" where
  "caveats_POST req = try_tail
     (bnd (request_json req) (\<lambda>body.
      bnd (lift (destructure ''body'' ''name'' body)) (\<lambda>b.
      let name = member b ''name''; cel = member b ''cel_expression''
      in if \<not> truthy name \<or> \<not> truthy cel then ret (fail_with 400 ''name and cel_expression are required'')
         else ret (proxyRequest ''nexus'' ''/admin/caveats'' nexus_caveatSchema (Some (po_json ''POST''
           (JObj [(''name'', name), (''cel_expression'', cel)])))))))
     (catch_with 400 ''Failed to create caveat'')"

definition caveats_DELETE :: "request \<Rightarrow> ('w, response) act" where
  "caveats_DELETE req =
     (let name = params_or ''name'' (req_query req) []
      in if name = [] then fail_with 400 ''caveat name parameter is required''
         else proxyRequest ''nexus'' (''/admin/caveats/'' @ encode_uri_component name)
           (ZObject [(''status'', zstr)]) (Some (po_method_only ''DELETE'')))"

definition nexus_expand_POST :: "request \<Rightarrow> ('w, response) act" where
  "nexus_expand_POST req = try_tail
     (bnd (request_json req) (\<lambda>body.
      bnd (lift (destructure ''body'' ''namespace'' body)) (\<lambda>b.
      let namespace = member b ''namespace''; object = member b ''object''; relation = member b ''relation''
      in if \<not> truthy namespace \<or> \<not> truthy object \<or> \<not> truthy relation
         then ret (fail_with 400 ''namespace, object, and relation are required'')
         else ret (proxyRequest ''nexus'' ''/expand'' expandResponseSchema (Some (po_json ''POST''
           (JObj [(''namespace'', namespace), (''object'', object), (''relation'', relation)])))))))
     (catch_with 400 ''Failed to expand relation'')"

section \<open>app/api/nexus/check\<close>

text \<open>\<open>String(v).split(":")\<close>, the parts after the first joined again; nothing without a colon.\<close>

definition split_colon :: "jsval \<Rightarrow> (string \<times> string) option" where
  "split_colon v = (let parts = split_on (CHR '':'') (to_str v)
     in if 2 \<le> length parts then Some (hd parts, join '':'' (tl parts)) else None)"

definition check_subject :: "jsval \<Rightarrow> jsval \<times> jsval" where
  "check_subject body =
     (let ns = js_or (member body ''subject_namespace'') (JStr []);
          sid = js_or (member body ''subject_id'') (JStr []);
          subject = member body ''subject''
      in if truthy subject \<and> \<not> truthy sid then
           (case split_colon subject of Some (a, b) \<Rightarrow> (JStr a, JStr b) | None \<Rightarrow> (JStr ''user'', subject))
         else (ns, sid))"

definition check_object :: "jsval \<Rightarrow> jsval \<times> jsval" where
  "check_object body =
     (let ns = js_or (member body ''namespace'') (JStr []); obj = js_or (member body ''object'') (JStr [])
      in if truthy (member body ''object'') \<and> (\<not> truthy ns \<or> strict_eq ns obj) then
           (case split_colon (member body ''object'') of Some (a, b) \<Rightarrow> (JStr a, JStr b) | None \<Rightarrow> (ns, obj))
         else (ns, obj))"

definition nexus_check_POST :: "request \<Rightarrow> ('w, response) act" where
  "nexus_check_POST req = try_tail
     (bnd (request_json req) (\<lambda>body.
      jget body ''namespace'' (\<lambda>_.
      let relation = js_or (member body ''relation'') (JStr []);
          subjectRelation = js_or (member body ''subject_relation'') (JStr []);
          (subjectNamespace, subjectId) = check_subject body;
          (namespace, object) = check_object body
      in if \<not> truthy namespace \<or> \<not> truthy object \<or> \<not> truthy relation
         then ret (fail_with 400 ''namespace, object, and relation are required'')
         else ret (proxyRequest ''nexus'' ''/check'' checkResponseSchema (Some (po_json ''POST'' (JObj [
           (''namespace'', namespace), (''object'', object), (''relation'', relation),
           (''subject_namespace'', js_or subjectNamespace (JStr ''user'')), (''subject_id'', subjectId),
           (''subject_relation'', subjectRelation),
           (''request_context'', js_or (member body ''request_context'') (JObj [])),
           (''explain'', js_coalesce (member body ''explain'') (JBool True))])))))))
     (catch_with 400 ''Failed to parse check request'')"

section \<open>app/api/nexus/lookup\<close>

definition nexus_lookup_POST :: "request \<Rightarrow> ('w, response) act" where
  "nexus_lookup_POST req = try_tail
     (bnd (request_json req) (\<lambda>body.
      bnd (lift (destructure ''body'' ''type'' body)) (\<lambda>b.
      let typ = member b ''type''; namespace = member b ''namespace''; object = member b ''object'';
          relation = member b ''relation''; subject_namespace = member b ''subject_namespace'';
          subject_id = member b ''subject_id''; subject_relation = member b ''subject_relation''
      in if strict_eq typ (JStr ''subjects'') then
           (if \<not> truthy namespace \<or> \<not> truthy object \<or> \<not> truthy relation
            then ret (fail_with 400 ''namespace, object, and relation are required for lookup subjects'')
            else ret (proxyRequest ''nexus'' ''/lookup/subjects'' lookupSubjectsResponseSchema (Some (po_json ''POST''
              (JObj [(''namespace'', namespace), (''object'', object), (''relation'', relation)])))))
         else if strict_eq typ (JStr ''resources'') then
           (if \<not> truthy namespace \<or> \<not> truthy relation \<or> \<not> truthy subject_id
            then ret (fail_with 400 ''namespace, relation, and subject_id are required for lookup resources'')
            else ret (proxyRequest ''nexus'' ''/lookup/resources'' lookupResourcesResponseSchema (Some (po_json ''POST''
              (JObj [(''namespace'', namespace), (''relation'', relation),
                (''subject_namespace'', js_or subject_namespace (JStr ''user'')), (''subject_id'', subject_id),
                (''subject_relation'', js_or subject_relation (JStr []))])))))
         else ret (fail_with 400 (''type must be '' @ [CHR 0x27] @ ''subjects'' @ [CHR 0x27] @ '' or '' @
                [CHR 0x27] @ ''resources'' @ [CHR 0x27])))))
     (catch_with 400 ''Failed to execute lookup'')"

section \<open>app/api/nexus/tuples\<close>

definition tuples_GET :: "request \<Rightarrow> ('w, response) act" where
  "tuples_GET req =
     (let namespace = params_or ''namespace'' (req_query req) []; limit = params_or ''limit'' (req_query req) ''100'';
          cursor = params_or ''cursor'' (req_query req) [];
          qs = set_if ''cursor'' cursor (set_if ''limit'' limit (set_if ''namespace'' namespace []))
      in proxyRequest ''nexus'' (add_qs ''/tuples'' qs) tupleListSchema None)"

text \<open>\<open>t.a || t.b || d\<close>\<close>

definition either_prop :: "jsval \<Rightarrow> string \<Rightarrow> string \<Rightarrow> jsval \<Rightarrow> jsval" where
  "either_prop t a b d = js_or (js_or (member t a) (member t b)) d"

definition tuple_fields :: "jsval \<Rightarrow> (string \<times> jsval) list" where
  "tuple_fields t = [
     (''namespace'', either_prop t ''namespace'' ''objectType'' (JStr [])),
     (''object'', either_prop t ''object'' ''objectId'' (JStr [])),
     (''relation'', js_or (member t ''relation'') (JStr [])),
     (''subject_namespace'', either_prop t ''subject_namespace'' ''subjectType'' (JStr ''user'')),
     (''subject_id'', either_prop t ''subject_id'' ''subjectId'' (JStr [])),
     (''subject_relation'', either_prop t ''subject_relation'' ''subjectRelation'' (JStr []))]"

definition caveat_fields :: "jsval \<Rightarrow> (string \<times> jsval) list" where
  "caveat_fields t = [
     (''caveat_name'', either_prop t ''caveat_name'' ''caveatName'' JUndef),
     (''caveat_context'', either_prop t ''caveat_context'' ''caveatContext'' JUndef)]"

definition write_tuple :: "jsval \<Rightarrow> jsval res" where
  "write_tuple t = map_sum id (\<lambda>_. JObj (tuple_fields t @ caveat_fields t)) (get_prop t ''namespace'')"

definition delete_tuple :: "jsval \<Rightarrow> jsval res" where
  "delete_tuple t = map_sum id (\<lambda>_. JObj (tuple_fields t)) (get_prop t ''namespace'')"

text \<open>\<open>Array.isArray(body) ? body : body.tuples ? body.tuples : d\<close>\<close>

definition tuples_of :: "jsval \<Rightarrow> jsval \<Rightarrow> jsval res" where
  "tuples_of body d = (if is_arr body then Inr body
     else map_sum id (\<lambda>ts. if truthy ts then ts else d) (get_prop body ''tuples''))"

definition tuples_POST :: "request \<Rightarrow> ('w, response) act" where
  "tuples_POST req = try_tail
     (bnd (request_json req) (\<lambda>body.
      bnd (lift (tuples_of body (JArr [body]))) (\<lambda>ts0.
      bnd (lift (as_array ''tuples'' ''map'' ts0)) (\<lambda>ts.
      bnd (map_m (\<lambda>t. lift (write_tuple t)) ts) (\<lambda>tuples.
      ret (proxyRequest ''nexus'' ''/tuples'' writeTuplesResponseSchema
        (Some (po_json ''POST'' (JObj [(''tuples'', JArr tuples)])))))))))
     (catch_with 400 ''Failed to parse write tuples request'')"

text \<open>\<open>const [a, b] = s.split(c)\<close>, a missing part being \<open>undefined\<close> and then \<open>""\<close>.\<close>

definition split_pair :: "char \<Rightarrow> string \<Rightarrow> string \<times> string" where
  "split_pair c s = (case split_on c s of [] \<Rightarrow> ([], []) | [a] \<Rightarrow> (a, []) | a # b # _ \<Rightarrow> (a, b))"

definition tuple_of_id :: "string \<Rightarrow> jsval" where
  "tuple_of_id idStr =
     (let (resPart, subPart) = split_pair (CHR ''@'') idStr;
          (nsObj, rel) = split_pair (CHR ''#'') resPart;
          (ns, obj) = split_pair (CHR '':'') nsObj;
          (subNs, subId) = split_pair (CHR '':'') subPart
      in JObj [(''namespace'', JStr ns), (''object'', JStr obj), (''relation'', JStr rel),
           (''subject_namespace'', JStr (if subNs = [] then ''user'' else subNs)), (''subject_id'', JStr subId)])"

definition tuples_DELETE :: "request \<Rightarrow> ('w, response) act" where
  "tuples_DELETE req = try_tail
     (bnd (json_or_empty req) (\<lambda>body.
      bnd (lift (tuples_of body (JArr []))) (\<lambda>ts0.
      let ids = params_or ''ids'' (req_query req) [];
          ts1 = (if strict_eq (member ts0 ''length'') (jint 0) \<and> ids \<noteq> []
                 then JArr (map tuple_of_id (split_on (CHR '','') ids)) else ts0)
      in bnd (lift (as_array ''tuples'' ''map'' ts1)) (\<lambda>ts.
         bnd (map_m (\<lambda>t. lift (delete_tuple t)) ts) (\<lambda>tuples.
         ret (proxyRequest ''nexus'' ''/tuples'' deleteTuplesResponseSchema
           (Some (po_json ''DELETE'' (JObj [(''tuples'', JArr tuples)])))))))))
     (catch_with 400 ''Failed to delete tuples'')"

section \<open>app/api/nexus/schema\<close>

record xworld = world +
  x_schema :: string  \<comment> \<open>\<open>cachedSchema\<close>\<close>

type_synonym ('w, 'a) xact = "('w xworld_scheme, 'a) js"

abbreviation newline :: string where "newline \<equiv> [CHR 0x0A]"

definition defaultSchema :: string where
  "defaultSchema = join newline [''definition user {}'', [], ''definition document {'',
     ''  relation viewer: user'', ''  relation editor: user'', ''  permission view = viewer + editor'',
     ''  permission edit = editor'', ''}'', [], ''definition organization {'', ''  relation admin: user'',
     ''  relation member: user'', ''}'']"

text \<open>One line of a definition: a union or computed rewrite is a permission, anything else a relation.\<close>

definition apl_relation :: "string \<times> jsval \<Rightarrow> string res" where
  "apl_relation entry = (let (relName, relDef) = entry; rw = opt_prop relDef ''rewrite'';
       children = member rw ''children''
     in if truthy rw \<and> strict_eq (member rw ''type'') (JStr ''union'') \<and> truthy children \<and>
           num_lt (Fin 0) (to_num (member children ''length'')) then
          (case as_array ''rw.children'' ''map'' children of
             Inl e \<Rightarrow> Inl e
           | Inr cs \<Rightarrow> map_sum id (\<lambda>terms. ''  permission '' @ relName @ '' = '' @
               join '' + '' (map (\<lambda>x. if nullish x then [] else to_str x) terms))
               (map_res (\<lambda>c. map_sum id (\<lambda>r. js_or r (member c ''type'')) (get_prop c ''relation'')) cs))
        else if truthy rw \<and> strict_eq (member rw ''type'') (JStr ''computed_userset'') \<and> truthy (member rw ''relation'')
        then Inr (''  permission '' @ relName @ '' = '' @ to_str (member rw ''relation''))
        else Inr (''  relation '' @ relName @ '': user''))"

definition apl_definition :: "jsval \<Rightarrow> string res" where
  "apl_definition ns = (case get_prop ns ''relations'' of
     Inl e \<Rightarrow> Inl e
   | Inr rels \<Rightarrow> map_sum id (\<lambda>relLines. ''definition '' @ to_str (member ns ''name'') @ '' {'' @ newline @
         join newline relLines @ newline @ ''}'')
       (map_res apl_relation (own_props (js_or rels (JObj [])))))"

definition apl_text :: "jsval list \<Rightarrow> string res" where
  "apl_text nss = map_sum id (join (newline @ newline)) (map_res apl_definition nss)"

definition nexus_schema_GET :: "('w, response) xact" where
  "nexus_schema_GET = bnd
     (try_catch
       (bnd (proxyRequest ''nexus'' ''/admin/namespaces'' namespaceListSchema None) (\<lambda>res.
        if rp_ok res then bnd (resp_json res) (\<lambda>namespaces.
          (if elems namespaces \<noteq> [] then
            bnd (lift (apl_text (elems namespaces))) (\<lambda>aplText.
            bnd (modify (\<lambda>w. w\<lparr>x_schema := aplText\<rparr>)) (\<lambda>_.
            bnd (respond (JObj [(''schema'', JStr aplText), (''namespaces'', namespaces)]) 200) (\<lambda>r.
            ret (Some r))))
          else ret None))
        else ret None))
       (\<lambda>_. ret None))
     (\<lambda>done. case done of
        Some r \<Rightarrow> ret r
      | None \<Rightarrow> bnd (asks x_schema) (\<lambda>cached. respond (JObj [(''schema'', JStr cached)]) 200))"

text \<open>
  The regular expressions of \<open>PUT\<close>. Name and white space characters are disjoint, so matching never
  needs to give back what a repetition took: each match is the longest one.
\<close>

definition name_char :: "char \<Rightarrow> bool" where
  "name_char c \<longleftrightarrow> is_alnum c \<or> c = CHR ''_'' \<or> c = CHR ''-''"

definition match_word :: "string \<Rightarrow> string \<Rightarrow> (string \<times> string) option" where
  "match_word kw s = (if starts_with s kw then
       (let r = drop (length kw) s; r1 = dropWhile is_space r; n = takeWhile name_char r1
        in if r1 = r \<or> n = [] then None else Some (n, dropWhile name_char r1))
     else None)"

definition match_definition :: "string \<Rightarrow> ((string \<times> string) \<times> string) option" where
  "match_definition s = (case match_word ''definition'' s of
     None \<Rightarrow> None
   | Some (n, r) \<Rightarrow> (case dropWhile is_space r of
         [] \<Rightarrow> None
       | c # u \<Rightarrow> (let r2 = dropWhile (\<lambda>d. d \<noteq> CHR ''}'') u
           in if c = CHR ''{'' \<and> r2 \<noteq> [] then Some ((n, takeWhile (\<lambda>d. d \<noteq> CHR ''}'') u), tl r2) else None)))"

definition match_relation :: "string \<Rightarrow> (string \<times> string) option" where
  "match_relation s = (case match_word ''relation'' s of Some m \<Rightarrow> Some m | None \<Rightarrow> match_word ''permission'' s)"

text \<open>\<open>[...s.matchAll(re)]\<close>: every position that starts a match, continuing after it.\<close>

function match_all :: "(string \<Rightarrow> ('a \<times> string) option) \<Rightarrow> string \<Rightarrow> 'a list" where
  "match_all f [] = []"
| "match_all f (c # s) = (case f (c # s) of
     Some (m, r) \<Rightarrow> if length r \<le> length s then m # match_all f r else []
   | None \<Rightarrow> match_all f s)"
  by pat_completeness auto
termination
  by (relation "measure (\<lambda>(f, s). length s)") auto

definition schema_relations :: "string \<Rightarrow> (string \<times> jsval) list" where
  "schema_relations content = foldl (\<lambda>acc n.
     obj_assign n (JObj [(''rewrite'', JObj [(''type'', JStr ''this'')])]) acc) [] (match_all match_relation content)"

definition put_namespace :: "string \<times> string \<Rightarrow> ('w, response res) act" where
  "put_namespace m = settle (proxyRequest ''nexus'' ''/admin/namespaces'' namespaceSchema (Some (po_json ''POST''
     (JObj [(''name'', JStr (fst m)), (''relations'', JObj (schema_relations (snd m)))]))))"

definition nexus_schema_PUT :: "request \<Rightarrow> ('w, response) xact" where
  "nexus_schema_PUT req = try_catch
     (bnd (request_json req) (\<lambda>body.
      jget body ''schema'' (\<lambda>schema.
      case schema of
        JStr s \<Rightarrow>
          bnd (modify (\<lambda>w. w\<lparr>x_schema := s\<rparr>)) (\<lambda>_.
          bnd (map_m put_namespace (match_all match_definition s)) (\<lambda>_.
          bnd (asks x_schema) (\<lambda>cached.
          respond (JObj [(''success'', JBool True), (''schema'', JStr cached)]) 200)))
      | _ \<Rightarrow> fail_with 400 ''Invalid schema payload'')))
     (catch_with 400 ''Failed to update schema'')"

section \<open>Tuples\<close>

lemma js_or_falsy_default: "js_or (js_or (js_or a b) d) e = js_or a (js_or b (js_or d e))"
  by (simp add: js_or_def)

lemma js_or_again: "js_or (js_or (js_or x d) JUndef) d = js_or x d"
  by (auto simp: js_or_def)

lemma proto_get_alias [simp]:
  "proto_get [] ''objectType'' = JUndef" "proto_get [] ''objectId'' = JUndef"
  "proto_get [] ''subjectType'' = JUndef" "proto_get [] ''subjectId'' = JUndef"
  "proto_get [] ''subjectRelation'' = JUndef" "proto_get [] ''caveatName'' = JUndef"
  "proto_get [] ''caveatContext'' = JUndef"
  by (simp_all add: proto_get_def object_proto_names_def)

text \<open>
  Writing relationship tuples normalizes them to one form: whatever mixture of names a client used,
  the tuple that is sent is a fixed point of the normalization, so sending it again sends the same.
\<close>

theorem write_tuple_idempotent:
  assumes "write_tuple t = Inr u"
  shows "write_tuple u = Inr u"
proof -
  have u: "u = JObj (tuple_fields t @ caveat_fields t)"
    using assms by (cases "get_prop t ''namespace''") (simp_all add: write_tuple_def)
  have again: "js_or (js_or x d) d = js_or x d" for x d
    by (auto simp: js_or_def)
  show ?thesis
    by (simp add: write_tuple_def u tuple_fields_def caveat_fields_def either_prop_def js_or_again again)
qed

theorem write_tuple_idempotent_witness:
  "write_tuple (JObj (tuple_fields (JObj [(''objectType'', JStr ''doc'')]) @ caveat_fields (JObj []))) =
     Inr (JObj (tuple_fields (JObj [(''objectType'', JStr ''doc'')]) @ caveat_fields (JObj [])))"
  by (rule write_tuple_idempotent [of "JObj [(''objectType'', JStr ''doc'')]"])
    (simp add: write_tuple_def caveat_fields_def either_prop_def proto_get_def object_proto_names_def)

lemma split_pair_sep: "c \<notin> set a \<Longrightarrow> c \<notin> set b \<Longrightarrow> split_pair c (a @ c # b) = (a, b)"
  by (simp add: split_pair_def split_on_append split_on_no_sep)

lemma split_pair_extra: "c \<notin> set a \<Longrightarrow> c \<notin> set b \<Longrightarrow> split_pair c (a @ c # b @ c # r) = (a, b)"
  by (simp add: split_pair_def split_on_append)

definition tuple_id :: "string \<Rightarrow> string \<Rightarrow> string \<Rightarrow> string \<Rightarrow> string \<Rightarrow> string" where
  \<comment> \<open>the format the source names: \<open>namespace:object#relation@subject_ns:subject_id\<close>\<close>
  "tuple_id ns obj rel sns sid = ns @ CHR '':'' # obj @ CHR ''#'' # rel @ CHR ''@'' # sns @ CHR '':'' # sid"

text \<open>
  C13. The identifiers of \<open>DELETE ?ids=\<close> are read back exactly when no part holds a separator. A subject
  identifier that holds an \<open>@\<close>, as e-mail addresses do, is cut there: the identifier of one subject's tuple
  selects the tuple of another subject.
\<close>

theorem tuple_id_roundtrip:
  assumes "\<forall>s \<in> {ns, obj, rel, sns, sid}. set s \<inter> {CHR '':'', CHR ''#'', CHR ''@''} = {}" "sns \<noteq> []"
  shows "tuple_of_id (tuple_id ns obj rel sns sid) = JObj [(''namespace'', JStr ns), (''object'', JStr obj),
      (''relation'', JStr rel), (''subject_namespace'', JStr sns), (''subject_id'', JStr sid)] \<and>
    tuple_of_id (tuple_id ns obj rel sns (sid @ CHR ''@'' # domain)) =
      tuple_of_id (tuple_id ns obj rel sns sid)"
proof -
  have at: "split_pair (CHR ''@'') (tuple_id ns obj rel sns (sid @ rest)) =
      (ns @ CHR '':'' # obj @ CHR ''#'' # rel, sns @ CHR '':'' # sid)" if "rest = [] \<or> (\<exists>d. rest = CHR ''@'' # d)" for rest
    using assms(1) that
      split_pair_sep [of "CHR ''@''" "ns @ CHR '':'' # obj @ CHR ''#'' # rel" "sns @ CHR '':'' # sid"]
      split_pair_extra [of "CHR ''@''" "ns @ CHR '':'' # obj @ CHR ''#'' # rel" "sns @ CHR '':'' # sid"]
    by (auto simp: tuple_id_def)
  have hash: "split_pair (CHR ''#'') (ns @ CHR '':'' # obj @ CHR ''#'' # rel) = (ns @ CHR '':'' # obj, rel)"
    using assms(1) split_pair_sep [of "CHR ''#''" "ns @ CHR '':'' # obj" rel] by auto
  have colon: "split_pair (CHR '':'') (ns @ CHR '':'' # obj) = (ns, obj)"
    "split_pair (CHR '':'') (sns @ CHR '':'' # sid) = (sns, sid)"
    using assms(1) by (auto intro!: split_pair_sep)
  have all: "tuple_of_id (tuple_id ns obj rel sns (sid @ rest)) = JObj [(''namespace'', JStr ns), (''object'', JStr obj),
      (''relation'', JStr rel), (''subject_namespace'', JStr sns), (''subject_id'', JStr sid)]"
    if "rest = [] \<or> (\<exists>d. rest = CHR ''@'' # d)" for rest
    using assms(2) by (simp add: tuple_of_id_def at [OF that] hash colon)
  from all [of "[]"] all [of "CHR ''@'' # domain"] show ?thesis by simp
qed

theorem tuple_id_roundtrip_witness:
  "tuple_of_id ''doc:readme#viewer@user:alice@corp.com'' = JObj [(''namespace'', JStr ''doc''),
     (''object'', JStr ''readme''), (''relation'', JStr ''viewer''), (''subject_namespace'', JStr ''user''),
     (''subject_id'', JStr ''alice'')]"
  using tuple_id_roundtrip [of "''doc''" "''readme''" "''viewer''" "''user''" "''alice''" "''corp.com''"]
  by (simp add: tuple_id_def)

text \<open>
  The check route's shorthand: a subject or an object written \<open>namespace:rest\<close> is split at its first
  colon and at no other; a subject without a colon is a user.
\<close>

theorem check_shorthand:
  assumes "CHR '':'' \<notin> set a" "member body ''subject'' = JStr s" "\<not> truthy (member body ''subject_id'')"
    and "member body ''object'' = JStr obj" "\<not> truthy (member body ''namespace'')"
  shows "(s = a @ CHR '':'' # r \<longrightarrow> check_subject body = (JStr a, JStr r)) \<and>
    (s = a \<and> s \<noteq> [] \<longrightarrow> check_subject body = (JStr ''user'', JStr a)) \<and>
    (obj = a @ CHR '':'' # r \<longrightarrow> check_object body = (JStr a, JStr r))"
proof -
  have split: "split_colon (JStr (a @ CHR '':'' # r)) = Some (a, r)"
    using join_split_on [of "CHR '':''" r]
    by (cases "split_on (CHR '':'') r") (auto simp: split_colon_def split_on_append assms(1))
  have none: "s = a \<Longrightarrow> split_colon (JStr s) = None"
    by (simp add: split_colon_def split_on_no_sep assms(1))
  show ?thesis
    using assms split none by (auto simp: check_subject_def check_object_def truthy_js_or)
qed

theorem check_shorthand_witness:
  "check_object (JObj [(''subject'', JStr ''user:alice''), (''object'', JStr ''doc:a:b'')]) = (JStr ''doc'', JStr ''a:b'')"
  using check_shorthand [of "''doc''" "JObj [(''subject'', JStr ''user:alice''), (''object'', JStr ''doc:a:b'')]"
      "''user:alice''" "''doc:a:b''" "''a:b''"]
  by (simp add: proto_get_def object_proto_names_def)

section \<open>The schema route\<close>

lemma proxyRequest_xschema [simp]:
  "x_schema (snd (proxyRequest service path schema options w)) = x_schema (w :: 'w xworld_scheme)"
  using proxyRequest_frame [of service path schema options w] by auto

lemma nexus_unguarded: "required_permissions ''nexus'' (Some (po_json m v)) = []"
  by (simp add: required_permissions_def permission_domain_def po_json_def)

lemma put_namespaces:
  fixes w :: "'w xworld_scheme"
  shows "\<exists>rs w'. map_m put_namespace ms w = (Inr rs, w') \<and> x_schema w' = x_schema w \<and>
     w_upstream w' = w_upstream w \<and> length (w_sent w') = length (w_sent w) + length ms"
proof (induction ms arbitrary: w)
  case Nil
  then show ?case by (simp add: ret_def)
next
  case (Cons m ms)
  let ?po = "Some (po_json ''POST'' (JObj [(''name'', JStr (fst m)), (''relations'', JObj (schema_relations (snd m)))]))"
  obtain r w1 where p: "proxyRequest ''nexus'' ''/admin/namespaces'' namespaceSchema ?po w = (r, w1)"
    by (cases "proxyRequest ''nexus'' ''/admin/namespaces'' namespaceSchema ?po w")
  have s: "w_sent w1 = w_sent w @ [proxy_outgoing w (w_uuid w (w_uuids w)) ''nexus'' ''/admin/namespaces'' ?po]"
    using unguarded_sent [of "''nexus''" ?po "''/admin/namespaces''" namespaceSchema w] p
    by (simp add: engines_def nexus_unguarded)
  have x: "x_schema w1 = x_schema w" "w_upstream w1 = w_upstream w"
    using proxyRequest_frame [of "''nexus''" "''/admin/namespaces''" namespaceSchema ?po w] p by auto
  have one: "put_namespace m w = (Inr r, w1)" by (simp add: put_namespace_def settle_def p)
  from Cons.IH [of w1] obtain rs w' where "map_m put_namespace ms w1 = (Inr rs, w')" "x_schema w' = x_schema w1"
    "w_upstream w' = w_upstream w1" "length (w_sent w') = length (w_sent w1) + length ms" by blast
  then show ?case using s x by (simp add: bnd_def one ret_def)
qed

lemma schema_PUT_run:
  fixes w :: "'w xworld_scheme"
  assumes "parse_text w (req_text req) = Inr (JObj kvs)" "map_of kvs ''schema'' = Some (JStr s)"
  shows "\<exists>w'. nexus_schema_PUT req w = (next_json (JObj [(''success'', JBool True), (''schema'', JStr s)]) 200 [], w') \<and>
    x_schema w' = s \<and> w_upstream w' = w_upstream w \<and>
    length (w_sent w') = length (w_sent w) + length (match_all match_definition s)"
proof -
  let ?w0 = "w\<lparr>x_schema := s\<rparr>"
  obtain rs w' where m: "map_m put_namespace (match_all match_definition s) ?w0 = (Inr rs, w')"
    and w': "x_schema w' = s" "w_upstream w' = w_upstream w"
      "length (w_sent w') = length (w_sent w) + length (match_all match_definition s)"
    using put_namespaces [of "match_all match_definition s" ?w0] by auto
  have m': "bnd (map_m put_namespace (match_all match_definition s)) g ?w0 = g rs w'"
    for g :: "response res list \<Rightarrow> ('w, response) xact"
    using m by (rule run_bnd)
  have "nexus_schema_PUT req w = (next_json (JObj [(''success'', JBool True), (''schema'', JStr s)]) 200 [], w')"
    using assms
    by (simp add: nexus_schema_PUT_def try_catch_def run m' w' run_respond next_json_obj)
  with w' show ?thesis by blast
qed

lemma nexus_down:
  fixes w :: "'w xworld_scheme"
  assumes "w_upstream w = (\<lambda>_. Inl e)"
  shows "\<exists>w' r. proxyRequest ''nexus'' path schema None w = (Inr r, w') \<and> \<not> rp_ok r \<and> x_schema w' = x_schema w"
proof -
  have reg: "truthy (member (BACKEND_URLS w) ''nexus'')"
    using BACKEND_URLS_own [of "''nexus''" w] by (auto simp: engines_def)
  have np: "required_permissions ''nexus'' None = []"
    by (simp add: required_permissions_def permission_domain_def)
  have "fst (proxyRequest ''nexus'' path schema None w) = Inr \<lparr>rp_status = 502, rp_headers = id_headers (w_uuid w (w_uuids w)),
      rp_body = JsonBody (err_obj (unreachable_message ''nexus'' e)), rp_cookies = []\<rparr>"
    using reg np assms
    by (simp add: proxyRequest_cases rbac_outcome_def proxy_forward_def run lift_def next_json_err)
  then show ?thesis
    using proxyRequest_xschema [of "''nexus''" path schema None w]
    by (cases "proxyRequest ''nexus'' path schema None w") (auto simp: rp_ok_def)
qed

text \<open>
  Saving a schema stores exactly the text that was sent, posts one namespace per definition found in
  it, and reports success whatever Nexus answers; while Nexus is unreachable, reading gives that text back.
\<close>

theorem schema_put_get:
  fixes w :: "'w xworld_scheme"
  assumes "parse_text w (req_text req) = Inr (JObj kvs)" "map_of kvs ''schema'' = Some (JStr s)"
    and "nexus_schema_PUT req w = (r, w')"
  shows "r = next_json (JObj [(''success'', JBool True), (''schema'', JStr s)]) 200 [] \<and>
    length (w_sent w') = length (w_sent w) + length (match_all match_definition s) \<and>
    (w_upstream w = (\<lambda>_. Inl e) \<longrightarrow> fst (nexus_schema_GET w') = next_json (JObj [(''schema'', JStr s)]) 200 [])"
proof -
  from schema_PUT_run [OF assms(1,2)] assms(3)
  have r: "r = next_json (JObj [(''success'', JBool True), (''schema'', JStr s)]) 200 []"
    and w': "x_schema w' = s" "w_upstream w' = w_upstream w"
      "length (w_sent w') = length (w_sent w) + length (match_all match_definition s)" by auto
  have "fst (nexus_schema_GET w') = next_json (JObj [(''schema'', JStr s)]) 200 []" if down: "w_upstream w = (\<lambda>_. Inl e)"
  proof -
    obtain w2 r2 where p: "proxyRequest ''nexus'' ''/admin/namespaces'' namespaceListSchema None w' = (Inr r2, w2)"
      "\<not> rp_ok r2" "x_schema w2 = s"
      using nexus_down [of w' e "''/admin/namespaces''" namespaceListSchema] w'(1) trans [OF w'(2) down] by auto
    have "bnd (proxyRequest ''nexus'' ''/admin/namespaces'' namespaceListSchema None) g w' = g r2 w2"
      for g :: "response \<Rightarrow> ('w, response option) xact"
      using p(1) by (rule run_bnd)
    then show ?thesis
      using p by (simp add: nexus_schema_GET_def try_catch_def run bnd_def ret_def asks_def run_respond)
  qed
  with r w' show ?thesis by simp
qed

definition example_xworld :: "(http_request list \<Rightarrow> exn + http_response) \<Rightarrow> string \<Rightarrow> unit xworld_scheme" where
  "example_xworld up s = world.extend (example_world [] up) \<lparr>x_schema = s\<rparr>"

theorem schema_put_get_witness:
  "fst (nexus_schema_GET (snd (nexus_schema_PUT (json_request ''{\"schema\":\"definition a {}\"}'')
     (example_xworld (\<lambda>_. Inl (type_error ''fetch failed'')) defaultSchema)))) =
   next_json (JObj [(''schema'', JStr ''definition a {}'')]) 200 []"
proof -
  let ?w = "example_xworld (\<lambda>_. Inl (type_error ''fetch failed'')) defaultSchema"
  have "json_parse ''{\"schema\":\"definition a {}\"}'' = Some (JObj [(''schema'', JStr ''definition a {}'')])"
    by code_simp
  then have p: "parse_text ?w (req_text (json_request ''{\"schema\":\"definition a {}\"}'')) =
      Inr (JObj [(''schema'', JStr ''definition a {}'')])"
    by (simp only: json_request_text parse_text_Inr)
  have up: "w_upstream ?w = (\<lambda>_. Inl (type_error ''fetch failed''))"
    by (simp add: example_xworld_def example_world_def world.defs)
  show ?thesis
    using schema_put_get [OF p _ surjective_pairing, of "''definition a {}''" "type_error ''fetch failed''"] up by simp
qed

text \<open>
  Saving a schema forgets every permission expression: whatever follows the name of a relation or a
  permission, the namespace posted to Nexus gives it the rewrite \<open>this\<close>. The default schema's
  \<open>view = viewer + editor\<close> is posted as a plain relation.
\<close>

theorem schema_rewrites_lost:
  "list_all (\<lambda>(n, v). v = JObj [(''rewrite'', JObj [(''type'', JStr ''this'')])]) (schema_relations content) \<and>
   map (\<lambda>(n, c). (n, map fst (schema_relations c))) (match_all match_definition defaultSchema) =
     [(''user'', []), (''document'', [''viewer'', ''editor'', ''view'', ''edit'']), (''organization'', [''admin'', ''member''])]"
proof
  let ?that = "JObj [(''rewrite'', JObj [(''type'', JStr ''this'')])]"
  have set: "\<forall>(n, v) \<in> set (obj_assign k x kvs). v = ?that" if "\<forall>(n, v) \<in> set kvs. v = ?that" "x = ?that" for k x kvs
  proof -
    have "\<forall>(n, v) \<in> set (al_set k x kvs). v = ?that" using that by (induction kvs) (auto split: if_splits)
    then show ?thesis using that by (simp add: obj_assign_def)
  qed
  have fold: "\<forall>(n, v) \<in> set acc. v = ?that \<Longrightarrow> \<forall>(n, v) \<in> set (foldl (\<lambda>acc n. obj_assign n ?that acc) acc ns). v = ?that" for acc ns
  proof (induction ns arbitrary: acc)
    case (Cons n ns)
    from Cons.IH [OF set [OF Cons.prems refl]] show ?case by simp
  qed simp
  have "\<forall>(n, v) \<in> set (schema_relations content). v = ?that"
    unfolding schema_relations_def by (rule fold) simp
  then show "list_all (\<lambda>(n, v). v = ?that) (schema_relations content)" by (simp add: list_all_iff)
  show "map (\<lambda>(n, c). (n, map fst (schema_relations c))) (match_all match_definition defaultSchema) =
     [(''user'', []), (''document'', [''viewer'', ''editor'', ''view'', ''edit'']), (''organization'', [''admin'', ''member''])]"
    by code_simp
qed

end
