(* ===== verification/PolicyEval.thy ===== *)
theory PolicyEval
  imports JsCalls
begin

text \<open>
  The policy expression evaluator, lib/server/themis-evaluator.ts. The parser \<open>jsep\<close> is third-party
  code and a parameter; \<open>jnode\<close> has the node types the evaluator looks at, with the fields it reads. The
  lemmas compare it with a reference semantics of conditions.
\<close>

section \<open>Syntax trees\<close>

datatype jnode =
    Literal jsval
  | Identifier string
  | MemberExpression jnode jnode bool  \<comment> \<open>object, property, computed\<close>
  | BinaryExpression string jnode jnode
  | LogicalExpression string jnode jnode
  | UnaryExpression string jnode
  | CallExpression
  | OtherNode string

type_synonym jsep = "jsval \<Rightarrow> jnode res"

text \<open>\<open>(node as Identifier).name\<close>\<close>

fun node_name :: "jnode \<Rightarrow> jsval" where
  "node_name (Identifier n) = JStr n"
| "node_name _ = JUndef"

section \<open>Operators\<close>

fun str_lt :: "string \<Rightarrow> string \<Rightarrow> bool" where
  "str_lt [] t = (t \<noteq> [])"
| "str_lt (a # s) [] = False"
| "str_lt (a # s) (b # t) = (if a = b then str_lt s t else (of_char a :: nat) < of_char b)"

text \<open>\<open>a < b\<close>: on two strings by code units, otherwise on numbers; objects are converted to strings first.\<close>

definition to_prim :: "jsval \<Rightarrow> jsval" where
  "to_prim v = (if is_text v then JStr (to_str v) else v)"

definition js_lt :: "jsval \<Rightarrow> jsval \<Rightarrow> bool" where
  "js_lt a b = (case (to_prim a, to_prim b) of
     (JStr s, JStr t) \<Rightarrow> str_lt s t | (x, y) \<Rightarrow> num_lt (to_num x) (to_num y))"

definition js_le :: "jsval \<Rightarrow> jsval \<Rightarrow> bool" where
  "js_le a b = (case (to_prim a, to_prim b) of
     (JStr s, JStr t) \<Rightarrow> \<not> str_lt t s | (x, y) \<Rightarrow> num_le (to_num x) (to_num y))"

definition js_and :: "jsval \<Rightarrow> jsval \<Rightarrow> jsval" where
  "js_and a b = (if truthy a then b else a)"

definition unsafe_names :: "string list" where
  "unsafe_names = [''constructor'', ''__proto__'', ''prototype'']"

definition eval_error :: "string \<Rightarrow> exn" where
  "eval_error msg = Error ''Error'' msg"

definition binary_op :: "string \<Rightarrow> jsval \<Rightarrow> jsval \<Rightarrow> jsval res" where
  "binary_op opn l r =
     (if opn = ''=='' \<or> opn = ''==='' then Inr (JBool (strict_eq l r))
      else if opn = ''!='' \<or> opn = ''!=='' then Inr (JBool (\<not> strict_eq l r))
      else if opn = ''>'' then Inr (JBool (js_lt r l))
      else if opn = ''>='' then Inr (JBool (js_le r l))
      else if opn = ''<'' then Inr (JBool (js_lt l r))
      else if opn = ''<='' then Inr (JBool (js_le l r))
      else if opn = ''&&'' then Inr (js_and l r)
      else if opn = ''||'' then Inr (js_or l r)
      else Inl (eval_error (''Unsupported operator: '' @ opn)))"

definition unary_op :: "string \<Rightarrow> jsval \<Rightarrow> jsval res" where
  "unary_op opn v =
     (if opn = ''!'' then Inr (JBool (\<not> truthy v))
      else if opn = ''-'' then Inr (JNum (num_neg (to_num v)))
      else if opn = ''+'' then Inr (JNum (to_num v))
      else Inl (eval_error (''Unsupported unary operator: '' @ opn)))"

section \<open>evaluateNode and evalCel\<close>

fun evaluateNode :: "jnode \<Rightarrow> jsval \<Rightarrow> jsval res" where
  "evaluateNode (Literal v) ctx = Inr v"
| "evaluateNode (Identifier n) ctx =
     (if n \<in> set unsafe_names then Inl (eval_error ''Unsafe identifier'') else get_prop ctx n)"
| "evaluateNode (MemberExpression obj prop computed) ctx =
     (case evaluateNode obj ctx of
        Inl e \<Rightarrow> Inl e
      | Inr object \<Rightarrow>
          if \<not> truthy object then Inr JUndef
          else (case (if computed then evaluateNode prop ctx else Inr (node_name prop)) of
              Inl e \<Rightarrow> Inl e
            | Inr property \<Rightarrow>
                if property \<in> JStr ` set unsafe_names then Inl (eval_error ''Unsafe property access'')
                else Inr (member object (to_str property))))"
| "evaluateNode (BinaryExpression opn l r) ctx =
     (case evaluateNode l ctx of
        Inl e \<Rightarrow> Inl e
      | Inr left \<Rightarrow> (case evaluateNode r ctx of
            Inl e \<Rightarrow> Inl e
          | Inr right \<Rightarrow> binary_op opn left right))"
| "evaluateNode (LogicalExpression opn l r) ctx =
     (case evaluateNode l ctx of
        Inl e \<Rightarrow> Inl e
      | Inr left \<Rightarrow>
          if opn = ''&&'' then (if truthy left then evaluateNode r ctx else Inr left)
          else if opn = ''||'' then (if truthy left then Inr left else evaluateNode r ctx)
          else Inl (eval_error (''Unsupported logical operator: '' @ opn)))"
| "evaluateNode (UnaryExpression opn a) ctx =
     (case evaluateNode a ctx of Inl e \<Rightarrow> Inl e | Inr v \<Rightarrow> unary_op opn v)"
| "evaluateNode CallExpression ctx = Inl (eval_error ''Unsafe function call execution'')"
| "evaluateNode (OtherNode t) ctx = Inl (eval_error (''Unsupported syntax node: '' @ t))"

definition evalCel :: "jsep \<Rightarrow> jsval \<Rightarrow> jsval \<Rightarrow> bool res" where
  "evalCel jsep expression ctx =
     (case (case jsep expression of Inl e \<Rightarrow> Inl e | Inr ast \<Rightarrow> evaluateNode ast ctx) of
        Inr v \<Rightarrow> Inr (truthy v)
      | Inl (Error n msg) \<Rightarrow> if str_includes msg ''Unsafe'' then Inl (Error n msg) else Inr False
      | Inl (Thrown _) \<Rightarrow> Inr False)"

section \<open>Reference semantics\<close>

text \<open>
  Conditions as a policy author means them: comparisons of the strings found along paths of own
  properties, combined by the connectives.
\<close>

datatype cond =
    PathIs "string list" string
  | PathIsNot "string list" string
  | Both cond cond
  | Either cond cond
  | Neither cond

fun path_value :: "jsval \<Rightarrow> string list \<Rightarrow> jsval option" where
  "path_value v [] = Some v"
| "path_value (JObj kvs) (n # ns) = (case map_of kvs n of Some v \<Rightarrow> path_value v ns | None \<Rightarrow> None)"
| "path_value v (n # ns) = None"

fun holds_in :: "jsval \<Rightarrow> cond \<Rightarrow> bool" where
  "holds_in ctx (PathIs p s) = (path_value ctx p = Some (JStr s))"
| "holds_in ctx (PathIsNot p s) = (path_value ctx p \<noteq> Some (JStr s))"
| "holds_in ctx (Both a b) = (holds_in ctx a \<and> holds_in ctx b)"
| "holds_in ctx (Either a b) = (holds_in ctx a \<or> holds_in ctx b)"
| "holds_in ctx (Neither a) = (\<not> holds_in ctx a)"

text \<open>The trees of such conditions: connectives as logical (\<open>True\<close>) or as binary expressions.\<close>

fun path_node :: "string list \<Rightarrow> jnode" where
  "path_node [] = OtherNode []"
| "path_node (n # ns) = foldl (\<lambda>t m. MemberExpression t (Identifier m) False) (Identifier n) ns"

fun node_of :: "bool \<Rightarrow> cond \<Rightarrow> jnode" where
  "node_of logical (PathIs p s) = BinaryExpression ''=='' (path_node p) (Literal (JStr s))"
| "node_of logical (PathIsNot p s) = BinaryExpression ''!='' (path_node p) (Literal (JStr s))"
| "node_of logical (Both a b) =
     (if logical then LogicalExpression else BinaryExpression) ''&&'' (node_of logical a) (node_of logical b)"
| "node_of logical (Either a b) =
     (if logical then LogicalExpression else BinaryExpression) ''||'' (node_of logical a) (node_of logical b)"
| "node_of logical (Neither a) = UnaryExpression ''!'' (node_of logical a)"

text \<open>Names no built-in value has as an inherited member, and values that came out of JSON.\<close>

definition plain_name :: "string \<Rightarrow> bool" where
  "plain_name n \<longleftrightarrow> n \<notin> set (object_proto_names @ array_proto_names @ string_proto_names @ number_proto_names @
     unsafe_names @ [''length'']) \<and> array_index n = None"

fun json_value :: "jsval \<Rightarrow> bool" where
  "json_value JUndef = False"
| "json_value (JFun _) = False"
| "json_value (JArr xs) = list_all json_value xs"
| "json_value (JObj kvs) = list_all (\<lambda>(k, v). json_value v) kvs"
| "json_value _ = True"

fun cond_ok :: "cond \<Rightarrow> bool" where
  "cond_ok (PathIs p s) = (p \<noteq> [] \<and> list_all plain_name p)"
| "cond_ok (PathIsNot p s) = (p \<noteq> [] \<and> list_all plain_name p)"
| "cond_ok (Both a b) = (cond_ok a \<and> cond_ok b)"
| "cond_ok (Either a b) = (cond_ok a \<and> cond_ok b)"
| "cond_ok (Neither a) = cond_ok a"

lemma proto_get_plain: "plain_name n \<Longrightarrow> proto_get [] n = JUndef"
  "plain_name n \<Longrightarrow> proto_get array_proto_names n = JUndef"
  "plain_name n \<Longrightarrow> proto_get string_proto_names n = JUndef"
  "plain_name n \<Longrightarrow> proto_get number_proto_names n = JUndef"
  by (auto simp: plain_name_def proto_get_def unsafe_names_def)

lemma plain_nameD: "plain_name n \<Longrightarrow> n \<notin> set unsafe_names \<and> n \<noteq> ''length'' \<and> array_index n = None"
  by (auto simp: plain_name_def)

text \<open>One step along a path: the own property, or \<open>undefined\<close>.\<close>

lemma member_plain:
  assumes "plain_name n" "json_value v \<or> v = JUndef"
  shows "member v n = (case path_value v [n] of Some u \<Rightarrow> u | None \<Rightarrow> JUndef)"
  using assms plain_nameD [OF assms(1)]
  by (cases v) (auto simp: proto_get_plain split: option.split)

lemma path_value_json: "json_value v \<Longrightarrow> path_value v p = Some u \<Longrightarrow> json_value u"
proof (induction v p rule: path_value.induct)
  case (2 kvs n ns)
  then obtain w where w: "map_of kvs n = Some w" "path_value w ns = Some u" by (auto split: option.splits)
  with 2 show ?case by (auto dest!: map_of_SomeD simp: list_all_iff)
qed auto

lemma path_value_append: "path_value v (p @ q) = (case path_value v p of Some u \<Rightarrow> path_value u q | None \<Rightarrow> None)"
  by (induction v p rule: path_value.induct) (auto split: option.split)

lemma falsy_step: "\<not> truthy v \<Longrightarrow> path_value v [n] = None"
  by (cases v) auto

text \<open>The tree of a path evaluates to what the path finds.\<close>

lemma evaluate_path:
  assumes "json_value ctx" "truthy ctx" "p \<noteq> []" "list_all plain_name p"
  shows "evaluateNode (path_node p) ctx = Inr (case path_value ctx p of Some u \<Rightarrow> u | None \<Rightarrow> JUndef)"
  using assms(3,4)
proof (induction p rule: rev_induct)
  case Nil
  then show ?case by simp
next
  case (snoc n p)
  show ?case
  proof (cases "p = []")
    case True
    then show ?thesis using snoc.prems assms plain_nameD [of n]
      by (simp add: get_prop_not_nullish truthy_not_nullish member_plain)
  next
    case False
    then have tree: "path_node (p @ [n]) = MemberExpression (path_node p) (Identifier n) False"
      by (cases p) simp_all
    have ih: "evaluateNode (path_node p) ctx = Inr (case path_value ctx p of Some u \<Rightarrow> u | None \<Rightarrow> JUndef)"
      using snoc False by simp
    have plain: "plain_name n" using snoc.prems by simp
    show ?thesis
    proof (cases "path_value ctx p")
      case None
      then show ?thesis using ih plain plain_nameD [OF plain] by (simp add: tree path_value_append)
    next
      case (Some u)
      then have "json_value u" using path_value_json assms(1) by blast
      with ih Some plain plain_nameD [OF plain] show ?thesis
        by (auto simp: tree path_value_append member_plain falsy_step image_iff)
    qed
  qed
qed

lemma path_is_str: "(case path_value ctx p of Some u \<Rightarrow> u | None \<Rightarrow> JUndef) = JStr s \<longleftrightarrow> path_value ctx p = Some (JStr s)"
  by (auto split: option.split)

lemma evaluate_cond:
  assumes "json_value ctx" "truthy ctx"
  shows "cond_ok c \<Longrightarrow> evaluateNode (node_of logical c) ctx = Inr (JBool (holds_in ctx c))"
  by (induction c)
    (auto simp: evaluate_path [OF assms] binary_op_def unary_op_def path_is_str js_and_def js_or_def)

text \<open>
  C14. On a JSON context the evaluator decides conditions as their author means them: an expression whose
  tree is built from comparisons of paths with strings and the connectives passes exactly when the
  condition holds of the own properties of the context, with either form of connective nodes.
\<close>

theorem evalCel_reference:
  assumes "jsep expression = Inr (node_of logical c)" "cond_ok c" "json_value ctx" "truthy ctx"
  shows "evalCel jsep expression ctx = Inr (holds_in ctx c)"
  by (simp add: evalCel_def assms(1) evaluate_cond [OF assms(3,4,2)])

theorem evalCel_reference_witness:
  "evalCel (\<lambda>_. Inr (node_of True (PathIs [''request'', ''role''] ''admin''))) (JStr ''request.role == \"admin\"'')
     (JObj [(''request'', JObj [(''role'', JStr ''admin'')])]) = Inr True"
proof -
  have n: "plain_name ''request''" "plain_name ''role''" by code_simp+
  show ?thesis
    using evalCel_reference [of "\<lambda>_. Inr (node_of True (PathIs [''request'', ''role''] ''admin''))"
        "JStr ''request.role == \"admin\"''" True "PathIs [''request'', ''role''] ''admin''"
        "JObj [(''request'', JObj [(''role'', JStr ''admin'')])]"] n
    by simp
qed

text \<open>
  The guard of computed properties: a property that is one of the blocked names as a string makes the
  evaluation fail, but an array holding that name is converted to the same key after the check and reads
  the blocked property.
\<close>

theorem property_guard_bypass:
  assumes "evaluateNode obj ctx = Inr object" "truthy object" "n \<in> set unsafe_names"
  shows "(evaluateNode prop ctx = Inr (JStr n) \<longrightarrow>
      evaluateNode (MemberExpression obj prop True) ctx = Inl (eval_error ''Unsafe property access'')) \<and>
    (evaluateNode prop ctx = Inr (JArr [JStr n]) \<longrightarrow>
      evaluateNode (MemberExpression obj prop True) ctx = Inr (member object n))"
  using assms by auto

theorem property_guard_bypass_witness:
  "evaluateNode (MemberExpression (Identifier ''o'') (Identifier ''x'') True)
     (JObj [(''o'', JObj []), (''x'', JArr [JStr ''constructor''])]) = Inr (JFun ''constructor'')"
  using property_guard_bypass [of "Identifier ''o''" "JObj [(''o'', JObj []), (''x'', JArr [JStr ''constructor''])]"
      "JObj []" "''constructor''" "Identifier ''x''"]
  by (simp add: unsafe_names_def proto_get_def object_proto_names_def)

text \<open>
  Identifiers also find the members every object inherits: the expression \<open>toString\<close> (or any other
  name of \<open>Object.prototype\<close> that is not blocked) passes on every context that does not define it.
\<close>

theorem evalCel_inherited_pass:
  assumes "n \<in> set object_proto_names" "n \<noteq> ''constructor''" "jsep expression = Inr (Identifier n)"
  shows "map_of kvs n = None \<Longrightarrow> evalCel jsep expression (JObj kvs) = Inr True"
proof -
  have "n \<notin> set unsafe_names"
    using assms(1,2) by (auto simp: object_proto_names_def unsafe_names_def)
  then show "map_of kvs n = None \<Longrightarrow> evalCel jsep expression (JObj kvs) = Inr True"
    using assms by (simp add: evalCel_def proto_get_def)
qed

theorem evalCel_inherited_pass_witness:
  "evalCel (\<lambda>_. Inr (Identifier ''valueOf'')) (JStr ''valueOf'') (JObj []) = Inr True"
  by (rule evalCel_inherited_pass [of "''valueOf''"]) (simp_all add: object_proto_names_def)

end
