(* ===== verification/PolicyRoutes.thy ===== *)
theory PolicyRoutes
  imports PolicyEval SchemasEngines
begin

text \<open>
  The route handlers in front of Themis: app/api/policies and app/api/themis, with the store
  lib/server/themis-db.ts, which holds nothing. The parser \<open>jsep\<close> and the random part of an identifier are
  arguments of the handlers that use them.
\<close>

section \<open>lib/server/themis-db.ts\<close>

definition themisDb_getPolicies :: jsval where
  "themisDb_getPolicies = JArr []"

definition themisDb_addPolicy :: "jsval \<Rightarrow> ('w, unit) js" where
  "themisDb_addPolicy p = ret ()"

section \<open>app/api/policies\<close>

definition either_of :: "jsval \<Rightarrow> string \<Rightarrow> string \<Rightarrow> jsval" where
  \<comment> \<open>\<open>p.a ?? p.b\<close>\<close>
  "either_of p a b = js_coalesce (member p a) (member p b)"

definition policy_view :: "jsval \<Rightarrow> jsval res" where
  "policy_view p = map_sum id (\<lambda>_. JObj [
     (''ID'', either_of p ''id'' ''ID''),
     (''TenantID'', js_coalesce (either_of p ''tenant_id'' ''TenantID'') (JStr ''default'')),
     (''Name'', either_of p ''name'' ''Name''),
     (''Description'', js_coalesce (either_of p ''description'' ''Description'') (JStr [])),
     (''Expression'', either_of p ''expression'' ''Expression''),
     (''Priority'', js_coalesce (either_of p ''priority'' ''Priority'') (jint 1)),
     (''Enabled'', js_coalesce (either_of p ''enabled'' ''Enabled'') (JBool True)),
     (''Labels'', js_coalesce (either_of p ''labels'' ''Labels'') (JObj [])),
     (''CreatedAt'', js_coalesce (either_of p ''created_at'' ''CreatedAt'') (JStr [])),
     (''UpdatedAt'', js_coalesce (either_of p ''updated_at'' ''UpdatedAt'') (JStr []))])
     (get_prop p ''id'')"

definition text_has :: "string \<Rightarrow> string \<Rightarrow> jsval \<Rightarrow> bool res" where
  "text_has expr q v = map_sum id truthy
     (str_method expr ''toLowerCase'' (\<lambda>s. JBool (str_includes (to_lower s) q)) v)"

definition or_else :: "bool res \<Rightarrow> bool res \<Rightarrow> bool res" where
  "or_else a b = (case a of Inr False \<Rightarrow> b | _ \<Rightarrow> a)"

definition policy_matches :: "string \<Rightarrow> jsval \<Rightarrow> bool res" where
  "policy_matches q p =
     or_else (text_has ''p.Name'' q (member p ''Name''))
       (or_else (text_has ''p.Expression'' q (member p ''Expression''))
         (text_has ''p.Description'' q (member p ''Description'')))"

definition policy_order :: "'w world_scheme \<Rightarrow> jsval \<Rightarrow> jsval \<Rightarrow> jnum" where
  "policy_order w a b = num_sub (date_key w (member b ''CreatedAt'')) (date_key w (member a ''CreatedAt''))"

definition policies_query :: "request \<Rightarrow> params" where
  "policies_query req =
     (let tenantId = params_or ''tenant_id'' (req_query req) ''default'';
          cursor = params_or ''cursor'' (req_query req) [];
          search = (case params_get ''search'' (req_query req) of Some s \<Rightarrow> to_lower s | None \<Rightarrow> []);
          limit = params_or ''limit'' (req_query req) ''50'';
          q1 = set_if ''cursor'' cursor (params_set ''tenant_id'' tenantId [])
      in if search \<noteq> [] then params_set ''limit'' ''100'' q1 else set_if ''limit'' limit q1)"

definition policies_GET :: "request \<Rightarrow> ('w, response) act" where
  "policies_GET req =
     (let search = (case params_get ''search'' (req_query req) of Some s \<Rightarrow> to_lower s | None \<Rightarrow> [])
      in bnd (proxyRequest ''themis'' (''/policies?'' @ params_string (policies_query req)) ZAny None) (\<lambda>res.
         if \<not> rp_ok res then ret res
         else
           bnd (resp_json res) (\<lambda>json.
           bnd (lift (unwrap_list ''data'' json)) (\<lambda>rawList.
           bnd (lift (as_array ''rawList'' ''map'' rawList)) (\<lambda>raw.
           bnd (lift (map_res policy_view raw)) (\<lambda>data.
           bnd (lift (if search \<noteq> [] then filter_res (policy_matches search) data else Inr data)) (\<lambda>found.
           bnd (asks (\<lambda>w. js_sort (policy_order w) found)) (\<lambda>sorted.
           respond (JObj [(''data'', JArr sorted),
             (''has_more'', js_coalesce (member json ''has_more'') (JBool False)),
             (''cursor'', member json ''cursor'')]) 200))))))))"

definition policies_POST :: "request \<Rightarrow> ('w, response) act" where
  "policies_POST req =
     bnd (request_json req) (\<lambda>body.
     jget body ''tenantId'' (\<lambda>tenantId.
     let payload = JObj [(''tenant_id'', js_or tenantId (JStr ''default'')), (''name'', member body ''name''),
           (''description'', js_or (member body ''description'') (JStr [])), (''expression'', member body ''expression''),
           (''priority'', js_or (JNum (to_num (member body ''priority''))) (jint 1)),
           (''enabled'', JBool (\<not> strict_eq (member body ''enabled'') (JBool False))),
           (''labels'', js_or (member body ''labels'') (JObj []))]
     in bnd (proxyRequest ''themis'' ''/policies'' goPolicySchema (Some (po_json ''POST'' payload))) (\<lambda>res.
        if \<not> rp_ok res then ret res
        else bnd (resp_json res) (\<lambda>p. bnd (lift (policy_view p)) (\<lambda>view. respond view 200)))))"

definition tenant_query :: "request \<Rightarrow> string" where
  \<comment> \<open>\<open>?tenant_id=...\<close> from the request, \<open>default\<close> without one\<close>
  "tenant_query req = ''?tenant_id='' @ encode_uri_component (params_or ''tenant_id'' (req_query req) ''default'')"

definition policy_DELETE :: "string \<Rightarrow> request \<Rightarrow> ('w, response) act" where
  "policy_DELETE i req = proxyRequest ''themis'' (''/policies/'' @ i @ tenant_query req) deletePolicyResponseSchema
     (Some (po_method_only ''DELETE''))"

definition policy_PUT :: "string \<Rightarrow> request \<Rightarrow> ('w, response) act" where
  "policy_PUT i req = forward_json req ''themis'' (''/policies/'' @ i) policySchema (po_json ''PUT'')"

definition result_view :: "jsval \<Rightarrow> jsval res" where
  "result_view r = map_sum id (\<lambda>_. JObj [
     (''PolicyID'', js_coalesce (either_of r ''policy_id'' ''PolicyID'') (JStr [])),
     (''PolicyName'', js_coalesce (either_of r ''policy_name'' ''PolicyName'') (JStr [])),
     (''Passed'', js_bool (js_coalesce (either_of r ''passed'' ''Passed'') (JBool False))),
     (''Error'', either_of r ''error'' ''Error''),
     (''Expression'', js_coalesce (either_of r ''expression'' ''Expression'') (JStr []))])
     (get_prop r ''policy_id'')"

definition policies_evaluate_POST :: "request \<Rightarrow> ('w, response) act" where
  "policies_evaluate_POST req =
     bnd (request_json req) (\<lambda>body.
     jget body ''tenantId'' (\<lambda>tenantId.
     let payload = JObj [(''tenant_id'', js_or tenantId (JStr ''default'')),
           (''policy_id'', js_or (member body ''policyId'') (JStr [])),
           (''payload'', js_or (member body ''payload'') (JObj [])),
           (''label_filter'', js_or (member body ''labelFilter'') (JObj []))]
     in bnd (proxyRequest ''themis'' ''/policies/evaluate'' ZAny (Some (po_json ''POST'' payload))) (\<lambda>res.
        if \<not> rp_ok res then ret res
        else
          bnd (resp_json res) (\<lambda>data.
          jget data ''all_passed'' (\<lambda>passed.
          bnd (lift (as_array ''(data.results ?? data.Results ?? [])'' ''map''
            (js_coalesce (either_of data ''results'' ''Results'') (JArr [])))) (\<lambda>rs.
          bnd (lift (map_res result_view rs)) (\<lambda>results.
          respond (JObj [
            (''AllPassed'', js_coalesce (js_coalesce passed (member data ''AllPassed'')) (JBool False)),
            (''TotalEvaluated'', js_coalesce (either_of data ''total_evaluated'' ''TotalEvaluated'') (jint 0)),
            (''Results'', JArr results)]) 200)))))))"

section \<open>app/api/themis/eval\<close>

text \<open>The first policy whose expression passes; an unsafe expression ends the search.\<close>

fun first_passing :: "jsep \<Rightarrow> jsval \<Rightarrow> jsval list \<Rightarrow> jsval option res" where
  "first_passing jsep ctx [] = Inr None"
| "first_passing jsep ctx (p # ps) = (case evalCel jsep (member p ''expression'') ctx of
     Inl e \<Rightarrow> Inl e
   | Inr allowed \<Rightarrow> if allowed then Inr (Some p) else first_passing jsep ctx ps)"

definition verdict :: "bool \<Rightarrow> jsval" where
  "verdict passed = JStr (if passed then ''Passed'' else ''Failed'')"

definition eval_locally :: "jsep \<Rightarrow> jsval \<Rightarrow> jsval list \<Rightarrow> jsval \<Rightarrow> ('w, response) js" where
  "eval_locally jsep expression policies ctx =
     (if truthy expression then
        bnd (lift (evalCel jsep expression ctx)) (\<lambda>allowed.
        respond (JObj [(''result'', verdict allowed), (''matchedPolicy'', JNull)]) 200)
      else
        bnd (lift (filter_res (\<lambda>p. map_sum id truthy (get_prop p ''enabled'')) policies)) (\<lambda>active.
        bnd (lift (first_passing jsep ctx active)) (\<lambda>matched.
        respond (JObj [(''result'', verdict (matched \<noteq> None)),
          (''matchedPolicy'', case matched of Some p \<Rightarrow> p | None \<Rightarrow> JNull)]) 200)))"

fun find_passed :: "jsval list \<Rightarrow> jsval option res" where
  "find_passed [] = Inr None"
| "find_passed (r # rs) = (case get_prop r ''passed'' of Inl e \<Rightarrow> Inl e
     | Inr v \<Rightarrow> if truthy v then Inr (Some r) else find_passed rs)"

definition eval_dry_run :: "jsval \<Rightarrow> jsval \<Rightarrow> ('w, response) act" where
  "eval_dry_run expression ctx =
     bnd (proxyRequest ''themis'' ''/policies/dry-run'' ZAny (Some (po_json ''POST''
        (JObj [(''expression'', expression), (''payload'', ctx)])))) (\<lambda>res.
     if \<not> rp_ok res then ret res
     else bnd (resp_json res) (\<lambda>data.
       jget data ''passed'' (\<lambda>passed.
       respond (JObj [(''result'', verdict (truthy passed)), (''matchedPolicy'', JNull),
         (''error'', js_or (member data ''error'') JUndef)]) 200)))"

definition eval_engine :: "jsval \<Rightarrow> jsval \<Rightarrow> ('w, response) act" where
  "eval_engine body ctx =
     bnd (proxyRequest ''themis'' ''/policies/evaluate'' ZAny (Some (po_json ''POST'' (JObj [
        (''tenant_id'', js_or (js_or (member body ''tenant_id'') (member body ''tenantId'')) (JStr ''default'')),
        (''policy_id'', js_or (js_or (member body ''policy_id'') (member body ''policyId'')) (JStr [])),
        (''payload'', ctx),
        (''label_filter'', js_or (js_or (member body ''label_filter'') (member body ''labelFilter'')) (JObj []))])))) (\<lambda>res.
     if \<not> rp_ok res then ret res
     else
       bnd (resp_json res) (\<lambda>data.
       jget data ''results'' (\<lambda>rs.
       let results = js_or rs (JArr [])
       in bnd (lift (as_array ''results'' ''find'' results)) (\<lambda>xs.
          bnd (lift (find_passed xs)) (\<lambda>matched.
          respond (JObj [
            (''result'', verdict (truthy (member data ''all_passed'') \<or> matched \<noteq> None)),
            (''matchedPolicy'', case matched of None \<Rightarrow> JNull
               | Some m \<Rightarrow> JObj [(''id'', member m ''policy_id''), (''name'', member m ''policy_name''),
                              (''expression'', member m ''expression'')]),
            (''results'', results), (''all_passed'', member data ''all_passed'')]) 200)))))"

definition themis_eval_with :: "jsval \<Rightarrow> jsep \<Rightarrow> request \<Rightarrow> ('w, response) act" where
  "themis_eval_with localPolicies jsep req = try_catch
     (bnd (request_json req) (\<lambda>body.
      jget body ''context'' (\<lambda>context.
      let ctx = js_or context (member body ''payload''); expression = member body ''expression''
      in if \<not> truthy ctx then fail_with 400 ''Missing context''
         else if elems localPolicies \<noteq> [] then eval_locally jsep expression (elems localPolicies) ctx
         else if truthy expression then eval_dry_run expression ctx
         else eval_engine body ctx)))
     (catch_with 500 ''Evaluation failed'')"

definition themis_eval_POST :: "jsep \<Rightarrow> request \<Rightarrow> ('w, response) act" where
  "themis_eval_POST = themis_eval_with themisDb_getPolicies"

section \<open>app/api/themis/policies\<close>

definition themis_policies_with :: "jsval \<Rightarrow> request \<Rightarrow> ('w, response) act" where
  "themis_policies_with localPolicies req =
     (if elems localPolicies \<noteq> [] then respond localPolicies 200
      else
        let tenantId = params_or ''tenant_id'' (req_query req) ''default'';
            limit = params_or ''limit'' (req_query req) ''100''; cursor = params_or ''cursor'' (req_query req) [];
            qs = set_if ''cursor'' cursor (set_if ''limit'' limit (params_set ''tenant_id'' tenantId []))
        in bnd (proxyRequest ''themis'' (''/policies?'' @ params_string qs) ZAny None) (\<lambda>res.
           if \<not> rp_ok res then ret res
           else bnd (resp_json res) (\<lambda>json.
             bnd (lift (unwrap_list ''data'' json)) (\<lambda>list. respond list 200))))"

definition themis_policies_GET :: "request \<Rightarrow> ('w, response) act" where
  "themis_policies_GET = themis_policies_with themisDb_getPolicies"

text \<open>\<open>err instanceof Error ? err.message : String(err)\<close>\<close>

definition err_text :: "exn \<Rightarrow> string" where
  "err_text e = (case e of Error _ msg \<Rightarrow> msg | Thrown v \<Rightarrow> to_str v)"

definition themis_payload :: "jsval \<Rightarrow> jsval" where
  "themis_payload body = JObj [
     (''tenant_id'', js_or (js_or (member body ''tenant_id'') (member body ''tenantId'')) (JStr ''default'')),
     (''name'', member body ''name''), (''description'', js_or (member body ''description'') (JStr [])),
     (''expression'', member body ''expression''),
     (''priority'', JNum (to_num (js_coalesce (member body ''priority'') (jint 1)))),
     (''enabled'', JBool (\<not> strict_eq (member body ''enabled'') (JBool False))),
     (''labels'', js_or (member body ''labels'') (JObj []))]"

definition themis_policies_POST :: "jsep \<Rightarrow> string \<Rightarrow> request \<Rightarrow> ('w, response) act" where
  "themis_policies_POST jsep rnd req = try_catch
     (bnd (request_json req) (\<lambda>body0.
      bnd (lift (destructure ''body'' ''name'' body0)) (\<lambda>body.
      let name = member body ''name''; expression = member body ''expression''
      in if \<not> truthy name \<or> \<not> truthy expression then fail_with 400 ''Missing required fields''
         else (case jsep expression of
             Inl e \<Rightarrow> fail_with 400 (''Invalid CEL syntax: '' @ err_text e)
           | Inr _ \<Rightarrow>
               (let payload = themis_payload body;
                    createdInDb = obj_spread (JObj [(''id'', JStr (''pol_'' @ rnd))]) payload
                in bnd (themisDb_addPolicy createdInDb) (\<lambda>_.
                   bnd (proxyRequest ''themis'' ''/policies'' ZAny (Some (po_json ''POST'' payload))) (\<lambda>res.
                   if rp_ok res then ret res else respond createdInDb 201)))))))
     (catch_with 500 ''Failed to create policy'')"

definition themis_policy_GET :: "string \<Rightarrow> request \<Rightarrow> ('w, response) act" where
  "themis_policy_GET i req = proxyRequest ''themis'' (''/policies/'' @ i @ tenant_query req) ZAny None"

definition themis_policy_PUT :: "string \<Rightarrow> request \<Rightarrow> ('w, response) act" where
  "themis_policy_PUT i req = try_forward_json req ''themis'' (''/policies/'' @ i) ZAny (po_json ''PUT'')
     ''Failed to update policy''"

definition themis_policy_DELETE :: "string \<Rightarrow> request \<Rightarrow> ('w, response) act" where
  "themis_policy_DELETE i req =
     proxyRequest ''themis'' (''/policies/'' @ i @ tenant_query req) ZAny (Some (po_method_only ''DELETE''))"

definition fixture_DELETE :: "string \<Rightarrow> string \<Rightarrow> request \<Rightarrow> ('w, response) act" where
  "fixture_DELETE i fixture req = proxyRequest ''themis'' (''/policies/'' @ i @ ''/fixtures/'' @ fixture @ tenant_query req)
     ZAny (Some (po_method_only ''DELETE''))"

definition fixtures_GET :: "string \<Rightarrow> request \<Rightarrow> ('w, response) act" where
  "fixtures_GET i req =
     proxyRequest ''themis'' (''/policies/'' @ i @ ''/fixtures'' @ tenant_query req) policyFixtureListSchema None"

definition fixtures_POST :: "string \<Rightarrow> request \<Rightarrow> ('w, response) act" where
  "fixtures_POST i req = try_tail
     (bnd (request_json req) (\<lambda>body.
      let q = params_or ''tenant_id'' (req_query req) []
      in bnd (if q \<noteq> [] then ret (JStr q) else
           jget body ''tenant_id'' (\<lambda>t. ret (js_or t (JStr ''default'')))) (\<lambda>tenantId.
         jget body ''name'' (\<lambda>name.
         let payload = JObj [(''tenant_id'', tenantId), (''name'', name),
               (''description'', js_or (member body ''description'') (JStr [])),
               (''payload'', js_or (member body ''payload'') (JObj [])),
               (''expected_result'', js_bool (member body ''expected_result''))]
         in ret (proxyRequest ''themis'' (''/policies/'' @ i @ ''/fixtures?tenant_id='' @ encode_val tenantId)
              policyFixtureSchema (Some (po_json ''POST'' payload)))))))
     (catch_with 400 ''Failed to create fixture'')"

definition policy_rollback_POST :: "string \<Rightarrow> string \<Rightarrow> request \<Rightarrow> ('w, response) act" where
  "policy_rollback_POST i version req = proxyRequest ''themis'' (''/policies/'' @ i @ ''/rollback/'' @ version @
     tenant_query req) ZAny (Some (po_method_only ''POST''))"

definition policy_test_suite_POST :: "string \<Rightarrow> request \<Rightarrow> ('w, response) act" where
  "policy_test_suite_POST i req = proxyRequest ''themis'' (''/policies/'' @ i @ ''/test-suite'' @ tenant_query req)
     testSuiteResultSchema (Some (po_method_only ''POST''))"

definition policy_versions_GET :: "string \<Rightarrow> request \<Rightarrow> ('w, response) act" where
  "policy_versions_GET i req =
     proxyRequest ''themis'' (''/policies/'' @ i @ ''/versions'' @ tenant_query req) policyVersionListSchema None"

text \<open>\<open>policy.enabled = v\<close> on a value that came out of JSON: an array keeps its elements.\<close>

definition set_enabled :: "bool \<Rightarrow> jsval \<Rightarrow> jsval res" where
  "set_enabled b v = (case v of
     JObj kvs \<Rightarrow> Inr (JObj (al_set ''enabled'' (JBool b) kvs))
   | JArr xs \<Rightarrow> Inr (JArr xs)
   | _ \<Rightarrow> Inl (type_error (if nullish v then ''Cannot set properties of '' @ to_str v @ '' (setting '' @ [CHR 0x27] @
            ''enabled'' @ [CHR 0x27] @ '')''
          else ''Cannot create property '' @ [CHR 0x27] @ ''enabled'' @ [CHR 0x27] @ '' on '' @ zod_type v @ '' '' @
            [CHR 0x27] @ to_str v @ [CHR 0x27])))"

definition policy_toggle_PATCH :: "string \<Rightarrow> request \<Rightarrow> ('w, response) act" where
  "policy_toggle_PATCH i req = try_tail
     (bnd (request_json req) (\<lambda>body.
      jget body ''enabled'' (\<lambda>enabled.
      bnd (proxyRequest ''themis'' (''/policies/'' @ i) ZAny None) (\<lambda>getRes.
      if \<not> rp_ok getRes then ret (ret getRes)
      else
        bnd (resp_json getRes) (\<lambda>policy0.
        bnd (lift (set_enabled (truthy enabled) policy0)) (\<lambda>policy.
        ret (proxyRequest ''themis'' (''/policies/'' @ i) ZAny (Some (po_json ''PUT'' policy)))))))))
     (catch_with 400 ''Failed to toggle policy'')"

definition themis_validate_POST :: "request \<Rightarrow> ('w, response) act" where
  "themis_validate_POST req = try_tail
     (bnd (request_json req) (\<lambda>body.
      bnd (lift (destructure ''body'' ''expression'' body)) (\<lambda>b.
      let expression = member b ''expression''
      in if \<not> truthy expression then ret (fail_with 400 ''expression is required'')
         else ret (proxyRequest ''themis'' ''/policies/validate'' validationResultSchema
           (Some (po_json ''POST'' (JObj [(''expression'', expression)])))))))
     (catch_with 400 ''Validation failed'')"

section \<open>Deciding locally\<close>

definition passes :: "jsep \<Rightarrow> jsval \<Rightarrow> jsval \<Rightarrow> bool" where
  "passes jsep ctx p \<longleftrightarrow> evalCel jsep (member p ''expression'') ctx = Inr True"

lemma first_passing_Some:
  "first_passing jsep ctx ps = Inr (Some p) \<Longrightarrow>
     \<exists>pre post. ps = pre @ p # post \<and> passes jsep ctx p \<and>
        (\<forall>q \<in> set pre. evalCel jsep (member q ''expression'') ctx = Inr False)"
proof (induction ps)
  case Nil
  then show ?case by simp
next
  case (Cons q ps)
  obtain b where b: "evalCel jsep (member q ''expression'') ctx = Inr b"
    using Cons.prems by (auto split: sum.splits)
  show ?case
  proof (cases b)
    case True
    then have "q # ps = [] @ p # ps \<and> passes jsep ctx p" using Cons.prems b by (simp add: passes_def)
    then show ?thesis by fastforce
  next
    case False
    then obtain pre post where "ps = pre @ p # post" "passes jsep ctx p"
      "\<forall>q \<in> set pre. evalCel jsep (member q ''expression'') ctx = Inr False"
      using Cons b by auto
    then have "q # ps = (q # pre) @ p # post \<and> passes jsep ctx p \<and>
        (\<forall>q \<in> set (q # pre). evalCel jsep (member q ''expression'') ctx = Inr False)"
      using b False by simp
    then show ?thesis by blast
  qed
qed

lemma first_passing_total:
  "\<forall>q \<in> set ps. \<exists>b. evalCel jsep (member q ''expression'') ctx = Inr b \<Longrightarrow> \<exists>r. first_passing jsep ctx ps = Inr r"
  by (induction ps) (auto split: sum.split)

lemma first_passing_None:
  "first_passing jsep ctx ps = Inr None \<longleftrightarrow>
     (\<forall>q \<in> set ps. evalCel jsep (member q ''expression'') ctx = Inr False)"
  by (induction ps) (auto split: sum.split)

lemma filter_res_Inr: "(\<And>x. x \<in> set xs \<Longrightarrow> f x = Inr (P x)) \<Longrightarrow> filter_res f xs = Inr (filter P xs)"
  by (induction xs) auto

definition enabled_policy :: "jsval \<Rightarrow> bool" where
  "enabled_policy p \<longleftrightarrow> truthy (member p ''enabled'')"

text \<open>
  Local evaluation: without an expression of its own, a request passes exactly when an enabled policy
  passes, and the policy reported is the first such one in the order of the store.
\<close>

theorem eval_locally_first_match:
  fixes w :: 'w
  assumes "\<not> truthy expression" "\<forall>p \<in> set ps. \<not> nullish p"
    and "\<forall>p \<in> set ps. enabled_policy p \<longrightarrow> (\<exists>b. evalCel jsep (member p ''expression'') ctx = Inr b)"
  shows "(\<exists>pre p post. filter enabled_policy ps = pre @ p # post \<and> passes jsep ctx p \<and>
        (\<forall>q \<in> set pre. \<not> passes jsep ctx q) \<and>
        eval_locally jsep expression ps ctx w =
          (next_json (JObj [(''result'', JStr ''Passed''), (''matchedPolicy'', p)]) 200 [], w)) \<or>
    (\<forall>p \<in> set ps. enabled_policy p \<longrightarrow> \<not> passes jsep ctx p) \<and>
      eval_locally jsep expression ps ctx w =
        (next_json (JObj [(''result'', JStr ''Failed''), (''matchedPolicy'', JNull)]) 200 [], w)"
proof -
  let ?active = "filter enabled_policy ps"
  have active: "filter_res (\<lambda>p. map_sum id truthy (get_prop p ''enabled'')) ps = Inr ?active"
    by (rule filter_res_Inr) (use assms(2) in \<open>simp add: get_prop_not_nullish enabled_policy_def\<close>)
  have no_throw: "\<forall>p \<in> set ?active. \<exists>b. evalCel jsep (member p ''expression'') ctx = Inr b"
    using assms(3) by auto
  from first_passing_total [OF this] obtain r where r: "first_passing jsep ctx ?active = Inr r" ..
  have run: "eval_locally jsep expression ps ctx w = (next_json (JObj [(''result'', verdict (r \<noteq> None)),
      (''matchedPolicy'', case r of Some p \<Rightarrow> p | None \<Rightarrow> JNull)]) 200 [], w)"
    using assms(1) by (simp add: eval_locally_def run_bnd_lift active r run_respond)
  show ?thesis
  proof (cases r)
    case None
    then have "\<forall>p \<in> set ?active. evalCel jsep (member p ''expression'') ctx = Inr False"
      using r by (simp add: first_passing_None)
    with run None show ?thesis by (auto simp: passes_def verdict_def)
  next
    case (Some p)
    then obtain pre post where "?active = pre @ p # post" "passes jsep ctx p"
      "\<forall>q \<in> set pre. evalCel jsep (member q ''expression'') ctx = Inr False"
      using r first_passing_Some by metis
    with run Some show ?thesis by (intro disjI1 exI conjI) (auto simp: passes_def verdict_def)
  qed
qed

theorem eval_locally_first_match_witness:
  "eval_locally (\<lambda>_. Inr (Literal (JBool True))) JUndef [JObj [(''expression'', JStr ''true''), (''enabled'', JBool True)]]
     (JObj []) () = (next_json (JObj [(''result'', JStr ''Passed''), (''matchedPolicy'',
       JObj [(''expression'', JStr ''true''), (''enabled'', JBool True)])]) 200 [], ())"
  using eval_locally_first_match [of JUndef "[JObj [(''expression'', JStr ''true''), (''enabled'', JBool True)]]"
      "\<lambda>_. Inr (Literal (JBool True))" "JObj []" "()"]
  by (auto simp: enabled_policy_def passes_def evalCel_def Cons_eq_append_conv)

section \<open>Lists of policies\<close>

lemma unwrap_arr [simp]: "unwrap_list key (JArr xs) = Inr (JArr xs)"
  by (simp add: unwrap_list_def)

text \<open>
  The list of policies is sorted: when the engine answered with an array of policies whose dates are
  valid, the response holds each of them once, newest first.
\<close>

theorem policies_sorted:
  fixes w :: "'w world_scheme"
  assumes "proxyRequest ''themis'' (''/policies?'' @ params_string (policies_query req)) ZAny None w = (Inr res, w')"
    and "rp_ok res" "rp_body res = JsonBody (JArr raw)" "map_res policy_view raw = Inr data"
    and "params_get ''search'' (req_query req) = None"
    and "\<forall>p \<in> set data. date_key w' (member p ''CreatedAt'') = Fin (t p)"
  shows "\<exists>sorted rest. policies_GET req w = (next_json (JObj ((''data'', JArr sorted) # rest)) 200 [], w') \<and>
    mset sorted = mset data \<and> sorted_wrt (\<lambda>p q. t p \<ge> t q) sorted"
proof -
  let ?sorted = "js_sort (policy_order w') data"
  have run1: "bnd (proxyRequest ''themis'' (''/policies?'' @ params_string (policies_query req)) ZAny None) g w = g res w'"
    for g :: "response \<Rightarrow> ('w, response) act"
    using assms(1) by (rule run_bnd)
  have "policies_GET req w = (next_json (JObj ((''data'', JArr ?sorted) #
      [(''has_more'', js_coalesce (member (JArr raw) ''has_more'') (JBool False)),
       (''cursor'', member (JArr raw) ''cursor'')])) 200 [], w')"
    unfolding policies_GET_def Let_def run1
    using assms(2-5) by (simp add: resp_json_def run run_respond)
  moreover have "sorted_wrt (\<lambda>p q. t p \<ge> t q) ?sorted"
    by (rule js_sort_sorted) (use assms(6) in \<open>simp add: policy_order_def\<close>)
  moreover have "mset ?sorted = mset data" by simp
  ultimately show ?thesis by blast
qed

section \<open>Creating a policy\<close>

text \<open>
  Creating a policy answers 201 with a policy record whenever Themis did not accept it, for whatever
  reason: the record is in no store, since the console's own store keeps nothing.
\<close>

theorem create_policy_masks_failure:
  fixes w :: "'w world_scheme"
  assumes "parse_text w (req_text req) = Inr (JObj kvs)"
    and "truthy (member (JObj kvs) ''name'')" "truthy (member (JObj kvs) ''expression'')"
    and "jsep (member (JObj kvs) ''expression'') = Inr ast"
    and "proxyRequest ''themis'' ''/policies'' ZAny (Some (po_json ''POST'' (themis_payload (JObj kvs)))) w = (Inr res, w')"
    and "\<not> rp_ok res"
  shows "themis_policies_POST jsep rnd req w =
      (next_json (obj_spread (JObj [(''id'', JStr (''pol_'' @ rnd))]) (themis_payload (JObj kvs))) 201 [], w') \<and>
    (\<exists>r. fst (themis_policies_POST jsep rnd req w) = Inr r \<and> rp_status r = 201) \<and>
    themisDb_getPolicies = JArr []"
proof -
  have run1: "bnd (proxyRequest ''themis'' ''/policies'' ZAny (Some (po_json ''POST'' (themis_payload (JObj kvs))))) g w = g res w'"
    for g :: "response \<Rightarrow> ('w, response) act"
    using assms(5) by (rule run_bnd)
  have ok: "\<exists>r. next_json (obj_spread (JObj [(''id'', JStr (''pol_'' @ rnd))]) (themis_payload (JObj kvs))) 201 [] = Inr r \<and>
      rp_status r = 201"
    by (simp add: obj_spread_def next_json_obj)
  then have "themis_policies_POST jsep rnd req w =
      (next_json (obj_spread (JObj [(''id'', JStr (''pol_'' @ rnd))]) (themis_payload (JObj kvs))) 201 [], w')"
    using assms(1-4,6)
    by (auto simp: themis_policies_POST_def try_catch_def run destructure_def Let_def themisDb_addPolicy_def run1 run_respond)
  with ok show ?thesis by (simp add: themisDb_getPolicies_def)
qed

theorem policies_sorted_witness:
  "let w = (example_world [] (\<lambda>_. ok_text ''[{\"id\":\"p1\"}]''))\<lparr>w_date := (\<lambda>_. Fin 0)\<rparr>
   in \<exists>sorted rest. fst (policies_GET (json_request []) w) = next_json (JObj ((''data'', JArr sorted) # rest)) 200 [] \<and>
        length sorted = 1"
proof -
  let ?w = "(example_world [] (\<lambda>_. ok_text ''[{\"id\":\"p1\"}]''))\<lparr>w_date := (\<lambda>_. Fin 0)\<rparr>"
  let ?req = "json_request []" and ?raw = "[JObj [(''id'', JStr ''p1'')]]"
  let ?path = "''/policies?'' @ params_string (policies_query ?req)"
  have "json_parse ''[{\"id\":\"p1\"}]'' = Some (JArr ?raw)" by code_simp
  then have v: "upstream_value ''[{\"id\":\"p1\"}]'' = JArr ?raw" by (simp add: upstream_value_def)
  have none: "required_permissions ''themis'' None = []"
    by (rule required_none) (simp add: permission_domain_def)
  have run: "proxyRequest ''themis'' ?path ZAny None ?w =
      (Inr \<lparr>rp_status = 200, rp_headers = id_headers (w_uuid ?w (w_uuids ?w)), rp_body = JsonBody (json_clean (JArr ?raw)), rp_cookies = []\<rparr>,
       log_request (proxy_outgoing ?w (w_uuid ?w (w_uuids ?w)) ''themis'' ?path None) (checked_world ?w []))"
    by (rule unguarded_ok [OF _ none, where t = "''[{\"id\":\"p1\"}]''"]) (simp_all add: engines_def v zod_example_def numeral_eq_Suc)
  obtain view where view: "policy_view (JObj [(''id'', JStr ''p1'')]) = Inr view" "member view ''CreatedAt'' = JStr []"
    by (simp add: policy_view_def either_of_def js_coalesce_def proto_get_def object_proto_names_def)
  have "\<exists>sorted rest. policies_GET ?req ?w = (next_json (JObj ((''data'', JArr sorted) # rest)) 200 [],
      log_request (proxy_outgoing ?w (w_uuid ?w (w_uuids ?w)) ''themis'' ?path None) (checked_world ?w [])) \<and>
      mset sorted = mset [view] \<and> sorted_wrt (\<lambda>p q. (0::rat) \<ge> 0) sorted"
    by (rule policies_sorted [OF run, of ?raw])
      (simp_all add: view rp_ok_def json_request_def params_get_def date_key_def checked_world_def log_request_def)
  then show ?thesis unfolding Let_def by (metis fst_conv length_Cons list.size(3) size_mset One_nat_def)
qed

theorem create_policy_masks_failure_witness:
  "\<exists>r. fst (themis_policies_POST (\<lambda>_. Inr CallExpression) ''x1'' (json_request ''{\"name\":\"n\",\"expression\":\"f()\"}'')
     (example_world [] (\<lambda>_. Inl (type_error ''fetch failed'')))) = Inr r \<and> rp_status r = 201"
proof -
  let ?w = "example_world [] (\<lambda>_. Inl (type_error ''fetch failed''))"
  let ?req = "json_request ''{\"name\":\"n\",\"expression\":\"f()\"}''"
  let ?kvs = "[(''name'', JStr ''n''), (''expression'', JStr ''f()'')]"
  have "json_parse ''{\"name\":\"n\",\"expression\":\"f()\"}'' = Some (JObj ?kvs)" by code_simp
  then have p: "parse_text ?w (req_text ?req) = Inr (JObj ?kvs)"
    by (simp only: json_request_text parse_text_Inr)
  have none: "required_permissions ''themis'' (Some (po_json ''POST'' (themis_payload (JObj ?kvs)))) = []"
    by (rule required_json) (simp add: permission_domain_def)
  note run = unguarded_down [OF _ none, of ?w "type_error ''fetch failed''" "''/policies''" ZAny]
  have "truthy (member (JObj ?kvs) ''name'')" "truthy (member (JObj ?kvs) ''expression'')" by simp_all
  from create_policy_masks_failure [OF p this _ run, of "\<lambda>_. Inr CallExpression" CallExpression "''x1''"]
  show ?thesis unfolding rp_ok_def engines_def by auto
qed

end
