(* ===== verification/AuthRoutes.thy ===== *)
theory AuthRoutes
  imports JsCalls Macaroons
begin

text \<open>
  Signing in and out: app/api/auth (password, SAML and OIDC logins, first set-up, status) and
  lib/auth/sso.ts. SHA-256 and the parser of absolute URLs are arguments. A redirect of the handlers goes to a path
  of the console's own origin or to the identity provider.
\<close>

section \<open>Cookies and redirects\<close>

text \<open>\<open>new URL(path, request.url)\<close> for a path of the console, as text: an apostrophe in the query is escaped.\<close>

definition own_url :: "request \<Rightarrow> string \<Rightarrow> string" where
  "own_url req path = req_origin req @ concat (map (\<lambda>c. if c = CHR 0x27 then ''%27'' else [c]) path)"

definition redirect_to :: "string \<Rightarrow> ('w, response) js" where
  "redirect_to url = lift (mk_response NoBody 307 [(''Location'', url)])"

definition production :: "'w world_scheme \<Rightarrow> jsval" where
  "production w = JBool (w_env w ''NODE_ENV'' = Some ''production'')"

text \<open>The value of a cookie as it is written: nothing for \<open>null\<close> and \<open>undefined\<close>.\<close>

definition cookie_value :: "jsval \<Rightarrow> string" where
  "cookie_value v = (if nullish v then [] else to_str v)"

definition session_options :: "'w world_scheme \<Rightarrow> (string \<times> jsval) list" where
  "session_options w = [(''httpOnly'', JBool True), (''secure'', production w), (''sameSite'', JStr ''lax''), (''path'', JStr ''/'')]"

definition read_cookie :: "string \<Rightarrow> ('w, string option) act" where
  "read_cookie k = asks (\<lambda>w. map_of (w_cookies w) k)"

definition without_dashes :: "string \<Rightarrow> string" where
  "without_dashes s = filter (\<lambda>c. c \<noteq> CHR ''-'') s"

section \<open>Password login and set-up\<close>

text \<open>The handler of login and of setup: they differ in the path and the default message.\<close>

definition session_login :: "string \<Rightarrow> string \<Rightarrow> request \<Rightarrow> ('w, response) act" where
  "session_login path fallback req = try_catch
     (bnd (request_json req) (\<lambda>body.
      bnd (fetch_post ''argus'' path body) (\<lambda>res.
      bnd (response_json res) (\<lambda>data.
      if \<not> rs_ok res then
        jget data ''error'' (\<lambda>err. respond (JObj [(''error'', js_or err (JStr fallback))]) (rs_status res))
      else
        jget data ''operator'' (\<lambda>operator.
        bnd (respond (JObj [(''success'', JBool True), (''operator'', operator)]) 200) (\<lambda>response.
        bnd (asks (\<lambda>w. session_options w @ [(''expires'', JNum (date_key w (member data ''expires_at'')))])) (\<lambda>opts.
        ret (set_cookie SESSION_COOKIE_NAME (cookie_value (member data ''session_token'')) opts response))))))))
     (catch_with 500 ''Internal server error'')"

definition auth_login_POST :: "request \<Rightarrow> ('w, response) act" where
  "auth_login_POST = session_login ''/v1/auth/login'' ''Authentication failed''"

definition auth_setup_POST :: "request \<Rightarrow> ('w, response) act" where
  "auth_setup_POST = session_login ''/v1/auth/bootstrap'' ''Bootstrap setup failed''"

definition logout_request :: "string \<Rightarrow> string \<Rightarrow> http_request" where
  "logout_request u token = \<lparr>rq_method = ''DELETE'', rq_url = u @ ''/v1/auth/session'',
     rq_headers = headers_of [] [(''Authorization'', ''Bearer '' @ token)], rq_body = NoBody\<rparr>"

definition auth_logout_POST :: "('w, response) act" where
  "auth_logout_POST = try_catch
     (bnd (read_cookie SESSION_COOKIE_NAME) (\<lambda>token.
      bnd (case token of
           Some (c # t) \<Rightarrow> bnd (service_url ''argus'') (\<lambda>u.
             bnd (settle (fetch (logout_request u (c # t)))) (\<lambda>_. ret ()))
         | _ \<Rightarrow> ret ()) (\<lambda>_.
      bnd (respond (JObj [(''success'', JBool True)]) 200) (\<lambda>response.
      ret (delete_cookie SESSION_COOKIE_NAME response)))))
     (catch_with 500 ''Internal server error'')"

definition auth_me_GET :: "('w, response) act" where
  "auth_me_GET = try_catch
     (bnd getCurrentOperator (\<lambda>operator.
      if \<not> truthy operator then
        bnd (respond (JObj [(''authenticated'', JBool False)]) 401) (\<lambda>response.
        ret (delete_cookie SESSION_COOKIE_NAME response))
      else respond (JObj [(''authenticated'', JBool True), (''operator'', operator)]) 200))
     (catch_with 500 ''Internal server error'')"

definition auth_status_GET :: "('w, response) act" where
  "auth_status_GET = try_catch
     (bnd (fetch_get ''argus'' ''/v1/auth/status'') (\<lambda>res.
      if \<not> rs_ok res then fail_with (rs_status res) ''Failed to check authentication status''
      else bnd (response_json res) (\<lambda>data. respond data 200)))
     (\<lambda>_. respond (JObj [(''error'', JStr ''Control plane service unavailable''), (''bootstrapped'', JBool False),
        (''operators_count'', jint 0)]) 503)"

section \<open>SAML\<close>

type_synonym url_parser = "string \<Rightarrow> exn + (string \<times> params \<times> string)"
  \<comment> \<open>an absolute URL as the text before its query, the query and the rest\<close>

definition url_text :: "string \<times> params \<times> string \<Rightarrow> string" where
  "url_text u = (case u of (base, query, rest) \<Rightarrow> add_qs base query @ rest)"

definition url_set :: "string \<Rightarrow> string \<Rightarrow> string \<times> params \<times> string \<Rightarrow> string \<times> params \<times> string" where
  "url_set k v u = (case u of (base, query, rest) \<Rightarrow> (base, params_set k v query, rest))"

definition short_cookie :: "'w world_scheme \<Rightarrow> (string \<times> jsval) list" where
  "short_cookie w = [(''httpOnly'', JBool True), (''secure'', production w), (''sameSite'', JStr ''lax''), (''maxAge'', jint 600)]"

definition long_cookie :: "'w world_scheme \<Rightarrow> (string \<times> jsval) list" where
  "long_cookie w = session_options w @ [(''maxAge'', jint 43200)]"

definition saml_login_GET :: "url_parser \<Rightarrow> ('w, response) act" where
  "saml_login_GET parse = try_catch
     (bnd (service_url ''hermes'') (\<lambda>hermesUrl.
      bnd randomUUID (\<lambda>relayState.
      bnd (lift (parse (hermesUrl @ ''/v1/saml/login''))) (\<lambda>u.
      bnd (redirect_to (url_text (url_set ''RelayState'' relayState u))) (\<lambda>response.
      bnd (asks short_cookie) (\<lambda>opts.
      ret (set_cookie ''saml_relay_state'' relayState opts response)))))))
     (catch_with 500 ''Internal server error'')"

text \<open>A string or \<open>null\<close> that counts as present.\<close>

definition given :: "string option \<Rightarrow> bool" where
  "given s \<longleftrightarrow> s \<noteq> None \<and> s \<noteq> Some []"

definition saml_callback_POST :: "request \<Rightarrow> ('w, response) act" where
  "saml_callback_POST req = try_catch
     (bnd (lift (req_form req)) (\<lambda>formData.
      let samlResponse = params_get ''SAMLResponse'' formData; relayState = params_get ''RelayState'' formData
      in bnd (read_cookie ''saml_relay_state'') (\<lambda>savedRelay.
         if \<not> given samlResponse \<or> (given savedRelay \<and> given relayState \<and> savedRelay \<noteq> relayState)
         then redirect_to (own_url req ''/login?error=invalid_saml_response'')
         else
           bnd randomUUID (\<lambda>uuid.
           let sessionToken = ''ast_saml_'' @ without_dashes uuid
           in bnd (redirect_to (own_url req ''/'')) (\<lambda>response.
              bnd (asks long_cookie) (\<lambda>opts.
              ret (delete_cookie ''saml_relay_state''
                (set_cookie SESSION_COOKIE_NAME sessionToken opts response))))))))
     (\<lambda>e. redirect_to (own_url req (''/login?error='' @ encode_uri_component (err_message e ''SAML authorization failed''))))"

section \<open>lib/auth/sso.ts\<close>

definition discovery_fallback :: "string \<Rightarrow> jsval" where
  "discovery_fallback janusUrl = JObj [
     (''issuer'', JStr janusUrl), (''authorization_endpoint'', JStr (janusUrl @ ''/oauth2/auth'')),
     (''token_endpoint'', JStr (janusUrl @ ''/oauth2/token'')), (''jwks_uri'', JStr (janusUrl @ ''/oauth2/jwks'')),
     (''response_types_supported'', JArr [JStr ''code'']), (''subject_types_supported'', JArr [JStr ''public'']),
     (''id_token_signing_alg_values_supported'', JArr [JStr ''RS256'', JStr ''ES256''])]"

definition getJanusDiscovery :: "('w, jsval) act" where
  "getJanusDiscovery = bnd (service_url ''janus'') (\<lambda>janusUrl. try_catch
     (bnd (fetch (get_request (janusUrl @ ''/oauth2/openid-configuration''))) (\<lambda>res.
      if \<not> rs_ok res then ret (discovery_fallback janusUrl) else response_json res))
     (\<lambda>_. ret (discovery_fallback janusUrl)))"

definition generatePkceVerifier :: "('w, string) act" where
  "generatePkceVerifier = bnd (randomBytes 32) (\<lambda>bytes. ret (concat (map hex_byte bytes)))"

text \<open>\<open>btoa\<close> on a string of bytes: the standard alphabet, padded.\<close>

definition b64_std :: "nat \<Rightarrow> char" where
  "b64_std i = ''ABCDEFGHIJKLMNOPQRSTUVWXYZabcdefghijklmnopqrstuvwxyz0123456789+/'' ! i"

fun btoa :: "nat list \<Rightarrow> string" where
  "btoa (a # b # c # bs) =
     [b64_std (a div 4), b64_std (a mod 4 * 16 + b div 16), b64_std (b mod 16 * 4 + c div 64), b64_std (c mod 64)] @ btoa bs"
| "btoa [a, b] = [b64_std (a div 4), b64_std (a mod 4 * 16 + b div 16), b64_std (b mod 16 * 4), CHR ''='']"
| "btoa [a] = [b64_std (a div 4), b64_std (a mod 4 * 16), CHR ''='', CHR ''='']"
| "btoa [] = []"

definition url_safe :: "string \<Rightarrow> string" where
  \<comment> \<open>the three replacements\<close>
  "url_safe s = rev (dropWhile (\<lambda>c. c = CHR ''='')
     (rev (map (\<lambda>c. if c = CHR ''+'' then CHR ''-'' else if c = CHR ''/'' then CHR ''_'' else c) s)))"

definition generatePkceChallenge :: "(nat list \<Rightarrow> nat list) \<Rightarrow> string \<Rightarrow> string" where
  "generatePkceChallenge sha256 verifier = url_safe (btoa (sha256 (utf8_bytes verifier)))"

definition console_client :: jsval where
  "console_client = JObj [(''client_id'', JStr ''autorix-console''),
     (''client_name'', JStr ''Autorix Control Plane Console''),
     (''redirect_uris'', JArr [JStr ''/api/auth/sso/callback'']),
     (''grant_types'', JArr [JStr ''authorization_code'', JStr ''refresh_token'']),
     (''response_types'', JArr [JStr ''code'']), (''token_endpoint_auth_method'', JStr ''none'')]"

definition registerConsoleOAuthClient :: "('w, unit) act" where
  "registerConsoleOAuthClient =
     bnd (settle (fetch_post ''janus'' ''/oauth2/clients'' console_client)) (\<lambda>_. ret ())"

section \<open>OIDC login\<close>

definition authorize_params :: "string \<Rightarrow> string \<Rightarrow> string \<Rightarrow> (string \<times> string) list" where
  "authorize_params redirectUri state challenge = [(''response_type'', ''code''), (''client_id'', ''autorix-console''),
     (''redirect_uri'', redirectUri), (''scope'', ''openid profile email roles''), (''state'', state),
     (''code_challenge'', challenge), (''code_challenge_method'', ''S256'')]"

definition sso_login_GET :: "(nat list \<Rightarrow> nat list) \<Rightarrow> url_parser \<Rightarrow> request \<Rightarrow> ('w, response) act" where
  "sso_login_GET sha256 parse req = try_catch
     (bnd registerConsoleOAuthClient (\<lambda>_.
      bnd getJanusDiscovery (\<lambda>discovery.
      if \<not> truthy discovery then fail_with 502 ''Janus OIDC provider discovery unavailable''
      else
        bnd randomUUID (\<lambda>state.
        bnd generatePkceVerifier (\<lambda>verifier.
        let challenge = generatePkceChallenge sha256 verifier;
            redirectUri = own_url req ''/api/auth/sso/callback''
        in bnd (lift (parse (to_str (member discovery ''authorization_endpoint'')))) (\<lambda>u.
           let authUrl = fold (\<lambda>(k, v). url_set k v) (authorize_params redirectUri state challenge) u
           in bnd (redirect_to (url_text authUrl)) (\<lambda>response.
              bnd (asks short_cookie) (\<lambda>opts.
              ret (set_cookie ''sso_verifier'' verifier opts (set_cookie ''sso_state'' state opts response))))))))))
     (catch_with 500 ''Internal server error'')"

section \<open>OIDC callback\<close>

definition token_request :: "jsval \<Rightarrow> string \<Rightarrow> string \<Rightarrow> string option \<Rightarrow> http_request" where
  "token_request discovery code redirectUri verifier =
     \<lparr>rq_method = ''POST'', rq_url = to_str (member discovery ''token_endpoint''),
      rq_headers = headers_of [] [(''Content-Type'', ''application/x-www-form-urlencoded'')],
      rq_body = TextBody (params_string [(''grant_type'', ''authorization_code''), (''client_id'', ''autorix-console''),
        (''code'', code), (''redirect_uri'', redirectUri),
        (''code_verifier'', case verifier of Some v \<Rightarrow> v | None \<Rightarrow> [])])\<rparr>"

definition known_roles :: "string list" where
  "known_roles = [''owner'', ''admin'', ''operator'', ''auditor'']"

text \<open>E-mail, name and role out of the identity token; its signature is not looked at.\<close>

definition default_claims :: "jsval \<times> jsval \<times> jsval" where
  "default_claims = (JStr ''sso.operator@autorix.internal'', JStr ''SSO Operator'', JStr ''operator'')"

definition claims_of :: "jsval \<Rightarrow> (jsval \<times> jsval \<times> jsval) res" where
  "claims_of claims = (let (email, name, role) = default_claims;
       r = member claims ''role''
     in map_sum id (\<lambda>e. (js_or e email, js_or (member claims ''name'') name,
          if truthy r \<and> r \<in> set (map JStr known_roles) then r else role)) (get_prop claims ''email''))"

definition token_claims :: "jsval \<Rightarrow> ('w, jsval \<times> jsval \<times> jsval) act" where
  "token_claims idToken =
     (if \<not> truthy idToken then ret default_claims
      else bnd (lift (str_method ''idToken'' ''split'' (\<lambda>s. JArr (map JStr (split_on (CHR ''.'') s))) idToken)) (\<lambda>parts.
        if length (elems parts) = 3 then
          bnd (deserializeMacaroon (to_str (elems parts ! 1))) (\<lambda>claims. lift (claims_of claims))
        else ret default_claims))"

definition sso_session_body :: "jsval \<times> jsval \<times> jsval \<Rightarrow> jsval" where
  "sso_session_body c = (case c of (email, name, role) \<Rightarrow> JObj [(''email'', email),
     (''password'', JStr ''sso-federated-login''), (''name'', name), (''role'', role)])"

text \<open>The part inside \<open>try\<close>: exchange the code, read the claims, open a session.\<close>

definition sso_finish :: "request \<Rightarrow> string \<Rightarrow> string option \<Rightarrow> ('w, response) act" where
  "sso_finish req code verifier =
     bnd getJanusDiscovery (\<lambda>discovery.
     if \<not> truthy discovery then throw (Error ''Error'' ''Janus discovery unavailable'')
     else
       bnd (fetch (token_request discovery code (own_url req ''/api/auth/sso/callback'') verifier)) (\<lambda>tokenRes.
       if \<not> rs_ok tokenRes then
         bnd (try_catch (response_json tokenRes) (\<lambda>_. ret (JObj []))) (\<lambda>errData.
         jget errData ''error'' (\<lambda>e. throw (Error ''Error'' (to_str (js_or e (JStr ''Token exchange failed''))))))
       else
         bnd (response_json tokenRes) (\<lambda>tokenData.
         jget tokenData ''id_token'' (\<lambda>idToken.
         bnd (token_claims idToken) (\<lambda>claims.
         bnd (fetch_post ''argus'' ''/v1/auth/login'' (sso_session_body claims)) (\<lambda>sessionRes.
         bnd randomUUID (\<lambda>uuid.
         bnd (if rs_ok sessionRes then bnd (response_json sessionRes) (\<lambda>s. lift (get_prop s ''session_token''))
              else ret (JStr (''ast_sso_'' @ without_dashes uuid))) (\<lambda>sessionToken.
         bnd (redirect_to (own_url req ''/'')) (\<lambda>response.
         bnd (asks long_cookie) (\<lambda>opts.
         ret (delete_cookie ''sso_verifier'' (delete_cookie ''sso_state''
           (set_cookie SESSION_COOKIE_NAME (cookie_value sessionToken) opts response)))))))))))))"

definition sso_callback_GET :: "request \<Rightarrow> ('w, response) act" where
  "sso_callback_GET req =
     (let code = params_get ''code'' (req_query req); state = params_get ''state'' (req_query req);
          err = params_get ''error'' (req_query req)
      in if given err then redirect_to (own_url req (''/login?error='' @ encode_uri_component (the err)))
         else if \<not> given code \<or> \<not> given state then redirect_to (own_url req ''/login?error=missing_auth_code'')
         else
           bnd (read_cookie ''sso_state'') (\<lambda>savedState.
           bnd (read_cookie ''sso_verifier'') (\<lambda>verifier.
           if \<not> given savedState \<or> savedState \<noteq> state
           then redirect_to (own_url req ''/login?error=invalid_state_parameter'')
           else try_catch (sso_finish req (the code) verifier)
             (\<lambda>e. redirect_to (own_url req (''/login?error='' @
                encode_uri_component (err_message e ''SSO authorization failed'')))))))"

section \<open>What the session cookie stands for\<close>

text \<open>The cookies a response sets for the session.\<close>

definition sets_session :: "response \<Rightarrow> bool" where
  "sets_session r \<longleftrightarrow> (\<exists>t opts. SetCookie SESSION_COOKIE_NAME t opts \<in> set (rp_cookies r))"

lemma next_json_cookies: "next_json v st hs = Inr r \<Longrightarrow> rp_cookies r = []"
  by (auto simp: next_json_def mk_response_def split: if_splits)

lemma mk_response_cookies: "mk_response b st hs = Inr r \<Longrightarrow> rp_cookies r = []"
  by (auto simp: mk_response_def split: if_splits)

lemma respond_no_session: "respond v st w = (Inr r, w') \<Longrightarrow> \<not> sets_session r"
  by (auto simp: run_respond sets_session_def dest: next_json_cookies)

lemma redirect_no_session: "redirect_to u w = (Inr r, w') \<Longrightarrow> \<not> sets_session r"
  by (auto simp: redirect_to_def lift_def sets_session_def dest: mk_response_cookies)

lemma redirect_own: "redirect_to u w = (Inr \<lparr>rp_status = 307, rp_headers = [(''Location'', u)], rp_body = NoBody, rp_cookies = []\<rparr>, w)"
  by (simp add: redirect_to_def lift_def mk_response_def)

lemma bnd_redirect: "bnd (redirect_to u) g w = g \<lparr>rp_status = 307, rp_headers = [(''Location'', u)], rp_body = NoBody, rp_cookies = []\<rparr> w"
  by (rule run_bnd) (rule redirect_own)

text \<open>
  C15. Password login and set-up set the session cookie only with the token of an answer of Argus with a
  success status, and only as an \<open>httpOnly\<close> cookie; exactly one request is sent.
\<close>

theorem session_login_sound:
  assumes "session_login path fallback req w = (Inr r, w')" "sets_session r"
  shows "\<exists>body res data. parse_text w (req_text req) = Inr body \<and>
    w_upstream w (w_sent w @ [post_request (to_str (getServiceUrl w ''argus'') @ path) body]) = Inr res \<and> rs_ok res \<and>
    parse_text w (rs_text res) = Inr data \<and>
    (\<forall>t opts. SetCookie SESSION_COOKIE_NAME t opts \<in> set (rp_cookies r) \<longrightarrow>
       t = cookie_value (member data ''session_token'') \<and> map_of opts ''httpOnly'' = Some (JBool True))"
proof -
  let ?fail = "\<lambda>e v. catch_with 500 ''Internal server error'' e v"
  have nofail: "\<not> (?fail e v = (Inr r, w'))" for e v
    using assms(2) by (auto simp: catch_with_def fail_with_def dest: respond_no_session)
  note unf = session_login_def try_catch_def run fetch_post_def bnd_assoc
  obtain body where b: "parse_text w (req_text req) = Inr body"
    using assms(1) nofail by (cases "parse_text w (req_text req)") (auto simp: unf)
  let ?rq = "post_request (to_str (getServiceUrl w ''argus'') @ path) body"
  let ?w1 = "log_request ?rq w"
  obtain res where r1: "w_upstream w (w_sent w @ [?rq]) = Inr res"
    using assms(1) nofail b by (cases "w_upstream w (w_sent w @ [?rq])") (auto simp: unf)
  obtain data where d: "parse_text ?w1 (rs_text res) = Inr data"
    using assms(1) nofail b r1 by (cases "parse_text ?w1 (rs_text res)") (auto simp: unf)
  have d': "parse_text w (rs_text res) = Inr data"
    using d by simp
  have ok: "rs_ok res"
  proof (rule ccontr)
    assume no: "\<not> rs_ok res"
    show False
    proof (cases "get_prop data ''error''")
      case (Inl e)
      then show ?thesis using assms(1) nofail b r1 d no by (simp add: unf)
    next
      case (Inr v)
      let ?v = "JObj [(''error'', js_or v (JStr fallback))]"
      show ?thesis
      proof (cases "next_json ?v (rs_status res) []")
        case (Inl e)
        then show ?thesis using assms(1) nofail b r1 d no Inr by (simp add: unf run_respond)
      next
        case (Inr q)
        then have "r = q" using assms(1) b r1 d no \<open>get_prop data ''error'' = Inr v\<close>
          by (simp add: unf run_respond)
        then show ?thesis using assms(2) next_json_cookies [OF Inr] by (simp add: sets_session_def)
      qed
    qed
  qed
  obtain oper where op: "get_prop data ''operator'' = Inr oper"
    using assms(1) nofail b r1 d ok by (cases "get_prop data ''operator''") (auto simp: unf)
  let ?j = "next_json (JObj [(''success'', JBool True), (''operator'', oper)]) 200 []"
  obtain q where q: "?j = Inr q" by (simp add: next_json_obj)
  have resp: "bnd (respond (JObj [(''success'', JBool True), (''operator'', oper)]) 200) g ?w1 = g q ?w1"
    for g :: "response \<Rightarrow> ('a, response) act"
    by (rule run_bnd) (simp add: run_respond q)
  have "r = set_cookie SESSION_COOKIE_NAME (cookie_value (member data ''session_token''))
      (session_options ?w1 @ [(''expires'', JNum (date_key ?w1 (member data ''expires_at'')))]) q"
    using assms(1) b r1 d ok op by (auto simp: unf resp)
  then have "rp_cookies r = [SetCookie SESSION_COOKIE_NAME (cookie_value (member data ''session_token''))
      (session_options ?w1 @ [(''expires'', JNum (date_key ?w1 (member data ''expires_at'')))])]"
    using next_json_cookies [OF q] by (simp add: set_cookie_def)
  then show ?thesis using b r1 ok d' by (auto simp: session_options_def)
qed

theorem session_login_sound_witness:
  "let w = example_world [] (\<lambda>_. ok_text ''{\"session_token\":\"t1\"}'')
   in \<exists>opts. (\<exists>r w'. auth_login_POST (json_request ''{}'') w = (Inr r, w') \<and>
        SetCookie SESSION_COOKIE_NAME ''t1'' opts \<in> set (rp_cookies r)) \<and> map_of opts ''httpOnly'' = Some (JBool True)"
proof -
  let ?w = "example_world [] (\<lambda>_. ok_text ''{\"session_token\":\"t1\"}'')"
  let ?data = "JObj [(''session_token'', JStr ''t1'')]"
  let ?rq = "post_request (to_str (getServiceUrl ?w ''argus'') @ ''/v1/auth/login'') (JObj [])"
  have e: "json_parse ''{}'' = Some (JObj [])" by code_simp
  have d: "json_parse ''{\"session_token\":\"t1\"}'' = Some ?data" by code_simp
  have p: "parse_text v (Inr ''{}'') = Inr (JObj [])" "parse_text v (Inr ''{\"session_token\":\"t1\"}'') = Inr ?data"
    for v :: "unit world_scheme"
    by (simp_all only: parse_text_Inr [OF e] parse_text_Inr [OF d])
  obtain r w' where r: "auth_login_POST (json_request ''{}'') ?w = (Inr r, w')"
    "SetCookie SESSION_COOKIE_NAME ''t1'' (session_options (log_request ?rq ?w) @
       [(''expires'', JNum (date_key (log_request ?rq ?w) (member ?data ''expires_at'')))]) \<in> set (rp_cookies r)"
    using p
    by (simp add: auth_login_POST_def session_login_def try_catch_def run fetch_post_def bnd_assoc ok_text_def rs_ok_def
        respond_def run_bnd_lift next_json_obj set_cookie_def cookie_value_def)
  then have "sets_session r" by (auto simp: sets_session_def)
  from session_login_sound [OF r(1) [unfolded auth_login_POST_def] this] r show ?thesis
    by (auto simp: Let_def)
qed

text \<open>
  The SAML callback validates nothing: any form with a non-empty \<open>SAMLResponse\<close> and no relay state gets
  a session cookie with a token the console made up, and no engine is asked.
\<close>

theorem saml_callback_unvalidated:
  assumes "req_form req = Inr form" "given (params_get ''SAMLResponse'' form)" "\<not> given (params_get ''RelayState'' form)"
  shows "\<exists>r w'. saml_callback_POST req w = (Inr r, w') \<and> w_sent w' = w_sent w \<and>
    SetCookie SESSION_COOKIE_NAME (''ast_saml_'' @ without_dashes (w_uuid w (w_uuids w)))
      (long_cookie w) \<in> set (rp_cookies r)"
  using assms
  by (simp add: saml_callback_POST_def try_catch_def run read_cookie_def bnd_redirect set_cookie_def delete_cookie_def
      long_cookie_def session_options_def production_def Let_def)

theorem saml_callback_unvalidated_witness:
  "\<exists>r w'. saml_callback_POST ((json_request [])\<lparr>req_form := Inr [(''SAMLResponse'', ''anything'')]\<rparr>)
      (example_world [] (\<lambda>_. ok_text ''null'')) = (Inr r, w') \<and> w_sent w' = []"
  using saml_callback_unvalidated [of "(json_request [])\<lparr>req_form := Inr [(''SAMLResponse'', ''anything'')]\<rparr>"
      "[(''SAMLResponse'', ''anything'')]" "example_world [] (\<lambda>_. ok_text ''null'')"]
  by (auto simp: given_def params_get_def)

text \<open>
  C16. The OIDC callback sets a session cookie only for the browser that started the login: the request's
  state is non-empty and equals the cookie the login set. The code is then exchanged once and the claims
  of the identity token are posted to Argus as they are.
\<close>

theorem sso_callback_state:
  assumes "sso_callback_GET req w = (Inr r, w')" "sets_session r"
  shows "given (params_get ''state'' (req_query req)) \<and>
    map_of (w_cookies w) ''sso_state'' = params_get ''state'' (req_query req) \<and>
    given (params_get ''code'' (req_query req)) \<and> \<not> given (params_get ''error'' (req_query req))"
proof -
  have no: "\<not> (redirect_to u v = (Inr r, v'))" for u and v v' :: "'a world_scheme"
    using assms(2) by (auto dest: redirect_no_session)
  show ?thesis
    using assms(1) no by (auto simp: sso_callback_GET_def Let_def run read_cookie_def split: if_splits)
qed

definition refusing_network :: "nat \<Rightarrow> exn \<Rightarrow> http_response \<Rightarrow> http_request list \<Rightarrow> exn + http_response" where
  \<comment> \<open>no discovery document, an empty answer to the exchange, then \<open>refusal\<close>\<close>
  "refusing_network n e refusal sent =
     (if length sent = n + 1 then Inl e else if length sent = n + 2 then ok_text ''{}'' else Inr refusal)"

lemma empty_object: "parse_text w (Inr ''{}'') = Inr (JObj [])"
proof -
  have "json_parse ''{}'' = Some (JObj [])" by code_simp
  then show ?thesis by (rule parse_text_Inr)
qed

lemma no_id_token: "proto_get [] ''id_token'' = JUndef"
  by (simp add: proto_get_def object_proto_names_def)

lemma sso_finish_refused:
  fixes w :: "'w world_scheme"
  assumes "w_upstream w = refusing_network (length (w_sent w)) e refusal" "\<not> rs_ok refusal"
  shows "\<exists>r w'. sso_finish req code verifier w = (Inr r, w') \<and>
    (\<exists>opts. SetCookie SESSION_COOKIE_NAME (''ast_sso_'' @ without_dashes (w_uuid w (w_uuids w))) opts \<in> set (rp_cookies r))"
proof -
  let ?u = "to_str (getServiceUrl w ''janus'')"
  let ?w1 = "log_request (get_request (?u @ ''/oauth2/openid-configuration'')) w"
  let ?w2 = "log_request (token_request (discovery_fallback ?u) code (own_url req ''/api/auth/sso/callback'') verifier) ?w1"
  have "getJanusDiscovery w = (Inr (discovery_fallback ?u), ?w1)"
    using assms(1) by (simp add: getJanusDiscovery_def run try_catch_def refusing_network_def)
  then have d: "bnd getJanusDiscovery g w = g (discovery_fallback ?u) ?w1" for g :: "jsval \<Rightarrow> ('w, response) act"
    by (rule run_bnd)
  have t: "truthy (discovery_fallback u)" for u by (simp add: discovery_fallback_def)
  have c: "token_claims JUndef = (ret default_claims :: ('w, _) act)" by (simp add: token_claims_def)
  show ?thesis
    using assms empty_object [of ?w2]
    by (simp add: sso_finish_def d t run refusing_network_def ok_text_def rs_ok_def [of "\<lparr>rs_status = _, rs_headers = _, rs_text = _\<rparr>"]
        no_id_token c fetch_post_def bnd_assoc bnd_redirect cookie_value_def set_cookie_def delete_cookie_def)
qed

text \<open>
  The OIDC callback opens a session out of nothing: when Janus answers the code exchange with no
  identity token at all and Argus refuses the login, the browser still gets a session cookie with a token
  the console made up.
\<close>

theorem sso_refused_session:
  assumes "w_upstream w = refusing_network (length (w_sent w)) e refusal" "\<not> rs_ok refusal"
    and "\<not> given (params_get ''error'' (req_query req))" "given (params_get ''code'' (req_query req))"
    and "given (params_get ''state'' (req_query req))" "map_of (w_cookies w) ''sso_state'' = params_get ''state'' (req_query req)"
  shows "\<exists>r w'. sso_callback_GET req w = (Inr r, w') \<and>
    (\<exists>opts. SetCookie SESSION_COOKIE_NAME (''ast_sso_'' @ without_dashes (w_uuid w (w_uuids w))) opts \<in> set (rp_cookies r))"
proof -
  let ?code = "the (params_get ''code'' (req_query req))" and ?verifier = "map_of (w_cookies w) ''sso_verifier''"
  obtain r w' where f: "sso_finish req ?code ?verifier w = (Inr r, w')"
    "\<exists>opts. SetCookie SESSION_COOKIE_NAME (''ast_sso_'' @ without_dashes (w_uuid w (w_uuids w))) opts \<in> set (rp_cookies r)"
    using sso_finish_refused [OF assms(1,2)] by metis
  have "sso_callback_GET req w = (Inr r, w')"
    using assms(3-6) by (simp add: sso_callback_GET_def Let_def run read_cookie_def try_catch_def f(1))
  with f(2) show ?thesis by blast
qed

definition sso_example_world :: world where
  "sso_example_world = example_world [(''sso_state'', ''s1'')]
     (refusing_network 0 (type_error ''fetch failed'') \<lparr>rs_status = 401, rs_headers = [], rs_text = Inr ''{}''\<rparr>)"

definition sso_example_request :: request where
  "sso_example_request = (json_request [])\<lparr>req_query := [(''code'', ''c1''), (''state'', ''s1'')]\<rparr>"

lemma sso_example:
  "w_upstream sso_example_world = refusing_network (length (w_sent sso_example_world)) (type_error ''fetch failed'')
     \<lparr>rs_status = 401, rs_headers = [], rs_text = Inr ''{}''\<rparr>"
  "given (params_get ''code'' (req_query sso_example_request))" "given (params_get ''state'' (req_query sso_example_request))"
  "\<not> given (params_get ''error'' (req_query sso_example_request))"
  "map_of (w_cookies sso_example_world) ''sso_state'' = params_get ''state'' (req_query sso_example_request)"
  by (simp_all add: sso_example_world_def sso_example_request_def given_def params_get_def)

theorem sso_refused_session_witness:
  "\<exists>r w' opts. sso_callback_GET sso_example_request sso_example_world = (Inr r, w') \<and>
     SetCookie SESSION_COOKIE_NAME (''ast_sso_'' @ without_dashes (w_uuid sso_example_world (w_uuids sso_example_world))) opts
       \<in> set (rp_cookies r)"
  using sso_refused_session [OF sso_example(1) _ sso_example(4,2,3,5)] by (auto simp: rs_ok_def)

theorem sso_callback_state_witness:
  "map_of (w_cookies sso_example_world) ''sso_state'' = params_get ''state'' (req_query sso_example_request)"
proof -
  let ?r = "\<lparr>rs_status = 401, rs_headers = [], rs_text = Inr ''{}''\<rparr>"
  have "\<not> rs_ok ?r" by (simp add: rs_ok_def)
  from sso_finish_refused [OF sso_example(1) this, of sso_example_request
      "the (params_get ''code'' (req_query sso_example_request))" "map_of (w_cookies sso_example_world) ''sso_verifier''"]
  obtain r w' where f: "sso_finish sso_example_request (the (params_get ''code'' (req_query sso_example_request)))
      (map_of (w_cookies sso_example_world) ''sso_verifier'') sso_example_world = (Inr r, w')" "sets_session r"
    by (auto simp: sets_session_def)
  have "sso_callback_GET sso_example_request sso_example_world = (Inr r, w')"
    using sso_example(2-5) by (simp add: sso_callback_GET_def Let_def run read_cookie_def try_catch_def f(1))
  from sso_callback_state [OF this f(2)] show ?thesis by simp
qed

section \<open>The PKCE challenge\<close>

lemma b64_std_char: "i < 64 \<Longrightarrow> b64_std i \<noteq> CHR ''='' \<and>
    (if b64_std i = CHR ''+'' then CHR ''-'' else if b64_std i = CHR ''/'' then CHR ''_'' else b64_std i) = b64_char i"
proof -
  have "\<forall>i \<in> set [0..<64]. b64_std i \<noteq> CHR ''='' \<and>
      (if b64_std i = CHR ''+'' then CHR ''-'' else if b64_std i = CHR ''/'' then CHR ''_'' else b64_std i) = b64_char i"
    by (simp add: upt_rec b64_std_def b64_char_def)
  then show "i < 64 \<Longrightarrow> ?thesis" by simp
qed

text \<open>The standard encoding is the URL-safe one with two characters exchanged, and padding at its end.\<close>

lemma btoa_shape:
  "list_all (\<lambda>b. b < 256) bs \<Longrightarrow> \<exists>ss pad. btoa bs = map b64_std ss @ pad \<and> list_all (\<lambda>s. s < 64) ss \<and>
     to_base64url bs = map b64_char ss \<and> set pad \<subseteq> {CHR ''=''}"
proof (induction bs rule: btoa.induct)
  case (1 a b c bs)
  then obtain ss pad where ss: "btoa bs = map b64_std ss @ pad" "list_all (\<lambda>s. s < 64) ss"
    "to_base64url bs = map b64_char ss" "set pad \<subseteq> {CHR ''=''}" by auto
  have "a mod 4 * 16 + b div 16 < 64" "b mod 16 * 4 + c div 64 < 64" "a div 4 < 64" "c mod 64 < 64"
    using 1 by auto
  with ss show ?case
    by (intro exI [of _ "[a div 4, a mod 4 * 16 + b div 16, b mod 16 * 4 + c div 64, c mod 64] @ ss"] exI [of _ pad]) simp
next
  case (2 a b)
  then show ?case
    by (intro exI [of _ "[a div 4, a mod 4 * 16 + b div 16, b mod 16 * 4]"] exI [of _ "[CHR ''='']"]) auto
next
  case (3 a)
  then show ?case by (intro exI [of _ "[a div 4, a mod 4 * 16]"] exI [of _ "[CHR ''='', CHR ''='']"]) auto
next
  case 4
  show ?case by (intro exI [of _ "[]"]) simp
qed

lemma url_safe_btoa:
  assumes "list_all (\<lambda>b. b < 256) bs"
  shows "url_safe (btoa bs) = to_base64url bs"
proof -
  let ?f = "\<lambda>c. if c = CHR ''+'' then CHR ''-'' else if c = CHR ''/'' then CHR ''_'' else c"
  obtain ss pad where s: "btoa bs = map b64_std ss @ pad" "list_all (\<lambda>s. s < 64) ss"
    "to_base64url bs = map b64_char ss" "set pad \<subseteq> {CHR ''=''}"
    using btoa_shape [OF assms] by blast
  have f: "map ?f (map b64_std ss) = map b64_char ss"
    using s(2) b64_std_char by (auto simp: list_all_iff)
  have pad: "\<forall>c \<in> set (rev (map ?f pad)). c = CHR ''=''" using s(4) by auto
  have "dropWhile (\<lambda>c. c = CHR ''='') (rev (map b64_char ss)) = rev (map b64_char ss)"
    using s(2) b64_val_char by (cases ss rule: rev_cases) (auto simp: list_all_iff)
  moreover have "dropWhile (\<lambda>c. c = CHR ''='') (rev (map ?f pad) @ xs) = dropWhile (\<lambda>c. c = CHR ''='') xs" for xs
    using pad by (intro dropWhile_append2) blast
  ultimately show ?thesis
    unfolding url_safe_def s(1,3) map_append rev_append f by simp
qed

text \<open>
  The PKCE challenge is the S256 method of the protocol: the URL-safe base64 text of the digest of the
  verifier, without padding, so that decoding it gives the digest back.
\<close>

theorem pkce_challenge:
  assumes "list_all (\<lambda>b. b < 256) (sha256 (utf8_bytes verifier))"
  shows "generatePkceChallenge sha256 verifier = to_base64url (sha256 (utf8_bytes verifier)) \<and>
    from_base64url (generatePkceChallenge sha256 verifier) = sha256 (utf8_bytes verifier)"
  by (simp add: generatePkceChallenge_def url_safe_btoa [OF assms] from_to_base64url [OF assms])

theorem pkce_challenge_witness:
  "from_base64url (generatePkceChallenge (\<lambda>bs. take 4 bs) ''verifier'') = [118, 101, 114, 105]"
  using pkce_challenge [of "\<lambda>bs. take 4 bs" "''verifier''"]
  by (auto simp: utf8_bytes_def utf8_def)

end
