(* ===== verification/OpsRoutes.thy ===== *)
theory OpsRoutes
  imports JsCalls SchemasEngines SchemasPlatform
begin

text \<open>
  Operations: app/api/health, notifications, search, diagnostics and observability. Calls the source makes
  in parallel are run in the order of its list, the order in which their requests leave; only readings
  of the clock could tell the difference.
\<close>

section \<open>app/api/health\<close>

record service =
  sv_key :: string
  sv_name :: string
  sv_port :: int
  sv_protocol :: string

definition SERVICES :: "service list" where
  "SERVICES = [
     \<lparr>sv_key = ''ego'', sv_name = ''Autorix Ego'', sv_port = 4433, sv_protocol = ''REST''\<rparr>,
     \<lparr>sv_key = ''janus'', sv_name = ''Autorix Janus'', sv_port = 4444, sv_protocol = ''REST/OIDC''\<rparr>,
     \<lparr>sv_key = ''vulcan'', sv_name = ''Autorix Vulcan'', sv_port = 4466, sv_protocol = ''REST''\<rparr>,
     \<lparr>sv_key = ''hermes'', sv_name = ''Autorix Hermes'', sv_port = 4477, sv_protocol = ''REST/XML''\<rparr>,
     \<lparr>sv_key = ''themis'', sv_name = ''Autorix Themis'', sv_port = 4488, sv_protocol = ''REST/gRPC''\<rparr>,
     \<lparr>sv_key = ''aegis'', sv_name = ''Autorix Aegis'', sv_port = 4456, sv_protocol = ''HTTP Proxy (admin)''\<rparr>,
     \<lparr>sv_key = ''nexus'', sv_name = ''Autorix Nexus'', sv_port = 8080, sv_protocol = ''gRPC (REST admin)''\<rparr>]"

definition engine_status :: "int \<Rightarrow> string" where
  "engine_status code = (if code = 200 then ''healthy'' else if code = 503 then ''degraded'' else ''unknown'')"

definition service_health :: "service \<Rightarrow> string \<Rightarrow> jsval \<Rightarrow> jsval" where
  "service_health s status latency = JObj [(''key'', JStr (sv_key s)), (''name'', JStr (sv_name s)),
     (''port'', jint (sv_port s)), (''protocol'', JStr (sv_protocol s)), (''status'', JStr status), (''latencyMs'', latency)]"

text \<open>The time-out of the request is one of the ways the network refuses it.\<close>

definition probe :: "service \<Rightarrow> ('w, jsval) act" where
  "probe s = bnd (service_url (sv_key s)) (\<lambda>u.
     bnd date_now (\<lambda>start.
     bnd (settle (fetch (get_request (u @ ''/health/ready'')))) (\<lambda>outcome.
     case outcome of
       Inl _ \<Rightarrow> ret (service_health s ''unreachable'' JNull)
     | Inr res \<Rightarrow> bnd date_now (\<lambda>now. ret (service_health s (engine_status (rs_status res)) (jint (now - start)))))))"

definition health_GET :: "('w, response) act" where
  "health_GET = bnd (map_m probe SERVICES) (\<lambda>services.
     bnd now_iso (\<lambda>checkedAt. respond (JObj [(''checkedAt'', JStr checkedAt), (''services'', JArr services)]) 200))"

section \<open>app/api/notifications\<close>

definition notification :: "string \<Rightarrow> string \<Rightarrow> jsval \<Rightarrow> jsval \<Rightarrow> jsval \<Rightarrow> jsval" where
  "notification nid typ title message time = JObj [(''id'', JStr nid), (''type'', JStr typ), (''title'', title),
     (''message'', message), (''timestamp'', time)]"

definition audit_text :: "jsval \<Rightarrow> string \<Rightarrow> string \<Rightarrow> string \<times> string \<times> string" where
  "audit_text entry engine actor = (let action = member entry ''action'' in
     if action = JStr ''mint'' then
       (''info'', ''Enrollment Token Minted ('' @ engine @ '')'', ''Token for '' @ engine @ '' minted by '' @ actor)
     else if action = JStr ''consume'' then
       (''success'', ''Engine Joined Cluster ('' @ engine @ '')'', ''Instance successfully enrolled in control plane'')
     else if action = JStr ''consume_failed'' then
       (''security'', ''Enrollment Rejected ('' @ engine @ '')'', ''Registration attempt rejected: '' @
          to_str (js_or (opt_prop (member entry ''detail'') ''reason'') (JStr ''invalid or exhausted token'')))
     else if action = JStr ''revoke'' then
       (''security'', ''Enrollment Token Revoked ('' @ engine @ '')'', ''Token for '' @ engine @ '' was revoked'')
     else (''info'', ''Fleet Event ('' @ engine @ '')'', ''Action '' @ to_str action @ '' recorded''))"

definition audit_ident :: "jsval \<Rightarrow> string \<Rightarrow> string" where
  \<comment> \<open>\<open>rnd\<close> is what \<open>Math.random()\<close> gives, as text; the default case does not look at the token\<close>
  "audit_ident entry rnd = (let i = member entry ''id''; known = [''mint'', ''consume'', ''consume_failed'', ''revoke''];
       t = (if member entry ''action'' \<in> set (map JStr known) then member entry ''token_id'' else JUndef)
     in ''audit-'' @ to_str (js_or (js_or i t) (JStr rnd)))"

definition upper_of :: "string \<Rightarrow> jsval \<Rightarrow> jsval res" where
  "upper_of expr v = str_method expr ''toUpperCase'' (\<lambda>s. JStr (to_upper s)) v"

definition audit_notification :: "(nat \<Rightarrow> string) \<Rightarrow> nat \<times> jsval \<Rightarrow> ('w, jsval) act" where
  "audit_notification rnd ie = (case ie of (i, entry) \<Rightarrow>
     jget entry ''occurred_at'' (\<lambda>occurred.
     bnd (if truthy occurred then ret occurred else bnd now_iso (\<lambda>t. ret (JStr t))) (\<lambda>time.
     let actor = to_str (js_or (member entry ''actor'') (JStr ''Operator''))
     in bnd (lift (upper_of ''(entry.engine_type || \"Engine\")'' (js_or (member entry ''engine_type'') (JStr ''Engine'')))) (\<lambda>engine.
        case audit_text entry (to_str engine) actor of (typ, title, message) \<Rightarrow>
          ret (notification (audit_ident entry (rnd i)) typ (JStr title) (JStr message) time)))))"

definition instance_notification :: "jsval \<Rightarrow> ('w, jsval option) act" where
  "instance_notification inst =
     jget inst ''engine_type'' (\<lambda>et.
     bnd (lift (upper_of ''(inst.engine_type || inst.type || \"Engine\")'' (js_or (js_or et (member inst ''type'')) (JStr ''Engine'')))) (\<lambda>engine.
     bnd (lift (js_slice ''(inst.id || \"\")'' 8 (js_or (member inst ''id'') (JStr [])))) (\<lambda>shortId.
     let status = member inst ''status''
     in if status = JStr ''unreachable'' \<or> status = JStr ''degraded'' then
          bnd (lift (upper_of ''inst.status'' status)) (\<lambda>up.
          bnd (if truthy (member inst ''last_heartbeat_at'') then ret (member inst ''last_heartbeat_at'')
               else bnd now_iso (\<lambda>t. ret (JStr t))) (\<lambda>time.
          ret (Some (notification (''inst-'' @ to_str (member inst ''id'') @ ''-'' @ to_str status) ''security''
            (JStr (''Engine '' @ to_str engine @ '' is '' @ to_str up))
            (JStr (''Instance '' @ to_str shortId @ '' missed heartbeats in '' @
               to_str (js_or (member inst ''environment'') (JStr ''cluster'')))) time))))
        else ret None)))"

text \<open>\<open>[a, b, c].filter(Boolean).join(sep)\<close>\<close>

definition join_truthy :: "string \<Rightarrow> jsval list \<Rightarrow> string" where
  "join_truthy sep vs = join sep (map to_str (filter truthy vs))"

definition alert_notification :: "jsval \<Rightarrow> jsval option res" where
  "alert_notification alert = (case get_prop alert ''state'' of
     Inl e \<Rightarrow> Inl e
   | Inr state \<Rightarrow>
       if state \<noteq> JStr ''firing'' then Inr None
       else (let labels = js_or (member alert ''labels'') (JObj []);
                 name = js_or (member labels ''alertname'') (JStr ''Prometheus alert'');
                 activeAt = member alert ''activeAt''
         in Inr (Some (notification (''prometheus-'' @ join_truthy ''-'' [name, member labels ''instance'', activeAt])
              (if member labels ''severity'' = JStr ''critical'' then ''security'' else ''info'') name
              (js_or (js_or (member labels ''summary'') (member labels ''description''))
                 (JStr (''Prometheus reports '' @ to_str name @ '' as firing'')))
              (js_or activeAt (JStr (iso_date 0)))))))"

definition somes :: "'a option list \<Rightarrow> 'a list" where
  "somes xs = List.map_filter id xs"

text \<open>The body of a settled response, when it arrived and is a success; \<open>v?.data\<close> when that is an array.\<close>

definition settled_list :: "http_response res \<Rightarrow> (jsval \<Rightarrow> jsval) \<Rightarrow> ('w, jsval list) act" where
  "settled_list outcome f = (case outcome of
     Inr res \<Rightarrow> if rs_ok res then bnd (response_json res) (\<lambda>v. ret (elems (f v))) else ret []
   | Inl _ \<Rightarrow> ret [])"

definition notification_order :: "'w world_scheme \<Rightarrow> jsval \<Rightarrow> jsval \<Rightarrow> jnum" where
  "notification_order w a b = num_sub (date_key w (member b ''timestamp'')) (date_key w (member a ''timestamp''))"

definition notifications_GET :: "(nat \<Rightarrow> string) \<Rightarrow> ('w, response) act" where
  "notifications_GET rnd = try_catch
     (bnd (settle (fetch_get ''argus'' ''/v1/enrollment-audit?limit=25'')) (\<lambda>auditRes.
      bnd (settle (fetch_get ''argus'' ''/v1/instances?limit=25'')) (\<lambda>instancesRes.
      bnd (settle (fetch_get ''prometheus'' ''/api/v1/alerts'')) (\<lambda>alertsRes.
      bnd (settled_list auditRes (\<lambda>v. opt_prop v ''data'')) (\<lambda>entries.
      bnd (map_m (audit_notification rnd) (zip [0..<length entries] entries)) (\<lambda>audits.
      bnd (settled_list instancesRes (\<lambda>v. opt_prop v ''data'')) (\<lambda>instances.
      bnd (map_m instance_notification instances) (\<lambda>insts.
      bnd (settled_list alertsRes (\<lambda>v. opt_prop (opt_prop v ''data'') ''alerts'')) (\<lambda>alerts.
      bnd (lift (map_res alert_notification alerts)) (\<lambda>firing.
      bnd (asks (\<lambda>w. js_sort (notification_order w) (audits @ somes insts @ somes firing))) (\<lambda>sorted.
      respond (JObj [(''notifications'', JArr sorted)]) 200)))))))))))
     (\<lambda>e. respond (JObj [(''notifications'', JArr []), (''error'', JStr (err_message e ''Failed to fetch notifications''))]) 500)"

section \<open>app/api/search\<close>

definition or_hit :: "jsval res \<Rightarrow> jsval res \<Rightarrow> jsval res" where
  "or_hit a b = (case a of Inl e \<Rightarrow> Inl e | Inr v \<Rightarrow> if truthy v then Inr v else b)"

definition identity_hit :: "string \<Rightarrow> jsval \<Rightarrow> jsval option res" where
  "identity_hit q item = (case get_prop item ''email'' of
     Inl e \<Rightarrow> Inl e
   | Inr email \<Rightarrow> map_sum id (\<lambda>hit. if truthy hit then Some (JObj [
         (''id'', member item ''id''), (''type'', JStr ''identity''),
         (''title'', js_or (js_or email (member item ''name'')) (member item ''id'')),
         (''subtitle'', JStr (''Identity ('' @ to_str (js_or (member item ''status'') (JStr ''active'')) @ '')'')),
         (''arn'', JStr (''arn:autorix:ego:prod:default:identity/'' @ to_str (member item ''id''))),
         (''href'', JStr (''/identities?id='' @ to_str (member item ''id'')))]) else None)
       (or_hit (lower_includes ''item.email'' q email)
         (or_hit (lower_includes ''item.name'' q (member item ''name'')) (opt_includes ''item.id'' q (member item ''id'')))))"

definition key_hit :: "string \<Rightarrow> jsval \<Rightarrow> jsval option res" where
  "key_hit q item = (case get_prop item ''name'' of
     Inl e \<Rightarrow> Inl e
   | Inr name \<Rightarrow> map_sum id (\<lambda>hit. if truthy hit then Some (JObj [
         (''id'', member item ''id''), (''type'', JStr ''api_key''), (''title'', js_or name (member item ''id'')),
         (''subtitle'', JStr ''API Key''),
         (''arn'', JStr (''arn:autorix:vulcan:prod:default:key/'' @ to_str (member item ''id''))),
         (''href'', JStr (''/vulcan?id='' @ to_str (member item ''id'')))]) else None)
       (or_hit (lower_includes ''item.name'' q name) (opt_includes ''item.id'' q (member item ''id''))))"

text \<open>The loop that pushes hits; an exception ends it and keeps what was pushed.\<close>

fun push_hits :: "(jsval \<Rightarrow> jsval option res) \<Rightarrow> jsval list \<Rightarrow> jsval list" where
  "push_hits f [] = []"
| "push_hits f (x # xs) = (case f x of
     Inl e \<Rightarrow> [] | Inr None \<Rightarrow> push_hits f xs | Inr (Some h) \<Rightarrow> h # push_hits f xs)"

definition search_engine :: "string \<Rightarrow> string \<Rightarrow> (jsval \<Rightarrow> jsval option res) \<Rightarrow> ('w, jsval list) act" where
  "search_engine service path hit = try_catch
     (bnd (fetch_get service path) (\<lambda>res.
      if rs_ok res then
        bnd (response_json res) (\<lambda>data.
        bnd (lift (unwrap_list ''items'' data)) (\<lambda>list.
        bnd (lift (iterate ''list'' list)) (\<lambda>items. ret (push_hits hit items))))
      else ret []))
     (\<lambda>_. ret [])"

definition search_GET :: "request \<Rightarrow> ('w, response) act" where
  "search_GET req =
     (let q = trim (params_or ''q'' (req_query req) []); lowerQ = to_lower q
      in if q = [] then respond (JObj [(''results'', JArr []), (''query'', JStr [])]) 200
         else
           bnd (search_engine ''ego'' ''/identities'' (identity_hit lowerQ)) (\<lambda>ids.
           bnd (search_engine ''vulcan'' ''/keys'' (key_hit lowerQ)) (\<lambda>keys.
           respond (JObj [(''query'', JStr q), (''results'', JArr (ids @ keys)),
             (''count'', jint (int (length (ids @ keys))))]) 200)))"

section \<open>app/api/diagnostics\<close>

definition bundle_id :: "string \<Rightarrow> string" where
  "bundle_id stamp = ''diag_'' @ take 15 (filter (\<lambda>c. c \<noteq> CHR '':'' \<and> c \<noteq> CHR ''.'') stamp)"

definition diagnostics_bundle_POST :: "('w, response) act" where
  "diagnostics_bundle_POST = bnd now_iso (\<lambda>t1. bnd now_iso (\<lambda>t2. respond (JObj [
     (''bundle_id'', JStr (bundle_id t1)), (''created_at'', JStr t2),
     (''fleet_summary'', JObj [(''total_engines'', jint 7), (''healthy_engines'', jint 7), (''total_instances'', jint 14)]),
     (''engines_included'', JArr (map JStr [''aegis'', ''nexus'', ''themis'', ''ego'', ''janus'', ''vulcan'', ''hermes''])),
     (''events_count'', jint 85), (''logs_count'', jint 500), (''redacted'', JBool True),
     (''download_url'', JStr (''/api/diagnostics/bundle/'' @ bundle_id t1 @ ''.tar.gz''))]) 201))"

definition drift_finding :: "string \<Rightarrow> string \<Rightarrow> string \<Rightarrow> string \<Rightarrow> string \<Rightarrow> string \<Rightarrow> jsval" where
  "drift_finding fid engine parameter reference inst v = JObj [(''id'', JStr fid), (''engine_type'', JStr engine),
     (''environment'', JStr ''production''), (''parameter'', JStr parameter), (''reference_value'', JStr reference),
     (''divergent_instances'', JArr [JObj [(''instance_id'', JStr inst), (''value'', JStr v)]]),
     (''severity'', JStr ''warning'')]"

definition SAMPLE_DRIFT_FINDINGS :: jsval where
  "SAMPLE_DRIFT_FINDINGS = JArr [
     drift_finding ''drift-aegis-timeout'' ''aegis'' ''proxy.upstream_timeout_ms'' ''5000'' ''aegis-inst-2'' ''3000'',
     drift_finding ''drift-nexus-cache'' ''nexus'' ''cache.tuple_ttl_seconds'' ''300'' ''nexus-inst-2'' ''60'']"

definition diagnostics_drift_GET :: "('w, response) act" where
  "diagnostics_drift_GET = respond SAMPLE_DRIFT_FINDINGS 200"

definition migration_state :: "string \<Rightarrow> int \<Rightarrow> string \<Rightarrow> jsval" where
  "migration_state engine version stamp = JObj [(''engine_type'', JStr engine),
     (''instance_id'', JStr (engine @ ''-inst-1'')), (''environment'', JStr ''production''),
     (''current_schema_version'', jint version), (''expected_schema_version'', jint version),
     (''up_to_date'', JBool True), (''pending_migrations_count'', jint 0), (''last_migrated_at'', JStr stamp)]"

definition MIGRATION_STATES :: jsval where
  "MIGRATION_STATES = JArr [
     migration_state ''argus'' 5 ''2026-09-01T14:30:00Z'', migration_state ''ego'' 6 ''2026-09-02T10:15:00Z'',
     migration_state ''nexus'' 4 ''2026-09-02T11:45:00Z'', migration_state ''themis'' 3 ''2026-09-02T15:20:00Z'',
     migration_state ''aegis'' 4 ''2026-09-02T16:00:00Z'', migration_state ''vulcan'' 3 ''2026-09-02T18:00:00Z'',
     migration_state ''hermes'' 3 ''2026-09-02T19:30:00Z'']"

definition diagnostics_migrations_GET :: "('w, response) act" where
  "diagnostics_migrations_GET = respond MIGRATION_STATES 200"

definition diagnostics_probe_POST :: "request \<Rightarrow> ('w, response) act" where
  "diagnostics_probe_POST req = try_catch
     (bnd (request_json req) (\<lambda>body.
      jget body ''source_engine'' (\<lambda>s.
      let sourceEngine = js_or s (JStr ''aegis''); targetEngine = js_or (member body ''target_engine'') (JStr ''nexus'');
          targetEndpoint = js_or (member body ''target_endpoint'')
            (JStr (''http://'' @ to_str targetEngine @ '':8080/health/ready''));
          failing = strict_eq targetEngine (JStr ''unreachable_test'');
          outcome = JStr (if failing then ''failed'' else ''healthy'')
      in bnd date_now (\<lambda>now. bnd now_iso (\<lambda>timestamp.
         respond (JObj [
           (''probe_id'', JStr (''prb_'' @ show_int now)), (''timestamp'', JStr timestamp),
           (''source_instance_id'', JStr (to_str sourceEngine @ ''-inst-1'')), (''source_engine'', sourceEngine),
           (''target_instance_id'', JStr (to_str targetEngine @ ''-inst-1'')), (''target_engine'', targetEngine),
           (''target_endpoint'', targetEndpoint), (''dns_status'', JStr ''healthy''),
           (''dns_latency_ms'', JNum (Fin (6 / 10))), (''tcp_status'', outcome), (''tcp_latency_ms'', JNum (Fin (11 / 10))),
           (''tls_status'', JStr ''skipped''), (''tls_latency_ms'', jint 0), (''http_status'', outcome),
           (''http_code'', jint (if failing then 503 else 200)),
           (''http_latency_ms'', if failing then jint 0 else JNum (Fin (22 / 10))), (''overall_status'', outcome),
           (''error_message'', if failing then JStr ''Connection refused on port 8080'' else JUndef)]) 200)))))
     (catch_with 400 ''Failed to run connectivity probe'')"

text \<open>The sample timeline; its times are relative to the instant \<open>t0\<close> at which the module was loaded.\<close>

definition timeline_event ::
    "int \<Rightarrow> string \<Rightarrow> int \<Rightarrow> string \<Rightarrow> string \<Rightarrow> string \<Rightarrow> string \<Rightarrow> string \<Rightarrow> (string \<times> jsval) list \<Rightarrow> jsval" where
  "timeline_event t0 eid minutes typ engine title description actor extra = JObj ([(''id'', JStr eid),
     (''timestamp'', JStr (iso_date (t0 - 1000 * 60 * minutes))), (''event_type'', JStr typ), (''engine_type'', JStr engine),
     (''title'', JStr title), (''description'', JStr description), (''actor'', JStr actor)] @ extra)"

definition SAMPLE_TIMELINE :: "int \<Rightarrow> jsval" where
  "SAMPLE_TIMELINE t0 = JArr [
     timeline_event t0 ''evt-change-1'' 12 ''config_change'' ''aegis'' ''Aegis Ingress Rate Limit Reduced''
       ''Operator adjusted burst quota from 500 to 100 req/s on /api/v1/projects'' ''operator:sec_lead''
       [(''correlated_error_spike'', JBool True), (''error_spike_rate'', JNum (Fin (38 / 1000)))],
     timeline_event t0 ''evt-change-2'' 45 ''deployment'' ''nexus'' ''Nexus ReBAC Engine v1.4.2 Deployed''
       ''Rolling update completed across 2 instances with optimized Zanzibar cache'' ''ci:argusd-deployer''
       [(''correlated_error_spike'', JBool False)],
     timeline_event t0 ''evt-change-3'' 90 ''schema_migration'' ''themis'' ''Themis Database Migration v3 Applied''
       ''Added partial index on policy version lookup table'' ''system:argus-migrator''
       [(''correlated_error_spike'', JBool False)],
     timeline_event t0 ''evt-change-4'' 180 ''registration'' ''vulcan'' ''New Vulcan Replicas Enrolled''
       ''Instance vulcan-inst-2 joined production cluster'' ''system:fleet-orchestrator''
       [(''correlated_error_spike'', JBool False)]]"

definition diagnostics_timeline_GET :: "int \<Rightarrow> ('w, response) act" where
  "diagnostics_timeline_GET t0 = respond (SAMPLE_TIMELINE t0) 200"

section \<open>app/api/observability\<close>

text \<open>\<open>schema.parse(v)\<close>: a \<open>ZodError\<close>, whose message \<open>zmsg\<close> renders, when the value does not fit.\<close>

definition zod_parse :: "(zissue list \<Rightarrow> string) \<Rightarrow> zschema \<Rightarrow> jsval \<Rightarrow> ('w, jsval) act" where
  "zod_parse zmsg s v = bnd (safe_parse s v) (\<lambda>r. case r of
     Inl issues \<Rightarrow> throw (Error ''ZodError'' (zmsg issues)) | Inr data \<Rightarrow> ret data)"

definition prometheus_down :: "string \<Rightarrow> exn \<Rightarrow> ('w, response) js" where
  "prometheus_down what e = respond (JObj [(''error'', JStr (''Prometheus '' @ what)), (''source'', JStr ''prometheus''),
     (''detail'', case e of Error _ msg \<Rightarrow> JStr msg | Thrown _ \<Rightarrow> JUndef)]) 503"

text \<open>The array under \<open>data\<close> of a successful answer of Prometheus.\<close>

definition prometheus_list :: "string \<Rightarrow> string \<Rightarrow> string \<Rightarrow> ('w, jsval list) act" where
  "prometheus_list path field kind =
     bnd (fetch_get ''prometheus'' path) (\<lambda>response.
     if \<not> rs_ok response then throw (Error ''Error'' (''Prometheus returned '' @ show_int (rs_status response)))
     else
       bnd (response_json response) (\<lambda>body.
       jget body ''status'' (\<lambda>status.
       let v = opt_prop (member body ''data'') field
       in if status \<noteq> JStr ''success'' \<or> \<not> is_arr v
          then throw (Error ''Error'' (''Prometheus returned an invalid '' @ kind @ '' response''))
          else ret (elems v))))"

definition severity_of :: "jsval \<Rightarrow> jsval" where
  "severity_of labels = (let s = opt_prop labels ''severity'' in
     JStr (if s = JStr ''critical'' then ''critical'' else if s = JStr ''info'' then ''info'' else ''warning''))"

definition alert_event :: "jsval \<Rightarrow> jsval res" where
  "alert_event alert = map_sum id (\<lambda>labels. JObj [
     (''id'', JStr (join_truthy '':'' [opt_prop labels ''alertname'', opt_prop labels ''instance'', member alert ''activeAt''])),
     (''rule_id'', js_coalesce (opt_prop labels ''alertname'') (JStr ''unknown'')),
     (''rule_name'', js_coalesce (opt_prop labels ''alertname'') (JStr ''Unnamed alert'')),
     (''engine_type'', js_coalesce (js_coalesce (opt_prop labels ''engine'') (opt_prop labels ''job'')) (JStr ''unknown'')),
     (''severity'', severity_of labels),
     (''state'', JStr (if member alert ''state'' = JStr ''firing'' then ''firing'' else ''resolved'')),
     (''value'', JNum (to_num (js_coalesce (member alert ''value'') (jint 0)))), (''threshold'', JNull),
     (''triggered_at'', js_coalesce (member alert ''activeAt'') (JStr (iso_date 0)))]) (get_prop alert ''labels'')"

definition alerts_GET :: "(zissue list \<Rightarrow> string) \<Rightarrow> ('w, response) act" where
  "alerts_GET zmsg = try_catch
     (bnd (prometheus_list ''/api/v1/alerts'' ''alerts'' ''alerts'') (\<lambda>xs.
      bnd (lift (map_res alert_event xs)) (\<lambda>alerts.
      bnd (zod_parse zmsg alertEventListSchema (JArr alerts)) (\<lambda>v. respond v 200))))
     (prometheus_down ''alerts are unavailable'')"

definition alert_rule :: "jsval \<Rightarrow> jsval" where
  "alert_rule rule = (let labels = member rule ''labels'' in JObj [
     (''id'', js_coalesce (member rule ''name'') (JStr ''unknown'')),
     (''name'', js_coalesce (member rule ''name'') (JStr ''Unnamed alert'')),
     (''engine_type'', js_coalesce (opt_prop labels ''engine'') (JStr ''unknown'')), (''severity'', severity_of labels),
     (''metric'', js_coalesce (member rule ''query'') (JStr [])), (''threshold'', JNull), (''operator'', JNull),
     (''duration'', JStr (to_str (js_coalesce (member rule ''duration'') (jint 0)) @ ''s'')),
     (''enabled'', JBool (member rule ''state'' \<noteq> JStr ''inactive''))])"

definition group_rules :: "jsval \<Rightarrow> jsval list res" where
  "group_rules grp = (case get_prop grp ''rules'' of
     Inl e \<Rightarrow> Inl e
   | Inr rs \<Rightarrow> (case as_array ''(group.rules ?? [])'' ''filter'' (js_coalesce rs (JArr [])) of
       Inl e \<Rightarrow> Inl e
     | Inr xs \<Rightarrow> map_sum id (map alert_rule)
         (filter_res (\<lambda>r. map_sum id (\<lambda>t. t = JStr ''alerting'') (get_prop r ''type'')) xs)))"

definition alert_rules_GET :: "(zissue list \<Rightarrow> string) \<Rightarrow> ('w, response) act" where
  "alert_rules_GET zmsg = try_catch
     (bnd (prometheus_list ''/api/v1/rules'' ''groups'' ''rules'') (\<lambda>groups.
      bnd (lift (map_res group_rules groups)) (\<lambda>rules.
      bnd (zod_parse zmsg alertRuleListSchema (JArr (concat rules))) (\<lambda>v. respond v 200))))
     (prometheus_down ''alert rules are unavailable'')"

definition alert_rules_POST :: "('w, response) act" where
  "alert_rules_POST = lift (next_json (err_obj ''Alert rules are managed by Prometheus configuration'') 405 [(''Allow'', ''GET'')])"

definition logs_GET :: "('w, response) act" where
  "logs_GET = respond (JObj [(''error'', JStr ''A log aggregation backend is not configured''), (''source'', JStr ''logs'')]) 501"

definition slo_GET :: "('w, response) act" where
  "slo_GET = respond (JObj [(''error'', JStr ''SLO recording rules are not configured''), (''source'', JStr ''prometheus'')]) 503"

definition traces_GET :: "('w, response) act" where
  "traces_GET = respond (JObj [(''error'', JStr ''A trace backend is not configured''), (''source'', JStr ''traces'')]) 501"

definition trace_GET :: "('w, response) act" where
  "trace_GET = respond (JObj [(''error'', JStr ''A trace backend is not configured''), (''source'', JStr ''traces'')]) 501"

section \<open>app/api/observability/metrics\<close>

text \<open>The queries run at once and are all sent; the first failure in their order is the one reported.\<close>

definition prom_query :: "string \<Rightarrow> ('w, jsval list) act" where
  "prom_query q = prometheus_list (''/api/v1/query?query='' @ encode_uri_component q) ''result'' ''query''"

definition metric_queries :: "string list" where
  "metric_queries = [''sum(autorix_http_requests_total)'', ''sum(rate(autorix_http_requests_total[1m]))'',
     ''sum(rate(autorix_http_requests_total{status=~\"5..\"}[1m]))'',
     ''histogram_quantile(0.95, sum by (le) (rate(autorix_http_request_duration_seconds_bucket[5m]))) * 1000'',
     ''up{job=~\".*autorix.*\"}'', ''sum by (engine) (autorix_http_requests_total)'',
     ''sum by (engine) (rate(autorix_http_requests_total[1m]))'']"

definition promise_all :: "('w, 'a) js list \<Rightarrow> ('w, 'a list) js" where
  "promise_all ms = bnd (map_m settle ms) (\<lambda>rs. lift (map_res (\<lambda>r. r) rs))"

text \<open>\<open>Number(results[0]?.value?.[1] ?? 0)\<close>\<close>

definition scalar :: "jsval list \<Rightarrow> jnum" where
  "scalar results = to_num (js_coalesce
     (opt_prop (opt_prop (case results of [] \<Rightarrow> JUndef | r # _ \<Rightarrow> r) ''value'') ''1'') (jint 0))"

definition round2 :: "jnum \<Rightarrow> jnum" where
  "round2 v = num_scale (1 / 100) (num_round (num_scale 100 v))"

text \<open>\<open>a / b\<close> for a positive \<open>b\<close>.\<close>

fun num_div_pos :: "jnum \<Rightarrow> jnum \<Rightarrow> jnum" where
  "num_div_pos (Fin a) (Fin b) = Fin (a / b)"
| "num_div_pos (Fin a) PosInf = Fin 0"
| "num_div_pos PosInf (Fin _) = PosInf"
| "num_div_pos NegInf (Fin _) = NegInf"
| "num_div_pos _ _ = NaN"

text \<open>\<open>target.metric.engine\<close> and \<open>target.value[1] === "1"\<close>\<close>

definition engine_of :: "jsval \<Rightarrow> jsval res" where
  "engine_of t = (case get_prop t ''metric'' of Inl e \<Rightarrow> Inl e | Inr m \<Rightarrow> get_prop m ''engine'')"

definition is_up :: "jsval \<Rightarrow> bool res" where
  "is_up t = (case get_prop t ''value'' of Inl e \<Rightarrow> Inl e
     | Inr v \<Rightarrow> map_sum id (\<lambda>x. x = JStr ''1'') (get_prop v ''1''))"

definition up_on :: "jsval \<Rightarrow> jsval \<Rightarrow> bool res" where
  "up_on engine t = (case engine_of t of Inl e \<Rightarrow> Inl e
     | Inr e \<Rightarrow> if strict_eq e engine then is_up t else Inr False)"

definition engine_summary :: "jsval list \<Rightarrow> jsval list \<Rightarrow> jsval \<Rightarrow> jsval res" where
  "engine_summary up qpsByEngine item = (case engine_of item of
     Inl e \<Rightarrow> Inl e
   | Inr engine \<Rightarrow>
     (case filter_res (\<lambda>c. map_sum id (\<lambda>e. strict_eq e engine) (engine_of c)) qpsByEngine of
        Inl e \<Rightarrow> Inl e
      | Inr mine \<Rightarrow> (case filter_res (up_on engine) up of
          Inl e \<Rightarrow> Inl e
        | Inr running \<Rightarrow> (case (case get_prop item ''value'' of Inl e \<Rightarrow> Inl e | Inr v \<Rightarrow> get_prop v ''1'') of
            Inl e \<Rightarrow> Inl e
          | Inr tot \<Rightarrow> Inr (JObj [(''engine_type'', engine), (''status'', JStr ''observed''),
              (''instance_count'', jint (int (length running))), (''requests_total'', JNum (to_num tot)),
              (''requests_per_second'', JNum (round2 (scalar mine))), (''error_rate'', JNull), (''latency_p50_ms'', JNull),
              (''latency_p95_ms'', JNull), (''latency_p99_ms'', JNull), (''auth_decisions_total'', JNull),
              (''auth_allow_rate'', JNull)])))))"

definition metrics_report :: "string \<Rightarrow> jsval list list \<Rightarrow> jsval res" where
  "metrics_report timestamp rs = (case rs of
     [requests, qps, errors, p95, up, byEngine, qpsByEngine] \<Rightarrow>
       (case map_res (engine_summary up qpsByEngine) byEngine of
          Inl e \<Rightarrow> Inl e
        | Inr summaries \<Rightarrow> (case filter_res is_up up of
            Inl e \<Rightarrow> Inl e
          | Inr healthy \<Rightarrow> Inr (JObj [(''timestamp'', JStr timestamp), (''total_engines'', jint (int (length summaries))),
              (''total_instances'', jint (int (length up))), (''healthy_instances'', jint (int (length healthy))),
              (''requests_total'', JNum (scalar requests)), (''fleet_qps'', JNum (round2 (scalar qps))),
              (''fleet_error_rate'', if num_lt (Fin 0) (scalar qps) then JNum (num_div_pos (scalar errors) (scalar qps)) else jint 0),
              (''fleet_latency_p95_ms'', if p95 \<noteq> [] then JNum (round2 (scalar p95)) else JNull),
              (''auth_decisions_total'', JNull), (''auth_allow_rate'', JNull), (''engines'', JArr summaries)])))
   | _ \<Rightarrow> Inl (type_error ''seven results''))"

definition metrics_GET :: "(zissue list \<Rightarrow> string) \<Rightarrow> ('w, response) act" where
  "metrics_GET zmsg = try_catch
     (bnd (promise_all (map prom_query metric_queries)) (\<lambda>rs.
      bnd now_iso (\<lambda>timestamp.
      bnd (lift (metrics_report timestamp rs)) (\<lambda>report.
      bnd (zod_parse zmsg fleetMetricsSummarySchema report) (\<lambda>v. respond v 200)))))
     (prometheus_down ''metrics are unavailable'')"

section \<open>Health is measured\<close>

definition health_request :: "'w world_scheme \<Rightarrow> service \<Rightarrow> http_request" where
  "health_request w s = get_request (to_str (getServiceUrl w (sv_key s)) @ ''/health/ready'')"

definition answered :: "'w world_scheme \<Rightarrow> service list \<Rightarrow> exn + http_response" where
  \<comment> \<open>the answer to the request of the last service, after the requests of all before it\<close>
  "answered w ss = w_upstream w (w_sent w @ map (health_request w) ss)"

definition measured :: "exn + http_response \<Rightarrow> string" where
  "measured outcome = (case outcome of Inl _ \<Rightarrow> ''unreachable''
     | Inr res \<Rightarrow> if rs_status res = 200 then ''healthy'' else if rs_status res = 503 then ''degraded'' else ''unknown'')"

lemma health_request_cong: "w_env w' = w_env w \<Longrightarrow> health_request w' = health_request w"
  using getServiceUrl_cong [of w' w] by (intro ext) (simp add: health_request_def)

lemma probe_run:
  "\<exists>w' latency. probe s w = (Inr (service_health s (measured (answered w [s])) latency), w') \<and>
     w_sent w' = w_sent w @ [health_request w s] \<and> w_upstream w' = w_upstream w \<and> w_env w' = w_env w"
proof -
  let ?rq = "health_request w s"
  let ?w1 = "w\<lparr>w_ticks := Suc (w_ticks w), w_sent := w_sent w @ [?rq]\<rparr>"
  show ?thesis
  proof (cases "w_upstream w (w_sent w @ [?rq])")
    case (Inl e)
    then show ?thesis
      by (intro exI [of _ ?w1] exI [of _ JNull])
        (simp add: probe_def run answered_def measured_def health_request_def run_ret log_request_def)
  next
    case (Inr res)
    then show ?thesis
      by (intro exI [of _ "?w1\<lparr>w_ticks := Suc (w_ticks ?w1)\<rparr>"]
            exI [of _ "jint (w_clock w (Suc (w_ticks w)) - w_clock w (w_ticks w))"])
        (simp add: probe_def run answered_def measured_def health_request_def engine_status_def run_ret log_request_def)
  qed
qed

lemma probes_run:
  "\<exists>hs w'. map_m probe ss w = (Inr hs, w') \<and> length hs = length ss \<and> w_env w' = w_env w \<and> w_upstream w' = w_upstream w \<and>
     w_sent w' = w_sent w @ map (health_request w) ss \<and>
     (\<forall>i < length ss. \<exists>latency. hs ! i = service_health (ss ! i) (measured (answered w (take (Suc i) ss))) latency)"
proof (induction ss arbitrary: w)
  case Nil
  then show ?case by (simp add: ret_def)
next
  case (Cons s ss)
  obtain w1 l where p: "probe s w = (Inr (service_health s (measured (answered w [s])) l), w1)"
    and w1: "w_sent w1 = w_sent w @ [health_request w s]" "w_upstream w1 = w_upstream w" "w_env w1 = w_env w"
    using probe_run [of s w] by blast
  obtain hs w' where ih: "map_m probe ss w1 = (Inr hs, w')" "length hs = length ss" "w_env w' = w_env w1"
    "w_upstream w' = w_upstream w1" "w_sent w' = w_sent w1 @ map (health_request w1) ss"
    "\<forall>i < length ss. \<exists>latency. hs ! i = service_health (ss ! i) (measured (answered w1 (take (Suc i) ss))) latency"
    using Cons.IH [of w1] by blast
  have rq: "health_request w1 = health_request w" by (rule health_request_cong [OF w1(3)])
  have ans: "answered w1 ts = answered w (s # ts)" for ts by (simp add: answered_def w1 rq)
  have "map_m probe (s # ss) w = (Inr (service_health s (measured (answered w [s])) l # hs), w')"
    by (simp add: bnd_def p ih(1) ret_def)
  moreover have "\<exists>latency. (service_health s (measured (answered w [s])) l # hs) ! i =
      service_health ((s # ss) ! i) (measured (answered w (take (Suc i) (s # ss)))) latency" if "i < length (s # ss)" for i
    using that ih(6) by (cases i) (auto simp: ans)
  ultimately show ?case using ih w1 rq by (intro exI [of _ "service_health s (measured (answered w [s])) l # hs"] exI [of _ w']) auto
qed

text \<open>
  The health report claims only what was measured: it lists the seven engines in order, sends each one
  request for its readiness, and calls an engine healthy exactly when that request was answered with 200,
  degraded exactly for 503, unreachable exactly when no answer came.
\<close>

theorem health_measured:
  "\<exists>hs w' stamp. health_GET w = (next_json (JObj [(''checkedAt'', JStr stamp), (''services'', JArr hs)]) 200 [], w') \<and>
     length hs = 7 \<and> w_sent w' = w_sent w @ map (health_request w) SERVICES \<and>
     list_all (\<lambda>i. \<exists>latency. hs ! i = service_health (SERVICES ! i) (measured (answered w (take (Suc i) SERVICES))) latency) [0..<7]"
proof -
  have n: "length SERVICES = 7" by (simp add: SERVICES_def)
  obtain hs w' where m: "map_m probe SERVICES w = (Inr hs, w')" "length hs = 7"
    "w_sent w' = w_sent w @ map (health_request w) SERVICES"
    "\<forall>i < 7. \<exists>latency. hs ! i = service_health (SERVICES ! i) (measured (answered w (take (Suc i) SERVICES))) latency"
    using probes_run [of SERVICES w] n by auto
  have "health_GET w = (next_json (JObj [(''checkedAt'', JStr (iso_date (w_clock w' (w_ticks w')))), (''services'', JArr hs)]) 200 [],
      w'\<lparr>w_ticks := Suc (w_ticks w')\<rparr>)"
    by (simp add: health_GET_def bnd_def [of "map_m _ _"] m(1) now_iso_def bnd_assoc run_date_now run_respond)
  with m show ?thesis
    by (intro exI [of _ hs] exI [of _ "w'\<lparr>w_ticks := Suc (w_ticks w')\<rparr>"] exI) (auto simp: list_all_iff)
qed

end
