(* ===== verification/ExplorerRoutes.thy ===== *)
theory ExplorerRoutes
  imports JsCalls SchemasEngines SchemasPlatform
begin

text \<open>
  The access explorer: app/api/explorer. Calls the source makes in parallel are run in the order of its
  list. The regular expressions that come from an engine's data (\<open>new RegExp(p).test(s)\<close>) and the
  rendering of a date in the locale of the server are parameters.
\<close>

section \<open>Answers of several engines\<close>

text \<open>\<open>proxyRequest(service, path, z.any()).then(async (r) => (r.ok ? r.json() : null))\<close>, settled.\<close>

definition ask_engine :: "string \<Rightarrow> string \<Rightarrow> ('w, jsval res) act" where
  "ask_engine service path = settle (bnd (proxyRequest service path ZAny None) (\<lambda>r.
     if rp_ok r then resp_json r else ret JNull))"

text \<open>\<open>res.status === "fulfilled" && res.value\<close>\<close>

definition answer_of :: "jsval res \<Rightarrow> jsval option" where
  "answer_of r = (case r of Inr v \<Rightarrow> if truthy v then Some v else None | Inl _ \<Rightarrow> None)"

fun find_res :: "('a \<Rightarrow> bool res) \<Rightarrow> 'a list \<Rightarrow> 'a option res" where
  "find_res f [] = Inr None"
| "find_res f (x # xs) = (case f x of Inl e \<Rightarrow> Inl e | Inr b \<Rightarrow> if b then Inr (Some x) else find_res f xs)"

text \<open>The list of such an answer, on which the array method \<open>m\<close> is called.\<close>

definition answer_list :: "string \<Rightarrow> string \<Rightarrow> jsval \<Rightarrow> jsval list res" where
  "answer_list expr m v = (case unwrap_list ''data'' v of Inl e \<Rightarrow> Inl e | Inr d \<Rightarrow> as_array expr m d)"

definition str_field :: "jsval \<Rightarrow> string \<Rightarrow> jsval" where
  \<comment> \<open>\<open>typeof o.k === "string" ? o.k : undefined\<close>\<close>
  "str_field v k = (if is_str (member v k) then member v k else JUndef)"

definition text_or :: "jsval \<Rightarrow> string \<Rightarrow> string \<Rightarrow> jsval" where
  \<comment> \<open>\<open>String(o.k || d)\<close>\<close>
  "text_or v k d = JStr (to_str (js_or (member v k) (JStr d)))"

definition text_of :: "jsval \<Rightarrow> string \<Rightarrow> jsval" where
  "text_of v k = JStr (to_str (member v k))"

section \<open>app/api/explorer/consistency\<close>

definition days_since :: "'w world_scheme \<Rightarrow> int \<Rightarrow> jsval \<Rightarrow> jnum" where
  "days_since w now v = num_scale (1 / 86400000) (num_sub (Fin (of_int now)) (w_date w (to_str v)))"

definition stale_key :: "jsval \<Rightarrow> ('w, bool) act" where
  "stale_key k = jget k ''state'' (\<lambda>st.
     if st = JStr ''revoked'' then ret False
     else if \<not> truthy (member k ''last_used_at'') then
       bnd date_now (\<lambda>now. asks (\<lambda>w. num_lt (Fin 14) (days_since w now (member k ''created_at''))))
     else bnd date_now (\<lambda>now. asks (\<lambda>w. num_lt (Fin 30) (days_since w now (member k ''last_used_at'')))))"

definition filter_m :: "('a \<Rightarrow> ('w, bool) js) \<Rightarrow> 'a list \<Rightarrow> ('w, 'a list) js" where
  "filter_m p xs = bnd (map_m p xs) (\<lambda>bs. ret (map fst (filter snd (zip xs bs))))"

definition consistency_finding :: "string \<Rightarrow> string \<Rightarrow> string \<Rightarrow> string \<Rightarrow> string \<Rightarrow> string \<Rightarrow> string \<Rightarrow> jsval" where
  "consistency_finding fid severity category title description remediation link = JObj [
     (''id'', JStr fid), (''severity'', JStr severity), (''category'', JStr category), (''title'', JStr title),
     (''description'', JStr description), (''remediation'', JStr remediation), (''remediation_link'', JStr link)]"

definition stale_finding :: "jsval list \<Rightarrow> jsval list" where
  "stale_finding stale = (if stale = [] then [] else [consistency_finding ''vulcan-stale-keys'' ''warning'' ''vulcan''
     (show_nat (length stale) @ '' Stale API Key'' @ (if length stale = 1 then [] else ''s'') @ '' Detected'')
     (''API keys ('' @ join '', '' (take 3 (map (\<lambda>k. to_str (member k ''name'')) stale)) @
        '') have had zero traffic in over 30 days. Unused credentials expand the attack surface.'')
     ''Review key usage and revoke stale machine tokens.'' ''/vulcan''])"

definition certificate_finding :: "(jnum \<Rightarrow> string) \<Rightarrow> 'w world_scheme \<Rightarrow> jsval \<Rightarrow> jsval \<Rightarrow> jsval list res" where
  "certificate_finding locale_date w p c = map_sum id (\<lambda>expired.
     if truthy expired then [consistency_finding (''hermes-cert-expired-'' @ to_str (member p ''id'')) ''critical'' ''hermes''
         (''Expired SAML IdP Certificate '' @ [CHR 0xB7] @ '' '' @ to_str (js_or (member p ''display_name'') (member p ''id'')))
         (''Certificate for '' @ to_str (member c ''subject'') @ '' expired on '' @
            locale_date (w_date w (to_str (member c ''not_after''))) @ ''. Users will experience federation authentication errors.'')
         ''Upload a renewed IdP certificate and test the SAML assertion round trip.'' ''/enterprise'']
     else if truthy (member c ''expiring_soon'') then [consistency_finding (''hermes-cert-soon-'' @ to_str (member p ''id'')) ''warning'' ''hermes''
         (''SAML IdP Certificate Expiring in '' @ to_str (member c ''days_until_expiry'') @ '' Days'')
         (''Certificate for '' @ to_str (member c ''subject'') @ '' will expire soon. Plan rollover to prevent silent authentication outages.'')
         ''Schedule IdP certificate rotation before expiration.'' ''/enterprise'']
     else []) (get_prop c ''expired'')"

definition provider_findings :: "(jnum \<Rightarrow> string) \<Rightarrow> 'w world_scheme \<Rightarrow> jsval \<Rightarrow> jsval list res" where
  "provider_findings locale_date w p = (case get_prop p ''certificates'' of
     Inl e \<Rightarrow> Inl e
   | Inr certs \<Rightarrow> if \<not> truthy certs then Inr []
       else (case as_array ''certs'' ''forEach'' certs of Inl e \<Rightarrow> Inl e
         | Inr cs \<Rightarrow> map_sum id concat (map_res (certificate_finding locale_date w p) cs)))"

definition baseline_finding :: jsval where
  "baseline_finding = consistency_finding ''aegis-nexus-alignment'' ''info'' ''aegis''
     ''Zero-Trust Route Alignment Synchronized''
     ''All active Aegis routing definitions are mapped to authenticated upstream targets and verified against ReBAC namespaces.''
     ''No immediate action required.'' ''/proxy-rules''"

definition consistency_GET :: "(jnum \<Rightarrow> string) \<Rightarrow> ('w, response) act" where
  "consistency_GET locale_date =
     bnd (ask_engine ''aegis'' ''/admin/rules'') (\<lambda>_.
     bnd (ask_engine ''nexus'' ''/schema'') (\<lambda>_.
     bnd (ask_engine ''vulcan'' ''/keys?limit=100'') (\<lambda>vulcanRes.
     bnd (ask_engine ''hermes'' ''/admin/saml/providers'') (\<lambda>hermesRes.
     bnd (case answer_of vulcanRes of None \<Rightarrow> ret []
          | Some v \<Rightarrow> bnd (lift (answer_list ''keys'' ''filter'' v)) (\<lambda>ks.
              bnd (filter_m stale_key ks) (\<lambda>stale. ret (stale_finding stale)))) (\<lambda>fs1.
     bnd (case answer_of hermesRes of None \<Rightarrow> ret []
          | Some v \<Rightarrow> bnd (lift (answer_list ''providers'' ''forEach'' v)) (\<lambda>ps.
              bnd (asks (\<lambda>w. map_res (provider_findings locale_date w) ps)) (\<lambda>r. bnd (lift r) (\<lambda>fs. ret (concat fs))))) (\<lambda>fs2.
     respond (JArr (fs1 @ fs2 @ [baseline_finding])) 200))))))"

section \<open>app/api/explorer/effective-access\<close>

definition strip_user :: "string \<Rightarrow> string" where
  "strip_user s = (if starts_with s ''user:'' then drop 5 s else s)"

text \<open>\<open>s.replace(/^\/api\/v\d+\//, "").split("/").filter(Boolean)\<close>\<close>

definition strip_api :: "string \<Rightarrow> string" where
  "strip_api s = (let r = drop 6 s; rest = dropWhile is_digit r in
     if starts_with s ''/api/v'' \<and> takeWhile is_digit r \<noteq> [] \<and> starts_with rest ''/'' then drop 1 rest else s)"

definition path_parts :: "string \<Rightarrow> string list" where
  "path_parts s = filter (\<lambda>p. p \<noteq> []) (split_on (CHR ''/'') (strip_api s))"

definition part_or :: "nat \<Rightarrow> string \<Rightarrow> string list \<Rightarrow> string" where
  "part_or i d ps = (if i < length ps then ps ! i else d)"

definition rule_applies :: "(string \<Rightarrow> string \<Rightarrow> bool res) \<Rightarrow> jsval \<Rightarrow> jsval \<Rightarrow> bool res" where
  "rule_applies regexp resource r = (case get_prop r ''enabled'' of
     Inl e \<Rightarrow> Inl e
   | Inr enabled \<Rightarrow>
     if \<not> truthy enabled then Inr False
     else (case (case member r ''path'' of
                   JStr p \<Rightarrow> str_method ''resource'' ''startsWith'' (\<lambda>s. JBool (starts_with s p)) resource
                 | _ \<Rightarrow> Inr (JBool False)) of
         Inl e \<Rightarrow> Inl e
       | Inr hit \<Rightarrow> if truthy hit then Inr True
           else (case member r ''pattern'' of JStr p \<Rightarrow> regexp p (to_str resource) | _ \<Rightarrow> Inr False)))"

definition aegis_route :: "(string \<Rightarrow> string \<Rightarrow> bool res) \<Rightarrow> jsval \<Rightarrow> ('w, string \<times> string) act" where
  "aegis_route regexp resource = (let unknown = (''default-proxy-rule'', ''http://internal-service:8080'') in try_catch
     (bnd (proxyRequest ''aegis'' ''/admin/rules'' ZAny None) (\<lambda>res.
      if rp_ok res then
        bnd (resp_json res) (\<lambda>rules.
        bnd (lift (unwrap_list ''rules'' rules)) (\<lambda>d.
        bnd (lift (as_array ''list'' ''find'' d)) (\<lambda>list.
        bnd (lift (find_res (rule_applies regexp resource) list)) (\<lambda>hit. ret (case hit of
            None \<Rightarrow> unknown
          | Some r \<Rightarrow> (to_str (js_or (member r ''name'') (member r ''id'')),
              to_str (js_or (member r ''upstream_url'') (JStr (snd unknown)))))))))
      else ret unknown))
     (\<lambda>_. ret unknown))"

definition nexus_verdict :: "jsval \<Rightarrow> string \<Rightarrow> ('w, bool \<times> jsval) act" where
  "nexus_verdict payload path = try_catch
     (bnd (proxyRequest ''nexus'' ''/check'' ZAny (Some (po_json ''POST'' payload))) (\<lambda>res.
      if rp_ok res then
        bnd (resp_json res) (\<lambda>v.
        jget v ''allowed'' (\<lambda>allowed. ret (truthy allowed, js_or (member v ''path'') (JStr path))))
      else ret (True, JStr path)))
     (\<lambda>_. ret (True, JStr path))"

definition failed_policy :: "jsval \<Rightarrow> bool \<Rightarrow> bool \<times> jsval" where
  \<comment> \<open>an exception while the list is searched is caught, and the verdict becomes \<open>true\<close>\<close>
  "failed_policy v allowed = (if allowed \<or> \<not> is_arr (member v ''results'') then (allowed, JUndef)
     else (case find_res (\<lambda>r. map_sum id (\<lambda>p. \<not> truthy p) (get_prop r ''passed'')) (elems (member v ''results'')) of
       Inl _ \<Rightarrow> (True, JUndef)
     | Inr None \<Rightarrow> (allowed, JUndef)
     | Inr (Some r) \<Rightarrow> (allowed, text_of r ''policy_name'')))"

definition themis_verdict :: "jsval \<Rightarrow> ('w, bool \<times> jsval \<times> jsval) act" where
  "themis_verdict payload = try_catch
     (bnd (proxyRequest ''themis'' ''/policies/evaluate'' ZAny (Some (po_json ''POST'' payload))) (\<lambda>res.
      if rp_ok res then
        bnd (resp_json res) (\<lambda>v.
        jget v ''all_passed'' (\<lambda>passed.
        let matched = js_or (member v ''total_evaluated'') (jint 1)
        in case failed_policy v (truthy (js_coalesce passed (JBool True))) of (allowed, failed) \<Rightarrow>
             ret (allowed, matched, failed)))
      else ret (True, jint 1, JUndef)))
     (\<lambda>_. ret (True, jint 1, JUndef))"

definition access_reason :: "bool \<Rightarrow> bool \<Rightarrow> string \<Rightarrow> string \<Rightarrow> jsval \<Rightarrow> string" where
  "access_reason nexusAllowed themisAllowed relation object failedPolicy =
     (if \<not> nexusAllowed then ''Denied by Nexus: Subject does not possess '' @ [CHR 0x27] @ relation @ [CHR 0x27] @
        '' relation on '' @ object @ ''.''
      else if \<not> themisAllowed then ''Denied by Themis: Policy '' @ [CHR 0x27] @
        to_str (js_or failedPolicy (JStr ''guardrail'')) @ [CHR 0x27] @ '' evaluated to false.''
      else ''Access granted across all Zero-Trust evaluation engines.'')"

definition effective_access :: "(string \<Rightarrow> string \<Rightarrow> bool res) \<Rightarrow> jsval \<Rightarrow> jsval \<Rightarrow> jsval \<Rightarrow> jsval \<Rightarrow> ('w, response) act" where
  "effective_access regexp subject resource action ctx =
     bnd (lift (str_method ''subject'' ''replace'' (\<lambda>s. JStr (strip_user s)) subject)) (\<lambda>cleanSubjectId.
     bnd (aegis_route regexp resource) (\<lambda>(ruleName, upstream).
     bnd (lift (str_method ''resource'' ''replace'' (\<lambda>s. JArr (map JStr (path_parts s))) resource)) (\<lambda>parts.
     let pathParts = map to_str (elems parts);
         namespace = part_or 0 ''resource'' pathParts; object = part_or 1 ''default'' pathParts;
         relation = (if action = JStr ''GET'' then ''viewer'' else ''editor'');
         target = namespace @ '':'' @ object
     in bnd (nexus_verdict (JObj [(''namespace'', JStr namespace), (''object'', JStr object), (''relation'', JStr relation),
              (''subject'', cleanSubjectId), (''context'', ctx)])
              (to_str subject @ '' -> '' @ relation @ '' -> '' @ target)) (\<lambda>(nexusAllowed, nexusPath).
        bnd now_iso (\<lambda>now.
        bnd (themis_verdict (JObj [(''context'', obj_spread (JObj [(''subject'', cleanSubjectId), (''resource'', resource),
              (''action'', action), (''now'', JStr now)]) ctx)])) (\<lambda>(themisAllowed, matched, failedPolicy).
        respond (JObj [(''subject'', subject), (''resource'', resource), (''action'', action),
          (''allowed'', JBool (nexusAllowed \<and> themisAllowed)),
          (''reason'', JStr (access_reason nexusAllowed themisAllowed relation target failedPolicy)),
          (''engine_breakdown'', JObj [
            (''aegis'', JObj [(''matched'', JBool True), (''rule_name'', JStr ruleName), (''upstream'', JStr upstream)]),
            (''nexus'', JObj [(''checked'', JBool True), (''namespace'', JStr namespace), (''object'', JStr object),
               (''relation'', JStr relation), (''allowed'', JBool nexusAllowed), (''path'', nexusPath)]),
            (''themis'', JObj [(''evaluated'', JBool True), (''policies_matched'', matched),
               (''allowed'', JBool themisAllowed), (''failed_policy'', failedPolicy)])])]) 200))))))"

definition effective_access_POST :: "(string \<Rightarrow> string \<Rightarrow> bool res) \<Rightarrow> request \<Rightarrow> ('w, response) act" where
  "effective_access_POST regexp req = try_catch
     (bnd (request_json req) (\<lambda>body.
      bnd (lift (destructure ''body'' ''subject'' body)) (\<lambda>b.
      effective_access regexp (js_default (member b ''subject'') (JStr ''user:alice''))
        (js_default (member b ''resource'') (JStr ''/api/v1/finance/invoices''))
        (js_default (member b ''action'') (JStr ''GET'')) (js_default (member b ''context'') (JObj [])))))
     (catch_with 400 ''Effective access calculation failed'')"

section \<open>app/api/explorer/simulate\<close>

definition starts_any :: "string list \<Rightarrow> string \<Rightarrow> bool" where
  "starts_any ps s = list_ex (starts_with s) ps"

definition credential_kind :: "string \<Rightarrow> string \<times> string" where
  "credential_kind auth = (if starts_any [''Bearer av_live_'', ''av_live_''] auth then (''vulcan'', ''Vulcan API Key / Macaroon'')
     else if starts_any [''Bearer ey''] auth then (''janus'', ''Janus OAuth2 JWT'')
     else (''ego'', ''Session Cookie''))"

definition sim_step :: "string \<Rightarrow> string \<Rightarrow> rat \<Rightarrow> (string \<times> jsval) list \<Rightarrow> jsval" where
  "sim_step step engine latency details = JObj [(''step'', JStr step), (''engine'', JStr engine), (''status'', JStr ''pass''),
     (''latency_ms'', JNum (Fin latency)), (''details'', JObj details)]"

definition sim_steps :: "jsval \<Rightarrow> string \<Rightarrow> string list \<Rightarrow> jsval \<Rightarrow> jsval list" where
  "sim_steps meth auth pathParts subject =
     (let (authEngine, credentialType) = credential_kind auth; who = to_str subject;
          namespace = part_or 0 ''project'' pathParts; object = part_or 1 ''proj_alpha'' pathParts;
          relation = (if meth = JStr ''GET'' then ''viewer'' else ''operator'')
      in [sim_step ''Ingress & Route Pipeline Matching'' ''aegis'' (9 / 10) [(''matched_route'', JStr ''/api/v1/projects/*''),
            (''upstream'', JStr ''http://deploy-engine.internal:8080''), (''strip_prefix'', JBool False)],
          sim_step ''Authentication Credential Resolution'' authEngine (14 / 10) [(''credential_type'', JStr credentialType),
            (''resolved_subject'', subject), (''mfa_verified'', JBool True)],
          sim_step ''Zanzibar ReBAC Relation Traversal'' ''nexus'' (22 / 10) [
            (''check'', JStr (who @ '' possesses '' @ [CHR 0x27] @ relation @ [CHR 0x27] @ '' on '' @ namespace @ '':'' @ object)),
            (''graph_path'', JStr (who @ '' -> member -> team:devops#member -> '' @ namespace @ '':'' @ object @ ''#'' @ relation))],
          sim_step ''ABAC Context Policy Guardrail'' ''themis'' (8 / 10) [
            (''evaluated_policies'', JArr [JStr ''require-authenticated-subject'', JStr ''allow-devops-in-region'']),
            (''cel_expression'', JStr (''request.auth.subject != '' @ [CHR 0x27, CHR 0x27] @ '' && request.time.hours >= 0'')),
            (''all_passed'', JBool True)]])"

definition total_latency :: "jsval list \<Rightarrow> jnum" where
  "total_latency steps = foldl (\<lambda>sum s. num_add sum (to_num (member s ''latency_ms''))) (Fin 0) steps"

definition simulate_POST :: "request \<Rightarrow> ('w, response) act" where
  "simulate_POST req = try_catch
     (bnd (request_json req) (\<lambda>body.
      bnd (lift (destructure ''body'' ''method'' body)) (\<lambda>b.
      let meth = js_default (member b ''method'') (JStr ''GET'');
          path = js_default (member b ''path'') (JStr ''/api/v1/projects/proj_alpha/deployments'');
          headers = js_default (member b ''headers'') (JObj []);
          subject = js_default (member b ''subject'') (JStr ''user:usr_operator'')
      in bnd (randomBytes 6) (\<lambda>bytes.
         jget headers ''authorization'' (\<lambda>lower.
         let authHeader = js_or (js_or lower (member headers ''Authorization'')) (JStr [])
         in bnd (lift (str_method ''authHeader'' ''startsWith'' JStr authHeader)) (\<lambda>auth.
            bnd (lift (str_method ''path'' ''replace'' (\<lambda>s. JArr (map JStr (path_parts s))) path)) (\<lambda>parts.
            let steps = sim_steps meth (to_str auth) (map to_str (elems parts)) subject
            in respond (JObj [(''trace_id'', JStr (''sim_'' @ concat (map hex_byte bytes))),
                 (''request'', JObj [(''method'', meth), (''path'', path), (''headers'', headers), (''subject'', subject)]),
                 (''steps'', JArr steps),
                 (''outcome'', JObj [(''allowed'', JBool True), (''status_code'', jint 200),
                   (''final_decision'', JStr ''Forwarded to Upstream (HTTP 200 OK)''),
                   (''latency_total_ms'', JNum (num_scale (1 / 10) (num_round (num_scale 10 (total_latency steps)))))])]) 200)))))))
     (catch_with 400 ''Simulation failed'')"

section \<open>app/api/explorer/subject\<close>

definition subject_identity :: "string \<Rightarrow> jsval option \<Rightarrow> jsval" where
  "subject_identity cleanId answer = (case answer of
     Some v \<Rightarrow> JObj [(''id'', js_or (member v ''id'') (JStr cleanId)), (''state'', js_or (member v ''state'') (JStr ''active'')),
       (''traits'', js_or (member v ''traits'') (JObj [])), (''created_at'', member v ''created_at''),
       (''schema_id'', member v ''schema_id'')]
   | None \<Rightarrow> JObj [(''id'', JStr cleanId), (''state'', JStr ''active''),
       (''traits'', JObj [(''email'', JStr (cleanId @ ''@autorix.io'')), (''name'', JStr cleanId)])])"

definition subject_session :: "string \<Rightarrow> jsval \<Rightarrow> jsval res" where
  "subject_session cleanId s = map_sum id (\<lambda>i. JObj [
     (''id'', JStr (to_str i)), (''identity_id'', text_or s ''identity_id'' cleanId),
     (''active'', js_bool (js_coalesce (member s ''active'') (JBool True))),
     (''ip_address'', js_coalesce (str_field s ''ip_address'') (JStr ''127.0.0.1'')),
     (''user_agent'', js_coalesce (str_field s ''user_agent'') (JStr ''Browser / API Client'')),
     (''created_at'', str_field s ''created_at''), (''expires_at'', str_field s ''expires_at'')]) (get_prop s ''id'')"

definition of_subject :: "string \<Rightarrow> jsval \<Rightarrow> bool res" where
  "of_subject cleanId t = map_sum id (\<lambda>i.
     let subId = to_str (js_or (js_or i (member t ''subject'')) (JStr []))
     in subId = cleanId \<or> subId = ''user:'' @ cleanId \<or> str_includes subId cleanId) (get_prop t ''subject_id'')"

definition subject_relation :: "string \<Rightarrow> jsval \<Rightarrow> jsval" where
  "subject_relation cleanId t = JObj [(''namespace'', text_of t ''namespace''), (''object'', text_of t ''object''),
     (''relation'', text_of t ''relation''),
     (''subject'', JStr (to_str (text_or t ''subject_namespace'' ''user'') @ '':'' @ to_str (text_or t ''subject_id'' cleanId))),
     (''caveat'', str_field t ''caveat_name'')]"

definition owned_key :: "string \<Rightarrow> jsval \<Rightarrow> bool res" where
  "owned_key cleanId k = map_sum id (\<lambda>owner. owner = JStr cleanId \<or> owner = JStr ''system'' \<or> \<not> truthy owner)
     (get_prop k ''owner_id'')"

definition subject_key :: "jsval \<Rightarrow> jsval" where
  "subject_key k = JObj [(''id'', text_of k ''id''), (''name'', text_of k ''name''),
     (''prefix'', JStr (to_str (text_or k ''key_prefix'' ''av_live_'') @ to_str (text_or k ''key_hint'' ''****''))),
     (''scopes'', if is_arr (member k ''scopes'') then member k ''scopes'' else JArr []),
     (''call_count'', if is_num (member k ''call_count'') then member k ''call_count'' else jint 0),
     (''last_used_at'', str_field k ''last_used_at'')]"

text \<open>\<open>emails?.[0]?.value\<close>\<close>

definition first_email :: "jsval \<Rightarrow> jsval" where
  "first_email u = opt_prop (opt_prop (member u ''emails'') ''0'') ''value''"

definition linked_user :: "string \<Rightarrow> jsval \<Rightarrow> bool res" where
  "linked_user cleanId u = (case get_prop u ''userName'' of
     Inl e \<Rightarrow> Inl e
   | Inr name \<Rightarrow>
     if name = JStr cleanId \<or> member u ''externalId'' = JStr cleanId then Inr True
     else if nullish (first_email u) then Inr False
     else map_sum id truthy (str_method ''emails?.[0]?.value'' ''startsWith'' (\<lambda>s. JBool (starts_with s cleanId)) (first_email u)))"

definition linkage :: "jsval \<Rightarrow> jsval" where
  "linkage u = JObj [(''provider_id'', JStr ''hermes-scim-v2''),
     (''external_id'', JStr (to_str (js_or (member u ''externalId'') (member u ''id'')))), (''email'', first_email u),
     (''active'', js_bool (js_coalesce (member u ''active'') (JBool True))),
     (''last_sync_at'', opt_prop (member u ''meta'') ''lastModified'')]"

definition subject_part :: "jsval option \<Rightarrow> jsval \<Rightarrow> (jsval \<Rightarrow> jsval res) \<Rightarrow> jsval res" where
  "subject_part answer d f = (case answer of None \<Rightarrow> Inr d | Some v \<Rightarrow> f v)"

definition relations_of :: "string \<Rightarrow> jsval \<Rightarrow> jsval res" where
  "relations_of cleanId v = (case answer_list ''rawTuples'' ''filter'' v of Inl e \<Rightarrow> Inl e
   | Inr ts \<Rightarrow> map_sum id (\<lambda>xs. JArr (map (subject_relation cleanId) xs)) (filter_res (of_subject cleanId) ts))"

definition keys_of :: "string \<Rightarrow> jsval \<Rightarrow> jsval res" where
  "keys_of cleanId v = (case answer_list ''rawKeys'' ''filter'' v of Inl e \<Rightarrow> Inl e
   | Inr ks \<Rightarrow> map_sum id (\<lambda>xs. JArr (map subject_key xs)) (filter_res (owned_key cleanId) ks))"

definition sessions_of :: "string \<Rightarrow> jsval \<Rightarrow> jsval res" where
  "sessions_of cleanId v = (case answer_list ''list'' ''map'' v of Inl e \<Rightarrow> Inl e
   | Inr ss \<Rightarrow> map_sum id JArr (map_res (subject_session cleanId) ss))"

definition linkage_of :: "string \<Rightarrow> jsval \<Rightarrow> jsval res" where
  "linkage_of cleanId v = (case as_array ''users'' ''find'' (js_or (member v ''Resources'') (JArr [])) of
     Inl e \<Rightarrow> Inl e
   | Inr us \<Rightarrow> map_sum id (\<lambda>u. case u of None \<Rightarrow> JUndef | Some x \<Rightarrow> linkage x) (find_res (linked_user cleanId) us))"

definition clean_subject :: "string \<Rightarrow> string res" where
  "clean_subject i = (case decode_uri_component i of Some s \<Rightarrow> Inr (strip_user s)
     | None \<Rightarrow> Inl (Error ''URIError'' ''URI malformed''))"

definition subject_GET :: "string \<Rightarrow> ('w, response) act" where
  "subject_GET i =
     bnd (lift (clean_subject i)) (\<lambda>cleanId.
     bnd (ask_engine ''ego'' (''/identities/'' @ cleanId)) (\<lambda>egoRes.
     bnd (ask_engine ''ego'' (''/identities/'' @ cleanId @ ''/sessions'')) (\<lambda>sessionsRes.
     bnd (ask_engine ''nexus'' ''/tuples?limit=100'') (\<lambda>nexusRes.
     bnd (ask_engine ''vulcan'' ''/keys?limit=100'') (\<lambda>vulcanRes.
     bnd (ask_engine ''hermes'' ''/scim/v2/Users'') (\<lambda>scimRes.
     bnd (lift (subject_part (answer_of sessionsRes) (JArr []) (sessions_of cleanId))) (\<lambda>sessions.
     bnd (lift (subject_part (answer_of nexusRes) (JArr []) (relations_of cleanId))) (\<lambda>relations.
     bnd (lift (subject_part (answer_of vulcanRes) (JArr []) (keys_of cleanId))) (\<lambda>apiKeys.
     bnd (lift (subject_part (answer_of scimRes) JUndef (linkage_of cleanId))) (\<lambda>enterprise.
     respond (JObj [(''id'', JStr cleanId), (''identity'', subject_identity cleanId (answer_of egoRes)),
       (''sessions'', sessions), (''relations'', relations), (''oauth_grants'', JArr []), (''api_keys'', apiKeys),
       (''enterprise_linkage'', enterprise)]) 200))))))))))"

section \<open>The explorer does not deny what it cannot check\<close>

lemma aegis_route_frame:
  fixes w :: "'w world_scheme"
  shows "\<exists>r n s. aegis_route regexp resource w = (Inr r, w\<lparr>w_uuids := n, w_sent := s\<rparr>)"
proof -
  obtain q n s where p: "proxyRequest ''aegis'' ''/admin/rules'' ZAny None w = (q, w\<lparr>w_uuids := n, w_sent := s\<rparr>)"
    using proxyRequest_frame [of "''aegis''" "''/admin/rules''" ZAny None w] by (metis prod.collapse)
  show ?thesis
    by (cases q) (auto simp: aegis_route_def Let_def try_catch_def bnd_def p resp_json_def ret_def throw_def lift_def
        split: sum.splits http_body.splits)
qed

lemma nexus_verdict_down:
  fixes w :: "'w world_scheme"
  assumes "w_upstream w = (\<lambda>_. Inl e)"
  shows "\<exists>w'. nexus_verdict payload path w = (Inr (True, JStr path), w') \<and> w_upstream w' = w_upstream w"
proof -
  have r: "required_permissions ''nexus'' (Some (po_json ''POST'' payload)) = []"
    by (rule required_json) (simp add: permission_domain_def)
  show ?thesis
    by (simp add: nexus_verdict_def try_catch_def bnd_def unguarded_down [OF _ r assms] engines_def rp_ok_def ret_def)
qed

lemma themis_verdict_down:
  fixes w :: "'w world_scheme"
  assumes "w_upstream w = (\<lambda>_. Inl e)"
  shows "\<exists>w'. themis_verdict payload w = (Inr (True, jint 1, JUndef), w')"
proof -
  have r: "required_permissions ''themis'' (Some (po_json ''POST'' payload)) = []"
    by (rule required_json) (simp add: permission_domain_def)
  show ?thesis
    by (simp add: themis_verdict_def try_catch_def bnd_def unguarded_down [OF _ r assms] engines_def rp_ok_def ret_def)
qed

lemma member_clean:
  "\<lbrakk>map_of kvs k = Some v; json_keeps v; distinct (map fst kvs)\<rbrakk> \<Longrightarrow> member (json_clean (JObj kvs)) k = json_clean v"
proof (induction kvs)
  case (Cons kv kvs)
  then show ?case
  proof (cases "fst kv = k")
    case False
    then show ?thesis using Cons by (cases kv) auto
  qed (cases kv, auto)
qed simp

lemma effective_access_down:
  fixes w :: "'w world_scheme"
  assumes down: "w_upstream w = (\<lambda>_. Inl e)"
  shows "\<exists>rp w'. effective_access regexp (JStr subject) (JStr resource) action ctx w = (Inr rp, w') \<and> rp_status rp = 200 \<and>
    (\<exists>v. rp_body rp = JsonBody v \<and> member v ''allowed'' = JBool True \<and>
       member v ''reason'' = JStr ''Access granted across all Zero-Trust evaluation engines.'')"
proof -
  obtain rn up n s where a: "aegis_route regexp (JStr resource) w = (Inr (rn, up), w\<lparr>w_uuids := n, w_sent := s\<rparr>)"
    using aegis_route_frame [of regexp "JStr resource" w] by auto
  let ?w1 = "w\<lparr>w_uuids := n, w_sent := s\<rparr>"
  have d1: "w_upstream ?w1 = (\<lambda>_. Inl e)" using down by simp
  note verdicts = nexus_verdict_down [OF d1]
  define parts where "parts = map to_str (map JStr (path_parts resource))"
  define rel where "rel = (if action = JStr ''GET'' then ''viewer'' else ''editor'')"
  define target where "target = part_or 0 ''resource'' parts @ '':'' @ part_or 1 ''default'' parts"
  define np where "np = JObj [(''namespace'', JStr (part_or 0 ''resource'' parts)), (''object'', JStr (part_or 1 ''default'' parts)),
     (''relation'', JStr rel), (''subject'', JStr (strip_user subject)), (''context'', ctx)]"
  define np' where "np' = subject @ '' -> '' @ rel @ '' -> '' @ target"
  obtain w2 where n: "nexus_verdict np np' ?w1 = (Inr (True, JStr np'), w2)" and u2: "w_upstream w2 = w_upstream ?w1"
    using verdicts [of np np'] by auto
  let ?w3 = "w2\<lparr>w_ticks := Suc (w_ticks w2)\<rparr>"
  have d3: "w_upstream ?w3 = (\<lambda>_. Inl e)" using d1 u2 by simp
  define tp where "tp = JObj [(''context'', obj_spread (JObj [(''subject'', JStr (strip_user subject)), (''resource'', JStr resource),
     (''action'', action), (''now'', JStr (iso_date (w_clock w2 (w_ticks w2))))]) ctx)]"
  obtain w4 where t: "themis_verdict tp ?w3 = (Inr (True, jint 1, JUndef), w4)"
    using themis_verdict_down [OF d3] by blast
  have str: "str_method x m f (JStr z) = Inr (f z)" for x m f z by (simp add: str_method_def)
  define out where "out = [(''subject'', JStr subject), (''resource'', JStr resource), (''action'', action),
          (''allowed'', JBool (True \<and> True)),
          (''reason'', JStr (access_reason True True rel target JUndef)),
          (''engine_breakdown'', JObj [
            (''aegis'', JObj [(''matched'', JBool True), (''rule_name'', JStr rn), (''upstream'', JStr up)]),
            (''nexus'', JObj [(''checked'', JBool True), (''namespace'', JStr (part_or 0 ''resource'' parts)),
               (''object'', JStr (part_or 1 ''default'' parts)), (''relation'', JStr rel), (''allowed'', JBool True), (''path'', JStr np')]),
            (''themis'', JObj [(''evaluated'', JBool True), (''policies_matched'', jint 1),
               (''allowed'', JBool True), (''failed_policy'', JUndef)])])]"
  have ra: "bnd (aegis_route regexp (JStr resource)) g w = g (rn, up) ?w1" for g :: "_ \<Rightarrow> ('w, response) act"
    by (rule run_bnd) (rule a)
  have rn: "bnd (nexus_verdict np (subject @ '' -> '' @ rel @ '' -> '' @ target)) g ?w1 = g (True, JStr np') w2"
    for g :: "_ \<Rightarrow> ('w, response) act" unfolding np'_def by (rule run_bnd) (rule n [unfolded np'_def])
  have rt: "bnd (themis_verdict tp) g ?w3 = g (True, jint 1, JUndef) w4" for g :: "_ \<Rightarrow> ('w, response) act"
    by (rule run_bnd) (rule t)
  have "effective_access regexp (JStr subject) (JStr resource) action ctx w = respond (JObj out) 200 w4"
    unfolding effective_access_def Let_def str run_bnd_lift sum.case ra prod.case elems.simps to_str.simps
    unfolding parts_def [symmetric] rel_def [symmetric]
    unfolding target_def [symmetric] np_def [symmetric]
    unfolding rn prod.case run_now_iso tp_def [symmetric] rt out_def ..
  moreover have "member (json_clean (JObj out)) ''allowed'' = json_clean (JBool True)"
    "member (json_clean (JObj out)) ''reason'' = json_clean (JStr (access_reason True True rel target JUndef))"
    by (rule member_clean; simp add: out_def)+
  ultimately show ?thesis by (simp add: run_respond next_json_obj access_reason_def)
qed

text \<open>
  The effective-access explorer fails open: while no engine can be reached, a request about any subject and
  resource is answered 200 with access allowed, and the reason claims that all engines granted it.
\<close>

theorem effective_access_fails_open:
  fixes w :: "'w world_scheme"
  assumes "w_upstream w = (\<lambda>_. Inl e)" "parse_text w (req_text req) = Inr b" "\<not> nullish b"
    and "member b ''subject'' = JStr subject" "member b ''resource'' = JStr resource"
  shows "\<exists>rp w'. effective_access_POST regexp req w = (Inr rp, w') \<and> rp_status rp = 200 \<and>
    (\<exists>v. rp_body rp = JsonBody v \<and> member v ''allowed'' = JBool True \<and>
       member v ''reason'' = JStr ''Access granted across all Zero-Trust evaluation engines.'')"
proof -
  let ?act = "js_default (member b ''action'') (JStr ''GET'')" and ?ctx = "js_default (member b ''context'') (JObj [])"
  have "effective_access_POST regexp req w = try_catch (effective_access regexp (JStr subject) (JStr resource) ?act ?ctx)
      (catch_with 400 ''Effective access calculation failed'') w"
    using assms(2-5) by (simp add: effective_access_POST_def try_catch_def run destructure_def js_default_def)
  then show ?thesis
    using effective_access_down [OF assms(1), of regexp subject resource ?act ?ctx] by (auto simp: try_catch_def)
qed

theorem effective_access_fails_open_witness:
  "\<exists>rp w'. effective_access_POST (\<lambda>_ _. Inr False) (json_request ''{\"subject\":\"user:eve\",\"resource\":\"/vault\"}'')
      (example_world [] (\<lambda>_. Inl (type_error ''fetch failed''))) = (Inr rp, w') \<and> rp_status rp = 200 \<and>
    (\<exists>v. rp_body rp = JsonBody v \<and> member v ''allowed'' = JBool True \<and>
       member v ''reason'' = JStr ''Access granted across all Zero-Trust evaluation engines.'')"
proof -
  have j: "json_parse ''{\"subject\":\"user:eve\",\"resource\":\"/vault\"}'' =
      Some (JObj [(''subject'', JStr ''user:eve''), (''resource'', JStr ''/vault'')])" by code_simp
  show ?thesis
    by (rule effective_access_fails_open [OF _ _ _ _ _, where b = "JObj [(''subject'', JStr ''user:eve''), (''resource'', JStr ''/vault'')]"])
      (simp_all add: parse_text_Inr [OF j])
qed

text \<open>
  The request simulation simulates nothing: whatever the request, no engine is asked, and the answer is
  either an error of the request (400) or a trace that ends allowed.
\<close>

theorem simulate_always_allows:
  "case simulate_POST req w of (r, w') \<Rightarrow> w_sent w' = w_sent w \<and>
     (\<exists>rp v. r = Inr rp \<and> rp_body rp = JsonBody v \<and>
        (rp_status rp = 400 \<or> rp_status rp = 200 \<and> member (member v ''outcome'') ''allowed'' = JBool True))"
proof -
  have refused: "catch_with 400 fb e u = (Inr \<lparr>rp_status = 400, rp_headers = [], rp_body = JsonBody (err_obj (err_message e fb)),
      rp_cookies = []\<rparr>, u)" for fb e and u :: "'a world_scheme"
    by (simp add: catch_with_def fail_with_def run_respond next_json_def mk_response_def err_obj_def)
  have allowed: "member (member (json_clean (JObj [(''trace_id'', t), (''request'', q), (''steps'', s),
      (''outcome'', JObj ((''allowed'', JBool True) # kvs))])) ''outcome'') ''allowed'' = JBool True" for t q s kvs
    by (subst member_clean [where v = "JObj ((''allowed'', JBool True) # kvs)"]) simp_all
  show ?thesis
    by (simp add: simulate_POST_def try_catch_def run run_respond Let_def refused next_json_obj allowed split: sum.split
        del: json_clean.simps member.simps)
qed

text \<open>
  The relations on a subject's page are chosen by containment: a tuple of any subject whose identifier contains
  the one asked for is listed, so the page of \<open>bob\<close> shows the relations of \<open>bobby\<close>.
\<close>

lemma subject_relations_overmatch:
  "of_subject c (JObj ((''subject_id'', JStr (a @ c @ b)) # kvs)) = Inr True"
  by (cases "a @ c @ b = []") (auto simp: of_subject_def js_or_def Let_def str_includes_sublist)

end
