(* ===== verification/Sdk.thy ===== *)
theory Sdk
  imports JsCalls
begin

text \<open>
  The runtime client, sdk/typescript/src/client.ts: construction with defaults, requests with time-outs,
  retries and back-off, the decision cache, and the calls built on them. A failed request is a value
  \<open>Inl e\<close> of its result; an exception outside \<open>request\<close> is one of the action.

  Parameters: the injected transport (the network of the world), \<open>new URL(path, base)\<close> (\<open>s_resolve\<close>), the random
  numbers of the back-off, and whether the attempt was aborted (\<open>s_aborted\<close>, by the number of requests
  sent: the attempt's own controller, the caller's signal). Credentials mode and signals are not part of
  the request that is logged. Numbers of the configuration are exact; \<open>maxRetries\<close> is an integer.
\<close>

section \<open>Configuration\<close>

record sdk_options =
  o_baseUrl :: "string option"
  o_egoUrl :: "string option"
  o_nexusUrl :: "string option"
  o_themisUrl :: "string option"
  o_janusUrl :: "string option"
  o_vulcanUrl :: "string option"
  o_argusUrl :: "string option"
  o_apiKey :: "string option"
  o_enableCache :: "bool option"
  o_cacheTtlMs :: "int option"
  o_timeoutMs :: "int option"
  o_maxRetries :: "int option"
  o_initialDelayMs :: "rat option"
  o_maxDelayMs :: "rat option"
  o_backoffFactor :: "rat option"

record sdk_config =
  cf_baseUrl :: string
  cf_egoUrl :: string
  cf_nexusUrl :: string
  cf_themisUrl :: string
  cf_janusUrl :: string
  cf_vulcanUrl :: string
  cf_argusUrl :: string
  cf_apiKey :: "string option"
  cf_enableCache :: bool
  cf_cacheTtlMs :: int
  cf_timeoutMs :: int
  cf_maxRetries :: int
  cf_initialDelayMs :: rat
  cf_maxDelayMs :: rat
  cf_backoffFactor :: rat

definition or_else :: "'a option \<Rightarrow> 'a \<Rightarrow> 'a" where
  "or_else x d = (case x of Some v \<Rightarrow> v | None \<Rightarrow> d)"

definition new_config :: "sdk_options \<Rightarrow> sdk_config" where
  "new_config c = \<lparr>
     cf_baseUrl = or_else (o_baseUrl c) ''http://localhost:4455'', cf_egoUrl = or_else (o_egoUrl c) ''http://localhost:4433'',
     cf_nexusUrl = or_else (o_nexusUrl c) ''http://localhost:8080'', cf_themisUrl = or_else (o_themisUrl c) ''http://localhost:4488'',
     cf_janusUrl = or_else (o_janusUrl c) ''http://localhost:4444'', cf_vulcanUrl = or_else (o_vulcanUrl c) ''http://localhost:4466'',
     cf_argusUrl = or_else (o_argusUrl c) ''http://localhost:4400'', cf_apiKey = o_apiKey c,
     cf_enableCache = or_else (o_enableCache c) True, cf_cacheTtlMs = or_else (o_cacheTtlMs c) 10000,
     cf_timeoutMs = or_else (o_timeoutMs c) 10000, cf_maxRetries = or_else (o_maxRetries c) 3,
     cf_initialDelayMs = or_else (o_initialDelayMs c) 50, cf_maxDelayMs = or_else (o_maxDelayMs c) 2000,
     cf_backoffFactor = or_else (o_backoffFactor c) 2\<rparr>"

section \<open>Errors and state\<close>

datatype sdk_error =
    ApiError int string jsval
  | TimeoutError int
  | Failed exn

text \<open>\<open>error instanceof Error ? error.message : fallback\<close>\<close>

fun sdk_message :: "sdk_error \<Rightarrow> string \<Rightarrow> string" where
  "sdk_message (ApiError st msg body) fallback = msg"
| "sdk_message (TimeoutError ms) fallback = ''Autorix request timed out after '' @ show_int ms @ ''ms''"
| "sdk_message (Failed e) fallback = err_message e fallback"

definition api_code :: "jsval \<Rightarrow> jsval" where
  "api_code body = (if is_object body \<and> body \<noteq> JNull \<and> is_str (member body ''code'') then member body ''code'' else JUndef)"

record sworld = world +
  s_cfg :: sdk_config
  s_cache :: "(string \<times> jsval \<times> int) list"
  s_aborted :: "nat \<Rightarrow> bool \<times> bool"
  s_random :: "nat \<Rightarrow> rat"
  s_drawn :: nat
  s_slept :: "rat list"
  s_resolve :: "string \<Rightarrow> string \<Rightarrow> string option"

type_synonym ('w, 'a) sact = "('w sworld_scheme, 'a) js"
type_synonym answer = "sdk_error + jsval"

section \<open>Requests\<close>

record sdk_init =
  si_method :: "string option"
  si_headers :: "(string \<times> string) list"
  si_body :: http_body
  si_retry :: "bool option"

type_synonym query = "(string \<times> jsval) list"

definition sdk_url :: "'w sworld_scheme \<Rightarrow> string \<Rightarrow> string \<Rightarrow> query \<Rightarrow> string res" where
  "sdk_url w base path query =
     (case s_resolve w path (if base \<noteq> [] \<and> last base = CHR ''/'' then base else base @ ''/'') of
        None \<Rightarrow> Inl (type_error ''Invalid URL'')
      | Some u \<Rightarrow> Inr (add_qs u (fold (\<lambda>(k, v) ps. if v = JUndef then ps else params_set k (to_str v) ps) query [])))"

definition sdk_method :: "sdk_init \<Rightarrow> string" where
  "sdk_method init = to_upper (or_else (si_method init) ''GET'')"

definition sdk_retry :: "sdk_init \<Rightarrow> bool" where
  "sdk_retry init = or_else (si_retry init) (sdk_method init \<in> {''GET'', ''HEAD'', ''OPTIONS''})"

definition sdk_headers :: "sdk_config \<Rightarrow> sdk_init \<Rightarrow> (string \<times> string) list" where
  "sdk_headers c init =
     (let hs = al_set ''x-autorix-sdk'' ''typescript/1.0.0'' (headers_of [] (si_headers init))
      in case cf_apiKey c of
           Some k \<Rightarrow> if k \<noteq> [] \<and> \<not> al_has ''authorization'' hs then al_set ''authorization'' (''Bearer '' @ k) hs else hs
         | None \<Rightarrow> hs)"

definition sdk_outgoing :: "sdk_config \<Rightarrow> string \<Rightarrow> sdk_init \<Rightarrow> http_request" where
  "sdk_outgoing c target init = \<lparr>rq_method = sdk_method init, rq_url = target, rq_headers = sdk_headers c init,
     rq_body = si_body init\<rparr>"

definition transient :: "int list" where
  "transient = [429, 500, 502, 503, 504]"

definition api_error :: "int \<Rightarrow> jsval \<Rightarrow> sdk_error" where
  "api_error status body = ApiError status
     (if is_object body \<and> body \<noteq> JNull \<and> is_str (member body ''error'') then to_str (member body ''error'')
      else ''Autorix returned status '' @ show_int status) body"

text \<open>What one pass of the loop does: return, throw, or go on after the delay with the new \<open>lastError\<close>.\<close>

datatype step = Return jsval | Throw sdk_error | Retry "sdk_error option"

text \<open>The \<open>catch\<close> block; \<open>again\<close>: \<open>attempt\<close> is not yet \<open>maxRetries\<close>.\<close>

definition caught :: "bool \<Rightarrow> bool \<Rightarrow> sdk_error \<Rightarrow> ('w, step) sact" where
  "caught retry again err = asks (\<lambda>w.
     let (own, callers) = s_aborted w (length (w_sent w));
         lastError = (if own \<and> \<not> callers then TimeoutError (cf_timeoutMs (s_cfg w)) else err)
     in if \<not> retry \<or> \<not> again \<or> (case err of ApiError _ _ _ \<Rightarrow> True | _ \<Rightarrow> False) then Throw lastError
        else Retry (Some lastError))"

definition one_attempt :: "http_request \<Rightarrow> bool \<Rightarrow> bool \<Rightarrow> sdk_error option \<Rightarrow> ('w, step) sact" where
  "one_attempt rq retry again lastError =
     bnd (settle (fetch rq)) (\<lambda>outcome.
     case outcome of
       Inl e \<Rightarrow> caught retry again (Failed e)
     | Inr response \<Rightarrow>
         if rs_ok response then
           if rs_status response = 204 then ret (Return JUndef)
           else bnd (settle (response_json response)) (\<lambda>r.
             case r of Inl e \<Rightarrow> caught retry again (Failed e) | Inr v \<Rightarrow> ret (Return v))
         else if retry \<and> rs_status response \<in> set transient \<and> again then ret (Retry lastError)
         else bnd (try_catch (response_json response) (\<lambda>_. ret JUndef)) (\<lambda>body.
           caught retry again (api_error (rs_status response) body)))"

definition backoff_bound :: "sdk_config \<Rightarrow> nat \<Rightarrow> rat" where
  "backoff_bound c attempt = min (cf_initialDelayMs c * cf_backoffFactor c ^ attempt) (cf_maxDelayMs c)"

definition backoff :: "nat \<Rightarrow> ('w, unit) sact" where
  "backoff attempt = modify (\<lambda>w. w\<lparr>s_slept := s_slept w @ [s_random w (s_drawn w) * backoff_bound (s_cfg w) attempt],
     s_drawn := Suc (s_drawn w)\<rparr>)"

text \<open>The loop; its first argument counts the attempts left, \<open>maxRetries - attempt + 1\<close>.\<close>

fun attempts :: "nat \<Rightarrow> http_request \<Rightarrow> bool \<Rightarrow> nat \<Rightarrow> sdk_error option \<Rightarrow> ('w, answer) sact" where
  "attempts 0 rq retry attempt lastError = ret (Inl (or_else lastError (Failed (Error ''Error'' ''Autorix request failed''))))"
| "attempts (Suc n) rq retry attempt lastError =
     bnd (one_attempt rq retry (n \<noteq> 0) lastError) (\<lambda>s.
     case s of
       Return v \<Rightarrow> ret (Inr v)
     | Throw e \<Rightarrow> ret (Inl e)
     | Retry lastError' \<Rightarrow> bnd (backoff attempt) (\<lambda>_. attempts n rq retry (Suc attempt) lastError'))"

definition sdk_request :: "(sdk_config \<Rightarrow> string) \<Rightarrow> string \<Rightarrow> sdk_init \<Rightarrow> query \<Rightarrow> ('w, answer) sact" where
  "sdk_request base path init query =
     bnd (asks s_cfg) (\<lambda>c.
     bnd (asks (\<lambda>w. sdk_url w (base c) path query)) (\<lambda>target.
     case target of
       Inl e \<Rightarrow> ret (Inl (Failed e))
     | Inr t \<Rightarrow> attempts (nat (cf_maxRetries c + 1)) (sdk_outgoing c t init) (sdk_retry init) 0 None))"

section \<open>Shapes of calls\<close>

definition get_init :: sdk_init where
  "get_init = \<lparr>si_method = None, si_headers = [], si_body = NoBody, si_retry = None\<rparr>"

definition json_init :: "string \<Rightarrow> jsval \<Rightarrow> sdk_init" where
  "json_init m v = \<lparr>si_method = Some m, si_headers = json_type, si_body = json_body v, si_retry = None\<rparr>"

definition delete_init :: sdk_init where
  "delete_init = get_init\<lparr>si_method := Some ''DELETE''\<rparr>"

definition form_init :: "params \<Rightarrow> sdk_init" where
  "form_init ps = \<lparr>si_method = Some ''POST'', si_headers = [(''Content-Type'', ''application/x-www-form-urlencoded'')],
     si_body = TextBody (params_string ps), si_retry = None\<rparr>"

section \<open>One pass of the loop\<close>

text \<open>What the client leaves alone while it sends requests.\<close>

definition same_client :: "'w sworld_scheme \<Rightarrow> 'w sworld_scheme \<Rightarrow> bool" where
  "same_client w w' \<longleftrightarrow> s_cfg w' = s_cfg w \<and> s_cache w' = s_cache w \<and> s_resolve w' = s_resolve w \<and> s_random w' = s_random w \<and>
     w_upstream w' = w_upstream w \<and> w_syntax w' = w_syntax w \<and> w_clock w' = w_clock w \<and> w_ticks w' = w_ticks w"

lemma same_client_refl [simp]: "same_client w w"
  by (simp add: same_client_def)

lemma same_client_trans [trans]: "same_client w w' \<Longrightarrow> same_client w' w'' \<Longrightarrow> same_client w w''"
  by (simp add: same_client_def)

lemma same_client_log [simp]: "same_client w (log_request rq w)"
  by (simp add: same_client_def log_request_def)

lemma same_client_parse: "same_client w w' \<Longrightarrow> parse_text w' t = parse_text w t"
  by (simp add: same_client_def parse_text_def json_parse_js_def split: sum.split option.split)

text \<open>The answer that makes a request succeed with the value \<open>v\<close>.\<close>

definition success :: "'w sworld_scheme \<Rightarrow> exn + http_response \<Rightarrow> jsval \<Rightarrow> bool" where
  "success w outcome v = (case outcome of Inl _ \<Rightarrow> False
     | Inr res \<Rightarrow> rs_ok res \<and> (if rs_status res = 204 then v = JUndef else parse_text w (rs_text res) = Inr v))"

text \<open>An outcome after which an idempotent request is tried again.\<close>

definition passing :: "exn + http_response \<Rightarrow> bool" where
  "passing outcome = (case outcome of Inl _ \<Rightarrow> True | Inr res \<Rightarrow> rs_status res \<in> set transient)"

lemma success_cong: "same_client w w' \<Longrightarrow> success w' = success w"
  by (auto simp: success_def fun_eq_iff same_client_parse split: sum.split)

lemma caught_run: "\<exists>s. caught retry again err w = (Inr s, w) \<and> (\<forall>v. s \<noteq> Return v) \<and> (\<forall>le. s = Retry le \<longrightarrow> retry \<and> again)"
  by (auto simp: caught_def asks_def Let_def split: prod.split)

lemma settle_json: "bnd (settle (response_json r)) g w = g (parse_text w (rs_text r)) w"
  by (rule run_settle) (simp add: response_json_def parse_text_def)

lemma try_json: "bnd (try_catch (response_json r) (\<lambda>_. ret d)) g w =
    g (case parse_text w (rs_text r) of Inr v \<Rightarrow> v | Inl _ \<Rightarrow> d) w"
  by (simp add: bnd_def try_catch_def response_json_def parse_text_def ret_def split: sum.split)

lemma one_attempt_run:
  "\<exists>s. one_attempt rq retry again lastError w = (Inr s, log_request rq w) \<and>
     (\<forall>v. s = Return v \<longrightarrow> success w (w_upstream w (w_sent w @ [rq])) v) \<and>
     (\<forall>le. s = Retry le \<longrightarrow> retry \<and> again)"
proof (cases "w_upstream w (w_sent w @ [rq])")
  case (Inl e)
  then show ?thesis using caught_run [of retry again "Failed e" "log_request rq w"]
    by (auto simp: one_attempt_def run_settle_fetch)
next
  case (Inr res)
  then show ?thesis
    using caught_run [of retry again _ "log_request rq w"]
    by (auto simp: one_attempt_def run_settle_fetch settle_json try_json success_def run_ret split: sum.split)
qed

section \<open>The loop\<close>

lemma backoff_run:
  "\<exists>w'. backoff attempt w = (Inr (), w') \<and> same_client w w' \<and> w_sent w' = w_sent w \<and>
     s_slept w' = s_slept w @ [s_random w (s_drawn w) * backoff_bound (s_cfg w) attempt]"
  by (simp add: backoff_def modify_def same_client_def)

definition delay_ok :: "'w sworld_scheme \<Rightarrow> rat \<Rightarrow> bool" where
  "delay_ok w d \<longleftrightarrow> (\<exists>n k. d = s_random w n * backoff_bound (s_cfg w) k)"

text \<open>
  The loop ends with a result; it has sent the same request \<open>k\<close> times and slept between the sendings. A
  result that is no error is the body of the last answer.
\<close>

lemma attempts_run:
  "\<exists>r w' k ds. attempts n rq retry attempt lastError w = (Inr r, w') \<and> same_client w w' \<and>
     w_sent w' = w_sent w @ replicate k rq \<and> s_slept w' = s_slept w @ ds \<and> list_all (delay_ok w) ds \<and>
     k \<le> n \<and> (n \<noteq> 0 \<longrightarrow> k \<noteq> 0) \<and> length ds \<le> k - 1 \<and> (\<not> retry \<longrightarrow> k \<le> 1) \<and>
     (\<forall>v. r = Inr v \<longrightarrow> k \<noteq> 0 \<and> success w (w_upstream w (w_sent w')) v)"
proof (induction n arbitrary: attempt lastError w)
  case 0
  then show ?case by (auto simp: ret_def intro!: exI [of _ 0] exI [of _ "[]"])
next
  case (Suc n)
  obtain s where one: "one_attempt rq retry (0 < n) lastError w = (Inr s, log_request rq w)"
    and ok: "\<And>v. s = Return v \<Longrightarrow> success w (w_upstream w (w_sent w @ [rq])) v"
    and again: "\<And>le. s = Retry le \<Longrightarrow> retry \<and> 0 < n"
    using one_attempt_run [of rq retry "0 < n" lastError w] by auto
  have slept: "s_slept (log_request rq w) = s_slept w" by (simp add: log_request_def)
  show ?case
  proof (cases "\<exists>le. s = Retry le")
    case False
    obtain r where "attempts (Suc n) rq retry attempt lastError w = (Inr r, log_request rq w) \<and> (\<forall>v. r = Inr v \<longrightarrow> s = Return v)"
      using False by (cases s) (simp_all add: bnd_def one ret_def)
    then show ?thesis using ok slept
      by (intro exI [of _ r] exI [of _ "log_request rq w"] exI [of _ 1] exI [of _ "[]"]) auto
  next
    case True
    then obtain le where s: "s = Retry le" by blast
    obtain w1 where b: "backoff attempt (log_request rq w) = (Inr (), w1)" "same_client (log_request rq w) w1"
      "w_sent w1 = w_sent w @ [rq]"
      "s_slept w1 = s_slept w @ [s_random (log_request rq w) (s_drawn (log_request rq w)) * backoff_bound (s_cfg (log_request rq w)) attempt]"
      using backoff_run [of attempt "log_request rq w"] slept by auto
    have c: "same_client w w1" using same_client_trans [OF same_client_log b(2)] .
    obtain r w' k ds where ih: "attempts n rq retry (Suc attempt) le w1 = (Inr r, w')" "same_client w1 w'"
      "w_sent w' = w_sent w1 @ replicate k rq" "s_slept w' = s_slept w1 @ ds" "list_all (delay_ok w1) ds"
      "k \<le> n" "n \<noteq> 0 \<longrightarrow> k \<noteq> 0" "length ds \<le> k - 1" "\<forall>v. r = Inr v \<longrightarrow> k \<noteq> 0 \<and> success w1 (w_upstream w1 (w_sent w')) v"
      using Suc.IH [of "Suc attempt" le w1] by blast
    let ?d = "s_random (log_request rq w) (s_drawn (log_request rq w)) * backoff_bound (s_cfg (log_request rq w)) attempt"
    have d: "delay_ok w ?d" "delay_ok w1 = delay_ok w"
      using c by (auto simp: delay_ok_def log_request_def same_client_def fun_eq_iff)
    have "attempts (Suc n) rq retry attempt lastError w = (Inr r, w')"
      by (simp add: bnd_def one s b(1) ih(1))
    then show ?thesis
      using ih b c d s again [OF s] success_cong [OF c] same_client_trans [OF c ih(2)]
      by (intro exI [of _ r] exI [of _ w'] exI [of _ "Suc k"] exI [of _ "?d # ds"]) (auto simp: same_client_def)
  qed
qed

section \<open>Requests\<close>

lemma request_run:
  "\<exists>r w' k ds rq. sdk_request base path init q w = (Inr r, w') \<and> same_client w w' \<and>
     w_sent w' = w_sent w @ replicate k rq \<and> rq_method rq = sdk_method init \<and>
     s_slept w' = s_slept w @ ds \<and> list_all (delay_ok w) ds \<and>
     k \<le> nat (cf_maxRetries (s_cfg w) + 1) \<and> (\<not> sdk_retry init \<longrightarrow> k \<le> 1) \<and> length ds \<le> k - 1 \<and>
     (\<forall>v. r = Inr v \<longrightarrow> k \<noteq> 0 \<and> success w (w_upstream w (w_sent w')) v)"
proof (cases "sdk_url w (base (s_cfg w)) path q")
  case (Inl e)
  have "sdk_request base path init q w = (Inr (Inl (Failed e)), w)"
    by (simp add: sdk_request_def run_asks Inl ret_def)
  then show ?thesis
    by (intro exI [of _ "Inl (Failed e)"] exI [of _ w] exI [of _ 0] exI [of _ "[]"]
        exI [of _ "sdk_outgoing (s_cfg w) [] init"]) (simp add: sdk_outgoing_def)
next
  case (Inr t)
  let ?rq = "sdk_outgoing (s_cfg w) t init"
  have "sdk_request base path init q w = attempts (nat (cf_maxRetries (s_cfg w) + 1)) ?rq (sdk_retry init) 0 None w"
    by (simp add: sdk_request_def run_asks Inr)
  moreover have "rq_method ?rq = sdk_method init" by (simp add: sdk_outgoing_def)
  ultimately show ?thesis
    using attempts_run [of "nat (cf_maxRetries (s_cfg w) + 1)" ?rq "sdk_retry init" 0 None w] by metis
qed

text \<open>
  C19. Every request of the client ends, whatever the network does, with a value or an error, and no request is repeated unless that is harmless or
  asked for: a request by \<open>GET\<close>, \<open>HEAD\<close> or \<open>OPTIONS\<close> (also the default method) is sent at most \<open>maxRetries + 1\<close> times, one by any other method at most
  once, unless its caller set \<open>retry\<close>, which decides for every method. All sendings are the same request; a value
  is that of a successful answer to the last of them, and the cache is as it was.
\<close>

theorem request_terminates:
  "let m = (case si_method init of None \<Rightarrow> ''GET'' | Some x \<Rightarrow> to_upper x)
   in \<exists>r w' k rq. sdk_request base path init q w = (Inr r, w') \<and> w_sent w' = w_sent w @ replicate k rq \<and>
     rq_method rq = m \<and> s_cache w' = s_cache w \<and>
     (\<forall>v. r = Inr v \<longrightarrow> k \<noteq> 0 \<and> success w (w_upstream w (w_sent w')) v) \<and>
     (case si_retry init of
        Some True \<Rightarrow> k \<le> nat (cf_maxRetries (s_cfg w) + 1)
      | Some False \<Rightarrow> k \<le> 1
      | None \<Rightarrow> k \<le> (if m = ''GET'' \<or> m = ''HEAD'' \<or> m = ''OPTIONS'' then nat (cf_maxRetries (s_cfg w) + 1) else 1))"
proof -
  obtain r w' k ds rq where run: "sdk_request base path init q w = (Inr r, w')" "same_client w w'"
    "w_sent w' = w_sent w @ replicate k rq" "rq_method rq = sdk_method init"
    "k \<le> nat (cf_maxRetries (s_cfg w) + 1)" "\<not> sdk_retry init \<longrightarrow> k \<le> 1"
    "\<forall>v. r = Inr v \<longrightarrow> k \<noteq> 0 \<and> success w (w_upstream w (w_sent w')) v"
    using request_run [of base path init q w] by blast
  let ?m = "case si_method init of None \<Rightarrow> ''GET'' | Some x \<Rightarrow> to_upper x"
  have m: "sdk_method init = ?m"
    by (simp add: sdk_method_def or_else_def to_upper_def upper_char_def is_lower_def split: option.split)
  then have "sdk_retry init = (case si_retry init of Some b \<Rightarrow> b
      | None \<Rightarrow> ?m = ''GET'' \<or> ?m = ''HEAD'' \<or> ?m = ''OPTIONS'')"
    by (simp add: sdk_retry_def or_else_def split: option.split)
  with run m show ?thesis unfolding Let_def
    by (intro exI [of _ r] exI [of _ w'] exI [of _ k] exI [of _ rq]) (auto simp: same_client_def split: option.split bool.split)
qed

text \<open>What is documented of \<open>Math.random()\<close>.\<close>

definition unit_random :: "'w sworld_scheme \<Rightarrow> bool" where
  "unit_random w \<longleftrightarrow> (\<forall>n. 0 \<le> s_random w n \<and> s_random w n < 1)"

lemma delay_bounds:
  assumes "unit_random w" "0 \<le> cf_initialDelayMs (s_cfg w)" "0 \<le> cf_backoffFactor (s_cfg w)" "0 \<le> cf_maxDelayMs (s_cfg w)"
    and "delay_ok w d"
  shows "0 \<le> d \<and> d \<le> cf_maxDelayMs (s_cfg w)"
proof -
  obtain n k where d: "d = s_random w n * backoff_bound (s_cfg w) k" using assms(5) by (auto simp: delay_ok_def)
  have b: "0 \<le> backoff_bound (s_cfg w) k" "backoff_bound (s_cfg w) k \<le> cf_maxDelayMs (s_cfg w)"
    using assms(2-4) by (simp_all add: backoff_bound_def)
  have r: "0 \<le> s_random w n" "s_random w n \<le> 1" using assms(1) by (auto simp: unit_random_def less_imp_le)
  have "d \<le> 1 * backoff_bound (s_cfg w) k" unfolding d by (rule mult_right_mono [OF r(2) b(1)])
  then show ?thesis using d r b by simp
qed

text \<open>
  Back-off: between its sendings a request sleeps at most \<open>maxRetries\<close> times, never for a negative time and
  never longer than \<open>maxDelayMs\<close>, so the sleeping of a request is bounded by their product.
\<close>

theorem backoff_bounded:
  fixes w :: "'w sworld_scheme"
  assumes "unit_random w" "0 \<le> cf_initialDelayMs (s_cfg w)" "0 \<le> cf_backoffFactor (s_cfg w)" "0 \<le> cf_maxDelayMs (s_cfg w)"
    and "0 \<le> cf_maxRetries (s_cfg w)"
  shows "\<exists>ds. s_slept (snd (sdk_request base path init q w)) = s_slept w @ ds \<and> int (length ds) \<le> cf_maxRetries (s_cfg w) \<and>
    list_all (\<lambda>d. 0 \<le> d \<and> d \<le> cf_maxDelayMs (s_cfg w)) ds \<and>
    0 \<le> sum_list ds \<and> sum_list ds \<le> of_int (cf_maxRetries (s_cfg w)) * cf_maxDelayMs (s_cfg w)"
proof -
  obtain w' k ds where run: "snd (sdk_request base path init q w) = w'" "s_slept w' = s_slept w @ ds" "list_all (delay_ok w) ds"
    "k \<le> nat (cf_maxRetries (s_cfg w) + 1)" "length ds \<le> k - 1"
    using request_run [of base path init q w] by (metis snd_conv)
  have len: "int (length ds) \<le> cf_maxRetries (s_cfg w)" using run(4,5) assms(5) by linarith
  have each: "list_all (\<lambda>d. 0 \<le> d \<and> d \<le> cf_maxDelayMs (s_cfg w)) ds"
    using run(3) delay_bounds [OF assms(1-4)] by (auto simp: list_all_iff)
  then have "0 \<le> sum_list ds" "sum_list ds \<le> of_nat (length ds) * cf_maxDelayMs (s_cfg w)"
    by (induction ds) (auto simp: algebra_simps)
  moreover have "of_nat (length ds) * cf_maxDelayMs (s_cfg w) \<le> of_int (cf_maxRetries (s_cfg w)) * cf_maxDelayMs (s_cfg w)"
    using len assms(4) by (intro mult_right_mono) (metis of_int_le_iff of_int_of_nat_eq, simp)
  ultimately show ?thesis using run len each by (intro exI [of _ ds]) auto
qed

section \<open>Recovery\<close>

lemma one_attempt_passing:
  assumes "passing (w_upstream w (w_sent w @ [rq]))"
  shows "\<exists>le. one_attempt rq True True lastError w = (Inr (Retry le), log_request rq w)"
proof (cases "w_upstream w (w_sent w @ [rq])")
  case (Inl e)
  then show ?thesis
    by (cases "s_aborted w (Suc (length (w_sent w)))")
      (simp add: one_attempt_def run_settle_fetch caught_def asks_def Let_def log_request_def)
next
  case (Inr res)
  then have "rs_status res \<in> set transient" using assms by (simp add: passing_def)
  moreover from this have "\<not> rs_ok res" by (auto simp: transient_def rs_ok_def)
  ultimately show ?thesis by (simp add: one_attempt_def run_settle_fetch Inr run_ret)
qed

lemma one_attempt_success:
  assumes "success w (w_upstream w (w_sent w @ [rq])) v"
  shows "one_attempt rq retry again lastError w = (Inr (Return v), log_request rq w)"
  using assms by (auto simp: one_attempt_def run_settle_fetch success_def run_ret settle_json split: sum.splits if_splits)

lemma attempts_recover:
  assumes "j < n" "list_all (\<lambda>i. passing (w_upstream w (w_sent w @ replicate (Suc i) rq))) [0..<j]"
    and "success w (w_upstream w (w_sent w @ replicate (Suc j) rq)) v"
  shows "\<exists>w'. attempts n rq True attempt lastError w = (Inr (Inr v), w') \<and> w_sent w' = w_sent w @ replicate (Suc j) rq"
  using assms
proof (induction j arbitrary: n attempt lastError w)
  case 0
  then obtain m where n: "n = Suc m" by (cases n) auto
  have "one_attempt rq True (0 < m) lastError w = (Inr (Return v), log_request rq w)"
    using 0 by (intro one_attempt_success) simp
  then show ?case by (simp add: n bnd_def ret_def)
next
  case (Suc j)
  then obtain m where n: "n = Suc m" "j < m" by (cases n) auto
  have pass: "passing (w_upstream w (w_sent w @ rq # replicate i rq))" if "i \<le> j" for i
    using Suc.prems(2) that by (force simp: list_all_iff less_Suc_eq)
  then have "passing (w_upstream w (w_sent w @ [rq]))" using pass [of 0] by simp
  then obtain le where one: "one_attempt rq True (0 < m) lastError w = (Inr (Retry le), log_request rq w)"
    using one_attempt_passing [of w rq lastError] n(2) by auto
  obtain w1 where b: "backoff attempt (log_request rq w) = (Inr (), w1)" "same_client (log_request rq w) w1" "w_sent w1 = w_sent w @ [rq]"
    using backoff_run [of attempt "log_request rq w"] by auto
  have c: "same_client w w1" using same_client_trans [OF same_client_log b(2)] .
  have up: "w_upstream w1 = w_upstream w" using c by (simp add: same_client_def)
  have shift: "w_sent w @ rq # replicate k rq = w_sent w1 @ replicate k rq" for k using b(3) by simp
  have pas: "list_all (\<lambda>i. passing (w_upstream w1 (w_sent w1 @ replicate (Suc i) rq))) [0..<j]"
  proof -
    have "passing (w_upstream w1 (w_sent w1 @ replicate (Suc i) rq))" if "i < j" for i
      using pass [of "Suc i"] that by (simp add: up b(3))
    then show ?thesis by (simp add: list_all_iff)
  qed
  have suc: "success w1 (w_upstream w1 (w_sent w1 @ replicate (Suc j) rq)) v"
    using Suc.prems(3) by (simp add: success_cong [OF c] up b(3))
  obtain w' where "attempts m rq True (Suc attempt) le w1 = (Inr (Inr v), w')" "w_sent w' = w_sent w1 @ replicate (Suc j) rq"
    using Suc.IH [OF n(2) pas suc] by blast
  then show ?case using b(3) by (simp add: n(1) bnd_def one b(1))
qed

lemma request_first_success:
  assumes "sdk_url w (base (s_cfg w)) path q = Inr t" "0 \<le> cf_maxRetries (s_cfg w)"
    and "success w (w_upstream w (w_sent w @ [sdk_outgoing (s_cfg w) t init])) v"
  shows "sdk_request base path init q w = (Inr (Inr v), log_request (sdk_outgoing (s_cfg w) t init) w)"
proof -
  obtain n where n: "nat (cf_maxRetries (s_cfg w) + 1) = Suc n" using assms(2) by (cases "nat (cf_maxRetries (s_cfg w) + 1)") auto
  show ?thesis
    by (simp add: sdk_request_def run_asks assms(1) n bnd_def [of "one_attempt _ _ _ _"] one_attempt_success [OF assms(3)] ret_def)
qed

text \<open>
  C20. Recovery: when an idempotent request meets at most \<open>maxRetries\<close> outages or transient statuses and then an
  answer, it returns that answer, having sent the request once more than it failed.
\<close>

theorem request_recovers:
  fixes w :: "'w sworld_scheme"
  assumes "sdk_retry init" "sdk_url w (base (s_cfg w)) path q = Inr t" "rq = sdk_outgoing (s_cfg w) t init" "int j \<le> cf_maxRetries (s_cfg w)"
    and "list_all (\<lambda>i. passing (w_upstream w (w_sent w @ replicate (Suc i) rq))) [0..<j]"
    and "success w (w_upstream w (w_sent w @ replicate (Suc j) rq)) v"
  shows "\<exists>w'. sdk_request base path init q w = (Inr (Inr v), w') \<and> w_sent w' = w_sent w @ replicate (Suc j) rq"
proof -
  have "j < nat (cf_maxRetries (s_cfg w) + 1)" using assms(4) by linarith
  from attempts_recover [OF this assms(5,6)] show ?thesis
    using assms(1-3) by (simp add: sdk_request_def run_asks)
qed

section \<open>A concrete client\<close>

definition no_options :: sdk_options where
  "no_options = \<lparr>o_baseUrl = None, o_egoUrl = None, o_nexusUrl = None, o_themisUrl = None, o_janusUrl = None, o_vulcanUrl = None,
     o_argusUrl = None, o_apiKey = None, o_enableCache = None, o_cacheTtlMs = None, o_timeoutMs = None, o_maxRetries = None,
     o_initialDelayMs = None, o_maxDelayMs = None, o_backoffFactor = None\<rparr>"

definition example_client :: "(http_request list \<Rightarrow> exn + http_response) \<Rightarrow> sworld" where
  "example_client up = world.extend (example_world [] up) \<lparr>s_cfg = new_config no_options, s_cache = [],
     s_aborted = (\<lambda>_. (False, False)), s_random = (\<lambda>_. 1 / 2), s_drawn = 0, s_slept = [],
     s_resolve = (\<lambda>path base. Some (butlast base @ path))\<rparr>"

lemma example_client_sel [simp]:
  "s_cfg (example_client up) = new_config no_options" "s_cache (example_client up) = []" "w_sent (example_client up) = []"
  "w_upstream (example_client up) = up" "s_random (example_client up) = (\<lambda>_. 1 / 2)" "s_slept (example_client up) = []"
  "s_resolve (example_client up) = (\<lambda>path base. Some (butlast base @ path))" "w_clock (example_client up) = (\<lambda>_. 0)"
  "w_ticks (example_client up) = 0"
  by (simp_all add: example_client_def world.defs example_world_def)

lemma default_config [simp]: "cf_maxRetries (new_config no_options) = 3" "cf_initialDelayMs (new_config no_options) = 50"
  "cf_maxDelayMs (new_config no_options) = 2000" "cf_backoffFactor (new_config no_options) = 2"
  "cf_enableCache (new_config no_options)" "cf_cacheTtlMs (new_config no_options) = 10000"
  by (simp_all add: new_config_def no_options_def or_else_def)

theorem request_terminates_witness:
  "let w = example_client (\<lambda>_. Inl (type_error ''fetch failed''))
   in length (w_sent (snd (sdk_request cf_nexusUrl ''/check'' (json_init ''post'' JNull) [] w))) \<le> 1 \<and>
      length (w_sent (snd (sdk_request cf_nexusUrl ''/tuples'' get_init [] w))) \<le> 4"
proof -
  let ?w = "example_client (\<lambda>_. Inl (type_error ''fetch failed''))"
  have u: "to_upper ''post'' = ''POST''" by code_simp
  have "length (w_sent (snd (sdk_request cf_nexusUrl ''/check'' (json_init ''post'' JNull) [] ?w))) \<le> 1"
    using request_terminates [of "json_init ''post'' JNull" cf_nexusUrl "''/check''" "[]" ?w]
    by (auto simp: Let_def json_init_def u)
  moreover have "length (w_sent (snd (sdk_request cf_nexusUrl ''/tuples'' get_init [] ?w))) \<le> 4"
    using request_terminates [of get_init cf_nexusUrl "''/tuples''" "[]" ?w]
    by (auto simp: Let_def get_init_def)
  ultimately show ?thesis by (simp add: Let_def)
qed

theorem backoff_bounded_witness:
  "\<exists>ds. s_slept (snd (sdk_request cf_egoUrl ''/sessions/whoami'' get_init [] (example_client (\<lambda>_. Inl (type_error ''fetch failed''))))) = ds \<and>
     sum_list ds \<le> 6000"
  using backoff_bounded [of "example_client (\<lambda>_. Inl (type_error ''fetch failed''))" cf_egoUrl "''/sessions/whoami''" get_init "[]"]
  by (simp add: unit_random_def)

definition answer_status :: "int \<Rightarrow> string \<Rightarrow> exn + http_response" where
  "answer_status st t = Inr \<lparr>rs_status = st, rs_headers = [], rs_text = Inr t\<rparr>"

theorem request_recovers_witness:
  "let w = example_client (\<lambda>log. if length log = 1 then answer_status 503 [] else answer_status 200 ''[]'')
   in \<exists>w'. sdk_request cf_egoUrl ''/sessions/whoami'' get_init [] w = (Inr (Inr (JArr [])), w') \<and> length (w_sent w') = 2"
proof -
  let ?w = "example_client (\<lambda>log. if length log = 1 then answer_status 503 [] else answer_status 200 ''[]'')"
  let ?t = "''http://localhost:4433/sessions/whoami''"
  have url: "sdk_url ?w (cf_egoUrl (s_cfg ?w)) ''/sessions/whoami'' [] = Inr ?t"
    by (simp add: sdk_url_def new_config_def no_options_def or_else_def add_qs_def params_string_def)
  have retry: "sdk_retry get_init"
    by (simp add: sdk_retry_def get_init_def or_else_def sdk_method_def to_upper_def upper_char_def is_lower_def)
  have j: "json_parse ''[]'' = Some (JArr [])" by code_simp
  let ?rq = "sdk_outgoing (s_cfg ?w) ?t get_init"
  have pas: "list_all (\<lambda>i. passing (w_upstream ?w (w_sent ?w @ replicate (Suc i) ?rq))) [0..<1]"
    by (simp add: passing_def answer_status_def transient_def)
  have suc: "success ?w (w_upstream ?w (w_sent ?w @ replicate (Suc 1) ?rq)) (JArr [])"
    by (simp add: success_def answer_status_def rs_ok_def parse_text_Inr [OF j])
  have le: "int 1 \<le> cf_maxRetries (s_cfg ?w)" by simp
  obtain w' where "sdk_request cf_egoUrl ''/sessions/whoami'' get_init [] ?w = (Inr (Inr (JArr [])), w')"
    "w_sent w' = w_sent ?w @ replicate (Suc 1) ?rq"
    using request_recovers [where base = cf_egoUrl and w = ?w, OF retry url refl le pas suc] by (elim exE conjE)
  then show ?thesis unfolding Let_def by (intro exI [of _ w']) simp
qed

end
