(* ===== verification/SdkClient.thy ===== *)
theory SdkClient
  imports Sdk
begin

text \<open>
  The calls of the runtime client: sessions, relationship checks with their cache, policies, tokens and API
  keys, and the header reader of sdk/typescript/src/middleware.ts. Arguments are the JavaScript objects the
  callers pass. The checks of a batch run one after the other, in the order of the list.
\<close>

section \<open>Results\<close>

text \<open>The promise of a call that passes failures on: an exception of the error's message.\<close>

definition sdk_exn :: "sdk_error \<Rightarrow> exn" where
  "sdk_exn e = (case e of ApiError st msg body \<Rightarrow> Error ''AutorixApiError'' msg
     | TimeoutError ms \<Rightarrow> Error ''AutorixTimeoutError'' (sdk_message e []) | Failed x \<Rightarrow> x)"

definition passed_on :: "('w, answer) sact \<Rightarrow> ('w, jsval) sact" where
  "passed_on m = bnd m (\<lambda>r. case r of Inl e \<Rightarrow> throw (sdk_exn e) | Inr v \<Rightarrow> ret v)"

section \<open>Ego\<close>

definition whoami :: "string option \<Rightarrow> ('w, jsval) sact" where
  "whoami token =
     bnd (sdk_request cf_egoUrl ''/sessions/whoami'' (get_init\<lparr>si_headers := (case token of
         Some t \<Rightarrow> if t \<noteq> [] then [(''Authorization'', ''Bearer '' @ t)] else [] | None \<Rightarrow> [])\<rparr>) []) (\<lambda>r.
     case r of
       Inr v \<Rightarrow> ret v
     | Inl (ApiError st msg body) \<Rightarrow> if st \<in> {401, 403, 404} then ret JNull else throw (sdk_exn (ApiError st msg body))
     | Inl e \<Rightarrow> throw (sdk_exn e))"

definition sdk_logout :: "('w, jsval) sact" where
  "sdk_logout = passed_on (sdk_request cf_egoUrl ''/self-service/logout'' (get_init\<lparr>si_method := Some ''POST''\<rparr>) [])"

section \<open>Nexus\<close>

definition cache_key :: "jsval \<Rightarrow> string" where
  "cache_key req = ''nexus:'' @ to_str (member req ''namespace'') @ '':'' @ to_str (member req ''object'') @ ''#'' @
     to_str (member req ''relation'') @ ''@'' @ to_str (js_coalesce (member req ''subjectNamespace'') (JStr ''user'')) @ '':'' @
     to_str (member req ''subject'')"

definition check_body :: "jsval \<Rightarrow> jsval" where
  "check_body req = JObj [(''namespace'', member req ''namespace''), (''object'', member req ''object''),
     (''relation'', member req ''relation''), (''subject_id'', member req ''subject''),
     (''subject_namespace'', js_coalesce (member req ''subjectNamespace'') (JStr ''user'')),
     (''subject_relation'', member req ''subjectRelation''), (''request_context'', member req ''context''),
     (''explain'', member req ''explain''), (''snap_token'', member req ''snapToken'')]"

text \<open>The entry of the cache that answers without a request, if any; the clock is read only for an entry.\<close>

definition cached_decision :: "string \<Rightarrow> ('w, jsval option) sact" where
  "cached_decision key = bnd (asks (\<lambda>w. (cf_enableCache (s_cfg w), map_of (s_cache w) key))) (\<lambda>(enabled, cached).
     case cached of
       Some (data, expiresAt) \<Rightarrow> if enabled then bnd date_now (\<lambda>now. ret (if now < expiresAt then Some data else None)) else ret None
     | None \<Rightarrow> ret None)"

definition remember :: "string \<Rightarrow> jsval \<Rightarrow> ('w, unit) sact" where
  "remember key data = bnd (asks s_cfg) (\<lambda>c.
     if cf_enableCache c then bnd date_now (\<lambda>now.
       modify (\<lambda>w. w\<lparr>s_cache := al_set key (data, now + cf_cacheTtlMs c) (s_cache w)\<rparr>))
     else ret ())"

definition denied_decision :: "sdk_error \<Rightarrow> jsval" where
  "denied_decision e = JObj [(''allowed'', JBool False), (''reason'', JStr (sdk_message e ''Nexus check failed''))]"

definition check :: "jsval \<Rightarrow> ('w, jsval) sact" where
  "check req =
     jget req ''namespace'' (\<lambda>_.
     bnd (cached_decision (cache_key req)) (\<lambda>hit.
     case hit of
       Some data \<Rightarrow> ret data
     | None \<Rightarrow>
         bnd (sdk_request cf_nexusUrl ''/check'' (json_init ''POST'' (check_body req)) []) (\<lambda>r.
         case r of
           Inl e \<Rightarrow> ret (denied_decision e)
         | Inr response \<Rightarrow> bnd (remember (cache_key req) response) (\<lambda>_. ret response))))"

definition checkBatch :: "jsval list \<Rightarrow> ('w, jsval list) sact" where
  "checkBatch reqs = map_m check reqs"

definition page_query :: "jsval \<Rightarrow> query" where
  "page_query page = [(''limit'', opt_prop page ''limit''), (''cursor'', opt_prop page ''cursor'')]"

definition toWireTuple :: "jsval \<Rightarrow> jsval res" where
  "toWireTuple t = map_sum id (\<lambda>ns. JObj [(''namespace'', ns), (''object'', member t ''object''),
     (''relation'', member t ''relation''), (''subject_namespace'', member t ''subjectNamespace''),
     (''subject_id'', member t ''subjectId''), (''subject_relation'', member t ''subjectRelation''),
     (''caveat_name'', member t ''caveatName''), (''caveat_context'', member t ''caveatContext'')]) (get_prop t ''namespace'')"

definition listTuples :: "jsval \<Rightarrow> jsval \<Rightarrow> ('w, jsval) sact" where
  "listTuples namespace page = passed_on (sdk_request cf_nexusUrl ''/tuples'' get_init ((''namespace'', namespace) # page_query page))"

definition send_tuples :: "string \<Rightarrow> jsval list \<Rightarrow> ('w, jsval) sact" where
  "send_tuples m tuples = bnd (lift (map_res toWireTuple tuples)) (\<lambda>ts.
     passed_on (sdk_request cf_nexusUrl ''/tuples'' (json_init m (JObj [(''tuples'', JArr ts)])) []))"

definition writeTuples :: "jsval list \<Rightarrow> ('w, jsval) sact" where
  "writeTuples tuples = send_tuples ''POST'' tuples"

definition deleteTuples :: "jsval list \<Rightarrow> ('w, jsval) sact" where
  "deleteTuples tuples = send_tuples ''DELETE'' tuples"

definition expand :: "string \<Rightarrow> string \<Rightarrow> string \<Rightarrow> ('w, jsval) sact" where
  "expand namespace object relation = passed_on (sdk_request cf_nexusUrl ''/expand'' get_init
     [(''namespace'', JStr namespace), (''object'', JStr object), (''relation'', JStr relation)])"

definition lookupSubjects :: "string \<Rightarrow> string \<Rightarrow> string \<Rightarrow> ('w, jsval) sact" where
  "lookupSubjects namespace object relation = bnd (passed_on (sdk_request cf_nexusUrl ''/lookup/subjects'' get_init
     [(''namespace'', JStr namespace), (''object'', JStr object), (''relation'', JStr relation)])) (\<lambda>r. jget r ''subjects'' ret)"

definition lookupResources :: "string \<Rightarrow> string \<Rightarrow> string \<Rightarrow> string option \<Rightarrow> ('w, jsval) sact" where
  "lookupResources namespace relation subject subjectNamespace = bnd (passed_on (sdk_request cf_nexusUrl ''/lookup/resources'' get_init
     [(''namespace'', JStr namespace), (''relation'', JStr relation), (''subject_id'', JStr subject),
      (''subject_namespace'', JStr (or_else subjectNamespace ''user''))])) (\<lambda>r. jget r ''resources'' ret)"

section \<open>Themis\<close>

definition denied_evaluation :: jsval where
  "denied_evaluation = JObj [(''allPassed'', JBool False), (''results'', JArr []), (''totalEvaluated'', jint 0)]"

definition evaluation :: "jsval \<Rightarrow> jsval" where
  "evaluation response = JObj [
     (''allPassed'', js_bool (js_coalesce (member response ''allPassed'') (member response ''all_passed''))),
     (''results'', if is_arr (member response ''results'') then member response ''results'' else JArr []),
     (''totalEvaluated'', JNum (to_num (js_coalesce (js_coalesce (member response ''totalEvaluated'')
        (member response ''total_evaluated'')) (jint 0))))]"

definition evaluatePolicy :: "jsval \<Rightarrow> ('w, jsval) sact" where
  "evaluatePolicy req = try_catch
     (jget req ''tenantId'' (\<lambda>tenant.
      bnd (sdk_request cf_themisUrl ''/policies/evaluate'' (json_init ''POST'' (JObj [
        (''tenant_id'', js_coalesce tenant (JStr ''default'')), (''policy_id'', member req ''policyId''),
        (''payload'', member req ''context''), (''label_filter'', member req ''labelFilter'')])) []) (\<lambda>r.
      case r of
        Inl e \<Rightarrow> ret denied_evaluation
      | Inr response \<Rightarrow> jget response ''allPassed'' (\<lambda>_. ret (evaluation response)))))
     (\<lambda>_. ret denied_evaluation)"

definition policy_at :: "string \<Rightarrow> string" where
  "policy_at pid = ''/policies/'' @ encode_uri_component pid"

definition tenant_param :: "jsval \<Rightarrow> query" where
  "tenant_param tenantId = [(''tenant_id'', tenantId)]"

definition toSnakePolicy :: "jsval \<Rightarrow> jsval res" where
  "toSnakePolicy p = map_sum id (\<lambda>tenant. JObj [(''tenant_id'', tenant), (''name'', member p ''name''),
     (''description'', member p ''description''), (''expression'', member p ''expression''),
     (''priority'', member p ''priority''), (''enabled'', member p ''enabled''), (''labels'', member p ''labels'')])
     (get_prop p ''tenantId'')"

definition listPolicies :: "jsval \<Rightarrow> ('w, jsval) sact" where
  "listPolicies options = jget options ''tenantId'' (\<lambda>tenant. passed_on (sdk_request cf_themisUrl ''/policies'' get_init [
     (''tenant_id'', tenant), (''enabled_only'', member options ''enabledOnly''),
     (''limit'', member options ''limit''), (''cursor'', member options ''cursor'')]))"

definition getPolicy :: "string \<Rightarrow> jsval \<Rightarrow> ('w, jsval) sact" where
  "getPolicy pid tenantId = passed_on (sdk_request cf_themisUrl (policy_at pid) get_init (tenant_param tenantId))"

definition createPolicy :: "jsval \<Rightarrow> ('w, jsval) sact" where
  "createPolicy policy = bnd (lift (toSnakePolicy policy)) (\<lambda>p.
     passed_on (sdk_request cf_themisUrl ''/policies'' (json_init ''POST'' p) []))"

definition updatePolicy :: "string \<Rightarrow> jsval \<Rightarrow> ('w, jsval) sact" where
  "updatePolicy pid policy = bnd (lift (toSnakePolicy policy)) (\<lambda>p.
     passed_on (sdk_request cf_themisUrl (policy_at pid) (json_init ''PUT'' p) []))"

definition deletePolicy :: "string \<Rightarrow> jsval \<Rightarrow> ('w, jsval) sact" where
  "deletePolicy pid tenantId = passed_on (sdk_request cf_themisUrl (policy_at pid) delete_init (tenant_param tenantId))"

definition listPolicyVersions :: "string \<Rightarrow> jsval \<Rightarrow> ('w, jsval) sact" where
  "listPolicyVersions pid tenantId =
     passed_on (sdk_request cf_themisUrl (policy_at pid @ ''/versions'') get_init (tenant_param tenantId))"

definition validatePolicy :: "string \<Rightarrow> ('w, jsval) sact" where
  "validatePolicy expression = passed_on (sdk_request cf_themisUrl ''/policies/validate''
     (json_init ''POST'' (JObj [(''expression'', JStr expression)])) [])"

definition dryRunPolicy :: "string \<Rightarrow> jsval \<Rightarrow> ('w, jsval) sact" where
  "dryRunPolicy expression payload = passed_on (sdk_request cf_themisUrl ''/policies/dry-run''
     (json_init ''POST'' (JObj [(''expression'', JStr expression), (''payload'', payload)])) [])"

section \<open>Janus\<close>

definition getOpenIdConfiguration :: "('w, jsval) sact" where
  "getOpenIdConfiguration = passed_on (sdk_request cf_janusUrl ''/.well-known/openid-configuration'' get_init [])"

definition getJwks :: "('w, jsval) sact" where
  "getJwks = passed_on (sdk_request cf_janusUrl ''/.well-known/jwks.json'' get_init [])"

definition createAuthorizationUrl :: "jsval \<Rightarrow> ('w, string) sact" where
  "createAuthorizationUrl options = jget options ''clientId'' (\<lambda>clientId.
     bnd (asks (\<lambda>w. sdk_url w (cf_janusUrl (s_cfg w)) ''/oauth2/auth'' [
       (''client_id'', clientId), (''redirect_uri'', member options ''redirectUri''), (''response_type'', JStr ''code''),
       (''state'', member options ''state''), (''code_challenge'', member options ''codeChallenge''),
       (''code_challenge_method'', JStr ''S256''), (''scope'', js_coalesce (member options ''scope'') (JStr ''openid'')),
       (''nonce'', member options ''nonce'')])) lift)"

definition sdk_token :: "query \<Rightarrow> ('w, jsval) sact" where
  "sdk_token params = passed_on (sdk_request cf_janusUrl ''/oauth2/token''
     (form_init (fold (\<lambda>(k, v) ps. if v = JUndef then ps else params_set k (to_str v) ps) params [])) [])"

definition exchangeAuthorizationCode :: "jsval \<Rightarrow> ('w, jsval) sact" where
  "exchangeAuthorizationCode options = jget options ''code'' (\<lambda>code.
     sdk_token [(''grant_type'', JStr ''authorization_code''), (''code'', code), (''redirect_uri'', member options ''redirectUri''),
       (''client_id'', member options ''clientId''), (''code_verifier'', member options ''codeVerifier''),
       (''client_secret'', member options ''clientSecret'')])"

definition refreshToken :: "jsval \<Rightarrow> jsval \<Rightarrow> jsval \<Rightarrow> ('w, jsval) sact" where
  "refreshToken token clientId clientSecret = sdk_token [(''grant_type'', JStr ''refresh_token''), (''refresh_token'', token),
     (''client_id'', clientId), (''client_secret'', clientSecret)]"

definition introspectToken :: "string \<Rightarrow> ('w, jsval) sact" where
  "introspectToken token = passed_on (sdk_request cf_janusUrl ''/oauth2/introspect'' (form_init [(''token'', token)]) [])"

definition revokeToken :: "string \<Rightarrow> ('w, jsval) sact" where
  "revokeToken token = passed_on (sdk_request cf_janusUrl ''/oauth2/revoke'' (form_init [(''token'', token)]) [])"

section \<open>Vulcan\<close>

definition verifyApiKey :: "jsval \<Rightarrow> jsval \<Rightarrow> ('w, jsval) sact" where
  "verifyApiKey mac context =
     bnd (sdk_request cf_vulcanUrl ''/keys/verify'' (json_init ''POST''
       (JObj [(if is_str mac then ''token'' else ''macaroon'', mac), (''context'', context)])) []) (\<lambda>r. ret (case r of
         Inl e \<Rightarrow> JObj [(''valid'', JBool False), (''error'', JStr (sdk_message e ''Verification failed''))]
       | Inr v \<Rightarrow> v))"

definition createApiKey :: "jsval \<Rightarrow> ('w, jsval) sact" where
  "createApiKey request = jget request ''name'' (\<lambda>name.
     passed_on (sdk_request cf_vulcanUrl ''/keys'' (json_init ''POST'' (JObj [(''name'', name),
       (''owner_id'', member request ''ownerId''), (''description'', member request ''description''),
       (''scopes'', js_coalesce (member request ''scopes'') (JArr [])), (''expires_at'', member request ''expiresAt''),
       (''is_live'', js_coalesce (member request ''isLive'') (JBool False))])) []))"

definition listApiKeys :: "jsval \<Rightarrow> ('w, jsval) sact" where
  "listApiKeys page = passed_on (sdk_request cf_vulcanUrl ''/keys'' get_init (page_query page))"

definition attenuateMacaroon :: "jsval \<Rightarrow> string \<Rightarrow> ('w, jsval) sact" where
  "attenuateMacaroon mac caveat = passed_on (sdk_request cf_vulcanUrl ''/keys/attenuate''
     (json_init ''POST'' (JObj [(''macaroon'', mac), (''caveat'', JStr caveat)])) [])"

definition revokeApiKey :: "string \<Rightarrow> ('w, jsval) sact" where
  "revokeApiKey kid = passed_on (sdk_request cf_vulcanUrl (''/keys/'' @ encode_uri_component kid) delete_init [])"

section \<open>Identity headers\<close>

definition split_roles :: "jsval \<Rightarrow> jsval" where
  "split_roles raw = (case raw of JStr s \<Rightarrow> JArr (map JStr (split_on (CHR '','') s)) | JArr xs \<Rightarrow> JArr xs | _ \<Rightarrow> JArr [])"

definition extractUserFromHeaders :: "jsval \<Rightarrow> jsval" where
  "extractUserFromHeaders headers = (let userId = member headers ''x-user-id''; email = member headers ''x-user-email''
     in if \<not> truthy userId \<or> \<not> is_str userId then JNull
        else JObj [(''id'', userId), (''email'', if is_str email then email else JUndef),
          (''roles'', split_roles (member headers ''x-user-roles''))])"

section \<open>Decisions\<close>

text \<open>The entry of a key that still answers at the instant \<open>now\<close>.\<close>

definition fresh_entry :: "'w sworld_scheme \<Rightarrow> string \<Rightarrow> jsval option" where
  "fresh_entry w key = (if cf_enableCache (s_cfg w) then case map_of (s_cache w) key of
       Some (data, expiresAt) \<Rightarrow> if w_clock w (w_ticks w) < expiresAt then Some data else None | None \<Rightarrow> None
     else None)"

lemma cached_decision_run:
  "\<exists>w'. cached_decision key w = (Inr (fresh_entry w key), w') \<and>
     w' = (if cf_enableCache (s_cfg w) \<and> map_of (s_cache w) key \<noteq> None then w\<lparr>w_ticks := Suc (w_ticks w)\<rparr> else w)"
  by (simp add: cached_decision_def run_asks run_date_now run_ret fresh_entry_def split: option.split)

lemma remember_run: "\<exists>w'. remember key data w = (Inr (), w') \<and> w_upstream w' = w_upstream w \<and> w_sent w' = w_sent w"
  by (simp add: remember_def run_asks run_date_now modify_def ret_def)

text \<open>The run of a check: from the cache, or one request and its outcome.\<close>

lemma check_run:
  fixes w :: "'w sworld_scheme"
  assumes "\<not> nullish req"
  shows "(case fresh_entry w (cache_key req) of
      Some data \<Rightarrow> \<exists>w'. check req w = (Inr data, w') \<and> w_sent w' = w_sent w
    | None \<Rightarrow> (\<exists>e w'. check req w = (Inr (denied_decision e), w')) \<or>
        (\<exists>v w'. check req w = (Inr v, w') \<and> success w (w_upstream w (w_sent w')) v))"
proof -
  let ?key = "cache_key req"
  obtain w1 where c: "cached_decision ?key w = (Inr (fresh_entry w ?key), w1)"
    and w1: "w1 = (if cf_enableCache (s_cfg w) \<and> map_of (s_cache w) ?key \<noteq> None then w\<lparr>w_ticks := Suc (w_ticks w)\<rparr> else w)"
    using cached_decision_run [of ?key w] by blast
  have par: "w_sent w1 = w_sent w" "w_upstream w1 = w_upstream w" "success w1 = success w"
    by (auto simp: w1 success_def parse_text_def json_parse_js_def fun_eq_iff split: sum.split option.split)
  have hit: "bnd (cached_decision ?key) g w = g (fresh_entry w ?key) w1" for g :: "_ \<Rightarrow> ('w, jsval) sact"
    by (rule run_bnd) (rule c)
  have ns: "get_prop req ''namespace'' = Inr (member req ''namespace'')" using assms by (rule get_prop_not_nullish)
  show ?thesis
  proof (cases "fresh_entry w ?key")
    case (Some data)
    then show ?thesis by (simp add: check_def run_jget ns hit run_ret par)
  next
    case None
    let ?m = "sdk_request cf_nexusUrl ''/check'' (json_init ''POST'' (check_body req)) []"
    obtain r w2 where r: "?m w1 = (Inr r, w2)" "same_client w1 w2" "\<forall>v. r = Inr v \<longrightarrow> success w1 (w_upstream w1 (w_sent w2)) v"
      using request_run [of cf_nexusUrl "''/check''" "json_init ''POST'' (check_body req)" "[]" w1] by blast
    have req: "bnd ?m g w1 = g r w2" for g :: "_ \<Rightarrow> ('w, jsval) sact" by (rule run_bnd) (rule r(1))
    have up: "w_upstream w2 = w_upstream w" using r(2) par by (simp add: same_client_def)
    show ?thesis
    proof (cases r)
      case (Inl e)
      then show ?thesis using None up
        by (auto simp: check_def run_jget ns hit req run_ret)
    next
      case (Inr v)
      obtain w3 where m: "remember ?key v w2 = (Inr (), w3)" "w_upstream w3 = w_upstream w2" "w_sent w3 = w_sent w2"
        using remember_run by blast
      have mem: "bnd (remember ?key v) g w2 = g () w3" for g :: "_ \<Rightarrow> ('w, jsval) sact" by (rule run_bnd) (rule m(1))
      show ?thesis using None up Inr r(3) m(2,3) par
        by (auto simp: check_def run_jget ns hit req mem run_ret)
    qed
  qed
qed

text \<open>
  C21. A check grants nothing on its own: what it returns, if it says allowed, is either an entry of the cache that has
  not expired or the body of a successful answer to the request it just sent.
\<close>

theorem check_grants_only_answers:
  fixes w :: "'w sworld_scheme"
  assumes "check req w = (Inr v, w')" "truthy (member v ''allowed'')"
  shows "fresh_entry w (cache_key req) = Some v \<or> success w (w_upstream w (w_sent w')) v"
proof -
  have "\<not> nullish req" using assms(1) by (auto simp: check_def run_jget get_prop_def)
  from check_run [OF this, of w] show ?thesis
    using assms by (auto simp: denied_decision_def split: option.splits)
qed

definition no_success :: "'w sworld_scheme \<Rightarrow> bool" where
  "no_success w \<longleftrightarrow> (\<forall>log. case w_upstream w log of Inl _ \<Rightarrow> True | Inr res \<Rightarrow> \<not> rs_ok res)"

lemma request_no_success:
  fixes w :: "'w sworld_scheme"
  assumes "no_success w"
  shows "\<exists>e w'. sdk_request base path init q w = (Inr (Inl e), w')"
proof -
  obtain r w' where r: "sdk_request base path init q w = (Inr r, w')" "\<forall>v. r = Inr v \<longrightarrow> success w (w_upstream w (w_sent w')) v"
    using request_run [of base path init q w] by blast
  have "\<not> success w (w_upstream w log) v" for log v
    using assms by (auto simp: no_success_def success_def split: sum.splits dest: spec [of _ log])
  then show ?thesis using r by (cases r) auto
qed

text \<open>
  C22. The decisions fail closed: while no engine gives a successful answer, a check without a fresh cache entry returns an object whose \<open>allowed\<close> is
  \<open>false\<close>, a policy evaluation one whose \<open>allPassed\<close> is \<open>false\<close>, and the verification of an API key one whose \<open>valid\<close> is \<open>false\<close>, whatever is
  asked; none of the three throws.
\<close>

theorem decisions_fail_closed:
  fixes w :: "'w sworld_scheme"
  assumes "no_success w" "\<not> nullish req" "fresh_entry w (cache_key req) = None"
  shows "(\<exists>v w'. check req w = (Inr v, w') \<and> member v ''allowed'' = JBool False) \<and>
    (\<exists>v w'. evaluatePolicy pol w = (Inr v, w') \<and> member v ''allPassed'' = JBool False) \<and>
    (\<exists>v w'. verifyApiKey mac ctx w = (Inr v, w') \<and> member v ''valid'' = JBool False)"
proof (intro conjI)
  have "\<not> success w (w_upstream w log) v" for log v
    using assms(1) by (auto simp: no_success_def success_def split: sum.splits dest: spec [of _ log])
  then have "\<exists>w' e. check req w = (Inr (denied_decision e), w')"
    using check_run [OF assms(2), of w] assms(3) by auto
  then show "\<exists>v w'. check req w = (Inr v, w') \<and> member v ''allowed'' = JBool False"
    by (fastforce simp: denied_decision_def)
next
  let ?m = "sdk_request cf_themisUrl ''/policies/evaluate'' (json_init ''POST'' (JObj [
        (''tenant_id'', js_coalesce (member pol ''tenantId'') (JStr ''default'')), (''policy_id'', member pol ''policyId''),
        (''payload'', member pol ''context''), (''label_filter'', member pol ''labelFilter'')])) []"
  obtain e w1 where "?m w = (Inr (Inl e), w1)" using request_no_success [OF assms(1)] by blast
  then have "bnd ?m g w = g (Inl e) w1" for g :: "_ \<Rightarrow> ('w, jsval) sact" by (rule run_bnd)
  then have "\<exists>w'. evaluatePolicy pol w = (Inr denied_evaluation, w')"
    by (cases "nullish pol") (simp_all add: evaluatePolicy_def try_catch_def run_jget get_prop_def run_ret)
  then show "\<exists>v w'. evaluatePolicy pol w = (Inr v, w') \<and> member v ''allPassed'' = JBool False"
    by (auto simp: denied_evaluation_def)
next
  let ?m = "sdk_request cf_vulcanUrl ''/keys/verify'' (json_init ''POST''
       (JObj [(if is_str mac then ''token'' else ''macaroon'', mac), (''context'', ctx)])) []"
  obtain e w1 where "?m w = (Inr (Inl e), w1)" using request_no_success [OF assms(1)] by blast
  then have "bnd ?m g w = g (Inl e) w1" for g :: "_ \<Rightarrow> ('w, jsval) sact" by (rule run_bnd)
  then show "\<exists>v w'. verifyApiKey mac ctx w = (Inr v, w') \<and> member v ''valid'' = JBool False"
    unfolding verifyApiKey_def by (simp add: run_ret)
qed

theorem decisions_fail_closed_witness:
  "let w = example_client (\<lambda>_. Inl (type_error ''fetch failed''))
   in (\<exists>v w'. check (JObj [(''namespace'', JStr ''doc'')]) w = (Inr v, w') \<and> member v ''allowed'' = JBool False) \<and>
      (\<exists>v w'. evaluatePolicy (JObj []) w = (Inr v, w') \<and> member v ''allPassed'' = JBool False) \<and>
      (\<exists>v w'. verifyApiKey (JStr ''token'') JUndef w = (Inr v, w') \<and> member v ''valid'' = JBool False)"
  unfolding Let_def by (rule decisions_fail_closed) (simp_all add: no_success_def fresh_entry_def)

text \<open>A check that misses the cache and is answered leaves the answer behind.\<close>

lemma check_stores:
  fixes w :: "'w sworld_scheme"
  assumes "sdk_request cf_nexusUrl ''/check'' (json_init ''POST'' (check_body req)) [] w = (Inr (Inr v), w1)"
    and "\<not> nullish req" "map_of (s_cache w) (cache_key req) = None" "cf_enableCache (s_cfg w)"
  shows "\<exists>w2. check req w = (Inr v, w2) \<and> w_sent w2 = w_sent w1 \<and> w_clock w2 = w_clock w \<and> w_ticks w2 = Suc (w_ticks w) \<and>
    s_cfg w2 = s_cfg w \<and> map_of (s_cache w2) (cache_key req) = Some (v, w_clock w (w_ticks w) + cf_cacheTtlMs (s_cfg w))"
proof -
  let ?m = "sdk_request cf_nexusUrl ''/check'' (json_init ''POST'' (check_body req)) []"
  have same: "same_client w w1" using request_run [of cf_nexusUrl "''/check''" "json_init ''POST'' (check_body req)" "[]" w] assms(1) by auto
  let ?w2 = "w1\<lparr>w_ticks := Suc (w_ticks w1), s_cache := al_set (cache_key req) (v, w_clock w1 (w_ticks w1) + cf_cacheTtlMs (s_cfg w1)) (s_cache w1)\<rparr>"
  have req: "bnd ?m g w = g (Inr v) w1" for g :: "_ \<Rightarrow> ('w, jsval) sact" by (rule run_bnd) (rule assms(1))
  have en: "cf_enableCache (s_cfg w1)" using same assms(4) by (simp add: same_client_def)
  have mem: "bnd (remember (cache_key req) v) g w1 = g () ?w2" for g :: "_ \<Rightarrow> ('w, jsval) sact"
    by (rule run_bnd) (simp add: remember_def run_asks run_date_now modify_def en)
  have miss: "bnd (cached_decision (cache_key req)) g w = g None w" for g :: "_ \<Rightarrow> ('w, jsval) sact"
    by (rule run_bnd) (simp add: cached_decision_def run_asks assms(3) ret_def)
  have "check req w = (Inr v, ?w2)"
    by (simp add: check_def run_jget get_prop_not_nullish [OF assms(2)] miss req mem run_ret)
  then show ?thesis using same by (intro exI [of _ ?w2]) (simp add: same_client_def)
qed

text \<open>
  The cache forgets the context: the decision of one check answers every later check of the same namespace, object,
  relation and subject for \<open>cacheTtlMs\<close>, whatever its \<open>context\<close>, \<open>subjectRelation\<close> or \<open>snapToken\<close>, although
  these are part of the request that was decided; no request is sent for it.
\<close>

theorem check_ignores_context:
  fixes w :: "'w sworld_scheme"
  assumes "sdk_request cf_nexusUrl ''/check'' (json_init ''POST'' (check_body req)) [] w = (Inr (Inr v), w1)"
    and "\<not> nullish req" "\<not> nullish req'" "cache_key req' = cache_key req" "map_of (s_cache w) (cache_key req) = None"
    and "cf_enableCache (s_cfg w)" "w_clock w (Suc (w_ticks w)) < w_clock w (w_ticks w) + cf_cacheTtlMs (s_cfg w)"
  shows "\<exists>w2 w3. check req w = (Inr v, w2) \<and> check req' w2 = (Inr v, w3) \<and> w_sent w3 = w_sent w1"
proof -
  obtain w2 where w2: "check req w = (Inr v, w2)" "w_sent w2 = w_sent w1" "w_clock w2 = w_clock w" "w_ticks w2 = Suc (w_ticks w)"
    "s_cfg w2 = s_cfg w" "map_of (s_cache w2) (cache_key req) = Some (v, w_clock w (w_ticks w) + cf_cacheTtlMs (s_cfg w))"
    using check_stores [OF assms(1,2,5,6)] by blast
  have "fresh_entry w2 (cache_key req') = Some v" using w2 assms(4,6,7) by (simp add: fresh_entry_def)
  then obtain w3 where "check req' w2 = (Inr v, w3)" "w_sent w3 = w_sent w2"
    using check_run [OF assms(3), of w2] by auto
  then show ?thesis using w2 by auto
qed

section \<open>A concrete check\<close>

definition example_check :: "string \<Rightarrow> jsval" where
  "example_check ip = JObj [(''namespace'', JStr ''doc''), (''object'', JStr ''1''), (''relation'', JStr ''view''),
     (''subject'', JStr ''eve''), (''context'', JObj [(''ip'', JStr ip)])]"

definition allowing_once :: sworld where
  \<comment> \<open>the engine allows the first request and denies every later one\<close>
  "allowing_once = example_client (\<lambda>log. answer_status 200 (if length log = 1 then ''{\"allowed\":true}'' else ''{\"allowed\":false}''))"

lemma example_allowed:
  "sdk_request cf_nexusUrl ''/check'' (json_init ''POST'' (check_body (example_check ip))) [] allowing_once =
    (Inr (Inr (JObj [(''allowed'', JBool True)])), log_request (sdk_outgoing (s_cfg allowing_once) ''http://localhost:8080/check''
       (json_init ''POST'' (check_body (example_check ip)))) allowing_once)"
proof (rule request_first_success)
  have j: "json_parse ''{\"allowed\":true}'' = Some (JObj [(''allowed'', JBool True)])" by code_simp
  show "success allowing_once (w_upstream allowing_once (w_sent allowing_once @ [sdk_outgoing (s_cfg allowing_once) ''http://localhost:8080/check''
       (json_init ''POST'' (check_body (example_check ip)))])) (JObj [(''allowed'', JBool True)])"
    by (simp add: allowing_once_def success_def answer_status_def rs_ok_def parse_text_Inr [OF j])
qed (simp_all add: allowing_once_def sdk_url_def new_config_def no_options_def or_else_def add_qs_def params_string_def)

lemma example_sides: "\<not> nullish (example_check ip)" "cache_key (example_check ip) = ''nexus:doc:1#view@user:eve''"
  "map_of (s_cache allowing_once) key = None" "cf_enableCache (s_cfg allowing_once)"
  by (simp_all add: example_check_def cache_key_def js_coalesce_def allowing_once_def proto_get_def object_proto_names_def)

theorem check_ignores_context_witness:
  "\<exists>w2 w3. check (example_check ''10.0.0.1'') allowing_once = (Inr (JObj [(''allowed'', JBool True)]), w2) \<and>
     check (example_check ''203.0.113.7'') w2 = (Inr (JObj [(''allowed'', JBool True)]), w3) \<and> length (w_sent w3) = 1"
proof -
  have k: "cache_key (example_check ''203.0.113.7'') = cache_key (example_check ''10.0.0.1'')" by (simp only: example_sides)
  have t: "w_clock allowing_once (Suc (w_ticks allowing_once)) <
      w_clock allowing_once (w_ticks allowing_once) + cf_cacheTtlMs (s_cfg allowing_once)" by (simp add: allowing_once_def)
  obtain w2 w3 where "check (example_check ''10.0.0.1'') allowing_once = (Inr (JObj [(''allowed'', JBool True)]), w2)"
    "check (example_check ''203.0.113.7'') w2 = (Inr (JObj [(''allowed'', JBool True)]), w3)"
    "w_sent w3 = w_sent (log_request (sdk_outgoing (s_cfg allowing_once) ''http://localhost:8080/check''
       (json_init ''POST'' (check_body (example_check ''10.0.0.1'')))) allowing_once)"
    using check_ignores_context [OF example_allowed example_sides(1) example_sides(1) k example_sides(3,4) t] by (elim exE conjE)
  then show ?thesis by (intro exI [of _ w2] exI [of _ w3]) (simp add: allowing_once_def)
qed

theorem check_grants_only_answers_witness:
  "\<exists>w'. check (example_check ''10.0.0.1'') allowing_once = (Inr (JObj [(''allowed'', JBool True)]), w') \<and>
     success allowing_once (w_upstream allowing_once (w_sent w')) (JObj [(''allowed'', JBool True)])"
proof -
  obtain w2 where c: "check (example_check ''10.0.0.1'') allowing_once = (Inr (JObj [(''allowed'', JBool True)]), w2)"
    using check_stores [OF example_allowed example_sides(1,3,4)] by blast
  have "truthy (member (JObj [(''allowed'', JBool True)]) ''allowed'')" by simp
  moreover have "fresh_entry allowing_once (cache_key (example_check ''10.0.0.1'')) = None"
    using example_sides(3) [of "cache_key (example_check ''10.0.0.1'')"] by (simp only: fresh_entry_def option.case if_cancel)
  ultimately show ?thesis using check_grants_only_answers [OF c] c by auto
qed

end
