(* ===== verification/Redact.thy ===== *)
theory Redact
  imports JsValue
begin

text \<open>
  Redaction of secrets, lib/api/redact.ts: the patterns of tokens, keys and hashes, their replacement in text,
  and the redaction of whole values by the names of their properties. The patterns use a fragment of
  regular expressions (literals, repeated character classes, word boundaries, all ignoring case), matched
  the way the language does: leftmost, greedy with backtracking, every match replaced.
\<close>

section \<open>The fragment of regular expressions\<close>

datatype rx =
    Lit string  \<comment> \<open>in lower case\<close>
  | Class "char \<Rightarrow> bool" nat  \<comment> \<open>at least so many characters\<close>
  | Boundary

definition is_word :: "char \<Rightarrow> bool" where
  "is_word c \<longleftrightarrow> is_digit c \<or> is_lower (lower_char c) \<or> c = CHR ''_''"

definition word_at :: "char option \<Rightarrow> bool" where
  "word_at c = (case c of None \<Rightarrow> False | Some x \<Rightarrow> is_word x)"

definition head :: "string \<Rightarrow> char option" where
  "head s = (case s of [] \<Rightarrow> None | c # _ \<Rightarrow> Some c)"

definition before :: "char option \<Rightarrow> string \<Rightarrow> char option" where
  \<comment> \<open>the character before what follows \<open>s\<close>\<close>
  "before prev s = (if s = [] then prev else Some (last s))"

fun first_some :: "'a option list \<Rightarrow> 'a option" where
  "first_some [] = None"
| "first_some (None # xs) = first_some xs"
| "first_some (Some x # xs) = Some x"

text \<open>The length of the match at the start of \<open>s\<close>; \<open>prev\<close> is the character before it.\<close>

fun rx_match :: "rx list \<Rightarrow> char option \<Rightarrow> string \<Rightarrow> nat option" where
  "rx_match [] prev s = Some 0"
| "rx_match (Boundary # r) prev s = (if word_at prev \<noteq> word_at (head s) then rx_match r prev s else None)"
| "rx_match (Lit t # r) prev s = (if to_lower (take (length t) s) = t
     then map_option (\<lambda>m. length t + m) (rx_match r (before prev (take (length t) s)) (drop (length t) s)) else None)"
| "rx_match (Class p n # r) prev s =
     (let len = length (takeWhile p s)
      in first_some (map (\<lambda>k. map_option (\<lambda>m. k + m) (rx_match r (before prev (take k s)) (drop k s))) (rev [n..<Suc len])))"

text \<open>\<open>s.replace(pattern, by)\<close> for a global pattern.\<close>

function rx_replace :: "rx list \<Rightarrow> string \<Rightarrow> char option \<Rightarrow> string \<Rightarrow> string" where
  "rx_replace r repl prev [] = []"
| "rx_replace r repl prev (c # s) = (case rx_match r prev (c # s) of
     Some (Suc m) \<Rightarrow> repl @ rx_replace r repl (before prev (take (Suc m) (c # s))) (drop m s)
   | _ \<Rightarrow> c # rx_replace r repl (Some c) s)"
  by pat_completeness auto
termination by (relation "measure (\<lambda>(r, b, prev, s). length s)") auto

section \<open>The patterns\<close>

definition is_hex :: "char \<Rightarrow> bool" where
  "is_hex c \<longleftrightarrow> is_digit c \<or> lower_char c \<in> set ''abcdef''"

definition is_alpha_num :: "char \<Rightarrow> bool" where
  "is_alpha_num c \<longleftrightarrow> is_digit c \<or> is_lower (lower_char c)"

definition token_pattern :: "string \<Rightarrow> rx list" where
  "token_pattern p = [Boundary, Lit p, Class is_hex 32, Boundary]"

definition key_pattern :: "string \<Rightarrow> rx list" where
  "key_pattern p = [Boundary, Lit p, Class (\<lambda>c. is_alpha_num c \<or> c \<in> set ''_-'') 24, Boundary]"

definition base64_class :: rx where
  "base64_class = Class (\<lambda>c. is_alpha_num c \<or> c \<in> set ''+/='') 1"

definition SECRET_PATTERNS :: "rx list list" where
  "SECRET_PATTERNS = [token_pattern ''abt_'', token_pattern ''ast_'', token_pattern ''aet_'', token_pattern ''apt_'',
     token_pattern ''asa_'', key_pattern ''av_live_'', key_pattern ''av_test_'',
     [Lit ''$argon2id$v='', Class is_digit 1, Lit ''$m='', Class is_digit 1, Lit '',t='', Class is_digit 1, Lit '',p='',
        Class is_digit 1, Lit ''$'', base64_class, Lit ''$'', base64_class],
     [Lit ''bearer'', Class is_space 1, Class (\<lambda>c. is_alpha_num c \<or> c \<in> set ''_.-'') 20]]"

definition redactSecrets :: "string \<Rightarrow> string" where
  "redactSecrets input = foldl (\<lambda>output p. rx_replace p ''[REDACTED_SECRET]'' None output) input SECRET_PATTERNS"

section \<open>Whole values\<close>

definition secret_name :: "string \<Rightarrow> bool" where
  "secret_name key = list_ex (str_includes (to_lower key)) [''password'', ''secret'', ''token'', ''key_hash'', ''private_key'']"

text \<open>The loop over \<open>Object.entries\<close>: \<open>result[key] = ...\<close>.\<close>

fun assign_all :: "(string \<times> jsval) list \<Rightarrow> (string \<times> jsval) list \<Rightarrow> (string \<times> jsval) list" where
  "assign_all acc [] = acc"
| "assign_all acc ((k, v) # kvs) = assign_all (obj_assign k v acc) kvs"

fun redactObject :: "jsval \<Rightarrow> jsval" where
  "redactObject (JStr s) = JStr (redactSecrets s)"
| "redactObject (JArr xs) = JArr (map redactObject xs)"
| "redactObject (JObj kvs) = JObj (assign_all []
     (map (\<lambda>kv. (fst kv, if secret_name (fst kv) then JStr ''[REDACTED]'' else redactObject (snd kv))) kvs))"
| "redactObject v = v"

section \<open>Properties\<close>

text \<open>Every property of a secret's name, at any depth, shows the mark and nothing else.\<close>

fun names_hidden :: "jsval \<Rightarrow> bool" where
  "names_hidden (JArr xs) = list_all names_hidden xs"
| "names_hidden (JObj kvs) = list_all (\<lambda>kv. if secret_name (fst kv) then snd kv = JStr ''[REDACTED]'' else names_hidden (snd kv)) kvs"
| "names_hidden v = True"

lemma al_set_all: "list_all P kvs \<Longrightarrow> P (k, v) \<Longrightarrow> list_all P (al_set k v kvs)"
  by (induction k v kvs rule: al_set.induct) auto

lemma assign_all_all: "list_all P acc \<Longrightarrow> list_all P kvs \<Longrightarrow> list_all P (assign_all acc kvs)"
  by (induction acc kvs rule: assign_all.induct) (auto simp: obj_assign_def al_set_all)

text \<open>
  Redaction hides by name: in a redacted value every property whose name contains \<open>password\<close>, \<open>secret\<close>, \<open>token\<close>,
  \<open>key_hash\<close> or \<open>private_key\<close> in any case, at any depth and inside arrays, holds the mark \<open>[REDACTED]\<close>.
\<close>

theorem redaction_hides_names: "names_hidden (redactObject v)"
proof (induction v rule: redactObject.induct)
  case (3 kvs)
  have "list_all (\<lambda>kv. if secret_name (fst kv) then snd kv = JStr ''[REDACTED]'' else names_hidden (snd kv))
      (map (\<lambda>kv. (fst kv, if secret_name (fst kv) then JStr ''[REDACTED]'' else redactObject (snd kv))) kvs)"
    using 3 by (auto simp: list_all_iff)
  then show ?case by (simp add: assign_all_all)
qed (auto simp: list_all_iff)

section \<open>Texts a pattern leaves alone\<close>

definition kept :: "rx list \<Rightarrow> string \<Rightarrow> bool" where
  "kept r s \<longleftrightarrow> (\<forall>repl. rx_replace r repl None s = s)"

lemma replace_none:
  "(\<And>i. i < length s \<Longrightarrow> rx_match r (if i = 0 then prev else Some (s ! (i - 1))) (drop i s) = None) \<Longrightarrow>
    rx_replace r repl prev s = s"
proof (induction s arbitrary: prev)
  case (Cons c s)
  have "rx_match r prev (c # s) = None" using Cons.prems [of 0] by simp
  moreover have "rx_replace r repl (Some c) s = s"
  proof (rule Cons.IH)
    fix i
    assume "i < length s"
    then show "rx_match r (if i = 0 then Some c else Some (s ! (i - 1))) (drop i s) = None"
      using Cons.prems [of "Suc i"] by (cases i) auto
  qed
  ultimately show ?case by simp
qed simp

lemma kept_no_literal:
  assumes "\<not> str_includes (to_lower s) q" "r = Lit q # r' \<or> r = Boundary # Lit q # r'"
  shows "kept r s"
  unfolding kept_def
proof (intro allI replace_none)
  fix i
  have "to_lower (take (length q) (drop i s)) \<noteq> q"
  proof
    assume "to_lower (take (length q) (drop i s)) = q"
    moreover have "sublist (to_lower (take (length q) (drop i s))) (to_lower s)"
      unfolding to_lower_def by (intro map_mono_sublist sublist_order.order.trans [OF sublist_take sublist_drop])
    ultimately show False using assms(1) by (simp add: str_includes_sublist)
  qed
  then show "rx_match r (if i = 0 then None else Some (s ! (i - 1))) (drop i s) = None" using assms(2) by auto
qed

text \<open>In a text of word characters only, a pattern that begins at a word boundary can only match at the start.\<close>

lemma kept_words:
  assumes "list_all is_word s" "rx_match (Boundary # r) None s = None"
  shows "kept (Boundary # r) s"
  unfolding kept_def
proof (intro allI replace_none)
  fix i
  assume i: "i < length s"
  show "rx_match (Boundary # r) (if i = 0 then None else Some (s ! (i - 1))) (drop i s) = None"
  proof (cases "i = 0")
    case False
    then have "is_word (s ! (i - 1))" "is_word (s ! i)" using assms(1) i by (auto simp: list_all_length)
    then show ?thesis using False i by (simp add: word_at_def head_def Cons_nth_drop_Suc [OF i, symmetric])
  qed (use assms(2) in simp)
qed

lemma mark_kept: "list_all (\<lambda>p. kept p ''[REDACTED_SECRET]'') SECRET_PATTERNS"
proof -
  have low: "to_lower ''[REDACTED_SECRET]'' = ''[redacted_secret]''" by code_simp
  show ?thesis
    by (simp add: SECRET_PATTERNS_def token_pattern_def key_pattern_def)
      (intro conjI; rule kept_no_literal, simp_all add: low starts_with_def)
qed

section \<open>Tokens\<close>

definition token_prefixes :: "string list" where
  "token_prefixes = [''abt_'', ''ast_'', ''aet_'', ''apt_'', ''asa_'']"

lemma hex_word: "is_hex c \<Longrightarrow> is_word c"
  by (auto simp: is_hex_def is_word_def is_lower_def)

lemma hex_words: "list_all is_hex ds \<Longrightarrow> list_all is_word ds"
  by (auto simp: list_all_iff hex_word)

lemma prefix_words: "p \<in> insert ''ast_saml_'' (set token_prefixes) \<Longrightarrow> list_all is_word p"
  by (auto simp: token_prefixes_def is_word_def is_lower_def lower_char_def is_upper_def)

lemma first_some_Cons: "x \<noteq> None \<Longrightarrow> first_some (x # xs) = x"
  by (cases x) auto

lemma class_all:
  assumes "takeWhile q s = s" "n \<le> length s" "rx_match r (before prev s) [] \<noteq> None"
  shows "rx_match (Class q n # r) prev s = map_option (\<lambda>m. length s + m) (rx_match r (before prev s) [])"
proof -
  have l: "length (takeWhile q s) = length s" by (simp only: assms(1))
  have u: "rev [n..<Suc (length s)] = length s # rev [n..<length s]" using assms(2) by simp
  show ?thesis unfolding rx_match.simps l Let_def u using assms(3) by (simp add: first_some_Cons)
qed

lemma class_none: "takeWhile q s = [] \<Longrightarrow> 0 < n \<Longrightarrow> rx_match (Class q n # r) prev s = None"
  by (simp add: Let_def)

lemma token_match:
  assumes "p \<in> set token_prefixes" "list_all is_hex ds" "32 \<le> length ds"
  shows "rx_match (token_pattern p) None (p @ ds) = Some (length (p @ ds))"
proof -
  have p: "to_lower p = p" "p \<noteq> []" "word_at (head (p @ ds))"
    using assms(1) by (auto simp: token_prefixes_def to_lower_def lower_char_def is_upper_def word_at_def head_def is_word_def is_lower_def)
  have ds: "ds \<noteq> []" "takeWhile is_hex ds = ds" using assms(2,3) by (auto simp: list_all_iff)
  have e: "word_at (before (before None p) ds)"
    using assms(2) ds hex_word by (auto simp: before_def word_at_def list_all_iff)
  have b: "rx_match [Boundary] (before (before None p) ds) [] = Some 0"
    using e by (simp add: word_at_def head_def)
  have "rx_match [Class is_hex 32, Boundary] (before None p) ds = Some (length ds)"
    by (rule trans [OF class_all [OF ds(2) assms(3)]]) (unfold b, simp_all)
  then show ?thesis using p by (simp add: token_pattern_def word_at_def [of None] del: rx_match.simps(4))
qed

lemma words_pass:
  assumes "list_all is_word s" "\<not> starts_with (to_lower s) q"
  shows "kept (Boundary # Lit q # r) s"
proof (rule kept_words [OF assms(1)])
  have "to_lower (take (length q) s) \<noteq> q" using assms(2) by (auto simp: starts_with_def to_lower_def take_map)
  then show "rx_match (Boundary # Lit q # r) None s = None" by simp
qed

lemma lower_dollar: "lower_char c = CHR ''$'' \<longleftrightarrow> c = CHR ''$''"
proof -
  have "lower_char c = CHR ''$'' \<Longrightarrow> is_upper c \<Longrightarrow> False"
  proof -
    assume a: "lower_char c = CHR ''$''" "is_upper c"
    then have "char_of (of_char c + 32 :: nat) = CHR ''$''" by (simp add: lower_char_def)
    then have "of_char (char_of (of_char c + 32 :: nat) :: char) = (36 :: nat)" by simp
    then show False using a(2) by (simp add: is_upper_def)
  qed
  then show ?thesis by (cases "is_upper c") (auto simp: lower_char_def is_upper_def)
qed

lemma word_low: "is_word c \<Longrightarrow> lower_char c \<noteq> CHR ''$''"
  unfolding is_word_def by (elim disjE) (auto simp: lower_dollar is_digit_def lower_char_def is_upper_def is_lower_def)

lemma word_space: "is_word c \<Longrightarrow> \<not> is_space c"
  by (auto simp: is_word_def is_space_def lower_char_def is_lower_def is_digit_def is_upper_def split: if_splits)

lemma word_kept_rest:
  assumes "list_all is_word s"
  shows "kept (Lit ''$argon2id$v='' # r) s" "kept (Lit ''bearer'' # Class is_space 1 # r) s"
proof -
  have "CHR ''$'' \<notin> set (to_lower s)"
    using assms word_low unfolding to_lower_def list_all_iff by (metis (no_types, lifting) imageE list.set_map)
  then have "\<not> str_includes (to_lower s) ''$argon2id$v=''"
    by (auto simp: str_includes_sublist dest!: set_mono_sublist)
  then show "kept (Lit ''$argon2id$v='' # r) s" by (rule kept_no_literal) simp
  have space: "takeWhile is_space (drop k s) = []" for k
  proof (cases "drop k s")
    case (Cons c t)
    then have "c \<in> set s" by (metis in_set_dropD list.set_intros(1))
    then show ?thesis using assms word_space by (simp add: Cons list_all_iff)
  qed simp
  show "kept (Lit ''bearer'' # Class is_space 1 # r) s"
    unfolding kept_def by (intro allI replace_none) (simp add: class_none space del: rx_match.simps(4))
qed

lemma keptD: "kept r s \<Longrightarrow> rx_replace r repl None s = s"
  by (simp add: kept_def)

lemma kept_fold: "list_all (\<lambda>p. kept p t) zs \<Longrightarrow> foldl (\<lambda>output p. rx_replace p repl None output) t zs = t"
  by (induction zs) (auto simp: keptD)

lemma redact_kept: "list_all (\<lambda>p. kept p s) SECRET_PATTERNS \<Longrightarrow> redactSecrets s = s"
  unfolding redactSecrets_def by (rule kept_fold)

lemma redact_hit:
  assumes "SECRET_PATTERNS = xs @ p # ys" "list_all (\<lambda>p. kept p s) xs"
    "rx_replace p ''[REDACTED_SECRET]'' None s = ''[REDACTED_SECRET]''"
  shows "redactSecrets s = ''[REDACTED_SECRET]''"
proof -
  have "list_all (\<lambda>p. kept p ''[REDACTED_SECRET]'') ys" using mark_kept by (simp add: assms(1))
  then show ?thesis by (simp add: redactSecrets_def assms kept_fold)
qed

lemma saml_kept: "list_all is_hex ds \<Longrightarrow> kept (token_pattern q) (''ast_saml_'' @ ds)" if "q \<in> set token_prefixes"
proof -
  assume h: "list_all is_hex ds"
  then have w: "list_all is_word (''ast_saml_'' @ ds)"
    using prefix_words [of "''ast_saml_''"] hex_words by (simp del: append.simps)
  show "kept (token_pattern q) (''ast_saml_'' @ ds)"
    unfolding token_pattern_def
  proof (rule kept_words [OF w])
    have "takeWhile is_hex (''saml_'' @ ds) = []"
      by (simp add: is_hex_def is_digit_def lower_char_def is_upper_def)
    then show "rx_match [Boundary, Lit q, Class is_hex 32, Boundary] None (''ast_saml_'' @ ds) = None"
      using that class_none [of is_hex "''saml_'' @ ds" 32 "[Boundary]"]
      by (auto simp: token_prefixes_def to_lower_def lower_char_def is_upper_def simp del: rx_match.simps(4))
  qed
qed

text \<open>
  C31. Session and access tokens are redacted: a text that is one of the five kinds of token (its prefix and at least 32
  hexadecimal digits) becomes the mark. A session token of the SAML callback, which puts \<open>saml_\<close> between prefix
  and digits, matches no pattern and passes unchanged.
\<close>

theorem tokens_redacted:
  assumes "p \<in> set token_prefixes" "list_all is_hex ds" "32 \<le> length ds"
  shows "redactSecrets (p @ ds) = ''[REDACTED_SECRET]'' \<and> redactSecrets (''ast_saml_'' @ ds) = ''ast_saml_'' @ ds"
proof
  obtain c t where s: "p @ ds = c # t" using assms(1) by (cases p) (auto simp: token_prefixes_def)
  have hit: "rx_replace (token_pattern p) ''[REDACTED_SECRET]'' None (p @ ds) = ''[REDACTED_SECRET]''"
    using token_match [OF assms] unfolding s by simp
  have w: "list_all is_word (p @ ds)"
    using assms(1,2) prefix_words hex_words by simp
  have pass: "kept (token_pattern q) (p @ ds)" if "q \<in> set token_prefixes" "q \<noteq> p" for q
  proof -
    have "\<not> starts_with (to_lower (p @ ds)) q"
      using that assms(1) by (auto simp: token_prefixes_def starts_with_def to_lower_def lower_char_def is_upper_def)
    then show ?thesis unfolding token_pattern_def by (rule words_pass [OF w])
  qed
  obtain xs zs where d: "token_prefixes = xs @ p # zs" "p \<notin> set xs"
    using split_list_first [OF assms(1)] by blast
  obtain rest where "SECRET_PATTERNS = map token_pattern token_prefixes @ rest"
    by (simp add: SECRET_PATTERNS_def token_prefixes_def)
  then have "SECRET_PATTERNS = map token_pattern xs @ token_pattern p # (map token_pattern zs @ rest)"
    by (simp add: d(1))
  then show "redactSecrets (p @ ds) = ''[REDACTED_SECRET]''"
  proof (rule redact_hit)
    show "list_all (\<lambda>q. kept q (p @ ds)) (map token_pattern xs)"
      unfolding list_all_iff
    proof
      fix r
      assume "r \<in> set (map token_pattern xs)"
      then obtain q where q: "q \<in> set xs" "r = token_pattern q" by auto
      have "q \<in> set token_prefixes" unfolding d(1) using q(1) by simp
      moreover have "q \<noteq> p" using q(1) d(2) by blast
      ultimately show "kept r (p @ ds)" unfolding q(2) by (rule pass)
    qed
  qed (rule hit)
  have w2: "list_all is_word (''ast_saml_'' @ ds)"
    using assms(2) prefix_words [of "''ast_saml_''"] hex_words by (simp del: append.simps)
  have no: "\<not> starts_with (to_lower (''ast_saml_'' @ ds)) q" if "q \<in> {''av_live_'', ''av_test_''}" for q
    using that by (auto simp: starts_with_def to_lower_def lower_char_def is_upper_def)
  show "redactSecrets (''ast_saml_'' @ ds) = ''ast_saml_'' @ ds"
    by (rule redact_kept) (unfold SECRET_PATTERNS_def key_pattern_def list.pred_inject,
      intro conjI TrueI saml_kept words_pass w2 no word_kept_rest assms(2), simp_all add: token_prefixes_def)
qed

theorem tokens_redacted_witness:
  "redactSecrets (''ast_'' @ replicate 32 (CHR ''7'')) = ''[REDACTED_SECRET]''
    \<and> redactSecrets (''ast_saml_'' @ replicate 32 (CHR ''7'')) = ''ast_saml_'' @ replicate 32 (CHR ''7'')"
  by (rule tokens_redacted) (simp_all add: token_prefixes_def is_hex_def is_digit_def list_all_iff)

end
