(* ===== verification/Browser.thy ===== *)
theory Browser
  imports JsCalls
begin

text \<open>
  The client side of the console: the typed client with its error taxonomy and its redirection to the login
  page (lib/api/client.ts), parsing at the boundary (lib/api/schema.ts), feedback (lib/toast.ts), the adapters of the query
  library (lib/query/) and the calls of lib/api/nexus.ts. The state is the world of the effects with the
  window: its location, the text of \<open>document.cookie\<close>, the two variables of client.ts and what was
  navigated to and shown. Timers are part of the transport: a request that was aborted fails
  with the error \<open>AbortError\<close>.
\<close>

record bworld = world +
  b_window :: bool  \<comment> \<open>\<open>typeof window !== "undefined"\<close>, and \<open>document\<close> likewise\<close>
  b_path :: string
  b_search :: string
  b_jar :: string
  b_redirecting :: bool
  b_handler :: bool  \<comment> \<open>whether a redirect handler is set\<close>
  b_handled :: "string list"
  b_visited :: "string list"
  b_toasts :: "(string \<times> string \<times> string option) list"

type_synonym ('w, 'a) bact = "('w bworld_scheme, 'a) js"

section \<open>Redirection to the login page\<close>

definition setRedirectHandler :: "bool \<Rightarrow> 'w bworld_scheme \<Rightarrow> 'w bworld_scheme" where
  "setRedirectHandler h w = w\<lparr>b_handler := h\<rparr>"

definition resetRedirectFlag :: "'w bworld_scheme \<Rightarrow> 'w bworld_scheme" where
  "resetRedirectFlag w = w\<lparr>b_redirecting := False, b_handler := False\<rparr>"

definition is_entry_page :: "string \<Rightarrow> bool" where
  "is_entry_page p \<longleftrightarrow> p = ''/login'' \<or> starts_with p ''/login/'' \<or> p = ''/setup'' \<or> starts_with p ''/setup/'' \<or> p = ''/session-expired''"

definition login_target :: "string \<Rightarrow> string" where
  "login_target from_path = ''/login?from='' @ encode_uri_component from_path"

definition redirectToLogin :: "string option \<Rightarrow> 'w bworld_scheme \<Rightarrow> 'w bworld_scheme" where
  "redirectToLogin fromPath w =
     (if \<not> b_window w \<or> b_redirecting w then w
      else let pathname = (case fromPath of Some (c # p) \<Rightarrow> c # p | _ \<Rightarrow> b_path w)
       in if is_entry_page pathname then w
          else let w1 = w\<lparr>b_redirecting := True\<rparr>; target = login_target (pathname @ b_search w)
           in if b_handler w then w1\<lparr>b_handled := b_handled w @ [target]\<rparr>
              else if w_env w ''NODE_ENV'' = Some ''test'' then w1
              else w1\<lparr>b_visited := b_visited w @ [target]\<rparr>)"

section \<open>The error taxonomy\<close>

datatype error_kind = EngineUnreachable | EngineError | Unauthorized | Validation | Unknown

datatype cause = CauseExn exn | CauseBody jsval | CauseIssues "zissue list"

record client_error =
  ae_kind :: error_kind
  ae_message :: string
  ae_status :: "int option"
  ae_requestId :: "string option"
  ae_cause :: cause

type_synonym api_result = "client_error + jsval"

definition classifyStatus :: "int \<Rightarrow> error_kind" where
  "classifyStatus status =
     (if status = 401 \<or> status = 403 then Unauthorized
      else if status = 400 \<or> status = 422 then Validation
      else if status \<ge> 500 then EngineError else Unknown)"

definition client_message :: "jsval \<Rightarrow> string \<Rightarrow> int \<Rightarrow> string" where
  "client_message body rawText status =
     (case (if truthy body \<and> is_object body then member body ''error'' else JUndef) of
        JStr s \<Rightarrow> s
      | _ \<Rightarrow> if trim rawText \<noteq> [] then rawText else ''request failed with status '' @ show_int status)"

section \<open>The CSRF header\<close>

text \<open>The pattern \<open>(?:^|;\s*)autorix_csrf=([^;]*)\<close>, searched from the left: the text of its group.\<close>

definition csrf_key :: string where
  "csrf_key = ''autorix_csrf=''"

fun csrf_match :: "bool \<Rightarrow> string \<Rightarrow> string option" where
  "csrf_match start [] = None"
| "csrf_match start (c # s) =
     (if start \<and> starts_with (c # s) csrf_key then Some (takeWhile (\<lambda>x. x \<noteq> CHR '';'') (drop (length csrf_key) (c # s)))
      else if c = CHR '';'' \<and> starts_with (dropWhile is_space s) csrf_key
        then Some (takeWhile (\<lambda>x. x \<noteq> CHR '';'') (drop (length csrf_key) (dropWhile is_space s)))
      else csrf_match False s)"

definition uri_error :: exn where
  "uri_error = Error ''URIError'' ''URI malformed''"

definition getCsrfToken :: "'w bworld_scheme \<Rightarrow> string option res" where
  "getCsrfToken w = (if \<not> b_window w then Inr None else
     case csrf_match True (b_jar w) of
       None \<Rightarrow> Inr None
     | Some t \<Rightarrow> (case decode_uri_component t of Some v \<Rightarrow> Inr (Some v) | None \<Rightarrow> Inl uri_error))"

definition http_space :: "char \<Rightarrow> bool" where
  "http_space c \<longleftrightarrow> (of_char c :: nat) \<in> {9, 10, 13, 32}"

text \<open>\<open>headers.set\<close>: the value stripped of white space; a line break or a NUL inside it is a \<open>TypeError\<close>.\<close>

definition header_set :: "string \<Rightarrow> string \<Rightarrow> (string \<times> string) list \<Rightarrow> (string \<times> string) list res" where
  "header_set k v hs = (let v' = rev (dropWhile http_space (rev (dropWhile http_space v)))
     in if list_ex (\<lambda>c. (of_char c :: nat) \<in> {0, 10, 13}) v' then Inl (type_error ''Headers.set: invalid header value'')
        else Inr (al_set k v' hs))"

definition csrf_methods :: "string list" where
  "csrf_methods = [''POST'', ''PUT'', ''PATCH'', ''DELETE'']"

definition with_csrf :: "'w bworld_scheme \<Rightarrow> string \<Rightarrow> (string \<times> string) list \<Rightarrow> (string \<times> string) list res" where
  "with_csrf w m hs = (if to_upper m \<in> set csrf_methods \<and> header ''x-csrf-token'' hs = None
     then (case getCsrfToken w of
         Inl e \<Rightarrow> Inl e
       | Inr (Some (c # t)) \<Rightarrow> header_set ''x-csrf-token'' (c # t) hs
       | _ \<Rightarrow> Inr hs)
     else Inr hs)"

section \<open>fetchJSON\<close>

record fetch_options =
  fo_method :: "string option"
  fo_headers :: "(string \<times> string) list"
  fo_body :: http_body

definition no_options :: fetch_options where
  "no_options = \<lparr>fo_method = None, fo_headers = [], fo_body = NoBody\<rparr>"

definition fo_verb :: "fetch_options \<Rightarrow> string" where
  "fo_verb opts = (case fo_method opts of Some (c # m) \<Rightarrow> c # m | _ \<Rightarrow> ''GET'')"

definition unreachable :: "exn \<Rightarrow> client_error" where
  "unreachable err = \<lparr>ae_kind = EngineUnreachable,
     ae_message = (case err of Error name msg \<Rightarrow> if name = ''AbortError'' then ''request timed out'' else msg | Thrown _ \<Rightarrow> ''network error''),
     ae_status = None, ae_requestId = None, ae_cause = CauseExn err\<rparr>"

definition parsed_body :: "string \<Rightarrow> jsval" where
  "parsed_body rawText = (if rawText = [] then JNull else case json_parse rawText of Some v \<Rightarrow> v | None \<Rightarrow> JNull)"

definition is_public_auth :: "string \<Rightarrow> bool" where
  "is_public_auth url \<longleftrightarrow> str_includes url ''/api/auth/login'' \<or> str_includes url ''/api/auth/status'' \<or> str_includes url ''/api/auth/setup''"

definition status_error :: "http_response \<Rightarrow> string \<Rightarrow> client_error" where
  "status_error res rawText = \<lparr>ae_kind = classifyStatus (rs_status res),
     ae_message = client_message (parsed_body rawText) rawText (rs_status res), ae_status = Some (rs_status res),
     ae_requestId = header ''x-request-id'' (headers_of [] (rs_headers res)),
     ae_cause = CauseBody (js_coalesce (parsed_body rawText) (JStr rawText))\<rparr>"

definition read_result :: "string \<Rightarrow> http_response \<Rightarrow> ('w, api_result) bact" where
  "read_result url res = bnd (lift (rs_text res)) (\<lambda>rawText.
     if rs_ok res then ret (Inr (parsed_body rawText))
     else bnd (modify (\<lambda>w. if rs_status res = 401 \<and> b_window w \<and> \<not> is_public_auth url then redirectToLogin None w else w)) (\<lambda>_.
       ret (Inl (status_error res rawText))))"

definition fetchJSON :: "string \<Rightarrow> fetch_options \<Rightarrow> ('w, api_result) bact" where
  "fetchJSON url opts =
     bnd (asks (\<lambda>w. with_csrf w (fo_verb opts) (headers_of [] (fo_headers opts)))) (\<lambda>r. bnd (lift r) (\<lambda>hs.
     bnd (settle (fetch \<lparr>rq_method = fo_verb opts, rq_url = url, rq_headers = hs, rq_body = fo_body opts\<rparr>)) (\<lambda>r. case r of
       Inl err \<Rightarrow> ret (Inl (unreachable err))
     | Inr res \<Rightarrow> read_result url res)))"

section \<open>lib/api/schema.ts\<close>

definition issues_message :: "zissue list \<Rightarrow> string" where
  "issues_message iss = join ''; '' (map (\<lambda>(path, msg). (if path \<noteq> [] then join ''.'' path else ''(root)'') @ '': '' @ msg) iss)"

definition parseWithSchema :: "zschema \<Rightarrow> jsval \<Rightarrow> ('w, api_result) bact" where
  "parseWithSchema schema v = bnd (safe_parse schema v) (\<lambda>r. ret (case r of
     Inr d \<Rightarrow> Inr d
   | Inl iss \<Rightarrow> Inl \<lparr>ae_kind = Validation, ae_message = issues_message iss, ae_status = None, ae_requestId = None,
       ae_cause = CauseIssues iss\<rparr>))"

definition fetchAndParse :: "string \<Rightarrow> zschema \<Rightarrow> fetch_options \<Rightarrow> ('w, api_result) bact" where
  "fetchAndParse url schema opts = bnd (fetchJSON url opts) (\<lambda>r. case r of
     Inl e \<Rightarrow> ret (Inl e) | Inr d \<Rightarrow> parseWithSchema schema d)"

section \<open>lib/toast.ts\<close>

definition toastSuccess :: "string \<Rightarrow> 'w bworld_scheme \<Rightarrow> 'w bworld_scheme" where
  "toastSuccess message w = w\<lparr>b_toasts := b_toasts w @ [(''success'', message, None)]\<rparr>"

fun defaultFixFor :: "error_kind \<Rightarrow> string" where
  "defaultFixFor EngineUnreachable = ''Check that the engine is running and reachable, then try again.''"
| "defaultFixFor Unauthorized = ''Sign in again and retry.''"
| "defaultFixFor Validation = ''Fix the highlighted fields and try again.''"
| "defaultFixFor EngineError = ''The engine reported an internal error. Try again in a moment.''"
| "defaultFixFor Unknown = ''Try again, or check the engine'' @ [CHR 0x27] @ ''s logs if this keeps happening.''"

definition toastApiError :: "client_error \<Rightarrow> string option \<Rightarrow> 'w bworld_scheme \<Rightarrow> 'w bworld_scheme" where
  "toastApiError err fix_text w = w\<lparr>b_toasts := b_toasts w @
     [(''error'', ae_message err, Some (case fix_text of Some f \<Rightarrow> f | None \<Rightarrow> defaultFixFor (ae_kind err)))]\<rparr>"

section \<open>lib/query\<close>

text \<open>What a query throws: the error of the client, or any exception.\<close>

datatype query_error = QApi client_error | QExn exn

definition unauthorized_text :: "string \<Rightarrow> bool" where
  "unauthorized_text m \<longleftrightarrow> str_includes (to_lower m) ''unauthorized'' \<or> str_includes (to_lower m) ''authentication required''"

fun isUnauthorizedError :: "query_error \<Rightarrow> bool" where
  "isUnauthorizedError (QApi e) \<longleftrightarrow> ae_kind e = Unauthorized \<or> ae_status e = Some 401 \<or> unauthorized_text (ae_message e)"
| "isUnauthorizedError (QExn (Error name msg)) \<longleftrightarrow> unauthorized_text msg"
| "isUnauthorizedError (QExn (Thrown v)) \<longleftrightarrow> is_object v \<and> v \<noteq> JNull \<and>
     (member v ''kind'' = JStr ''unauthorized'' \<or> member v ''status'' = jint 401 \<or>
      (case member v ''message'' of JStr m \<Rightarrow> unauthorized_text m | _ \<Rightarrow> False))"

text \<open>The \<open>onError\<close> of both caches.\<close>

definition on_query_error :: "query_error \<Rightarrow> 'w bworld_scheme \<Rightarrow> 'w bworld_scheme" where
  "on_query_error err w = (if isUnauthorizedError err then redirectToLogin None w else w)"

definition query_defaults :: jsval where
  "query_defaults = JObj [
     (''queries'', JObj [(''staleTime'', jint 30000), (''retry'', jint 2), (''refetchOnWindowFocus'', JBool True)]),
     (''mutations'', JObj [(''retry'', jint 0)])]"

text \<open>The query function given to \<open>useQuery\<close>: data, or the error thrown.\<close>

definition useApiQuery_fn :: "('w, api_result) bact \<Rightarrow> ('w, query_error + jsval) bact" where
  "useApiQuery_fn queryFn = bnd (settle queryFn) (\<lambda>r. ret (case r of
     Inl e \<Rightarrow> Inl (QExn e)
   | Inr (Inl err) \<Rightarrow> Inl (QApi err)
   | Inr (Inr d) \<Rightarrow> Inr d))"

datatype success_message = NoMessage | FixedMessage string | MessageOf "jsval \<Rightarrow> string"

definition success_toast :: "success_message \<Rightarrow> jsval \<Rightarrow> 'w bworld_scheme \<Rightarrow> 'w bworld_scheme" where
  "success_toast msg d w = (case msg of
     FixedMessage (c # s) \<Rightarrow> toastSuccess (c # s) w
   | MessageOf f \<Rightarrow> toastSuccess (f d) w
   | _ \<Rightarrow> w)"

text \<open>The mutation function; \<open>on_success\<close> runs synchronously.\<close>

definition useApiMutation_fn ::
  "(jsval \<Rightarrow> ('w, api_result) bact) \<Rightarrow> success_message \<Rightarrow> (jsval \<Rightarrow> jsval \<Rightarrow> ('w, unit) bact) \<Rightarrow> string option \<Rightarrow> jsval \<Rightarrow> ('w, jsval) bact" where
  "useApiMutation_fn mutationFn msg on_success errorFix variables = bnd (mutationFn variables) (\<lambda>r. case r of
     Inl err \<Rightarrow> bnd (modify (toastApiError err errorFix)) (\<lambda>_. throw (Error ''Error'' (ae_message err)))
   | Inr d \<Rightarrow> bnd (modify (success_toast msg d)) (\<lambda>_. bnd (on_success d variables) (\<lambda>_. ret d)))"

section \<open>lib/api/nexus.ts\<close>

definition json_send :: "string \<Rightarrow> string \<Rightarrow> jsval \<Rightarrow> http_request" where
  "json_send m url v = \<lparr>rq_method = m, rq_url = url, rq_headers = headers_of [] json_type, rq_body = json_body v\<rparr>"

definition ok_json :: "string \<Rightarrow> http_request \<Rightarrow> ('w, jsval) bact" where
  "ok_json msg rq = bnd (fetch rq) (\<lambda>res. if \<not> rs_ok res then throw (Error ''Error'' msg) else response_json res)"

definition fetchSchema :: "('w, jsval) bact" where
  "fetchSchema = bnd (ok_json ''Failed to fetch schema'' (get_request ''/api/nexus/schema'')) (\<lambda>d. lift (get_prop d ''schema''))"

definition updateSchema :: "string \<Rightarrow> ('w, jsval) bact" where
  "updateSchema schema = bnd (ok_json ''Failed to update schema''
     (json_send ''PUT'' ''/api/nexus/schema'' (JObj [(''schema'', JStr schema)]))) (\<lambda>d. lift (get_prop d ''schema''))"

definition fetchTuples :: "('w, jsval) bact" where
  "fetchTuples = bnd (ok_json ''Failed to fetch tuples'' (get_request ''/api/nexus/tuples'')) (\<lambda>d. lift (get_prop d ''tuples''))"

definition addTuple :: "jsval \<Rightarrow> ('w, jsval) bact" where
  "addTuple tuple = ok_json ''Failed to add tuple'' (json_send ''POST'' ''/api/nexus/tuples'' tuple)"

definition nexus_deleteTuples :: "string list \<Rightarrow> ('w, jsval) bact" where
  "nexus_deleteTuples idents = ok_json ''Failed to delete tuples''
     \<lparr>rq_method = ''DELETE'', rq_url = ''/api/nexus/tuples?ids='' @ join '','' idents, rq_headers = [], rq_body = NoBody\<rparr>"

definition checkAccess :: "jsval \<Rightarrow> ('w, jsval) bact" where
  "checkAccess query = ok_json ''Failed to run check'' (json_send ''POST'' ''/api/nexus/check'' query)"

section \<open>What a request ends with\<close>

definition fetched :: "string \<Rightarrow> fetch_options \<Rightarrow> (string \<times> string) list \<Rightarrow> http_request" where
  "fetched url opts hs = \<lparr>rq_method = fo_verb opts, rq_url = url, rq_headers = hs, rq_body = fo_body opts\<rparr>"

lemma run_fetchJSON:
  "fetchJSON url opts w = (case with_csrf w (fo_verb opts) (headers_of [] (fo_headers opts)) of
     Inl e \<Rightarrow> (Inl e, w)
   | Inr hs \<Rightarrow> (case w_upstream w (w_sent w @ [fetched url opts hs]) of
       Inl err \<Rightarrow> (Inr (Inl (unreachable err)), log_request (fetched url opts hs) w)
     | Inr res \<Rightarrow> read_result url res (log_request (fetched url opts hs) w)))"
  by (auto simp: fetchJSON_def run fetched_def split: sum.split)

lemma run_read_result:
  "read_result url res w = (case rs_text res of Inl e \<Rightarrow> (Inl e, w)
   | Inr t \<Rightarrow> if rs_ok res then (Inr (Inr (parsed_body t)), w)
       else (Inr (Inl (status_error res t)),
         if rs_status res = 401 \<and> b_window w \<and> \<not> is_public_auth url then redirectToLogin None w else w))"
  by (auto simp: read_result_def run split: sum.split)

lemma sent_redirect [simp]: "w_sent (redirectToLogin p w) = w_sent w"
  by (simp add: redirectToLogin_def Let_def)

text \<open>
  C24. The taxonomy of the client tells failures apart: when \<open>fetchJSON\<close> returns, it has sent one request; without an answer the
  result is \<open>engine-unreachable\<close>; with one it is data exactly for a status from 200 to 299, else an error that carries the
  status, \<open>unauthorized\<close> exactly for 401 and 403, \<open>validation\<close> exactly for 400 and 422, \<open>engine-error\<close> exactly from 500 on, and never
  \<open>engine-unreachable\<close>.
\<close>

theorem fetchJSON_taxonomy:
  assumes "fetchJSON url opts w = (Inr r, w')"
  shows "\<exists>hs. w_sent w' = w_sent w @ [fetched url opts hs] \<and>
    (case w_upstream w (w_sent w') of
       Inl err \<Rightarrow> (\<exists>e. r = Inl e \<and> ae_kind e = EngineUnreachable \<and> ae_cause e = CauseExn err)
     | Inr res \<Rightarrow> \<exists>t. rs_text res = Inr t \<and>
         (if rs_ok res then r = Inr (parsed_body t)
          else \<exists>e. r = Inl e \<and> ae_status e = Some (rs_status res) \<and> ae_kind e \<noteq> EngineUnreachable
            \<and> (ae_kind e = Unauthorized \<longleftrightarrow> rs_status res \<in> {401, 403})
            \<and> (ae_kind e = Validation \<longleftrightarrow> rs_status res \<in> {400, 422})
            \<and> (ae_kind e = EngineError \<longleftrightarrow> 500 \<le> rs_status res)))"
proof -
  obtain hs where hs: "with_csrf w (fo_verb opts) (headers_of [] (fo_headers opts)) = Inr hs"
    using assms by (auto simp: run_fetchJSON split: sum.splits)
  have "w_sent w' = w_sent w @ [fetched url opts hs]"
    using assms hs by (auto simp: run_fetchJSON run_read_result log_request_def split: sum.splits if_splits)
  then show ?thesis
    using assms hs by (intro exI [of _ hs])
      (auto simp: run_fetchJSON run_read_result unreachable_def status_error_def classifyStatus_def split: sum.splits if_splits)
qed

definition example_browser :: "string \<Rightarrow> string \<Rightarrow> (http_request list \<Rightarrow> exn + http_response) \<Rightarrow> bworld" where
  "example_browser path jar up = world.extend (example_world [] up) \<lparr>b_window = True, b_path = path, b_search = [], b_jar = jar,
     b_redirecting = False, b_handler = False, b_handled = [], b_visited = [], b_toasts = []\<rparr>"

lemma example_browser_sel [simp]:
  "w_env (example_browser p j up) = (\<lambda>_. None)" "w_upstream (example_browser p j up) = up" "w_sent (example_browser p j up) = []"
  "b_window (example_browser p j up)" "b_path (example_browser p j up) = p" "b_search (example_browser p j up) = []"
  "b_jar (example_browser p j up) = j" "\<not> b_redirecting (example_browser p j up)" "\<not> b_handler (example_browser p j up)"
  "b_handled (example_browser p j up) = []" "b_visited (example_browser p j up) = []"
  by (simp_all add: example_browser_def world.defs example_world_def)

theorem fetchJSON_taxonomy_witness:
  "\<exists>e. fst (fetchJSON ''/api/keys'' no_options (example_browser ''/keys'' [] (\<lambda>_. Inr \<lparr>rs_status = 503, rs_headers = [], rs_text = Inr ''down''\<rparr>)))
     = Inr (Inl e) \<and> ae_kind e = EngineError"
proof -
  let ?w = "example_browser ''/keys'' [] (\<lambda>_. Inr \<lparr>rs_status = 503, rs_headers = [], rs_text = Inr ''down''\<rparr>)"
  obtain r w' where r: "fetchJSON ''/api/keys'' no_options ?w = (Inr r, w')"
    by (cases "fetchJSON ''/api/keys'' no_options ?w")
      (auto simp: run_fetchJSON run_read_result with_csrf_def no_options_def fo_verb_def csrf_methods_def to_upper_def upper_char_def is_lower_def rs_ok_def)
  show ?thesis using fetchJSON_taxonomy [OF r] unfolding r by (auto simp: rs_ok_def)
qed

section \<open>When the client throws\<close>

text \<open>
  The client may throw although its contract says it returns a result: with a token in the cookie text that is not valid
  percent-encoding, every mutating request ends in a \<open>URIError\<close> and nothing is sent; a body that cannot be
  read after the answer ends it with that error too.
\<close>

theorem fetchJSON_throws:
  "fo_verb opts \<in> set csrf_methods \<Longrightarrow> header ''x-csrf-token'' (headers_of [] (fo_headers opts)) = None \<Longrightarrow> b_window w \<Longrightarrow>
    csrf_match True (b_jar w) = Some t \<Longrightarrow> decode_uri_component t = None \<Longrightarrow>
    fetchJSON url opts w = (Inl uri_error, w)"
  by (auto simp: run_fetchJSON with_csrf_def getCsrfToken_def csrf_methods_def to_upper_def upper_char_def is_lower_def)

theorem fetchJSON_throws_witness:
  "fetchJSON ''/api/keys'' (no_options\<lparr>fo_method := Some ''POST''\<rparr>) (example_browser ''/keys'' ''a=1; autorix_csrf=%E0'' up)
     = (Inl uri_error, example_browser ''/keys'' ''a=1; autorix_csrf=%E0'' up)"
proof (rule fetchJSON_throws)
  show "csrf_match True (b_jar (example_browser ''/keys'' ''a=1; autorix_csrf=%E0'' up)) = Some ''%E0''"
    by (simp add: csrf_key_def starts_with_def is_space_def)
  show "decode_uri_component ''%E0'' = None" by code_simp
qed (simp_all add: no_options_def fo_verb_def csrf_methods_def header_def)

section \<open>The token in the cookie text\<close>

definition jar_text :: "(string \<times> string) list \<Rightarrow> string" where
  "jar_text cookies = join ''; '' (map (\<lambda>(k, v). k @ ''='' @ v) cookies)"

definition cookie_name :: "string \<Rightarrow> bool" where
  "cookie_name k \<longleftrightarrow> k \<noteq> [] \<and> \<not> is_space (hd k) \<and> CHR '';'' \<notin> set k \<and> CHR ''='' \<notin> set k"

lemma csrf_skip: "CHR '';'' \<notin> set s \<Longrightarrow> csrf_match False (s @ t) = csrf_match False t"
  by (induction s) auto

lemma takeWhile_until:
  assumes "c \<notin> set v" "s = [] \<or> hd s = c"
  shows "takeWhile (\<lambda>x. x \<noteq> c) (v @ s) = v"
proof -
  have "\<forall>x \<in> set v. x \<noteq> c" using assms(1) by blast
  then show ?thesis using assms(2) by (cases s) (simp_all add: takeWhile_append2 takeWhile_eq_all_conv)
qed

lemma csrf_key_split: "csrf_key = ''autorix_csrf'' @ [CHR ''='']"
  by (simp add: csrf_key_def)

lemma starts_with_name:
  assumes "cookie_name k"
  shows "starts_with (k @ CHR ''='' # s) csrf_key \<longleftrightarrow> k = ''autorix_csrf''"
proof
  assume "starts_with (k @ CHR ''='' # s) csrf_key"
  then obtain z where z: "k @ CHR ''='' # s = ''autorix_csrf'' @ CHR ''='' # z"
    by (metis starts_with_def csrf_key_split append_take_drop_id append_assoc append_Cons append_Nil)
  have "CHR ''='' \<notin> set k" "CHR ''='' \<notin> set ''autorix_csrf''" using assms by (auto simp: cookie_name_def)
  then have "takeWhile (\<lambda>x. x \<noteq> CHR ''='') (k @ CHR ''='' # s) = k"
    "takeWhile (\<lambda>x. x \<noteq> CHR ''='') (''autorix_csrf'' @ CHR ''='' # z) = ''autorix_csrf''"
    by (intro takeWhile_until; simp)+
  then show "k = ''autorix_csrf''" using z by metis
qed (simp add: starts_with_def csrf_key_def)

lemma csrf_first:
  assumes "cookie_name k" "CHR '';'' \<notin> set v" "s = [] \<or> hd s = CHR '';''"
  shows "csrf_match True (k @ ''='' @ v @ s) = (if k = ''autorix_csrf'' then Some v else csrf_match False s)"
proof (cases "k = ''autorix_csrf''")
  case True
  have "takeWhile (\<lambda>x. x \<noteq> CHR '';'') (v @ s) = v"
    using assms(2,3) by (rule takeWhile_until)
  then show ?thesis using True by (simp add: csrf_key_def starts_with_def)
next
  case False
  obtain c k' where k: "k = c # k'" using assms(1) by (cases k) (auto simp: cookie_name_def)
  have "\<not> starts_with (k @ CHR ''='' # v @ s) csrf_key" using False starts_with_name [OF assms(1)] by simp
  moreover have "c \<noteq> CHR '';''" using assms(1) by (auto simp: cookie_name_def k)
  ultimately have "csrf_match True (k @ ''='' @ v @ s) = csrf_match False (k' @ ''='' @ v @ s)" by (simp add: k)
  also have "\<dots> = csrf_match False ((k' @ ''='' @ v) @ s)" by simp
  also have "\<dots> = csrf_match False s" using assms(1,2) by (intro csrf_skip) (auto simp: cookie_name_def k)
  finally show ?thesis using False by simp
qed

lemma csrf_next:
  assumes "cookie_name k"
  shows "csrf_match False (''; '' @ k @ ''='' @ s) = csrf_match True (k @ ''='' @ s)"
proof -
  obtain c k' where k: "k = c # k'" using assms by (cases k) (auto simp: cookie_name_def)
  have n: "\<not> is_space c" "c \<noteq> CHR '';''" "is_space (CHR '' '')" using assms by (auto simp: cookie_name_def k is_space_def)
  have "\<not> starts_with (CHR '' '' # k @ ''='' @ s) csrf_key" by (simp add: starts_with_def csrf_key_def)
  then show ?thesis using n by (auto simp: k csrf_key_def starts_with_def)
qed

text \<open>
  C25. The client finds its CSRF token: the pattern of \<open>getCsrfToken\<close>, applied to the text of any cookies, yields the value of
  the first cookie named \<open>autorix_csrf\<close> and nothing when there is none; names that end in this text and values that
  contain it do not confuse it.
\<close>

theorem csrf_token_of_jar:
  "list_all (\<lambda>(k, v). cookie_name k \<and> CHR '';'' \<notin> set v) cookies \<Longrightarrow>
    csrf_match True (jar_text cookies) = map_of cookies ''autorix_csrf''"
proof (induction cookies)
  case (Cons kv rest)
  obtain k v where kv: "kv = (k, v)" by (cases kv)
  show ?case
  proof (cases rest)
    case Nil
    then show ?thesis using Cons.prems csrf_first [of k v "[]"] by (simp add: kv jar_text_def)
  next
    case (Cons kv2 rest2)
    obtain k2 v2 where kv2: "kv2 = (k2, v2)" by (cases kv2)
    obtain z where z: "jar_text rest = k2 @ ''='' @ z"
      by (cases rest2) (auto simp: Cons kv2 jar_text_def)
    have j: "jar_text (kv # rest) = k @ ''='' @ v @ (''; '' @ jar_text rest)"
      by (simp add: Cons kv jar_text_def)
    have "csrf_match True (jar_text (kv # rest)) = (if k = ''autorix_csrf'' then Some v else csrf_match False (''; '' @ jar_text rest))"
      unfolding j using Cons.prems by (intro csrf_first) (auto simp: kv)
    also have "csrf_match False (''; '' @ jar_text rest) = map_of rest ''autorix_csrf''"
    proof -
      have n: "cookie_name k2" using Cons.prems by (simp add: \<open>rest = kv2 # rest2\<close> kv2)
      show ?thesis unfolding z csrf_next [OF n] unfolding z [symmetric] using Cons.prems by (intro Cons.IH) simp
    qed
    finally show ?thesis by (simp add: kv)
  qed
qed (simp add: jar_text_def)

theorem csrf_token_of_jar_witness:
  "csrf_match True ''x_autorix_csrf=no; a=autorix_csrf=no; autorix_csrf=yes'' = Some ''yes''"
  using csrf_token_of_jar [of "[(''x_autorix_csrf'', ''no''), (''a'', ''autorix_csrf=no''), (''autorix_csrf'', ''yes'')]"]
  by (simp add: jar_text_def cookie_name_def is_space_def)

section \<open>One redirection at a time\<close>

text \<open>
  The steps the page takes: requests, failed queries, direct redirections, a change of the handler, navigation inside
  the application and changes of the cookies. Only \<open>resetRedirectFlag\<close> is left out.
\<close>

inductive page_step :: "bworld \<Rightarrow> bworld \<Rightarrow> bool" where
  request_step: "page_step w (snd (fetchJSON url opts w))"
| query_step: "page_step w (on_query_error err w)"
| redirect_step: "page_step w (redirectToLogin p w)"
| handler_step: "page_step w (setRedirectHandler h w)"
| route_step: "page_step w (w\<lparr>b_path := p, b_search := q\<rparr>)"
| cookie_step: "page_step w (w\<lparr>b_jar := j\<rparr>)"

inductive page_steps :: "bworld \<Rightarrow> bworld \<Rightarrow> bool" where
  none: "page_steps w w"
| more_steps: "page_steps w w' \<Longrightarrow> page_step w' w'' \<Longrightarrow> page_steps w w''"

definition targets :: "'w bworld_scheme \<Rightarrow> string list" where
  "targets w = b_handled w @ b_visited w"

definition one_more :: "string list \<Rightarrow> string list \<Rightarrow> bool" where
  "one_more old new \<longleftrightarrow> (\<exists>p s xs ys. old = xs @ ys \<and> new = xs @ login_target (p @ s) # ys \<and> \<not> is_entry_page p)"

text \<open>What one step may do to the targets: nothing, or add the login page with a path that is not an entry page.\<close>

definition redirected_once :: "'w bworld_scheme \<Rightarrow> 'w bworld_scheme \<Rightarrow> bool" where
  "redirected_once w w' \<longleftrightarrow> (b_redirecting w \<longrightarrow> b_redirecting w') \<and>
     (targets w' = targets w \<or> \<not> b_redirecting w \<and> b_redirecting w' \<and> one_more (targets w) (targets w'))"

lemma once_redirect: "redirected_once w (redirectToLogin p w)"
proof -
  define q where "q = (case p of Some (c # t) \<Rightarrow> c # t | _ \<Rightarrow> b_path w)"
  show ?thesis
  proof (cases "\<not> b_window w \<or> b_redirecting w \<or> is_entry_page q")
    case True
    then show ?thesis by (auto simp: redirected_once_def redirectToLogin_def q_def [symmetric] targets_def)
  next
    case False
    have "\<exists>xs ys. targets w = xs @ ys \<and> targets (redirectToLogin p w) = xs @ login_target (q @ b_search w) # ys"
      if "targets (redirectToLogin p w) \<noteq> targets w"
    proof (cases "b_handler w")
      case True
      then show ?thesis using False
        by (intro exI [of _ "b_handled w"] exI [of _ "b_visited w"]) (simp add: targets_def redirectToLogin_def q_def [symmetric])
    next
      case no: False
      then show ?thesis using False that
        by (intro exI [of _ "b_handled w @ b_visited w"] exI [of _ "[]"]) (auto simp: targets_def redirectToLogin_def q_def [symmetric] Let_def)
    qed
    moreover have "b_redirecting (redirectToLogin p w)" using False by (simp add: redirectToLogin_def q_def [symmetric] Let_def)
    ultimately show ?thesis using False unfolding redirected_once_def one_more_def by blast
  qed
qed

lemma once_same: "targets w' = targets w \<Longrightarrow> b_redirecting w' = b_redirecting w \<Longrightarrow> redirected_once w w'"
  by (simp add: redirected_once_def)

lemma once_fetchJSON: "redirected_once w (snd (fetchJSON url opts w))"
proof -
  have log: "redirected_once w (log_request rq w)" for rq
    by (rule once_same) (simp_all add: log_request_def targets_def)
  have redirect: "redirected_once w (redirectToLogin None (log_request rq w))" for rq
    using once_redirect [of "log_request rq w" None] by (simp add: redirected_once_def log_request_def targets_def)
  show ?thesis
    using log redirect once_same [of w w] by (auto simp: run_fetchJSON run_read_result split: sum.splits if_splits)
qed

lemma once_step: "page_step w w' \<Longrightarrow> redirected_once w w'"
proof (induction rule: page_step.induct)
  case (query_step w err)
  then show ?case by (simp add: on_query_error_def once_redirect once_same)
qed (auto simp: once_fetchJSON once_redirect setRedirectHandler_def targets_def intro!: once_same)

text \<open>
  C23. A burst of failures leads to one redirection: from a page that is not redirecting, any sequence of requests, failed
  queries, redirections, handlers, navigation and cookie changes sends the operator to the login page at most once, never from the
  login, setup or expiry pages, with the path and query left behind in \<open>from\<close>.
\<close>

theorem one_redirection:
  assumes "page_steps w w'" "\<not> b_redirecting w"
  shows "targets w' = targets w \<or> one_more (targets w) (targets w')"
proof -
  have "redirected_once w w'" using assms
  proof (induction rule: page_steps.induct)
    case (none w)
    show ?case by (rule once_same) simp_all
  next
    case (more_steps w w' w'')
    then have "redirected_once w w'" "redirected_once w' w''" using once_step by auto
    then show ?case by (auto simp: redirected_once_def)
  qed
  then show ?thesis by (auto simp: redirected_once_def)
qed

theorem one_redirection_witness:
  "let w = example_browser ''/keys'' [] (\<lambda>_. Inl (Error ''TypeError'' ''down'')); w' = redirectToLogin None (redirectToLogin None w)
   in one_more (targets w) (targets w')"
proof -
  let ?w = "example_browser ''/keys'' [] (\<lambda>_. Inl (Error ''TypeError'' ''down''))"
  define w where "w = ?w"
  define w' where "w' = redirectToLogin None (redirectToLogin None w)"
  have s: "page_steps w w'" unfolding w'_def
    by (rule page_steps.more_steps [OF page_steps.more_steps [OF page_steps.none]]) (rule page_step.redirect_step)+
  have n: "\<not> b_redirecting w" by (simp add: w_def)
  have sel: "b_window w" "b_path w = ''/keys''" "b_handled w = []" "b_visited w = []" "\<not> b_handler w" "w_env w = (\<lambda>_. None)"
    by (simp_all add: w_def)
  have "\<not> is_entry_page ''/keys''" by (simp add: is_entry_page_def starts_with_def)
  then have one: "redirectToLogin None w = w\<lparr>b_redirecting := True, b_visited := [login_target (''/keys'' @ b_search w)]\<rparr>"
    using n sel by (simp add: redirectToLogin_def Let_def)
  have "redirectToLogin None (redirectToLogin None w) = redirectToLogin None w"
    unfolding one by (simp add: redirectToLogin_def)
  then have "targets w' \<noteq> targets w" by (simp add: w'_def one targets_def sel)
  then have "one_more (targets w) (targets w')" using one_redirection [OF s n] by simp
  then show ?thesis unfolding Let_def w'_def w_def .
qed

end
