(* ===== verification/ConsoleState.thy ===== *)
theory ConsoleState
  imports Browser
begin

text \<open>
  The state shared by the pages of the console: the signed-in operator and what it may see (lib/auth/use-permission.tsx), the
  engines and their status (lib/capabilities/capability-context.tsx), the environment (lib/environment/), and the
  language (lib/i18n/context.tsx). The state of the contexts extends the browser's; a React state setter
  is an update of its field. The dictionaries of the translations are arguments.
\<close>

record environment_option =
  eo_ident :: string
  eo_slug :: string
  eo_name :: string
  eo_isProduction :: bool

record cworld = bworld +
  c_operator :: jsval  \<comment> \<open>\<open>null\<close> when nobody is signed in\<close>
  c_loading :: bool
  c_local :: "(string \<times> string) list"  \<comment> \<open>\<open>localStorage\<close>\<close>
  c_cookie_writes :: "string list"  \<comment> \<open>texts assigned to \<open>document.cookie\<close>\<close>
  c_env :: environment_option
  c_engines :: "(string \<times> jsval) list"
  c_cap_loading :: bool

type_synonym ('w, 'a) cact = "('w cworld_scheme, 'a) js"

section \<open>lib/auth/use-permission.tsx\<close>

definition PUBLIC_ROUTES :: "string list" where
  "PUBLIC_ROUTES = [''/login'', ''/setup'', ''/session-expired'', ''/403'']"

definition is_public_route :: "string \<Rightarrow> bool" where
  "is_public_route p = list_ex (\<lambda>q. p = q \<or> starts_with p (q @ ''/'')) PUBLIC_ROUTES"

text \<open>The operator of an answer of /api/auth/me, if it has one.\<close>

definition session_operator :: "http_response \<Rightarrow> ('w, jsval option) cact" where
  "session_operator res = (if rs_ok res
     then bnd (response_json res) (\<lambda>d. ret (if truthy (opt_prop d ''authenticated'') \<and> truthy (member d ''operator'')
       then Some (member d ''operator'') else None))
     else ret None)"

definition no_session :: "string \<Rightarrow> 'w cworld_scheme \<Rightarrow> 'w cworld_scheme" where
  "no_session currentPath w = (let w1 = w\<lparr>c_operator := JNull\<rparr>
     in if is_public_route currentPath then w1 else redirectToLogin (Some currentPath) w1)"

definition checkSession :: "string \<Rightarrow> ('w, bool) cact" where
  "checkSession currentPath =
     bnd (try_catch
       (bnd (fetch (get_request ''/api/auth/me'')) (\<lambda>res. bnd (session_operator res) (\<lambda>r. case r of
          Some op \<Rightarrow> bnd (modify (\<lambda>w. w\<lparr>c_operator := op\<rparr>)) (\<lambda>_. ret True)
        | None \<Rightarrow> bnd (modify (no_session currentPath)) (\<lambda>_. ret False))))
       (\<lambda>_. bnd (modify (\<lambda>w. w\<lparr>c_operator := JNull\<rparr>)) (\<lambda>_. ret False)))
     (\<lambda>r. bnd (modify (\<lambda>w. w\<lparr>c_loading := False\<rparr>)) (\<lambda>_. ret r))"

definition can :: "'w cworld_scheme \<Rightarrow> string \<Rightarrow> bool res" where
  "can w permission = (if \<not> truthy (c_operator w) then Inr False else hasPermission (member (c_operator w) ''role'') permission)"

definition hasRole :: "'w cworld_scheme \<Rightarrow> string list \<Rightarrow> bool" where
  "hasRole w roles = (if \<not> truthy (c_operator w) then False
     else list_ex (\<lambda>r. strict_eq (JStr r) (member (c_operator w) ''role'')) roles)"

datatype shown = ShowNothing | ShowFallback | ShowChildren

text \<open>The component \<open>Can\<close>.\<close>

definition Can :: "'w cworld_scheme \<Rightarrow> string \<Rightarrow> shown res" where
  "Can w perform = (if c_loading w then Inr ShowNothing
     else map_sum id (\<lambda>b. if b then ShowChildren else ShowFallback) (can w perform))"

lemma run_checkSession:
  "checkSession p w = (let rq = get_request ''/api/auth/me''; w1 = log_request rq w;
       gone = w1\<lparr>c_operator := JNull, c_loading := False\<rparr>;
       refused = (no_session p w1)\<lparr>c_loading := False\<rparr>
     in case w_upstream w (w_sent w @ [rq]) of
       Inl e \<Rightarrow> (Inr False, gone)
     | Inr res \<Rightarrow> if rs_ok res
         then (case parse_text w1 (rs_text res) of
             Inl e \<Rightarrow> (Inr False, gone)
           | Inr d \<Rightarrow> if truthy (opt_prop d ''authenticated'') \<and> truthy (member d ''operator'')
               then (Inr True, w1\<lparr>c_operator := member d ''operator'', c_loading := False\<rparr>)
               else (Inr False, refused))
         else (Inr False, refused))"
proof -
  define rq where "rq = get_request ''/api/auth/me''"
  define w1 where "w1 = log_request rq w"
  have f: "fetch rq w = (w_upstream w (w_sent w @ [rq]), w1)"
    by (simp add: fetch_def w1_def log_request_def Let_def)
  have j: "response_json res w1 = (parse_text w1 (rs_text res), w1)" for res
    by (simp add: response_json_def parse_text_def)
  show ?thesis
    unfolding checkSession_def rq_def [symmetric] Let_def w1_def [symmetric] session_operator_def
    by (auto simp: bnd_def f j try_catch_def modify_def ret_def split: sum.split)
qed

text \<open>
  C29. Permissions fail closed: whatever \<open>/api/auth/me\<close> does, a check of the session that does not return true leaves no operator, so that
  every permission and every role is denied and \<open>Can\<close> shows its fallback; it returns true only for a successful answer with
  \<open>authenticated\<close> and an operator, which is then the one whose role decides.
\<close>

theorem session_fail_closed:
  assumes "checkSession p w = (r, w')"
  shows "(r = Inr False \<and> can w' q = Inr False \<and> \<not> hasRole w' roles \<and> Can w' q = Inr ShowFallback) \<or>
    (r = Inr True \<and> (\<exists>res d. w_upstream w (w_sent w @ [get_request ''/api/auth/me'']) = Inr res \<and> rs_ok res
       \<and> parse_text w (rs_text res) = Inr d \<and> truthy (opt_prop d ''authenticated'')
       \<and> c_operator w' = member d ''operator'' \<and> can w' q = hasPermission (member (member d ''operator'') ''role'') q))"
proof -
  have redirect: "c_operator (redirectToLogin z v) = c_operator v" for z and v :: "'a cworld_scheme"
    by (simp add: redirectToLogin_def Let_def)
  have closed: "can v q = Inr False \<and> \<not> hasRole v roles \<and> Can v q = Inr ShowFallback"
    if "c_operator v = JNull" "\<not> c_loading v" for v :: "'a cworld_scheme"
    using that by (simp add: can_def hasRole_def Can_def)
  have gone: "c_operator (no_session p v) = JNull" for v :: "'a cworld_scheme"
    by (simp add: no_session_def Let_def redirect)
  have parse: "parse_text (log_request rq w) t = parse_text w t" for rq t
    by simp
  show ?thesis
    using assms closed gone
    by (auto simp: run_checkSession Let_def parse can_def split: sum.splits if_splits)
qed

section \<open>lib/capabilities/capability-context.tsx\<close>

definition engine_info :: "string \<Rightarrow> string \<Rightarrow> string list \<Rightarrow> string \<times> jsval" where
  "engine_info type display caps = (type, JObj [(''type'', JStr type), (''displayName'', JStr display), (''status'', JStr ''healthy''),
     (''instanceCount'', jint 1), (''capabilities'', JArr (map JStr caps))])"

definition DEFAULT_ENGINES :: "(string \<times> jsval) list" where
  "DEFAULT_ENGINES = [
     engine_info ''ego'' ''Ego (Identity)'' [''identities'', ''traits'', ''mfa''],
     engine_info ''nexus'' ''Nexus (Zanzibar)'' [''tuples'', ''expand'', ''explain''],
     engine_info ''janus'' ''Janus (OAuth2/OIDC)'' [''clients'', ''tokens'', ''jwks''],
     engine_info ''aegis'' ''Aegis (Proxy)'' [''rules'', ''traffic'', ''handlers''],
     engine_info ''vulcan'' ''Vulcan (API Keys)'' [''keys'', ''macaroons'', ''quotas''],
     engine_info ''hermes'' ''Hermes (Enterprise)'' [''saml'', ''scim'', ''certificates''],
     engine_info ''themis'' ''Themis (Policy/CEL)'' [''policies'', ''cel'', ''dryrun'']]"

definition getDisconnectedEngines :: "(string \<times> jsval) list" where
  "getDisconnectedEngines = map (\<lambda>(key, val). (key, obj_spread val
     (JObj [(''status'', JStr ''not_connected''), (''instanceCount'', jint 0)]))) DEFAULT_ENGINES"

definition fallback_engines :: "string \<Rightarrow> (string \<times> jsval) list" where
  "fallback_engines env_id = (if env_id = ''prod'' then DEFAULT_ENGINES else getDisconnectedEngines)"

text \<open>One turn of the loop over the instances of the answer.\<close>

definition apply_instance :: "jsval \<Rightarrow> (string \<times> jsval) list \<Rightarrow> (string \<times> jsval) list res" where
  "apply_instance item updated = (case get_prop item ''engine_type'' of
     Inl e \<Rightarrow> Inl e
   | Inr t \<Rightarrow> let cur = member (JObj updated) (to_str t) in
       if truthy t \<and> truthy cur
       then Inr (obj_assign (to_str t) (obj_spread cur (JObj [
              (''status'', js_or (member item ''status'') (JStr ''healthy'')),
              (''instanceCount'', js_or (member item ''instance_count'') (jint 1)),
              (''version'', member item ''version'')])) updated)
       else Inr updated)"

fun apply_instances :: "jsval list \<Rightarrow> (string \<times> jsval) list \<Rightarrow> (string \<times> jsval) list res" where
  "apply_instances [] updated = Inr updated"
| "apply_instances (item # items) updated = (case apply_instance item updated of
     Inl e \<Rightarrow> Inl e | Inr u \<Rightarrow> apply_instances items u)"

definition engines_request :: "string \<Rightarrow> http_request" where
  "engines_request env_id = get_request (''/api/fleet/engines?environment='' @ env_id)"

text \<open>The engines of a decoded answer: \<open>None\<close> when it lists nothing.\<close>

definition listed_engines :: "jsval \<Rightarrow> (string \<times> jsval) list option res" where
  "listed_engines d = (case d of
     JArr (x # xs) \<Rightarrow> map_sum id Some (apply_instances (x # xs) DEFAULT_ENGINES)
   | _ \<Rightarrow> Inr None)"

definition set_engines :: "(string \<times> jsval) list \<Rightarrow> 'w cworld_scheme \<Rightarrow> 'w cworld_scheme" where
  "set_engines es w = w\<lparr>c_engines := es\<rparr>"

definition refreshCapabilities :: "('w, unit) cact" where
  "refreshCapabilities = bnd (asks (\<lambda>w. eo_ident (c_env w))) (\<lambda>env_id.
     bnd (try_catch
       (bnd (modify (\<lambda>w. w\<lparr>c_cap_loading := True\<rparr>)) (\<lambda>_.
        bnd (fetch (engines_request env_id)) (\<lambda>res.
        if rs_ok res
        then bnd (response_json res) (\<lambda>d. bnd (lift (listed_engines d)) (\<lambda>r. case r of
               Some es \<Rightarrow> modify (set_engines es)
             | None \<Rightarrow> modify (set_engines (fallback_engines env_id))))
        else modify (set_engines (fallback_engines env_id)))))
       (\<lambda>_. modify (set_engines (fallback_engines env_id))))
     (\<lambda>_. modify (\<lambda>w. w\<lparr>c_cap_loading := False\<rparr>)))"

text \<open>
  The effect run when the environment changes; it may be cancelled while the request or the reading of its body is
  under way.
\<close>

datatype cancelled = NotCancelled | DuringRequest | DuringBody

definition reset_engines :: "'w cworld_scheme \<Rightarrow> 'w cworld_scheme" where
  "reset_engines w = set_engines (if eo_ident (c_env w) \<noteq> ''prod'' then getDisconnectedEngines else DEFAULT_ENGINES) w"

definition fetchEngines :: "cancelled \<Rightarrow> ('w, unit) cact" where
  "fetchEngines c = bnd (asks (\<lambda>w. eo_ident (c_env w))) (\<lambda>env_id.
     bnd (modify (\<lambda>w. w\<lparr>c_cap_loading := True\<rparr>)) (\<lambda>_.
     bnd (settle (fetch (engines_request env_id))) (\<lambda>r.
     if c = DuringRequest then ret ()
     else case r of
       Inl e \<Rightarrow> modify (\<lambda>w. (set_engines (fallback_engines env_id) w)\<lparr>c_cap_loading := False\<rparr>)
     | Inr res \<Rightarrow> if \<not> rs_ok res then modify (\<lambda>w. (set_engines (fallback_engines env_id) w)\<lparr>c_cap_loading := False\<rparr>)
         else bnd (settle (response_json res)) (\<lambda>j.
           if c = DuringBody then ret ()
           else modify (\<lambda>w. (set_engines (case j of
                  Inl e \<Rightarrow> fallback_engines env_id
                | Inr d \<Rightarrow> (case listed_engines d of Inr (Some es) \<Rightarrow> es | _ \<Rightarrow> fallback_engines env_id)) w)\<lparr>c_cap_loading := False\<rparr>)))))"

definition isEngineConnected :: "'w cworld_scheme \<Rightarrow> string \<Rightarrow> bool" where
  "isEngineConnected w type = (let eng = member (JObj (c_engines w)) type in
     truthy eng \<and> \<not> strict_eq (member eng ''status'') (JStr ''not_connected'') \<and> \<not> strict_eq (member eng ''status'') (JStr ''unreachable''))"

definition getEngineStatus :: "'w cworld_scheme \<Rightarrow> string \<Rightarrow> jsval" where
  "getEngineStatus w type = js_or (opt_prop (member (JObj (c_engines w)) type) ''status'') (JStr ''not_connected'')"

definition engine_names :: "string list" where
  "engine_names = [''ego'', ''nexus'', ''janus'', ''aegis'', ''vulcan'', ''hermes'', ''themis'']"

lemma apply_instance_other:
  "apply_instance item u = Inr u' \<Longrightarrow> (\<forall>t. get_prop item ''engine_type'' = Inr t \<longrightarrow> to_str t \<noteq> k) \<Longrightarrow> map_of u' k = map_of u k"
  by (auto simp: apply_instance_def obj_assign_def Let_def split: sum.splits if_splits)

lemma apply_instances_other:
  "apply_instances items u = Inr u' \<Longrightarrow>
    (\<forall>item \<in> set items. \<forall>t. get_prop item ''engine_type'' = Inr t \<longrightarrow> to_str t \<noteq> k) \<Longrightarrow> map_of u' k = map_of u k"
  by (induction items u rule: apply_instances.induct) (auto simp: apply_instance_other split: sum.splits)

lemma default_engine:
  "e \<in> set engine_names \<Longrightarrow> \<exists>v. map_of DEFAULT_ENGINES e = Some v \<and> truthy v \<and> member v ''status'' = JStr ''healthy''"
  by (auto simp: engine_names_def DEFAULT_ENGINES_def engine_info_def)

definition not_named :: "string \<Rightarrow> jsval \<Rightarrow> bool" where
  "not_named k item \<longleftrightarrow> (case get_prop item ''engine_type'' of Inr t \<Rightarrow> to_str t \<noteq> k | Inl _ \<Rightarrow> True)"

text \<open>
  Engines are presumed healthy: in production a failure of the request shows every engine as connected and healthy; in every
  environment an answer that lists some engines shows each engine it does not list as connected and healthy.
\<close>

theorem engines_presumed_healthy:
  assumes "e \<in> set engine_names" "w_upstream w (w_sent w @ [engines_request (eo_ident (c_env w))]) = a"
    "(\<exists>err. a = Inl err \<and> eo_ident (c_env w) = ''prod'') \<or>
     (\<exists>res x xs es. a = Inr res \<and> rs_ok res \<and> parse_text w (rs_text res) = Inr (JArr (x # xs)) \<and>
        apply_instances (x # xs) DEFAULT_ENGINES = Inr es \<and> list_all (not_named e) (x # xs))"
  shows "isEngineConnected (snd (refreshCapabilities w)) e \<and> getEngineStatus (snd (refreshCapabilities w)) e = JStr ''healthy''"
proof -
  define v where "v = w\<lparr>c_cap_loading := True\<rparr>"
  define rq where "rq = engines_request (eo_ident (c_env w))"
  define w1 where "w1 = log_request rq v"
  have f: "fetch rq v = (a, w1)"
    using assms(2) by (simp add: fetch_def w1_def v_def rq_def log_request_def Let_def)
  have p: "parse_text v t = parse_text w t" for t
    by (auto simp: parse_text_def json_parse_js_def v_def split: sum.splits option.splits)
  then have j: "response_json res w1 = (parse_text w (rs_text res), w1)" for res
    by (simp add: response_json_def w1_def parse_text_def json_parse_js_def v_def log_request_def split: sum.split option.split)
  have "map_of (c_engines (snd (refreshCapabilities w))) e = map_of DEFAULT_ENGINES e"
    using assms(3)
  proof (elim disjE exE conjE)
    fix err
    assume "a = Inl err" "eo_ident (c_env w) = ''prod''"
    then show ?thesis
      using f by (simp add: refreshCapabilities_def asks_def bnd_def try_catch_def modify_def v_def [symmetric]
          rq_def [symmetric] set_engines_def fallback_engines_def rq_def)
  next
    fix res x xs es
    assume a: "a = Inr res" "rs_ok res" "parse_text w (rs_text res) = Inr (JArr (x # xs))"
      "apply_instances (x # xs) DEFAULT_ENGINES = Inr es" "list_all (not_named e) (x # xs)"
    have "c_engines (snd (refreshCapabilities w)) = es"
      using f j a by (simp add: refreshCapabilities_def asks_def bnd_def try_catch_def modify_def v_def [symmetric]
          rq_def [symmetric] set_engines_def listed_engines_def lift_def del: apply_instances.simps)
    moreover have "map_of es e = map_of DEFAULT_ENGINES e"
      by (rule apply_instances_other [OF a(4)]) (use a(5) in \<open>auto simp: list_all_iff not_named_def simp del: list.set split: sum.splits\<close>)
    ultimately show ?thesis by simp
  qed
  moreover obtain d where "map_of DEFAULT_ENGINES e = Some d" "truthy d" "member d ''status'' = JStr ''healthy''"
    using default_engine [OF assms(1)] by blast
  ultimately show ?thesis
    by (cases d) (simp_all add: isEngineConnected_def getEngineStatus_def Let_def opt_prop_def js_or_def)
qed

theorem engines_presumed_healthy_witness:
  "let w = bworld.extend (example_browser ''/'' [] (\<lambda>_. ok_text ''[{\"engine_type\":\"ego\",\"status\":\"unreachable\"}]'')) \<lparr>c_operator = JNull,
      c_loading = False, c_local = [], c_cookie_writes = [], c_env = \<lparr>eo_ident = ''dev'', eo_slug = ''development'', eo_name = ''Development'', eo_isProduction = False\<rparr>,
      c_engines = [], c_cap_loading = False\<rparr>
   in getEngineStatus (snd (refreshCapabilities w)) ''vulcan'' = JStr ''healthy''"
proof -
  let ?t = "''[{\"engine_type\":\"ego\",\"status\":\"unreachable\"}]''"
  let ?item = "JObj [(''engine_type'', JStr ''ego''), (''status'', JStr ''unreachable'')]"
  define w where "w = bworld.extend (example_browser ''/'' [] (\<lambda>_. ok_text ?t)) \<lparr>c_operator = JNull,
      c_loading = False, c_local = [], c_cookie_writes = [], c_env = \<lparr>eo_ident = ''dev'', eo_slug = ''development'', eo_name = ''Development'', eo_isProduction = False\<rparr>,
      c_engines = [], c_cap_loading = False\<rparr>"
  have up: "w_upstream w rs = ok_text ?t" for rs
    by (simp add: w_def cworld.defs bworld.defs example_browser_def world.defs example_world_def)
  have p: "parse_text w (Inr ?t) = Inr (JArr [?item])"
  proof (rule parse_text_Inr)
    show "json_parse ?t = Some (JArr [?item])" by code_simp
  qed
  have n: "not_named ''vulcan'' ?item" by (simp add: not_named_def get_prop_def)
  obtain es where "apply_instance ?item DEFAULT_ENGINES = Inr es"
    by (cases "apply_instance ?item DEFAULT_ENGINES") (auto simp: apply_instance_def get_prop_def Let_def split: if_splits)
  then have a: "apply_instances [?item] DEFAULT_ENGINES = Inr es" by simp
  have "getEngineStatus (snd (refreshCapabilities w)) ''vulcan'' = JStr ''healthy''"
  proof (rule conjunct2 [OF engines_presumed_healthy])
    show "''vulcan'' \<in> set engine_names" by (simp add: engine_names_def)
    show "(\<exists>err. ok_text ?t = Inl err \<and> eo_ident (c_env w) = ''prod'') \<or>
     (\<exists>res x xs es. ok_text ?t = Inr res \<and> rs_ok res \<and> parse_text w (rs_text res) = Inr (JArr (x # xs)) \<and>
        apply_instances (x # xs) DEFAULT_ENGINES = Inr es \<and> list_all (not_named ''vulcan'') (x # xs))"
      by (intro disjI2 exI [of _ "\<lparr>rs_status = 200, rs_headers = [], rs_text = Inr ?t\<rparr>"] exI [of _ ?item] exI [of _ "[]"] exI [of _ es])
        (use p n a in \<open>simp add: ok_text_def rs_ok_def\<close>)
  qed (rule up)
  then show ?thesis unfolding Let_def w_def .
qed

section \<open>lib/environment/environment-context.tsx\<close>

definition environment :: "string \<Rightarrow> string \<Rightarrow> string \<Rightarrow> bool \<Rightarrow> environment_option" where
  "environment env_id slug name isProd = \<lparr>eo_ident = env_id, eo_slug = slug, eo_name = name, eo_isProduction = isProd\<rparr>"

definition DEFAULT_ENVIRONMENTS :: "environment_option list" where
  "DEFAULT_ENVIRONMENTS = [environment ''prod'' ''production'' ''Production'' True, environment ''staging'' ''staging'' ''Staging'' False,
     environment ''dev'' ''development'' ''Development'' False]"

definition find_environment :: "string \<Rightarrow> environment_option option" where
  "find_environment s = find_first (\<lambda>e. eo_ident e = s \<or> eo_slug e = s) DEFAULT_ENVIRONMENTS"

text \<open>The initial state and the effect that reads what was saved.\<close>

definition load_environment :: "'w cworld_scheme \<Rightarrow> 'w cworld_scheme" where
  "load_environment w0 = (let w = w0\<lparr>c_env := hd DEFAULT_ENVIRONMENTS\<rparr> in
     case map_of (c_local w) ''autorix_active_env'' of
       Some (c # s) \<Rightarrow> (case find_environment (c # s) of Some e \<Rightarrow> w\<lparr>c_env := e\<rparr> | None \<Rightarrow> w)
     | _ \<Rightarrow> w)"

definition setEnvironment :: "string \<Rightarrow> 'w cworld_scheme \<Rightarrow> 'w cworld_scheme" where
  "setEnvironment envId w = (case find_environment envId of
     Some e \<Rightarrow> w\<lparr>c_local := al_set ''autorix_active_env'' (eo_ident e) (c_local w),
       c_cookie_writes := c_cookie_writes w @ [''autorix_active_env='' @ eo_ident e @ ''; path=/; max-age=31536000; SameSite=Lax''],
       c_env := e\<rparr>
   | None \<Rightarrow> w)"

text \<open>
  The environment is remembered: after a known identifier or slug is set, loading the console again selects the same environment;
  an unknown one changes nothing. The environment shown is always one of the three.
\<close>

theorem environment_remembered:
  "(case find_environment s of
      None \<Rightarrow> setEnvironment s w = w
    | Some e \<Rightarrow> (eo_ident e = s \<or> eo_slug e = s) \<and> c_env (setEnvironment s w) = e \<and> c_env (load_environment (setEnvironment s w)) = e)
   \<and> c_env (load_environment w) \<in> set DEFAULT_ENVIRONMENTS"
proof
  have "list_all (\<lambda>e. eo_ident e \<noteq> [] \<and> find_environment (eo_ident e) = Some e) DEFAULT_ENVIRONMENTS" by code_simp
  then have again: "e \<in> set DEFAULT_ENVIRONMENTS \<Longrightarrow> eo_ident e \<noteq> [] \<and> find_environment (eo_ident e) = Some e" for e
    by (simp add: list_all_iff)
  have found: "find_environment s = Some e \<Longrightarrow> e \<in> set DEFAULT_ENVIRONMENTS \<and> (eo_ident e = s \<or> eo_slug e = s)" for e s
    unfolding find_environment_def by (drule find_first_Some) simp
  show "case find_environment s of None \<Rightarrow> setEnvironment s w = w
    | Some e \<Rightarrow> (eo_ident e = s \<or> eo_slug e = s) \<and> c_env (setEnvironment s w) = e \<and> c_env (load_environment (setEnvironment s w)) = e"
  proof (cases "find_environment s")
    case (Some e)
    then have e: "eo_ident e \<noteq> []" "find_environment (eo_ident e) = Some e" using again found by blast+
    then obtain c t where "eo_ident e = c # t" by (cases "eo_ident e") simp
    then show ?thesis using Some found [OF Some] e by (simp add: setEnvironment_def load_environment_def Let_def)
  qed (simp add: setEnvironment_def)
  show "c_env (load_environment w) \<in> set DEFAULT_ENVIRONMENTS"
  proof -
    have "hd DEFAULT_ENVIRONMENTS \<in> set DEFAULT_ENVIRONMENTS" by (simp add: DEFAULT_ENVIRONMENTS_def)
    then show ?thesis using found by (auto simp: load_environment_def Let_def split: option.splits list.splits)
  qed
qed

section \<open>lib/i18n/context.tsx\<close>

definition STORAGE_KEY :: string where
  "STORAGE_KEY = ''autorix_console_lang''"

text \<open>The saved language; \<open>storage_ok\<close> tells whether \<open>localStorage\<close> can be used.\<close>

definition load_locale :: "bool \<Rightarrow> 'w cworld_scheme \<Rightarrow> string" where
  "load_locale storage_ok w = (case (if storage_ok then map_of (c_local w) STORAGE_KEY else None) of
     Some s \<Rightarrow> if s = ''en'' \<or> s = ''es'' then s else ''en'' | None \<Rightarrow> ''en'')"

definition setLocale :: "bool \<Rightarrow> string \<Rightarrow> 'w cworld_scheme \<Rightarrow> string \<times> 'w cworld_scheme" where
  "setLocale storage_ok l w = (l, if storage_ok then w\<lparr>c_local := al_set STORAGE_KEY l (c_local w)\<rparr> else w)"

text \<open>\<open>k in v\<close>\<close>

definition has_member :: "jsval \<Rightarrow> string \<Rightarrow> bool" where
  "has_member v k = (al_has k (own_props v) \<or> member v k \<noteq> JUndef)"

text \<open>The value at a path: \<open>None\<close> when a step is missing.\<close>

fun walk :: "jsval \<Rightarrow> string list \<Rightarrow> jsval option" where
  "walk cur [] = Some cur"
| "walk cur (k # ks) = (if truthy cur \<and> is_object cur \<and> has_member cur k then walk (member cur k) ks else None)"

text \<open>The replacement text of \<open>String.replace\<close> with its \<open>$\<close> patterns; there are no groups.\<close>

fun expand_replacement :: "string \<Rightarrow> string \<Rightarrow> string \<Rightarrow> string \<Rightarrow> string" where
  "expand_replacement pre m post [] = []"
| "expand_replacement pre m post [c] = [c]"
| "expand_replacement pre m post (c # d # s) = (if c \<noteq> CHR ''$'' then c # expand_replacement pre m post (d # s)
     else if d = CHR ''$'' then CHR ''$'' # expand_replacement pre m post s
     else if d = CHR ''&'' then m @ expand_replacement pre m post s
     else if d = CHR 0x60 then pre @ expand_replacement pre m post s
     else if d = CHR 0x27 then post @ expand_replacement pre m post s
     else CHR ''$'' # expand_replacement pre m post (d # s))"

text \<open>Every occurrence of the literal \<open>m\<close> (not empty); \<open>pre\<close> is the text before.\<close>

function replace_literal :: "string \<Rightarrow> string \<Rightarrow> string \<Rightarrow> string \<Rightarrow> string" where
  "replace_literal m repl pre s = (if s = [] then []
     else if m \<noteq> [] \<and> starts_with s m
       then expand_replacement pre m (drop (length m) s) repl @ replace_literal m repl (pre @ m) (drop (length m) s)
     else hd s # replace_literal m repl (pre @ [hd s]) (tl s))"
  by pat_completeness auto
termination by (relation "measure (\<lambda>(m, repl, pre, s). length s)") auto

declare replace_literal.simps [simp del]

definition plain_name :: "string \<Rightarrow> bool" where
  "plain_name k \<longleftrightarrow> (case k of [] \<Rightarrow> False | c # s \<Rightarrow> is_lower (lower_char c) \<and> list_all (\<lambda>x. is_lower (lower_char x) \<or> is_digit x \<or> x = CHR ''_'') s)"

text \<open>
  \<open>result.replace(new RegExp(`{${k}}`, "g"), String(v))\<close>: for a name of letters, digits and underscores the pattern is
  literal; \<open>other_regexp\<close> stands for the remaining patterns.
\<close>

definition put_param :: "(string \<Rightarrow> string \<Rightarrow> string \<Rightarrow> string) \<Rightarrow> string \<Rightarrow> string \<times> jsval \<Rightarrow> string" where
  "put_param other_regexp result kv = (case kv of (k, v) \<Rightarrow>
     if plain_name k then replace_literal (''{'' @ k @ ''}'') (to_str v) [] result else other_regexp k (to_str v) result)"

definition dictionary :: "jsval \<Rightarrow> string \<Rightarrow> jsval" where
  "dictionary translations locale = js_or (member translations locale) (member translations ''en'')"

definition found_text :: "jsval \<Rightarrow> jsval \<Rightarrow> string list \<Rightarrow> jsval option" where
  "found_text dict en keys = (case walk dict keys of Some v \<Rightarrow> Some v | None \<Rightarrow> walk en keys)"

definition translate :: "(string \<Rightarrow> string \<Rightarrow> string \<Rightarrow> string) \<Rightarrow> jsval \<Rightarrow> string \<Rightarrow> string \<Rightarrow> (string \<times> jsval) list \<Rightarrow> string" where
  "translate other_regexp translations locale key params =
     (case found_text (dictionary translations locale) (member translations ''en'') (split_on (CHR ''.'') key) of
        Some (JStr s) \<Rightarrow> foldl (put_param other_regexp) s params
      | _ \<Rightarrow> key)"

definition example_translations :: jsval where
  "example_translations = JObj [
     (''en'', JObj [(''state'', JObj [(''errorTitle'', JStr ''{engine} is down''), (''retry'', JStr ''Retry'')])]),
     (''es'', JObj [(''state'', JObj [(''retry'', JStr ''Reintentar'')])])]"

lemma replace_literal_none: "\<not> str_includes s m \<Longrightarrow> replace_literal m repl pre s = s"
proof (induction m repl pre s rule: replace_literal.induct)
  case (1 m repl pre s)
  show ?case
  proof (cases s)
    case (Cons c r)
    then have "\<not> starts_with s m" "\<not> str_includes r m" using "1.prems" by auto
    then show ?thesis using "1.IH"(2) Cons by (subst replace_literal.simps) simp
  qed (simp add: replace_literal.simps)
qed

text \<open>A parameter whose placeholder does not occur changes nothing, and a text missing in one language is the English one.\<close>

lemma param_absent:
  "plain_name k \<Longrightarrow> \<not> str_includes (translate rx trs l key []) (''{'' @ k @ ''}'') \<Longrightarrow> translate rx trs l key [(k, v)] = translate rx trs l key []"
  unfolding translate_def put_param_def by (auto simp: replace_literal_none split: option.splits jsval.splits)

lemma english_fallback:
  "translate rx example_translations ''es'' ''state.errorTitle'' [(''engine'', JStr ''Ego'')] = ''Ego is down''
    \<and> translate rx example_translations ''es'' ''state.retry'' [] = ''Reintentar''"
proof -
  have "replace_literal ''{engine}'' ''Ego'' [] ''{engine} is down'' = ''Ego is down''" by code_simp
  then show ?thesis
    by (simp add: translate_def example_translations_def dictionary_def found_text_def has_member_def al_has_def put_param_def plain_name_def
        is_lower_def lower_char_def is_upper_def js_or_def proto_get_def object_proto_names_def)
qed

theorem session_fail_closed_witness:
  "let w = bworld.extend (example_browser ''/keys'' [] (\<lambda>_. Inl (Error ''TypeError'' ''down''))) \<lparr>c_operator = JObj [(''role'', JStr ''owner'')],
      c_loading = False, c_local = [], c_cookie_writes = [], c_env = hd DEFAULT_ENVIRONMENTS, c_engines = [], c_cap_loading = False\<rparr>
   in can (snd (checkSession ''/keys'' w)) ''keys:read'' = Inr False"
proof -
  define w where "w = bworld.extend (example_browser ''/keys'' [] (\<lambda>_. Inl (Error ''TypeError'' ''down''))) \<lparr>c_operator = JObj [(''role'', JStr ''owner'')],
      c_loading = False, c_local = [], c_cookie_writes = [], c_env = hd DEFAULT_ENVIRONMENTS, c_engines = [], c_cap_loading = False\<rparr>"
  have up: "w_upstream w rs = Inl (Error ''TypeError'' ''down'')" for rs
    by (simp add: w_def bworld.defs example_browser_def world.defs example_world_def)
  obtain r w' where c: "checkSession ''/keys'' w = (r, w')" by (cases "checkSession ''/keys'' w")
  have "can w' ''keys:read'' = Inr False"
    using session_fail_closed [OF c, of "''keys:read''" "[]"] by (simp add: up)
  then show ?thesis unfolding Let_def w_def [symmetric] by (simp add: c)
qed

end
