(* ===== verification/TableState.thy ===== *)
theory TableState
  imports JsCalls
begin

text \<open>
  The state of a table in the address bar, lib/table/url-state.ts: which part of the state is written
  into the parameters of the address, and how it is read back. \<open>Partial<TableQueryState>\<close> is the
  record of optional fields \<open>table_query\<close>, the state read back the record \<open>table_state\<close>.
\<close>

datatype sort_order = Asc | Desc

fun order_text :: "sort_order \<Rightarrow> string" where
  "order_text Asc = ''asc''"
| "order_text Desc = ''desc''"

record table_query =
  tq_page :: "jnum option"
  tq_pageSize :: "jnum option"
  tq_sortBy :: "string option"
  tq_sortOrder :: "sort_order option"
  tq_search :: "string option"
  tq_filters :: "(string \<times> string) list option"

record table_state =
  ts_page :: int
  ts_pageSize :: int
  ts_sortBy :: "string option"
  ts_sortOrder :: sort_order
  ts_search :: string
  ts_filters :: "(string \<times> string) list"

section \<open>Writing\<close>

definition given_text :: "string option \<Rightarrow> string" where
  "given_text v = (case v of Some s \<Rightarrow> s | None \<Rightarrow> [])"

definition set_page :: "table_query \<Rightarrow> params \<Rightarrow> params" where
  "set_page q ps = (case tq_page q of
     Some n \<Rightarrow> if truthy (JNum n) \<and> num_lt (Fin 1) n then params_set ''page'' (show_num n) ps else ps
   | None \<Rightarrow> ps)"

definition set_page_size :: "table_query \<Rightarrow> params \<Rightarrow> params" where
  "set_page_size q ps = (case tq_pageSize q of
     Some n \<Rightarrow> if truthy (JNum n) \<and> \<not> num_eq n (Fin 10) then params_set ''pageSize'' (show_num n) ps else ps
   | None \<Rightarrow> ps)"

definition set_order :: "table_query \<Rightarrow> params \<Rightarrow> params" where
  "set_order q ps = (case tq_sortOrder q of Some d \<Rightarrow> params_set ''sortOrder'' (order_text d) ps | None \<Rightarrow> ps)"

fun set_filters :: "(string \<times> string) list \<Rightarrow> params \<Rightarrow> params" where
  "set_filters [] ps = ps"
| "set_filters ((k, v) # kvs) ps = set_filters kvs (set_if (''f_'' @ k) v ps)"

definition serializeTableParams :: "table_query \<Rightarrow> params" where
  "serializeTableParams q =
     set_filters (case tq_filters q of Some kvs \<Rightarrow> kvs | None \<Rightarrow> [])
       (set_if ''q'' (trim (given_text (tq_search q)))
         (set_order q (set_if ''sortBy'' (given_text (tq_sortBy q)) (set_page_size q (set_page q [])))))"

section \<open>Reading\<close>

text \<open>\<open>parseInt(params.get(k) || "d", 10) || d\<close>\<close>

definition int_param :: "string \<Rightarrow> int \<Rightarrow> params \<Rightarrow> int" where
  "int_param k d ps = (case parse_int (params_or k ps (show_int d)) of Some n \<Rightarrow> if n = 0 then d else n | None \<Rightarrow> d)"

text \<open>\<open>filters[key] = value\<close>: the value is a string, so that a key \<open>__proto__\<close> is ignored.\<close>

definition filter_assign :: "string \<Rightarrow> string \<Rightarrow> (string \<times> string) list \<Rightarrow> (string \<times> string) list" where
  "filter_assign k v kvs = (if k = ''__proto__'' then kvs else al_set k v kvs)"

fun read_filters :: "params \<Rightarrow> (string \<times> string) list \<Rightarrow> (string \<times> string) list" where
  "read_filters [] acc = acc"
| "read_filters ((k, v) # ps) acc =
     read_filters ps (if starts_with k ''f_'' then filter_assign (drop 2 k) v acc else acc)"

definition deserializeTableParams :: "params \<Rightarrow> table_state" where
  "deserializeTableParams ps = \<lparr>
     ts_page = int_param ''page'' 1 ps,
     ts_pageSize = int_param ''pageSize'' 10 ps,
     ts_sortBy = (case params_or ''sortBy'' ps [] of [] \<Rightarrow> None | s \<Rightarrow> Some s),
     ts_sortOrder = (if params_get ''sortOrder'' ps = Some ''desc'' then Desc else Asc),
     ts_search = params_or ''q'' ps [],
     ts_filters = read_filters ps []\<rparr>"

section \<open>Round trip\<close>

lemma parse_show_int [simp]: "parse_int (show_int i) = Some i"
proof -
  have d: "takeWhile is_digit (show_nat n) = show_nat n" for n
    using show_nat_digits [of n] by (simp add: list_all_iff)
  have h: "dropWhile is_space (show_nat n) = show_nat n"
    "(case show_nat n of [] \<Rightarrow> x | c # u \<Rightarrow> if c = CHR ''-'' then a u else if c = CHR ''+'' then b u else x) = x" for n a b x
    using show_nat_digits [of n] by (cases "show_nat n"; auto simp: is_digit_def is_space_def)+
  show ?thesis
  proof (cases "i < 0")
    case True
    then show ?thesis by (simp add: parse_int_def show_int_def d is_space_def)
  next
    case False
    then show ?thesis by (simp add: parse_int_def show_int_def d h Let_def)
  qed
qed

lemma show_int_not_Nil [simp]: "show_int i \<noteq> []"
  by (simp add: show_int_def)

text \<open>What the address keeps of a state: the page from 1, a page size that is not 0, the search text trimmed.\<close>

definition canonical :: "table_state \<Rightarrow> bool" where
  "canonical s \<longleftrightarrow> 1 \<le> ts_page s \<and> ts_pageSize s \<noteq> 0 \<and> ts_sortBy s \<noteq> Some [] \<and> trim (ts_search s) = ts_search s
     \<and> distinct (map fst (ts_filters s)) \<and> list_all (\<lambda>(k, v). k \<noteq> ''__proto__'' \<and> v \<noteq> []) (ts_filters s)"

definition whole :: "table_state \<Rightarrow> table_query" where
  "whole s = \<lparr>tq_page = Some (Fin (of_int (ts_page s))), tq_pageSize = Some (Fin (of_int (ts_pageSize s))),
     tq_sortBy = ts_sortBy s, tq_sortOrder = Some (ts_sortOrder s), tq_search = Some (ts_search s),
     tq_filters = Some (ts_filters s)\<rparr>"

definition filter_params :: "(string \<times> string) list \<Rightarrow> params" where
  "filter_params kvs = map (\<lambda>(k, v). (''f_'' @ k, v)) kvs"

lemma filter_params_simps [simp]:
  "filter_params [] = []" "filter_params ((k, v) # kvs) = (''f_'' @ k, v) # filter_params kvs"
  by (simp_all add: filter_params_def)

lemma params_set_new: "k \<notin> fst ` set ps \<Longrightarrow> params_set k v ps = ps @ [(k, v)]"
  by (induction k v ps rule: params_set.induct) auto

lemma keys_params_set: "fst ` set (params_set k v ps) = insert k (fst ` set ps)"
  by (induction k v ps rule: params_set.induct) (auto simp: al_delete_def)

lemma set_filters_append:
  "distinct (map fst kvs) \<Longrightarrow> list_all (\<lambda>(k, v). v \<noteq> []) kvs \<Longrightarrow> (\<forall>k. k \<in> fst ` set kvs \<longrightarrow> ''f_'' @ k \<notin> fst ` set ps) \<Longrightarrow>
    set_filters kvs ps = ps @ filter_params kvs"
proof (induction kvs ps rule: set_filters.induct)
  case (2 k v kvs ps)
  have "set_if (''f_'' @ k) v ps = ps @ [(''f_'' @ k, v)]" using 2 by (simp add: set_if_def params_set_new)
  with 2 show ?case by auto
qed simp

lemma read_filters_append: "read_filters (ps @ qs) acc = read_filters qs (read_filters ps acc)"
  by (induction ps acc rule: read_filters.induct) auto

lemma read_filters_other: "list_all (\<lambda>(k, v). \<not> starts_with k ''f_'') ps \<Longrightarrow> read_filters ps acc = acc"
  by (induction ps acc rule: read_filters.induct) auto

lemma read_filters_written:
  "distinct (map fst kvs) \<Longrightarrow> list_all (\<lambda>(k, v). k \<noteq> ''__proto__'') kvs \<Longrightarrow> fst ` set kvs \<inter> fst ` set acc = {} \<Longrightarrow>
    read_filters (filter_params kvs) acc = acc @ kvs"
proof (induction kvs arbitrary: acc)
  case (Cons kv kvs)
  obtain k v where kv: "kv = (k, v)" by (cases kv)
  have "al_set k v acc = acc @ [(k, v)]" if "k \<notin> fst ` set acc" for k v and acc :: "(string \<times> string) list"
    using that by (induction acc) auto
  then have a: "filter_assign k v acc = acc @ [(k, v)]" using Cons.prems by (auto simp: kv filter_assign_def)
  have "read_filters (filter_params kvs) (acc @ [(k, v)]) = (acc @ [(k, v)]) @ kvs"
    using Cons.prems by (intro Cons.IH) (auto simp: kv)
  then show ?case using a by (simp add: kv starts_with_def)
qed simp

definition written_head :: "table_state \<Rightarrow> params" where
  "written_head s = set_if ''q'' (ts_search s) (set_order (whole s) (set_if ''sortBy'' (given_text (ts_sortBy s))
     (set_page_size (whole s) (set_page (whole s) []))))"

lemma written_head_keys: "fst ` set (written_head s) \<subseteq> {''page'', ''pageSize'', ''sortBy'', ''sortOrder'', ''q''}"
  by (auto simp: written_head_def set_if_def set_order_def set_page_size_def set_page_def keys_params_set
      split: option.splits if_splits)

lemma serialize_canonical:
  assumes "canonical s"
  shows "serializeTableParams (whole s) = written_head s @ filter_params (ts_filters s)"
proof -
  have "serializeTableParams (whole s) = set_filters (ts_filters s) (written_head s)"
    using assms by (simp add: serializeTableParams_def written_head_def canonical_def given_text_def whole_def)
  also have "\<dots> = written_head s @ filter_params (ts_filters s)"
    using assms written_head_keys [of s]
    by (intro set_filters_append) (auto simp: canonical_def list_all_iff)
  finally show ?thesis .
qed

lemma params_get_written:
  assumes "\<not> starts_with k ''f_''"
  shows "params_get k (ps @ filter_params kvs) = params_get k ps"
proof -
  have "map_of (filter_params kvs) k = None"
    using assms by (induction kvs) (auto simp: starts_with_def)
  then show ?thesis by (simp add: params_get_def map_add_def split: option.splits)
qed

text \<open>
  C26. The state of a table survives the address: a state whose page is at least 1, whose page size is not 0, whose search text
  is trimmed and whose filters have distinct names and values that are not empty is read back unchanged
  from the parameters it was written to.
\<close>

theorem table_state_roundtrip:
  assumes "canonical s"
  shows "deserializeTableParams (serializeTableParams (whole s)) = s"
proof -
  have get: "params_get k (serializeTableParams (whole s)) = params_get k (written_head s)" if "\<not> starts_with k ''f_''" for k
    unfolding serialize_canonical [OF assms] by (rule params_get_written [OF that])
  have "list_all (\<lambda>(k, v). \<not> starts_with k ''f_'') (written_head s)"
    using written_head_keys [of s] by (auto simp: list_all_iff starts_with_def)
  then have f: "read_filters (serializeTableParams (whole s)) [] = ts_filters s"
    using assms read_filters_written [of "ts_filters s" "[]"] unfolding serialize_canonical [OF assms] read_filters_append
    by (simp add: read_filters_other canonical_def list_all_iff case_prod_beta)
  note head = written_head_def set_if_def set_order_def set_page_size_def set_page_def whole_def given_text_def
  have one: "params_get k [] = None" "params_get k ((k', v) # ps) = (if k' = k then Some v else params_get k ps)" for k k' v ps
    by (simp_all add: params_get_def)
  have g: "params_get ''page'' (written_head s) = (if ts_page s > 1 then Some (show_int (ts_page s)) else None)"
    "params_get ''pageSize'' (written_head s) = (if ts_pageSize s \<noteq> 10 then Some (show_int (ts_pageSize s)) else None)"
    "params_get ''sortBy'' (written_head s) = ts_sortBy s"
    "params_get ''sortOrder'' (written_head s) = Some (order_text (ts_sortOrder s))"
    "params_get ''q'' (written_head s) = (if ts_search s = [] then None else Some (ts_search s))"
    using assms by (auto simp: head one canonical_def split: option.splits)
  have n: "\<not> starts_with ''page'' ''f_''" "\<not> starts_with ''pageSize'' ''f_''" "\<not> starts_with ''sortBy'' ''f_''"
    "\<not> starts_with ''sortOrder'' ''f_''" "\<not> starts_with ''q'' ''f_''"
    by (simp_all add: starts_with_def)
  note got = get [OF n(1), unfolded g] get [OF n(2), unfolded g] get [OF n(3), unfolded g] get [OF n(4), unfolded g] get [OF n(5), unfolded g]
  let ?ps = "serializeTableParams (whole s)"
  have "int_param ''page'' 1 ?ps = ts_page s" "int_param ''pageSize'' 10 ?ps = ts_pageSize s"
    using assms by (simp_all add: int_param_def params_or_def got canonical_def)
  moreover have "params_or ''sortBy'' ?ps [] = given_text (ts_sortBy s)" "params_or ''q'' ?ps [] = ts_search s"
    by (simp_all add: params_or_def got given_text_def split: option.splits)
  moreover have "(case given_text (ts_sortBy s) of [] \<Rightarrow> None | x # xs \<Rightarrow> Some (x # xs)) = ts_sortBy s"
    using assms by (auto simp: canonical_def given_text_def split: option.splits list.splits)
  moreover have "(if params_get ''sortOrder'' ?ps = Some ''desc'' then Desc else Asc) = ts_sortOrder s"
    by (cases "ts_sortOrder s") (simp_all add: got)
  ultimately show ?thesis by (simp add: deserializeTableParams_def f)
qed

theorem table_state_roundtrip_witness:
  "deserializeTableParams (serializeTableParams (whole \<lparr>ts_page = 3, ts_pageSize = 25, ts_sortBy = Some ''email'', ts_sortOrder = Desc,
      ts_search = ''ada'', ts_filters = [(''status'', ''active'')]\<rparr>))
    = \<lparr>ts_page = 3, ts_pageSize = 25, ts_sortBy = Some ''email'', ts_sortOrder = Desc, ts_search = ''ada'', ts_filters = [(''status'', ''active'')]\<rparr>"
  by (rule table_state_roundtrip) (simp add: canonical_def trim_def is_space_def)

end
