(* ===== verification/ConsoleLib.thy ===== *)
theory ConsoleLib
  imports JsCalls
begin

text \<open>
  Small libraries of the console: times for display (lib/format/date-time.ts), descriptors of resources
  (lib/resources/), the table of services (lib/config.ts) and the client certificates of the mesh
  (lib/server/tls-mesh.ts). The formatters of \<open>Intl\<close> are parameters.
\<close>

section \<open>lib/format/date-time.ts\<close>

datatype locale_code = En | Es

fun intl_locale :: "locale_code \<Rightarrow> string" where
  "intl_locale Es = ''es-ES''"
| "intl_locale En = ''en-US''"

text \<open>The argument: a \<open>Date\<close> by its time value, a text or a number of milliseconds.\<close>

datatype date_arg = ADate jnum | AText string | ANumber jnum

text \<open>\<open>TimeClip\<close>: whole milliseconds up to 8.64e15 on each side of the epoch.\<close>

fun time_clip :: "jnum \<Rightarrow> jnum" where
  "time_clip (Fin t) = (if \<bar>t\<bar> \<le> 8640000000000000 then Fin (of_int (if t < 0 then - \<lfloor>- t\<rfloor> else \<lfloor>t\<rfloor>)) else NaN)"
| "time_clip _ = NaN"

fun time_value :: "(string \<Rightarrow> jnum) \<Rightarrow> date_arg \<Rightarrow> jnum" where
  "time_value parse_date (ADate t) = t"
| "time_value parse_date (AText s) = parse_date s"
| "time_value parse_date (ANumber n) = time_clip n"

definition date_time_options :: "string option \<Rightarrow> jsval" where
  "date_time_options timezone = JObj [(''year'', JStr ''numeric''), (''month'', JStr ''short''), (''day'', JStr ''numeric''),
     (''hour'', JStr ''2-digit''), (''minute'', JStr ''2-digit''), (''second'', JStr ''2-digit''), (''timeZone'', opt_str timezone)]"

definition formatDateTime ::
  "(string \<Rightarrow> jsval \<Rightarrow> jnum \<Rightarrow> string res) \<Rightarrow> (string \<Rightarrow> jnum) \<Rightarrow> date_arg \<Rightarrow> locale_code \<Rightarrow> string option \<Rightarrow> string res" where
  "formatDateTime intl parse_date date l timezone = intl (intl_locale l) (date_time_options timezone) (time_value parse_date date)"

fun num_abs :: "jnum \<Rightarrow> jnum" where
  "num_abs (Fin r) = Fin \<bar>r\<bar>"
| "num_abs NegInf = PosInf"
| "num_abs x = x"

text \<open>The number and the unit shown for a difference in milliseconds.\<close>

definition relative_parts :: "jnum \<Rightarrow> jnum \<times> string" where
  "relative_parts d = (let diffSeconds = num_round (num_scale (1 / 1000) d);
     diffMinutes = num_round (num_scale (1 / 60) diffSeconds);
     diffHours = num_round (num_scale (1 / 60) diffMinutes);
     diffDays = num_round (num_scale (1 / 24) diffHours)
   in if num_lt (num_abs diffSeconds) (Fin 60) then (diffSeconds, ''second'')
      else if num_lt (num_abs diffMinutes) (Fin 60) then (diffMinutes, ''minute'')
      else if num_lt (num_abs diffHours) (Fin 24) then (diffHours, ''hour'')
      else (diffDays, ''day''))"

definition formatRelativeTime ::
  "(string \<Rightarrow> jnum \<Rightarrow> string \<Rightarrow> string res) \<Rightarrow> (string \<Rightarrow> jnum) \<Rightarrow> int \<Rightarrow> date_arg \<Rightarrow> locale_code \<Rightarrow> string res" where
  "formatRelativeTime rtf parse_date now date l =
     (case relative_parts (num_sub (time_value parse_date date) (Fin (of_int now))) of (n, u) \<Rightarrow> rtf (intl_locale l) n u)"

fun unit_seconds :: "string \<Rightarrow> rat" where
  "unit_seconds u = (if u = ''second'' then 1 else if u = ''minute'' then 60 else if u = ''hour'' then 3600 else 86400)"

text \<open>The largest number shown in a unit; days are not limited.\<close>

definition unit_limit :: "string \<Rightarrow> rat option" where
  "unit_limit u = (if u = ''second'' \<or> u = ''minute'' then Some 60 else if u = ''hour'' then Some 24 else None)"

lemma round_near: "\<bar>of_int \<lfloor>a + 1/2\<rfloor> - (a::rat)\<bar> \<le> 1/2"
proof -
  have "of_int \<lfloor>a + 1/2\<rfloor> \<le> a + 1/2" "a + 1/2 < of_int \<lfloor>a + 1/2\<rfloor> + 1" by linarith+
  then show ?thesis by linarith
qed

lemma round_away:
  fixes i j :: int
  assumes "k \<le> \<bar>i\<bar>" "0 < (k::int)" "j = \<lfloor>1 / of_int k * (of_int i :: rat) + 1/2\<rfloor>"
  shows "1 \<le> \<bar>j\<bar>"
proof (cases "0 \<le> i")
  case True
  with assms have "1 \<le> 1 / of_int k * (of_int i :: rat)" by simp
  then show ?thesis using assms(3) by linarith
next
  case False
  with assms have "i \<le> - k" by linarith
  then have "(of_int i :: rat) \<le> - of_int k" by (metis of_int_le_iff of_int_minus)
  then have "1 / of_int k * (of_int i :: rat) \<le> - 1" using assms(2) by (simp add: field_simps)
  then show ?thesis using assms(3) by linarith
qed

text \<open>
  C27. The relative time shown is right to within its unit: for a difference of \<open>r\<close> milliseconds the unit is seconds,
  minutes, hours or days; the number is whole, below 60 in seconds and minutes and below 24 in hours, not 0
  except in seconds, and number times unit differs from the difference by at most 55 hundredths of the unit.
\<close>

theorem relative_time_bounds:
  "\<exists>n u. relative_parts (Fin r) = (Fin (of_int n), u) \<and> u \<in> {''second'', ''minute'', ''hour'', ''day''}
     \<and> (case unit_limit u of Some k \<Rightarrow> of_int \<bar>n\<bar> < k | None \<Rightarrow> True) \<and> (n = 0 \<longrightarrow> u = ''second'')
     \<and> \<bar>of_int n * unit_seconds u - r / 1000\<bar> \<le> 55 / 100 * unit_seconds u"
proof -
  define s where "s = \<lfloor>1 / 1000 * r + 1/2\<rfloor>"
  define m where "m = \<lfloor>1 / 60 * (of_int s :: rat) + 1/2\<rfloor>"
  define h where "h = \<lfloor>1 / 60 * (of_int m :: rat) + 1/2\<rfloor>"
  define d where "d = \<lfloor>1 / 24 * (of_int h :: rat) + 1/2\<rfloor>"
  have parts: "relative_parts (Fin r) = (if \<bar>s\<bar> < 60 then (Fin (of_int s), ''second'') else if \<bar>m\<bar> < 60 then (Fin (of_int m), ''minute'')
      else if \<bar>h\<bar> < 24 then (Fin (of_int h), ''hour'') else (Fin (of_int d), ''day''))"
  proof -
    have lt: "num_lt (num_abs (Fin (of_int i))) (Fin (numeral k)) \<longleftrightarrow> \<bar>i\<bar> < numeral k" for i k
      by simp (metis of_int_abs of_int_less_numeral_iff)
    show ?thesis unfolding relative_parts_def Let_def num_scale.simps num_round.simps s_def [symmetric] m_def [symmetric]
        h_def [symmetric] d_def [symmetric] lt ..
  qed
  have e1: "\<bar>of_int s - 1 / 1000 * r\<bar> \<le> 1/2" unfolding s_def by (rule round_near)
  have e2: "\<bar>of_int m - 1 / 60 * (of_int s :: rat)\<bar> \<le> 1/2" unfolding m_def by (rule round_near)
  have e3: "\<bar>of_int h - 1 / 60 * (of_int m :: rat)\<bar> \<le> 1/2" unfolding h_def by (rule round_near)
  have e4: "\<bar>of_int d - 1 / 24 * (of_int h :: rat)\<bar> \<le> 1/2" unfolding d_def by (rule round_near)
  have b1: "\<bar>of_int s - r / 1000\<bar> \<le> 55 / 100" using e1 by linarith
  have b2: "\<bar>of_int m * 60 - r / 1000\<bar> \<le> 33" using e1 e2 by linarith
  have b3: "\<bar>of_int h * 3600 - r / 1000\<bar> \<le> 1980" using e1 e2 e3 by linarith
  have b4: "\<bar>of_int d * 86400 - r / 1000\<bar> \<le> 47520" using e1 e2 e3 e4 by linarith
  note b = b1 b2 b3 b4
  consider (s) "\<bar>s\<bar> < 60" | (m) "\<not> \<bar>s\<bar> < 60" "\<bar>m\<bar> < 60" | (h) "\<not> \<bar>s\<bar> < 60" "\<not> \<bar>m\<bar> < 60" "\<bar>h\<bar> < 24"
    | (d) "\<not> \<bar>s\<bar> < 60" "\<not> \<bar>m\<bar> < 60" "\<not> \<bar>h\<bar> < 24" by blast
  then show ?thesis
  proof cases
    case s
    then show ?thesis using b(1) by (intro exI [of _ s] exI [of _ "''second''"]) (simp add: parts unit_limit_def)
  next
    case m
    have "m \<noteq> 0" using round_away [of 60 s m] m(1) by (simp add: m_def)
    then show ?thesis using b(2) m by (intro exI [of _ m] exI [of _ "''minute''"]) (simp add: parts unit_limit_def)
  next
    case h
    have "h \<noteq> 0" using round_away [of 60 m h] h(2) by (simp add: h_def)
    then show ?thesis using b(3) h by (intro exI [of _ h] exI [of _ "''hour''"]) (simp add: parts unit_limit_def)
  next
    case d
    have "d \<noteq> 0" using round_away [of 24 h d] d(3) by (simp add: d_def)
    then show ?thesis using b(4) d by (intro exI [of _ d] exI [of _ "''day''"]) (simp add: parts unit_limit_def)
  qed
qed

theorem relative_time_bounds_witness:
  "\<exists>n u. relative_parts (Fin 90000) = (Fin (of_int n), u) \<and> \<bar>of_int n * unit_seconds u - 90\<bar> \<le> 55 / 100 * unit_seconds u"
proof -
  obtain n u where "relative_parts (Fin 90000) = (Fin (of_int n), u)"
      "\<bar>of_int n * unit_seconds u - 90000 / 1000\<bar> \<le> 55 / 100 * unit_seconds u"
    using relative_time_bounds [of 90000] by (elim exE conjE) blast
  then show ?thesis by (intro exI [of _ n] exI [of _ u]) simp
qed

section \<open>lib/resources/descriptor.ts\<close>

record column =
  col_key :: string
  col_label :: string
  col_sortable :: bool
  col_filterable :: bool

record resource_descriptor =
  rd_ident :: string
  rd_name :: string
  rd_pluralName :: string
  rd_service :: string
  rd_basePath :: string
  rd_shape :: "(string \<times> zschema) list"  \<comment> \<open>\<open>schema.shape\<close>\<close>
  rd_permissions :: "(string \<times> string) list"
  rd_columns :: "column list"
  rd_defaultSort :: "(string \<times> string) option"

definition invalid_column :: "resource_descriptor \<Rightarrow> column \<Rightarrow> exn" where
  "invalid_column config col = Error ''Error'' (''Invalid column key '' @ [CHR 0x27] @ col_key col @ [CHR 0x27] @
     '' in resource descriptor '' @ [CHR 0x27] @ rd_ident config @ [CHR 0x27] @ ''. Must match schema shape: '' @
     join '', '' (map fst (rd_shape config)))"

definition defineResourceDescriptor :: "resource_descriptor \<Rightarrow> resource_descriptor res" where
  "defineResourceDescriptor config =
     (case find_first (\<lambda>col. col_key col \<notin> set (map fst (rd_shape config))) (rd_columns config) of
        Some col \<Rightarrow> Inl (invalid_column config col)
      | None \<Rightarrow> Inr config)"

section \<open>lib/resources/fleet-instance.ts\<close>

definition fleetInstanceSchema :: zschema where
  "fleetInstanceSchema = ZObject [(''id'', zstr), (''engine_type'', zstr), (''environment_id'', zstr),
     (''status'', ZEnum [''healthy'', ''degraded'', ''unreachable'', ''evicted'']), (''version'', zopt zstr),
     (''advertise_addr'', zopt zstr), (''last_heartbeat_at'', zopt zstr)]"

fun shape_of :: "zschema \<Rightarrow> (string \<times> zschema) list" where
  "shape_of (ZObject kvs) = kvs"
| "shape_of _ = []"

definition text_column :: "string \<Rightarrow> string \<Rightarrow> column" where
  "text_column k l = \<lparr>col_key = k, col_label = l, col_sortable = True, col_filterable = False\<rparr>"

definition fleetInstanceConfig :: resource_descriptor where
  "fleetInstanceConfig = \<lparr>rd_ident = ''instances'', rd_name = ''Instance'', rd_pluralName = ''Fleet Instances'', rd_service = ''argus'',
     rd_basePath = ''/api/fleet/instances'', rd_shape = shape_of fleetInstanceSchema,
     rd_permissions = [(''read'', ''fleet:read''), (''delete'', ''fleet:admin'')],
     rd_columns = [text_column ''id'' ''Instance ID'',
       (text_column ''engine_type'' ''Engine Type'')\<lparr>col_filterable := True\<rparr>,
       (text_column ''environment_id'' ''Environment'')\<lparr>col_filterable := True\<rparr>,
       (text_column ''status'' ''Status'')\<lparr>col_filterable := True\<rparr>,
       text_column ''version'' ''Version'',
       (text_column ''advertise_addr'' ''Address'')\<lparr>col_sortable := False\<rparr>],
     rd_defaultSort = Some (''engine_type'', ''asc'')\<rparr>"

definition fleetInstanceDescriptor :: "resource_descriptor res" where
  "fleetInstanceDescriptor = defineResourceDescriptor fleetInstanceConfig"

text \<open>
  A descriptor is accepted exactly when every column names a field of its schema, and then unchanged; a refusal names a column
  that is not in the schema. The descriptor of fleet instances, made when its module is loaded, is accepted.
\<close>

theorem descriptor_checked:
  "(defineResourceDescriptor config = Inr config \<longleftrightarrow> list_all (\<lambda>col. col_key col \<in> fst ` set (rd_shape config)) (rd_columns config))
    \<and> (case defineResourceDescriptor config of Inr d \<Rightarrow> d = config
       | Inl e \<Rightarrow> \<exists>col \<in> set (rd_columns config). col_key col \<notin> fst ` set (rd_shape config) \<and> e = invalid_column config col)
    \<and> fleetInstanceDescriptor = Inr fleetInstanceConfig"
proof (intro conjI)
  show "fleetInstanceDescriptor = Inr fleetInstanceConfig"
    by (simp add: fleetInstanceDescriptor_def defineResourceDescriptor_def find_first_None fleetInstanceConfig_def
        text_column_def fleetInstanceSchema_def)
qed (auto simp: defineResourceDescriptor_def find_first_None list_all_iff split: option.splits sum.splits dest!: find_first_Some)

section \<open>lib/config.ts\<close>

definition service_config :: "string \<Rightarrow> string \<Rightarrow> int \<Rightarrow> string \<Rightarrow> string \<Rightarrow> jsval" where
  "service_config name role port protocol url = JObj [(''name'', JStr name), (''role'', JStr role), (''port'', jint port),
     (''protocol'', JStr protocol), (''url'', JStr url)]"

definition SERVICES_CONFIG :: "'w world_scheme \<Rightarrow> jsval" where
  "SERVICES_CONFIG w = JObj [
     (''nexus'', service_config ''Autorix Nexus'' ''ReBAC + ABAC Zanzibar Engine'' 50051 ''gRPC''
        (env_or w ''NEXT_PUBLIC_NEXUS_URL'' ''http://localhost:50051'')),
     (''ego'', service_config ''Autorix Ego'' ''Identity & User Lifecycle (Argon2id)'' 4433 ''REST''
        (env_or w ''NEXT_PUBLIC_EGO_URL'' ''http://localhost:4433'')),
     (''janus'', service_config ''Autorix Janus'' ''OAuth2 & OIDC Server (JWKS/PKCE)'' 4444 ''REST/OIDC''
        (env_or w ''NEXT_PUBLIC_JANUS_URL'' ''http://localhost:4444'')),
     (''aegis'', service_config ''Autorix Aegis'' ''Zero Trust Identity & Access Proxy'' 4455 ''HTTP Proxy''
        (env_or w ''NEXT_PUBLIC_AEGIS_URL'' ''http://localhost:4455'')),
     (''vulcan'', service_config ''Autorix Vulcan'' ''API Keys & Macaroons Manager'' 4466 ''REST''
        (env_or w ''NEXT_PUBLIC_VULCAN_URL'' ''http://localhost:4466'')),
     (''hermes'', service_config ''Autorix Hermes'' ''Enterprise SAML 2.0 & SCIM 2.0'' 4477 ''REST/XML''
        (env_or w ''NEXT_PUBLIC_HERMES_URL'' ''http://localhost:4477'')),
     (''themis'', service_config ''Autorix Themis'' ''ABAC Policy & Google CEL Rules Engine'' 4488 ''REST/gRPC''
        (env_or w ''NEXT_PUBLIC_THEMIS_URL'' ''http://localhost:4488''))]"

section \<open>lib/server/tls-mesh.ts\<close>

text \<open>The files by path: \<open>None\<close> when a file does not exist, \<open>Some None\<close> when it cannot be read.\<close>

type_synonym files = "string \<Rightarrow> string option option"

record tls_agent =
  ta_cert :: string
  ta_key :: string
  ta_ca :: "string option"
  ta_rejectUnauthorized :: bool

record mesh_config =
  mc_enabled :: bool
  mc_caFile :: "string option"
  mc_certFile :: "string option"
  mc_keyFile :: "string option"
  mc_agent :: "tls_agent option"

definition mesh_disabled :: mesh_config where
  "mesh_disabled = \<lparr>mc_enabled = False, mc_caFile = None, mc_certFile = None, mc_keyFile = None, mc_agent = None\<rparr>"

text \<open>\<open>process.env.A || process.env.B\<close>, with \<open>None\<close> for every falsy value: the sources only test it for truth.\<close>

definition env_either :: "(string \<Rightarrow> string option) \<Rightarrow> string \<Rightarrow> string \<Rightarrow> string option" where
  "env_either env a b = (case env a of Some (c # s) \<Rightarrow> Some (c # s) | _ \<Rightarrow>
     (case env b of Some (c # s) \<Rightarrow> Some (c # s) | _ \<Rightarrow> None))"

definition readFileSync :: "files \<Rightarrow> string \<Rightarrow> string option" where
  \<comment> \<open>\<open>None\<close> for an exception\<close>
  "readFileSync fs path = (case fs path of Some (Some t) \<Rightarrow> Some t | _ \<Rightarrow> None)"

text \<open>The optional authority: \<open>None\<close> when reading it fails, \<open>Some None\<close> when there is none.\<close>

definition read_ca :: "files \<Rightarrow> string option \<Rightarrow> string option option" where
  "read_ca fs caFile = (case caFile of None \<Rightarrow> Some None
     | Some p \<Rightarrow> if fs p = None then Some None else map_option Some (readFileSync fs p))"

text \<open>The \<open>try\<close> block; \<open>agent_ok\<close> tells whether \<open>new https.Agent\<close> accepts its options.\<close>

definition read_mesh :: "(tls_agent \<Rightarrow> bool) \<Rightarrow> files \<Rightarrow> bool \<Rightarrow> string option \<Rightarrow> string \<Rightarrow> string \<Rightarrow> mesh_config option" where
  "read_mesh agent_ok fs insecure caFile certFile keyFile =
     (case (readFileSync fs certFile, readFileSync fs keyFile, read_ca fs caFile) of
        (Some cert, Some key, Some ca) \<Rightarrow>
          (let agent = \<lparr>ta_cert = cert, ta_key = key, ta_ca = ca, ta_rejectUnauthorized = \<not> insecure\<rparr>
           in if agent_ok agent
              then Some \<lparr>mc_enabled = True, mc_caFile = caFile, mc_certFile = Some certFile, mc_keyFile = Some keyFile, mc_agent = Some agent\<rparr>
              else None)
      | _ \<Rightarrow> None)"

definition fresh_mesh :: "(tls_agent \<Rightarrow> bool) \<Rightarrow> (string \<Rightarrow> string option) \<Rightarrow> files \<Rightarrow> mesh_config" where
  "fresh_mesh agent_ok env fs =
     (case (env_either env ''AUTORIX_TLS_CLIENT_CERT_FILE'' ''TLS_CLIENT_CERT_FILE'',
            env_either env ''AUTORIX_TLS_CLIENT_KEY_FILE'' ''TLS_CLIENT_KEY_FILE'') of
        (Some certFile, Some keyFile) \<Rightarrow>
          (case read_mesh agent_ok fs (env ''AUTORIX_TLS_INSECURE_SKIP_VERIFY'' = Some ''true'')
                  (env_either env ''AUTORIX_TLS_CA_FILE'' ''TLS_CA_FILE'') certFile keyFile of
             Some c \<Rightarrow> c | None \<Rightarrow> mesh_disabled)
      | _ \<Rightarrow> mesh_disabled)"

text \<open>The result and the new value of \<open>cachedMeshConfig\<close>.\<close>

definition getMeshTLSConfig ::
  "(tls_agent \<Rightarrow> bool) \<Rightarrow> (string \<Rightarrow> string option) \<Rightarrow> files \<Rightarrow> mesh_config option \<Rightarrow> mesh_config \<times> mesh_config option" where
  "getMeshTLSConfig agent_ok env fs cached = (case cached of
     Some c \<Rightarrow> (c, cached)
   | None \<Rightarrow> (fresh_mesh agent_ok env fs, Some (fresh_mesh agent_ok env fs)))"

definition resetMeshTLSConfig :: "mesh_config option \<Rightarrow> mesh_config option" where
  "resetMeshTLSConfig cached = None"

text \<open>
  The mesh configuration is read once: whatever environment and files later calls see, they return what the
  first call returned. It is enabled exactly when certificate and key are named and readable, an existing authority is readable and
  the agent accepts them; a key that cannot be read disables it without an error, and verification of peers is off exactly when the
  environment asks for it.
\<close>

theorem mesh_config_once:
  "fst (getMeshTLSConfig ok2 env2 fs2 (snd (getMeshTLSConfig ok env fs cached))) = fst (getMeshTLSConfig ok env fs cached)
    \<and> (mc_enabled (fst (getMeshTLSConfig ok env fs None)) \<longleftrightarrow>
         (\<exists>c k cert key ca. env_either env ''AUTORIX_TLS_CLIENT_CERT_FILE'' ''TLS_CLIENT_CERT_FILE'' = Some c
            \<and> env_either env ''AUTORIX_TLS_CLIENT_KEY_FILE'' ''TLS_CLIENT_KEY_FILE'' = Some k
            \<and> readFileSync fs c = Some cert \<and> readFileSync fs k = Some key
            \<and> read_ca fs (env_either env ''AUTORIX_TLS_CA_FILE'' ''TLS_CA_FILE'') = Some ca
            \<and> ok \<lparr>ta_cert = cert, ta_key = key, ta_ca = ca,
                   ta_rejectUnauthorized = (env ''AUTORIX_TLS_INSECURE_SKIP_VERIFY'' \<noteq> Some ''true'')\<rparr>
            \<and> mc_agent (fst (getMeshTLSConfig ok env fs None)) = Some \<lparr>ta_cert = cert, ta_key = key, ta_ca = ca,
                   ta_rejectUnauthorized = (env ''AUTORIX_TLS_INSECURE_SKIP_VERIFY'' \<noteq> Some ''true'')\<rparr>))"
  by (auto simp: getMeshTLSConfig_def fresh_mesh_def read_mesh_def mesh_disabled_def Let_def split: option.splits)

end
