(* ===== verification/ResourceTable.thy ===== *)
theory ResourceTable
  imports TableState ConsoleLib PolicyEval Json
begin

text \<open>
  The table every resource page shows (components/resources/resource-table.tsx): search, sorting, pages, selection and the
  export as CSV, and the validation of resource forms (components/resources/form-helpers.ts). Rows are the objects of the
  collection; the state of the component is the record \<open>table_view\<close>, its handlers are functions on it.
\<close>

record table_view =
  tv_query :: table_state
  tv_selected :: "string list"  \<comment> \<open>a \<open>Set\<close> in insertion order\<close>

definition initial_view :: "resource_descriptor \<Rightarrow> table_view" where
  "initial_view d = \<lparr>tv_query = \<lparr>ts_page = 1, ts_pageSize = 10, ts_sortBy = map_option fst (rd_defaultSort d),
       ts_sortOrder = (case rd_defaultSort d of Some (_, ord) \<Rightarrow> if ord = ''desc'' then Desc else Asc | None \<Rightarrow> Asc),
       ts_search = [], ts_filters = []\<rparr>, tv_selected = []\<rparr>"

section \<open>Rows shown\<close>

definition row_matches :: "string \<Rightarrow> jsval \<Rightarrow> bool" where
  "row_matches q item = list_ex (\<lambda>kv. str_includes (to_lower (to_str (snd kv))) q) (own_props item)"

definition search_rows :: "string \<Rightarrow> jsval list \<Rightarrow> jsval list" where
  "search_rows search rows = (if trim search \<noteq> [] then filter (row_matches (to_lower search)) rows else rows)"

definition compare_rows :: "string \<Rightarrow> sort_order \<Rightarrow> jsval \<Rightarrow> jsval \<Rightarrow> jnum" where
  "compare_rows field ord a b = (let valA = member a field; valB = member b field; sgn = (if ord = Desc then - 1 else 1) in
     if strict_eq valA valB then Fin 0
     else if nullish valA then Fin 1
     else if nullish valB then Fin (- 1)
     else if js_lt valB valA then Fin sgn else Fin (- sgn))"

definition filteredData :: "table_state \<Rightarrow> jsval list \<Rightarrow> jsval list" where
  "filteredData st rows = (let found = search_rows (ts_search st) rows in
     case ts_sortBy st of
       Some (c # f) \<Rightarrow> js_sort (compare_rows (c # f) (ts_sortOrder st)) found
     | _ \<Rightarrow> found)"

definition totalPages :: "int \<Rightarrow> int \<Rightarrow> int" where
  "totalPages totalCount pageSize = max 1 \<lceil>(of_int totalCount :: rat) / of_int pageSize\<rceil>"

definition totalCount :: "int option \<Rightarrow> table_state \<Rightarrow> jsval list \<Rightarrow> int" where
  "totalCount given st rows = (case given of Some n \<Rightarrow> n | None \<Rightarrow> int (length (filteredData st rows)))"

text \<open>\<open>xs.slice(i, j)\<close>: negative indices count from the end.\<close>

definition slice_index :: "int \<Rightarrow> nat \<Rightarrow> nat" where
  "slice_index i n = (if i < 0 then nat (max 0 (int n + i)) else min (nat i) n)"

definition array_slice :: "int \<Rightarrow> int \<Rightarrow> 'a list \<Rightarrow> 'a list" where
  "array_slice i j xs = take (slice_index j (length xs) - slice_index i (length xs)) (drop (slice_index i (length xs)) xs)"

definition paginatedData :: "table_state \<Rightarrow> jsval list \<Rightarrow> jsval list" where
  "paginatedData st rows = (let start = (ts_page st - 1) * ts_pageSize st in
     array_slice start (start + ts_pageSize st) (filteredData st rows))"

section \<open>Handlers\<close>

definition handleSort :: "string \<Rightarrow> table_view \<Rightarrow> table_view" where
  "handleSort field v = (let q = tv_query v in
     v\<lparr>tv_query := (if ts_sortBy q = Some field then q\<lparr>ts_sortOrder := (if ts_sortOrder q = Asc then Desc else Asc)\<rparr>
        else q\<lparr>ts_sortBy := Some field, ts_sortOrder := Asc\<rparr>)\<rparr>)"

definition row_ident :: "jsval \<Rightarrow> string" where
  "row_ident r = to_str (member r ''id'')"

definition toggleSelectAll :: "jsval list \<Rightarrow> table_view \<Rightarrow> table_view" where
  "toggleSelectAll rows v = (let shown = paginatedData (tv_query v) rows in
     if length (tv_selected v) = length shown then v\<lparr>tv_selected := []\<rparr>
     else v\<lparr>tv_selected := rev (remdups (rev (map row_ident shown)))\<rparr>)"

definition toggleSelectRow :: "string \<Rightarrow> table_view \<Rightarrow> table_view" where
  "toggleSelectRow k v = v\<lparr>tv_selected := (if k \<in> set (tv_selected v) then filter (\<lambda>x. x \<noteq> k) (tv_selected v)
     else tv_selected v @ [k])\<rparr>"

definition handleSearch :: "string \<Rightarrow> table_view \<Rightarrow> table_view" where
  "handleSearch s v = v\<lparr>tv_query := (tv_query v)\<lparr>ts_search := s, ts_page := 1\<rparr>\<rparr>"

text \<open>The buttons below the table do nothing while they are disabled.\<close>

definition previousPage :: "table_view \<Rightarrow> table_view" where
  "previousPage v = (if ts_page (tv_query v) \<le> 1 then v else v\<lparr>tv_query := (tv_query v)\<lparr>ts_page := ts_page (tv_query v) - 1\<rparr>\<rparr>)"

definition nextPage :: "int option \<Rightarrow> jsval list \<Rightarrow> table_view \<Rightarrow> table_view" where
  "nextPage given rows v = (if ts_page (tv_query v) \<ge> totalPages (totalCount given (tv_query v) rows) (ts_pageSize (tv_query v))
     then v else v\<lparr>tv_query := (tv_query v)\<lparr>ts_page := ts_page (tv_query v) + 1\<rparr>\<rparr>)"

text \<open>The identifiers the delete button hands over; it is shown while something is selected.\<close>

definition deleteSelected :: "table_view \<Rightarrow> string list option" where
  "deleteSelected v = (if tv_selected v = [] then None else Some (tv_selected v))"

definition csv_cell :: "jsval \<Rightarrow> string \<Rightarrow> string" where
  "csv_cell row h = (let x = js_coalesce (member row h) (JStr []) in if json_keeps x then json_stringify x else [])"

text \<open>The text of the CSV file: \<open>None\<close> without rows.\<close>

definition handleExportCSV :: "resource_descriptor \<Rightarrow> table_state \<Rightarrow> jsval list \<Rightarrow> string option" where
  "handleExportCSV d st rows = (let found = filteredData st rows; headers = map col_key (rd_columns d) in
     if found = [] then None
     else Some (join [CHR 0x0A] (join '','' headers # map (\<lambda>row. join '','' (map (csv_cell row) headers)) found)))"

section \<open>components/resources/form-helpers.ts\<close>

record form_result =
  fr_isValid :: bool
  fr_errors :: "(string \<times> jsval) list"
  fr_data :: "jsval option"

fun form_errors :: "zissue list \<Rightarrow> (string \<times> jsval) list \<Rightarrow> (string \<times> jsval) list" where
  "form_errors [] errs = errs"
| "form_errors ((path, msg) # iss) errs = (let p = join ''.'' path; field = (if p = [] then ''form'' else p) in
     form_errors iss (if truthy (member (JObj errs) field) then errs else obj_assign field (JStr msg) errs))"

definition validateResourceForm :: "zschema \<Rightarrow> jsval \<Rightarrow> ('w, form_result) act" where
  "validateResourceForm schema values = bnd (safe_parse schema values) (\<lambda>r. ret (case r of
     Inr d \<Rightarrow> \<lparr>fr_isValid = True, fr_errors = [], fr_data = Some d\<rparr>
   | Inl iss \<Rightarrow> \<lparr>fr_isValid = False, fr_errors = form_errors iss [], fr_data = None\<rparr>))"

section \<open>Pages\<close>

lemma slice_plain: "0 \<le> i \<Longrightarrow> i \<le> j \<Longrightarrow> array_slice i j xs = take (nat j - nat i) (drop (nat i) xs)"
  by (auto simp: array_slice_def slice_index_def min_def)

lemma pages_take:
  assumes "0 < s"
  shows "concat (map (\<lambda>p. array_slice (int p * s) (int p * s + s) xs) [0..<k]) = take (k * nat s) xs"
proof (induction k)
  case (Suc k)
  have "array_slice (int k * s) (int k * s + s) xs = take (nat s) (drop (k * nat s) xs)"
    using assms by (simp add: slice_plain nat_add_distrib nat_mult_distrib)
  moreover have "take (Suc k * nat s) xs = take (k * nat s) xs @ take (nat s) (drop (k * nat s) xs)"
    using take_add [of "k * nat s" "nat s" xs] by (simp add: add.commute)
  ultimately show ?case using Suc by simp
qed simp

text \<open>
  The pages of a table show every row once and in order: without a total given by the caller, the pages from 1 to the last, put
  together, are the rows found and sorted; the last page is page 1 or not empty, and there are no rows behind it.
\<close>

theorem pages_partition:
  fixes st :: table_state and rows :: "jsval list"
  assumes "0 < ts_pageSize st"
  defines "last_page \<equiv> totalPages (totalCount None st rows) (ts_pageSize st)"
  shows "concat (map (\<lambda>p. paginatedData (st\<lparr>ts_page := int p\<rparr>) rows) [1..<Suc (nat last_page)]) = filteredData st rows
    \<and> (last_page = 1 \<or> paginatedData (st\<lparr>ts_page := last_page\<rparr>) rows \<noteq> [])"
proof
  let ?L = "filteredData st rows" and ?s = "ts_pageSize st"
  define k where "k = nat last_page"
  have same: "filteredData (st\<lparr>ts_page := p\<rparr>) rows = ?L" for p
    by (simp add: filteredData_def Let_def split: option.split list.split)
  have page: "paginatedData (st\<lparr>ts_page := p\<rparr>) rows = array_slice ((p - 1) * ?s) ((p - 1) * ?s + ?s) ?L" for p
    by (simp add: paginatedData_def Let_def same)
  have pos: "1 \<le> last_page" by (simp add: last_page_def totalPages_def)
  have up: "int (length ?L) \<le> last_page * ?s"
  proof -
    have "(of_int (int (length ?L)) :: rat) / of_int ?s \<le> of_int last_page"
      by (simp add: last_page_def totalPages_def totalCount_def) linarith
    then have "(of_int (int (length ?L)) :: rat) \<le> of_int last_page * of_int ?s" using assms(1) by (simp add: field_simps)
    then have "(of_int (int (length ?L)) :: rat) \<le> of_int (last_page * ?s)" by simp
    then show ?thesis by (simp only: of_int_le_iff)
  qed
  have "map (\<lambda>p. paginatedData (st\<lparr>ts_page := int p\<rparr>) rows) [1..<Suc k] = map (\<lambda>p. array_slice (int p * ?s) (int p * ?s + ?s) ?L) [0..<k]"
    unfolding page by (simp add: map_Suc_upt [symmetric] del: upt_Suc map_Suc_upt) 
  then have "concat (map (\<lambda>p. paginatedData (st\<lparr>ts_page := int p\<rparr>) rows) [1..<Suc k]) = take (k * nat ?s) ?L"
    using pages_take [OF assms(1)] by simp
  moreover have "length ?L \<le> k * nat ?s"
    using up pos assms(1) by (simp add: k_def nat_mult_distrib [symmetric] le_nat_iff)
  ultimately show "concat (map (\<lambda>p. paginatedData (st\<lparr>ts_page := int p\<rparr>) rows) [1..<Suc (nat last_page)]) = ?L"
    by (simp add: k_def)
  show "last_page = 1 \<or> paginatedData (st\<lparr>ts_page := last_page\<rparr>) rows \<noteq> []"
  proof (rule disjCI)
    assume "\<not> paginatedData (st\<lparr>ts_page := last_page\<rparr>) rows \<noteq> []"
    then have e: "paginatedData (st\<lparr>ts_page := last_page\<rparr>) rows = []" by simp
    have nn: "0 \<le> (last_page - 1) * ?s" using pos assms(1) by simp
    have "length ?L \<le> nat ((last_page - 1) * ?s)"
      using e nn assms(1) unfolding page by (subst (asm) slice_plain) (auto simp: nat_add_distrib)
    then have "int (length ?L) \<le> (last_page - 1) * ?s" using nn by linarith
    then have "(of_int (int (length ?L)) :: rat) \<le> of_int ((last_page - 1) * ?s)" by (simp only: of_int_le_iff)
    then have "(of_int (int (length ?L)) :: rat) / of_int ?s \<le> of_int (last_page - 1)" using assms(1) by (simp add: field_simps)
    then have "\<lceil>(of_int (int (length ?L)) :: rat) / of_int ?s\<rceil> \<le> last_page - 1"
      by (rule ceiling_le)
    then show "last_page = 1" using last_page_def pos by (simp add: totalPages_def totalCount_def)
  qed
qed

theorem pages_partition_witness:
  "concat (map (\<lambda>p. paginatedData (\<lparr>ts_page = int p, ts_pageSize = 10, ts_sortBy = None, ts_sortOrder = Asc, ts_search = [], ts_filters = []\<rparr>)
      (replicate 25 (JObj []))) [1..<Suc 3]) = replicate 25 (JObj [])"
proof -
  let ?st = "\<lparr>ts_page = 1, ts_pageSize = 10, ts_sortBy = None, ts_sortOrder = Asc, ts_search = [], ts_filters = []\<rparr>"
  have "filteredData ?st (replicate 25 (JObj [])) = replicate 25 (JObj [])" by (simp add: filteredData_def search_rows_def)
  moreover have "nat (totalPages (totalCount None ?st (replicate 25 (JObj []))) 10) = 3"
    by (simp add: totalPages_def totalCount_def filteredData_def search_rows_def ceiling_unique [of 3])
  ultimately show ?thesis using pages_partition [of ?st "replicate 25 (JObj [])"] by simp
qed

section \<open>Sorting\<close>

lemma str_lt_irrefl [simp]: "\<not> str_lt s s"
  by (induction s) auto

lemma str_lt_total: "str_lt s u \<or> s = u \<or> str_lt u s"
proof (induction s u rule: str_lt.induct)
  case (1 u)
  then show ?case by (cases u) auto
next
  case (3 a s b u)
  have "a = b \<or> (of_char a :: nat) < of_char b \<or> (of_char b :: nat) < of_char a"
    by (metis linorder_neqE_nat char_of_char)
  then show ?case using 3 by auto
qed simp

lemma str_lt_trans: "str_lt a b \<Longrightarrow> str_lt b c \<Longrightarrow> str_lt a c"
proof (induction a b arbitrary: c rule: str_lt.induct)
  case (1 u)
  then show ?case by (cases u; cases c) auto
next
  case (3 a s b u)
  then show ?case by (cases c) (auto split: if_splits)
qed simp

text \<open>What a comparator must do for insertion to sort: it sends an element behind another exactly when they are out of order.\<close>

lemma js_sort_by:
  assumes cmp: "\<And>a b. a \<in> set xs \<Longrightarrow> b \<in> set xs \<Longrightarrow> num_lt (Fin 0) (cmp a b) \<longleftrightarrow> \<not> R a b"
    and total: "\<And>a b. R a b \<or> R b a" and trans: "\<And>a b c. R a b \<Longrightarrow> R b c \<Longrightarrow> R a c"
  shows "sorted_wrt R (js_sort cmp xs)"
proof -
  have ins: "sorted_wrt R (js_insert cmp x ys)" if "sorted_wrt R ys" "x \<in> set xs" "set ys \<subseteq> set xs" for x ys
    using that
  proof (induction ys)
    case (Cons y ys)
    have s: "set (js_insert cmp x ys) = insert x (set ys)"
      by (metis mset_js_insert set_mset_add_mset_insert set_mset_mset)
    have c: "num_lt (Fin 0) (cmp x y) \<longleftrightarrow> \<not> R x y" using Cons.prems by (intro cmp) auto
    show ?case
    proof (cases "R x y")
      case True
      then have "R x z" if "z \<in> set ys" for z using that Cons.prems(1) trans by (metis sorted_wrt.simps(2))
      then show ?thesis using True c Cons.prems(1) by simp
    next
      case False
      then have "R y x" using total by blast
      then show ?thesis using False c s Cons by auto
    qed
  qed simp
  have "sorted_wrt R (foldr (js_insert cmp) ys [])" if "set ys \<subseteq> set xs" for ys
    using that
  proof (induction ys)
    case (Cons y ys)
    have "set (foldr (js_insert cmp) ys []) = set ys" using set_js_sort [of cmp ys] by (simp add: js_sort_def)
    then show ?case using Cons ins by simp
  qed simp
  then show ?thesis by (simp add: js_sort_def)
qed

text \<open>Rows a comparator does not tell apart keep their order.\<close>

lemma js_sort_stable:
  assumes "\<And>a b. a \<in> set xs \<Longrightarrow> b \<in> set xs \<Longrightarrow> P a \<Longrightarrow> P b \<Longrightarrow> \<not> num_lt (Fin 0) (cmp a b)"
  shows "filter P (js_sort cmp xs) = filter P xs"
proof -
  have ins: "filter P (js_insert cmp x ys) = filter P (x # ys)" if "x \<in> set xs" "set ys \<subseteq> set xs" for x ys
    using that
  proof (induction ys)
    case (Cons y ys)
    have "P x \<Longrightarrow> P y \<Longrightarrow> \<not> num_lt (Fin 0) (cmp x y)" using Cons.prems by (intro assms) auto
    then show ?case using Cons by auto
  qed simp
  have "filter P (foldr (js_insert cmp) ys []) = filter P ys" if "set ys \<subseteq> set xs" for ys
    using that
  proof (induction ys)
    case (Cons y ys)
    have "set (foldr (js_insert cmp) ys []) = set ys" using set_js_sort [of cmp ys] by (simp add: js_sort_def)
    then show ?case using Cons ins by simp
  qed simp
  then show ?thesis by (simp add: js_sort_def)
qed

definition in_order :: "sort_order \<Rightarrow> string \<Rightarrow> string \<Rightarrow> bool" where
  "in_order ord a b = (case ord of Asc \<Rightarrow> \<not> str_lt b a | Desc \<Rightarrow> \<not> str_lt a b)"

lemma compare_rows_text:
  "member a f = JStr s \<Longrightarrow> member b f = JStr u \<Longrightarrow> num_lt (Fin 0) (compare_rows f ord a b) \<longleftrightarrow> \<not> in_order ord s u"
  using str_lt_total [of s u] str_lt_trans [of s u s]
  by (cases ord) (auto simp: compare_rows_def Let_def js_lt_def to_prim_def is_text_def in_order_def)

text \<open>
  What a search finds, in its own terms: all rows when the text is blank, otherwise those with an own property whose text, in lower case, has the lower-case
  search text as a contiguous part.
\<close>

definition found_by :: "string \<Rightarrow> jsval \<Rightarrow> bool" where
  "found_by search r \<longleftrightarrow> list_all is_space search \<or> (\<exists>(k, v) \<in> set (own_props r). sublist (to_lower search) (to_lower (to_str v)))"

lemma trim_blank: "trim s = [] \<longleftrightarrow> list_all is_space s"
proof -
  have "trim s = [] \<longleftrightarrow> list_all is_space (dropWhile is_space s)"
    by (simp add: trim_def list_all_iff dropWhile_eq_Nil_conv)
  also have "\<dots> \<longleftrightarrow> list_all is_space s"
  proof
    assume all: "list_all is_space (dropWhile is_space s)"
    have "dropWhile is_space s = []"
    proof (rule ccontr)
      assume ne: "dropWhile is_space s \<noteq> []"
      then have "is_space (hd (dropWhile is_space s))" using all by (simp add: list_all_iff)
      with hd_dropWhile [OF ne] show False by simp
    qed
    then show "list_all is_space s" by (simp add: list_all_iff dropWhile_eq_Nil_conv)
  qed (auto simp: list_all_iff dest: set_dropWhileD)
  finally show ?thesis .
qed

lemma search_rows_found: "search_rows search rows = filter (found_by search) rows"
proof -
  have "row_matches (to_lower search) r \<longleftrightarrow> (\<exists>(k, v) \<in> set (own_props r). sublist (to_lower search) (to_lower (to_str v)))" for r
    by (simp add: row_matches_def list_ex_iff str_includes_sublist case_prod_unfold)
  then show ?thesis by (auto simp: search_rows_def found_by_def trim_blank intro!: filter_cong)
qed

text \<open>
  C28. A table shows what was searched for, in the order chosen: the rows shown are those with the search text in some property, in whatever case, each as
  often as it was given; on a column of texts they are in ascending or descending order of their code units, and rows with the
  same text keep the order of the collection.
\<close>

theorem table_sorted:
  assumes "ts_sortBy st = Some f" "f \<noteq> []" "list_all (\<lambda>r. is_str (member r f)) rows"
  shows "mset (filteredData st rows) = filter_mset (\<lambda>r. list_all is_space (ts_search st) \<or>
        (\<exists>(k, v) \<in> set (own_props r). sublist (to_lower (ts_search st)) (to_lower (to_str v)))) (mset rows)
    \<and> sorted_wrt (\<lambda>a b. in_order (ts_sortOrder st) (to_str (member a f)) (to_str (member b f))) (filteredData st rows)
    \<and> filter (\<lambda>r. member r f = JStr t) (filteredData st rows) = filter (\<lambda>r. member r f = JStr t \<and> r \<in> set (filteredData st rows)) rows"
proof (intro conjI)
  let ?found = "search_rows (ts_search st) rows" and ?cmp = "compare_rows f (ts_sortOrder st)"
  have eq: "filteredData st rows = js_sort ?cmp ?found"
    using assms(1,2) by (cases f) (simp_all add: filteredData_def Let_def)
  have sub: "set ?found \<subseteq> set rows" by (auto simp: search_rows_def)
  have str: "member r f = JStr (to_str (member r f))" if "r \<in> set ?found" for r
    using that sub assms(3) by (cases "member r f") (auto simp: list_all_iff dest!: subsetD)
  show "mset (filteredData st rows) = filter_mset (\<lambda>r. list_all is_space (ts_search st) \<or>
        (\<exists>(k, v) \<in> set (own_props r). sublist (to_lower (ts_search st)) (to_lower (to_str v)))) (mset rows)"
    by (simp add: eq search_rows_found found_by_def [abs_def])
  show "sorted_wrt (\<lambda>a b. in_order (ts_sortOrder st) (to_str (member a f)) (to_str (member b f))) (filteredData st rows)"
    unfolding eq
  proof (rule js_sort_by)
    show "num_lt (Fin 0) (?cmp a b) \<longleftrightarrow> \<not> in_order (ts_sortOrder st) (to_str (member a f)) (to_str (member b f))"
      if "a \<in> set ?found" "b \<in> set ?found" for a b
      using compare_rows_text [OF str [OF that(1)] str [OF that(2)]] .
    show "in_order ord a b \<or> in_order ord b a" for ord a b
      using str_lt_trans [of a b a] by (cases ord) (auto simp: in_order_def)
    show "in_order ord a b \<Longrightarrow> in_order ord b c \<Longrightarrow> in_order ord a c" for ord a b c
      using str_lt_total [of a b] str_lt_total [of b c] str_lt_trans [of c a b] str_lt_trans [of b c a]
        str_lt_trans [of a c b] str_lt_trans [of b a c]
      by (cases ord) (auto simp: in_order_def)
  qed
  have "filter (\<lambda>r. member r f = JStr t) (filteredData st rows) = filter (\<lambda>r. member r f = JStr t) ?found"
    unfolding eq
  proof (rule js_sort_stable)
    show "\<not> num_lt (Fin 0) (?cmp a b)" if "member a f = JStr t" "member b f = JStr t" for a b
      using that by (simp add: compare_rows_def)
  qed
  also have "\<dots> = filter (\<lambda>r. member r f = JStr t \<and> r \<in> set (filteredData st rows)) rows"
    by (auto simp: eq search_rows_found intro!: filter_cong)
  finally show "filter (\<lambda>r. member r f = JStr t) (filteredData st rows) =
      filter (\<lambda>r. member r f = JStr t \<and> r \<in> set (filteredData st rows)) rows" .
qed

theorem table_sorted_witness:
  "let st = \<lparr>ts_page = 1, ts_pageSize = 10, ts_sortBy = Some ''a'', ts_sortOrder = Desc, ts_search = ''X'', ts_filters = []\<rparr>;
       rows = [JObj [(''a'', JStr ''ax'')], JObj [(''a'', JStr ''b'')], JObj [(''a'', JStr ''xy'')]]
   in mset (filteredData st rows) = {# JObj [(''a'', JStr ''ax'')], JObj [(''a'', JStr ''xy'')] #} \<and>
      sorted_wrt (\<lambda>a b. in_order Desc (to_str (member a ''a'')) (to_str (member b ''a''))) (filteredData st rows)"
proof -
  let ?st = "\<lparr>ts_page = 1, ts_pageSize = 10, ts_sortBy = Some ''a'', ts_sortOrder = Desc, ts_search = ''X'', ts_filters = []\<rparr>"
  let ?rows = "[JObj [(''a'', JStr ''ax'')], JObj [(''a'', JStr ''b'')], JObj [(''a'', JStr ''xy'')]]"
  have l: "to_lower ''X'' = ''x''" "to_lower ''ax'' = ''ax''" "to_lower ''b'' = ''b''" "to_lower ''xy'' = ''xy''" by code_simp+
  have "list_all (\<lambda>r. is_str (member r ''a'')) ?rows" by simp
  from table_sorted [OF _ _ this, of ?st] have
    "mset (filteredData ?st ?rows) = filter_mset (\<lambda>r. list_all is_space ''X'' \<or>
        (\<exists>(k, v) \<in> set (own_props r). sublist (to_lower ''X'') (to_lower (to_str v)))) (mset ?rows)"
    "sorted_wrt (\<lambda>a b. in_order Desc (to_str (member a ''a'')) (to_str (member b ''a''))) (filteredData ?st ?rows)"
    by simp_all
  then show ?thesis unfolding Let_def l by (simp add: l is_space_def sublist_code)
qed

section \<open>Reachable states\<close>

text \<open>The states of a table: the collection may be another one at every step.\<close>

inductive table_reach :: "resource_descriptor \<Rightarrow> table_view \<Rightarrow> bool" for d where
  first_view: "table_reach d (initial_view d)"
| sort_step: "table_reach d v \<Longrightarrow> col \<in> set (rd_columns d) \<Longrightarrow> col_sortable col \<Longrightarrow> table_reach d (handleSort (col_key col) v)"
| all_step: "table_reach d v \<Longrightarrow> table_reach d (toggleSelectAll rows v)"
| row_step: "table_reach d v \<Longrightarrow> table_reach d (toggleSelectRow k v)"
| search_step: "table_reach d v \<Longrightarrow> table_reach d (handleSearch s v)"
| previous_step: "table_reach d v \<Longrightarrow> table_reach d (previousPage v)"
| next_step: "table_reach d v \<Longrightarrow> table_reach d (nextPage given rows v)"

text \<open>
  The state of a table stays sound: in every state reached by sorting, selecting, searching and turning pages, over any sequence of
  collections, the page is at least 1, the page size is 10, no row is selected twice, and the rows are
  sorted by the default field of the descriptor or by one of its sortable columns.
\<close>

theorem table_reach_sound:
  "table_reach d v \<Longrightarrow> 1 \<le> ts_page (tv_query v) \<and> ts_pageSize (tv_query v) = 10 \<and> distinct (tv_selected v)
    \<and> (ts_sortBy (tv_query v) = map_option fst (rd_defaultSort d) \<or>
       (\<exists>col \<in> set (rd_columns d). col_sortable col \<and> ts_sortBy (tv_query v) = Some (col_key col)))"
proof (induction rule: table_reach.induct)
  case first_view
  show ?case by (simp add: initial_view_def)
next
  case (all_step v rows)
  then show ?case by (simp add: toggleSelectAll_def Let_def)
next
  case (next_step v given rows)
  then show ?case by (auto simp: nextPage_def)
qed (auto simp: handleSort_def toggleSelectRow_def handleSearch_def previousPage_def Let_def)

theorem table_reach_sound_witness:
  "1 \<le> ts_page (tv_query (previousPage (toggleSelectRow ''a'' (initial_view fleetInstanceConfig))))"
  by (rule conjunct1 [OF table_reach_sound [of fleetInstanceConfig]]) (intro table_reach.intros)

text \<open>
  Hidden rows are deleted: a row selected before a search that does not find it is no longer among the rows of the table, on any page, yet the delete
  button still hands over its identifier.
\<close>

theorem hidden_rows_deleted:
  assumes "k \<in> set (tv_selected v)" "trim s \<noteq> []"
    "list_all (\<lambda>r. row_ident r = k \<longrightarrow> \<not> row_matches (to_lower s) r) rows"
  shows "k \<notin> row_ident ` set (filteredData (tv_query (handleSearch s v)) rows)
    \<and> (\<exists>idents. deleteSelected (handleSearch s v) = Some idents \<and> k \<in> set idents)"
proof
  have "set (filteredData (tv_query (handleSearch s v)) rows) \<subseteq> set (search_rows s rows)"
    by (auto simp: filteredData_def handleSearch_def Let_def split: option.splits list.splits)
  moreover have "k \<notin> row_ident ` set (search_rows s rows)"
    using assms(2,3) by (auto simp: search_rows_def list_all_iff)
  ultimately show "k \<notin> row_ident ` set (filteredData (tv_query (handleSearch s v)) rows)" by blast
  show "\<exists>idents. deleteSelected (handleSearch s v) = Some idents \<and> k \<in> set idents"
    using assms(1) by (auto simp: deleteSelected_def handleSearch_def)
qed

theorem hidden_rows_deleted_witness:
  "let v = toggleSelectRow ''a'' (initial_view fleetInstanceConfig); rows = [JObj [(''id'', JStr ''a'')], JObj [(''id'', JStr ''b'')]]
   in \<exists>idents. deleteSelected (handleSearch ''b'' v) = Some idents \<and> ''a'' \<in> set idents"
  unfolding Let_def
  by (rule conjunct2 [OF hidden_rows_deleted [of _ _ _ "[JObj [(''id'', JStr ''a'')], JObj [(''id'', JStr ''b'')]]"]])
    (simp_all add: toggleSelectRow_def initial_view_def trim_def is_space_def row_ident_def row_matches_def to_lower_def
      lower_char_def is_upper_def starts_with_def)

end
