(* ===== verification/SignInPages.thy ===== *)
theory SignInPages
  imports Browser
begin

text \<open>
  The pages of signing in and out: app/login/page.tsx, app/setup/page.tsx and the two ways to log out
  (components/layout/header.tsx and command-palette.tsx). The state of a form extends the browser's; the markup is not modelled.
  \<open>leaves_origin\<close> is the URL standard's reading of a reference without a scheme against an http(s) page.
\<close>

record lworld = bworld +
  l_token :: string
  l_name :: string
  l_email :: string
  l_password :: string
  l_confirm :: string
  l_loading :: bool
  l_checking :: bool
  l_error :: "string option"
  l_routes :: "string list"  \<comment> \<open>\<open>router.push\<close> and \<open>router.replace\<close>\<close>

type_synonym ('w, 'a) lact = "('w lworld_scheme, 'a) js"

definition go_to :: "string \<Rightarrow> 'w bworld_scheme \<Rightarrow> 'w bworld_scheme" where
  "go_to target w = w\<lparr>b_visited := b_visited w @ [target]\<rparr>"

definition toast_plain :: "string \<Rightarrow> string \<Rightarrow> 'w bworld_scheme \<Rightarrow> 'w bworld_scheme" where
  "toast_plain kind msg w = w\<lparr>b_toasts := b_toasts w @ [(kind, msg, None)]\<rparr>"

section \<open>app/login/page.tsx\<close>

text \<open>The check whether the cluster is set up, run when the page is mounted; \<open>mounted\<close> when it ends.\<close>

definition answered :: "http_response \<Rightarrow> ('w, jsval) act" where
  "answered res = (if rs_ok res then response_json res else ret JNull)"

definition login_check :: "bool \<Rightarrow> ('w, unit) lact" where
  "login_check mounted = try_catch
     (bnd (fetch (get_request ''/api/auth/status'')) (\<lambda>res. bnd (answered res) (\<lambda>d.
        if \<not> mounted then ret ()
        else if truthy d \<and> strict_eq (member d ''bootstrapped'') (JBool False)
          then modify (\<lambda>w. w\<lparr>l_routes := l_routes w @ [''/setup'']\<rparr>)
        else modify (\<lambda>w. w\<lparr>l_checking := False\<rparr>))))
     (\<lambda>_. if mounted then modify (\<lambda>w. w\<lparr>l_checking := False\<rparr>) else ret ())"

definition safe_from :: "params \<Rightarrow> string" where
  "safe_from ps = (let rawFrom = params_or ''from'' ps ''/'' in
     if starts_with rawFrom ''/'' \<and> \<not> starts_with rawFrom ''//'' then rawFrom else ''/'')"

definition login_body :: "'w lworld_scheme \<Rightarrow> jsval" where
  "login_body w = JObj [(''email'', JStr (to_lower (trim (l_email w)))), (''password'', JStr (l_password w))]"

text \<open>\<open>throw new Error(data.error || msg)\<close> for an answer that is not ok; otherwise the data.\<close>

definition checked_answer :: "string \<Rightarrow> http_response \<Rightarrow> ('w, jsval) act" where
  "checked_answer msg res = bnd (response_json res) (\<lambda>d.
     if \<not> rs_ok res then bnd (lift (get_prop d ''error'')) (\<lambda>e. throw (Error ''Error'' (to_str (js_or e (JStr msg))))) else ret d)"

definition form_failed :: "string \<Rightarrow> exn \<Rightarrow> ('w, unit) lact" where
  "form_failed msg err = (let message = err_message err msg in
     modify (\<lambda>w. toast_plain ''error'' message (w\<lparr>l_error := Some message\<rparr>)))"

definition login_submit :: "params \<Rightarrow> ('w, unit) lact" where
  "login_submit ps = bnd (try_catch
     (bnd (asks login_body) (\<lambda>body.
      bnd (fetch (json_send ''POST'' ''/api/auth/login'' body)) (\<lambda>res.
      bnd (checked_answer ''Authentication failed'' res) (\<lambda>d.
      bnd (lift (get_prop d ''operator'')) (\<lambda>op.
      modify (\<lambda>w. go_to (safe_from ps) (toast_plain ''success''
        (''Welcome back, '' @ to_str (js_or (opt_prop op ''name'') (JStr ''Operator''))) w)))))))
     (form_failed ''Invalid email or password''))
     (\<lambda>_. modify (\<lambda>w. w\<lparr>l_loading := False\<rparr>))"

definition handleLocalLogin :: "params \<Rightarrow> ('w, unit) lact" where
  "handleLocalLogin ps = bnd (modify (\<lambda>w. w\<lparr>l_error := None, l_loading := True\<rparr>)) (\<lambda>_. login_submit ps)"

definition handleSSOLogin :: "'w lworld_scheme \<Rightarrow> 'w lworld_scheme" where
  "handleSSOLogin w = go_to ''/api/auth/sso/login''
     (toast_plain ''info'' ''Connecting to registered Janus/Ego OpenID Connect provider...'' w)"

section \<open>app/setup/page.tsx\<close>

definition setup_check :: "bool \<Rightarrow> ('w, unit) lact" where
  "setup_check mounted = try_catch
     (bnd (fetch (get_request ''/api/auth/status'')) (\<lambda>res. bnd (answered res) (\<lambda>d.
        if \<not> mounted then ret ()
        else if truthy d \<and> strict_eq (member d ''bootstrapped'') (JBool True)
          then modify (\<lambda>w. toast_plain ''info'' ''Cluster is already initialized. Please authenticate.'' (w\<lparr>l_routes := l_routes w @ [''/login'']\<rparr>))
        else modify (\<lambda>w. w\<lparr>l_checking := False\<rparr>))))
     (\<lambda>_. if mounted then modify (\<lambda>w. w\<lparr>l_checking := False\<rparr>) else ret ())"

definition setup_body :: "'w lworld_scheme \<Rightarrow> jsval" where
  "setup_body w = JObj [(''bootstrap_token'', JStr (trim (l_token w))), (''name'', JStr (trim (l_name w))),
     (''email'', JStr (to_lower (trim (l_email w)))), (''password'', JStr (l_password w))]"

definition setup_submit :: "('w, unit) lact" where
  "setup_submit = bnd (try_catch
     (bnd (asks setup_body) (\<lambda>body.
      bnd (fetch (json_send ''POST'' ''/api/auth/setup'' body)) (\<lambda>res.
      bnd (checked_answer ''Failed to complete setup'' res) (\<lambda>_.
      modify (\<lambda>w. toast_plain ''success'' ''Root owner created successfully. Initializing control plane...''
        (w\<lparr>l_routes := l_routes w @ [''/'']\<rparr>))))))
     (form_failed ''An unexpected error occurred during bootstrap setup''))
     (\<lambda>_. modify (\<lambda>w. w\<lparr>l_loading := False\<rparr>))"

definition setup_refusal :: "'w lworld_scheme \<Rightarrow> string option" where
  "setup_refusal w = (if l_password w \<noteq> l_confirm w then Some ''Passwords do not match''
     else if length (l_password w) < 8 then Some ''Password must be at least 8 characters'' else None)"

definition handleSetup :: "('w, unit) lact" where
  "handleSetup = bnd (modify (\<lambda>w. w\<lparr>l_error := None\<rparr>)) (\<lambda>_. bnd (asks setup_refusal) (\<lambda>r. case r of
     Some msg \<Rightarrow> modify (\<lambda>w. w\<lparr>l_error := Some msg\<rparr>)
   | None \<Rightarrow> bnd (modify (\<lambda>w. w\<lparr>l_loading := True\<rparr>)) (\<lambda>_. setup_submit)))"

section \<open>Logging out\<close>

definition logout_post :: http_request where
  "logout_post = \<lparr>rq_method = ''POST'', rq_url = ''/api/auth/logout'', rq_headers = [], rq_body = NoBody\<rparr>"

text \<open>The header goes to the login page whatever happens and passes the error on, the palette only after an answer.\<close>

definition header_logout :: "('w, unit) bact" where
  "header_logout = bnd (settle (fetch logout_post)) (\<lambda>r. bnd (modify (go_to ''/login'')) (\<lambda>_.
     case r of Inl e \<Rightarrow> throw e | Inr _ \<Rightarrow> ret ()))"

definition palette_logout :: "('w, unit) bact" where
  "palette_logout = bnd (fetch logout_post) (\<lambda>_. modify (go_to ''/login''))"

section \<open>Where a login leads\<close>

definition url_clean :: "string \<Rightarrow> string" where
  "url_clean s = filter (\<lambda>c. (of_char c :: nat) \<notin> {9, 10, 13}) (dropWhile (\<lambda>c. (of_char c :: nat) \<le> 32) s)"

definition slash_like :: "char \<Rightarrow> bool" where
  "slash_like c \<longleftrightarrow> c = CHR ''/'' \<or> c = CHR 0x5C"

text \<open>Two slashes, of either kind, at the start: the next part of the reference is another host.\<close>

definition leaves_origin :: "string \<Rightarrow> bool" where
  "leaves_origin ref = (case url_clean ref of a # b # _ \<Rightarrow> slash_like a \<and> slash_like b | _ \<Rightarrow> False)"

definition plain_path_char :: "char \<Rightarrow> bool" where
  "plain_path_char c \<longleftrightarrow> (of_char c :: nat) \<notin> {9, 10, 13} \<and> c \<noteq> CHR 0x5C"

lemma safe_plain:
  assumes "list_all plain_path_char (params_or ''from'' ps ''/'')"
  shows "\<not> leaves_origin (safe_from ps)"
proof -
  define s where "s = safe_from ps"
  have s: "list_all plain_path_char s" "starts_with s ''/''" "\<not> starts_with s ''//''"
    using assms by (auto simp: s_def safe_from_def Let_def plain_path_char_def starts_with_def)
  then obtain r where r: "s = CHR ''/'' # r" by (cases s) (auto simp: starts_with_def)
  have "filter (\<lambda>c. (of_char c :: nat) \<notin> {9, 10, 13}) s = s"
    using s(1) by (intro filter_True) (auto simp: list_all_iff plain_path_char_def)
  then have "url_clean s = s" by (simp add: url_clean_def r)
  then show ?thesis
    using s by (cases r) (auto simp: leaves_origin_def r slash_like_def starts_with_def plain_path_char_def s_def [symmetric])
qed

text \<open>
  C30. The return address of a login is checked for two slashes only: one without a backslash, tab or line break stays on the console, but
  a slash and a backslash before a name pass the check and lead a browser to the host of that name.
\<close>

theorem login_open_redirect:
  assumes "params_get ''from'' ps = Some (CHR ''/'' # CHR 0x5C # host)"
    "list_all plain_path_char (params_or ''from'' qs ''/'')"
  shows "safe_from ps = CHR ''/'' # CHR 0x5C # host \<and> leaves_origin (safe_from ps) \<and> \<not> leaves_origin (safe_from qs)"
  using assms safe_plain
  by (simp add: safe_from_def params_or_def starts_with_def leaves_origin_def url_clean_def slash_like_def)

theorem login_open_redirect_witness:
  "let ps = [(''from'', CHR ''/'' # CHR 0x5C # ''evil.example'')]; qs = [(''from'', ''/keys'')]
   in leaves_origin (safe_from ps) \<and> \<not> leaves_origin (safe_from qs)"
proof -
  define ps where "ps = [(''from'', CHR ''/'' # CHR 0x5C # ''evil.example'')]"
  define qs where "qs = [(''from'', ''/keys'')]"
  have "params_get ''from'' ps = Some (CHR ''/'' # CHR 0x5C # ''evil.example'')" by (simp add: ps_def params_get_def)
  moreover have "list_all plain_path_char (params_or ''from'' qs ''/'')"
    by (simp add: qs_def params_or_def params_get_def plain_path_char_def)
  ultimately have "leaves_origin (safe_from ps) \<and> \<not> leaves_origin (safe_from qs)" by (rule login_open_redirect [THEN conjunct2])
  then show ?thesis unfolding Let_def ps_def qs_def .
qed

text \<open>
  The setup form keeps its promises: unless both passwords agree and have at least eight characters nothing is sent and an error
  is shown; otherwise one request carries the trimmed fields, and the console is entered only after a successful answer.
\<close>

theorem setup_guarded:
  shows "(setup_refusal w = Some msg \<longrightarrow> w_sent (snd (handleSetup w)) = w_sent w \<and> l_error (snd (handleSetup w)) = Some msg \<and> l_routes (snd (handleSetup w)) = l_routes w)
    \<and> (setup_refusal w = None \<longrightarrow> l_password w = l_confirm w \<and> 8 \<le> length (l_password w)
         \<and> w_sent (snd (handleSetup w)) = w_sent w @ [json_send ''POST'' ''/api/auth/setup'' (setup_body w)]
         \<and> (l_routes (snd (handleSetup w)) \<noteq> l_routes w \<longrightarrow>
              (\<exists>res. w_upstream w (w_sent w @ [json_send ''POST'' ''/api/auth/setup'' (setup_body w)]) = Inr res \<and> rs_ok res)))"
proof -
  define v where "v = w\<lparr>l_error := None, l_loading := True\<rparr>"
  define rq where "rq = json_send ''POST'' ''/api/auth/setup'' (setup_body w)"
  have b: "setup_body v = setup_body w" by (simp add: setup_body_def v_def)
  have up: "w_upstream v = w_upstream w" "w_sent v = w_sent w" "l_routes v = l_routes w" by (simp_all add: v_def)
  have parse: "response_json res u = (parse_text u (rs_text res), u)" for res and u :: "'a lworld_scheme"
    by (simp add: response_json_def parse_text_def)
  have submit: "w_sent (snd (setup_submit v)) = w_sent w @ [rq]"
      "l_routes (snd (setup_submit v)) \<noteq> l_routes w \<Longrightarrow> \<exists>res. w_upstream w (w_sent w @ [rq]) = Inr res \<and> rs_ok res"
    by (auto simp: setup_submit_def bnd_def try_catch_def asks_def modify_def fetch_def Let_def b rq_def [symmetric] up checked_answer_def
        parse lift_def throw_def ret_def form_failed_def toast_plain_def split: sum.splits if_splits)
  show ?thesis
  proof (cases "setup_refusal w")
    case None
    have "handleSetup w = setup_submit v"
      using None by (simp add: handleSetup_def run setup_refusal_def v_def split: if_splits)
    moreover have "l_password w = l_confirm w \<and> 8 \<le> length (l_password w)"
      using None by (auto simp: setup_refusal_def split: if_splits)
    ultimately show ?thesis using None submit unfolding rq_def [symmetric] by (metis option.distinct(1))
  next
    case (Some m)
    have "setup_refusal (w\<lparr>l_error := None\<rparr>) = setup_refusal w" by (simp add: setup_refusal_def)
    then show ?thesis using Some by (simp add: handleSetup_def bnd_def asks_def modify_def)
  qed
qed

theorem setup_guarded_witness:
  "let w = bworld.extend (example_browser ''/setup'' [] (\<lambda>_. ok_text ''{}'')) \<lparr>l_token = [], l_name = [], l_email = [], l_password = ''short'',
       l_confirm = ''short'', l_loading = False, l_checking = False, l_error = None, l_routes = []\<rparr>
   in l_error (snd (handleSetup w)) = Some ''Password must be at least 8 characters''"
proof -
  define w where "w = bworld.extend (example_browser ''/setup'' [] (\<lambda>_. ok_text ''{}'')) \<lparr>l_token = [], l_name = [], l_email = [], l_password = ''short'',
       l_confirm = ''short'', l_loading = False, l_checking = False, l_error = None, l_routes = []\<rparr>"
  have "setup_refusal w = Some ''Password must be at least 8 characters''"
    by (simp add: w_def setup_refusal_def bworld.defs)
  then have "l_error (snd (handleSetup w)) = Some ''Password must be at least 8 characters''"
    using setup_guarded [of w "''Password must be at least 8 characters''"] by simp
  then show ?thesis unfolding Let_def w_def .
qed

end
