(* ===== verification/Pages.thy ===== *)
theory Pages
  imports SignInPages ResourceTable ConsoleState
begin

text \<open>
  What the pages of the console share: files handed to the browser, the answer of \<open>confirm\<close>, the queries marked as stale
  (\<open>queryClient.invalidateQueries\<close>), mutations of the query library, \<open>JSON.stringify\<close> with indentation, and paging by
  cursors, whose contract is the locale \<open>cursor_pager\<close>. A page keeps its state in a record of its own that extends \<open>pworld\<close>, with one field
  per \<open>useState\<close>; a handler reads the values of the render it was made in, that is, those at its start.
\<close>

record pworld = bworld +
  p_files :: "(string \<times> string) list"  \<comment> \<open>name and text of each download\<close>
  p_confirm :: "string \<Rightarrow> bool"
  p_stale :: "string list list"

type_synonym ('w, 'a) pact = "('w pworld_scheme, 'a) js"

definition download :: "string \<Rightarrow> string \<Rightarrow> 'w pworld_scheme \<Rightarrow> 'w pworld_scheme" where
  "download name content w = w\<lparr>p_files := p_files w @ [(name, content)]\<rparr>"

definition invalidate :: "string list \<Rightarrow> 'w pworld_scheme \<Rightarrow> 'w pworld_scheme" where
  "invalidate key w = w\<lparr>p_stale := p_stale w @ [key]\<rparr>"

text \<open>\<open>useMutation\<close>: an error of the function or of \<open>onSuccess\<close> goes to \<open>onError\<close>; \<open>mutate\<close> itself throws nothing.\<close>

definition mutation :: "('w, 'a) js \<Rightarrow> ('a \<Rightarrow> ('w, unit) js) \<Rightarrow> (exn \<Rightarrow> ('w, unit) js) \<Rightarrow> ('w, unit) js" where
  "mutation f on_success on_error = bnd (settle (bnd f on_success)) (\<lambda>r. case r of
     Inl e \<Rightarrow> bnd (settle (on_error e)) (\<lambda>_. ret ()) | Inr _ \<Rightarrow> ret ())"

text \<open>\<open>try ... catch ... finally\<close> where the last part is an update.\<close>

definition try_finally :: "('w, 'a) js \<Rightarrow> (exn \<Rightarrow> ('w, 'a) js) \<Rightarrow> ('w \<Rightarrow> 'w) \<Rightarrow> ('w, 'a) js" where
  "try_finally m h f = bnd (settle (try_catch m h)) (\<lambda>r. bnd (modify f) (\<lambda>_. lift r))"

definition json_options :: "string \<Rightarrow> jsval \<Rightarrow> fetch_options" where
  "json_options m v = \<lparr>fo_method = Some m, fo_headers = json_type, fo_body = json_body v\<rparr>"

definition str_or :: "string \<Rightarrow> string \<Rightarrow> string" where
  "str_or s d = (if s = [] then d else s)"

definition quoted :: "string \<Rightarrow> string" where
  "quoted s = CHR 0x27 # s @ [CHR 0x27]"

text \<open>\<open>throw new Error(msg)\<close>\<close>

definition fail_msg :: "string \<Rightarrow> ('w, 'a) js" where
  "fail_msg msg = throw (Error ''Error'' msg)"

definition toast_error :: "string \<Rightarrow> exn \<Rightarrow> ('w bworld_scheme, unit) js" where
  "toast_error msg err = modify (toast_plain ''error'' (err_message err msg))"

definition delete_request :: "string \<Rightarrow> http_request" where
  "delete_request url = \<lparr>rq_method = ''DELETE'', rq_url = url, rq_headers = [], rq_body = NoBody\<rparr>"

section \<open>What an action leaves alone\<close>

lemma run_only_modify [run]: "modify f w = (Inr (), f w)"
  by (simp add: modify_def)

text \<open>An action keeps an observation of the world when each of its steps does; it is quiet when it sends nothing.\<close>

definition unchanged :: "('w \<Rightarrow> 'b) \<Rightarrow> 'w \<Rightarrow> 'w \<Rightarrow> bool" where
  "unchanged f w w' \<longleftrightarrow> f w' = f w"

interpretation same: frame "unchanged f" for f :: "'w \<Rightarrow> 'b"
  by unfold_locales (auto simp: unchanged_def)

abbreviation quiet :: "('w, 'a) act \<Rightarrow> bool" where
  "quiet m \<equiv> keeps (unchanged w_sent) m"

named_theorems same_rules "rules for what an action leaves alone"

lemmas [same_rules] = same.k_ret same.k_throw same.k_lift same.k_asks same.k_bnd same.k_try same.k_settle

lemma sameD: "keeps (unchanged f) m \<Longrightarrow> f (snd (m w)) = f w"
  by (simp add: keeps_def unchanged_def)

lemma same_fail [same_rules]: "keeps (unchanged f) (fail_msg msg)"
  by (simp add: fail_msg_def same_rules)

lemma same_json [same_rules]: "keeps (unchanged f) (response_json r)"
  by (simp add: keeps_def unchanged_def response_json_def)

lemma same_safe_parse [same_rules]: "keeps (unchanged f) (safe_parse s v)"
  by (simp add: keeps_def unchanged_def safe_parse_def)

lemma same_modify [same_rules]: "(\<And>w. f (g w) = f w) \<Longrightarrow> keeps (unchanged f) (modify g)"
  by (simp add: keeps_def unchanged_def modify_def)

lemma same_fetch [same_rules]: "(\<And>w. f (w\<lparr>w_sent := w_sent w @ [rq]\<rparr>) = f w) \<Longrightarrow> keeps (unchanged f) (fetch rq)"
  by (simp add: keeps_def unchanged_def fetch_def Let_def)

lemma same_date_now [same_rules]: "(\<And>w. f (w\<lparr>w_ticks := Suc (w_ticks w)\<rparr>) = f w) \<Longrightarrow> keeps (unchanged f) date_now"
  by (simp add: keeps_def unchanged_def date_now_def)

lemma same_if [same_rules]: "(b \<Longrightarrow> keeps R m) \<Longrightarrow> (\<not> b \<Longrightarrow> keeps R n) \<Longrightarrow> keeps R (if b then m else n)"
  by simp

lemma same_case_sum [same_rules]: "(\<And>e. keeps R (f e)) \<Longrightarrow> (\<And>a. keeps R (g a)) \<Longrightarrow> keeps R (case r of Inl e \<Rightarrow> f e | Inr a \<Rightarrow> g a)"
  by (cases r) auto

lemma same_case_option [same_rules]: "keeps R m \<Longrightarrow> (\<And>a. keeps R (g a)) \<Longrightarrow> keeps R (case r of None \<Rightarrow> m | Some a \<Rightarrow> g a)"
  by (cases r) auto

lemma same_toast_error [same_rules]: "(\<And>w msg. f (toast_plain ''error'' msg w) = f w) \<Longrightarrow> keeps (unchanged f) (toast_error msg err)"
  unfolding toast_error_def by (rule same_modify) simp

lemma same_try_finally [same_rules]:
  "keeps (unchanged f) m \<Longrightarrow> (\<And>e. keeps (unchanged f) (h e)) \<Longrightarrow> (\<And>w. f (g w) = f w) \<Longrightarrow> keeps (unchanged f) (try_finally m h g)"
  unfolding try_finally_def by (intro same_rules)

lemma same_mutation [same_rules]:
  "keeps (unchanged f) m \<Longrightarrow> (\<And>a. keeps (unchanged f) (g a)) \<Longrightarrow> (\<And>e. keeps (unchanged f) (h e)) \<Longrightarrow> keeps (unchanged f) (mutation m g h)"
  unfolding mutation_def by (intro same_rules)

text \<open>What an action around one request sends.\<close>

lemma sent_fetch: "(\<And>r. quiet (f r)) \<Longrightarrow> w_sent (snd (bnd (fetch rq) f w)) = w_sent w @ [rq]"
  by (simp add: sameD [of w_sent] run log_request_def split: sum.split)

lemma sent_settle_fetch: "(\<And>r. quiet (f r)) \<Longrightarrow> w_sent (snd (bnd (settle (fetch rq)) f w)) = w_sent w @ [rq]"
  by (simp add: sameD [of w_sent] run log_request_def)

lemma sent_bnd_quiet: "(\<And>a. quiet (f a)) \<Longrightarrow> w_sent (snd (bnd m f w)) = w_sent (snd (m w))"
  by (auto simp: bnd_def sameD [of w_sent] split: prod.split sum.split)

lemma sent_settle: "w_sent (snd (settle m w)) = w_sent (snd (m w))"
  by (simp add: settle_def split: prod.split)

lemma sent_try_catch: "(\<And>e. quiet (h e)) \<Longrightarrow> w_sent (snd (try_catch m h w)) = w_sent (snd (m w))"
  by (auto simp: try_catch_def sameD [of w_sent] split: prod.split sum.split)

lemma sent_try_finally:
  assumes "\<And>e. quiet (h e)" "\<And>w. w_sent (f w) = w_sent w"
  shows "w_sent (snd (try_finally m h f w)) = w_sent (snd (m w))"
proof -
  have "quiet (bnd (modify f) (\<lambda>_. lift r))" for r :: "'b res"
    by (intro same_rules assms)
  then show ?thesis
    unfolding try_finally_def by (subst sent_bnd_quiet) (auto simp: sent_settle sent_try_catch [OF assms(1)])
qed

lemma sent_mutation:
  assumes "\<And>e. quiet (h e)"
  shows "w_sent (snd (mutation m g h w)) = w_sent (snd (bnd m g w))"
proof -
  have "quiet (case r of Inl e \<Rightarrow> bnd (settle (h e)) (\<lambda>_. ret ()) | Inr _ \<Rightarrow> ret ())" for r :: "unit res"
    by (intro same_rules assms)
  then show ?thesis
    unfolding mutation_def by (subst sent_bnd_quiet) (auto simp: sent_settle)
qed

lemma sent_toast [simp]: "w_sent (toast_plain k msg w) = w_sent w"
  by (simp add: toast_plain_def)

lemma sent_invalidate [simp]: "w_sent (invalidate k w) = w_sent w"
  by (simp add: invalidate_def)

lemma sent_download [simp]: "w_sent (download n c w) = w_sent w"
  by (simp add: download_def)

lemma dropWhile_hd: "s \<noteq> [] \<Longrightarrow> \<not> P (hd s) \<Longrightarrow> dropWhile P s = s"
  by (cases s) auto

lemma trim_ends: "s \<noteq> [] \<Longrightarrow> \<not> is_space (hd s) \<Longrightarrow> \<not> is_space (last s) \<Longrightarrow> trim s = s"
  by (simp add: trim_def dropWhile_hd hd_rev)

section \<open>JSON.stringify(v, null, 2)\<close>

definition newline :: "nat \<Rightarrow> string" where
  "newline n = CHR 0x0A # replicate (2 * n) (CHR '' '')"

fun pretty :: "nat \<Rightarrow> jsval \<Rightarrow> string" where
  "pretty n (JArr []) = ''[]''"
| "pretty n (JArr (x # xs)) = ''['' @ newline (Suc n) @ join ('','' @ newline (Suc n)) (map (pretty (Suc n)) (x # xs)) @ newline n @ '']''"
| "pretty n (JObj []) = ''{}''"
| "pretty n (JObj (kv # kvs)) = ''{'' @ newline (Suc n) @
     join ('','' @ newline (Suc n)) (map (\<lambda>(k, v). print_string k @ '': '' @ pretty (Suc n) v) (kv # kvs)) @ newline n @ ''}''"
| "pretty n v = print_json v"

definition json_pretty :: "jsval \<Rightarrow> string" where
  "json_pretty v = pretty 0 (json_clean v)"

section \<open>Paging by cursors\<close>

text \<open>The next cursor of an answer that says there is more; the schemas make it a string.\<close>

definition next_cursor :: "jsval \<Rightarrow> string option" where
  "next_cursor answer = (if truthy (opt_prop answer ''has_more'') then
     (case member answer ''next_cursor'' of JStr (c # s) \<Rightarrow> Some (c # s) | _ \<Rightarrow> None) else None)"

datatype page_move = NextPage jsval | PreviousPage | PageSize int

text \<open>
  The abstract pager is the trail of the cursors from the first page (whose cursor is empty) to the one shown.
\<close>

fun trail_step :: "page_move \<Rightarrow> string list \<Rightarrow> string list" where
  "trail_step (NextPage a) t = (case next_cursor a of None \<Rightarrow> t | Some c \<Rightarrow> t @ [c])"
| "trail_step PreviousPage t = (if length t \<le> 1 then t else butlast t)"
| "trail_step (PageSize n) t = [[]]"

fun pager_step :: "(jsval \<Rightarrow> 's \<Rightarrow> 's) \<Rightarrow> ('s \<Rightarrow> 's) \<Rightarrow> (int \<Rightarrow> 's \<Rightarrow> 's) \<Rightarrow> page_move \<Rightarrow> 's \<Rightarrow> 's" where
  "pager_step nx pv sz (NextPage a) s = nx a s"
| "pager_step nx pv sz PreviousPage s = pv s"
| "pager_step nx pv sz (PageSize n) s = sz n s"

locale cursor_pager =
  fixes nx :: "jsval \<Rightarrow> 's \<Rightarrow> 's" and pv :: "'s \<Rightarrow> 's" and sz :: "int \<Rightarrow> 's \<Rightarrow> 's"
    and shown_cursor :: "'s \<Rightarrow> string" and trail :: "'s \<Rightarrow> string list" and reached :: "'s \<Rightarrow> bool"
  assumes shown_last: "reached s \<Longrightarrow> trail s \<noteq> [] \<and> shown_cursor s = last (trail s)"
    and nx_trail: "reached s \<Longrightarrow> reached (nx a s) \<and> trail (nx a s) = trail_step (NextPage a) (trail s)"
    and pv_trail: "reached s \<Longrightarrow> reached (pv s) \<and> trail (pv s) = trail_step PreviousPage (trail s)"
    and sz_trail: "reached s \<Longrightarrow> reached (sz n s) \<and> trail (sz n s) = trail_step (PageSize n) (trail s)"
begin

lemma step_trail: "reached s \<Longrightarrow> reached (pager_step nx pv sz m s) \<and> trail (pager_step nx pv sz m s) = trail_step m (trail s)"
  by (cases m) (auto simp: nx_trail pv_trail sz_trail)

lemma moves_trail:
  "reached s \<Longrightarrow> reached (fold (pager_step nx pv sz) ms s) \<and> trail (fold (pager_step nx pv sz) ms s) = fold trail_step ms (trail s)"
  by (induction ms arbitrary: s) (use step_trail in auto)

lemma shown_trail: "reached s \<Longrightarrow> shown_cursor (fold (pager_step nx pv sz) ms s) = last (fold trail_step ms (trail s))"
  using shown_last moves_trail by metis

end

text \<open>Going forth over a list of pages and back again as often leaves the trail as it was.\<close>

lemma trail_forth: "list_all (\<lambda>a. next_cursor a \<noteq> None) as \<Longrightarrow> fold trail_step (map NextPage as) t = t @ map (\<lambda>a. the (next_cursor a)) as"
  by (induction as arbitrary: t) auto

lemma trail_back: "t \<noteq> [] \<Longrightarrow> fold trail_step (replicate (length cs) PreviousPage) (t @ cs) = t"
proof (induction cs rule: rev_induct)
  case (snoc c cs)
  have "butlast (t @ cs @ [c]) = t @ cs" by (simp add: butlast_append)
  then show ?case using snoc by simp
qed simp

lemma trail_forth_back:
  assumes "list_all (\<lambda>a. next_cursor a \<noteq> None) as" "t \<noteq> []"
  shows "fold trail_step (map NextPage as @ replicate (length as) PreviousPage) t = t"
  using trail_back [OF assms(2), of "map (\<lambda>a. the (next_cursor a)) as"] by (simp add: trail_forth [OF assms(1)])

lemma trail_step_nonempty: "t \<noteq> [] \<Longrightarrow> trail_step m t \<noteq> []"
  by (cases m) (auto split: option.split simp flip: length_greater_0_conv)

text \<open>A world for examples: the browser of the examples on a page with one network.\<close>

definition example_page :: "(http_request list \<Rightarrow> exn + http_response) \<Rightarrow> pworld" where
  "example_page up = bworld.extend (example_browser ''/'' [] up) \<lparr>p_files = [], p_confirm = (\<lambda>_. True), p_stale = []\<rparr>"

end
