(* ===== verification/SchemaForms.thy ===== *)
theory SchemaForms
  imports Pages
begin

text \<open>
  The form drawn from an identity schema (app/identities/schema-form.tsx) and the editor of the schemas
  (app/identities/schema-studio.tsx) with its handlers. Values are JSON values, a place in them is a path of member names. Titles,
  descriptions and placeholders are markup and left out, as is copying to the clipboard.
\<close>

section \<open>schema-form.tsx: reading and writing at a path\<close>

text \<open>\<open>current[k] = v\<close> for an object or array; a name that is no index leaves the elements of an array alone.\<close>

fun set_member :: "string \<Rightarrow> jsval \<Rightarrow> jsval \<Rightarrow> jsval" where
  "set_member k v (JObj kvs) = JObj (obj_assign k v kvs)"
| "set_member k v (JArr xs) = (case array_index k of
     Some i \<Rightarrow> JArr (if i < length xs then xs[i := v] else xs @ replicate (i - length xs) JUndef @ [v])
   | None \<Rightarrow> JArr xs)"
| "set_member k v cur = cur"

fun assign_path :: "string list \<Rightarrow> jsval \<Rightarrow> jsval \<Rightarrow> jsval" where
  "assign_path [] v cur = set_member ''undefined'' v cur"
| "assign_path [k] v cur = set_member k v cur"
| "assign_path (k # k' # ks) v cur =
     (let inner = member cur k
      in set_member k (assign_path (k' # ks) v (if truthy inner \<and> is_object inner then inner else JObj [])) cur)"

definition handleFieldChange :: "string list \<Rightarrow> jsval \<Rightarrow> jsval \<Rightarrow> jsval" where
  "handleFieldChange path fieldValue val = assign_path path fieldValue (json_clean (js_or val (JObj [])))"

definition getFieldValue :: "string list \<Rightarrow> jsval \<Rightarrow> jsval" where
  "getFieldValue path val = (case walk val path of Some v \<Rightarrow> v | None \<Rightarrow> JUndef)"

section \<open>schema-form.tsx: the fields of a schema\<close>

datatype field_kind = BooleanField | NumberField | EnumField | TextField string

definition field_kind_of :: "jsval \<Rightarrow> field_kind" where
  "field_kind_of prop = (let t = member prop ''type''; f = member prop ''format'' in
     if t = JStr ''boolean'' then BooleanField
     else if t = JStr ''number'' \<or> t = JStr ''integer'' then NumberField
     else if is_arr (member prop ''enum'') then EnumField
     else TextField (if f = JStr ''email'' then ''email'' else if f = JStr ''tel'' then ''tel''
       else if f = JStr ''uri'' \<or> f = JStr ''url'' then ''url'' else if f = JStr ''date'' then ''date'' else ''text''))"

definition is_nested :: "jsval \<Rightarrow> bool" where
  "is_nested prop \<longleftrightarrow> member prop ''type'' = JStr ''object'' \<and> truthy (member prop ''properties'')"

lemma map_res_cong [fundef_cong]: "xs = ys \<Longrightarrow> (\<And>x. x \<in> set ys \<Longrightarrow> f x = g x) \<Longrightarrow> map_res f xs = map_res g ys"
  by (induction xs arbitrary: ys) (auto split: sum.split)

lemma no_properties:
  "proto_get [] ''properties'' = JUndef" "proto_get array_proto_names ''properties'' = JUndef"
  "proto_get string_proto_names ''properties'' = JUndef" "proto_get number_proto_names ''properties'' = JUndef"
  "proto_get [''apply'', ''arguments'', ''bind'', ''call'', ''caller'', ''length'', ''prototype''] ''properties'' = JUndef"
  by (simp_all add: proto_get_def object_proto_names_def array_proto_names_def string_proto_names_def number_proto_names_def)

lemma size_member:
  assumes "(k, p) \<in> set (own_props (member prop ''properties''))"
  shows "size p < size prop"
proof -
  have own: "size p \<le> size v" if mem: "(k, p) \<in> set (own_props v)" for v
    using mem
  proof (cases v)
    case (JObj kvs)
    then have "size p < size_list (size_prod (\<lambda>_. 0) size) kvs"
      using mem size_list_estimation' [of "(k, p)" kvs "size p" "size_prod (\<lambda>_. 0) size"]
        size_list_estimation [of "(k, p)" kvs "size p" "size_prod (\<lambda>_. 0) size"] by simp
    then show ?thesis using JObj by simp
  next
    case (JArr xs)
    then obtain i where "i < length xs" "p = xs ! i" using mem by auto
    then show ?thesis using JArr size_list_estimation' [of p xs "size p" size] by simp
  qed (auto)
  have "member prop ''properties'' \<noteq> JUndef" using assms by auto
  then obtain kvs where kvs: "prop = JObj kvs" "map_of kvs ''properties'' = Some (member prop ''properties'')"
    by (cases "prop") (auto simp: no_properties array_index_def is_digit_def split: option.splits if_splits)
  then have "(''properties'', member prop ''properties'') \<in> set kvs" by (auto dest: map_of_SomeD)
  then have "size (member prop ''properties'') < size prop"
    using kvs(1) size_list_estimation [of "(''properties'', member prop ''properties'')" kvs
        "size (member prop ''properties'')" "size_prod (\<lambda>_. 0) size"] by simp
  with own [OF assms] show ?thesis by simp
qed

text \<open>
  \<open>renderProperty\<close>: the inputs of a property, each with its path, whether it is required, and its schema. Reading a
  member of \<open>null\<close> and a \<open>required\<close> that cannot be iterated are errors.
\<close>

function form_fields :: "string list \<Rightarrow> bool \<Rightarrow> jsval \<Rightarrow> (string list \<times> bool \<times> jsval) list res" where
  "form_fields path required prop = (if nullish prop then map_sum id (\<lambda>_. []) (get_prop prop ''title'')
     else if is_nested prop
       then (case iterate ''number'' (js_or (member prop ''required'') (JArr [])) of Inl e \<Rightarrow> Inl e | Inr subRequired \<Rightarrow>
         map_sum id concat (map_res (\<lambda>(subKey, subProp).
           form_fields (path @ [subKey]) (JStr subKey \<in> set subRequired) subProp) (own_props (member prop ''properties''))))
     else Inr [(path, required, prop)])"
  by pat_completeness auto
termination
  by (relation "measure (\<lambda>(path, required, prop). size prop)") (auto dest: size_member)

declare form_fields.simps [simp del]

definition traits_def :: "jsval \<Rightarrow> jsval" where
  "traits_def schema = js_or (opt_prop (opt_prop (opt_prop schema ''properties'') ''traits'') ''properties'') (JObj [])"

definition DynamicSchemaForm :: "jsval \<Rightarrow> (string list \<times> bool \<times> jsval) list res" where
  "DynamicSchemaForm schema = (case iterate ''number'' (js_or (opt_prop (opt_prop (opt_prop schema ''properties'') ''traits'') ''required'')
       (js_or (opt_prop schema ''required'') (JArr []))) of Inl e \<Rightarrow> Inl e | Inr requiredFields \<Rightarrow>
     map_sum id concat (map_res (\<lambda>(key, prop). form_fields [key] (JStr key \<in> set requiredFields) prop) (own_props (traits_def schema))))"

text \<open>What an input shows, and the value a change of it stores.\<close>

definition field_shown :: "jsval \<Rightarrow> string list \<Rightarrow> jsval \<Rightarrow> jsval" where
  "field_shown prop path val = (case field_kind_of prop of
     BooleanField \<Rightarrow> js_bool (getFieldValue path val)
   | EnumField \<Rightarrow> js_coalesce (js_coalesce (getFieldValue path val) (member prop ''default'')) (JStr [])
   | _ \<Rightarrow> js_coalesce (getFieldValue path val) (JStr []))"

definition field_input :: "jsval \<Rightarrow> jsval \<Rightarrow> jsval" where
  "field_input prop input = (case field_kind_of prop of
     BooleanField \<Rightarrow> js_bool input
   | NumberField \<Rightarrow> if input = JStr [] then JStr [] else JNum (to_num input)
   | _ \<Rightarrow> input)"

definition isIdentifier :: "jsval \<Rightarrow> bool" where
  "isIdentifier prop = truthy (opt_prop (opt_prop (member prop ''autorix.io/credentials'') ''password'') ''identifier'')"

section \<open>An edit changes its own place\<close>

definition plain_key :: "string \<Rightarrow> bool" where
  "plain_key k \<longleftrightarrow> proto_get [] k = JUndef"

text \<open>No array stands where the path goes on.\<close>

fun objects_along :: "string list \<Rightarrow> jsval \<Rightarrow> bool" where
  "objects_along (k # k' # ks) (JObj kvs) = (case map_of kvs k of
     Some v \<Rightarrow> \<not> is_arr v \<and> objects_along (k' # ks) v | None \<Rightarrow> True)"
| "objects_along _ _ = True"

lemma obj_assign_plain: "plain_key k \<Longrightarrow> obj_assign k v kvs = al_set k v kvs"
  by (auto simp: plain_key_def obj_assign_def proto_get_def split: if_splits)

definition own_field :: "(string \<times> jsval) list \<Rightarrow> string \<Rightarrow> jsval" where
  "own_field kvs k = (case map_of kvs k of Some v \<Rightarrow> v | None \<Rightarrow> JUndef)"

lemma member_plain_key: "plain_key k \<Longrightarrow> member (JObj kvs) k = own_field kvs k"
  by (simp add: plain_key_def own_field_def split: option.split)

lemma walk_plain: "plain_key k \<Longrightarrow> walk (JObj kvs) (k # ks) = (case map_of kvs k of Some v \<Rightarrow> walk v ks | None \<Rightarrow> None)"
  by (simp add: member_plain_key has_member_def al_has_map_of own_field_def del: member.simps split: option.split)

text \<open>The object an inner step goes on in.\<close>

definition inner_object :: "jsval \<Rightarrow> jsval" where
  "inner_object v = (if truthy v \<and> is_object v then v else JObj [])"

lemma inner_object_obj: "\<not> is_arr v \<Longrightarrow> \<exists>kvs. inner_object v = JObj kvs"
  by (cases v) (auto simp: inner_object_def)

lemma assign_path_step:
  "plain_key k \<Longrightarrow> assign_path (k # k' # ks) v (JObj kvs) =
    JObj (al_set k (assign_path (k' # ks) v (inner_object (own_field kvs k))) kvs)"
  by (simp add: member_plain_key obj_assign_plain inner_object_def Let_def del: member.simps)

lemma objects_along_inner:
  assumes "objects_along (k # k' # ks) (JObj kvs)"
  shows "\<exists>us. inner_object (own_field kvs k) = JObj us \<and> objects_along (k' # ks) (JObj us)"
proof (cases "map_of kvs k")
  case None
  then show ?thesis by (cases ks) (auto simp: inner_object_def own_field_def)
next
  case (Some u)
  then show ?thesis using assms by (cases u; cases ks) (auto simp: inner_object_def own_field_def)
qed

lemma get_assigned:
  "\<lbrakk>p \<noteq> []; list_all plain_key p; objects_along p (JObj kvs)\<rbrakk> \<Longrightarrow> walk (assign_path p v (JObj kvs)) p = Some v"
proof (induction p arbitrary: kvs rule: list_nonempty_induct)
  case (single k)
  then show ?case by (simp add: obj_assign_plain walk_plain del: walk.simps(2))
next
  case (cons k ks)
  then obtain k' ks' where ks: "ks = k' # ks'" by (cases ks) auto
  obtain us where us: "inner_object (own_field kvs k) = JObj us" "objects_along ks (JObj us)"
    using objects_along_inner cons.prems(2) unfolding ks by blast
  have "walk (assign_path ks v (JObj us)) ks = Some v" using cons us by simp
  then show ?case
    using cons.prems us(1) by (simp add: ks assign_path_step walk_plain del: walk.simps(2) assign_path.simps)
qed

lemma walk_inner:
  assumes "\<not> is_arr u" "q \<noteq> []" "list_all plain_key q"
  shows "walk (inner_object u) q = walk u q"
proof -
  obtain k q' where q: "q = k # q'" using assms(2) by (cases q) auto
  have "walk (JObj []) q = None" using assms(3) by (simp add: q walk_plain del: walk.simps(2))
  then show ?thesis by (auto simp: inner_object_def q)
qed

lemma get_elsewhere:
  "\<lbrakk>p \<parallel> q; list_all plain_key p; list_all plain_key q; objects_along p (JObj kvs)\<rbrakk> \<Longrightarrow>
    walk (assign_path p v (JObj kvs)) q = walk (JObj kvs) q"
proof (induction p arbitrary: kvs q)
  case (Cons k ks)
  obtain l q' where q: "q = l # q'" using Cons.prems(1) by (cases q) auto
  have plain: "plain_key k" "plain_key l" using Cons.prems by (auto simp: q)
  show ?case
  proof (cases ks)
    case Nil
    then show ?thesis using Cons.prems(1) plain by (auto simp: q obj_assign_plain walk_plain simp del: walk.simps(2))
  next
    case (Cons k' ks')
    let ?u = "own_field kvs k"
    obtain us where us: "inner_object ?u = JObj us" "objects_along ks (JObj us)"
      using objects_along_inner Cons.prems(4) unfolding Cons by blast
    show ?thesis
    proof (cases "k = l")
      case True
      then have par: "ks \<parallel> q'" using Cons.prems(1) q by (auto simp: parallel_def)
      then have q': "q' \<noteq> []" by auto
      have arr: "\<not> is_arr ?u" using Cons.prems(4) by (auto simp: Cons own_field_def split: option.splits)
      have "walk (assign_path ks v (JObj us)) q' = walk (JObj us) q'"
        using Cons.IH [OF par] Cons.prems us(2) by (simp add: q)
      also have "\<dots> = walk ?u q'"
        using walk_inner [OF arr q'] Cons.prems(3) us(1) by (simp add: q)
      finally have eq: "walk (assign_path ks v (JObj us)) q' = walk ?u q'" .
      have "walk JUndef q' = None" using q' by (cases q') auto
      then show ?thesis
        using eq plain us(1) True by (auto simp: Cons q assign_path_step walk_plain own_field_def simp del: walk.simps(2) assign_path.simps split: option.split)
    next
      case False
      then show ?thesis
        using plain by (simp add: Cons q assign_path_step walk_plain del: walk.simps(2) assign_path.simps)
    qed
  qed
qed auto

text \<open>
  An edit of a field of the schema form is local and read back: on objects without arrays along the path, the value put at a path
  of ordinary names is the value shown there afterwards, and the value at every path that neither extends it nor is extended by it is
  the one shown before.
\<close>

theorem form_edit_local:
  assumes "json_clean (js_or val (JObj [])) = JObj kvs" "p \<noteq> []" "list_all plain_key p" "objects_along p (JObj kvs)"
  shows "getFieldValue p (handleFieldChange p v val) = v \<and>
    (\<forall>q. p \<parallel> q \<longrightarrow> list_all plain_key q \<longrightarrow> getFieldValue q (handleFieldChange p v val) = getFieldValue q (JObj kvs))"
  using get_assigned [OF assms(2-4)] get_elsewhere [OF _ assms(3) _ assms(4)]
  by (simp add: getFieldValue_def handleFieldChange_def assms(1) del: walk.simps assign_path.simps)

theorem form_edit_local_witness:
  "let traits = JObj [(''email'', JStr ''a@x''), (''name'', JStr ''Ada'')];
       edited = handleFieldChange [''name'', ''first''] (JStr ''Ada'') traits
   in getFieldValue [''name'', ''first''] edited = JStr ''Ada'' \<and> getFieldValue [''email''] edited = JStr ''a@x''"
proof -
  define kvs where "kvs = [(''email'', JStr ''a@x''), (''name'', JStr ''Ada'')]"
  have plain: "plain_key ''name''" "plain_key ''first''" "plain_key ''email''"
    by (simp_all add: plain_key_def proto_get_def object_proto_names_def)
  have c: "json_clean (js_or (JObj kvs) (JObj [])) = JObj kvs" by (simp add: kvs_def js_or_def)
  have a: "objects_along [''name'', ''first''] (JObj kvs)" by (simp add: kvs_def)
  have q: "[''name'', ''first''] \<parallel> [''email'']" by (simp add: parallel_def)
  have "getFieldValue [''email''] (JObj kvs) = JStr ''a@x''"
    using plain(3) by (simp add: getFieldValue_def walk_plain kvs_def del: walk.simps(2))
  then show ?thesis
    using form_edit_local [OF c _ _ a, of "JStr ''Ada''"] plain q unfolding Let_def kvs_def [symmetric] by simp
qed

section \<open>schema-studio.tsx: templates\<close>

record preset =
  pt_name :: string
  pt_description :: string
  pt_schema :: jsval

definition preset_customer :: jsval where
  "preset_customer = JObj [
    (''$id'', JStr ''https://schemas.autorix.io/customer.identity.schema.json''),
    (''$schema'', JStr ''http://json-schema.org/draft-07/schema#''),
    (''title'', JStr ''Customer Identity''),
    (''type'', JStr ''object''),
    (''properties'', JObj [
      (''traits'', JObj [
        (''type'', JStr ''object''),
        (''additionalProperties'', JBool False),
        (''properties'', JObj [
          (''email'', JObj [
            (''type'', JStr ''string''),
            (''format'', JStr ''email''),
            (''title'', JStr ''Email Address''),
            (''autorix.io/credentials'', JObj [(''password'', JObj [(''identifier'', JBool True)])])]),
          (''username'', JObj [
            (''type'', JStr ''string''),
            (''title'', JStr ''Username Handle''),
            (''description'', JStr ''Unique public identifier for login''),
            (''autorix.io/credentials'', JObj [(''password'', JObj [(''identifier'', JBool True)])])]),
          (''name'', JObj [
            (''type'', JStr ''object''),
            (''title'', JStr ''Full Name''),
            (''properties'', JObj [
              (''first'', JObj [(''type'', JStr ''string''), (''title'', JStr ''First Name'')]),
              (''last'', JObj [(''type'', JStr ''string''), (''title'', JStr ''Last Name'')])]),
            (''required'', JArr [JStr ''first''])]),
          (''billing_country'', JObj [
            (''type'', JStr ''string''),
            (''title'', JStr ''Billing Country''),
            (''enum'', JArr [JStr ''US'', JStr ''CA'', JStr ''GB'', JStr ''DE'', JStr ''FR'', JStr ''ES'', JStr ''BR'', JStr ''MX'', JStr ''AR'', JStr ''CL''])]),
          (''marketing_consent'', JObj [(''type'', JStr ''boolean''), (''title'', JStr ''Receive product updates & security alerts'')])]),
        (''required'', JArr [JStr ''email''])])])]"

definition preset_b2b_partner :: jsval where
  "preset_b2b_partner = JObj [
    (''$id'', JStr ''https://schemas.autorix.io/partner.identity.schema.json''),
    (''$schema'', JStr ''http://json-schema.org/draft-07/schema#''),
    (''title'', JStr ''B2B Partner Identity''),
    (''type'', JStr ''object''),
    (''properties'', JObj [
      (''traits'', JObj [
        (''type'', JStr ''object''),
        (''additionalProperties'', JBool False),
        (''properties'', JObj [
          (''email'', JObj [
            (''type'', JStr ''string''),
            (''format'', JStr ''email''),
            (''title'', JStr ''Technical Lead Email''),
            (''autorix.io/credentials'', JObj [(''password'', JObj [(''identifier'', JBool True)])])]),
          (''company_name'', JObj [(''type'', JStr ''string''), (''title'', JStr ''Organization Name'')]),
          (''tax_identifier'', JObj [(''type'', JStr ''string''), (''title'', JStr ''Tax ID / VAT Registration'')]),
          (''sla_tier'', JObj [
            (''type'', JStr ''string''),
            (''title'', JStr ''SLA Tier''),
            (''enum'', JArr [JStr ''Standard Support'', JStr ''Gold 99.9%'', JStr ''Platinum 24/7 Dedicated''])]),
          (''webhook_url'', JObj [
            (''type'', JStr ''string''),
            (''format'', JStr ''uri''),
            (''title'', JStr ''Security Event Webhook URL'')]),
          (''production_access'', JObj [(''type'', JStr ''boolean''), (''title'', JStr ''Production Mesh Authorization Granted'')])]),
        (''required'', JArr [JStr ''email'', JStr ''company_name'', JStr ''sla_tier''])])])]"

definition preset_employee :: jsval where
  "preset_employee = JObj [
    (''$id'', JStr ''https://schemas.autorix.io/employee.identity.schema.json''),
    (''$schema'', JStr ''http://json-schema.org/draft-07/schema#''),
    (''title'', JStr ''Corporate Employee''),
    (''type'', JStr ''object''),
    (''properties'', JObj [
      (''traits'', JObj [
        (''type'', JStr ''object''),
        (''additionalProperties'', JBool False),
        (''properties'', JObj [
          (''email'', JObj [
            (''type'', JStr ''string''),
            (''format'', JStr ''email''),
            (''title'', JStr ''Corporate Email Address''),
            (''autorix.io/credentials'', JObj [(''password'', JObj [(''identifier'', JBool True)])])]),
          (''employee_id'', JObj [(''type'', JStr ''string''), (''title'', JStr ''Employee Badge ID'')]),
          (''name'', JObj [
            (''type'', JStr ''object''),
            (''title'', JStr ''Legal Name''),
            (''properties'', JObj [
              (''first'', JObj [(''type'', JStr ''string''), (''title'', JStr ''First Name'')]),
              (''last'', JObj [(''type'', JStr ''string''), (''title'', JStr ''Last Name'')])]),
            (''required'', JArr [JStr ''first''])]),
          (''department'', JObj [
            (''type'', JStr ''string''),
            (''title'', JStr ''Division / Department''),
            (''enum'', JArr [JStr ''Infrastructure'', JStr ''Security Operations'', JStr ''Core Engineering'', JStr ''Compliance'', JStr ''Executive''])]),
          (''role'', JObj [
            (''type'', JStr ''string''),
            (''title'', JStr ''IAM Operator Role''),
            (''enum'', JArr [JStr ''admin'', JStr ''operator'', JStr ''auditor'', JStr ''viewer''])]),
          (''security_clearance'', JObj [(''type'', JStr ''boolean''), (''title'', JStr ''Elevated Security Clearance'')])]),
        (''required'', JArr [JStr ''email'', JStr ''employee_id''])])])]"

definition preset_iot_machine :: jsval where
  "preset_iot_machine = JObj [
    (''$id'', JStr ''https://schemas.autorix.io/iot.identity.schema.json''),
    (''$schema'', JStr ''http://json-schema.org/draft-07/schema#''),
    (''title'', JStr ''IoT / Edge Machine Subject''),
    (''type'', JStr ''object''),
    (''properties'', JObj [
      (''traits'', JObj [
        (''type'', JStr ''object''),
        (''additionalProperties'', JBool False),
        (''properties'', JObj [
          (''device_id'', JObj [
            (''type'', JStr ''string''),
            (''title'', JStr ''Device Serial / Hardware UUID''),
            (''autorix.io/credentials'', JObj [(''password'', JObj [(''identifier'', JBool True)])])]),
          (''model_name'', JObj [(''type'', JStr ''string''), (''title'', JStr ''Hardware Model'')]),
          (''firmware_version'', JObj [(''type'', JStr ''string''), (''title'', JStr ''Firmware Revision'')]),
          (''deployment_zone'', JObj [
            (''type'', JStr ''string''),
            (''title'', JStr ''Deployment Zone''),
            (''enum'', JArr [JStr ''edge-gateway'', JStr ''industrial-floor'', JStr ''datacenter-rack'', JStr ''field-roaming''])]),
          (''telemetry_streaming'', JObj [(''type'', JStr ''boolean''), (''title'', JStr ''Telemetry Ingestion Enabled'')])]),
        (''required'', JArr [JStr ''device_id'', JStr ''model_name''])])])]"

definition PRESET_TEMPLATES :: "(string \<times> preset) list" where
  "PRESET_TEMPLATES = [
     (''customer'', \<lparr>pt_name = ''SaaS Customer / End-User'',
        pt_description = ''Standard end-user with email, username login identifiers, billing country, and consent'',
        pt_schema = preset_customer\<rparr>),
     (''b2b_partner'', \<lparr>pt_name = ''B2B Partner / Vendor Workload'',
        pt_description = ''Enterprise tenant or partner with company tax ID, SLA tier, and webhook URL'',
        pt_schema = preset_b2b_partner\<rparr>),
     (''employee'', \<lparr>pt_name = ''Corporate Employee / Staff'',
        pt_description = ''Internal staff member with employee badge ID, organizational department, and operator role'',
        pt_schema = preset_employee\<rparr>),
     (''iot_machine'', \<lparr>pt_name = ''IoT Device / Edge Workload'',
        pt_description = ''Cryptographically authenticated edge device, hardware serial, and environment'',
        pt_schema = preset_iot_machine\<rparr>)]"

section \<open>schema-studio.tsx: the editor\<close>

record studio_world = pworld +
  st_schemas :: "jsval list"  \<comment> \<open>the schemas fetched\<close>
  st_selected :: string
  st_creating :: bool
  st_loaded :: "string option"
  st_id :: string
  st_name :: string
  st_raw :: string
  st_parsed :: jsval
  st_error :: "string option"
  st_preview :: jsval
  st_saving :: bool
  st_deleting :: bool

type_synonym ('w, 'a) stact = "('w studio_world_scheme, 'a) js"

definition fetch_schemas :: "('w, jsval) pact" where
  "fetch_schemas = bnd (fetch (get_request ''/api/identities/schemas'')) (\<lambda>res.
     if \<not> rs_ok res then ret (JArr [])
     else bnd (response_json res) (\<lambda>json. lift (unwrap_list ''data'' json)))"

definition schema_of :: "string \<Rightarrow> jsval list \<Rightarrow> jsval option" where
  "schema_of ident schemas = find_first (\<lambda>s. strict_eq (member s ''id'') (JStr ident)) schemas"

text \<open>The effect on the list and the selection.\<close>

definition load_selected :: "'w studio_world_scheme \<Rightarrow> 'w studio_world_scheme" where
  "load_selected w = (if st_creating w \<or> st_schemas w = [] \<or> st_loaded w = Some (st_selected w) then w
     else let current = (case schema_of (st_selected w) (st_schemas w) of Some s \<Rightarrow> s | None \<Rightarrow> hd (st_schemas w));
              ident = to_str (member current ''id'')
       in w\<lparr>st_loaded := Some ident, st_selected := ident, st_id := ident, st_name := to_str (member current ''name''),
            st_raw := json_pretty (member current ''schema''), st_parsed := member current ''schema'', st_error := None,
            st_preview := JObj []\<rparr>)"

definition root_error :: string where
  "root_error = ''Schema root must be a valid JSON object''"

definition traits_warning :: string where
  "traits_warning = ''Warning: Ory Kratos requires '' @ quoted ''properties.traits'' @ '' object for identity attributes''"

definition handleJsonChange :: "string \<Rightarrow> 'w studio_world_scheme \<Rightarrow> 'w studio_world_scheme" where
  "handleJsonChange val w = (let w1 = w\<lparr>st_raw := val\<rparr> in case json_parse_js w val of
     Inl err \<Rightarrow> w1\<lparr>st_error := Some (err_message err ''Invalid JSON syntax'')\<rparr>
   | Inr parsed \<Rightarrow>
       if \<not> is_object parsed \<or> parsed = JNull then w1\<lparr>st_error := Some root_error\<rparr>
       else w1\<lparr>st_error := if truthy (opt_prop (member parsed ''properties'') ''traits'') then None else Some traits_warning,
              st_parsed := parsed\<rparr>)"

definition handleApplyPreset :: "string \<Rightarrow> 'w studio_world_scheme \<Rightarrow> 'w studio_world_scheme" where
  "handleApplyPreset key w = (case map_of PRESET_TEMPLATES key of None \<Rightarrow> w
   | Some pt \<Rightarrow> toast_plain ''info'' (''Loaded preset template: '' @ pt_name pt)
       (w\<lparr>st_creating := True, st_id := key, st_name := pt_name pt, st_raw := json_pretty (pt_schema pt),
          st_parsed := pt_schema pt, st_error := None, st_preview := JObj []\<rparr>))"

definition handleStartNew :: "'w studio_world_scheme \<Rightarrow> 'w studio_world_scheme" where
  "handleStartNew w = handleApplyPreset ''customer'' (w\<lparr>st_creating := True, st_id := [], st_name := []\<rparr>)"

definition handleFormatJson :: "'w studio_world_scheme \<Rightarrow> 'w studio_world_scheme" where
  "handleFormatJson w = (case json_parse (st_raw w) of
     Some parsed \<Rightarrow> toast_plain ''success'' ''JSON formatted successfully'' (w\<lparr>st_raw := json_pretty parsed, st_error := None\<rparr>)
   | None \<Rightarrow> toast_plain ''error'' ''Cannot format invalid JSON'' w)"

text \<open>Why \<open>handleSaveSchema\<close> returns before it asks for anything, or the schema it sends.\<close>

definition save_checks :: "'w studio_world_scheme \<Rightarrow> string + jsval" where
  "save_checks w =
     (if trim (st_id w) = [] then Inl (''Schema ID is required (e.g., '' @ quoted ''customer_v1'' @ '')'')
      else if trim (st_name w) = [] then Inl ''Schema Name is required''
      else case st_error w of
        Some (c # e) \<Rightarrow> if \<not> starts_with (c # e) ''Warning'' then Inl (''Please fix JSON errors before saving: '' @ c # e)
          else (case json_parse (st_raw w) of None \<Rightarrow> Inl ''Invalid JSON content'' | Some v \<Rightarrow> Inr v)
      | _ \<Rightarrow> (case json_parse (st_raw w) of None \<Rightarrow> Inl ''Invalid JSON content'' | Some v \<Rightarrow> Inr v))"

definition save_request :: "'w studio_world_scheme \<Rightarrow> jsval \<Rightarrow> http_request" where
  "save_request w schemaObj = (let existing = schema_of (st_id w) (st_schemas w) \<noteq> None in
     json_send (if existing then ''PATCH'' else ''POST'')
       (if existing then ''/api/identities/schemas/'' @ st_id w else ''/api/identities/schemas'')
       (JObj [(''id'', JStr (st_id w)), (''name'', JStr (st_name w)), (''schema'', schemaObj)]))"

text \<open>\<open>if (!res.ok) throw new Error(errorData.error || msg)\<close>, a body that is no JSON counting as \<open>{}\<close>.\<close>

definition refused :: "string \<Rightarrow> http_response \<Rightarrow> ('w, unit) act" where
  "refused msg res = (if rs_ok res then ret () else
     bnd (settle (response_json res)) (\<lambda>r. bnd (lift (get_prop (case r of Inl _ \<Rightarrow> JObj [] | Inr d \<Rightarrow> d) ''error'')) (\<lambda>e.
     fail_msg (to_str (js_or e (JStr (msg @ '' ('' @ show_int (rs_status res) @ '')'')))))))"

definition send_schema :: "http_request \<Rightarrow> string \<Rightarrow> ('w, unit) stact \<Rightarrow> ('w, unit) stact" where
  "send_schema rq ident on_created = try_finally
     (bnd (fetch rq) (\<lambda>res. bnd (refused ''Failed to save schema'' res) (\<lambda>_.
      bnd (modify (\<lambda>w. (invalidate [''identity-schemas'']
        (toast_plain ''success'' (''Schema '' @ quoted ident @ '' saved successfully!'') w))
          \<lparr>st_creating := False, st_selected := ident\<rparr>)) (\<lambda>_. on_created))))
     (toast_error ''Failed to register schema in Ego'') (\<lambda>w. w\<lparr>st_saving := False\<rparr>)"

definition handleSaveSchema :: "(string \<Rightarrow> ('w, unit) stact) \<Rightarrow> ('w, unit) stact" where
  "handleSaveSchema on_created = bnd (asks (\<lambda>w. (save_checks w, st_id w, save_request w))) (\<lambda>(c, ident, rq). case c of
     Inl msg \<Rightarrow> modify (toast_plain ''error'' msg)
   | Inr schemaObj \<Rightarrow> bnd (modify (\<lambda>w. w\<lparr>st_saving := True\<rparr>)) (\<lambda>_. send_schema (rq schemaObj) ident (on_created ident)))"

definition handleDeleteSchema :: "('w, unit) stact" where
  "handleDeleteSchema = bnd (asks (\<lambda>w. (st_id w, p_confirm w))) (\<lambda>(ident, confirm).
     if ident = ''default'' then modify (toast_plain ''error''
       (''The '' @ quoted ''default'' @ '' schema is the engine system fallback and cannot be deleted''))
     else if \<not> confirm (''Are you sure you want to permanently delete identity schema '' @ quoted ident @ ''?'') then ret ()
     else bnd (modify (\<lambda>w. w\<lparr>st_deleting := True\<rparr>)) (\<lambda>_. try_finally
       (bnd (fetch (delete_request (''/api/identities/schemas/'' @ ident))) (\<lambda>res. bnd (refused ''Failed to delete schema'' res) (\<lambda>_.
        modify (\<lambda>w. (invalidate [''identity-schemas''] (toast_plain ''success'' (''Schema '' @ quoted ident @ '' deleted'') w))
          \<lparr>st_selected := ''default'', st_creating := False\<rparr>))))
       (toast_error ''Failed to delete schema'') (\<lambda>w. w\<lparr>st_deleting := False\<rparr>)))"

section \<open>What the editor sends\<close>

lemma quiet_refused [same_rules]: "quiet (refused msg res)"
  unfolding refused_def by (intro same_rules)

lemma saved_sent:
  assumes "quiet cb"
  shows "w_sent (snd (send_schema rq ident cb w)) = w_sent w @ [rq]"
  unfolding send_schema_def
  by (subst sent_try_finally; (intro sent_fetch)?) (auto intro!: same_rules assms)

lemma save_sends:
  assumes "\<And>i. quiet (cb i)"
  shows "sends w (handleSaveSchema cb) = (case save_checks w of Inl _ \<Rightarrow> [] | Inr v \<Rightarrow> [save_request w v])"
  by (cases "save_checks w") (simp_all add: sends_def handleSaveSchema_def run saved_sent [OF assms])

lemma root_error_blocks: "root_error \<noteq> [] \<and> \<not> starts_with root_error ''Warning''"
  by (simp add: root_error_def starts_with_def)

lemma save_checks_cases:
  "save_checks w = Inr v \<Longrightarrow> trim (st_id w) \<noteq> [] \<and> trim (st_name w) \<noteq> [] \<and> json_parse (st_raw w) = Some v \<and>
    (st_error w = None \<or> st_error w = Some [] \<or> (\<exists>e. st_error w = Some e \<and> starts_with e ''Warning''))"
  by (auto simp: save_checks_def split: if_splits option.splits list.splits)

lemma save_checks_after_edit:
  assumes "save_checks (handleJsonChange val w) = Inr v"
  shows "json_parse val = Some v \<and> is_object v \<and> v \<noteq> JNull \<and> st_parsed (handleJsonChange val w) = v"
proof -
  have raw: "st_raw (handleJsonChange val w) = val"
    by (simp add: handleJsonChange_def Let_def split: sum.split)
  then have pv: "json_parse val = Some v" using save_checks_cases [OF assms] by simp
  then have jp: "json_parse_js w val = Inr v" by (simp add: json_parse_js_def)
  have obj: "is_object v \<and> v \<noteq> JNull"
  proof (rule ccontr)
    assume no: "\<not> (is_object v \<and> v \<noteq> JNull)"
    then have "st_error (handleJsonChange val w) = Some root_error"
      by (auto simp: handleJsonChange_def Let_def jp)
    then show False using save_checks_cases [OF assms] root_error_blocks by auto
  qed
  then show ?thesis using pv jp by (simp add: handleJsonChange_def Let_def)
qed

text \<open>
  The schema editor saves what its form shows, until its text is formatted. After an edit the save button sends nothing or one request,
  with the object that is the text and the schema of the preview; but the format button clears the error of a text that is
  JSON and no object, and saving then sends it.
\<close>

theorem studio_edit_guard:
  assumes "\<And>i. quiet (cb i)"
  shows "(sends (handleJsonChange val w) (handleSaveSchema cb) = [] \<or>
      (\<exists>v. json_parse val = Some v \<and> is_object v \<and> v \<noteq> JNull \<and> st_parsed (handleJsonChange val w) = v \<and>
        sends (handleJsonChange val w) (handleSaveSchema cb) = [save_request (handleJsonChange val w) v]))
    \<and> (json_parse val = Some u \<longrightarrow> \<not> is_object u \<longrightarrow> json_parse (json_pretty u) = Some u' \<longrightarrow> trim (st_id w) \<noteq> [] \<longrightarrow> trim (st_name w) \<noteq> [] \<longrightarrow>
        sends (handleJsonChange val w) (handleSaveSchema cb) = [] \<and>
        sends (handleFormatJson (handleJsonChange val w)) (handleSaveSchema cb) = [save_request (handleFormatJson (handleJsonChange val w)) u'])"
    (is "?saved \<and> ?formatted")
proof
  show ?saved
    using save_checks_after_edit [of val w]
    by (cases "save_checks (handleJsonChange val w)") (auto simp: save_sends [OF assms])
  show ?formatted
  proof (intro impI)
    assume u: "json_parse val = Some u" "\<not> is_object u" "json_parse (json_pretty u) = Some u'"
      and named: "trim (st_id w) \<noteq> []" "trim (st_name w) \<noteq> []"
    have edit: "handleJsonChange val w = w\<lparr>st_raw := val, st_error := Some root_error\<rparr>"
      using u(1,2) by (simp add: handleJsonChange_def json_parse_js_def Let_def)
    obtain c e where ce: "root_error = c # e" using root_error_blocks by (cases root_error) auto
    have "save_checks (handleJsonChange val w) = Inl (''Please fix JSON errors before saving: '' @ root_error)"
      using named root_error_blocks unfolding edit ce by (simp add: save_checks_def)
    moreover have "save_checks (handleFormatJson (handleJsonChange val w)) = Inr u'"
      using named u by (simp add: save_checks_def handleFormatJson_def edit toast_plain_def)
    ultimately show "sends (handleJsonChange val w) (handleSaveSchema cb) = [] \<and>
        sends (handleFormatJson (handleJsonChange val w)) (handleSaveSchema cb) = [save_request (handleFormatJson (handleJsonChange val w)) u']"
      by (simp add: save_sends [OF assms])
  qed
qed

definition example_studio :: studio_world where
  "example_studio = pworld.extend (example_page (\<lambda>_. ok_text ''{}'')) \<lparr>st_schemas = [], st_selected = ''default'', st_creating = True,
     st_loaded = None, st_id = ''a'', st_name = ''A'', st_raw = [], st_parsed = JNull, st_error = None, st_preview = JObj [],
     st_saving = False, st_deleting = False\<rparr>"

theorem studio_edit_guard_witness:
  "sends (handleFormatJson (handleJsonChange ''true'' example_studio)) (handleSaveSchema (\<lambda>_. ret ())) =
    [json_send ''POST'' ''/api/identities/schemas'' (JObj [(''id'', JStr ''a''), (''name'', JStr ''A''), (''schema'', JBool True)])]"
proof -
  have p: "json_parse ''true'' = Some (JBool True)"
    by code_simp
  have q: "json_parse (json_pretty (JBool True)) = Some (JBool True)" using p by (simp add: json_pretty_def)
  have s: "st_id example_studio = ''a''" "st_name example_studio = ''A''" "st_schemas example_studio = []"
    by (simp_all add: example_studio_def pworld.defs)
  have n: "trim ''a'' \<noteq> []" "trim ''A'' \<noteq> []" by (simp_all add: trim_def is_space_def)
  let ?w = "handleFormatJson (handleJsonChange ''true'' example_studio)"
  have f: "st_id ?w = ''a''" "st_name ?w = ''A''" "st_schemas ?w = []"
    by (simp_all add: handleFormatJson_def handleJsonChange_def json_parse_js_def p q s Let_def toast_plain_def)
  have "sends ?w (handleSaveSchema (\<lambda>_. ret ())) = [save_request ?w (JBool True)]"
    using studio_edit_guard [OF same.k_ret, where val = "''true''" and w = example_studio and u = "JBool True" and u' = "JBool True"] p q n
    by (simp add: s)
  then show ?thesis by (simp add: save_request_def f schema_of_def Let_def)
qed

end
