(* ===== verification/IdentityPages.thy ===== *)
theory IdentityPages
  imports SchemaForms SchemasEngines
begin

text \<open>
  The pages about identities under app/identities: the list with its pages and export (page.tsx), the import of many identities
  (bulk-import-dialog.tsx), the invitation (identity-builder-sheet.tsx) and the sheet of one identity (identity-sheet.tsx,
  mfa-panel.tsx). The formats of dates are parameters, and so is what the page does after a success (it fetches again).
\<close>

section \<open>bulk-import-dialog.tsx\<close>

record bulk_world = pworld +
  im_open :: bool
  im_text :: string
  im_validating :: bool
  im_committing :: bool
  im_result :: jsval

type_synonym ('w, 'a) imact = "('w bulk_world_scheme, 'a) js"

definition part :: "nat \<Rightarrow> string list \<Rightarrow> string" where
  "part i parts = (if i < length parts then parts ! i else [])"

definition identity_row :: "string list \<Rightarrow> jsval" where
  "identity_row parts = JObj [(''email'', JStr (part 0 parts)), (''firstName'', JStr (part 1 parts)), (''lastName'', JStr (part 2 parts))]"

definition header_line :: "string \<Rightarrow> bool" where
  "header_line line \<longleftrightarrow> starts_with (to_lower line) ''email''"

definition csv_parts :: "string \<Rightarrow> string list" where
  "csv_parts line = map trim (split_on CHR '','' line)"

definition parseCsvToRows :: "string \<Rightarrow> jsval list" where
  "parseCsvToRows t = map identity_row (filter (\<lambda>parts. part 0 parts \<noteq> [])
     (map csv_parts (filter (\<lambda>line. line \<noteq> [] \<and> \<not> header_line line) (split_on CHR 0x0A (trim t)))))"

definition import_request :: "jsval list \<Rightarrow> bool \<Rightarrow> http_request" where
  "import_request rows dry = json_send ''POST'' ''/api/identities/bulk-import'' (JObj [(''rows'', JArr rows), (''dry_run'', JBool dry)])"

definition validated :: "jsval \<Rightarrow> ('w, unit) imact" where
  "validated d = bnd (modify (\<lambda>w. w\<lparr>im_result := d\<rparr>)) (\<lambda>_. bnd (lift (get_prop d ''failed'')) (\<lambda>failed.
     modify (if strict_eq failed (jint 0)
       then toast_plain ''success'' (''Dry-run passed: '' @ to_str (member d ''succeeded'') @ '' rows ready for import.'')
       else toast_plain ''warning'' (''Dry-run finished with '' @ to_str failed @ '' invalid rows.''))))"

definition handleDryRun :: "('w, unit) imact" where
  "handleDryRun = bnd (asks (\<lambda>w. parseCsvToRows (im_text w))) (\<lambda>rows.
     if rows = [] then modify (toast_plain ''error'' ''Please enter at least one identity row (email,firstName,lastName)'')
     else bnd (modify (\<lambda>w. w\<lparr>im_validating := True, im_result := JNull\<rparr>)) (\<lambda>_. try_finally
       (bnd (fetch (import_request rows True)) (\<lambda>res.
          if \<not> rs_ok res then fail_msg ''Validation request failed'' else bnd (response_json res) validated))
       (\<lambda>_. modify (toast_plain ''error'' ''Failed to run dry-run validation''))
       (\<lambda>w. w\<lparr>im_validating := False\<rparr>)))"

definition committed :: "('w, unit) imact \<Rightarrow> jsval \<Rightarrow> ('w, unit) imact" where
  "committed on_success d = bnd (lift (get_prop d ''succeeded'')) (\<lambda>n.
     bnd (modify (toast_plain ''success'' (''Import completed: '' @ to_str n @ '' identities created.''))) (\<lambda>_.
     bnd on_success (\<lambda>_. modify (\<lambda>w. w\<lparr>im_open := False, im_text := [], im_result := JNull\<rparr>))))"

definition handleCommit :: "('w, unit) imact \<Rightarrow> ('w, unit) imact" where
  "handleCommit on_success = bnd (asks (\<lambda>w. parseCsvToRows (im_text w))) (\<lambda>rows.
     if rows = [] then ret ()
     else bnd (modify (\<lambda>w. w\<lparr>im_committing := True\<rparr>)) (\<lambda>_. try_finally
       (bnd (fetch (import_request rows False)) (\<lambda>res.
          if \<not> rs_ok res then fail_msg ''Commit import failed'' else bnd (response_json res) (committed on_success)))
       (\<lambda>_. modify (toast_plain ''error'' ''Failed to commit identities import''))
       (\<lambda>w. w\<lparr>im_committing := False\<rparr>)))"

section \<open>identity-builder-sheet.tsx\<close>

definition FALLBACK_DEFAULT_SCHEMA :: jsval where
  "FALLBACK_DEFAULT_SCHEMA = JObj [
    (''title'', JStr ''User Identity''),
    (''type'', JStr ''object''),
    (''properties'', JObj [
      (''traits'', JObj [
        (''type'', JStr ''object''),
        (''properties'', JObj [
          (''email'', JObj [
            (''type'', JStr ''string''),
            (''format'', JStr ''email''),
            (''title'', JStr ''Email address''),
            (''autorix.io/credentials'', JObj [(''password'', JObj [(''identifier'', JBool True)])])]),
          (''name'', JObj [
            (''type'', JStr ''object''),
            (''title'', JStr ''Full Name''),
            (''properties'', JObj [
              (''first'', JObj [(''type'', JStr ''string''), (''title'', JStr ''First name (optional)'')]),
              (''last'', JObj [(''type'', JStr ''string''), (''title'', JStr ''Last name (optional)'')])])])]),
        (''required'', JArr [JStr ''email''])])])]"

record invite_world = pworld +
  iv_open :: bool
  iv_schema :: string
  iv_traits :: jsval

type_synonym ('w, 'a) ivact = "('w invite_world_scheme, 'a) js"

definition activeSchema :: "string \<Rightarrow> jsval list \<Rightarrow> jsval" where
  "activeSchema selected schemas = (case schema_of selected schemas of
     Some s \<Rightarrow> if truthy (member s ''schema'') then member s ''schema'' else FALLBACK_DEFAULT_SCHEMA
   | None \<Rightarrow> FALLBACK_DEFAULT_SCHEMA)"

definition blank_traits :: jsval where
  "blank_traits = JObj [(''email'', JStr []), (''name'', JObj [(''first'', JStr []), (''last'', JStr [])])]"

definition invite_reset :: "('w, unit) ivact \<Rightarrow> ('w, unit) ivact" where
  "invite_reset on_success = bnd (modify (\<lambda>w. w\<lparr>iv_traits := blank_traits, iv_open := False\<rparr>)) (\<lambda>_. on_success)"

definition invite_done :: "('w, unit) ivact \<Rightarrow> ('w, unit) ivact" where
  "invite_done on_success = bnd (modify (invalidate [''identities''])) (\<lambda>_. invite_reset on_success)"

definition invite_vars :: "string \<Rightarrow> jsval \<Rightarrow> string \<Rightarrow> jsval" where
  "invite_vars email traits schema = JObj [(''email'', JStr email), (''traits'', traits), (''schema_id'', JStr schema)]"

definition inviteIdentity :: "('w, unit) ivact \<Rightarrow> jsval \<Rightarrow> jsval \<Rightarrow> ('w, jsval) ivact" where
  "inviteIdentity on_success traits vars = useApiMutation_fn
     (\<lambda>v. fetchAndParse ''/api/identities/invite'' identitySchema (json_options ''POST'' v))
     (MessageOf (\<lambda>_. ''Invitation sent to '' @ to_str (member traits ''email''))) (\<lambda>_ _. invite_done on_success) None vars"

definition invite_email :: "jsval \<Rightarrow> string" where
  "invite_email traits = (case opt_prop traits ''email'' of JStr s \<Rightarrow> trim s | _ \<Rightarrow> [])"

definition invite_create :: "('w, unit) ivact \<Rightarrow> ('w, unit) ivact" where
  "invite_create on_success = bnd (asks (\<lambda>w. (iv_traits w, iv_schema w))) (\<lambda>(traits, schema).
     let email = invite_email traits in
     if email = [] then modify (toast_plain ''error'' ''Email address is required by the active identity schema'')
     else try_catch (bnd (inviteIdentity on_success traits (invite_vars email traits schema)) (\<lambda>_. ret ()))
       (\<lambda>_. bnd (modify (toast_plain ''success'' (''Invitation link sent to '' @ email))) (\<lambda>_. invite_done on_success)))"

section \<open>identity-sheet.tsx\<close>

record identity_item =
  ii_id :: jsval
  ii_email :: jsval
  ii_name :: jsval
  ii_state :: jsval
  ii_createdAt :: string
  ii_original :: jsval

record sheet_world = pworld +
  sh_identity :: "identity_item option"
  sh_traits :: string
  sh_saving :: bool
  sh_acting :: "string option"
  sh_sessions :: "jsval list"
  sh_factors :: "string list"
  sh_link :: jsval

type_synonym ('w, 'a) shact = "('w sheet_world_scheme, 'a) js"

definition sheet_url :: "identity_item \<Rightarrow> string \<Rightarrow> string" where
  "sheet_url i rest = ''/api/identities/'' @ to_str (ii_id i) @ rest"

definition totp_factor :: string where
  "totp_factor = ''Authenticator App (TOTP)''"

text \<open>The initial state shows one session.\<close>

definition initial_sessions :: "jsval list" where
  "initial_sessions = [JObj [(''id'', JStr ''sess_1''), (''ip'', JStr ''192.168.1.10''), (''userAgent'', JStr ''Chrome on macOS''),
     (''lastAccess'', JStr ''Recently'')]]"

definition mockAuditEvents :: "identity_item option \<Rightarrow> jsval list" where
  "mockAuditEvents identity = [
     JObj [(''id'', JStr ''evt_1''), (''action'', JStr ''user.authenticated''),
       (''actor'', case identity of None \<Rightarrow> JStr ''system'' | Some i \<Rightarrow> js_or (ii_email i) (JStr ''system'')), (''timestamp'', JStr ''Recently'')],
     JObj [(''id'', JStr ''evt_2''), (''action'', JStr ''identity.state_active''), (''actor'', JStr ''admin@autorix.io''),
       (''timestamp'', JStr (case identity of None \<Rightarrow> ''Recently'' | Some i \<Rightarrow> str_or (ii_createdAt i) ''Recently''))]]"

definition sheet_session :: "(jsval \<Rightarrow> string) \<Rightarrow> jsval \<Rightarrow> jsval res" where
  "sheet_session local_time s = map_sum id (\<lambda>ident. JObj [(''id'', ident), (''ip'', JStr ''127.0.0.1''), (''userAgent'', JStr ''Active Session''),
     (''lastAccess'', JStr (if truthy (member s ''authenticated_at'') then local_time (member s ''authenticated_at'') else ''Active''))]) (get_prop s ''id'')"

definition load_sessions :: "(jsval \<Rightarrow> string) \<Rightarrow> identity_item \<Rightarrow> ('w, unit) shact" where
  "load_sessions local_time i = try_catch
     (bnd (fetch (get_request (sheet_url i ''/sessions''))) (\<lambda>res.
      bnd (if rs_ok res then response_json res else ret (JArr [])) (\<lambda>d. case d of
        JArr (s # ss) \<Rightarrow> bnd (lift (map_res (sheet_session local_time) (s # ss))) (\<lambda>xs. modify (\<lambda>w. w\<lparr>sh_sessions := xs\<rparr>))
      | _ \<Rightarrow> ret ())))
     (\<lambda>_. ret ())"

definition load_factors :: "identity_item \<Rightarrow> ('w, unit) shact" where
  "load_factors i = try_catch
     (bnd (fetch (get_request (sheet_url i ''/mfa''))) (\<lambda>res.
      bnd (if rs_ok res then response_json res else ret JNull) (\<lambda>mfa.
      modify (\<lambda>w. w\<lparr>sh_factors := if truthy mfa \<and> truthy (member mfa ''totp_enabled'') then [totp_factor] else []\<rparr>))))
     (\<lambda>_. ret ())"

text \<open>The effect that runs when another identity is shown.\<close>

definition sheet_load :: "(jsval \<Rightarrow> string) \<Rightarrow> ('w, unit) shact" where
  "sheet_load local_time = bnd (asks sh_identity) (\<lambda>identity. case identity of None \<Rightarrow> ret ()
   | Some i \<Rightarrow> bnd (modify (\<lambda>w. w\<lparr>sh_traits := json_pretty (member (ii_original i) ''traits''), sh_link := JNull\<rparr>)) (\<lambda>_.
       bnd (load_sessions local_time i) (\<lambda>_. load_factors i)))"

definition when_shown :: "(identity_item \<Rightarrow> ('w, unit) shact) \<Rightarrow> ('w, unit) shact" where
  "when_shown f = bnd (asks sh_identity) (\<lambda>identity. case identity of None \<Rightarrow> ret () | Some i \<Rightarrow> f i)"

definition unless_ok :: "string \<Rightarrow> http_response \<Rightarrow> ('w, 'a) act \<Rightarrow> ('w, 'a) act" where
  "unless_ok msg res m = (if \<not> rs_ok res then fail_msg msg else m)"

definition handleSaveTraits :: "('w, unit) shact \<Rightarrow> ('w, unit) shact" where
  "handleSaveTraits on_updated = when_shown (\<lambda>i. bnd (modify (\<lambda>w. w\<lparr>sh_saving := True\<rparr>)) (\<lambda>_. try_finally
     (bnd (asks (\<lambda>w. json_parse_js w (sh_traits w))) (\<lambda>r. bnd (lift r) (\<lambda>parsed.
      bnd (fetch (json_send ''PATCH'' (sheet_url i []) (JObj [(''traits'', parsed)]))) (\<lambda>res.
      unless_ok ''Failed to save traits'' res (bnd (modify (toast_plain ''success'' ''Traits updated successfully.'')) (\<lambda>_. on_updated))))))
     (toast_error ''Error saving traits'') (\<lambda>w. w\<lparr>sh_saving := False\<rparr>)))"

definition acting :: "string \<Rightarrow> string \<Rightarrow> ('w, unit) shact \<Rightarrow> ('w, unit) shact" where
  "acting label failure m = bnd (modify (\<lambda>w. w\<lparr>sh_acting := Some label\<rparr>)) (\<lambda>_. try_finally m
     (\<lambda>_. modify (toast_plain ''error'' failure)) (\<lambda>w. w\<lparr>sh_acting := None\<rparr>))"

definition handleResetPassword :: "('w, unit) shact" where
  "handleResetPassword = when_shown (\<lambda>i. acting ''reset_pwd'' ''Failed to reset password''
     (bnd (fetch (json_send ''POST'' (sheet_url i ''/credentials/reset-password'') (JObj [(''force_rotation'', JBool True)]))) (\<lambda>res.
      unless_ok ''Failed to reset password'' res (bnd (response_json res) (\<lambda>d. bnd (lift (get_prop d ''temporary_password'')) (\<lambda>p.
      modify (toast_plain ''success'' (if truthy p then ''Password reset. Temporary: '' @ to_str p
        else ''Password reset and rotation enforced.''))))))))"

definition handleIssueRecoveryLink :: "('w, unit) shact" where
  "handleIssueRecoveryLink = when_shown (\<lambda>i. acting ''recovery_link'' ''Failed to issue recovery link''
     (bnd (fetch (json_send ''POST'' (sheet_url i ''/recovery-link'') (JObj [(''expires_in'', JStr ''2h'')]))) (\<lambda>res.
      unless_ok ''Failed to issue recovery link'' res (bnd (response_json res) (\<lambda>d. bnd (lift (get_prop d ''recovery_link'')) (\<lambda>l.
      modify (\<lambda>w. toast_plain ''success'' ''Recovery link generated.'' (w\<lparr>sh_link := l\<rparr>))))))))"

definition handleRevokeSession :: "string \<Rightarrow> ('w, unit) shact" where
  "handleRevokeSession sessionId = try_catch
     (bnd (fetch (delete_request (''/api/sessions/'' @ sessionId))) (\<lambda>_.
      modify (\<lambda>w. toast_plain ''success'' (''Session '' @ sessionId @ '' revoked'')
        (w\<lparr>sh_sessions := filter (\<lambda>s. \<not> strict_eq (member s ''id'') (JStr sessionId)) (sh_sessions w)\<rparr>))))
     (\<lambda>_. modify (toast_plain ''error'' ''Failed to revoke session''))"

definition handleToggleSuspend :: "('w, unit) shact \<Rightarrow> ('w, unit) shact" where
  "handleToggleSuspend on_updated = when_shown (\<lambda>i. let isSuspended = strict_eq (ii_state i) (JStr ''suspended'');
       newState = (if isSuspended then ''active'' else ''suspended'')
     in acting ''suspend'' ''Failed to change account state''
       (bnd (fetch (json_send ''PATCH'' (sheet_url i []) (JObj [(''state'', JStr newState)]))) (\<lambda>res.
        unless_ok ''Failed to update status'' res (bnd (modify (toast_plain ''success''
          (if isSuspended then ''Account reactivated'' else ''Account suspended''))) (\<lambda>_. on_updated)))))"

text \<open>The recovery codes the sheet gives to mfa-panel.tsx, and what that panel shows of them.\<close>

definition generated_codes :: "string list" where
  "generated_codes = [''8A9F-2B3C'', ''9K2L-5M7N'', ''1Q8W-4E5R'', ''7U9I-0O2P'']"

definition shown_codes :: "string list \<Rightarrow> string" where
  "shown_codes codes = join [CHR 0x0A] codes"

section \<open>page.tsx\<close>

text \<open>\<open>traits?.email?.split("@")[0]\<close>\<close>

definition local_part :: "jsval \<Rightarrow> jsval res" where
  "local_part email = (if nullish email then Inr JUndef else case email of
     JStr s \<Rightarrow> Inr (JStr (hd (split_on CHR ''@'' s))) | _ \<Rightarrow> Inl (not_function ''traits.email.split''))"

definition toIdentityItem :: "(jsval \<Rightarrow> string) \<Rightarrow> jsval \<Rightarrow> identity_item res" where
  "toIdentityItem local_date item = (let traits = member item ''traits''; nm = opt_prop traits ''name'' in
     case (if truthy nm
           then Inr (JStr (trim (to_str (js_or (member nm ''first'') (JStr [])) @ '' '' @ to_str (js_or (member nm ''last'') (JStr [])))))
           else map_sum id (\<lambda>l. js_or l (JStr ''User'')) (local_part (opt_prop traits ''email''))) of
       Inl e \<Rightarrow> Inl e
     | Inr nameText \<Rightarrow> Inr \<lparr>ii_id = member item ''id'', ii_email = js_or (opt_prop traits ''email'') (JStr ''unknown@autorix.io''),
         ii_name = nameText, ii_state = js_or (member item ''state'') (JStr ''active''),
         ii_createdAt = (if truthy (member item ''created_at'') then local_date (member item ''created_at'') else ''Recently''),
         ii_original = item\<rparr>)"

record identities_view =
  iv_searchInput :: string
  iv_search :: string
  iv_pageSize :: int
  iv_cursor :: string
  iv_history :: "string list"

text \<open>The effect of the debounced search, the request of the list, and the handlers of its pages.\<close>

definition identities_search :: "identities_view \<Rightarrow> identities_view" where
  "identities_search v = v\<lparr>iv_search := iv_searchInput v, iv_cursor := [], iv_history := []\<rparr>"

definition identities_url :: "identities_view \<Rightarrow> string" where
  "identities_url v = ''/api/identities?q='' @ encode_uri_component (iv_search v) @ ''&cursor='' @ encode_uri_component (iv_cursor v) @
     ''&limit='' @ show_int (iv_pageSize v)"

definition fetch_identities :: "identities_view \<Rightarrow> ('w, api_result) bact" where
  "fetch_identities v = fetchAndParse (identities_url v) paginatedIdentityListSchema no_options"

definition identities_next :: "jsval \<Rightarrow> identities_view \<Rightarrow> identities_view" where
  "identities_next raw v = (case next_cursor raw of None \<Rightarrow> v
   | Some c \<Rightarrow> v\<lparr>iv_history := iv_history v @ [iv_cursor v], iv_cursor := c\<rparr>)"

definition identities_previous :: "identities_view \<Rightarrow> identities_view" where
  "identities_previous v = (if iv_history v = [] then v
     else v\<lparr>iv_cursor := last (iv_history v), iv_history := butlast (iv_history v)\<rparr>)"

definition identities_pageSize :: "int \<Rightarrow> identities_view \<Rightarrow> identities_view" where
  "identities_pageSize n v = v\<lparr>iv_pageSize := n, iv_cursor := [], iv_history := []\<rparr>"

definition csv_quoted :: "string list \<Rightarrow> string" where
  "csv_quoted cells = join '','' (map (\<lambda>c. [CHR 0x22] @ c @ [CHR 0x22]) cells)"

definition identities_csv :: "identity_item list \<Rightarrow> string" where
  "identities_csv items = ''id,email,name,state,createdAt'' @ [CHR 0x0A] @ join [CHR 0x0A] (map (\<lambda>i.
     csv_quoted [to_str (ii_id i), to_str (ii_email i), to_str (ii_name i), to_str (ii_state i), ii_createdAt i]) items)"

definition identities_export :: "identity_item list \<Rightarrow> ('w, unit) pact" where
  "identities_export items = (if items = [] then modify (toast_plain ''info'' ''No identities to export'')
     else bnd date_now (\<lambda>ms. modify (\<lambda>w. toast_plain ''success'' (''Exported '' @ show_nat (length items) @ '' identities'')
       (download (''autorix_identities_'' @ show_int ms @ ''.csv'') (identities_csv items) w))))"

section \<open>The pages of the list\<close>

interpretation identities_pages: cursor_pager identities_next identities_previous identities_pageSize iv_cursor
    "\<lambda>v. iv_history v @ [iv_cursor v]" "\<lambda>_. True"
  by unfold_locales
    (auto simp: identities_next_def identities_previous_def identities_pageSize_def butlast_append split: option.split)

section \<open>What the import sends\<close>

lemma quiet_validated [same_rules]: "quiet (validated d)"
  unfolding validated_def by (intro same_rules) auto

lemma quiet_committed: "quiet cb \<Longrightarrow> quiet (committed cb d)"
  unfolding committed_def by (intro same_rules) auto

lemma dry_run_sends:
  "sends w handleDryRun = (let rows = parseCsvToRows (im_text w) in if rows = [] then [] else [import_request rows True])"
proof -
  have "w_sent (snd (try_finally (bnd (fetch rq) (\<lambda>res. if \<not> rs_ok res then fail_msg m else bnd (response_json res) validated))
      (\<lambda>_. modify (toast_plain k n)) (\<lambda>w. w\<lparr>im_validating := False\<rparr>) v)) = w_sent v @ [rq]" for rq m k n and v :: "'a bulk_world_scheme"
    by (subst sent_try_finally; (intro sent_fetch)?) (auto intro!: same_rules)
  then show ?thesis by (simp add: sends_def handleDryRun_def run Let_def)
qed

lemma commit_sends:
  assumes "quiet cb"
  shows "sends w (handleCommit cb) = (let rows = parseCsvToRows (im_text w) in if rows = [] then [] else [import_request rows False])"
proof -
  have "w_sent (snd (try_finally (bnd (fetch rq) (\<lambda>res. if \<not> rs_ok res then fail_msg m else bnd (response_json res) (committed cb)))
      (\<lambda>_. modify (toast_plain k n)) (\<lambda>w. w\<lparr>im_committing := False\<rparr>) v)) = w_sent v @ [rq]" for rq m k n v
    by (subst sent_try_finally; (intro sent_fetch)?) (auto intro!: same_rules quiet_committed assms)
  then show ?thesis by (simp add: sends_def handleCommit_def run Let_def)
qed

lemma dry_run_text: "im_text (snd (handleDryRun w)) = im_text w"
  by (rule sameD) (unfold handleDryRun_def Let_def validated_def, intro same_rules, simp_all add: toast_plain_def)

text \<open>
  What is committed is what was validated: a dry run sends the rows of the text with \<open>dry_run\<close> set and leaves the text, and the
  commit that follows sends the same rows once, without it.
\<close>

theorem commit_sends_validated:
  assumes "quiet cb" "parseCsvToRows (im_text w) = rows" "rows \<noteq> []"
  shows "sends w handleDryRun = [import_request rows True] \<and> sends (snd (handleDryRun w)) (handleCommit cb) = [import_request rows False]"
  using assms by (simp add: dry_run_sends commit_sends dry_run_text Let_def)

section \<open>The rows of a text\<close>

definition csv_cell_ok :: "string \<Rightarrow> bool" where
  "csv_cell_ok c \<longleftrightarrow> trim c = c \<and> CHR '','' \<notin> set c \<and> CHR 0x0A \<notin> set c"

fun csv_line :: "string \<times> string \<times> string \<Rightarrow> string" where
  "csv_line (e, f, l) = e @ '','' @ f @ '','' @ l"

lemma split_on_join: "xs \<noteq> [] \<Longrightarrow> (\<And>x. x \<in> set xs \<Longrightarrow> c \<notin> set x) \<Longrightarrow> split_on c (join [c] xs) = xs"
proof (induction xs rule: list_nonempty_induct)
  case (cons x xs)
  then show ?case by (cases xs) (auto simp: split_on_append)
qed (simp add: split_on_no_sep)

lemma trim_last: "trim c = c \<Longrightarrow> c \<noteq> [] \<Longrightarrow> \<not> is_space (last c)"
  by (metis (no_types) dropWhile_eq_Nil_conv hd_dropWhile hd_rev rev.simps(1) rev_rev_ident trim_def)

lemma starts_before: "x \<notin> set p \<Longrightarrow> starts_with (a @ x # b) p = starts_with a p"
proof (induction p arbitrary: a)
  case (Cons y p)
  then show ?case by (cases a) (auto simp: starts_with_def)
qed (simp add: starts_with_def)

fun cells_ok :: "string \<times> string \<times> string \<Rightarrow> bool" where
  "cells_ok (e, f, l) \<longleftrightarrow> e \<noteq> [] \<and> csv_cell_ok e \<and> csv_cell_ok f \<and> csv_cell_ok l"

lemma csv_parts_line: "cells_ok (e, f, l) \<Longrightarrow> csv_parts (csv_line (e, f, l)) = [e, f, l]"
  by (simp add: csv_parts_def csv_cell_ok_def split_on_append split_on_no_sep)

lemma header_line_first: "header_line (csv_line (e, f, l)) = header_line e"
  using starts_before [of "CHR '',''" "''email''" "to_lower e" "to_lower (f @ '','' @ l)"]
  by (simp add: header_line_def to_lower_def lower_char_def is_upper_def)

lemma csv_line_shape:
  assumes "cells_ok r"
  shows "csv_line r \<noteq> [] \<and> CHR 0x0A \<notin> set (csv_line r) \<and> \<not> is_space (last (csv_line r))"
proof -
  obtain e f l where r: "r = (e, f, l)" by (cases r)
  have "\<not> is_space (last l)" if "l \<noteq> []" using assms that by (intro trim_last) (auto simp: r csv_cell_ok_def)
  then show ?thesis using assms by (auto simp: r csv_cell_ok_def is_space_def)
qed

lemma join_nonempty: "xs \<noteq> [] \<Longrightarrow> last xs \<noteq> [] \<Longrightarrow> join sep xs \<noteq> []"
proof (induction xs rule: list_nonempty_induct)
  case (cons x xs)
  then show ?case by (cases xs) auto
qed simp

lemma last_join: "xs \<noteq> [] \<Longrightarrow> last xs \<noteq> [] \<Longrightarrow> last (join sep xs) = last (last xs)"
proof (induction xs rule: list_nonempty_induct)
  case (cons x xs)
  then show ?case using join_nonempty [of xs sep] by (cases xs) auto
qed simp

definition csv_header :: string where
  "csv_header = ''email,firstName,lastName''"

definition csv_text :: "(string \<times> string \<times> string) list \<Rightarrow> string" where
  "csv_text rows = join [CHR 0x0A] (csv_header # map csv_line rows)"

lemma csv_text_trim:
  assumes "list_all cells_ok rows"
  shows "trim (csv_text rows) = csv_text rows"
proof (rule trim_ends)
  have l: "last (csv_header # map csv_line rows) \<noteq> [] \<and> \<not> is_space (last (last (csv_header # map csv_line rows)))"
    using assms csv_line_shape [of "last rows"]
    by (auto simp: last_map csv_header_def is_space_def list_all_iff)
  show "\<not> is_space (last (csv_text rows))"
    using last_join [of "csv_header # map csv_line rows" "[CHR 0x0A]"] l unfolding csv_text_def by (metis list.distinct(1))
  show "csv_text rows \<noteq> []" "\<not> is_space (hd (csv_text rows))"
    by (cases rows; simp add: csv_text_def csv_header_def is_space_def)+
qed

text \<open>
  C36. The import reads what its placeholder asks for, but not all of it: the text of rows with ordinary cells under the header line is read as
  those rows in their order, less the rows whose e-mail address itself begins with \<open>email\<close>, in any case of the letters, which are dropped as
  headers without a word.
\<close>

theorem bulk_csv_roundtrip:
  assumes "list_all cells_ok rows"
  shows "parseCsvToRows (csv_text rows) = map (\<lambda>(e, f, l). identity_row [e, f, l]) (filter (\<lambda>(e, f, l). \<not> header_line e) rows)"
proof -
  have "\<forall>x \<in> set (csv_header # map csv_line rows). CHR 0x0A \<notin> set x"
    using assms csv_line_shape by (auto simp: csv_header_def list_all_iff)
  then have lines: "split_on CHR 0x0A (trim (csv_text rows)) = csv_header # map csv_line rows"
    unfolding csv_text_trim [OF assms] unfolding csv_text_def by (intro split_on_join) auto
  have head: "header_line csv_header" by (simp add: header_line_def csv_header_def to_lower_def lower_char_def is_upper_def starts_with_def)
  have "filter (\<lambda>parts. part 0 parts \<noteq> []) (map csv_parts (filter (\<lambda>line. line \<noteq> [] \<and> \<not> header_line line) (map csv_line rows))) =
      map (\<lambda>(e, f, l). [e, f, l]) (filter (\<lambda>(e, f, l). \<not> header_line e) rows)"
    using assms
  proof (induction rows)
    case (Cons r rows)
    obtain e f l where r: "r = (e, f, l)" by (cases r)
    then have "csv_line r \<noteq> []" "csv_parts (csv_line r) = [e, f, l]" "part 0 [e, f, l] \<noteq> []"
      using Cons.prems csv_parts_line [of e f l] by (auto simp: part_def)
    then show ?case using Cons by (simp add: r header_line_first del: csv_line.simps)
  qed simp
  then show ?thesis by (simp add: parseCsvToRows_def lines head case_prod_unfold)
qed

theorem bulk_csv_roundtrip_witness:
  "parseCsvToRows (csv_text [(''ada@x'', ''Ada'', []), (''emailbot@x'', ''Bot'', ''B'')]) = [identity_row [''ada@x'', ''Ada'', []]]"
proof -
  have ok: "list_all cells_ok [(''ada@x'', ''Ada'', []), (''emailbot@x'', ''Bot'', ''B'')]"
    by (simp add: csv_cell_ok_def trim_def is_space_def)
  have h: "\<not> header_line ''ada@x''" "header_line ''emailbot@x''"
    by (simp_all add: header_line_def to_lower_def lower_char_def is_upper_def starts_with_def)
  show ?thesis using bulk_csv_roundtrip [OF ok] h by simp
qed

definition example_bulk :: "string \<Rightarrow> bulk_world" where
  "example_bulk t = pworld.extend (example_page (\<lambda>_. ok_text ''{}'')) \<lparr>im_open = True, im_text = t, im_validating = False,
     im_committing = False, im_result = JNull\<rparr>"

theorem commit_sends_validated_witness:
  "let w = example_bulk (csv_text [(''ada@x'', [], [])])
   in sends (snd (handleDryRun w)) (handleCommit (ret ())) = [import_request [identity_row [''ada@x'', [], []]] False]"
proof -
  have ok: "list_all cells_ok [(''ada@x'', [], [])]" by (simp add: csv_cell_ok_def trim_def is_space_def)
  have h: "\<not> header_line ''ada@x''"
    by (simp add: header_line_def to_lower_def lower_char_def is_upper_def starts_with_def)
  have "im_text (example_bulk t) = t" for t by (simp add: example_bulk_def pworld.defs)
  then have "parseCsvToRows (im_text (example_bulk (csv_text [(''ada@x'', [], [])]))) = [identity_row [''ada@x'', [], []]]"
    using bulk_csv_roundtrip [OF ok] h by simp
  then show ?thesis unfolding Let_def using commit_sends_validated [OF same.k_ret] by blast
qed

section \<open>Successes that are none\<close>

text \<open>
  An invitation is always reported as sent: with an e-mail address in the form, whatever the engine answers or whether it can be reached at
  all, the last message says success and the form is closed and emptied; when the request is refused or has no answer that message is that the
  invitation link was sent.
\<close>

theorem invite_claims_success:
  assumes "invite_email (iv_traits w) = email" "email \<noteq> []"
  shows "fst (invite_create (ret ()) w) = Inr () \<and> \<not> iv_open (snd (invite_create (ret ()) w)) \<and>
    iv_traits (snd (invite_create (ret ()) w)) = blank_traits \<and>
    (\<exists>msg. last (b_toasts (snd (invite_create (ret ()) w))) = (''success'', msg, None)) \<and>
    ((\<forall>r w1. fetchAndParse ''/api/identities/invite'' identitySchema (json_options ''POST'' (invite_vars email (iv_traits w) (iv_schema w))) w
        \<noteq> (Inr (Inr r), w1)) \<longrightarrow>
      last (b_toasts (snd (invite_create (ret ()) w))) = (''success'', ''Invitation link sent to '' @ email, None))"
proof (cases "fetchAndParse ''/api/identities/invite'' identitySchema (json_options ''POST'' (invite_vars email (iv_traits w) (iv_schema w))) w")
  case (Pair r w1)
  then show ?thesis
    using assms
    by (auto simp: invite_create_def asks_def modify_def inviteIdentity_def useApiMutation_fn_def try_catch_def bnd_def Let_def invite_done_def invite_reset_def
        throw_def ret_def toast_plain_def invalidate_def success_toast_def toastSuccess_def toastApiError_def
        split: sum.split)
qed

definition example_invite :: invite_world where
  "example_invite = pworld.extend (example_page (\<lambda>_. Inl (type_error ''fetch failed'')))
     \<lparr>iv_open = True, iv_schema = ''default'', iv_traits = JObj [(''email'', JStr ''a@x'')]\<rparr>"

theorem invite_claims_success_witness:
  "last (b_toasts (snd (invite_create (ret ()) example_invite))) = (''success'', ''Invitation link sent to a@x'', None)"
proof -
  have t: "iv_traits example_invite = JObj [(''email'', JStr ''a@x'')]"
    by (simp add: example_invite_def pworld.defs)
  then have e: "invite_email (iv_traits example_invite) = ''a@x''"
    by (simp add: invite_email_def opt_prop_def trim_def is_space_def)
  have up: "w_upstream example_invite = (\<lambda>_. Inl (type_error ''fetch failed''))"
    by (simp add: example_invite_def example_page_def example_browser_def example_world_def pworld.defs bworld.defs world.defs)
  have no: "fetchAndParse u s opts example_invite \<noteq> (Inr (Inr r), w1)" for u s opts r w1
    by (auto simp: fetchAndParse_def bnd_def run_fetchJSON up ret_def split: sum.splits)
  show ?thesis using invite_claims_success [OF e] no by simp
qed

text \<open>
  A session is reported as revoked by any answer: whatever its status, the session leaves the list of the sheet and
  the message says that it is revoked; only a request without an answer is reported as failed, and leaves the list.
\<close>

theorem revoke_claims_success:
  fixes w :: "'a sheet_world_scheme" and i :: string
  defines "rq \<equiv> delete_request (''/api/sessions/'' @ i)"
  shows "sends w (handleRevokeSession i) = [rq] \<and>
    (case w_upstream w (w_sent w @ [rq]) of
       Inr res \<Rightarrow> last (b_toasts (snd (handleRevokeSession i w))) = (''success'', ''Session '' @ i @ '' revoked'', None) \<and>
         sh_sessions (snd (handleRevokeSession i w)) = filter (\<lambda>s. member s ''id'' \<noteq> JStr i) (sh_sessions w)
     | Inl e \<Rightarrow> last (b_toasts (snd (handleRevokeSession i w))) = (''error'', ''Failed to revoke session'', None) \<and>
         sh_sessions (snd (handleRevokeSession i w)) = sh_sessions w)"
  by (auto simp: sends_def handleRevokeSession_def rq_def try_catch_def bnd_def fetch_def Let_def modify_def toast_plain_def split: sum.split)

lemma load_factors_sessions: "keeps (unchanged sh_sessions) (load_factors i)"
  unfolding load_factors_def by (intro same_rules) auto

text \<open>
  The sheet of an identity shows the sessions of the one before it, unless its own list arrives and is not empty: with no answer, a refusal,
  or the empty list of an identity without a session, opening it changes no session on display.
\<close>

theorem sheet_keeps_sessions:
  assumes "sh_identity w = Some i"
    and "\<forall>res. w_upstream w (w_sent w @ [get_request (sheet_url i ''/sessions'')]) = Inr res \<longrightarrow>
      \<not> rs_ok res \<or> rs_text res = Inr ''[]''"
  shows "sh_sessions (snd (sheet_load local_time w)) = sh_sessions w"
proof -
  define v where "v = w\<lparr>sh_traits := json_pretty (member (ii_original i) ''traits''), sh_link := JNull\<rparr>"
  have v: "w_upstream v = w_upstream w" "w_sent v = w_sent w" "sh_sessions v = sh_sessions w" by (simp_all add: v_def)
  have empty: "json_parse ''[]'' = Some (JArr [])" by code_simp
  have "sh_sessions (snd (load_sessions local_time i v)) = sh_sessions w"
    using assms(2)
    by (auto simp: load_sessions_def try_catch_def bnd_def fetch_def Let_def v response_json_def json_parse_js_def empty ret_def
        split: sum.split prod.split)
  moreover have "sheet_load local_time w = bnd (load_sessions local_time i) (\<lambda>_. load_factors i) v"
    by (simp add: sheet_load_def run assms(1) v_def)
  ultimately show ?thesis
    by (auto simp: bnd_def sameD [OF load_factors_sessions] split: prod.split sum.split)
qed

definition example_item :: "string \<Rightarrow> identity_item" where
  "example_item ident = \<lparr>ii_id = JStr ident, ii_email = JStr ''a@x'', ii_name = JStr ''A'', ii_state = JStr ''active'', ii_createdAt = ''Recently'',
     ii_original = JObj []\<rparr>"

definition example_sheet :: "(http_request list \<Rightarrow> exn + http_response) \<Rightarrow> sheet_world" where
  "example_sheet up = pworld.extend (example_page up) \<lparr>sh_identity = Some (example_item ''7''), sh_traits = [], sh_saving = False,
     sh_acting = None, sh_sessions = initial_sessions, sh_factors = [totp_factor], sh_link = JNull\<rparr>"

theorem sheet_keeps_sessions_witness:
  "sh_sessions (snd (sheet_load (\<lambda>_. []) (example_sheet (\<lambda>_. ok_text ''[]'')))) = initial_sessions"
proof -
  have "w_upstream (example_sheet up) = up" "sh_identity (example_sheet up) = Some (example_item ''7'')"
      "sh_sessions (example_sheet up) = initial_sessions" for up
    by (simp_all add: example_sheet_def example_page_def example_browser_def example_world_def pworld.defs bworld.defs world.defs)
  then show ?thesis
    using sheet_keeps_sessions [of "example_sheet (\<lambda>_. ok_text ''[]'')" "example_item ''7''"] by (simp add: ok_text_def)
qed

end
