(* ===== verification/NexusPages.thy ===== *)
theory NexusPages
  imports Pages SchemasEngines
begin

text \<open>
  The pages about permissions: app/permissions (the list of tuples with its pages, the form of a tuple, the simulated check) and the playground
  under app/nexus (the grid of tuples and its bulk import, the schema editor, the simulator, the registry of caveats, the graph).
  Translated texts are a parameter \<open>tr\<close>, and so is the latency that is measured and shown.
\<close>

section \<open>permissions/page.tsx\<close>

definition toZanzibarTuple :: "jsval \<Rightarrow> jsval" where
  "toZanzibarTuple t = JObj [(''namespace'', member t ''namespace''), (''object'', member t ''object''), (''relation'', member t ''relation''),
     (''subject'', JStr (to_str (js_or (member t ''subject_namespace'') (JStr ''user'')) @ '':'' @ to_str (member t ''subject_id'') @
       (if truthy (member t ''subject_relation'') then ''#'' @ to_str (member t ''subject_relation'') else []))),
     (''caveat'', js_or (member t ''caveat_name'') JUndef), (''original'', t)]"

record check_result =
  cr_allowed :: bool
  cr_reason :: jsval
  cr_latency :: jsval
  cr_path :: string

record perm_world = pworld +
  pm_namespace :: string
  pm_object :: string
  pm_relation :: string
  pm_subject :: string
  pm_context :: string
  pm_result :: "check_result option"

type_synonym ('w, 'a) pmact = "('w perm_world_scheme, 'a) js"

definition permissions_delete_tuple :: "jsval \<Rightarrow> ('w, unit) pact" where
  "permissions_delete_tuple item = mutation
     (useApiMutation_fn (\<lambda>t. fetchAndParse ''/api/permissions'' deleteTuplesResponseSchema (json_options ''DELETE'' (member t ''original'')))
       (MessageOf (\<lambda>_. ''Tuple deleted successfully.'')) (\<lambda>_ _. modify (invalidate [''nexus-tuples''])) None item)
     (\<lambda>_. ret ()) (\<lambda>_. ret ())"

definition check_vars :: "'w perm_world_scheme \<Rightarrow> jsval \<Rightarrow> jsval" where
  "check_vars w context = JObj [(''namespace'', JStr (pm_namespace w)), (''object'', JStr (pm_object w)), (''relation'', JStr (pm_relation w)),
     (''subjectId'', JStr (pm_subject w)), (''requestContext'', context)]"

definition var_text :: "jsval \<Rightarrow> string \<Rightarrow> string" where
  "var_text vars k = to_str (member vars k)"

definition check_path :: "string \<Rightarrow> jsval \<Rightarrow> string" where
  "check_path arrow vars = ''user:'' @ var_text vars ''subjectId'' @ arrow @ var_text vars ''namespace'' @ '':'' @ var_text vars ''object'' @
     ''#'' @ var_text vars ''relation''"

definition check_answered :: "(string \<Rightarrow> (string \<times> string) list \<Rightarrow> string) \<Rightarrow> jsval \<Rightarrow> jsval \<Rightarrow> jsval \<Rightarrow> ('w, unit) pmact" where
  "check_answered tr latency d vars = bnd (lift (get_prop d ''allowed'')) (\<lambda>allowed. modify (\<lambda>w. w\<lparr>pm_result := Some
     \<lparr>cr_allowed = truthy allowed,
      cr_reason = js_or (member d ''reason'') (JStr (tr ''permissions.directMatchReason'' [(''namespace'', var_text vars ''namespace''),
        (''object'', var_text vars ''object''), (''relation'', var_text vars ''relation''), (''subject'', ''user:'' @ var_text vars ''subjectId'')])),
      cr_latency = latency, cr_path = check_path '' -> direct relation -> '' vars\<rparr>\<rparr>))"

definition check_failed :: "jsval \<Rightarrow> jsval \<Rightarrow> exn \<Rightarrow> ('w, unit) pmact" where
  "check_failed latency vars err = modify (\<lambda>w. w\<lparr>pm_result := Some
     \<lparr>cr_allowed = False, cr_reason = JStr (str_or (err_message err []) ''Check request failed''),
      cr_latency = latency, cr_path = check_path '' -> '' vars\<rparr>\<rparr>)"

definition parsed_context :: "string \<Rightarrow> jsval" where
  "parsed_context t = (if t = [] then JUndef else case json_parse t of Some v \<Rightarrow> v | None \<Rightarrow> JUndef)"

definition check_options :: "jsval \<Rightarrow> fetch_options" where
  "check_options vars = json_options ''POST'' vars"

definition permissions_simulate :: "(string \<Rightarrow> (string \<times> string) list \<Rightarrow> string) \<Rightarrow> jsval \<Rightarrow> ('w, unit) pmact" where
  "permissions_simulate tr latency = bnd (asks (\<lambda>w. check_vars w (parsed_context (pm_context w)))) (\<lambda>vars.
     mutation (useApiMutation_fn (\<lambda>v. fetchAndParse ''/api/permissions/check'' checkResponseSchema (check_options v))
       NoMessage (check_answered tr latency) None vars) (\<lambda>_. ret ()) (check_failed latency vars))"

record perm_view =
  pv_pageSize :: int
  pv_cursor :: string
  pv_history :: "string list"

definition fetch_tuples_page :: "perm_view \<Rightarrow> ('w, api_result) bact" where
  "fetch_tuples_page v = fetchAndParse (''/api/permissions?cursor='' @ encode_uri_component (pv_cursor v) @ ''&limit='' @ show_int (pv_pageSize v))
     paginatedTupleListSchema no_options"

definition permissions_next :: "jsval \<Rightarrow> perm_view \<Rightarrow> perm_view" where
  "permissions_next raw v = (case next_cursor raw of None \<Rightarrow> v
   | Some c \<Rightarrow> v\<lparr>pv_history := pv_history v @ [pv_cursor v], pv_cursor := c\<rparr>)"

definition permissions_previous :: "perm_view \<Rightarrow> perm_view" where
  "permissions_previous v = v\<lparr>pv_cursor := (if pv_history v = [] then [] else last (pv_history v)), pv_history := butlast (pv_history v)\<rparr>"

definition permissions_pageSize :: "int \<Rightarrow> perm_view \<Rightarrow> perm_view" where
  "permissions_pageSize n v = v\<lparr>pv_pageSize := n, pv_cursor := [], pv_history := []\<rparr>"

interpretation permissions_pages: cursor_pager permissions_next permissions_previous permissions_pageSize pv_cursor
    "\<lambda>v. pv_history v @ [pv_cursor v]" "\<lambda>v. hd (pv_history v @ [pv_cursor v]) = []"
proof unfold_locales
  fix s :: perm_view
  assume "hd (pv_history s @ [pv_cursor s]) = []"
  then show "hd (pv_history (permissions_previous s) @ [pv_cursor (permissions_previous s)]) = [] \<and>
      pv_history (permissions_previous s) @ [pv_cursor (permissions_previous s)] = trail_step PreviousPage (pv_history s @ [pv_cursor s])"
    by (cases "pv_history s" rule: rev_cases; cases "butlast (pv_history s)") (auto simp: permissions_previous_def hd_append butlast_append split: if_splits)
qed (auto simp: permissions_next_def permissions_pageSize_def hd_append split: option.split)

section \<open>permissions/tuple-builder-sheet.tsx\<close>

record tuple_form = pworld +
  tf_open :: bool
  tf_namespace :: string
  tf_object :: string
  tf_relation :: string
  tf_subjectNamespace :: string
  tf_subjectId :: string
  tf_subjectRelation :: string
  tf_caveatName :: string

definition opt_text :: "string \<Rightarrow> jsval" where
  "opt_text s = (if s = [] then JUndef else JStr s)"

definition tuple_vars :: "'w tuple_form_scheme \<Rightarrow> jsval" where
  "tuple_vars w = JObj [(''namespace'', JStr (tf_namespace w)), (''object'', JStr (tf_object w)), (''relation'', JStr (tf_relation w)),
     (''subjectNamespace'', JStr (tf_subjectNamespace w)), (''subjectId'', JStr (tf_subjectId w)),
     (''subjectRelation'', opt_text (tf_subjectRelation w)), (''caveatName'', opt_text (tf_caveatName w))]"

definition create_tuple :: "('w tuple_form_scheme, unit) js" where
  "create_tuple = bnd (asks (\<lambda>w. (tuple_vars w,
       tf_namespace w = [] \<or> tf_object w = [] \<or> tf_relation w = [] \<or> tf_subjectNamespace w = [] \<or> tf_subjectId w = []))) (\<lambda>(vars, missing).
     if missing then ret () else mutation
       (useApiMutation_fn (\<lambda>v. fetchAndParse ''/api/permissions'' writeTuplesResponseSchema (json_options ''POST'' v))
         (MessageOf (\<lambda>_. ''Tuple created successfully.''))
         (\<lambda>_ _. modify (\<lambda>w. (invalidate [''nexus-tuples''] w)\<lparr>tf_open := False, tf_object := [], tf_subjectId := []\<rparr>)) None vars)
       (\<lambda>_. ret ()) (\<lambda>_. ret ()))"

section \<open>nexus/tuple-grid.tsx and nexus/page.tsx\<close>

record grid_world = pworld +
  gr_addOpen :: bool
  gr_importOpen :: bool
  gr_text :: string
  gr_csv :: bool  \<comment> \<open>the format is csv, not json\<close>
  gr_importing :: bool

type_synonym ('w, 'a) gract = "('w grid_world_scheme, 'a) js"

definition filteredTuples :: "string \<Rightarrow> jsval list \<Rightarrow> jsval list" where
  "filteredTuples ns tuples = (if ns = ''all'' then tuples else filter (\<lambda>t. member t ''objectType'' = JStr ns) tuples)"

definition uniqueNamespaces :: "jsval list \<Rightarrow> jsval list" where
  "uniqueNamespaces tuples = rev (remdups (rev (filter truthy (map (\<lambda>t. member t ''objectType'') tuples))))"

definition tuple_data :: "jsval \<Rightarrow> jsval \<Rightarrow> jsval \<Rightarrow> jsval \<Rightarrow> jsval \<Rightarrow> jsval \<Rightarrow> jsval" where
  "tuple_data ot oi r st si sr = JObj [(''objectType'', ot), (''objectId'', oi), (''relation'', r), (''subjectType'', st), (''subjectId'', si),
     (''subjectRelation'', sr)]"

definition json_tuple :: "jsval \<Rightarrow> jsval res" where
  "json_tuple item = map_sum id (\<lambda>ot. let field = (\<lambda>k k' d. js_or (js_or (member item k) (member item k')) (JStr d))
     in tuple_data (js_or (js_or ot (member item ''namespace'')) (JStr [])) (field ''objectId'' ''object'' [])
          (js_or (member item ''relation'') (JStr []))
          (field ''subjectType'' ''subject_namespace'' ''user'') (field ''subjectId'' ''subject_id'' [])
          (field ''subjectRelation'' ''subject_relation'' [])) (get_prop item ''objectType'')"

definition csv_tuple :: "string \<Rightarrow> jsval option" where
  "csv_tuple line = (let parts = map trim (split_on CHR '','' line) in
     if length parts \<ge> 5 then Some (tuple_data (JStr (parts ! 0)) (JStr (parts ! 1)) (JStr (parts ! 2)) (JStr (parts ! 3)) (JStr (parts ! 4))
       (JStr (if length parts > 5 then parts ! 5 else []))) else None)"

definition parse_import :: "bool \<Rightarrow> 'w grid_world_scheme \<Rightarrow> string \<Rightarrow> jsval list res" where
  "parse_import csv w t = (if csv then Inr (List.map_filter csv_tuple (split_on CHR 0x0A (trim t)))
     else case json_parse_js w t of Inl e \<Rightarrow> Inl e
     | Inr raw \<Rightarrow> map_res json_tuple (if is_arr raw then elems raw else [raw]))"

definition handleBulkImport :: "(jsval \<Rightarrow> ('w, unit) gract) \<Rightarrow> ('w, unit) gract" where
  "handleBulkImport onAdd = bnd (asks (\<lambda>w. (gr_text w, parse_import (gr_csv w) w (gr_text w)))) (\<lambda>(t, rows).
     if trim t = [] then ret () else
     bnd (modify (\<lambda>w. w\<lparr>gr_importing := True\<rparr>)) (\<lambda>_. try_finally
       (bnd (lift rows) (\<lambda>parsed. bnd (map_m onAdd parsed) (\<lambda>_. modify (\<lambda>w. w\<lparr>gr_text := [], gr_importOpen := False\<rparr>))))
       (\<lambda>_. ret ()) (\<lambda>w. w\<lparr>gr_importing := False\<rparr>)))"

text \<open>The hooks of hooks/use-nexus.ts and the callbacks page.tsx gives to the grid, the editor and the simulator.\<close>

definition nexus_onAdd :: "jsval \<Rightarrow> ('w, unit) pact" where
  "nexus_onAdd d = bnd (addTuple d) (\<lambda>_. modify (\<lambda>w. toast_plain ''success'' (''Added tuple '' @ to_str (member d ''relation''))
     (invalidate [''nexus'', ''tuples''] w)))"

definition nexus_onDelete :: "string list \<Rightarrow> ('w, unit) pact" where
  "nexus_onDelete idents = bnd (nexus_deleteTuples idents) (\<lambda>_. modify (\<lambda>w. toast_plain ''success''
     (''Deleted '' @ show_nat (length idents) @ '' tuples'') (invalidate [''nexus'', ''tuples''] w)))"

definition nexus_addSubmit :: "jsval \<Rightarrow> ('w, unit) gract" where
  "nexus_addSubmit d = bnd (nexus_onAdd d) (\<lambda>_. modify (\<lambda>w. w\<lparr>gr_addOpen := False\<rparr>))"

section \<open>nexus/check-simulator.tsx, schema-editor.tsx, caveat-registry.tsx\<close>

record sim_world = pworld +
  si_subject :: string
  si_relation :: string
  si_object :: string
  si_context :: string
  si_checking :: bool
  si_result :: jsval

definition sim_context :: "'w sim_world_scheme \<Rightarrow> jsval res" where
  "sim_context w = (if trim (si_context w) = [] then Inr JUndef else json_parse_js w (si_context w))"

definition sim_query :: "'w sim_world_scheme \<Rightarrow> jsval \<Rightarrow> jsval" where
  "sim_query w ctx = JObj [(''subject'', JStr (si_subject w)), (''relation'', JStr (si_relation w)), (''object'', JStr (si_object w)), (''context'', ctx)]"

definition simulator_check :: "('w sim_world_scheme, unit) js" where
  "simulator_check = bnd (asks (\<lambda>w. (sim_context w, sim_query w))) (\<lambda>(ctx, query).
     bnd (modify (\<lambda>w. w\<lparr>si_checking := True, si_result := JNull\<rparr>)) (\<lambda>_. try_finally
       (bnd (lift ctx) (\<lambda>c. bnd (checkAccess (query c)) (\<lambda>res. modify (\<lambda>w. w\<lparr>si_result := res\<rparr>))))
       (\<lambda>_. ret ()) (\<lambda>w. w\<lparr>si_checking := False\<rparr>)))"

record editor_world = pworld +
  ed_schema :: jsval  \<comment> \<open>the cached answer of the schema query\<close>
  ed_current :: string
  ed_editing :: bool
  ed_saving :: bool

text \<open>The \<open>schema\<close> the page passes to the editor.\<close>

definition schema_prop :: "'w editor_world_scheme \<Rightarrow> string" where
  "schema_prop w = to_str (js_or (ed_schema w) (JStr []))"

definition editor_sync :: "'w editor_world_scheme \<Rightarrow> 'w editor_world_scheme" where
  "editor_sync w = (if \<not> ed_editing w then w\<lparr>ed_current := schema_prop w\<rparr> else w)"

text \<open>The query library keeps the cached value when it is set to \<open>undefined\<close>.\<close>

definition saveSchema :: "string \<Rightarrow> ('w editor_world_scheme, unit) js" where
  "saveSchema s = bnd (updateSchema s) (\<lambda>new. modify (\<lambda>w. toast_plain ''success'' ''Schema validated and updated successfully.''
     (w\<lparr>ed_schema := js_default new (ed_schema w)\<rparr>)))"

definition editor_save :: "('w editor_world_scheme, unit) js" where
  "editor_save = bnd (asks ed_current) (\<lambda>current. bnd (modify (\<lambda>w. w\<lparr>ed_saving := True\<rparr>)) (\<lambda>_. try_finally
     (bnd (saveSchema current) (\<lambda>_. modify (\<lambda>w. w\<lparr>ed_editing := False\<rparr>))) (\<lambda>_. ret ()) (\<lambda>w. w\<lparr>ed_saving := False\<rparr>)))"

definition editor_cancel :: "'w editor_world_scheme \<Rightarrow> 'w editor_world_scheme" where
  "editor_cancel w = w\<lparr>ed_editing := False, ed_current := schema_prop w\<rparr>"

record caveat_world = pworld +
  cv_open :: bool
  cv_name :: string
  cv_expression :: string
  cv_error :: "string option"

text \<open>\<open>if (!res.ok) throw new Error(res.error.message || msg)\<close> for a result of the client.\<close>

definition api_or_throw :: "string \<Rightarrow> api_result \<Rightarrow> ('w, jsval) js" where
  "api_or_throw msg r = (case r of Inl e \<Rightarrow> fail_msg (str_or (ae_message e) msg) | Inr d \<Rightarrow> ret d)"

definition fetch_caveats :: "('w, jsval) bact" where
  "fetch_caveats = bnd (fetchAndParse ''/api/nexus/caveats'' caveatListSchema no_options) (api_or_throw ''Failed to load caveats'')"

definition caveat_created :: "('w caveat_world_scheme, unit) js" where
  "caveat_created = modify (\<lambda>w. (invalidate [''nexus-caveats''] w)\<lparr>cv_open := False, cv_name := [], cv_expression := [], cv_error := None\<rparr>)"

definition create_caveat :: "('w caveat_world_scheme, unit) js" where
  "create_caveat = bnd (asks (\<lambda>w. (trim (cv_name w), trim (cv_expression w)))) (\<lambda>(name, expr).
     if name = [] \<or> expr = [] then ret () else mutation
       (bnd (fetchAndParse ''/api/nexus/caveats'' nexus_caveatSchema
           (json_options ''POST'' (JObj [(''name'', JStr name), (''cel_expression'', JStr expr)]))) (api_or_throw ''Failed to create caveat''))
       (\<lambda>_. caveat_created) (\<lambda>err. modify (\<lambda>w. w\<lparr>cv_error := Some (err_message err [])\<rparr>)))"

text \<open>\<open>if (!res.ok) throw new Error(body.error || msg)\<close>, a body that is no JSON counting as \<open>{}\<close>.\<close>

definition unless_refused :: "string \<Rightarrow> http_response \<Rightarrow> ('w, unit) act" where
  "unless_refused msg res = (if rs_ok res then ret () else
     bnd (settle (response_json res)) (\<lambda>r. bnd (lift (get_prop (case r of Inl _ \<Rightarrow> JObj [] | Inr d \<Rightarrow> d) ''error'')) (\<lambda>e.
     fail_msg (to_str (js_or e (JStr msg))))))"

definition delete_caveat :: "string \<Rightarrow> ('w, unit) pact" where
  "delete_caveat name = mutation
     (bnd (fetch (delete_request (''/api/nexus/caveats?name='' @ encode_uri_component name))) (unless_refused ''Failed to delete caveat''))
     (\<lambda>_. modify (invalidate [''nexus-caveats''])) (\<lambda>_. ret ())"

section \<open>nexus/relationship-graph.tsx\<close>

record graph_node =
  gn_ident :: string
  gn_type :: string
  gn_label :: string
  gn_relations :: "(string \<times> string \<times> string) list"  \<comment> \<open>relation, target, type of the target\<close>

definition mock_node :: "string \<Rightarrow> string \<Rightarrow> (string \<times> string \<times> string) list \<Rightarrow> string \<times> graph_node" where
  "mock_node i t rs = (i, \<lparr>gn_ident = i, gn_type = t, gn_label = i, gn_relations = rs\<rparr>)"

definition mock_nodes :: "(string \<times> graph_node) list" where
  "mock_nodes = [
     mock_node ''document:doc_123'' ''document'' [(''viewer'', ''user:alice'', ''user''), (''editor'', ''user:bob'', ''user''),
       (''parent'', ''organization:org_1'', ''organization'')],
     mock_node ''organization:org_1'' ''organization'' [(''member'', ''group:devs'', ''group''), (''admin'', ''user:charlie'', ''user'')],
     mock_node ''group:devs'' ''group'' [(''member'', ''user:alice'', ''user''), (''member'', ''user:dave'', ''user'')],
     mock_node ''user:alice'' ''user'' [],
     mock_node ''user:bob'' ''user'' [],
     mock_node ''user:charlie'' ''user'' [],
     mock_node ''user:dave'' ''user'' []]"

record graph_view =
  gv_target :: string
  gv_nodes :: "(string \<times> graph_node) list"
  gv_selected :: "string option"

definition currentNode :: "graph_view \<Rightarrow> graph_node option" where
  "currentNode v = (case map_of (gv_nodes v) (case gv_selected v of Some s \<Rightarrow> s | None \<Rightarrow> []) of
     Some n \<Rightarrow> Some n | None \<Rightarrow> map_of (gv_nodes v) ''document:doc_123'')"

text \<open>The names of \<open>Object.prototype\<close> also count as nodes in the source; the search is for other names.\<close>

definition graph_search :: "graph_view \<Rightarrow> graph_view" where
  "graph_search v = (let t = gv_target v in
     if map_of (gv_nodes v) t \<noteq> None then v\<lparr>gv_selected := Some t\<rparr>
     else v\<lparr>gv_nodes := al_set t \<lparr>gn_ident = t, gn_type = str_or (hd (split_on CHR '':'' t)) ''resource'', gn_label = t, gn_relations = []\<rparr> (gv_nodes v),
            gv_selected := Some t\<rparr>)"

section \<open>The simulated check\<close>

lemma read_result_sent: "w_sent (snd (read_result url res w)) = w_sent w"
  by (auto simp: run_read_result split: sum.split)

lemma quiet_read_result [same_rules]: "quiet (read_result url res)"
  by (rule keepsI) (simp add: unchanged_def read_result_sent)

lemma quiet_parse [same_rules]: "quiet (parseWithSchema s v)"
  unfolding parseWithSchema_def by (intro same_rules)

lemma fetch_and_parse_sent:
  "with_csrf w (fo_verb opts) (headers_of [] (fo_headers opts)) = Inr hs \<Longrightarrow>
    w_sent (snd (fetchAndParse url schema opts w)) = w_sent w @ [fetched url opts hs]"
  unfolding fetchAndParse_def
  by (subst sent_bnd_quiet)
    (auto intro!: same_rules simp: run_fetchJSON read_result_sent log_request_def split: sum.split)

lemma quiet_check_answered [same_rules]: "quiet (check_answered tr latency d vars)"
  unfolding check_answered_def by (intro same_rules) simp

lemma toast_api_sent [simp]: "w_sent (toastApiError e f w) = w_sent w" "w_sent (success_toast m d w) = w_sent w"
  by (auto simp: toastApiError_def success_toast_def toastSuccess_def split: success_message.split list.split)

lemma api_mutation_sent:
  assumes "\<And>d v. quiet (cb d v)"
  shows "w_sent (snd (useApiMutation_fn f msg cb fix_text vars w)) = w_sent (snd (f vars w))"
  unfolding useApiMutation_fn_def by (rule sent_bnd_quiet) (auto intro!: same_rules assms)

definition check_request_fields :: "'w perm_world_scheme \<Rightarrow> jsval \<Rightarrow> (string \<times> string) list \<Rightarrow> http_request" where
  "check_request_fields w context hs = fetched ''/api/permissions/check'' (check_options (check_vars w context)) hs"

lemma simulate_sends:
  assumes "with_csrf w ''POST'' (headers_of [] json_type) = Inr hs"
  shows "sends w (permissions_simulate tr latency) = [check_request_fields w (parsed_context (pm_context w)) hs]"
proof -
  have "with_csrf w (fo_verb (check_options v)) (headers_of [] (fo_headers (check_options v))) = Inr hs" for v
    using assms by (simp add: check_options_def json_options_def fo_verb_def)
  then have "w_sent (snd (fetchAndParse u s (check_options v) w)) = w_sent w @ [fetched u (check_options v) hs]" for u s v
    by (rule fetch_and_parse_sent)
  then show ?thesis
    unfolding sends_def permissions_simulate_def run_asks
    by (subst sent_mutation)
      (auto simp: check_failed_def sent_bnd_quiet same.k_ret quiet_check_answered api_mutation_sent check_request_fields_def intro!: same_rules)
qed

lemma with_csrf_cong: "b_window v = b_window w \<Longrightarrow> b_jar v = b_jar w \<Longrightarrow> with_csrf v = with_csrf w"
  by (intro ext) (simp add: with_csrf_def getCsrfToken_def)

text \<open>
  A check is not made under the conditions typed in when they are not JSON: the comment leaves reporting the error to the engine, but the
  request then carries no context at all and is the one of an empty field.
\<close>

theorem malformed_context_dropped:
  assumes "json_parse (pm_context w) = None" "with_csrf w ''POST'' (headers_of [] json_type) = Inr hs"
  shows "sends w (permissions_simulate tr latency) = sends (w\<lparr>pm_context := []\<rparr>) (permissions_simulate tr latency) \<and>
    sends w (permissions_simulate tr latency) = [json_send ''POST'' ''/api/permissions/check'' (JObj [(''namespace'', JStr (pm_namespace w)),
      (''object'', JStr (pm_object w)), (''relation'', JStr (pm_relation w)), (''subjectId'', JStr (pm_subject w))])\<lparr>rq_headers := hs\<rparr>]"
proof -
  have c: "parsed_context (pm_context w) = JUndef" "parsed_context [] = JUndef" using assms(1) by (simp_all add: parsed_context_def)
  have h: "with_csrf (w\<lparr>pm_context := []\<rparr>) ''POST'' (headers_of [] json_type) = Inr hs"
    using assms(2) with_csrf_cong [of "w\<lparr>pm_context := []\<rparr>" w] by simp
  show ?thesis
    using simulate_sends [OF assms(2), of tr latency] simulate_sends [OF h, of tr latency]
    by (simp add: c check_request_fields_def check_vars_def check_options_def json_options_def fetched_def json_send_def fo_verb_def
        json_body_def)
qed

text \<open>
  The simulator fails closed: it always shows a result, and one that allows only when the request was answered with success and data of the
  schema whose \<open>allowed\<close> is true.
\<close>

theorem simulate_fails_closed:
  "\<exists>r. pm_result (snd (permissions_simulate tr latency w)) = Some r \<and>
    (cr_allowed r \<longrightarrow> (\<exists>d w1. fetchAndParse ''/api/permissions/check'' checkResponseSchema
        (check_options (check_vars w (parsed_context (pm_context w)))) w = (Inr (Inr d), w1) \<and> truthy (member d ''allowed'')))"
proof (cases "fetchAndParse ''/api/permissions/check'' checkResponseSchema (check_options (check_vars w (parsed_context (pm_context w)))) w")
  case (Pair r w1)
  show ?thesis
  proof (cases r)
    case (Inl e)
    then show ?thesis using Pair
      by (simp add: permissions_simulate_def asks_def mutation_def settle_def bnd_def useApiMutation_fn_def check_failed_def modify_def ret_def)
  next
    case (Inr a)
    then show ?thesis using Pair
      by (cases a) (auto simp: permissions_simulate_def asks_def mutation_def settle_def bnd_def useApiMutation_fn_def check_failed_def modify_def
          ret_def throw_def lift_def success_toast_def check_answered_def get_prop_def split: sum.split if_splits)
  qed
qed

definition example_perm :: "string \<Rightarrow> (http_request list \<Rightarrow> exn + http_response) \<Rightarrow> perm_world" where
  "example_perm ctx up = pworld.extend (bworld.extend (example_browser ''/permissions'' [] up) \<lparr>p_files = [], p_confirm = (\<lambda>_. True), p_stale = []\<rparr>)
     \<lparr>pm_namespace = ''document'', pm_object = ''d'', pm_relation = ''viewer'', pm_subject = ''alice'', pm_context = ctx, pm_result = None\<rparr>"

theorem malformed_context_dropped_witness:
  "sends (example_perm ''{'' (\<lambda>_. ok_text ''{}'')) (permissions_simulate (\<lambda>k _. k) JUndef) =
    sends (example_perm [] (\<lambda>_. ok_text ''{}'')) (permissions_simulate (\<lambda>k _. k) JUndef)"
proof -
  let ?w = "example_perm ''{'' (\<lambda>_. ok_text ''{}'')"
  have ctx: "pm_context ?w = ''{''" "?w\<lparr>pm_context := []\<rparr> = example_perm [] (\<lambda>_. ok_text ''{}'')"
    by (simp_all add: example_perm_def pworld.defs)
  have bad: "json_parse ''{'' = None" by code_simp
  have jar: "b_window ?w" "b_jar ?w = []"
    by (simp_all add: example_perm_def pworld.defs bworld.defs example_browser_def world.defs)
  then have "getCsrfToken ?w = Inr None" by (simp add: getCsrfToken_def)
  then have "with_csrf ?w ''POST'' (headers_of [] json_type) = Inr (headers_of [] json_type)"
    by (simp add: with_csrf_def)
  then show ?thesis using malformed_context_dropped [of ?w] bad by (simp add: ctx)
qed

section \<open>The bulk import of tuples\<close>

text \<open>
  The row number \<open>j\<close> is accepted when the network, after the rows before it, answers it with success and a body that is JSON.
\<close>

abbreviation add_request :: "jsval \<Rightarrow> http_request" where
  "add_request \<equiv> json_send ''POST'' ''/api/nexus/tuples''"

definition row_accepted :: "'w world_scheme \<Rightarrow> jsval list \<Rightarrow> nat \<Rightarrow> bool" where
  "row_accepted w ts j \<longleftrightarrow> (\<exists>res t v. w_upstream w (w_sent w @ map add_request (take (Suc j) ts)) = Inr res \<and> rs_ok res \<and>
     rs_text res = Inr t \<and> json_parse t = Some v)"

lemma on_add_step:
  assumes "nexus_onAdd t w = (r, w')"
  shows "w_sent w' = w_sent w @ [add_request t] \<and> w_upstream w' = w_upstream w \<and> (r = Inr () \<longleftrightarrow> row_accepted w (t # ts) 0)"
  using assms
  by (auto simp: nexus_onAdd_def addTuple_def ok_json_def bnd_def fetch_def Let_def row_accepted_def response_json_def json_parse_js_def throw_def
      modify_def toast_plain_def invalidate_def split: sum.splits if_splits option.splits)

lemma row_accepted_Suc:
  "w_sent w1 = w_sent w @ [add_request t] \<Longrightarrow> w_upstream w1 = w_upstream w \<Longrightarrow> row_accepted w1 ts j = row_accepted w (t # ts) (Suc j)"
  by (simp add: row_accepted_def)

lemma add_all_exact:
  "map_m nexus_onAdd ts w = (r, w') \<Longrightarrow>
    ((\<forall>j < length ts. row_accepted w ts j) \<longrightarrow> (\<exists>xs. r = Inr xs) \<and> w_sent w' = w_sent w @ map add_request ts) \<and>
    (\<forall>k < length ts. \<not> row_accepted w ts k \<longrightarrow> (\<forall>j < k. row_accepted w ts j) \<longrightarrow>
       (\<exists>e. r = Inl e) \<and> w_sent w' = w_sent w @ map add_request (take (Suc k) ts))"
proof (induction ts arbitrary: w r w')
  case Nil
  then show ?case by (auto simp: ret_def)
next
  case (Cons t ts)
  obtain r1 w1 where one: "nexus_onAdd t w = (r1, w1)" by (cases "nexus_onAdd t w")
  note step = on_add_step [OF one, of ts]
  show ?case
  proof (cases r1)
    case (Inl e)
    then have "w' = w1 \<and> r = Inl e" "\<not> row_accepted w (t # ts) 0" using Cons.prems one step by (simp_all add: bnd_def)
    then show ?thesis using step by (auto simp: All_less_Suc2 less_Suc_eq_0_disj)
  next
    case (Inr u)
    obtain r2 w2 where rest: "map_m nexus_onAdd ts w1 = (r2, w2)" by (cases "map_m nexus_onAdd ts w1")
    have w': "w' = w2" "(\<exists>xs. r = Inr xs) = (\<exists>ys. r2 = Inr ys)" "(\<exists>e. r = Inl e) = (\<exists>e. r2 = Inl e)"
      using Cons.prems one rest Inr by (auto simp: bnd_def ret_def split: sum.splits)
    have acc: "row_accepted w1 ts j = row_accepted w (t # ts) (Suc j)" for j
      using step by (intro row_accepted_Suc) auto
    have "row_accepted w (t # ts) 0" using step Inr by simp
    then show ?thesis using Cons.IH [OF rest] step unfolding w' acc
      by (auto simp: All_less_Suc2 less_Suc_eq_0_disj)
  qed
qed

text \<open>
  C37. The bulk import is no transaction. When every row is accepted, one request per row is sent, in their order, the text is cleared and the dialog closed.
  Otherwise the requests sent are exactly those of the rows up to and with the first that is refused: the rows before it stay added, those behind it are
  not tried, and the text, with all its rows, stays in the open dialog.
\<close>

theorem bulk_import_prefix:
  assumes "parse_import (gr_csv w) w (gr_text w) = Inr ts" "trim (gr_text w) \<noteq> []"
  defines "w' \<equiv> snd (handleBulkImport nexus_onAdd w)"
  shows "((\<forall>j < length ts. row_accepted w ts j) \<longrightarrow>
      w_sent w' = w_sent w @ map (json_send ''POST'' ''/api/nexus/tuples'') ts \<and> gr_text w' = [] \<and> \<not> gr_importOpen w') \<and>
    (\<forall>k < length ts. \<not> row_accepted w ts k \<longrightarrow> (\<forall>j < k. row_accepted w ts j) \<longrightarrow>
      w_sent w' = w_sent w @ map (json_send ''POST'' ''/api/nexus/tuples'') (take (Suc k) ts) \<and>
      gr_text w' = gr_text w \<and> gr_importOpen w' = gr_importOpen w) \<and>
    \<not> gr_importing w'"
proof -
  let ?v = "w\<lparr>gr_importing := True\<rparr>"
  obtain r w1 where run1: "map_m nexus_onAdd ts ?v = (r, w1)" by (cases "map_m nexus_onAdd ts ?v")
  have kept: "gr_text w1 = gr_text w" "gr_importOpen w1 = gr_importOpen w"
  proof -
    have "keeps (unchanged gr_text) (map_m nexus_onAdd ts)" "keeps (unchanged gr_importOpen) (map_m nexus_onAdd ts)"
      unfolding nexus_onAdd_def addTuple_def ok_json_def
      by (intro same.k_map_m same_rules; auto simp: toast_plain_def invalidate_def)+
    then show "gr_text w1 = gr_text w" "gr_importOpen w1 = gr_importOpen w"
      using sameD [of gr_text "map_m nexus_onAdd ts" ?v] sameD [of gr_importOpen "map_m nexus_onAdd ts" ?v] run1 by simp_all
  qed
  have w': "w' = (case r of Inl _ \<Rightarrow> w1\<lparr>gr_importing := False\<rparr> | Inr _ \<Rightarrow> w1\<lparr>gr_text := [], gr_importOpen := False, gr_importing := False\<rparr>)"
    using assms(1,2) run1
    by (simp add: w'_def handleBulkImport_def asks_def bnd_def modify_def try_finally_def try_catch_def settle_def lift_def ret_def split: sum.split)
  have acc: "row_accepted ?v ts = row_accepted w ts" by (simp add: row_accepted_def fun_eq_iff)
  show ?thesis using add_all_exact [OF run1] unfolding w' acc by (cases r) (auto simp: kept)
qed

definition example_grid :: "(http_request list \<Rightarrow> exn + http_response) \<Rightarrow> string \<Rightarrow> grid_world" where
  "example_grid up t = pworld.extend (bworld.extend (example_browser ''/nexus'' [] up) \<lparr>p_files = [], p_confirm = (\<lambda>_. True), p_stale = []\<rparr>)
     \<lparr>gr_addOpen = False, gr_importOpen = True, gr_text = t, gr_csv = True, gr_importing = False\<rparr>"

lemma example_grid_sel:
  "gr_text (example_grid up t) = t" "gr_csv (example_grid up t)" "w_sent (example_grid up t) = []" "w_upstream (example_grid up t) = up"
  "gr_importOpen (example_grid up t)"
  by (simp_all add: example_grid_def pworld.defs bworld.defs example_browser_def example_world_def world.defs)

text \<open>Three rows, of which the second is refused: the third is not sent.\<close>

theorem bulk_import_prefix_witness:
  "let row = (\<lambda>n. tuple_data (JStr ''doc'') (JStr n) (JStr ''viewer'') (JStr ''user'') (JStr ''a'') (JStr []));
       t = ''doc,1,viewer,user,a'' @ [CHR 0x0A] @ ''doc,2,viewer,user,a'' @ [CHR 0x0A] @ ''doc,3,viewer,user,a'';
       w = example_grid (\<lambda>log. if length log = 1 then ok_text ''null'' else Inl (type_error ''fetch failed'')) t;
       w' = snd (handleBulkImport nexus_onAdd w)
   in w_sent w' = [json_send ''POST'' ''/api/nexus/tuples'' (row ''1''), json_send ''POST'' ''/api/nexus/tuples'' (row ''2'')] \<and>
      gr_text w' = t \<and> gr_importOpen w'"
proof -
  let ?row = "\<lambda>n. tuple_data (JStr ''doc'') (JStr n) (JStr ''viewer'') (JStr ''user'') (JStr ''a'') (JStr [])"
  let ?t = "''doc,1,viewer,user,a'' @ [CHR 0x0A] @ ''doc,2,viewer,user,a'' @ [CHR 0x0A] @ ''doc,3,viewer,user,a''"
  let ?up = "\<lambda>log. if length log = 1 then ok_text ''null'' else Inl (type_error ''fetch failed'')"
  let ?w = "example_grid ?up ?t"
  have p: "parse_import (gr_csv ?w) ?w (gr_text ?w) = Inr [?row ''1'', ?row ''2'', ?row ''3'']"
    by (simp add: example_grid_sel parse_import_def csv_tuple_def trim_def is_space_def List.map_filter_def Let_def)
  have n: "trim (gr_text ?w) \<noteq> []" by (simp add: example_grid_sel trim_def is_space_def)
  have "json_parse ''null'' = Some JNull"
    by (simp add: json_parse_def skip_ws_def is_json_space_def starts_with_def numeral_eq_Suc)
  then have "row_accepted ?w [?row ''1'', ?row ''2'', ?row ''3''] 0" "\<not> row_accepted ?w [?row ''1'', ?row ''2'', ?row ''3''] 1"
    by (simp_all add: row_accepted_def example_grid_sel ok_text_def rs_ok_def)
  then show ?thesis using bulk_import_prefix [OF p n, THEN conjunct2, THEN conjunct1, rule_format, of 1]
    unfolding Let_def by (simp add: example_grid_sel numeral_2_eq_2)
qed

end
