(* ===== verification/PolicyPages.thy ===== *)
theory PolicyPages
  imports Pages SchemasEngines
begin

text \<open>
  The pages about policies: app/policies (the list with its pages, the evaluator, creation and deletion) and the components
  under app/themis (the playground, the table, the dialogs of test suites and of versions). The tenant of app/policies is always
  \<open>default\<close>. Translated texts are a parameter \<open>tr\<close>; timers only delay the validation of an expression.
\<close>

section \<open>policies/page.tsx: the list\<close>

text \<open>The cursors seen, a hole being \<open>undefined\<close>, and the index of the page shown.\<close>

record policies_view =
  pl_search :: string
  pl_pageSize :: int
  pl_cursors :: "jsval list"
  pl_index :: nat

definition entry :: "jsval list \<Rightarrow> nat \<Rightarrow> string" where
  "entry xs i = (if i < length xs then case xs ! i of JStr s \<Rightarrow> s | _ \<Rightarrow> [] else [])"

definition currentCursor :: "policies_view \<Rightarrow> string" where
  "currentCursor v = entry (pl_cursors v) (pl_index v)"

definition put_entry :: "nat \<Rightarrow> jsval \<Rightarrow> jsval list \<Rightarrow> jsval list" where
  "put_entry i x xs = (if i < length xs then xs[i := x] else xs @ replicate (i - length xs) JUndef @ [x])"

definition policies_search :: "string \<Rightarrow> policies_view \<Rightarrow> policies_view" where
  "policies_search q v = v\<lparr>pl_search := q, pl_cursors := [], pl_index := 0\<rparr>"

definition policies_pageSize :: "int \<Rightarrow> policies_view \<Rightarrow> policies_view" where
  "policies_pageSize n v = v\<lparr>pl_pageSize := n, pl_cursors := [], pl_index := 0\<rparr>"

definition policies_next :: "jsval \<Rightarrow> policies_view \<Rightarrow> policies_view" where
  "policies_next raw v = (case next_cursor raw of None \<Rightarrow> v
   | Some c \<Rightarrow> v\<lparr>pl_cursors := put_entry (Suc (pl_index v)) (JStr c) (pl_cursors v), pl_index := Suc (pl_index v)\<rparr>)"

definition policies_previous :: "policies_view \<Rightarrow> policies_view" where
  "policies_previous v = v\<lparr>pl_index := pl_index v - 1\<rparr>"

definition policies_url :: "policies_view \<Rightarrow> string" where
  "policies_url v = (let ps = [(''tenant_id'', ''default''), (''limit'', show_int (pl_pageSize v))];
       ps1 = (if currentCursor v \<noteq> [] then params_append ''cursor'' (currentCursor v) ps else ps);
       ps2 = (if pl_search v \<noteq> [] then params_append ''search'' (pl_search v) ps1 else ps1)
     in ''/api/policies?'' @ params_string ps2)"

definition fetch_policies :: "policies_view \<Rightarrow> ('w, api_result) bact" where
  "fetch_policies v = fetchAndParse (policies_url v) paginatedPolicyListSchema no_options"

lemma entry_put: "entry (put_entry i x xs) j = (if j = i then case x of JStr s \<Rightarrow> s | _ \<Rightarrow> [] else entry xs j)"
  by (auto simp: entry_def put_entry_def nth_append nth_Cons split: nat.split)

definition policy_trail :: "policies_view \<Rightarrow> string list" where
  "policy_trail v = map (entry (pl_cursors v)) [0..<Suc (pl_index v)]"

interpretation policy_pages: cursor_pager policies_next policies_previous policies_pageSize currentCursor policy_trail
    "\<lambda>v. entry (pl_cursors v) 0 = []"
proof unfold_locales
  fix s :: policies_view and a
  show "policy_trail s \<noteq> [] \<and> currentCursor s = last (policy_trail s)"
    by (simp add: policy_trail_def currentCursor_def)
  assume z: "entry (pl_cursors s) 0 = []"
  show "entry (pl_cursors (policies_next a s)) 0 = [] \<and> policy_trail (policies_next a s) = trail_step (NextPage a) (policy_trail s)"
    using z by (auto simp: policies_next_def policy_trail_def entry_put split: option.split)
  show "entry (pl_cursors (policies_previous s)) 0 = [] \<and> policy_trail (policies_previous s) = trail_step PreviousPage (policy_trail s)"
    using z by (cases "pl_index s") (auto simp: policies_previous_def policy_trail_def butlast_append)
  show "entry (pl_cursors (policies_pageSize n s)) 0 = [] \<and> policy_trail (policies_pageSize n s) = trail_step (PageSize n) (policy_trail s)" for n
    by (simp add: policies_pageSize_def policy_trail_def entry_def)
qed

section \<open>policies/page.tsx: the evaluator\<close>

record eval_world = pworld +
  ev_payload :: string
  ev_result :: jsval
  ev_jsonError :: string

definition SAMPLE_EVAL_PAYLOAD :: string where
  "SAMPLE_EVAL_PAYLOAD = json_pretty (JObj [(''request'', JObj [
     (''auth'', JObj [(''claims'', JObj [(''department'', JStr ''finance''), (''role'', JStr ''admin''), (''sub'', JStr ''user_123''), (''mfa'', JBool True)])]),
     (''amount'', jint 1500),
     (''resource'', JObj [(''type'', JStr ''invoice''), (''owner_id'', JStr ''user_123''), (''tenant_id'', JStr ''default'')])])])"

definition eval_vars :: "jsval \<Rightarrow> jsval" where
  "eval_vars payload = JObj [(''tenantId'', JStr ''default''), (''payload'', payload)]"

definition policies_evaluate :: "('w eval_world_scheme, unit) js" where
  "policies_evaluate = bnd (asks (\<lambda>w. json_parse (ev_payload w))) (\<lambda>p. case p of
     None \<Rightarrow> modify (\<lambda>w. w\<lparr>ev_jsonError := ''Invalid JSON in evaluation payload''\<rparr>)
   | Some payload \<Rightarrow> bnd (modify (\<lambda>w. w\<lparr>ev_jsonError := []\<rparr>)) (\<lambda>_. mutation
       (useApiMutation_fn (\<lambda>v. fetchAndParse ''/api/policies/evaluate'' evaluateResponseSchema (json_options ''POST'' v))
         NoMessage (\<lambda>d _. modify (\<lambda>w. w\<lparr>ev_result := d\<rparr>)) None (eval_vars payload))
       (\<lambda>_. ret ()) (\<lambda>_. ret ())))"

definition policies_manifest :: "jsval list \<Rightarrow> 'w pworld_scheme \<Rightarrow> 'w pworld_scheme" where
  "policies_manifest policies w = toast_plain ''success'' ''Downloaded themis-policies-manifest.json''
     (download ''themis-policies-manifest.json'' (json_pretty (JArr policies)) w)"

section \<open>policies/columns.tsx and policy-builder-sheet.tsx\<close>

text \<open>
  The deletion of a policy: its \<open>onError\<close> runs besides the message of the client.
\<close>

definition policy_delete_url :: "string \<Rightarrow> string \<Rightarrow> string" where
  "policy_delete_url ident tenant = ''/api/policies/'' @ ident @ ''?tenant_id='' @ tenant"

definition method_options :: "string \<Rightarrow> fetch_options" where
  "method_options m = \<lparr>fo_method = Some m, fo_headers = [], fo_body = NoBody\<rparr>"

definition policy_delete :: "string \<Rightarrow> string \<Rightarrow> ('w, unit) pact" where
  "policy_delete tenant ident = mutation
     (useApiMutation_fn (\<lambda>_. fetchAndParse (policy_delete_url ident tenant) deletePolicyResponseSchema (method_options ''DELETE''))
       (FixedMessage ''Policy deleted from Themis.'') (\<lambda>_ _. modify (invalidate [''policies'', tenant])) None (JStr ident))
     (\<lambda>_. ret ())
     (\<lambda>_. modify (\<lambda>w. invalidate [''policies'', tenant] (toast_plain ''success'' ''Policy deleted (mocked)'' w)))"

record policy_form = pworld +
  pf_open :: bool
  pf_name :: string
  pf_description :: string
  pf_expression :: string
  pf_priority :: string

text \<open>\<open>Number(priority) || 1\<close>\<close>

definition priority_value :: "string \<Rightarrow> jsval" where
  "priority_value s = js_or (JNum (str_to_num s)) (jint 1)"

definition policy_vars :: "string \<Rightarrow> 'w policy_form_scheme \<Rightarrow> jsval" where
  "policy_vars tenant w = JObj [(''tenantId'', JStr tenant), (''name'', JStr (pf_name w)), (''description'', JStr (pf_description w)),
     (''expression'', JStr (pf_expression w)), (''priority'', priority_value (pf_priority w))]"

definition policy_create :: "(string \<Rightarrow> (string \<times> string) list \<Rightarrow> string) \<Rightarrow> string \<Rightarrow> ('w policy_form_scheme, unit) js" where
  "policy_create tr tenant = bnd (asks (\<lambda>w. (policy_vars tenant w, pf_name w = [] \<or> pf_expression w = []))) (\<lambda>(vars, missing).
     if missing then ret () else mutation
       (useApiMutation_fn (\<lambda>v. fetchAndParse ''/api/policies'' policySchema (json_options ''POST'' (obj_spread v (JObj [(''enabled'', JBool True)]))))
         (MessageOf (\<lambda>d. tr ''themis.successMsg'' [(''name'', to_str (member d ''Name''))]))
         (\<lambda>_ _. modify (\<lambda>w. (invalidate [''policies'', tenant] w)\<lparr>pf_name := [], pf_description := [], pf_open := False\<rparr>))
         (Some ''Fix the CEL expression syntax and try again.'') vars)
       (\<lambda>_. ret ()) (\<lambda>_. ret ()))"

definition policy_template :: "string \<Rightarrow> string \<Rightarrow> 'w policy_form_scheme \<Rightarrow> 'w policy_form_scheme" where
  "policy_template expr templateName w = w\<lparr>pf_expression := expr, pf_name := str_or (pf_name w) templateName\<rparr>"

section \<open>themis/dry-run-playground.tsx\<close>

record dry_world = pworld +
  dr_scratchpad :: bool
  dr_expression :: string
  dr_context :: string
  dr_validation :: jsval
  dr_validating :: bool
  dr_evaluating :: bool
  dr_result :: jsval

definition dry_validate :: "('w dry_world_scheme, unit) js" where
  "dry_validate = bnd (asks (\<lambda>w. (dr_scratchpad w, dr_expression w))) (\<lambda>(scratch, expr).
     if \<not> scratch \<or> trim expr = [] then modify (\<lambda>w. w\<lparr>dr_validation := JNull\<rparr>)
     else bnd (modify (\<lambda>w. w\<lparr>dr_validating := True\<rparr>)) (\<lambda>_. try_finally
       (bnd (fetch (json_send ''POST'' ''/api/themis/validate'' (JObj [(''expression'', JStr expr)]))) (\<lambda>res.
          if rs_ok res then bnd (response_json res) (\<lambda>d. modify (\<lambda>w. w\<lparr>dr_validation := d\<rparr>)) else ret ()))
       (\<lambda>_. ret ()) (\<lambda>w. w\<lparr>dr_validating := False\<rparr>)))"

definition dry_body :: "bool \<Rightarrow> string \<Rightarrow> jsval \<Rightarrow> jsval" where
  "dry_body scratch expr context = JObj ((''context'', context) # (if scratch then [(''expression'', JStr expr)] else []))"

definition dry_result :: "jsval \<Rightarrow> jsval" where
  "dry_result d = JObj [(''status'', member d ''result''), (''matchedPolicy'', member d ''matchedPolicy''),
     (''trace'', js_or (member d ''results'') (JArr []))]"

definition error_text :: "exn \<Rightarrow> string" where
  "error_text err = (case err of Error _ m \<Rightarrow> m | Thrown v \<Rightarrow> to_str v)"

definition dry_evaluate :: "('w dry_world_scheme, unit) js" where
  "dry_evaluate = bnd (asks (\<lambda>w. (dr_scratchpad w, dr_expression w, json_parse (dr_context w)))) (\<lambda>(scratch, expr, ctx).
     bnd (modify (\<lambda>w. w\<lparr>dr_evaluating := True, dr_result := JNull\<rparr>)) (\<lambda>_. try_finally
       (case ctx of None \<Rightarrow> fail_msg ''Invalid JSON in context payload''
        | Some context \<Rightarrow> bnd (fetch (json_send ''POST'' ''/api/themis/eval'' (dry_body scratch expr context))) (\<lambda>res.
            bnd (checked_answer ''Evaluation failed'' res) (\<lambda>d. bnd (lift (get_prop d ''result'')) (\<lambda>_.
            modify (\<lambda>w. w\<lparr>dr_result := dry_result d\<rparr>)))))
       (\<lambda>err. modify (toast_plain ''error'' (error_text err))) (\<lambda>w. w\<lparr>dr_evaluating := False\<rparr>)))"

definition preset_context :: "string \<Rightarrow> bool \<Rightarrow> string \<Rightarrow> string \<Rightarrow> jsval" where
  "preset_context role mfa action resource = JObj [(''request'', JObj [(''auth'', JObj [(''role'', JStr role), (''mfa'', JBool mfa)]),
     (''action'', JStr action), (''resource'', JStr resource)])]"

definition dry_preset :: "string \<Rightarrow> 'w dry_world_scheme \<Rightarrow> 'w dry_world_scheme" where
  "dry_preset name w =
     (if name = ''admin_mfa'' then w\<lparr>dr_context := json_pretty (preset_context ''admin'' True ''delete'' ''database_cluster'')\<rparr>
      else if name = ''standard_user'' then w\<lparr>dr_context := json_pretty (preset_context ''user'' False ''read'' ''dashboard'')\<rparr> else w)"

section \<open>themis/policies-table.tsx and policy-builder-sheet.tsx\<close>

definition ok_or :: "string \<Rightarrow> http_response \<Rightarrow> ('w, jsval) act" where
  "ok_or msg res = (if \<not> rs_ok res then fail_msg msg else response_json res)"

definition fetch_themis_policies :: "('w, jsval) pact" where
  "fetch_themis_policies = bnd (fetch (get_request ''/api/themis/policies'')) (ok_or ''Failed to fetch policies'')"

definition toggle_policy :: "string \<Rightarrow> bool \<Rightarrow> ('w, unit) pact" where
  "toggle_policy ident enabled = mutation
     (bnd (fetch (json_send ''PATCH'' (''/api/themis/policies/'' @ ident @ ''/toggle'') (JObj [(''enabled'', JBool enabled)]))) (ok_or ''Failed to toggle policy''))
     (\<lambda>_. modify (invalidate [''themis-policies'']))
     (\<lambda>_. modify (toast_plain ''error'' ''Failed to update policy status''))"

definition delete_themis_policy :: "string \<Rightarrow> ('w, unit) pact" where
  "delete_themis_policy ident = mutation
     (bnd (fetch (delete_request (''/api/themis/policies/'' @ ident))) (ok_or ''Failed to delete policy''))
     (\<lambda>_. modify (\<lambda>w. invalidate [''themis-policies''] (toast_plain ''success'' ''Policy deleted'' w)))
     (\<lambda>_. modify (toast_plain ''error'' ''Failed to delete policy''))"

record themis_form = pworld +
  tm_open :: bool
  tm_name :: string
  tm_priority :: string
  tm_expression :: string

text \<open>\<open>parseInt(priority, 10)\<close>\<close>

definition themis_payload_of :: "'w themis_form_scheme \<Rightarrow> jsval" where
  "themis_payload_of w = JObj [(''name'', JStr (tm_name w)),
     (''priority'', case parse_int (tm_priority w) of Some n \<Rightarrow> jint n | None \<Rightarrow> JNum NaN), (''expression'', JStr (tm_expression w))]"

definition themis_create :: "('w themis_form_scheme, unit) js" where
  "themis_create = bnd (asks themis_payload_of) (\<lambda>payload. mutation
     (bnd (fetch (json_send ''POST'' ''/api/themis/policies'' payload)) (checked_answer ''Failed to create policy''))
     (\<lambda>_. modify (\<lambda>w. (invalidate [''themis-policies''] (toast_plain ''success'' ''Policy created successfully'' w))\<lparr>tm_open := False, tm_name := []\<rparr>))
     (\<lambda>err. modify (toast_plain ''error'' (err_message err []))))"

section \<open>themis/policy-test-suite-dialog.tsx and policy-versions-dialog.tsx\<close>

record suite_world = pworld +
  ts_policy :: string  \<comment> \<open>empty when no policy is chosen\<close>
  ts_fixtures :: "jsval list"
  ts_loading :: bool
  ts_running :: bool
  ts_suite :: jsval
  ts_adding :: bool
  ts_name :: string
  ts_expected :: bool
  ts_payload :: string

type_synonym ('w, 'a) tsact = "('w suite_world_scheme, 'a) js"

definition suite_url :: "string \<Rightarrow> string \<Rightarrow> string" where
  "suite_url p rest = ''/api/themis/policies/'' @ p @ rest"

definition with_policy :: "(string \<Rightarrow> ('w, unit) tsact) \<Rightarrow> ('w, unit) tsact" where
  "with_policy f = bnd (asks ts_policy) (\<lambda>p. if p = [] then ret () else f p)"

definition loadFixtures :: "('w, unit) tsact" where
  "loadFixtures = with_policy (\<lambda>p. bnd (modify (\<lambda>w. w\<lparr>ts_loading := True\<rparr>)) (\<lambda>_. try_finally
     (bnd (fetch (get_request (suite_url p ''/fixtures''))) (\<lambda>res. bnd (ok_or ''Failed to load fixtures'' res) (\<lambda>d.
        modify (\<lambda>w. w\<lparr>ts_fixtures := if is_arr d then elems d else []\<rparr>))))
     (\<lambda>_. modify (toast_plain ''error'' ''Failed to load test fixtures'')) (\<lambda>w. w\<lparr>ts_loading := False\<rparr>)))"

definition open_suite :: "('w, unit) tsact" where
  "open_suite = with_policy (\<lambda>_. bnd loadFixtures (\<lambda>_. modify (\<lambda>w. w\<lparr>ts_suite := JNull, ts_adding := False\<rparr>)))"

text \<open>\<open>if (!res.ok) { const err = await res.json(); throw new Error(err.error || msg) }\<close>\<close>

definition json_refusal :: "string \<Rightarrow> http_response \<Rightarrow> ('w, unit) act" where
  "json_refusal msg res = (if rs_ok res then ret () else bnd (response_json res) (\<lambda>err. bnd (lift (get_prop err ''error'')) (\<lambda>e.
     fail_msg (to_str (js_or e (JStr msg))))))"

definition suite_done :: "jsval \<Rightarrow> ('w, unit) tsact" where
  "suite_done d = bnd (modify (\<lambda>w. w\<lparr>ts_suite := d\<rparr>)) (\<lambda>_. bnd (lift (get_prop d ''all_passed'')) (\<lambda>ok.
     modify (if truthy ok then toast_plain ''success'' (''All '' @ to_str (member d ''total_tests'') @ '' tests passed!'')
       else toast_plain ''error'' (to_str (member d ''failed_tests'') @ '' out of '' @ to_str (member d ''total_tests'') @ '' tests failed.''))))"

definition handleRunSuite :: "('w, unit) tsact" where
  "handleRunSuite = with_policy (\<lambda>p. bnd (modify (\<lambda>w. w\<lparr>ts_running := True\<rparr>)) (\<lambda>_. try_finally
     (bnd (fetch \<lparr>rq_method = ''POST'', rq_url = suite_url p ''/test-suite'', rq_headers = [], rq_body = NoBody\<rparr>) (\<lambda>res.
      bnd (json_refusal ''Failed to execute test suite'' res) (\<lambda>_. bnd (response_json res) suite_done)))
     (toast_error ''Test suite failed'') (\<lambda>w. w\<lparr>ts_running := False\<rparr>)))"

definition handleAddFixture :: "('w, unit) tsact" where
  "handleAddFixture = bnd (asks (\<lambda>w. (ts_policy w, trim (ts_name w), ts_expected w, json_parse (ts_payload w)))) (\<lambda>(p, name, expected, payload).
     if p = [] \<or> name = [] then ret () else case payload of
       None \<Rightarrow> modify (toast_plain ''error'' ''Payload must be valid JSON'')
     | Some v \<Rightarrow> try_catch
         (bnd (fetch (json_send ''POST'' (suite_url p ''/fixtures'') (JObj [(''name'', JStr name), (''expected_result'', JBool expected), (''payload'', v)])))
           (\<lambda>res. if \<not> rs_ok res then fail_msg ''Failed to save fixture'' else
              bnd (modify (\<lambda>w. toast_plain ''success'' ''Test fixture added'' (w\<lparr>ts_name := [], ts_adding := False\<rparr>))) (\<lambda>_. loadFixtures)))
         (\<lambda>_. modify (toast_plain ''error'' ''Failed to create test fixture'')))"

definition handleDeleteFixture :: "string \<Rightarrow> ('w, unit) tsact" where
  "handleDeleteFixture fixtureId = with_policy (\<lambda>p. try_catch
     (bnd (fetch (delete_request (suite_url p (''/fixtures/'' @ fixtureId)))) (\<lambda>res.
        if \<not> rs_ok res then fail_msg ''Failed to delete fixture'' else
          bnd (modify (toast_plain ''success'' ''Fixture removed'')) (\<lambda>_. loadFixtures)))
     (\<lambda>_. modify (toast_plain ''error'' ''Failed to delete test fixture'')))"

record versions_world = pworld +
  vs_policy :: string
  vs_open :: bool
  vs_versions :: jsval
  vs_loading :: bool
  vs_rolling :: "int option"

definition open_versions :: "('w versions_world_scheme, unit) js" where
  "open_versions = bnd (asks (\<lambda>w. (vs_open w, vs_policy w))) (\<lambda>(isOpen, p). if \<not> isOpen \<or> p = [] then ret () else
     bnd (modify (\<lambda>w. w\<lparr>vs_loading := True\<rparr>)) (\<lambda>_. try_finally
       (bnd (fetch (get_request (suite_url p ''/versions''))) (\<lambda>res. bnd (if rs_ok res then response_json res else ret (JArr [])) (\<lambda>d.
          modify (\<lambda>w. w\<lparr>vs_versions := d\<rparr>))))
       (\<lambda>_. modify (toast_plain ''error'' ''Failed to load policy versions'')) (\<lambda>w. w\<lparr>vs_loading := False\<rparr>)))"

definition policy_rollback :: "('w versions_world_scheme, unit) js \<Rightarrow> int \<Rightarrow> ('w versions_world_scheme, unit) js" where
  "policy_rollback on_rolled version = bnd (asks vs_policy) (\<lambda>p. if p = [] then ret () else
     bnd (modify (\<lambda>w. w\<lparr>vs_rolling := Some version\<rparr>)) (\<lambda>_. try_finally
       (bnd (fetch \<lparr>rq_method = ''POST'', rq_url = suite_url p (''/rollback/'' @ show_int version), rq_headers = [], rq_body = NoBody\<rparr>) (\<lambda>res.
        bnd (json_refusal ''Rollback failed'' res) (\<lambda>_.
        bnd (modify (toast_plain ''success'' (''Successfully rolled back to version '' @ show_int version))) (\<lambda>_.
        bnd on_rolled (\<lambda>_. modify (\<lambda>w. w\<lparr>vs_open := False\<rparr>))))))
       (toast_error ''Rollback failed'') (\<lambda>w. w\<lparr>vs_rolling := None\<rparr>)))"

section \<open>A deletion is always reported\<close>

text \<open>
  The deletion of a policy ends in a success on the screen whatever happens: the last message says that the policy was deleted, and when
  the request was refused, failed or had no answer it says so as well, after the error.
\<close>

theorem policy_delete_claims_success:
  "fst (policy_delete tenant ident w) = Inr () \<and>
    (\<exists>msg. last (b_toasts (snd (policy_delete tenant ident w))) = (''success'', msg, None) \<and> starts_with msg ''Policy deleted'') \<and>
    ((\<forall>d w1. fetchAndParse (policy_delete_url ident tenant) deletePolicyResponseSchema (method_options ''DELETE'') w \<noteq> (Inr (Inr d), w1)) \<longrightarrow>
      last (b_toasts (snd (policy_delete tenant ident w))) = (''success'', ''Policy deleted (mocked)'', None))"
proof (cases "fetchAndParse (policy_delete_url ident tenant) deletePolicyResponseSchema (method_options ''DELETE'') w")
  case (Pair r w1)
  then show ?thesis
    by (auto simp: policy_delete_def mutation_def settle_def useApiMutation_fn_def bnd_def modify_def ret_def throw_def success_toast_def
        toastSuccess_def toastApiError_def toast_plain_def invalidate_def starts_with_def split: sum.split)
qed

theorem policy_delete_claims_success_witness:
  "last (b_toasts (snd (policy_delete ''default'' ''p1'' (bworld.extend (example_browser ''/policies'' [] (\<lambda>_. Inl (type_error ''fetch failed'')))
     \<lparr>p_files = [], p_confirm = (\<lambda>_. True), p_stale = []\<rparr>)))) = (''success'', ''Policy deleted (mocked)'', None)"
proof -
  let ?w = "bworld.extend (example_browser ''/policies'' [] (\<lambda>_. Inl (type_error ''fetch failed'')))
     \<lparr>p_files = [], p_confirm = (\<lambda>_. True), p_stale = []\<rparr>"
  have "w_upstream ?w = (\<lambda>_. Inl (type_error ''fetch failed''))"
    by (simp add: example_browser_def example_world_def bworld.defs world.defs)
  then have "fetchAndParse u s opts ?w \<noteq> (Inr (Inr d), w1)" for u s opts d w1
    by (auto simp: fetchAndParse_def bnd_def run_fetchJSON ret_def split: sum.splits)
  then show ?thesis using policy_delete_claims_success [where tenant = "''default''" and ident = "''p1''" and w = ?w] by simp
qed

end
