(* ===== verification/GatewayPages.thy ===== *)
theory GatewayPages
  imports Pages SchemasEngines ShadowDetector
begin

text \<open>
  The pages in front of Aegis and Janus: app/proxy-rules (the ordered list of rules, the wizard of a rule, the versions) and app/oauth2
  (clients, scopes, keys, the token inspector). A rule is the JSON value of its schema; \<open>rule_of\<close> is its part that the shadowing
  check reads. The dash shown for a missing part and translated texts are parameters.
\<close>

section \<open>proxy-rules/page.tsx: the list\<close>

definition handlers_of :: "jsval \<Rightarrow> string \<Rightarrow> string list" where
  "handlers_of r k = map (\<lambda>a. to_str (member a ''handler'')) (elems (member r k))"

definition rule_url :: "jsval \<Rightarrow> string" where
  "rule_url r = to_str (member (member r ''match'') ''url'')"

definition rule_methods :: "jsval \<Rightarrow> string list" where
  "rule_methods r = map to_str (elems (member (member r ''match'') ''methods''))"

definition upstream_url :: "jsval \<Rightarrow> string" where
  "upstream_url r = to_str (member (member r ''upstream'') ''url'')"

definition authorizer_handler :: "jsval \<Rightarrow> jsval" where
  "authorizer_handler r = opt_prop (member r ''authorizer'') ''handler''"

record rule_item =
  ri_id :: jsval
  ri_methods :: jsval
  ri_url :: jsval
  ri_authenticator :: string
  ri_authorizer :: jsval
  ri_mutator :: string
  ri_upstream :: jsval

definition toRuleItem :: "string \<Rightarrow> jsval \<Rightarrow> rule_item" where
  "toRuleItem dash r = \<lparr>ri_id = member r ''id'', ri_methods = member (member r ''match'') ''methods'', ri_url = member (member r ''match'') ''url'',
     ri_authenticator = str_or (join '', '' (handlers_of r ''authenticators'')) dash,
     ri_authorizer = js_or (authorizer_handler r) (JStr dash),
     ri_mutator = str_or (join '', '' (handlers_of r ''mutators'')) dash, ri_upstream = member (member r ''upstream'') ''url''\<rparr>"

definition order_of :: "jsval \<Rightarrow> jnum" where
  "order_of r = to_num (js_coalesce (member r ''order_idx'') (jint 0))"

definition apiRules :: "jsval list \<Rightarrow> jsval list" where
  "apiRules raw = js_sort (\<lambda>a b. num_sub (order_of a) (order_of b)) raw"

definition rule_of :: "jsval \<Rightarrow> rule" where
  "rule_of r = \<lparr>ru_id = to_str (member r ''id''), ru_url = rule_url r, ru_methods = rule_methods r\<rparr>"

definition shadowMap :: "jsval list \<Rightarrow> (string \<times> string) list" where
  "shadowMap rules = foldl (\<lambda>m w. al_set (sw_rule w) (sw_reason w) m) [] (detectShadowedRules (map rule_of rules))"

definition rule_found :: "string \<Rightarrow> jsval \<Rightarrow> bool" where
  "rule_found q r = list_ex (\<lambda>s. str_includes (to_lower s) q)
     ([to_str (member r ''id''), rule_url r] @ rule_methods r @ [upstream_url r] @ handlers_of r ''authenticators'' @
      [to_str (js_or (authorizer_handler r) (JStr []))] @ handlers_of r ''mutators'')"

definition filteredRules :: "string \<Rightarrow> jsval list \<Rightarrow> jsval list" where
  "filteredRules search rules = (if trim search = [] then rules else filter (rule_found (to_lower search)) rules)"

section \<open>proxy-rules/page.tsx: changes\<close>

text \<open>Error texts of the last three mutations: \<open>err instanceof Error ? err.message : msg\<close>.\<close>

definition reorder_rules :: "string list \<Rightarrow> ('w, unit) pact" where
  "reorder_rules idents = mutation
     (bnd (fetch (json_send ''PUT'' ''/api/proxy-rules/reorder'' (JObj [(''ids'', JArr (map JStr idents))]))) (checked_answer ''Failed to reorder rules''))
     (\<lambda>_. modify (\<lambda>w. invalidate [''proxy-rules''] (toast_plain ''success'' ''Rule order updated successfully'' w)))
     (toast_error ''Reorder failed'')"

text \<open>The exchange of a rule with its neighbour, if it has one.\<close>

definition moved :: "nat \<Rightarrow> bool \<Rightarrow> 'a list \<Rightarrow> 'a list option" where
  "moved index up rules = (let target = (if up then int index - 1 else int index + 1) in
     if target < 0 \<or> int (length rules) \<le> target then None
     else Some ((rules[index := rules ! nat target])[nat target := rules ! index]))"

definition moveRule :: "jsval list \<Rightarrow> nat \<Rightarrow> bool \<Rightarrow> ('w, unit) pact" where
  "moveRule rules index up = (case moved index up rules of None \<Rightarrow> ret ()
   | Some newRules \<Rightarrow> reorder_rules (map (\<lambda>r. to_str (member r ''id'')) newRules))"

definition rule_delete :: "string \<Rightarrow> ('w, unit) pact" where
  "rule_delete ident = bnd (asks p_confirm) (\<lambda>confirm.
     if \<not> confirm (''Are you sure you want to delete rule '' @ quoted ident @ ''?'') then ret () else mutation
       (bnd (fetch (delete_request (''/api/proxy-rules/'' @ ident))) (checked_answer ''Failed to delete rule''))
       (\<lambda>_. modify (\<lambda>w. invalidate [''proxy-rules''] (toast_plain ''success'' ''Rule deleted successfully'' w)))
       (toast_error ''Delete failed''))"

record gate_world = pworld +
  ga_tab :: string
  ga_path :: string
  ga_method :: string
  ga_matched :: "rule_item option"
  ga_trace :: jsval

type_synonym ('w, 'a) gact = "('w gate_world_scheme, 'a) js"

definition match_shown :: "string \<Rightarrow> jsval \<Rightarrow> ('w, unit) gact" where
  "match_shown dash d = modify (\<lambda>w. w\<lparr>
     ga_matched := if truthy (member d ''matched'') \<and> truthy (member d ''rule'') then Some (toRuleItem dash (member d ''rule'')) else None,
     ga_trace := js_coalesce (member d ''trace'') JNull\<rparr>)"

definition test_match :: "string \<Rightarrow> string \<Rightarrow> string \<Rightarrow> ('w, unit) gact" where
  "test_match dash m path = mutation
     (useApiMutation_fn (\<lambda>v. fetchAndParse ''/api/proxy-rules/test-match'' testMatchResponseSchema (json_options ''POST'' v))
       NoMessage (\<lambda>d _. match_shown dash d) None (JObj [(''method'', JStr m), (''path'', JStr path)]))
     (\<lambda>_. ret ()) (\<lambda>_. ret ())"

definition handleTestMatch :: "string \<Rightarrow> ('w, unit) gact" where
  "handleTestMatch dash = bnd (asks (\<lambda>w. (ga_method w, ga_path w))) (\<lambda>(m, path). test_match dash m path)"

text \<open>\<open>url.replace(/<.*>/g, "item-123")\<close>: greedy, up to the last bracket of the line.\<close>

definition line_break :: "char \<Rightarrow> bool" where
  "line_break c \<longleftrightarrow> c = CHR 0x0A \<or> c = CHR 0x0D"

definition after_bracket :: "string \<Rightarrow> string option" where
  "after_bracket s = (let line = takeWhile (\<lambda>c. \<not> line_break c) s; tail = takeWhile (\<lambda>c. c \<noteq> CHR ''>'') (rev line)
     in if CHR ''>'' \<in> set line then Some (drop (length line - length tail) s) else None)"

lemma after_bracket_length: "after_bracket s = Some t \<Longrightarrow> length t \<le> length s"
  by (auto simp: after_bracket_def Let_def split: if_splits)

function sample_path :: "string \<Rightarrow> string" where
  "sample_path [] = []"
| "sample_path (c # s) = (case (if c = CHR ''<'' then after_bracket s else None) of
     Some t \<Rightarrow> ''item-123'' @ sample_path t | None \<Rightarrow> c # sample_path s)"
  by pat_completeness auto
termination
  by (relation "measure length") (auto dest!: after_bracket_length split: if_splits)

definition handleQuickSimulate :: "string \<Rightarrow> jsval \<Rightarrow> ('w, unit) gact" where
  "handleQuickSimulate dash r = (let m = (case rule_methods r of (c # s) # _ \<Rightarrow> c # s | _ \<Rightarrow> ''GET''); path = sample_path (rule_url r) in
     bnd (modify (\<lambda>w. w\<lparr>ga_method := m, ga_path := path, ga_tab := ''simulator''\<rparr>)) (\<lambda>_. test_match dash m path))"

definition rules_export :: "jsval list \<Rightarrow> ('w, unit) pact" where
  "rules_export rules = bnd date_now (\<lambda>ms. modify (\<lambda>w. toast_plain ''success'' ''Manifest exported successfully''
     (download (''autorix_aegis_rules_'' @ show_int ms @ ''.json'') (json_pretty (JArr rules)) w)))"

section \<open>proxy-rules/versions-dialog.tsx\<close>

record rollback_world = pworld +
  rl_open :: bool
  rl_selected :: "int option"

definition rules_rollback :: "int \<Rightarrow> ('w rollback_world_scheme, unit) js" where
  "rules_rollback ver = bnd (asks p_confirm) (\<lambda>confirm.
     if \<not> confirm (''Are you sure you want to rollback active rules to version '' @ show_int ver @ ''?'') then ret ()
     else bnd (modify (\<lambda>w. w\<lparr>rl_selected := Some ver\<rparr>)) (\<lambda>_. mutation
       (bnd (fetch \<lparr>rq_method = ''POST'', rq_url = ''/api/proxy-rules/rollback/'' @ show_int ver, rq_headers = [], rq_body = NoBody\<rparr>)
         (checked_answer ''Failed to rollback rules''))
       (\<lambda>d. bnd (lift (get_prop d ''version'')) (\<lambda>v. modify (\<lambda>w. (invalidate [''proxy-rules-versions''] (invalidate [''proxy-rules'']
          (toast_plain ''success'' (''Successfully rolled back to version '' @ to_str (js_or v (jint ver))) w)))\<lparr>rl_selected := None, rl_open := False\<rparr>)))
       (toast_error ''Rollback failed'')))"

section \<open>proxy-rules/rule-builder-sheet.tsx\<close>

definition HTTP_METHODS :: "string list" where
  "HTTP_METHODS = [''GET'', ''POST'', ''PUT'', ''PATCH'', ''DELETE'', ''OPTIONS'', ''HEAD'']"

record rule_form = pworld +
  rb_open :: bool
  rb_step :: int
  rb_id :: string
  rb_description :: string
  rb_url :: string
  rb_methods :: "string list"
  rb_authHandler :: string
  rb_authConfig :: string
  rb_authorizer :: string
  rb_authorizerConfig :: string
  rb_mutator :: string
  rb_mutatorConfig :: string
  rb_upstream :: string
  rb_stripPrefix :: string
  rb_rewrite :: string

definition toggleMethod :: "string \<Rightarrow> 'w rule_form_scheme \<Rightarrow> 'w rule_form_scheme" where
  "toggleMethod m w = w\<lparr>rb_methods := if m \<in> set (rb_methods w) then filter (\<lambda>x. x \<noteq> m) (rb_methods w) else rb_methods w @ [m]\<rparr>"

definition parsed_config :: "string \<Rightarrow> jsval" where
  "parsed_config t = (case json_parse t of Some v \<Rightarrow> v | None \<Rightarrow> JObj [])"

definition handler_part :: "string \<Rightarrow> string \<Rightarrow> jsval" where
  "handler_part h config = JObj [(''handler'', JStr h), (''config'', parsed_config config)]"

definition optional_part :: "string \<Rightarrow> string \<Rightarrow> (string \<times> jsval) list" where
  "optional_part k s = (if trim s = [] then [] else [(k, JStr (trim s))])"

definition previewRule :: "'w rule_form_scheme \<Rightarrow> jsval" where
  "previewRule w = JObj [
     (''id'', JStr (str_or (trim (rb_id w)) ''rule-sample'')),
     (''description'', JStr (trim (rb_description w))),
     (''match'', JObj [(''url'', JStr (str_or (trim (rb_url w)) ''/<.*>'')),
        (''methods'', JArr (map JStr (if rb_methods w \<noteq> [] then rb_methods w else [''GET''])))]),
     (''authenticators'', JArr (if rb_authHandler w \<noteq> ''none'' then [handler_part (rb_authHandler w) (rb_authConfig w)] else [])),
     (''authorizer'', handler_part (rb_authorizer w) (rb_authorizerConfig w)),
     (''mutators'', JArr (if rb_mutator w \<noteq> ''none'' then [handler_part (rb_mutator w) (rb_mutatorConfig w)] else [])),
     (''upstream'', JObj ((''url'', JStr (str_or (trim (rb_upstream w)) ''http://localhost:8080'')) #
        optional_part ''strip_prefix'' (rb_stripPrefix w) @ optional_part ''rewrite'' (rb_rewrite w)))]"

definition rule_reset :: "'w rule_form_scheme \<Rightarrow> 'w rule_form_scheme" where
  "rule_reset w = w\<lparr>rb_step := 1, rb_id := [], rb_description := [], rb_url := ''/api/v1/<.*>'', rb_methods := [''GET'', ''POST''],
     rb_upstream := ''http://backend-service:8080'', rb_stripPrefix := ''/api/v1'', rb_rewrite := []\<rparr>"

definition rule_create :: "('w rule_form_scheme, unit) js \<Rightarrow> string \<Rightarrow> jsval \<Rightarrow> ('w rule_form_scheme, unit) js" where
  "rule_create on_success ruleId r = mutation
     (bnd (fetch (json_send ''POST'' ''/api/proxy-rules'' r)) (checked_answer ''Failed to create proxy rule''))
     (\<lambda>_. bnd (modify (\<lambda>w. rule_reset ((invalidate [''proxy-rules''] (toast_plain ''success'' (''Rule '' @ quoted ruleId @ '' created successfully'') w))
        \<lparr>rb_open := False\<rparr>))) (\<lambda>_. on_success))
     (toast_error ''Error creating rule'')"

definition handleFinish :: "('w rule_form_scheme, unit) js \<Rightarrow> ('w rule_form_scheme, unit) js" where
  "handleFinish on_success = bnd (asks (\<lambda>w. (rb_id w, previewRule w))) (\<lambda>(ruleId, r).
     if trim ruleId = [] then modify (\<lambda>w. (toast_plain ''error'' ''Rule ID is required'' w)\<lparr>rb_step := 1\<rparr>)
     else rule_create on_success ruleId r)"

section \<open>oauth2/page.tsx\<close>

definition nonempty_list :: "jsval \<Rightarrow> jsval \<Rightarrow> jsval" where
  "nonempty_list v d = (if truthy (opt_prop v ''length'') then v else d)"

definition toClientApp :: "(jsval \<Rightarrow> string) \<Rightarrow> jsval \<Rightarrow> jsval" where
  "toClientApp local_date c = JObj [(''id'', member c ''client_id''), (''name'', js_or (member c ''client_name'') (member c ''client_id'')),
     (''grantTypes'', nonempty_list (member c ''grant_types'') (JArr [JStr ''client_credentials''])),
     (''scopes'', nonempty_list (member c ''scopes'') (JArr [JStr ''openid''])),
     (''allowedAudiences'', js_coalesce (member c ''allowed_audiences'') (JArr [])),
     (''isPublic'', js_bool (member c ''is_public'')), (''raw'', c),
     (''createdAt'', JStr (if truthy (member c ''created_at'') then local_date (member c ''created_at'') else ''Recently''))]"

record client_form = pworld +
  oc_id :: string
  oc_name :: string
  oc_secret :: string
  oc_scopes :: string
  oc_audiences :: string
  oc_public :: bool

definition client_vars :: "'w client_form_scheme \<Rightarrow> jsval" where
  "client_vars w = JObj [(''clientId'', JStr (oc_id w)), (''clientName'', JStr (oc_name w)), (''clientSecret'', JStr (oc_secret w)),
     (''isPublic'', JBool (oc_public w)),
     (''scopes'', JArr (map JStr (filter (\<lambda>s. s \<noteq> []) (split_on CHR '' '' (trim (oc_scopes w)))))),
     (''allowedAudiences'', JArr (map JStr (words (oc_audiences w))))]"

definition client_create :: "(string \<Rightarrow> (string \<times> string) list \<Rightarrow> string) \<Rightarrow> ('w client_form_scheme, unit) js" where
  "client_create tr = bnd (asks (\<lambda>w. (oc_id w, oc_id w = [] \<or> oc_name w = [], client_vars w))) (\<lambda>(ident, missing, vars).
     if missing then ret () else mutation
       (useApiMutation_fn (\<lambda>v. fetchAndParse ''/api/oauth2/clients'' oauth2ClientSchema (json_options ''POST'' v))
         (FixedMessage (tr ''oauth2.successMsg'' [(''id'', ident)]))
         (\<lambda>_ _. modify (\<lambda>w. (invalidate [''oauth2-clients''] w)\<lparr>oc_id := [], oc_name := [], oc_secret := [], oc_audiences := []\<rparr>)) None vars)
       (\<lambda>_. ret ()) (\<lambda>_. ret ()))"

definition filteredClients :: "string \<Rightarrow> jsval list \<Rightarrow> jsval list" where
  "filteredClients q clients = filter (\<lambda>c. str_includes (to_lower (to_str (member c ''id''))) (to_lower q) \<or>
     str_includes (to_lower (to_str (member c ''name''))) (to_lower q)) clients"

section \<open>oauth2: scopes, secrets, keys and tokens\<close>

text \<open>\<open>if (!res.ok) throw new Error(res.error.message || msg)\<close> for a result of the client.\<close>

definition result_or_throw :: "string \<Rightarrow> api_result \<Rightarrow> ('w, jsval) js" where
  "result_or_throw msg r = (case r of Inl e \<Rightarrow> fail_msg (str_or (ae_message e) msg) | Inr d \<Rightarrow> ret d)"

definition verb_options :: "string \<Rightarrow> fetch_options" where
  "verb_options m = \<lparr>fo_method = Some m, fo_headers = [], fo_body = NoBody\<rparr>"

record scope_form = pworld +
  sc_open :: bool
  sc_name :: string
  sc_description :: string
  sc_claims :: string
  sc_submitting :: bool
  sc_error :: "string option"

text \<open>\<open>s.split(/[,\s]+/).map(trim).filter(Boolean)\<close>\<close>

definition claim_names :: "string \<Rightarrow> string list" where
  "claim_names s = words (map (\<lambda>c. if c = CHR '','' then CHR '' '' else c) s)"

definition scope_create :: "('w scope_form_scheme, unit) js" where
  "scope_create = bnd (asks (\<lambda>w. (trim (sc_name w), trim (sc_description w), claim_names (sc_claims w)))) (\<lambda>(name, description, claims).
     if name = [] then ret () else
     bnd (modify (\<lambda>w. w\<lparr>sc_submitting := True, sc_error := None\<rparr>)) (\<lambda>_.
     bnd (fetchAndParse ''/api/oauth2/scopes'' oauth2ScopeSchema (json_options ''POST'' (JObj [(''name'', JStr name),
       (''description'', JStr description), (''claims'', JArr (map JStr claims))]))) (\<lambda>res.
     modify (\<lambda>w. let v = w\<lparr>sc_submitting := False\<rparr> in case res of
       Inl e \<Rightarrow> v\<lparr>sc_error := Some (str_or (ae_message e) ''Failed to create scope'')\<rparr>
     | Inr _ \<Rightarrow> invalidate [''oauth2-scopes''] (v\<lparr>sc_name := [], sc_description := [], sc_claims := [], sc_open := False\<rparr>)))))"

definition scope_delete :: "string \<Rightarrow> ('w, unit) pact" where
  "scope_delete name = bnd (asks p_confirm) (\<lambda>confirm.
     if \<not> confirm (''Are you sure you want to delete scope '' @ [CHR 0x22] @ name @ [CHR 0x22] @ ''?'') then ret () else
     bnd (fetchAndParse (''/api/oauth2/scopes/'' @ encode_uri_component name) ZUnknown (verb_options ''DELETE'')) (\<lambda>res.
       case res of Inl _ \<Rightarrow> ret () | Inr _ \<Rightarrow> modify (invalidate [''oauth2-scopes''])))"

record secret_world = pworld +
  cs_client :: "jsval option"
  cs_open :: bool
  cs_overlap :: string
  cs_rotated :: jsval

definition client_url :: "jsval \<Rightarrow> string" where
  "client_url c = ''/api/oauth2/clients/'' @ encode_val (member c ''client_id'')"

definition with_client :: "(jsval \<Rightarrow> ('w secret_world_scheme, jsval) js) \<Rightarrow> ('w secret_world_scheme, jsval) js" where
  "with_client f = bnd (asks cs_client) (\<lambda>c. case c of None \<Rightarrow> fail_msg ''No client selected'' | Some client \<Rightarrow> f client)"

definition rotate_secret :: "('w secret_world_scheme, unit) js" where
  "rotate_secret = bnd (asks cs_overlap) (\<lambda>overlap. mutation
     (with_client (\<lambda>c. bnd (fetchAndParse (client_url c @ ''/rotate-secret'') rotateSecretResponseSchema (json_options ''POST''
        (JObj [(''overlap_seconds'', case parse_int overlap of Some n \<Rightarrow> jint n | None \<Rightarrow> JNum NaN)]))) (result_or_throw ''Failed to rotate secret'')))
     (\<lambda>d. modify (\<lambda>w. invalidate [''oauth2-clients''] (w\<lparr>cs_rotated := member d ''client_secret''\<rparr>))) (\<lambda>_. ret ()))"

definition delete_client :: "('w secret_world_scheme, unit) js \<Rightarrow> ('w secret_world_scheme, unit) js" where
  "delete_client on_deleted = mutation
     (with_client (\<lambda>c. bnd (fetchAndParse (client_url c) ZUnknown (verb_options ''DELETE'')) (result_or_throw ''Failed to delete client'')))
     (\<lambda>_. bnd (modify (\<lambda>w. (invalidate [''oauth2-clients''] w)\<lparr>cs_open := False\<rparr>)) (\<lambda>_. on_deleted)) (\<lambda>_. ret ())"

text \<open>The effect on closing the dialog.\<close>

definition secret_closed :: "'w secret_world_scheme \<Rightarrow> 'w secret_world_scheme" where
  "secret_closed w = (if cs_open w then w else w\<lparr>cs_rotated := JNull\<rparr>)"

record signing_world = pworld +
  sk_info :: jsval

definition rotate_keys :: "('w signing_world_scheme, unit) js" where
  "rotate_keys = mutation
     (bnd (modify (\<lambda>w. w\<lparr>sk_info := JNull\<rparr>)) (\<lambda>_. bnd (fetchAndParse ''/api/oauth2/keys/rotate'' rotateKeysResponseSchema (verb_options ''POST''))
        (result_or_throw ''Failed to rotate keys'')))
     (\<lambda>d. modify (\<lambda>w. invalidate [''oauth2-jwks''] (w\<lparr>sk_info := d\<rparr>))) (\<lambda>_. ret ())"

definition shown_keys :: "jsval \<Rightarrow> jsval list" where
  "shown_keys jwks = (if is_arr (opt_prop jwks ''keys'') then elems (member jwks ''keys'') else [])"

record token_world = pworld +
  tk_token :: string
  tk_hint :: string
  tk_result :: jsval

definition token_body :: "'w token_world_scheme \<Rightarrow> jsval" where
  "token_body w = JObj [(''token'', JStr (trim (tk_token w))), (''token_type_hint'', JStr (tk_hint w))]"

definition introspect_token :: "('w token_world_scheme, unit) js" where
  "introspect_token = bnd (asks token_body) (\<lambda>body. mutation
     (bnd (fetchAndParse ''/api/oauth2/tokens/introspect'' introspectResponseSchema (json_options ''POST'' body)) (result_or_throw ''Failed to introspect token''))
     (\<lambda>d. modify (\<lambda>w. invalidate [''oauth2-tokens''] (w\<lparr>tk_result := d\<rparr>))) (\<lambda>_. ret ()))"

definition token_revoked :: "'w token_world_scheme \<Rightarrow> 'w token_world_scheme" where
  "token_revoked w = invalidate [''oauth2-tokens'']
     (if truthy (tk_result w) then w\<lparr>tk_result := obj_spread (tk_result w) (JObj [(''active'', JBool False)])\<rparr> else w)"

definition revoke_token :: "('w token_world_scheme, unit) js" where
  "revoke_token = bnd (asks (\<lambda>w. (trim (tk_token w), token_body w))) (\<lambda>(token, body). if token = [] then ret () else mutation
     (bnd (fetchAndParse ''/api/oauth2/tokens/revoke'' ZUnknown (json_options ''POST'' body)) (result_or_throw ''Failed to revoke token''))
     (\<lambda>_. modify token_revoked) (\<lambda>_. ret ()))"

section \<open>Moving a rule\<close>

lemma checked_quiet [same_rules]: "quiet (checked_answer msg res)"
  unfolding checked_answer_def by (intro same_rules)

lemma moved_eq:
  "i < length rules \<Longrightarrow> moved i True rules = (if i = 0 then None else Some (rules[i := rules ! (i - 1), i - 1 := rules ! i]))"
  "i < length rules \<Longrightarrow> moved i False rules = (if Suc i < length rules then Some (rules[i := rules ! Suc i, Suc i := rules ! i]) else None)"
  by (auto simp: moved_def Let_def nat_diff_distrib nat_add_distrib)

lemma sends_moveRule:
  "moved i up rules = None \<Longrightarrow> sends w (moveRule rules i up) = []"
  "moved i up rules = Some newRules \<Longrightarrow> sends w (moveRule rules i up) =
     [json_send ''PUT'' ''/api/proxy-rules/reorder'' (JObj [(''ids'', JArr (map (\<lambda>r. JStr (to_str (member r ''id''))) newRules))])]"
proof -
  show "moved i up rules = None \<Longrightarrow> sends w (moveRule rules i up) = []"
    by (simp add: sends_def moveRule_def ret_def)
  assume m: "moved i up rules = Some newRules"
  show "sends w (moveRule rules i up) =
     [json_send ''PUT'' ''/api/proxy-rules/reorder'' (JObj [(''ids'', JArr (map (\<lambda>r. JStr (to_str (member r ''id''))) newRules))])]"
    unfolding sends_def moveRule_def m option.case reorder_rules_def
    by (subst sent_mutation; (subst sent_bnd_quiet)?; (subst sent_fetch)?) (auto simp: o_def intro!: same_rules)
qed

text \<open>
  C38. Moving a rule up or down sends one request, with the identifiers of the rules in the order in which the rule at \<open>i\<close> and its upper or lower
  neighbour have changed places and every other rule keeps its own; the first rule moved up and the last moved down send nothing.
\<close>

theorem move_rule_exchanges:
  assumes "i < length rules"
  defines "order \<equiv> (\<lambda>rs. [json_send ''PUT'' ''/api/proxy-rules/reorder'' (JObj [(''ids'', JArr (map (\<lambda>r. JStr (to_str (member r ''id''))) rs))])])"
  shows "sends w (moveRule rules i True) = (if i = 0 then [] else order (rules[i := rules ! (i - 1), i - 1 := rules ! i])) \<and>
    sends w (moveRule rules i False) = (if i = length rules - 1 then [] else order (rules[i := rules ! Suc i, Suc i := rules ! i]))"
  using assms(1) moved_eq [OF assms(1)] by (auto simp: order_def sends_moveRule)

text \<open>Moving a rule and moving it back leaves the list as it was.\<close>

lemma moved_back:
  "Suc i < length rules \<Longrightarrow> moved i False rules = Some rs \<Longrightarrow> moved (Suc i) True rs = Some rules"
  by (auto simp: moved_eq list_update_swap [of i "Suc i"])

definition example_gate_page :: pworld where
  "example_gate_page = bworld.extend (example_browser ''/proxy-rules'' [] (\<lambda>_. ok_text ''{}'')) \<lparr>p_files = [], p_confirm = (\<lambda>_. True), p_stale = []\<rparr>"

theorem move_rule_exchanges_witness:
  "let rules = [JObj [(''id'', JStr ''a'')], JObj [(''id'', JStr ''b'')], JObj [(''id'', JStr ''c'')]]
   in sends example_gate_page (moveRule rules 1 True) =
        [json_send ''PUT'' ''/api/proxy-rules/reorder'' (JObj [(''ids'', JArr [JStr ''b'', JStr ''a'', JStr ''c''])])] \<and>
      sends example_gate_page (moveRule rules 1 False) =
        [json_send ''PUT'' ''/api/proxy-rules/reorder'' (JObj [(''ids'', JArr [JStr ''a'', JStr ''c'', JStr ''b''])])]"
  using move_rule_exchanges [of 1 "[JObj [(''id'', JStr ''a'')], JObj [(''id'', JStr ''b'')], JObj [(''id'', JStr ''c'')]]" example_gate_page]
  by simp

text \<open>
  The wizard of a rule never refuses a configuration: one that is not JSON is replaced by the empty object, in the preview and in the rule that is sent,
  which is otherwise the rule of the form.
\<close>

theorem malformed_config_emptied:
  assumes "json_parse (rb_authorizerConfig w) = None" "trim (rb_id w) \<noteq> []" "quiet cb"
  shows "previewRule w = previewRule (w\<lparr>rb_authorizerConfig := ''{}''\<rparr>) \<and>
    member (previewRule w) ''authorizer'' = JObj [(''handler'', JStr (rb_authorizer w)), (''config'', JObj [])] \<and>
    sends w (handleFinish cb) = [json_send ''POST'' ''/api/proxy-rules'' (previewRule w)]"
proof -
  have e: "parsed_config ''{}'' = JObj []"
  proof -
    have "json_parse ''{}'' = Some (JObj [])" by code_simp
    then show ?thesis by (simp add: parsed_config_def)
  qed
  have c: "parsed_config (rb_authorizerConfig w) = JObj []" using assms(1) by (simp add: parsed_config_def)
  have s: "w_sent (snd (rule_create cb i r w)) = w_sent w @ [json_send ''POST'' ''/api/proxy-rules'' r]" for i r
    unfolding rule_create_def
    by (subst sent_mutation; (subst sent_bnd_quiet)?; (subst sent_fetch)?) (auto simp: rule_reset_def intro!: same_rules assms(3))
  show ?thesis
    using assms(2) by (simp add: previewRule_def handler_part_def e c sends_def handleFinish_def run_asks s)
qed

definition example_rule_form :: rule_form where
  "example_rule_form = pworld.extend example_gate_page \<lparr>rb_open = True, rb_step = 5, rb_id = ''r'', rb_description = [], rb_url = ''/a'',
     rb_methods = [''GET''], rb_authHandler = ''jwt'', rb_authConfig = ''{}'', rb_authorizer = ''nexus'', rb_authorizerConfig = ''{'',
     rb_mutator = ''none'', rb_mutatorConfig = ''{}'', rb_upstream = ''http://b'', rb_stripPrefix = [], rb_rewrite = []\<rparr>"

theorem malformed_config_emptied_witness:
  "member (previewRule example_rule_form) ''authorizer'' = JObj [(''handler'', JStr ''nexus''), (''config'', JObj [])]"
proof -
  have f: "rb_authorizerConfig example_rule_form = ''{''" "rb_id example_rule_form = ''r''" "rb_authorizer example_rule_form = ''nexus''"
    by (simp_all add: example_rule_form_def pworld.defs)
  have bad: "json_parse ''{'' = None" by code_simp
  have n: "trim ''r'' \<noteq> []" by (simp add: trim_def is_space_def)
  show ?thesis
    using malformed_config_emptied [OF _ _ same.k_ret, THEN conjunct2, THEN conjunct1, of example_rule_form] bad n by (simp add: f)
qed

end
