(* ===== verification/JsonText.thy ===== *)
theory JsonText
  imports Pages KeyStore
begin

text \<open>
  The printers and the parser of JSON against one grammar. \<open>json_text v s\<close> relates a value to its texts, with white space wherever it may
  stand; the parser reads every such text back, within the fuel \<open>json_parse\<close> gives it, and both printers write one, for values
  made of strings, truth values, \<open>null\<close>, integers, lists and objects with distinct member names.
\<close>

section \<open>The grammar\<close>

definition blank :: "string \<Rightarrow> bool" where
  "blank s = list_all is_json_space s"

inductive json_text :: "jsval \<Rightarrow> string \<Rightarrow> bool"
  and elems_text :: "jsval list \<Rightarrow> string \<Rightarrow> bool"
  and members_text :: "(string \<times> jsval) list \<Rightarrow> string \<Rightarrow> bool" where
  str_text: "json_text (JStr s) (print_string s)"
| bool_text: "json_text (JBool b) (if b then ''true'' else ''false'')"
| null_text: "json_text JNull ''null''"
| int_text: "json_text (JNum (Fin (of_int i))) (show_int i)"
| empty_arr: "blank a \<Longrightarrow> json_text (JArr []) (''['' @ a @ '']'')"
| arr_text: "elems_text xs s \<Longrightarrow> json_text (JArr xs) (''['' @ s @ '']'')"
| empty_obj: "blank a \<Longrightarrow> json_text (JObj []) (''{'' @ a @ ''}'')"
| obj_text: "members_text kvs s \<Longrightarrow> distinct (map fst kvs) \<Longrightarrow> json_text (JObj kvs) (''{'' @ s @ ''}'')"
| last_elem: "blank a \<Longrightarrow> json_text x s \<Longrightarrow> blank b \<Longrightarrow> elems_text [x] (a @ s @ b)"
| more_elems: "blank a \<Longrightarrow> json_text x s \<Longrightarrow> blank b \<Longrightarrow> elems_text xs t \<Longrightarrow> elems_text (x # xs) (a @ s @ b @ '','' @ t)"
| last_member: "blank a \<Longrightarrow> blank b \<Longrightarrow> blank c \<Longrightarrow> json_text x s \<Longrightarrow> blank d \<Longrightarrow>
    members_text [(k, x)] (a @ print_string k @ b @ '':'' @ c @ s @ d)"
| more_members: "blank a \<Longrightarrow> blank b \<Longrightarrow> blank c \<Longrightarrow> json_text x s \<Longrightarrow> blank d \<Longrightarrow> members_text kvs t \<Longrightarrow>
    members_text ((k, x) # kvs) (a @ print_string k @ b @ '':'' @ c @ s @ d @ '','' @ t)"

section \<open>Reading the texts of the grammar\<close>

lemma skip_blank [simp]: "blank a \<Longrightarrow> skip_ws (a @ s) = skip_ws s"
  by (induction a) (auto simp: blank_def skip_ws_def)

lemma skip_solid [simp]: "\<not> is_json_space c \<Longrightarrow> skip_ws (c # s) = c # s"
  by (simp add: skip_ws_def)

lemma solid [simp]:
  "\<not> is_json_space CHR 0x22" "\<not> is_json_space CHR ''[''" "\<not> is_json_space CHR '']''" "\<not> is_json_space CHR ''{''" "\<not> is_json_space CHR ''}''"
  "\<not> is_json_space CHR '',''" "\<not> is_json_space CHR '':''" "\<not> is_json_space CHR ''t''" "\<not> is_json_space CHR ''f''" "\<not> is_json_space CHR ''n''"
  by (simp_all add: is_json_space_def)

text \<open>What may follow a number.\<close>

definition ends :: "string \<Rightarrow> bool" where
  "ends r = (case r of [] \<Rightarrow> True | c # _ \<Rightarrow> \<not> is_digit c \<and> c \<noteq> CHR ''.'' \<and> c \<noteq> CHR ''e'' \<and> c \<noteq> CHR ''E'')"

lemma ends_blank: "blank a \<Longrightarrow> ends r \<Longrightarrow> ends (a @ r)"
  by (cases a) (auto simp: blank_def ends_def is_json_space_def is_digit_def)

lemma digit_rest: "ends r \<Longrightarrow> takeWhile is_digit (show_nat n @ r) = show_nat n \<and> dropWhile is_digit (show_nat n @ r) = r"
  using show_nat_digits [of n] by (cases r) (auto simp: ends_def list_all_iff takeWhile_append dropWhile_append)

lemma show_nat_head: "2 \<le> length (show_nat n) \<Longrightarrow> hd (show_nat n) \<noteq> CHR ''0''"
proof (induction n rule: show_nat.induct)
  case (1 n)
  show ?case
  proof (cases "n < 10")
    case False
    then have s: "show_nat n = show_nat (n div 10) @ [digit_char (n mod 10)]" by (subst show_nat.simps) simp
    show ?thesis
    proof (cases "2 \<le> length (show_nat (n div 10))")
      case True
      with 1 False show ?thesis by (simp add: s)
    next
      case short: False
      have "n div 10 < 10"
      proof (rule ccontr)
        assume "\<not> n div 10 < 10"
        then have "show_nat (n div 10) = show_nat (n div 10 div 10) @ [digit_char (n div 10 mod 10)]"
          by (subst show_nat.simps) simp
        moreover have "show_nat (n div 10 div 10) \<noteq> []" by simp
        ultimately show False using short by (cases "show_nat (n div 10 div 10)") auto
      qed
      then have "show_nat (n div 10) = [digit_char (n div 10)]" by (subst show_nat.simps) simp
      then have "hd (show_nat n) = digit_char (n div 10)" by (simp add: s)
      moreover have "\<forall>d \<in> set [1..<10]. digit_char d \<noteq> CHR ''0''" by code_simp
      ultimately show ?thesis using False \<open>n div 10 < 10\<close> by auto
    qed
  qed (use 1 in \<open>simp add: show_nat.simps [of n]\<close>)
qed

lemma digit_all: "takeWhile is_digit (show_nat n) = show_nat n" "dropWhile is_digit (show_nat n) = []"
  using digit_rest [of "[]" n] by (simp_all only: append_Nil2 ends_def list.case)

lemma digit_head: "show_nat n @ r = c # t \<Longrightarrow> is_digit c"
  using show_nat_digits [of n] by (cases "show_nat n") auto

lemma parse_number_nat: "ends r \<Longrightarrow> parse_number (show_nat n @ r) = Some (JNum (Fin (of_nat n)), r)"
proof -
  assume e: "ends r"
  obtain c t where s: "show_nat n @ r = c # t" by (cases "show_nat n @ r") auto
  have "c \<noteq> CHR ''-''" using digit_head [OF s] by (auto simp: is_digit_def)
  then have sgn: "(case show_nat n @ r of [] \<Rightarrow> (False, show_nat n @ r) | c # t \<Rightarrow> if c = CHR ''-'' then (True, t) else (False, show_nat n @ r)) =
      (False, show_nat n @ r)" by (simp add: s)
  have h: "\<not> (2 \<le> length (show_nat n) \<and> hd (show_nat n) = CHR ''0'')" using show_nat_head by blast
  show ?thesis
    unfolding parse_number_def sgn using e h
    by (cases r) (auto simp: digit_rest digit_all ends_def Let_def)
qed

lemma parse_number_int: "ends r \<Longrightarrow> parse_number (show_int i @ r) = Some (JNum (Fin (of_int i)), r)"
proof (cases "i < 0")
  case True
  assume e: "ends r"
  define n where "n = nat (- i)"
  have i: "i = - int n" "show_int i = CHR ''-'' # show_nat n" using True by (simp_all add: n_def show_int_def)
  have h: "\<not> (2 \<le> length (show_nat n) \<and> hd (show_nat n) = CHR ''0'')" using show_nat_head by blast
  show ?thesis
    unfolding i(2) parse_number_def using e h
    by (cases r) (auto simp: digit_rest digit_all ends_def Let_def i(1))
next
  case False
  assume "ends r"
  then show ?thesis using parse_number_nat [of r "nat i"] False by (simp add: show_int_def)
qed

text \<open>The texts of a value begin with no space and no closing bracket.\<close>

definition opens :: "string \<Rightarrow> bool" where
  "opens s = (case s of [] \<Rightarrow> False | c # _ \<Rightarrow> \<not> is_json_space c \<and> c \<noteq> CHR '']'' \<and> c \<noteq> CHR ''}'')"

lemma opens_Cons [simp]: "opens (c # s) \<longleftrightarrow> \<not> is_json_space c \<and> c \<noteq> CHR '']'' \<and> c \<noteq> CHR ''}''"
  by (simp add: opens_def)

lemma opens_append: "opens s \<Longrightarrow> opens (s @ r)"
  by (auto simp: opens_def split: list.splits)

lemma show_int_head: "\<exists>c t. show_int i = c # t \<and> (c = CHR ''-'' \<or> is_digit c)"
proof (cases "i < 0")
  case False
  then show ?thesis using show_nat_digits [of "nat i"] by (cases "show_nat (nat i)") (auto simp: show_int_def)
qed (simp add: show_int_def)

lemma digit_not_space: "is_digit c \<Longrightarrow> \<not> is_json_space c \<and> c \<noteq> CHR '']'' \<and> c \<noteq> CHR ''}'' \<and> c \<noteq> CHR 0x22 \<and> c \<noteq> CHR ''['' \<and>
    c \<noteq> CHR ''{'' \<and> c \<noteq> CHR ''t'' \<and> c \<noteq> CHR ''f'' \<and> c \<noteq> CHR ''n''"
  by (auto simp: is_json_space_def is_digit_def)

lemma opens_text: "json_text v s \<Longrightarrow> opens s"
proof (cases rule: json_text.cases)
  assume t: "json_text v s"
  fix i assume "s = show_int i"
  then show ?thesis using show_int_head [of i] digit_not_space by (auto simp: is_json_space_def)
qed (auto simp: print_string_def)

lemma skip_opens: "opens s \<Longrightarrow> skip_ws s = s \<and> s \<noteq> []"
  by (auto simp: opens_def split: list.splits)

lemma opens_elems: "elems_text xs s \<Longrightarrow> opens (skip_ws (s @ r))"
  by (cases rule: elems_text.cases) (auto dest!: opens_text intro: opens_append simp: skip_opens opens_append)

lemma opens_members: "members_text kvs s \<Longrightarrow> \<exists>t. skip_ws (s @ r) = CHR 0x22 # t"
  by (cases rule: members_text.cases) (auto simp: print_string_def)

lemma al_set_fresh: "k \<notin> fst ` set kvs \<Longrightarrow> al_set k v kvs = kvs @ [(k, v)]"
  by (induction kvs) auto

lemma parse_chars_quoted: "parse_chars [] (concat (map esc_char s) @ CHR 0x22 # r) = Some (s, r)"
  by (simp add: parse_chars_print)

lemma parse_value_int:
  assumes "ends r"
  shows "parse_value (Suc n) (show_int i @ r) = Some (JNum (Fin (of_int i)), r)"
proof -
  obtain c t where s: "show_int i = c # t" "c = CHR ''-'' \<or> is_digit c" using show_int_head by blast
  have "skip_ws (show_int i @ r) = show_int i @ r" "c \<notin> set [CHR 0x22, CHR ''['', CHR ''{'', CHR ''t'', CHR ''f'', CHR ''n'']"
    using s digit_not_space by (auto simp: is_json_space_def)
  then show ?thesis using parse_number_int [OF assms, of i] by (simp add: s(1) starts_with_def)
qed

lemma parse_value_blank: "blank a \<Longrightarrow> parse_value n (a @ s) = parse_value n s"
  by (cases n) auto

lemma ends_simps [simp]: "ends (CHR '','' # r)" "ends (CHR '']'' # r)" "ends (CHR ''}'' # r)" "ends []"
  by (simp_all add: ends_def is_digit_def)

text \<open>What is to be shown of each part of the grammar.\<close>

definition reads :: "jsval \<Rightarrow> string \<Rightarrow> bool" where
  "reads v s \<longleftrightarrow> (\<forall>n r. length s \<le> Suc n \<longrightarrow> ends r \<longrightarrow> parse_value (Suc n) (s @ r) = Some (v, r))"

definition reads_elems :: "jsval list \<Rightarrow> string \<Rightarrow> bool" where
  "reads_elems xs s \<longleftrightarrow> (\<forall>n r acc. length s \<le> n \<longrightarrow> parse_elems (Suc n) acc (s @ CHR '']'' # r) = Some (JArr (acc @ xs), r))"

definition reads_members :: "(string \<times> jsval) list \<Rightarrow> string \<Rightarrow> bool" where
  "reads_members kvs s \<longleftrightarrow> (\<forall>n r acc. length s \<le> n \<longrightarrow> distinct (map fst (acc @ kvs)) \<longrightarrow>
     parse_members (Suc n) acc (s @ CHR ''}'' # r) = Some (JObj (acc @ kvs), r))"

lemma reads_at: "\<lbrakk>reads v s; opens s; length s \<le> n; ends r\<rbrakk> \<Longrightarrow> parse_value n (s @ r) = Some (v, r)"
  by (cases n) (auto simp: reads_def opens_def)

lemma reads_words: "reads (JBool b) (if b then ''true'' else ''false'')" "reads JNull ''null''"
  by (simp_all add: reads_def starts_with_def)

lemma reads_str: "reads (JStr s) (print_string s)"
  by (simp add: reads_def print_string_def parse_chars_quoted)

lemma reads_int: "reads (JNum (Fin (of_int i))) (show_int i)"
  by (simp add: reads_def parse_value_int del: parse_value.simps)

lemma reads_empty: "blank a \<Longrightarrow> reads (JArr []) (''['' @ a @ '']'') \<and> reads (JObj []) (''{'' @ a @ ''}'')"
  by (simp add: reads_def)

lemma reads_arr:
  assumes "reads_elems xs s" "elems_text xs s"
  shows "reads (JArr xs) (''['' @ s @ '']'')"
  unfolding reads_def
proof (intro allI impI)
  fix n r assume n: "length (''['' @ s @ '']'') \<le> Suc n" "ends r"
  then obtain m where m: "n = Suc m" "length s \<le> m" by (cases n) auto
  have "opens (skip_ws (s @ CHR '']'' # r))" by (rule opens_elems [OF assms(2)])
  then obtain c t where "skip_ws (s @ CHR '']'' # r) = c # t" "c \<noteq> CHR '']''" by (auto simp: opens_def split: list.splits)
  then show "parse_value (Suc n) ((''['' @ s @ '']'') @ r) = Some (JArr xs, r)"
    using assms(1) m by (simp add: reads_elems_def)
qed

lemma reads_obj:
  assumes "reads_members kvs s" "members_text kvs s" "distinct (map fst kvs)"
  shows "reads (JObj kvs) (''{'' @ s @ ''}'')"
  unfolding reads_def
proof (intro allI impI)
  fix n r assume n: "length (''{'' @ s @ ''}'') \<le> Suc n" "ends r"
  then obtain m where m: "n = Suc m" "length s \<le> m" by (cases n) auto
  obtain t where "skip_ws (s @ CHR ''}'' # r) = CHR 0x22 # t" using opens_members [OF assms(2)] by blast
  moreover have "parse_members n [] (s @ CHR ''}'' # r) = Some (JObj kvs, r)"
    using assms(1,3) m unfolding reads_members_def m(1) by (simp del: parse_members.simps)
  ultimately show "parse_value (Suc n) ((''{'' @ s @ ''}'') @ r) = Some (JObj kvs, r)"
    by (simp del: parse_members.simps)
qed

lemma reads_elem:
  assumes "blank a" "reads x s" "opens s" "blank b" "length s \<le> n" "ends r"
  shows "parse_value n (a @ s @ b @ r) = Some (x, b @ r)"
  using reads_at [OF assms(2,3,5) ends_blank [OF assms(4,6)]] by (simp add: parse_value_blank [OF assms(1)])

lemma reads_last:
  assumes "blank a" "reads x s" "opens s" "blank b"
  shows "reads_elems [x] (a @ s @ b)"
  unfolding reads_elems_def using assms by (simp add: reads_elem)

lemma reads_more:
  assumes "blank a" "reads x s" "opens s" "blank b" "reads_elems xs t"
  shows "reads_elems (x # xs) (a @ s @ b @ '','' @ t)"
  unfolding reads_elems_def
proof (intro allI impI)
  fix n r acc assume n: "length (a @ s @ b @ '','' @ t) \<le> n"
  then obtain m where m: "n = Suc m" "length t \<le> m" by (cases n) auto
  have "parse_value n (a @ s @ b @ CHR '','' # t @ CHR '']'' # r) = Some (x, b @ CHR '','' # t @ CHR '']'' # r)"
    using assms n by (simp add: reads_elem)
  then show "parse_elems (Suc n) acc ((a @ s @ b @ '','' @ t) @ CHR '']'' # r) = Some (JArr (acc @ x # xs), r)"
    using assms(4,5) m by (simp add: reads_elems_def del: parse_elems.simps) (simp add: reads_elems_def)
qed

lemma members_step:
  assumes "blank a" "blank b" "blank c" "reads x s" "opens s" "blank d" "length s \<le> n" "ends r" "skip_ws r = e # u"
  shows "parse_members (Suc n) acc (a @ print_string k @ b @ '':'' @ c @ s @ d @ r) =
    (if e = CHR '','' then parse_members n (al_set k x acc) u
     else if e = CHR ''}'' then Some (JObj (al_set k x acc), u) else None)"
proof -
  have "parse_value n (c @ s @ d @ r) = Some (x, d @ r)" by (rule reads_elem [OF assms(3-8)])
  then show ?thesis using assms(1,2,6,9) by (simp add: print_string_def parse_chars_quoted)
qed

lemma reads_last_member:
  assumes "blank a" "blank b" "blank c" "reads x s" "opens s" "blank d"
  shows "reads_members [(k, x)] (a @ print_string k @ b @ '':'' @ c @ s @ d)"
  unfolding reads_members_def
proof (intro allI impI)
  fix n r acc assume n: "length (a @ print_string k @ b @ '':'' @ c @ s @ d) \<le> n" "distinct (map fst (acc @ [(k, x)]))"
  then show "parse_members (Suc n) acc ((a @ print_string k @ b @ '':'' @ c @ s @ d) @ CHR ''}'' # r) = Some (JObj (acc @ [(k, x)]), r)"
    using members_step [OF assms, of n "CHR ''}'' # r" "CHR ''}''" r acc k] by (simp add: al_set_fresh image_iff del: parse_members.simps)
qed

lemma reads_more_members:
  assumes "blank a" "blank b" "blank c" "reads x s" "opens s" "blank d" "reads_members kvs t"
  shows "reads_members ((k, x) # kvs) (a @ print_string k @ b @ '':'' @ c @ s @ d @ '','' @ t)"
  unfolding reads_members_def
proof (intro allI impI)
  fix n r acc assume n: "length (a @ print_string k @ b @ '':'' @ c @ s @ d @ '','' @ t) \<le> n" "distinct (map fst (acc @ (k, x) # kvs))"
  then obtain m where m: "n = Suc m" "length t \<le> m" by (cases n) auto
  have f: "al_set k x acc = acc @ [(k, x)]" using n(2) by (intro al_set_fresh) auto
  have "parse_members n (acc @ [(k, x)]) (t @ CHR ''}'' # r) = Some (JObj ((acc @ [(k, x)]) @ kvs), r)"
    using assms(7) m n(2) unfolding reads_members_def m(1) by (simp del: parse_members.simps)
  then show "parse_members (Suc n) acc ((a @ print_string k @ b @ '':'' @ c @ s @ d @ '','' @ t) @ CHR ''}'' # r) =
      Some (JObj (acc @ (k, x) # kvs), r)"
    using members_step [OF assms(1-6), of n "CHR '','' # t @ CHR ''}'' # r" "CHR '',''" "t @ CHR ''}'' # r" acc k] n(1)
    by (simp add: f del: parse_members.simps)
qed

lemma reads_grammar:
  "json_text v s \<Longrightarrow> reads v s" "elems_text xs s \<Longrightarrow> reads_elems xs s" "members_text kvs s \<Longrightarrow> reads_members kvs s"
  by (induction rule: json_text_elems_text_members_text.inducts)
    (simp_all only: reads_words reads_str reads_int reads_empty reads_arr reads_obj reads_last reads_more reads_last_member
      reads_more_members opens_text)

lemma json_parse_text: "json_text v s \<Longrightarrow> json_parse s = Some v"
proof -
  assume t: "json_text v s"
  have "parse_value (2 * length s + 2) (s @ []) = Some (v, [])"
    by (rule reads_at [OF reads_grammar(1) [OF t] opens_text [OF t]]) auto
  then show ?thesis by (simp add: json_parse_def skip_ws_def del: parse_value.simps)
qed

lemma json_parse_blank: "blank a \<Longrightarrow> blank b \<Longrightarrow> json_text v s \<Longrightarrow> json_parse (a @ s @ b) = Some v"
proof -
  assume a: "blank a" "blank b" and t: "json_text v s"
  have "ends b" using ends_blank [OF a(2), of "[]"] by simp
  then have "parse_value (2 * length (a @ s @ b) + 2) (s @ b) = Some (v, b)"
    by (intro reads_at [OF reads_grammar(1) [OF t] opens_text [OF t]]) auto
  moreover have "skip_ws b = []" using skip_blank [OF a(2), of "[]"] by (simp add: skip_ws_def)
  ultimately show ?thesis by (simp add: json_parse_def parse_value_blank [OF a(1)] del: parse_value.simps)
qed

section \<open>The texts the printers write\<close>

fun json_plain :: "jsval \<Rightarrow> bool" where
  "json_plain (JNum n) \<longleftrightarrow> (case n of Fin q \<Rightarrow> q = of_int \<lfloor>q\<rfloor> | _ \<Rightarrow> False)"
| "json_plain (JArr xs) \<longleftrightarrow> list_all json_plain xs"
| "json_plain (JObj kvs) \<longleftrightarrow> distinct (map fst kvs) \<and> list_all (\<lambda>(k, v). json_plain v) kvs"
| "json_plain JUndef \<longleftrightarrow> False"
| "json_plain (JFun f) \<longleftrightarrow> False"
| "json_plain v \<longleftrightarrow> True"

lemma elems_join:
  "\<lbrakk>xs \<noteq> []; \<forall>x \<in> set xs. json_text x (f x); blank a; blank b; blank sep\<rbrakk> \<Longrightarrow> elems_text xs (a @ join ('','' @ sep) (map f xs) @ b)"
proof (induction xs arbitrary: a)
  case (Cons x xs)
  show ?case
  proof (cases xs)
    case Nil
    then show ?thesis using Cons.prems last_elem [of a x "f x" b] by simp
  next
    case (Cons y ys)
    have "elems_text xs (sep @ join ('','' @ sep) (map f xs) @ b)"
      by (rule Cons.IH) (use Cons.prems \<open>xs = y # ys\<close> in auto)
    then show ?thesis
      using more_elems [of a x "f x" "[]" xs "sep @ join ('','' @ sep) (map f xs) @ b"] Cons.prems Cons by (simp add: blank_def)
  qed
qed simp

lemma members_join:
  "\<lbrakk>kvs \<noteq> []; \<forall>(k, x) \<in> set kvs. json_text x (f x); blank a; blank b; blank sep; blank c\<rbrakk> \<Longrightarrow>
    members_text kvs (a @ join ('','' @ sep) (map (\<lambda>(k, x). print_string k @ '':'' @ c @ f x) kvs) @ b)"
proof (induction kvs arbitrary: a)
  case (Cons kv kvs)
  obtain k x where kv: "kv = (k, x)" by (cases kv)
  show ?case
  proof (cases kvs)
    case Nil
    then show ?thesis using Cons.prems last_member [of a "[]" c x "f x" b k] by (simp add: kv blank_def)
  next
    case (Cons y ys)
    have "members_text kvs (sep @ join ('','' @ sep) (map (\<lambda>(k, x). print_string k @ '':'' @ c @ f x) kvs) @ b)"
      by (rule Cons.IH) (use Cons.prems \<open>kvs = y # ys\<close> in auto)
    then show ?thesis
      using more_members [of a "[]" c x "f x" "[]" kvs "sep @ join ('','' @ sep) (map (\<lambda>(k, x). print_string k @ '':'' @ c @ f x) kvs) @ b" k]
        Cons.prems Cons
      by (simp add: kv blank_def)
  qed
qed simp

lemma blank_Nil [simp]: "blank []"
  by (simp add: blank_def)

lemma blank_newline [simp]: "blank (newline n)"
  by (simp add: blank_def newline_def list_all_iff is_json_space_def)

lemma blank_space [simp]: "blank '' ''"
  by (simp add: blank_def is_json_space_def)

lemma fin_text: "q = of_int \<lfloor>q\<rfloor> \<Longrightarrow> json_text (JNum (Fin q)) (show_rat q)"
  by (metis int_text show_rat_int)

lemma print_text: "json_plain v \<Longrightarrow> json_text v (print_json v)"
proof (induction v rule: json_plain.induct)
  case (1 n)
  then show ?case by (auto split: jnum.splits intro: fin_text)
next
  case (2 xs)
  show ?case
  proof (cases "xs = []")
    case False
    have "elems_text xs ([] @ join ('','' @ []) (map print_json xs) @ [])"
      by (rule elems_join) (use 2 False in \<open>auto simp: list_all_iff\<close>)
    then show ?thesis using arr_text by simp
  qed (use empty_arr [of "[]"] in simp)
next
  case (3 kvs)
  show ?case
  proof (cases "kvs = []")
    case False
    have "members_text kvs ([] @ join ('','' @ []) (map (\<lambda>(k, x). print_string k @ '':'' @ [] @ print_json x) kvs) @ [])"
      by (rule members_join) (use 3 False in \<open>auto simp: list_all_iff\<close>)
    then show ?thesis using obj_text [of kvs] 3 by simp
  qed (use empty_obj [of "[]"] in simp)
qed (use bool_text null_text str_text in auto)

lemma pretty_text: "json_plain v \<Longrightarrow> json_text v (pretty n v)"
proof (induction v arbitrary: n rule: json_plain.induct)
  case (1 m)
  then show ?case using print_text [of "JNum m"] by simp
next
  case (2 xs)
  show ?case
  proof (cases xs)
    case (Cons y ys)
    have "elems_text xs (newline (Suc n) @ join ('','' @ newline (Suc n)) (map (pretty (Suc n)) xs) @ newline n)"
      by (rule elems_join) (use 2 Cons in \<open>auto simp: list_all_iff\<close>)
    then show ?thesis using Cons by (auto dest: arr_text)
  qed (use empty_arr [of "[]"] in simp)
next
  case (3 kvs)
  show ?case
  proof (cases kvs)
    case (Cons y ys)
    have ih: "json_text x (pretty (Suc n) x)" if "(k, x) \<in> set kvs" for k x
      using 3 that by (auto simp: list_all_iff)
    have "members_text kvs (newline (Suc n) @ join ('','' @ newline (Suc n))
        (map (\<lambda>(k, x). print_string k @ '':'' @ '' '' @ pretty (Suc n) x) kvs) @ newline n)"
      by (rule members_join) (use ih Cons in auto)
    then show ?thesis using 3 Cons by (auto dest: obj_text)
  qed (use empty_obj [of "[]"] in simp)
qed (use bool_text null_text str_text in auto)

lemma clean_plain: "json_plain v \<Longrightarrow> json_clean v = v"
proof (induction v rule: json_plain.induct)
  case (1 n)
  then show ?case by (cases n) auto
next
  case (2 xs)
  have k: "json_keeps x" if "json_plain x" for x using that by (cases x) auto
  show ?case using 2 k by (auto simp: list_all_iff intro!: map_idI)
next
  case (3 kvs)
  have k: "json_keeps x" if "json_plain x" for x using that by (cases x) auto
  have "filter (\<lambda>(k, v). json_keeps v) kvs = kvs" using 3 k by (auto simp: list_all_iff filter_id_conv)
  then show ?case using 3 by (auto simp: list_all_iff intro!: map_idI)
qed auto

lemma parse_stringify: "json_plain v \<Longrightarrow> json_parse (json_stringify v) = Some v"
  by (simp add: json_stringify_def clean_plain json_parse_text print_text)

lemma parse_pretty: "json_plain v \<Longrightarrow> json_parse (json_pretty v) = Some v"
  by (simp add: json_pretty_def clean_plain json_parse_text pretty_text)

section \<open>Values that are written and read back\<close>

lemma macaroon_plain: "json_plain (macaroon_json m)"
  by (simp add: macaroon_json_def list_all_iff)

lemma utf8_small: "list_all (\<lambda>b. b < 256) (utf8 c)"
proof -
  have "(of_char c :: nat) < 4 * 64" by simp
  then have "(of_char c :: nat) div 64 < 4" by (rule less_mult_imp_div_less)
  then show ?thesis by (auto simp: utf8_def Let_def list_all_iff)
qed

lemma utf8_bytes_byte: "list_all (\<lambda>b. b < 256) (utf8_bytes s)"
  using utf8_small by (auto simp: utf8_bytes_def list_all_iff)

text \<open>
  C33. A macaroon put on the wire is read back as it was: deserializing what \<open>serializeMacaroon\<close> writes gives the
  object with its identifier, location, caveats and signature, whatever characters they have.
\<close>

theorem macaroon_wire_roundtrip: "deserializeMacaroon (serializeMacaroon m) w = (Inr (macaroon_json m), w)"
proof -
  have "utf8_decode (from_base64url (serializeMacaroon m)) = Some (json_stringify (macaroon_json m))"
    by (simp add: serializeMacaroon_def from_to_base64url utf8_bytes_byte) (simp add: utf8_bytes_def utf8_decode_concat)
  then show ?thesis by (simp add: deserializeMacaroon_def json_parse_js_def parse_stringify macaroon_plain)
qed

text \<open>
  The key file as text: reading the text that \<open>writeDB\<close> puts on disk gives the same value as the content the model keeps
  of it, so that the file as a value in \<open>vworld\<close> stands for the file.
\<close>

theorem key_file_text:
  assumes "json_plain data"
  shows "fst (readDB (w\<lparr>k_file := RawFile (json_pretty data)\<rparr>)) = fst (readDB (snd (writeDB data w))) \<and>
    fst (readDB (snd (writeDB data w))) = Inr data"
  using assms by (simp add: readDB_def writeDB_def asks_def modify_def parse_pretty clean_plain)

theorem key_file_text_witness:
  "fst (readDB (snd (writeDB (JArr [JObj [(''id'', JStr ''k1''), (''revoked'', JBool True)]]) w))) =
    Inr (JArr [JObj [(''id'', JStr ''k1''), (''revoked'', JBool True)]])"
  by (rule key_file_text [THEN conjunct2]) simp

end
