(* ===== verification/KeyPages.thy ===== *)
theory KeyPages
  imports JsonText SchemasPlatform
begin

text \<open>
  The pages of API keys under app/vulcan: the table with revocation and rotation, the form of a new key, the catalogue of scopes, the
  studio that narrows macaroons and the inspector that reads them. Clipboard, badges and other markup are left out; the random identifier
  of a caveat line is an argument. \<open>atob\<close> is the platform's forgiving base64 decoder.
\<close>

section \<open>keys-table.tsx and key-rotate-dialog.tsx\<close>

record keys_world = pworld +
  kt_revoke :: "string option"
  kt_rotate :: jsval  \<comment> \<open>the key whose rotation dialog is open\<close>
  kt_grace :: string
  kt_rotating :: bool
  kt_rotated :: jsval
  kt_copied :: bool

type_synonym ('w, 'a) ktact = "('w keys_world_scheme, 'a) js"

definition ok_data :: "string \<Rightarrow> http_response \<Rightarrow> ('w, jsval) act" where
  "ok_data msg res = (if rs_ok res then response_json res else fail_msg msg)"

definition fetch_keys :: "('w, jsval) act" where
  "fetch_keys = bnd (fetch (get_request ''/api/vulcan/keys'')) (\<lambda>res. bnd (ok_data ''Failed to fetch keys'' res) (\<lambda>d.
     if is_arr d then ret d else bnd (lift (get_prop d ''data'')) (\<lambda>l. ret (js_or l (JArr [])))))"

definition revoke_key :: "string \<Rightarrow> ('w, unit) ktact" where
  "revoke_key i = mutation
     (bnd (fetch (delete_request (''/api/vulcan/keys/'' @ i))) (ok_data ''Failed to revoke key''))
     (\<lambda>_. modify (\<lambda>w. (invalidate [''vulcan-keys''] (toast_plain ''success'' ''API Key revoked successfully'' w))\<lparr>kt_revoke := None\<rparr>))
     (\<lambda>_. modify (toast_plain ''error'' ''Failed to revoke API Key''))"

definition confirm_revoke :: "('w, unit) ktact" where
  "confirm_revoke = bnd (asks kt_revoke) (\<lambda>k. case k of Some i \<Rightarrow> if i = [] then ret () else revoke_key i | None \<Rightarrow> ret ())"

definition key_is_revoked :: "jsval \<Rightarrow> bool" where
  "key_is_revoked k \<longleftrightarrow> truthy (member k ''revoked'') \<or> strict_eq (member k ''state'') (JStr ''revoked'')"

definition days_before :: "'w world_scheme \<Rightarrow> int \<Rightarrow> jsval \<Rightarrow> jnum" where
  "days_before w now v = num_scale (1 / 86400000) (num_sub (Fin (of_int now)) (date_key w v))"

definition isKeyStale :: "'w world_scheme \<Rightarrow> int \<Rightarrow> jsval \<Rightarrow> bool" where
  "isKeyStale w now k \<longleftrightarrow> \<not> key_is_revoked k \<and>
     (if truthy (member k ''last_used_at'') then num_lt (Fin 30) (days_before w now (member k ''last_used_at''))
      else num_lt (Fin 14) (days_before w now (member k ''created_at'')))"

definition key_expired :: "'w world_scheme \<Rightarrow> int \<Rightarrow> jsval \<Rightarrow> bool" where
  "key_expired w now k \<longleftrightarrow> truthy (member k ''expires_at'') \<and> num_lt (date_key w (member k ''expires_at'')) (Fin (of_int now))"

text \<open>The dialog opens on a key and forgets what it showed.\<close>

definition open_rotation :: "jsval \<Rightarrow> 'w keys_world_scheme \<Rightarrow> 'w keys_world_scheme" where
  "open_rotation k w = w\<lparr>kt_rotate := k, kt_rotated := JNull, kt_copied := False\<rparr>"

definition handleRotate :: "('w, unit) ktact" where
  "handleRotate = bnd (asks (\<lambda>w. (js_or (opt_prop (kt_rotate w) ''id'') JNull, kt_grace w))) (\<lambda>(keyId, grace).
     if \<not> truthy keyId then ret () else
     bnd (modify (\<lambda>w. w\<lparr>kt_rotating := True\<rparr>)) (\<lambda>_. try_finally
       (bnd (fetch (json_send ''POST'' (''/api/vulcan/keys/'' @ to_str keyId @ ''/rotate'') (JObj [(''grace_period'', JStr grace)]))) (\<lambda>res.
        bnd (checked_answer ''Rotation failed'' res) (\<lambda>d.
        modify (\<lambda>w. invalidate [''vulcan-keys''] (toast_plain ''success'' ''API key rotated successfully. Copy the new token now.''
          (w\<lparr>kt_rotated := d\<rparr>))))))
       (toast_error ''Key rotation failed'') (\<lambda>w. w\<lparr>kt_rotating := False\<rparr>)))"

definition copyToken :: "'w keys_world_scheme \<Rightarrow> 'w keys_world_scheme" where
  "copyToken w = (if truthy (opt_prop (kt_rotated w) ''raw_token'')
     then toast_plain ''success'' ''Token copied to clipboard'' (w\<lparr>kt_copied := True\<rparr>) else w)"

section \<open>key-builder-sheet.tsx\<close>

record key_form = pworld +
  kf_open :: bool
  kf_secretShown :: bool
  kf_secret :: jsval
  kf_name :: string
  kf_expires :: string
  kf_scopes :: "string list"
  kf_errors :: "(string \<times> string) list"

type_synonym ('w, 'a) kfact = "('w key_form_scheme, 'a) js"

definition AVAILABLE_SCOPES :: "(string \<times> string) list" where
  "AVAILABLE_SCOPES = [(''read:users'', ''Read Users''), (''write:users'', ''Write Users''), (''read:billing'', ''Read Billing''),
     (''read:audit'', ''Read Audit Logs'')]"

definition key_reset :: "'w key_form_scheme \<Rightarrow> 'w key_form_scheme" where
  "key_reset w = w\<lparr>kf_name := [], kf_expires := ''30d'', kf_scopes := [], kf_errors := []\<rparr>"

definition scope_checked :: "string \<Rightarrow> bool \<Rightarrow> 'w key_form_scheme \<Rightarrow> 'w key_form_scheme" where
  "scope_checked s on w = w\<lparr>kf_scopes := (if on then kf_scopes w @ [s] else filter (\<lambda>x. x \<noteq> s) (kf_scopes w))\<rparr>"

definition key_payload :: "'w key_form_scheme \<Rightarrow> jsval" where
  "key_payload w = JObj [(''name'', JStr (kf_name w)), (''expires_in'', JStr (kf_expires w)), (''scopes'', JArr (map JStr (kf_scopes w)))]"

definition key_create :: "jsval \<Rightarrow> ('w, unit) kfact" where
  "key_create d = mutation
     (bnd (fetch (json_send ''POST'' ''/api/vulcan/keys'' d)) (checked_answer ''Failed to create key''))
     (\<lambda>r. bnd (modify (invalidate [''vulcan-keys''])) (\<lambda>_. bnd (lift (get_prop r ''secret'')) (\<lambda>s.
        modify (\<lambda>w. key_reset (w\<lparr>kf_secret := s, kf_open := False, kf_secretShown := True\<rparr>)))))
     (\<lambda>e. modify (toast_plain ''error'' (err_message e [])))"

text \<open>The message under a field is that of the last issue about it; issues about the whole are not shown.\<close>

definition field_errors :: "zissue list \<Rightarrow> (string \<times> string) list" where
  "field_errors issues = foldl (\<lambda>m (path, msg). case path of p # _ \<Rightarrow> if p = [] then m else al_set p msg m | [] \<Rightarrow> m) [] issues"

definition key_submit :: "('w, unit) kfact" where
  "key_submit = bnd (asks key_payload) (\<lambda>payload. bnd (safe_parse CreateKeySchema payload) (\<lambda>result. case result of
     Inl issues \<Rightarrow> modify (\<lambda>w. w\<lparr>kf_errors := field_errors issues\<rparr>)
   | Inr d \<Rightarrow> bnd (modify (\<lambda>w. w\<lparr>kf_errors := []\<rparr>)) (\<lambda>_. key_create d)))"

definition handleCloseSecretModal :: "'w key_form_scheme \<Rightarrow> 'w key_form_scheme" where
  "handleCloseSecretModal w = w\<lparr>kf_secretShown := False, kf_secret := JStr []\<rparr>"

section \<open>scope-catalog-sheet.tsx\<close>

record catalog_world = pworld +
  sc_scopes :: "jsval list"
  sc_loading :: bool
  sc_creating :: bool
  sc_name :: string
  sc_description :: string

type_synonym ('w, 'a) scact = "('w catalog_world_scheme, 'a) js"

definition loadScopes :: "('w, unit) scact" where
  "loadScopes = bnd (modify (\<lambda>w. w\<lparr>sc_loading := True\<rparr>)) (\<lambda>_. try_finally
     (bnd (fetch (get_request ''/api/vulcan/scopes'')) (\<lambda>res. bnd (ok_data ''Failed to load scopes'' res) (\<lambda>d.
      modify (\<lambda>w. w\<lparr>sc_scopes := (if is_arr d then elems d else [])\<rparr>))))
     (\<lambda>_. modify (toast_plain ''error'' ''Failed to load scope catalogue'')) (\<lambda>w. w\<lparr>sc_loading := False\<rparr>))"

text \<open>The list is loaded again without waiting for it; here the load runs to its end first.\<close>

definition scope_add :: "('w, unit) scact" where
  "scope_add = bnd (asks (\<lambda>w. (trim (sc_name w), trim (sc_description w)))) (\<lambda>(name, description).
     if name = [] then ret () else
     bnd (modify (\<lambda>w. w\<lparr>sc_creating := True\<rparr>)) (\<lambda>_. try_finally
       (bnd (fetch (json_send ''POST'' ''/api/vulcan/scopes'' (JObj [(''name'', JStr name), (''description'', JStr description)]))) (\<lambda>res.
        if \<not> rs_ok res then fail_msg ''Failed to create scope''
        else bnd (modify (\<lambda>w. toast_plain ''success'' (''Scope '' @ quoted name @ '' added'') (w\<lparr>sc_name := [], sc_description := []\<rparr>)))
          (\<lambda>_. loadScopes)))
       (\<lambda>_. modify (toast_plain ''error'' ''Failed to register scope'')) (\<lambda>w. w\<lparr>sc_creating := False\<rparr>)))"

definition scope_remove :: "string \<Rightarrow> ('w, unit) scact" where
  "scope_remove name = try_catch
     (bnd (fetch (delete_request (''/api/vulcan/scopes/'' @ encode_uri_component name))) (\<lambda>res.
      if \<not> rs_ok res then fail_msg ''Failed to delete scope''
      else bnd (modify (toast_plain ''success'' (''Scope '' @ quoted name @ '' deleted''))) (\<lambda>_. loadScopes)))
     (\<lambda>_. modify (toast_plain ''error'' ''Failed to remove scope''))"

section \<open>attenuation-studio.tsx\<close>

record studio_caveat =
  ca_ident :: string
  ca_value :: string

record attenuation_world = pworld +
  at_keyId :: string
  at_secret :: string
  at_caveats :: "studio_caveat list"
  at_token :: jsval
  at_decoded :: jsval
  at_generating :: bool

type_synonym ('w, 'a) atact = "('w attenuation_world_scheme, 'a) js"

definition initial_caveats :: "studio_caveat list" where
  "initial_caveats = [\<lparr>ca_ident = ''1'', ca_value = ''time_before = 2026-12-31T23:59:59Z''\<rparr>, \<lparr>ca_ident = ''2'', ca_value = ''ip = 192.168.1.100''\<rparr>]"

definition studio_keys :: "('w, jsval) act" where
  "studio_keys = bnd (fetch (get_request ''/api/vulcan/keys'')) (ok_data ''Failed to fetch keys'')"

definition activeKeys :: "jsval list \<Rightarrow> jsval list" where
  "activeKeys keys = filter (\<lambda>k. \<not> truthy (member k ''revoked'')) keys"

definition selectedKey :: "string \<Rightarrow> jsval list \<Rightarrow> jsval option" where
  "selectedKey keyId keys = find (\<lambda>k. strict_eq (member k ''id'') (JStr keyId)) keys"

definition studio_addCaveat :: "string \<Rightarrow> string \<Rightarrow> 'w attenuation_world_scheme \<Rightarrow> 'w attenuation_world_scheme" where
  "studio_addCaveat fresh preset w = w\<lparr>at_caveats := at_caveats w @ [\<lparr>ca_ident = fresh, ca_value = preset\<rparr>]\<rparr>"

definition removeCaveat :: "string \<Rightarrow> 'w attenuation_world_scheme \<Rightarrow> 'w attenuation_world_scheme" where
  "removeCaveat i w = w\<lparr>at_caveats := filter (\<lambda>c. ca_ident c \<noteq> i) (at_caveats w)\<rparr>"

definition updateCaveat :: "string \<Rightarrow> string \<Rightarrow> 'w attenuation_world_scheme \<Rightarrow> 'w attenuation_world_scheme" where
  "updateCaveat i v w = w\<lparr>at_caveats := map (\<lambda>c. if ca_ident c = i then c\<lparr>ca_value := v\<rparr> else c) (at_caveats w)\<rparr>"

definition validCaveats :: "studio_caveat list \<Rightarrow> string list" where
  "validCaveats cs = filter (\<lambda>v. v \<noteq> []) (map (\<lambda>c. trim (ca_value c)) cs)"

definition attenuation_body :: "'w attenuation_world_scheme \<Rightarrow> jsval" where
  "attenuation_body w = JObj [(''keyId'', JStr (at_keyId w)), (''secret'', JStr (at_secret w)),
     (''caveats'', JArr (map JStr (validCaveats (at_caveats w))))]"

definition decoded_text :: "jsval \<Rightarrow> jsval" where
  "decoded_text m = (if json_keeps m then JStr (json_pretty m) else JUndef)"

definition show_generated :: "jsval \<Rightarrow> ('w, unit) atact" where
  "show_generated d = bnd (lift (get_prop d ''token'')) (\<lambda>t. modify (\<lambda>w. toast_plain ''success'' ''Macaroon generated successfully!''
     (w\<lparr>at_token := t, at_decoded := decoded_text (member d ''macaroon'')\<rparr>)))"

definition handleGenerate :: "('w, unit) atact" where
  "handleGenerate = bnd (asks (\<lambda>w. (at_keyId w = [] \<or> at_secret w = [], attenuation_body w))) (\<lambda>(missing, body).
     if missing then modify (toast_plain ''error'' ''Root Key and Secret are required'') else
     bnd (modify (\<lambda>w. w\<lparr>at_generating := True\<rparr>)) (\<lambda>_. try_finally
       (bnd (fetch (json_send ''POST'' ''/api/vulcan/macaroons/attenuate'' body)) (\<lambda>res.
        bnd (checked_answer ''Failed to generate macaroon'' res) show_generated))
       (\<lambda>e. modify (toast_plain ''error'' (case e of Error _ msg \<Rightarrow> msg | Thrown v \<Rightarrow> to_str v))) (\<lambda>w. w\<lparr>at_generating := False\<rparr>)))"

section \<open>macaroon-inspector.tsx\<close>

record inspector_world = pworld +
  in_token :: string
  in_parsed :: jsval
  in_ip :: string
  in_method :: string
  in_path :: string
  in_verifying :: bool
  in_result :: jsval

text \<open>\<open>atob\<close>: white space is dropped, and one or two \<open>=\<close> that fill the last group of four.\<close>

definition base64_val :: "char \<Rightarrow> nat option" where
  "base64_val c = (if c = CHR ''-'' \<or> c = CHR ''_'' then None else b64_val c)"

definition unpadded :: "string \<Rightarrow> string" where
  "unpadded s = (if length s mod 4 \<noteq> 0 then s
     else if take 2 (rev s) = ''=='' then take (length s - 2) s
     else if take 1 (rev s) = ''='' then take (length s - 1) s else s)"

definition atob :: "string \<Rightarrow> string option" where
  "atob s = (let t = unpadded (filter (\<lambda>c. (of_char c :: nat) \<notin> {9, 10, 12, 13, 32}) s) in
     if length t mod 4 = 1 \<or> \<not> list_all (\<lambda>c. base64_val c \<noteq> None) t then None
     else Some (map char_of (sextets (List.map_filter base64_val t))))"

definition macaroon_shaped :: "jsval \<Rightarrow> bool res" where
  "macaroon_shaped v = map_sum id (\<lambda>l. truthy l \<and> truthy (member v ''key_id'') \<and> truthy (member v ''signature'')) (get_prop v ''location'')"

text \<open>One of the two attempts: \<open>None\<close> when it throws or its value has not the three fields.\<close>

definition read_macaroon :: "string option \<Rightarrow> jsval option" where
  "read_macaroon t = (case t of None \<Rightarrow> None | Some s \<Rightarrow> (case json_parse s of None \<Rightarrow> None
   | Some v \<Rightarrow> if macaroon_shaped v = Inr True then Some v else None))"

definition handleParse :: "'w inspector_world_scheme \<Rightarrow> 'w inspector_world_scheme" where
  "handleParse w = (let w0 = w\<lparr>in_result := JNull\<rparr>; t = trim (in_token w) in
     if t = [] then w0\<lparr>in_parsed := JNull\<rparr>
     else case read_macaroon (Some t) of
       Some v \<Rightarrow> toast_plain ''success'' ''Macaroon decoded successfully'' (w0\<lparr>in_parsed := v\<rparr>)
     | None \<Rightarrow> (case read_macaroon (atob t) of
         Some v \<Rightarrow> toast_plain ''success'' ''Base64 Macaroon decoded successfully'' (w0\<lparr>in_parsed := v\<rparr>)
       | None \<Rightarrow> toast_plain ''error'' ''Could not parse token as valid JSON or Base64 Macaroon'' w0))"

definition verify_body :: "'w inspector_world_scheme \<Rightarrow> string \<Rightarrow> jsval" where
  "verify_body w now = JObj [(''macaroon'', in_parsed w), (''context'', JObj [(''now'', JStr now), (''ip_address'', JStr (in_ip w)),
     (''method'', JStr (in_method w)), (''path'', JStr (in_path w))])]"

definition show_verdict :: "jsval \<Rightarrow> ('w inspector_world_scheme, unit) js" where
  "show_verdict d = bnd (modify (\<lambda>w. w\<lparr>in_result := d\<rparr>)) (\<lambda>_. bnd (lift (get_prop d ''valid'')) (\<lambda>v.
     if truthy v then modify (toast_plain ''success'' ''Macaroon signature and caveats verified!'')
     else modify (toast_plain ''error'' (''Verification failed: '' @ to_str (js_or (member d ''error'') (JStr ''Caveat mismatch''))))))"

definition handleVerify :: "('w inspector_world_scheme, unit) js" where
  "handleVerify = bnd (asks (\<lambda>w. (truthy (in_parsed w), verify_body w))) (\<lambda>(parsed, body).
     if \<not> parsed then modify (toast_plain ''error'' ''Please parse a valid Macaroon first'') else
     bnd (modify (\<lambda>w. w\<lparr>in_verifying := True\<rparr>)) (\<lambda>_. try_finally
       (bnd now_iso (\<lambda>now. bnd (fetch (json_send ''POST'' ''/api/vulcan/verify'' (body now))) (\<lambda>res.
        bnd (checked_answer ''Verification failed'' res) show_verdict)))
       (toast_error ''Verification request failed'') (\<lambda>w. w\<lparr>in_verifying := False\<rparr>)))"

section \<open>What the inspector makes of the studio's macaroons\<close>

definition latin1 :: "string \<Rightarrow> string" where
  "latin1 s = map char_of (utf8_bytes s)"

lemma latin1_simps [simp]: "latin1 [] = []" "latin1 (a @ b) = latin1 a @ latin1 b"
  by (simp_all add: latin1_def utf8_bytes_def)

lemma latin1_Cons: "latin1 (c # s) = latin1 [c] @ latin1 s"
  by (simp add: latin1_def utf8_bytes_def)

lemma latin1_ascii: "list_all (\<lambda>c. (of_char c :: nat) < 128) s \<Longrightarrow> latin1 s = s"
  by (induction s) (simp_all add: latin1_def utf8_bytes_def utf8_def)

lemma latin1_join: "latin1 (join sep xs) = join (latin1 sep) (map latin1 xs)"
  by (induction sep xs rule: join.induct) auto

lemma hex_byte_ascii: "n < 32 \<Longrightarrow> list_all (\<lambda>c. (of_char c :: nat) < 128) (hex_byte n)"
  by (simp add: hex_byte_def hex_digit_def) (use mod_less_divisor [of 16 n] in linarith)

lemma latin1_esc: "latin1 (esc_char c) = concat (map esc_char (latin1 [c]))"
proof (cases "(of_char c :: nat) < 128")
  case True
  then have "latin1 (esc_char c) = esc_char c"
    using hex_byte_ascii by (intro latin1_ascii) (auto simp: esc_char_def Let_def)
  then show ?thesis using True by (simp add: latin1_ascii)
next
  case False
  let ?n = "of_char c :: nat"
  have "?n < 4 * 64" by simp
  then have "?n div 64 < 4" by (rule less_mult_imp_div_less)
  then have "192 + ?n div 64 < 256" "128 + ?n mod 64 < 256" by auto
  with False show ?thesis by (simp add: latin1_def utf8_bytes_def utf8_def esc_char_def Let_def)
qed

lemma latin1_escs: "latin1 (concat (map esc_char s)) = concat (map esc_char (latin1 s))"
proof (induction s)
  case (Cons c s)
  then show ?case by (simp add: latin1_esc latin1_Cons [of c s])
qed simp

lemma latin1_const [simp]: "(of_char c :: nat) < 128 \<Longrightarrow> latin1 (c # s) = c # latin1 s"
  using latin1_ascii [of "[c]"] by (simp add: latin1_Cons [of c s])

lemma latin1_string: "latin1 (print_string s) = print_string (latin1 s)"
  by (simp add: print_string_def latin1_escs)

definition latin1_macaroon :: "macaroon \<Rightarrow> macaroon" where
  "latin1_macaroon m = \<lparr>mc_id = latin1 (mc_id m), mc_location = latin1 (mc_location m), mc_caveats = map latin1 (mc_caveats m),
     mc_signature = latin1 (mc_signature m)\<rparr>"

lemma latin1_print: "latin1 (print_json (macaroon_json m)) = print_json (macaroon_json (latin1_macaroon m))"
  by (simp add: macaroon_json_def latin1_macaroon_def latin1_join latin1_string o_def)

lemma not_shaped: "macaroon_shaped (macaroon_json m) \<noteq> Inr True"
  by (simp add: macaroon_shaped_def macaroon_json_def proto_get_def object_proto_names_def)

lemma unpadded_set: "set t \<subseteq> insert CHR ''='' (set (unpadded t))"
proof (cases "unpadded t = t")
  case False
  then consider r where "rev t = ''=='' @ r" | r where "rev t = ''='' @ r"
    by (metis append_take_drop_id unpadded_def)
  then show ?thesis
  proof cases
    case 1
    then have t: "t = rev r @ ''==''" by (simp add: rev_swap)
    show ?thesis unfolding t by (auto simp: unpadded_def)
  next
    case 2
    then have t: "t = rev r @ ''=''" by (simp add: rev_swap)
    show ?thesis
    proof (cases r)
      case (Cons c r')
      then show ?thesis unfolding t by (auto simp: unpadded_def)
    qed (simp add: t unpadded_def)
  qed
qed auto

lemma unpadded_plain: "CHR ''='' \<notin> set t \<Longrightarrow> unpadded t = t"
proof -
  assume n: "CHR ''='' \<notin> set t"
  have "take 2 (rev t) \<noteq> ''==''" "take 1 (rev t) \<noteq> ''=''"
    using n set_take_subset [of 2 "rev t"] set_take_subset [of 1 "rev t"] by auto
  then show ?thesis by (simp add: unpadded_def)
qed

lemma atob_brace: "atob (CHR ''{'' # s) = None"
proof -
  let ?t = "filter (\<lambda>c. (of_char c :: nat) \<notin> {9, 10, 12, 13, 32}) (CHR ''{'' # s)"
  have "CHR ''{'' \<in> set (unpadded ?t)" using unpadded_set [of ?t] by auto
  moreover have "base64_val CHR ''{'' = None" by (simp add: base64_val_def b64_val_def is_upper_def is_lower_def is_digit_def)
  ultimately have "\<not> list_all (\<lambda>c. base64_val c \<noteq> None) (unpadded ?t)" by (auto simp: list_all_iff)
  then show ?thesis by (simp add: atob_def Let_def)
qed

lemma b64_char_plain: "i < 64 \<Longrightarrow> (of_char (b64_char i) :: nat) \<notin> {9, 10, 12, 13, 32} \<and> \<not> is_space (b64_char i)"
proof -
  have "\<forall>i \<in> set [0..<64]. (of_char (b64_char i) :: nat) \<notin> {9, 10, 12, 13, 32} \<and> \<not> is_space (b64_char i)"
    by (simp add: upt_rec b64_char_def is_space_def)
  then show "i < 64 \<Longrightarrow> ?thesis" by simp
qed

lemma atob_chars:
  assumes "list_all (\<lambda>i. i < 64) ss"
  shows "atob (map b64_char ss) = None \<or> atob (map b64_char ss) = Some (map char_of (sextets ss))"
proof -
  have f: "filter (\<lambda>c. (of_char c :: nat) \<notin> {9, 10, 12, 13, 32}) (map b64_char ss) = map b64_char ss"
    using assms b64_char_plain by (auto simp: filter_id_conv list_all_iff)
  have u: "unpadded (map b64_char ss) = map b64_char ss"
    using assms b64_val_char by (intro unpadded_plain) (fastforce simp: list_all_iff)
  have "List.map_filter base64_val (map b64_char ss) = ss" if "list_all (\<lambda>c. base64_val c \<noteq> None) (map b64_char ss)"
    using that assms by (induction ss) (auto simp: List.map_filter_simps base64_val_def b64_val_char split: if_splits)
  then show ?thesis unfolding atob_def f u by (auto simp: Let_def)
qed

lemma to_b64_head: "\<exists>r. to_base64url (a # bs) = b64_char (a div 4) # r"
  by (cases bs; cases "tl bs") auto

lemma parse_e: "json_parse (CHR ''e'' # s) = None"
  by (simp add: json_parse_def skip_ws_def is_json_space_def starts_with_def parse_number_def is_digit_def Let_def)

lemma utf8_bytes_brace: "utf8_bytes (CHR ''{'' # s) = 123 # utf8_bytes s"
  by (simp add: utf8_bytes_def utf8_def)

lemma console_token:
  fixes m :: macaroon
  defines "t \<equiv> serializeMacaroon m"
  shows "trim t = t" "t \<noteq> []" "read_macaroon (Some t) = None" "read_macaroon (atob t) = None"
proof -
  let ?bs = "utf8_bytes (json_stringify (macaroon_json m))"
  obtain ss where ss: "t = map b64_char ss" "list_all (\<lambda>i. i < 64) ss" "sextets ss = ?bs"
    using to_base64url_sextets [OF utf8_bytes_byte] unfolding t_def serializeMacaroon_def by blast
  have "json_stringify (macaroon_json m) = CHR ''{'' # tl (json_stringify (macaroon_json m))"
    by (simp add: json_stringify_def clean_plain macaroon_plain) (simp add: macaroon_json_def)
  then have "?bs = 123 # utf8_bytes (tl (json_stringify (macaroon_json m)))"
    by (metis utf8_bytes_brace)
  then obtain bs where "?bs = 123 # bs" ..
  then obtain r where r: "t = CHR ''e'' # r"
    using to_b64_head [of 123 bs] by (auto simp: t_def serializeMacaroon_def b64_char_def)
  show "t \<noteq> []" "read_macaroon (Some t) = None" by (simp_all add: r read_macaroon_def parse_e)
  have "\<not> is_space c" if "c \<in> set t" for c using that ss b64_char_plain by (auto simp: list_all_iff)
  then show "trim t = t" using r by (intro trim_ends) (auto intro: hd_in_set last_in_set)
  have "json_parse (map char_of ?bs) = Some (macaroon_json (latin1_macaroon m))"
    using latin1_print [of m] json_parse_text [OF print_text [OF macaroon_plain]]
    by (simp add: latin1_def json_stringify_def clean_plain macaroon_plain)
  then show "read_macaroon (atob t) = None"
    using atob_chars [OF ss(2)] ss(1,3) not_shaped by (auto simp: read_macaroon_def)
qed

lemma console_json:
  assumes "s \<in> {json_stringify (macaroon_json m), json_pretty (macaroon_json m)}"
  shows "trim s = s" "s \<noteq> []" "read_macaroon (Some s) = None" "read_macaroon (atob s) = None"
proof -
  have "\<exists>u. s = CHR ''{'' # u @ ''}''"
    using assms by (auto simp: json_stringify_def json_pretty_def clean_plain macaroon_plain) (simp_all add: macaroon_json_def)
  then obtain u where u: "s = CHR ''{'' # u @ ''}''" ..
  show "trim s = s" by (rule trim_ends) (simp_all add: u is_space_def)
  show "s \<noteq> []" "read_macaroon (atob s) = None" by (simp_all add: u atob_brace read_macaroon_def)
  have "json_parse s = Some (macaroon_json m)" using assms macaroon_plain by (auto simp: parse_stringify parse_pretty)
  then show "read_macaroon (Some s) = None" using not_shaped by (simp add: read_macaroon_def)
qed

text \<open>
  C32. The inspector cannot read what the studio of the same page makes: for every macaroon of the console, the token the attenuation route issues,
  its JSON text and the indented JSON that the studio displays are all refused as neither JSON nor a macaroon, and the macaroon inspected before stays in
  place. The JSON text of an object with the three fields the inspector asks for is taken.
\<close>

theorem inspector_refuses_console_macaroons:
  "(in_token w \<in> {serializeMacaroon m, json_stringify (macaroon_json m), json_pretty (macaroon_json m)} \<longrightarrow>
     handleParse w = toast_plain ''error'' ''Could not parse token as valid JSON or Base64 Macaroon'' (w\<lparr>in_result := JNull\<rparr>)) \<and>
   (json_plain (JObj kvs) \<longrightarrow> macaroon_shaped (JObj kvs) = Inr True \<longrightarrow> in_token w = json_stringify (JObj kvs) \<longrightarrow>
     in_parsed (handleParse w) = JObj kvs)"
proof (intro conjI impI)
  assume t: "in_token w \<in> {serializeMacaroon m, json_stringify (macaroon_json m), json_pretty (macaroon_json m)}"
  have "trim (in_token w) = in_token w" "in_token w \<noteq> []" "read_macaroon (Some (in_token w)) = None" "read_macaroon (atob (in_token w)) = None"
    using t console_token [of m] console_json [of "in_token w" m] by auto
  then show "handleParse w = toast_plain ''error'' ''Could not parse token as valid JSON or Base64 Macaroon'' (w\<lparr>in_result := JNull\<rparr>)"
    by (simp add: handleParse_def Let_def)
next
  assume v: "json_plain (JObj kvs)" "macaroon_shaped (JObj kvs) = Inr True" and t: "in_token w = json_stringify (JObj kvs)"
  have "\<exists>u. json_stringify (JObj kvs) = CHR ''{'' # u @ ''}''" by (simp add: json_stringify_def clean_plain [OF v(1)])
  then obtain u where u: "in_token w = CHR ''{'' # u @ ''}''" using t by auto
  have "trim (in_token w) = in_token w" by (rule trim_ends) (simp_all add: u is_space_def)
  moreover have "read_macaroon (Some (in_token w)) = Some (JObj kvs)"
    using v t by (simp add: read_macaroon_def parse_stringify)
  ultimately show "in_parsed (handleParse w) = JObj kvs"
    using u by (simp add: handleParse_def Let_def toast_plain_def)
qed

definition example_inspector :: "string \<Rightarrow> inspector_world" where
  "example_inspector t = pworld.extend (example_page (\<lambda>_. ok_text ''{}'')) \<lparr>in_token = t, in_parsed = JNull, in_ip = ''192.168.1.50'',
     in_method = ''GET'', in_path = ''/api/v1/resources'', in_verifying = False, in_result = JNull\<rparr>"

theorem inspector_refuses_console_macaroons_witness:
  "let m = addCaveat toy_hmac (createMacaroon toy_hmac ''k1'' ''s'' ''autorix.console'') ''ip = 10.0.0.1'';
       w = example_inspector (serializeMacaroon m)
   in handleParse w = toast_plain ''error'' ''Could not parse token as valid JSON or Base64 Macaroon'' (w\<lparr>in_result := JNull\<rparr>)"
  unfolding Let_def
  by (rule inspector_refuses_console_macaroons [of _ "addCaveat toy_hmac (createMacaroon toy_hmac ''k1'' ''s'' ''autorix.console'') ''ip = 10.0.0.1''",
        THEN conjunct1, rule_format])
    (simp add: example_inspector_def pworld.defs)

end
