(* ===== verification/EvidencePages.thy ===== *)
theory EvidencePages
  imports JsonText OpsRoutes Redact
begin

text \<open>
  The pages an auditor reads: app/audit/page.tsx (the log, its filters and exports, the banner about the hash chain),
  app/compliance/page.tsx (the controls and the evidence package) and the notifications of the frame
  (components/layout/notification-center.tsx), which keep what was read and dismissed in the browser's storage.
\<close>

section \<open>app/audit/page.tsx\<close>

record audit_filter =
  af_search :: string
  af_action :: string
  af_resource :: string
  af_outcome :: string

definition unless_all :: "string \<Rightarrow> string \<Rightarrow> params \<Rightarrow> params" where
  "unless_all k v ps = (if v = ''ALL'' then ps else params_append k v ps)"

definition audit_params :: "audit_filter \<Rightarrow> params" where
  "audit_params f = unless_all ''outcome'' (af_outcome f) (unless_all ''resource_type'' (af_resource f) (unless_all ''action'' (af_action f) []))"

text \<open>The entries of an answer, each parsed by its schema; an answer that is not ok counts as none.\<close>

definition listed_entries :: "(zissue list \<Rightarrow> string) \<Rightarrow> zschema \<Rightarrow> http_response \<Rightarrow> ('w, jsval list) act" where
  "listed_entries zmsg schema res = (if \<not> rs_ok res then ret [] else bnd (response_json res) (\<lambda>json.
     if is_arr json then map_m (zod_parse zmsg schema) (elems json)
     else bnd (lift (get_prop json ''data'')) (\<lambda>d. if is_arr d then map_m (zod_parse zmsg schema) (elems d) else ret [])))"

definition fetch_audit :: "(zissue list \<Rightarrow> string) \<Rightarrow> audit_filter \<Rightarrow> ('w, jsval list) act" where
  "fetch_audit zmsg f = bnd (fetch (get_request (''/api/audit?'' @ params_string (audit_params f)))) (listed_entries zmsg auditEntrySchema)"

definition presumed_verification :: "string \<Rightarrow> jsval" where
  "presumed_verification now = JObj [(''verified'', JBool True), (''chain_length'', jint 0), (''head_hash'', JStr []), (''genesis_hash'', JStr []),
     (''verified_at'', JStr now), (''algorithm'', JStr ''SHA-256'')]"

definition fetch_verification :: "('w, jsval) act" where
  "fetch_verification = bnd (fetch (get_request ''/api/audit/verify'')) (\<lambda>res.
     if \<not> rs_ok res then bnd now_iso (\<lambda>now. ret (presumed_verification now)) else response_json res)"

text \<open>The texts of the banner; \<open>v\<close> is the data of the query, \<open>undefined\<close> before its first answer and after an error.\<close>

definition chain_banner :: "jsval \<Rightarrow> string list res" where
  "chain_banner v = map_sum id (\<lambda>head. [''Tamper-Evident Hash Chain Verified'', ''SHA-256 INTACT'',
       ''Cryptographic integrity validated across '' @ to_str (js_coalesce (opt_prop v ''chain_length'') (jint 1042)) @
         '' records. Zero broken links or state alterations detected.'',
       ''Head: '' @ to_str (js_coalesce head (JStr ''a4f8e91c7b3d2e0f'')) @ ''...'',
       ''Algorithm: '' @ to_str (js_coalesce (opt_prop v ''algorithm'') (JStr ''SHA-256''))])
     (let h = opt_prop v ''head_hash'' in if nullish h then Inr JUndef else js_slice ''verification.head_hash'' 16 h)"

definition contains_lower :: "string \<Rightarrow> jsval \<Rightarrow> bool" where
  "contains_lower q v = str_includes (to_lower (to_str v)) (to_lower q)"

text \<open>The entries have passed their schema: the fields searched are strings.\<close>

definition log_matches :: "audit_filter \<Rightarrow> jsval \<Rightarrow> bool" where
  "log_matches f l \<longleftrightarrow> (af_search f = [] \<or> contains_lower (af_search f) (member l ''actor'') \<or> contains_lower (af_search f) (member l ''resource_id'') \<or>
       contains_lower (af_search f) (member l ''action'') \<or>
       truthy (member l ''request_id'') \<and> contains_lower (af_search f) (member l ''request_id'')) \<and>
     (af_action f = ''ALL'' \<or> member l ''action'' = JStr (af_action f)) \<and>
     (af_resource f = ''ALL'' \<or> member l ''resource_type'' = JStr (af_resource f)) \<and>
     (af_outcome f = ''ALL'' \<or> member l ''outcome'' = JStr (af_outcome f))"

definition filteredLogs :: "audit_filter \<Rightarrow> jsval list \<Rightarrow> jsval list" where
  "filteredLogs f logs = filter (log_matches f) logs"

definition audit_row :: "jsval \<Rightarrow> string list" where
  "audit_row l = map to_str (map (member l) [''id'', ''timestamp'', ''actor'', ''action'', ''resource_type'', ''resource_id'', ''environment'', ''outcome''] @
     [js_or (member l ''hash'') (JStr [])])"

definition audit_csv :: "jsval list \<Rightarrow> string" where
  "audit_csv logs = join [CHR 0x0A] (join '','' [''ID'', ''Timestamp'', ''Actor'', ''Action'', ''ResourceType'', ''ResourceId'', ''Environment'',
     ''Outcome'', ''Hash''] # map (\<lambda>l. join '','' (map (\<lambda>c. [CHR 0x22] @ c @ [CHR 0x22]) (audit_row l))) logs)"

definition audit_export :: "bool \<Rightarrow> jsval list \<Rightarrow> ('w, unit) pact" where
  "audit_export json logs = bnd now_iso (\<lambda>now. modify (download (''autorix-audit-log-'' @ take 10 now @ (if json then ''.json'' else ''.csv''))
     (if json then json_pretty (JArr logs) else audit_csv logs)))"

text \<open>What the dialog of an entry shows of the state before and after; nothing for a missing state.\<close>

definition state_code :: "jsval \<Rightarrow> string option" where
  "state_code v = (if truthy v then Some (json_pretty (redactObject v)) else None)"

section \<open>app/compliance/page.tsx\<close>

record compliance_world = pworld +
  co_framework :: string
  co_search :: string
  co_period :: string
  co_controls :: "jsval list"
  co_generating :: bool

definition fetch_controls :: "(zissue list \<Rightarrow> string) \<Rightarrow> ('w, jsval list) act" where
  "fetch_controls zmsg = bnd (fetch (get_request ''/api/compliance/evidence'')) (listed_entries zmsg complianceEvidenceItemSchema)"

definition control_matches :: "string \<Rightarrow> string \<Rightarrow> jsval \<Rightarrow> bool" where
  "control_matches framework search c \<longleftrightarrow> (framework = ''ALL'' \<or>
       framework = ''SOC2'' \<and> str_includes (to_str (member c ''framework'')) ''SOC 2'' \<or>
       framework = ''ISO27001'' \<and> str_includes (to_str (member c ''framework'')) ''ISO'') \<and>
     (search = [] \<or> contains_lower search (member c ''control_id'') \<or> contains_lower search (member c ''control_name'') \<or>
       contains_lower search (member c ''description'') \<or> truthy (member c ''engine'') \<and> contains_lower search (member c ''engine''))"

definition filteredControls :: "'w compliance_world_scheme \<Rightarrow> jsval list" where
  "filteredControls w = filter (control_matches (co_framework w) (co_search w)) (co_controls w)"

definition passingCount :: "jsval list \<Rightarrow> nat" where
  "passingCount controls = length (filter (\<lambda>c. member c ''status'' = JStr ''compliant'') controls)"

definition passingPercent :: "jsval list \<Rightarrow> int" where
  "passingPercent controls = (if controls = [] then 100
     else \<lfloor>of_nat (passingCount controls) / of_nat (length controls) * 100 + 1 / (2 :: rat)\<rfloor>)"

text \<open>\<open>s.replace(/\s+/g, "-")\<close>\<close>

fun dash_spaces :: "bool \<Rightarrow> string \<Rightarrow> string" where
  "dash_spaces was [] = []"
| "dash_spaces was (c # s) = (if is_space c then (if was then [] else ''-'') @ dash_spaces True s else c # dash_spaces False s)"

definition package_payload :: "'w compliance_world_scheme \<Rightarrow> string \<Rightarrow> string \<Rightarrow> jsval" where
  "package_payload w framework now = JObj [
     (''framework'', JStr (if framework = ''ALL'' then ''SOC 2 Type II & ISO/IEC 27001:2022'' else framework)),
     (''period'', JStr (co_period w)), (''generated_at'', JStr now), (''issuer'', JStr ''Autorix Control Plane Security Evaluator''),
     (''summary'', JObj [(''total_controls'', jint (int (length (co_controls w)))), (''passing_controls'', jint (int (passingCount (co_controls w)))),
       (''failing_controls'', jint 0), (''compliance_percentage'', JStr (show_int (passingPercent (co_controls w)) @ ''%''))]),
     (''audit_trail_integrity'', JObj [(''chain_length'', jint 1042), (''algorithm'', JStr ''SHA-256''), (''status'', JStr ''VERIFIED_TAMPER_EVIDENT''),
       (''head_hash'', JStr ''a4f8e91c7b3d2e0f8a9c1b2d3e4f5a6b7c8d9e0f1a2b3c4d5e6f7a8b9c0d1e2f'')]),
     (''controls'', JArr (filteredControls w))]"

definition package_name :: "string \<Rightarrow> string \<Rightarrow> string" where
  "package_name framework period = ''autorix-compliance-package-'' @ dash_spaces False (to_lower framework) @ ''-'' @ period @ ''.json''"

definition handleGeneratePackage :: "string \<Rightarrow> ('w compliance_world_scheme, unit) js" where
  "handleGeneratePackage framework = bnd (asks (\<lambda>w. (package_payload w framework, package_name framework (co_period w)))) (\<lambda>(payload, name).
     bnd (modify (\<lambda>w. w\<lparr>co_generating := True\<rparr>)) (\<lambda>_. bnd now_iso (\<lambda>now.
     bnd (modify (download name (json_pretty (payload now)))) (\<lambda>_. modify (\<lambda>w. w\<lparr>co_generating := False\<rparr>)))))"

section \<open>components/layout/notification-center.tsx\<close>

record notice_world = pworld +
  nt_list :: "jsval list"
  nt_read :: "jsval list"  \<comment> \<open>a set, in the order of insertion\<close>
  nt_dismissed :: "jsval list"
  nt_loading :: bool
  nt_local :: "(string \<times> string) list"
  nt_storage :: bool  \<comment> \<open>whether the storage can be written\<close>

definition READ_KEY :: string where
  "READ_KEY = ''autorix_read_notifications''"

definition DISMISSED_KEY :: string where
  "DISMISSED_KEY = ''autorix_dismissed_notifications''"

text \<open>\<open>new Set(JSON.parse(s))\<close>\<close>

definition set_of_text :: "'w world_scheme \<Rightarrow> string \<Rightarrow> jsval list res" where
  "set_of_text w t = (case json_parse_js w t of Inl e \<Rightarrow> Inl e | Inr v \<Rightarrow> if v = JNull then Inr []
     else map_sum id (\<lambda>xs. rev (remdups (rev xs))) (iterate ''object'' v))"

definition stored_set :: "string \<Rightarrow> jsval list \<Rightarrow> 'w notice_world_scheme \<Rightarrow> jsval list res" where
  "stored_set k d w = (case map_of (nt_local w) k of Some t \<Rightarrow> if t = [] then Inr d else set_of_text w t | None \<Rightarrow> Inr d)"

text \<open>An error of the first text leaves the second unread.\<close>

definition load_notices :: "'w notice_world_scheme \<Rightarrow> 'w notice_world_scheme" where
  "load_notices w = (case stored_set READ_KEY (nt_read w) w of Inl e \<Rightarrow> w
   | Inr r \<Rightarrow> (let w1 = w\<lparr>nt_read := r\<rparr> in case stored_set DISMISSED_KEY (nt_dismissed w1) w1 of Inl e \<Rightarrow> w1 | Inr d \<Rightarrow> w1\<lparr>nt_dismissed := d\<rparr>))"

definition fetchNotifications :: "('w notice_world_scheme, unit) js" where
  "fetchNotifications = try_finally
     (bnd (fetch (get_request ''/api/notifications'')) (\<lambda>res. if \<not> rs_ok res then ret () else bnd (response_json res) (\<lambda>d.
        if is_arr (opt_prop d ''notifications'') then modify (\<lambda>w. w\<lparr>nt_list := elems (opt_prop d ''notifications'')\<rparr>) else ret ())))
     (\<lambda>_. ret ()) (\<lambda>w. w\<lparr>nt_loading := False\<rparr>)"

definition activeNotifications :: "'w notice_world_scheme \<Rightarrow> jsval list" where
  "activeNotifications w = map (\<lambda>n. case n of
       JObj kvs \<Rightarrow> JObj (al_set ''read'' (js_or (member n ''read'') (JBool (member n ''id'' \<in> set (nt_read w)))) kvs) | _ \<Rightarrow> n)
     (filter (\<lambda>n. member n ''id'' \<notin> set (nt_dismissed w)) (nt_list w))"

definition unreadCount :: "'w notice_world_scheme \<Rightarrow> nat" where
  "unreadCount w = length (filter (\<lambda>n. \<not> truthy (member n ''read'')) (activeNotifications w))"

definition set_add :: "jsval \<Rightarrow> jsval list \<Rightarrow> jsval list" where
  "set_add v xs = (if v \<in> set xs then xs else xs @ [v])"

definition store_set :: "string \<Rightarrow> jsval list \<Rightarrow> 'w notice_world_scheme \<Rightarrow> 'w notice_world_scheme" where
  "store_set k xs w = (if nt_storage w then w\<lparr>nt_local := al_set k (json_stringify (JArr xs)) (nt_local w)\<rparr> else w)"

definition markAllRead :: "'w notice_world_scheme \<Rightarrow> 'w notice_world_scheme" where
  "markAllRead w = (let next = fold (\<lambda>n s. set_add (member n ''id'') s) (activeNotifications w) (nt_read w)
     in store_set READ_KEY next (w\<lparr>nt_read := next\<rparr>))"

definition clearNotification :: "string \<Rightarrow> 'w notice_world_scheme \<Rightarrow> 'w notice_world_scheme" where
  "clearNotification i w = (let next = set_add (JStr i) (nt_dismissed w) in store_set DISMISSED_KEY next (w\<lparr>nt_dismissed := next\<rparr>))"

section \<open>Evidence that says what it always says\<close>

text \<open>
  The audit page reports the hash chain as verified whatever the verification says: an answer that is not ok is turned into one that is
  verified, the texts of the banner do not depend on the member \<open>verified\<close>, every banner that is shown has the title and the badge of an
  intact chain, and before any answer it claims 1042 records.
\<close>

theorem audit_banner_always_verified:
  "(\<forall>res. w_upstream w (w_sent w @ [get_request ''/api/audit/verify'']) = Inr res \<longrightarrow> \<not> rs_ok res \<longrightarrow>
     (\<exists>v. fst (fetch_verification w) = Inr v \<and> member v ''verified'' = JBool True)) \<and>
   chain_banner (JObj (al_set ''verified'' b kvs)) = chain_banner (JObj kvs) \<and>
   (\<forall>v ts. chain_banner v = Inr ts \<longrightarrow> take 2 ts = [''Tamper-Evident Hash Chain Verified'', ''SHA-256 INTACT'']) \<and>
   (\<exists>rest. chain_banner JUndef = Inr (''Tamper-Evident Hash Chain Verified'' # ''SHA-256 INTACT'' #
     ''Cryptographic integrity validated across 1042 records. Zero broken links or state alterations detected.'' # rest))"
proof (intro conjI allI impI)
  fix res assume "w_upstream w (w_sent w @ [get_request ''/api/audit/verify'']) = Inr res" "\<not> rs_ok res"
  then show "\<exists>v. fst (fetch_verification w) = Inr v \<and> member v ''verified'' = JBool True"
    by (simp add: fetch_verification_def run presumed_verification_def)
next
  have m: "member (JObj (al_set ''verified'' b kvs)) k = member (JObj kvs) k" if "k \<noteq> ''verified''" for k
    using that by simp
  show "chain_banner (JObj (al_set ''verified'' b kvs)) = chain_banner (JObj kvs)"
    by (simp add: chain_banner_def opt_prop_def m)
next
  fix v ts assume "chain_banner v = Inr ts"
  then show "take 2 ts = [''Tamper-Evident Hash Chain Verified'', ''SHA-256 INTACT'']"
    by (auto simp: chain_banner_def map_sum_def split: sum.splits)
next
  have "show_int 1042 = ''1042''" by code_simp
  then show "\<exists>rest. chain_banner JUndef = Inr (''Tamper-Evident Hash Chain Verified'' # ''SHA-256 INTACT'' #
     ''Cryptographic integrity validated across 1042 records. Zero broken links or state alterations detected.'' # rest)"
    by (simp add: chain_banner_def opt_prop_def js_coalesce_def jint_def del: of_int_numeral)
qed

definition example_evidence :: "jsval list \<Rightarrow> compliance_world" where
  "example_evidence cs = pworld.extend (example_page (\<lambda>_. Inr \<lparr>rs_status = 503, rs_headers = [], rs_text = Inr ''{}''\<rparr>))
     \<lparr>co_framework = ''ALL'', co_search = [], co_period = ''Q3-2026'', co_controls = cs, co_generating = False\<rparr>"

lemma plain_int: "json_plain (jint i)"
  by (simp add: jint_def)

text \<open>
  The evidence package never reports a failing control and always reports a verified audit trail: the file that is saved
  parses to a summary with no failing controls and the status \<open>VERIFIED_TAMPER_EVIDENT\<close> of a fixed chain, whatever status the controls have, without any
  request, and with no controls at all its percentage is 100.
\<close>

theorem evidence_package_fixed:
  assumes "list_all json_plain (co_controls w)"
  shows "\<exists>name content v. p_files (snd (handleGeneratePackage framework w)) = p_files w @ [(name, content)] \<and> json_parse content = Some v \<and>
    member (member v ''summary'') ''failing_controls'' = jint 0 \<and>
    member (member v ''audit_trail_integrity'') ''status'' = JStr ''VERIFIED_TAMPER_EVIDENT'' \<and>
    sends w (handleGeneratePackage framework) = [] \<and>
    (co_controls w = [] \<longrightarrow> member (member v ''summary'') ''compliance_percentage'' = JStr ''100%'')"
proof -
  let ?now = "iso_date (w_clock w (w_ticks w))"
  let ?v = "package_payload w framework ?now"
  have "list_all json_plain (filteredControls w)" using assms by (auto simp: filteredControls_def list_all_iff)
  then have "json_plain ?v" by (simp add: package_payload_def plain_int list_all_iff)
  then have "json_parse (json_pretty ?v) = Some ?v" by (rule parse_pretty)
  moreover have "p_files (snd (handleGeneratePackage framework w)) = p_files w @ [(package_name framework (co_period w), json_pretty ?v)] \<and>
      sends w (handleGeneratePackage framework) = []"
    by (simp add: handleGeneratePackage_def run sends_def download_def package_payload_def filteredControls_def)
  moreover have "show_int 100 = ''100''" by code_simp
  ultimately show ?thesis by (intro exI [of _ "package_name framework (co_period w)"] exI [of _ "json_pretty ?v"] exI [of _ ?v])
    (simp add: package_payload_def passingPercent_def)
qed

theorem evidence_package_fixed_witness:
  "\<exists>name content v. p_files (snd (handleGeneratePackage ''ALL'' (example_evidence [JObj [(''status'', JStr ''non_compliant'')]]))) = [(name, content)] \<and>
    json_parse content = Some v \<and> member (member v ''summary'') ''failing_controls'' = jint 0"
proof -
  let ?w = "example_evidence [JObj [(''status'', JStr ''non_compliant'')]]"
  have c: "co_controls ?w = [JObj [(''status'', JStr ''non_compliant'')]]" and f: "p_files ?w = []"
    by (simp_all add: example_evidence_def example_page_def pworld.defs bworld.defs)
  have "list_all json_plain (co_controls ?w)" by (simp add: c)
  from evidence_package_fixed [OF this, of "''ALL''"] show ?thesis by (auto simp: f)
qed

section \<open>What the storage keeps of the notifications\<close>

datatype notice_op = Dismiss string | ReadAll | Listed "jsval list"

fun notice_step :: "notice_op \<Rightarrow> 'w notice_world_scheme \<Rightarrow> 'w notice_world_scheme" where
  "notice_step (Dismiss i) w = clearNotification i w"
| "notice_step ReadAll w = markAllRead w"
| "notice_step (Listed ns) w = w\<lparr>nt_list := ns\<rparr>"

definition named :: "jsval list \<Rightarrow> bool" where
  "named ns \<longleftrightarrow> list_all (\<lambda>n. is_str (member n ''id'')) ns"

fun op_named :: "notice_op \<Rightarrow> bool" where
  "op_named (Listed ns) \<longleftrightarrow> named ns"
| "op_named _ \<longleftrightarrow> True"

definition mirrored :: "string \<Rightarrow> jsval list \<Rightarrow> 'w notice_world_scheme \<Rightarrow> bool" where
  "mirrored k xs w \<longleftrightarrow> list_all is_str xs \<and> distinct xs \<and> stored_set k [] w = Inr xs"

definition notices_ok :: "'w notice_world_scheme \<Rightarrow> bool" where
  "notices_ok w \<longleftrightarrow> nt_storage w \<and> named (nt_list w) \<and> mirrored READ_KEY (nt_read w) w \<and> mirrored DISMISSED_KEY (nt_dismissed w) w"

lemma is_str_plain: "is_str v \<Longrightarrow> json_plain v"
  by (cases v) auto

lemma set_of_stored: "list_all is_str xs \<Longrightarrow> distinct xs \<Longrightarrow> set_of_text w (json_stringify (JArr xs)) = Inr xs"
proof -
  assume x: "list_all is_str xs" "distinct xs"
  then have "json_parse (json_stringify (JArr xs)) = Some (JArr xs)"
    by (intro parse_stringify) (auto simp: list_all_iff is_str_plain)
  with x(2) show ?thesis by (simp add: set_of_text_def json_parse_js_def iterate_def distinct_remdups_id)
qed

lemma set_of_text_syntax: "w_syntax v = w_syntax w \<Longrightarrow> set_of_text v t = set_of_text w t"
  by (simp add: set_of_text_def json_parse_js_def split: option.split)

lemma stored_set_same: "map_of (nt_local v) k = map_of (nt_local w) k \<Longrightarrow> w_syntax v = w_syntax w \<Longrightarrow> stored_set k d v = stored_set k d w"
  by (auto simp: stored_set_def set_of_text_syntax [of v w] split: option.split)

lemma stored_stored: "json_stringify (JArr xs) \<noteq> []"
  by (simp add: json_stringify_def)

lemma mirrored_store:
  assumes "nt_storage w" "list_all is_str xs" "distinct xs"
  shows "mirrored k xs (store_set k xs w)"
  using assms set_of_stored [OF assms(2,3)] by (simp add: mirrored_def store_set_def stored_set_def stored_stored)

lemma mirrored_other: "k \<noteq> k' \<Longrightarrow> mirrored k xs (store_set k' ys w) = mirrored k xs w"
  using stored_set_same [of "store_set k' ys w" k w "[]"] by (simp add: mirrored_def store_set_def)

lemma mirrored_same: "nt_local v = nt_local w \<Longrightarrow> w_syntax v = w_syntax w \<Longrightarrow> mirrored k xs v = mirrored k xs w"
  using stored_set_same [of v k w "[]"] by (simp add: mirrored_def)

lemma keys_differ: "READ_KEY \<noteq> DISMISSED_KEY" "DISMISSED_KEY \<noteq> READ_KEY"
  by (simp_all add: READ_KEY_def DISMISSED_KEY_def)

lemma set_add_ok: "list_all is_str xs \<and> distinct xs \<Longrightarrow> is_str v \<Longrightarrow> list_all is_str (set_add v xs) \<and> distinct (set_add v xs)"
  by (simp add: set_add_def)

lemma fold_set_add_ok:
  "named ns \<Longrightarrow> list_all is_str xs \<and> distinct xs \<Longrightarrow>
    (let ys = fold (\<lambda>n s. set_add (member n ''id'') s) ns xs in list_all is_str ys \<and> distinct ys)"
  by (induction ns arbitrary: xs) (auto simp: named_def Let_def set_add_ok)

lemma active_named: "named (nt_list w) \<Longrightarrow> named (activeNotifications w)"
  by (auto simp: named_def activeNotifications_def list_all_iff split: jsval.split)

lemma store_set_rest [simp]:
  "nt_read (store_set k xs w) = nt_read w" "nt_dismissed (store_set k xs w) = nt_dismissed w" "nt_list (store_set k xs w) = nt_list w"
  "nt_storage (store_set k xs w) = nt_storage w"
  by (simp_all add: store_set_def)

lemma notice_step_ok: "notices_ok w \<Longrightarrow> op_named oper \<Longrightarrow> notices_ok (notice_step oper w)"
proof (cases oper)
  case (Dismiss i)
  assume w: "notices_ok w"
  let ?xs = "set_add (JStr i) (nt_dismissed w)"
  have "list_all is_str ?xs \<and> distinct ?xs" using w by (intro set_add_ok) (auto simp: notices_ok_def mirrored_def)
  moreover have "mirrored READ_KEY (nt_read w) (w\<lparr>nt_dismissed := ?xs\<rparr>)"
    using w mirrored_same [of "w\<lparr>nt_dismissed := ?xs\<rparr>" w] by (simp add: notices_ok_def)
  ultimately show ?thesis
    using w by (simp add: Dismiss clearNotification_def Let_def notices_ok_def mirrored_store mirrored_other keys_differ)
next
  case ReadAll
  assume w: "notices_ok w"
  let ?xs = "fold (\<lambda>n s. set_add (member n ''id'') s) (activeNotifications w) (nt_read w)"
  have "list_all is_str ?xs \<and> distinct ?xs"
    using w fold_set_add_ok [OF active_named, of w "nt_read w"] by (simp add: notices_ok_def mirrored_def Let_def)
  moreover have "mirrored DISMISSED_KEY (nt_dismissed w) (w\<lparr>nt_read := ?xs\<rparr>)"
    using w mirrored_same [of "w\<lparr>nt_read := ?xs\<rparr>" w] by (simp add: notices_ok_def)
  ultimately show ?thesis
    using w by (simp add: ReadAll markAllRead_def Let_def notices_ok_def mirrored_store mirrored_other keys_differ)
next
  case (Listed ns)
  assume "notices_ok w" "op_named oper"
  then show ?thesis using mirrored_same [of "w\<lparr>nt_list := ns\<rparr>" w] by (simp add: Listed notices_ok_def)
qed

lemma notice_steps_ok: "notices_ok w \<Longrightarrow> list_all op_named ops \<Longrightarrow> notices_ok (fold notice_step ops w)"
  by (induction ops arbitrary: w) (auto simp: notice_step_ok)

text \<open>
  C34. What was read and dismissed survives a reload: after any sequence of dismissals, marking all as read and arriving lists, started with
  nothing stored and the storage working, a page that starts anew reads from the storage exactly the sets the last page had, so that the
  same notifications are shown, in the same state, when the same list arrives.
\<close>

theorem notices_survive_reload:
  assumes "nt_storage w" "nt_local w = []" "nt_read w = []" "nt_dismissed w = []" "nt_list w = []" "list_all op_named ops"
  defines "v \<equiv> fold notice_step ops w"
  shows "nt_read (load_notices (v\<lparr>nt_read := [], nt_dismissed := [], nt_list := []\<rparr>)) = nt_read v \<and>
    nt_dismissed (load_notices (v\<lparr>nt_read := [], nt_dismissed := [], nt_list := []\<rparr>)) = nt_dismissed v \<and>
    activeNotifications ((load_notices (v\<lparr>nt_read := [], nt_dismissed := [], nt_list := []\<rparr>))\<lparr>nt_list := nt_list v\<rparr>) = activeNotifications v"
proof -
  have "notices_ok w" using assms(1-5) by (simp add: notices_ok_def mirrored_def stored_set_def named_def)
  then have v: "notices_ok v" unfolding v_def using assms(6) by (rule notice_steps_ok)
  let ?u = "v\<lparr>nt_read := [], nt_dismissed := [], nt_list := []\<rparr>"
  have "stored_set READ_KEY [] ?u = Inr (nt_read v)" "stored_set DISMISSED_KEY [] (?u\<lparr>nt_read := nt_read v\<rparr>) = Inr (nt_dismissed v)"
    using v stored_set_same [of ?u READ_KEY v] stored_set_same [of "?u\<lparr>nt_read := nt_read v\<rparr>" DISMISSED_KEY v]
    by (simp_all add: notices_ok_def mirrored_def)
  then have "load_notices ?u = ?u\<lparr>nt_read := nt_read v, nt_dismissed := nt_dismissed v\<rparr>"
    by (simp add: load_notices_def Let_def)
  then show ?thesis by (simp add: activeNotifications_def)
qed


definition example_notices :: notice_world where
  "example_notices = pworld.extend (example_page (\<lambda>_. ok_text ''{}'')) \<lparr>nt_list = [], nt_read = [], nt_dismissed = [], nt_loading = True,
     nt_local = [], nt_storage = True\<rparr>"

theorem notices_survive_reload_witness:
  "let ops = [Listed [JObj [(''id'', JStr ''a'')], JObj [(''id'', JStr ''b'')]], Dismiss ''a'', ReadAll];
       v = fold notice_step ops example_notices
   in nt_dismissed (load_notices (v\<lparr>nt_read := [], nt_dismissed := [], nt_list := []\<rparr>)) = [JStr ''a''] \<and>
     nt_read (load_notices (v\<lparr>nt_read := [], nt_dismissed := [], nt_list := []\<rparr>)) = [JStr ''b'']"
proof -
  let ?ops = "[Listed [JObj [(''id'', JStr ''a'')], JObj [(''id'', JStr ''b'')]], Dismiss ''a'', ReadAll]"
  have s: "nt_storage example_notices" "nt_local example_notices = []" "nt_read example_notices = []" "nt_dismissed example_notices = []"
    "nt_list example_notices = []"
    by (simp_all add: example_notices_def pworld.defs)
  have o: "list_all op_named ?ops" by (simp add: named_def)
  have "nt_dismissed (fold notice_step ?ops example_notices) = [JStr ''a''] \<and> nt_read (fold notice_step ?ops example_notices) = [JStr ''b'']"
    by (simp add: clearNotification_def markAllRead_def set_add_def activeNotifications_def Let_def s)
  then show ?thesis using notices_survive_reload [OF s o] by (simp add: Let_def)
qed

end
