(* ===== verification/Paging.thy ===== *)
theory Paging
  imports IdentityPages NexusPages PolicyPages
begin

text \<open>
  The pages that walk through a list by cursors, together: what the interpretations of the locale \<open>cursor_pager\<close> give for all of them.
\<close>

section \<open>The pages of a list\<close>

text \<open>
  C35. The three pages that walk through a list by cursors (identities, relationship tuples, policies) keep their place in three
  different ways: a history and a cursor, the same with an empty cursor at its start, and an array with an index. From the first page, after any
  sequence of next (with any answer), previous and changes of the page size, each asks for the cursor at the end of one abstract trail; going
  forth over answers that have more and back as often leads each to the first page again.
\<close>

theorem pages_follow_trail:
  assumes "iv_history i = []" "iv_cursor i = []" "pv_history p = []" "pv_cursor p = []" "pl_index q = 0" "entry (pl_cursors q) 0 = []"
  defines "I \<equiv> \<lambda>ms. iv_cursor (fold (pager_step identities_next identities_previous identities_pageSize) ms i)"
    and "P \<equiv> \<lambda>ms. pv_cursor (fold (pager_step permissions_next permissions_previous permissions_pageSize) ms p)"
    and "Q \<equiv> \<lambda>ms. currentCursor (fold (pager_step policies_next policies_previous policies_pageSize) ms q)"
  shows "I ms = last (fold trail_step ms [[]]) \<and> P ms = I ms \<and> Q ms = I ms \<and>
    (list_all (\<lambda>a. next_cursor a \<noteq> None) as \<longrightarrow> I (map NextPage as @ replicate (length as) PreviousPage) = [])"
proof -
  have t: "policy_trail q = [[]]" using assms(5,6) by (simp add: policy_trail_def)
  have i: "I ms = last (fold trail_step ms [[]])" for ms
    using identities_pages.shown_trail [where s = i and ms = ms] assms(1,2) by (simp add: I_def)
  have "P ms = last (fold trail_step ms [[]])"
    using permissions_pages.shown_trail [where s = p and ms = ms] assms(3,4) by (simp add: P_def)
  moreover have "Q ms = last (fold trail_step ms [[]])"
    using policy_pages.shown_trail [where s = q and ms = ms] assms(6) by (simp add: Q_def t)
  moreover have "fold trail_step (map NextPage as @ replicate (length as) PreviousPage) [[]] = [[]]"
    if "list_all (\<lambda>a. next_cursor a \<noteq> None) as"
    using trail_forth_back [OF that, of "[[]]"] by simp
  ultimately show ?thesis by (simp add: i)
qed

theorem pages_follow_trail_witness:
  "let a = JObj [(''has_more'', JBool True), (''next_cursor'', JStr ''c2'')];
       v = \<lparr>iv_searchInput = [], iv_search = [], iv_pageSize = 25, iv_cursor = [], iv_history = []\<rparr>
   in iv_cursor (fold (pager_step identities_next identities_previous identities_pageSize) [NextPage a, NextPage a, PreviousPage] v) = ''c2''"
proof -
  let ?a = "JObj [(''has_more'', JBool True), (''next_cursor'', JStr ''c2'')]"
  have "next_cursor ?a = Some ''c2''" by (simp add: next_cursor_def opt_prop_def)
  then have "last (fold trail_step [NextPage ?a, NextPage ?a, PreviousPage] [[]]) = ''c2''" by simp
  moreover have "iv_cursor (fold (pager_step identities_next identities_previous identities_pageSize) [NextPage ?a, NextPage ?a, PreviousPage]
      \<lparr>iv_searchInput = [], iv_search = [], iv_pageSize = 25, iv_cursor = [], iv_history = []\<rparr>) =
    last (fold trail_step [NextPage ?a, NextPage ?a, PreviousPage] [[]])"
    by (rule pages_follow_trail [where p = "\<lparr>pv_pageSize = 25, pv_cursor = [], pv_history = []\<rparr>" and
          q = "\<lparr>pl_search = [], pl_pageSize = 25, pl_cursors = [], pl_index = 0\<rparr>" and as = "[]", THEN conjunct1])
      (simp_all add: entry_def)
  ultimately show ?thesis unfolding Let_def by (rule trans [rotated])
qed

end
