(* ===== verification/FleetPages.thy ===== *)
theory FleetPages
  imports Pages SchemasPlatform
begin

text \<open>
  The control plane's own pages: app/operators, app/fleet (overview, enrollment, instances, topology), the dashboard app/page.tsx, the health
  shown in the frame (components/layout/header.tsx, sidebar.tsx), the step-by-step form components/resources/wizard.tsx and the confirmation of
  components/resources/resource-detail-scaffold.tsx. Lists that are constants in the source are constants here; icons and colours are left out.
\<close>

section \<open>app/operators\<close>

record operators_world = pworld +
  ow_deactivate :: jsval
  ow_delete :: jsval

definition operators_query :: "('w, api_result) bact" where
  "operators_query = fetchAndParse ''/api/operators'' operatorsListSchema no_options"

definition operator_url :: "string \<Rightarrow> string" where
  "operator_url i = ''/api/operators/'' @ i"

definition toggle_message :: "jsval \<Rightarrow> string" where
  "toggle_message d = (if truthy (member d ''is_active'') then ''Operator reactivated successfully.''
     else ''Operator account deactivated and active sessions revoked.'')"

definition toggle_operator :: "string \<Rightarrow> bool \<Rightarrow> ('w operators_world_scheme, unit) js" where
  "toggle_operator i active = mutation
     (useApiMutation_fn (\<lambda>v. fetchAndParse (operator_url i) operatorSchema (json_options ''PATCH'' v)) (MessageOf toggle_message)
       (\<lambda>_ _. modify (\<lambda>w. (invalidate [''operators''] w)\<lparr>ow_deactivate := JNull\<rparr>)) None (JObj [(''is_active'', JBool active)]))
     (\<lambda>_. ret ()) (\<lambda>_. ret ())"

definition confirm_deactivate :: "('w operators_world_scheme, unit) js" where
  "confirm_deactivate = bnd (asks ow_deactivate) (\<lambda>op. if truthy op then toggle_operator (to_str (member op ''id'')) False else ret ())"

definition purge_operator :: "string \<Rightarrow> ('w operators_world_scheme, unit) js" where
  "purge_operator i = mutation
     (useApiMutation_fn (\<lambda>_. fetchAndParse (operator_url i) ZAny \<lparr>fo_method = Some ''DELETE'', fo_headers = [], fo_body = NoBody\<rparr>)
       (MessageOf (\<lambda>_. ''Operator account permanently purged from control plane.''))
       (\<lambda>_ _. modify (\<lambda>w. (invalidate [''operators''] w)\<lparr>ow_delete := JNull\<rparr>)) None (JStr i))
     (\<lambda>_. ret ()) (\<lambda>_. ret ())"

definition confirm_purge :: "('w operators_world_scheme, unit) js" where
  "confirm_purge = bnd (asks ow_delete) (\<lambda>op. if truthy op then purge_operator (to_str (member op ''id'')) else ret ())"

text \<open>operator-builder-sheet.tsx\<close>

record operator_form = pworld +
  of_open :: bool
  of_name :: string
  of_email :: string
  of_role :: string
  of_password :: string
  of_shown :: bool
  of_submitting :: bool

definition ROLE_DESCRIPTIONS :: "(string \<times> string \<times> string) list" where
  "ROLE_DESCRIPTIONS = [
     (''owner'', ''Owner (Root Principal)'', ''Wildcard (*) permissions across all 7 engines and cluster configuration.''),
     (''admin'', ''Admin (Full Control)'', ''Full write access to identities, policies, OAuth2 clients, and proxy rules.''),
     (''operator'', ''Operator (Standard)'', ''Operational access with read capabilities across all engines and identity lifecycle.''),
     (''auditor'', ''Auditor (Read-Only)'', ''Compliance and governance auditing across immutable hash chains and evidence.'')]"

definition operator_reset :: "'w operator_form_scheme \<Rightarrow> 'w operator_form_scheme" where
  "operator_reset w = w\<lparr>of_name := [], of_email := [], of_role := ''operator'', of_password := [], of_shown := False\<rparr>"

definition operator_refusal :: "'w operator_form_scheme \<Rightarrow> string option" where
  "operator_refusal w = (if trim (of_name w) = [] \<or> trim (of_email w) = [] \<or> of_password w = [] then Some ''Please fill in all required fields''
     else if length (of_password w) < 8 then Some ''Password must be at least 8 characters'' else None)"

definition operator_body :: "'w operator_form_scheme \<Rightarrow> jsval" where
  "operator_body w = JObj [(''name'', JStr (trim (of_name w))), (''email'', JStr (to_lower (trim (of_email w)))), (''role'', JStr (of_role w)),
     (''password'', JStr (of_password w))]"

definition operator_refused :: "http_response \<Rightarrow> ('w, unit) act" where
  "operator_refused res = (if rs_ok res then ret () else
     bnd (try_catch (response_json res) (\<lambda>_. ret (JObj []))) (\<lambda>d. bnd (lift (get_prop d ''error'')) (\<lambda>e.
       fail_msg (to_str (js_or (js_or e (member d ''message'')) (JStr ''Failed to create operator''))))))"

definition operator_created :: "string \<Rightarrow> string \<Rightarrow> ('w operator_form_scheme, unit) js \<Rightarrow> ('w operator_form_scheme, unit) js" where
  "operator_created name role on_success =
     bnd (modify (\<lambda>w. (operator_reset (invalidate [''operators''] (toast_plain ''success''
       (''Operator '' @ name @ '' created successfully with role '' @ to_upper role @ ''!'') w)))\<lparr>of_open := False\<rparr>)) (\<lambda>_. on_success)"

definition operator_submit :: "('w operator_form_scheme, unit) js \<Rightarrow> ('w operator_form_scheme, unit) js" where
  "operator_submit on_success = bnd (asks (\<lambda>w. (operator_refusal w, operator_body w, of_name w, of_role w))) (\<lambda>(refusal, body, name, role).
     case refusal of Some msg \<Rightarrow> modify (toast_plain ''error'' msg)
     | None \<Rightarrow> bnd (modify (\<lambda>w. w\<lparr>of_submitting := True\<rparr>)) (\<lambda>_. try_finally
         (bnd (fetch (json_send ''POST'' ''/api/operators'' body)) (\<lambda>res. bnd (operator_refused res) (\<lambda>_. operator_created name role on_success)))
         (toast_error ''Error provisioning operator'') (\<lambda>w. w\<lparr>of_submitting := False\<rparr>)))"

section \<open>components/resources/wizard.tsx\<close>

text \<open>The steps are given by their \<open>isValid\<close>; \<open>on_complete\<close> is what the page does at the end.\<close>

record wizard_world = pworld +
  wz_index :: int

definition isLastStep :: "bool option list \<Rightarrow> int \<Rightarrow> bool" where
  "isLastStep steps i \<longleftrightarrow> i = int (length steps) - 1"

definition wizard_next :: "bool option list \<Rightarrow> ('w wizard_world_scheme, unit) js \<Rightarrow> ('w wizard_world_scheme, unit) js" where
  "wizard_next steps on_complete = bnd (asks wz_index) (\<lambda>i.
     if isLastStep steps i then on_complete else modify (\<lambda>w. w\<lparr>wz_index := wz_index w + 1\<rparr>))"

definition wizard_back :: "'w wizard_world_scheme \<Rightarrow> 'w wizard_world_scheme" where
  "wizard_back w = (if wz_index w = 0 then w else w\<lparr>wz_index := wz_index w - 1\<rparr>)"

definition next_disabled :: "bool option list \<Rightarrow> bool \<Rightarrow> int \<Rightarrow> bool" where
  "next_disabled steps submitting i \<longleftrightarrow> (0 \<le> i \<and> i < int (length steps) \<and> steps ! nat i = Some False) \<or> submitting"

section \<open>app/fleet/enroll/page.tsx\<close>

record enroll_world = wizard_world +
  en_engine :: string
  en_environment :: string
  en_uses :: string
  en_ttl :: string
  en_minting :: bool
  en_token :: jsval

definition parsed_or :: "string \<Rightarrow> int \<Rightarrow> int" where
  "parsed_or s d = (case parse_int s of Some i \<Rightarrow> if i = 0 then d else i | None \<Rightarrow> d)"

definition enroll_body :: "'w enroll_world_scheme \<Rightarrow> jsval" where
  "enroll_body w = JObj [(''engine_type'', JStr (en_engine w)), (''environment_id'', JStr (en_environment w)),
     (''uses_allowed'', jint (parsed_or (en_uses w) 1)), (''ttl_seconds'', jint (parsed_or (en_ttl w) 24 * 3600))]"

text \<open>\<open>random\<close> stands for \<open>Math.random().toString(36).substring(2, 15)\<close>.\<close>

definition demo_token :: "string \<Rightarrow> int \<Rightarrow> string" where
  "demo_token random now = ''aet_live_'' @ random @ ''_'' @ show_int now"

definition mint_demo :: "string \<Rightarrow> ('w enroll_world_scheme, unit) js" where
  "mint_demo random = bnd date_now (\<lambda>now. modify (\<lambda>w. w\<lparr>en_token := JStr (demo_token random now)\<rparr>))"

definition minted :: "string \<Rightarrow> http_response \<Rightarrow> ('w enroll_world_scheme, unit) js" where
  "minted random res = (if rs_ok res then bnd (response_json res) (\<lambda>d. bnd (lift (get_prop d ''token'')) (\<lambda>t.
     if truthy t then modify (\<lambda>w. w\<lparr>en_token := t\<rparr>) else mint_demo random)) else mint_demo random)"

definition handleMintToken :: "string \<Rightarrow> ('w enroll_world_scheme, unit) js" where
  "handleMintToken random = bnd (asks enroll_body) (\<lambda>body. try_finally
     (bnd (modify (\<lambda>w. w\<lparr>en_minting := True\<rparr>)) (\<lambda>_.
      bnd (fetch (json_send ''POST'' ''/api/fleet/enrollment-tokens'' body)) (minted random)))
     (\<lambda>_. mint_demo random) (\<lambda>w. w\<lparr>en_minting := False\<rparr>))"

definition argusUrl :: string where
  "argusUrl = ''http://argusd.autorix.internal:4499''"

definition quote_mark :: string where
  "quote_mark = [CHR 0x22]"

definition shown_token :: "'w enroll_world_scheme \<Rightarrow> string" where
  "shown_token w = to_str (js_or (en_token w) (JStr ''<YOUR_ENROLLMENT_TOKEN>''))"

definition line_on :: string where
  "line_on = '' '' @ [CHR 0x5C, CHR 0x0A]"

definition dockerSnippet :: "'w enroll_world_scheme \<Rightarrow> string" where
  "dockerSnippet w = ''docker run -d'' @ line_on @ ''  --name autorix-'' @ en_engine w @ line_on @
     ''  -e AUTORIX_ARGUS_URL='' @ quote_mark @ argusUrl @ quote_mark @ line_on @
     ''  -e AUTORIX_ENROLLMENT_TOKEN='' @ quote_mark @ shown_token w @ quote_mark @ line_on @
     ''  -e AUTORIX_ENVIRONMENT='' @ quote_mark @ en_environment w @ quote_mark @ line_on @
     ''  -p 8080:8080'' @ line_on @ ''  autorix/'' @ en_engine w @ '':latest''"

definition helmSnippet :: "'w enroll_world_scheme \<Rightarrow> string" where
  "helmSnippet w = join [CHR 0x0A] [''autorix:'', ''  argusUrl: '' @ quote_mark @ argusUrl @ quote_mark,
     ''  environment: '' @ quote_mark @ en_environment w @ quote_mark, ''  enrollment:'', ''    token: '' @ quote_mark @ shown_token w @ quote_mark,
     ''  engine:'', ''    type: '' @ quote_mark @ en_engine w @ quote_mark, ''    replicas: 1'']"

definition shellSnippet :: "'w enroll_world_scheme \<Rightarrow> string" where
  "shellSnippet w = join [CHR 0x0A] [''export AUTORIX_ARGUS_URL='' @ quote_mark @ argusUrl @ quote_mark,
     ''export AUTORIX_ENROLLMENT_TOKEN='' @ quote_mark @ shown_token w @ quote_mark,
     ''export AUTORIX_ENVIRONMENT='' @ quote_mark @ en_environment w @ quote_mark, [], ''# Run engine binary'',
     ''./'' @ en_engine w @ ''d start'']"

section \<open>app/fleet/instances\<close>

record instances_world = pworld +
  iw_env :: environment_option
  iw_list :: jsval
  iw_loading :: bool
  iw_routes :: "string list"

definition sample_instance :: "string \<Rightarrow> string \<Rightarrow> string \<Rightarrow> jsval" where
  "sample_instance engine version address = JObj [(''id'', JStr (engine @ ''-prod-01'')), (''engine_type'', JStr engine), (''environment_id'', JStr ''prod''),
     (''status'', JStr ''healthy''), (''version'', JStr version), (''advertise_addr'', JStr address)]"

definition SAMPLE_INSTANCES :: "jsval list" where
  "SAMPLE_INSTANCES = [sample_instance ''ego'' ''v1.2.0'' ''http://ego:4433'', sample_instance ''nexus'' ''v1.1.4'' ''grpc://nexus:50051'',
     sample_instance ''janus'' ''v1.3.0'' ''http://janus:4444'', sample_instance ''aegis'' ''v1.0.8'' ''http://aegis:4455'',
     sample_instance ''vulcan'' ''v1.4.1'' ''http://vulcan:4466'', sample_instance ''hermes'' ''v1.1.0'' ''http://hermes:4477'',
     sample_instance ''themis'' ''v1.0.5'' ''http://themis:4488'']"

definition presumed_instances :: "environment_option \<Rightarrow> jsval" where
  "presumed_instances env = JArr (if eo_ident env = ''prod'' then SAMPLE_INSTANCES else [])"

definition listed_instances :: "jsval \<Rightarrow> jsval res" where
  "listed_instances d = (if is_arr d then Inr d else map_sum id (\<lambda>items. js_or (js_or items (member d ''data'')) (JArr [])) (get_prop d ''items''))"

definition some_listed :: "jsval \<Rightarrow> bool" where
  "some_listed l \<longleftrightarrow> num_lt (Fin 0) (to_num (member l ''length''))"

definition presume_instances :: "environment_option \<Rightarrow> ('w instances_world_scheme, unit) js" where
  "presume_instances env = modify (\<lambda>w. w\<lparr>iw_list := presumed_instances env\<rparr>)"

definition found_instances :: "environment_option \<Rightarrow> http_response \<Rightarrow> ('w instances_world_scheme, unit) js" where
  "found_instances env res = (if rs_ok res then bnd (response_json res) (\<lambda>d. bnd (lift (listed_instances d)) (\<lambda>l.
     if some_listed l then modify (\<lambda>w. w\<lparr>iw_list := l\<rparr>) else presume_instances env)) else presume_instances env)"

definition fetchInstances :: "('w instances_world_scheme, unit) js" where
  "fetchInstances = bnd (asks iw_env) (\<lambda>env. try_finally
     (bnd (modify (\<lambda>w. w\<lparr>iw_loading := True\<rparr>)) (\<lambda>_.
      bnd (fetch (get_request (''/api/fleet/instances?environment='' @ eo_ident env))) (found_instances env)))
     (\<lambda>_. presume_instances env) (\<lambda>w. w\<lparr>iw_loading := False\<rparr>))"

text \<open>\<open>filter\<close> with a predicate that may throw.\<close>

fun filter_throws :: "('a \<Rightarrow> bool res) \<Rightarrow> 'a list \<Rightarrow> 'a list res" where
  "filter_throws p [] = Inr []"
| "filter_throws p (x # xs) = (case p x of Inl e \<Rightarrow> Inl e | Inr b \<Rightarrow> map_sum id (\<lambda>ys. if b then x # ys else ys) (filter_throws p xs))"

definition in_environment :: "environment_option \<Rightarrow> jsval \<Rightarrow> bool res" where
  "in_environment env i = map_sum id (\<lambda>e. strict_eq e (JStr (eo_ident env)) \<or> strict_eq e (JStr (eo_slug env))) (get_prop i ''environment_id'')"

definition of_type :: "string \<Rightarrow> jsval \<Rightarrow> bool res" where
  "of_type ty i = (case get_prop i ''engine_type'' of Inl e \<Rightarrow> Inl e
   | Inr v \<Rightarrow> map_sum id (\<lambda>s. s = JStr (to_lower ty)) (str_method ''i.engine_type'' ''toLowerCase'' (\<lambda>s. JStr (to_lower s)) v))"

definition displayData :: "environment_option \<Rightarrow> string option \<Rightarrow> jsval \<Rightarrow> jsval list res" where
  "displayData env typeFilter instances = (case as_array ''instances'' ''filter'' instances of Inl e \<Rightarrow> Inl e
   | Inr xs \<Rightarrow> (case (if eo_ident env \<noteq> ''prod'' then filter_throws (in_environment env) xs else Inr xs) of Inl e \<Rightarrow> Inl e
     | Inr ys \<Rightarrow> (case typeFilter of Some (c # t) \<Rightarrow> filter_throws (of_type (c # t)) ys | _ \<Rightarrow> Inr ys)))"

text \<open>The page of one instance: its record and the deletion.\<close>

definition instance_record :: "string \<Rightarrow> string \<Rightarrow> jsval" where
  "instance_record i now = JObj [(''id'', JStr (str_or i ''ego-prod-01'')), (''engine_type'', JStr ''ego''), (''environment_id'', JStr ''prod''),
     (''status'', JStr ''healthy''), (''version'', JStr ''v1.2.0''), (''advertise_addr'', JStr ''http://ego:4433''), (''last_heartbeat_at'', JStr now)]"

definition instance_delete :: "string \<Rightarrow> ('w instances_world_scheme, unit) js" where
  "instance_delete i = (let leave = modify (\<lambda>w. w\<lparr>iw_routes := iw_routes w @ [''/fleet/instances'']\<rparr>) in
     try_catch (bnd (fetch (delete_request (''/api/fleet/instances/'' @ i))) (\<lambda>_. leave)) (\<lambda>_. leave))"

text \<open>resource-detail-scaffold.tsx\<close>

definition curlCommand :: "string \<Rightarrow> string \<Rightarrow> string" where
  "curlCommand basePath i = ''curl -X GET '' @ quote_mark @ ''https://api.autorix.internal'' @ basePath @ ''/'' @ i @ quote_mark @ line_on @
     ''  -H '' @ quote_mark @ ''Authorization: Bearer <YOUR_API_KEY>'' @ quote_mark @ line_on @
     ''  -H '' @ quote_mark @ ''Content-Type: application/json'' @ quote_mark"

definition isDeleteConfirmed :: "string \<Rightarrow> string \<Rightarrow> string \<Rightarrow> bool" where
  "isDeleteConfirmed input i title \<longleftrightarrow> input = i \<or> input = title"

section \<open>app/fleet/page.tsx and app/fleet/topology/page.tsx\<close>

definition ENGINE_CARDS :: "(string \<times> string \<times> string \<times> string) list" where
  "ENGINE_CARDS = [(''ego'', ''Ego (Identity)'', ''Identity & trait management with MFA'', '':4433''),
     (''nexus'', ''Nexus (Zanzibar)'', ''Fine-grained relationship authorization & graph queries'', '':50051''),
     (''janus'', ''Janus (OAuth2/OIDC)'', ''Client lifecycle, JWKS & token introspection'', '':4444''),
     (''aegis'', ''Aegis (Proxy)'', ''Reverse proxy policy enforcement & path rewrites'', '':4455''),
     (''vulcan'', ''Vulcan (API Keys)'', ''API key issuance, macaroons & quotas'', '':4466''),
     (''hermes'', ''Hermes (Enterprise)'', ''SAML 2.0 federation & SCIM 2.0 sync'', '':4477''),
     (''themis'', ''Themis (Policy)'', ''CEL expression compilation & dry-run evaluation'', '':4488'')]"

definition totalInstances :: "(string \<times> jsval) list \<Rightarrow> jsval" where
  "totalInstances engs = foldl (\<lambda>acc (k, e). js_plus acc (member e ''instanceCount'')) (jint 0) engs"

definition healthyEngines :: "(string \<times> jsval) list \<Rightarrow> nat" where
  "healthyEngines engs = length (filter (\<lambda>(k, e). strict_eq (member e ''status'') (JStr ''healthy'')) engs)"

definition clusterHealth :: "(string \<times> jsval) list \<Rightarrow> int" where
  "clusterHealth engs = \<lfloor>of_nat (healthyEngines engs) / 7 * 100 + 1 / (2 :: rat)\<rfloor>"

definition card_shown :: "(string \<times> jsval) list \<Rightarrow> string \<Rightarrow> string \<times> string" where
  "card_shown engs ty = (let e = (case map_of engs ty of Some v \<Rightarrow> v | None \<Rightarrow> JUndef) in
     (to_str (js_or (opt_prop e ''status'') (JStr ''HEALTHY'')), to_str (js_or (opt_prop e ''instanceCount'') (jint 1))))"

definition NODES :: "(string \<times> string \<times> string \<times> string) list" where
  "NODES = [(''argus'', ''Argus (Control Plane)'', ''healthy'', '':4499''), (''ego'', ''Ego (Identity)'', ''healthy'', '':4433''),
     (''nexus'', ''Nexus (Zanzibar)'', ''healthy'', '':50051''), (''janus'', ''Janus (OAuth2/OIDC)'', ''healthy'', '':4444''),
     (''aegis'', ''Aegis (Proxy)'', ''healthy'', '':4455''), (''vulcan'', ''Vulcan (API Keys)'', ''healthy'', '':4466''),
     (''hermes'', ''Hermes (Enterprise)'', ''healthy'', '':4477''), (''themis'', ''Themis (Policy)'', ''healthy'', '':4488'')]"

definition EDGES :: "(string \<times> string \<times> string \<times> string \<times> string) list" where
  "EDGES = [(''aegis'', ''janus'', ''HTTP/2'', ''healthy'', ''1.2ms''), (''aegis'', ''vulcan'', ''HTTP/2'', ''healthy'', ''0.8ms''),
     (''aegis'', ''themis'', ''gRPC'', ''healthy'', ''1.5ms''), (''janus'', ''ego'', ''HTTP/2'', ''healthy'', ''2.1ms''),
     (''janus'', ''hermes'', ''HTTP/2'', ''healthy'', ''1.9ms''), (''themis'', ''nexus'', ''gRPC'', ''healthy'', ''0.9ms'')]"

definition node_link :: "string \<Rightarrow> string" where
  "node_link engine = (if engine = ''argus'' then ''/fleet'' else ''/fleet/instances?type='' @ engine)"

section \<open>app/page.tsx and the frame\<close>

definition is_healthy :: "jsval \<Rightarrow> bool" where
  "is_healthy s \<longleftrightarrow> strict_eq (member s ''status'') (JStr ''healthy'')"

text \<open>\<open>latencyMs\<close> is a number or \<open>null\<close> by the schema.\<close>

definition averageLatency :: "jsval list \<Rightarrow> rat option" where
  "averageLatency services = (let samples = List.map_filter (\<lambda>s. case member s ''latencyMs'' of JNum (Fin r) \<Rightarrow> Some r | _ \<Rightarrow> None) services in
     if samples = [] then None else Some (sum_list samples / of_nat (length samples)))"

definition dashboard_services :: "bool \<Rightarrow> jsval \<Rightarrow> jsval list" where
  "dashboard_services isProduction healthData = (if isProduction then elems (js_coalesce (opt_prop healthData ''services'') (JArr [])) else [])"

definition overallBadge :: "jsval list \<Rightarrow> string" where
  "overallBadge services = (let healthyCount = length (filter is_healthy services); totalCount = length services in
     if totalCount = 0 then ''outline'' else if healthyCount = totalCount then ''success'' else if healthyCount = 0 then ''destructive'' else ''warning'')"

definition STATUS_META :: "(string \<times> string) list" where
  "STATUS_META = [(''healthy'', ''success''), (''degraded'', ''warning''), (''unreachable'', ''destructive''), (''unknown'', ''outline'')]"

definition perimeter_badge :: "jsval list \<Rightarrow> string option" where
  "perimeter_badge services = map_of STATUS_META (case find (\<lambda>s. strict_eq (member s ''key'') (JStr ''aegis'')) (rev services) of
     Some s \<Rightarrow> (case member s ''status'' of JStr (c # t) \<Rightarrow> c # t | _ \<Rightarrow> ''unknown'') | None \<Rightarrow> ''unknown'')"

definition isEnvHealthy :: "bool \<Rightarrow> jsval \<Rightarrow> bool" where
  "isEnvHealthy isProduction healthData = (let services = elems (js_coalesce (opt_prop healthData ''services'') (JArr [])) in
     isProduction \<and> services \<noteq> [] \<and> list_all is_healthy services)"

definition allHealthy :: "jsval \<Rightarrow> bool" where
  "allHealthy healthData = (let services = elems (js_coalesce (opt_prop healthData ''services'') (JArr [])) in
     0 < length services \<and> length (filter is_healthy services) = length services)"

section \<open>Tokens and instances that no engine knows\<close>

definition mint_request :: "'w enroll_world_scheme \<Rightarrow> http_request" where
  "mint_request w = json_send ''POST'' ''/api/fleet/enrollment-tokens'' (enroll_body w)"

definition not_granted :: "exn + http_response \<Rightarrow> bool" where
  "not_granted r \<longleftrightarrow> (case r of Inl _ \<Rightarrow> True | Inr res \<Rightarrow> \<not> rs_ok res)"

lemma run_mint_demo: "mint_demo random w = (Inr (), w\<lparr>w_ticks := Suc (w_ticks w), en_token := JStr (demo_token random (w_clock w (w_ticks w)))\<rparr>)"
  by (simp add: mint_demo_def run)

lemma run_fetch_try:
  "try_finally (bnd (fetch rq) f) h k w =
    (case (case w_upstream w (w_sent w @ [rq]) of Inl e \<Rightarrow> h e (log_request rq w) | Inr res \<Rightarrow> try_catch (f res) h (log_request rq w))
     of (r, w') \<Rightarrow> (r, k w'))"
  by (simp add: try_finally_def bnd_def settle_def modify_def lift_def try_catch_def fetch_def Let_def log_request_def split: prod.split sum.split)

lemma run_fetch_finally:
  "try_finally (bnd (modify g) (\<lambda>_. bnd (fetch rq) f)) h k w =
    (case (case w_upstream (g w) (w_sent (g w) @ [rq]) of Inl e \<Rightarrow> h e (log_request rq (g w)) | Inr res \<Rightarrow> try_catch (f res) h (log_request rq (g w)))
     of (r, w') \<Rightarrow> (r, k w'))"
  by (simp add: try_finally_def bnd_def settle_def modify_def lift_def try_catch_def fetch_def Let_def log_request_def split: prod.split sum.split)

lemma enroll_body_minting [simp]: "enroll_body (w\<lparr>en_minting := b\<rparr>) = enroll_body w"
  by (simp add: enroll_body_def)

lemma demo_token_text [simp]: "demo_token random n \<noteq> []"
  by (simp add: demo_token_def)

text \<open>An answer that is ok leaves a token too, its own or a made up one.\<close>

lemma minted_token:
  assumes "rs_ok res"
  shows "\<exists>t v. try_catch (minted random res) (\<lambda>_. mint_demo random) w = (Inr (), v\<lparr>en_token := t\<rparr>) \<and> w_sent v = w_sent w \<and> truthy t"
proof (cases "\<exists>v t. parse_text w (rs_text res) = Inr v \<and> get_prop v ''token'' = Inr t \<and> truthy t")
  case True
  then obtain v t where "parse_text w (rs_text res) = Inr v" "get_prop v ''token'' = Inr t" "truthy t" by blast
  then show ?thesis using assms
    by (intro exI [of _ t] exI [of _ w]) (simp add: minted_def try_catch_def run_response_json run_bnd_lift run_only_modify)
next
  case False
  then show ?thesis using assms
    by (intro exI [of _ "JStr (demo_token random (w_clock w (w_ticks w)))"] exI [of _ "w\<lparr>w_ticks := Suc (w_ticks w)\<rparr>"])
      (auto simp: minted_def try_catch_def run_response_json run_bnd_lift run_mint_demo split: sum.split)
qed

text \<open>
  C40. The enrollment page shows a minted token whatever happens: after one request to the control plane it has a token that is not
  empty, and when the control plane cannot be reached or refuses (an operator without the permission, say) it is a text made of a random number and the
  clock, presented as the token just minted, which no engine has issued.
\<close>

theorem enrollment_never_refused:
  "w_sent (snd (handleMintToken random w)) = w_sent w @ [mint_request w] \<and> truthy (en_token (snd (handleMintToken random w))) \<and>
   fst (handleMintToken random w) = Inr () \<and>
   (not_granted (w_upstream w (w_sent w @ [mint_request w])) \<longrightarrow>
     en_token (snd (handleMintToken random w)) = JStr (demo_token random (w_clock w (w_ticks w))))"
proof -
  let ?w1 = "log_request (mint_request w) (w\<lparr>en_minting := True\<rparr>)"
  note run = handleMintToken_def run_asks run_fetch_finally mint_request_def [symmetric] enroll_body_minting
  show ?thesis
  proof (cases "w_upstream w (w_sent w @ [mint_request w])")
    case (Inl e)
    then show ?thesis by (simp add: run run_mint_demo log_request_def)
  next
    case (Inr res)
    then have r: "handleMintToken random w = (case try_catch (minted random res) (\<lambda>_. mint_demo random) ?w1 of (r, w') \<Rightarrow> (r, w'\<lparr>en_minting := False\<rparr>))"
      by (simp add: run)
    show ?thesis
      using Inr minted_token [of res random ?w1]
      by (cases "rs_ok res") (auto simp: r not_granted_def minted_def try_catch_def run_mint_demo log_request_def)
  qed
qed

definition example_enroll :: "(http_request list \<Rightarrow> exn + http_response) \<Rightarrow> enroll_world" where
  "example_enroll up = wizard_world.extend (pworld.extend (example_page up) \<lparr>wz_index = 1\<rparr>)
     \<lparr>en_engine = ''ego'', en_environment = ''prod'', en_uses = ''1'', en_ttl = ''24'', en_minting = False, en_token = JNull\<rparr>"

lemma example_page_sel [simp]:
  "w_upstream (example_page up) = up" "w_sent (example_page up) = []" "w_clock (example_page up) = (\<lambda>_. 0)" "w_ticks (example_page up) = 0"
  by (simp_all add: example_page_def bworld.defs example_browser_def world.defs example_world_def)

theorem enrollment_never_refused_witness:
  "en_token (snd (handleMintToken ''k3x9'' (example_enroll (\<lambda>_. Inr \<lparr>rs_status = 403, rs_headers = [], rs_text = Inr ''{}''\<rparr>)))) = JStr ''aet_live_k3x9_0''"
proof -
  let ?w = "example_enroll (\<lambda>_. Inr \<lparr>rs_status = 403, rs_headers = [], rs_text = Inr ''{}''\<rparr>)"
  have w: "w_upstream ?w = (\<lambda>_. Inr \<lparr>rs_status = 403, rs_headers = [], rs_text = Inr ''{}''\<rparr>)" "w_clock ?w = (\<lambda>_. 0)" "w_ticks ?w = 0"
    by (simp_all add: example_enroll_def wizard_world.defs pworld.defs)
  have "show_int 0 = ''0''" by code_simp
  with enrollment_never_refused [of "''k3x9''" ?w] show ?thesis by (simp add: w not_granted_def rs_ok_def demo_token_def)
qed

text \<open>
  The list of instances of the production environment is made up whenever the registry cannot be asked or refuses: seven instances
  that are all healthy.
\<close>

definition instances_request :: "'w instances_world_scheme \<Rightarrow> http_request" where
  "instances_request w = get_request (''/api/fleet/instances?environment='' @ eo_ident (iw_env w))"

theorem production_instances_presumed:
  assumes "eo_ident (iw_env w) = ''prod''" "not_granted (w_upstream w (w_sent w @ [instances_request w]))"
  shows "\<exists>w'. fetchInstances w = (Inr (), w') \<and> displayData (iw_env w') None (iw_list w') = Inr SAMPLE_INSTANCES \<and>
    list_all is_healthy SAMPLE_INSTANCES \<and> length SAMPLE_INSTANCES = 7"
proof -
  have p: "presume_instances (iw_env w) v = (Inr (), v\<lparr>iw_list := JArr SAMPLE_INSTANCES\<rparr>)" for v :: "'a instances_world_scheme"
    by (simp add: presume_instances_def run_only_modify presumed_instances_def assms(1))
  have "fetchInstances w = (Inr (), (log_request (instances_request w) (w\<lparr>iw_loading := True\<rparr>))\<lparr>iw_list := JArr SAMPLE_INSTANCES, iw_loading := False\<rparr>)"
    using assms(2) by (simp add: fetchInstances_def run_asks run_fetch_finally instances_request_def not_granted_def found_instances_def
        try_catch_def p split: sum.splits)
  moreover have "list_all is_healthy SAMPLE_INSTANCES" by (simp add: SAMPLE_INSTANCES_def sample_instance_def is_healthy_def)
  ultimately show ?thesis using assms(1) by (simp add: displayData_def log_request_def) (simp add: SAMPLE_INSTANCES_def)
qed

text \<open>The page of one instance shows the same healthy record for every identifier, and leaves after a deletion whatever its answer.\<close>

theorem instance_page_fixed:
  "is_healthy (instance_record i now) \<and> member (instance_record i now) ''engine_type'' = JStr ''ego'' \<and>
   fst (instance_delete i w) = Inr () \<and> iw_routes (snd (instance_delete i w)) = iw_routes w @ [''/fleet/instances'']"
  by (cases "w_upstream w (w_sent w @ [delete_request (''/api/fleet/instances/'' @ i)])")
    (auto simp: instance_record_def is_healthy_def instance_delete_def Let_def try_catch_def run log_request_def)

section \<open>Forms\<close>

text \<open>
  Creating an operator asks the server exactly when name, address and password are filled in and the password has eight characters, once, with the
  name and address trimmed and the address in lower case; after a failure the form still has what was typed.
\<close>

definition operator_request :: "'w operator_form_scheme \<Rightarrow> http_request" where
  "operator_request w = json_send ''POST'' ''/api/operators'' (operator_body w)"

lemma quiet_operator_refused: "quiet (operator_refused res)"
  unfolding operator_refused_def by (intro same_rules)

theorem operator_created_once:
  assumes "quiet on_success"
  shows "w_sent (snd (operator_submit on_success w)) = w_sent w @ (if operator_refusal w = None then [operator_request w] else [])"
proof (cases "operator_refusal w")
  case None
  have q: "quiet (bnd (operator_refused res) (\<lambda>_. operator_created name role on_success))" for res name role
    unfolding operator_created_def by (intro same.k_bnd quiet_operator_refused same_modify assms) (simp add: operator_reset_def)
  have h: "quiet (toast_error ''Error provisioning operator'' e)" for e by (rule same_toast_error) simp
  show ?thesis
    by (simp add: operator_submit_def None run run_only_modify operator_request_def)
      (subst sent_try_finally, simp_all add: h sent_fetch [OF q])
qed (simp add: operator_submit_def run)

section \<open>The steps of the wizard\<close>

datatype wizard_move = Forth | Back

fun wizard_step :: "bool option list \<Rightarrow> ('w wizard_world_scheme, unit) js \<Rightarrow> wizard_move \<Rightarrow> 'w wizard_world_scheme \<Rightarrow> 'w wizard_world_scheme" where
  "wizard_step steps on_complete Forth w = snd (wizard_next steps on_complete w)"
| "wizard_step steps on_complete Back w = wizard_back w"

definition in_range :: "bool option list \<Rightarrow> 'w wizard_world_scheme \<Rightarrow> bool" where
  "in_range steps w \<longleftrightarrow> 0 \<le> wz_index w \<and> wz_index w < int (length steps)"

lemma wizard_step_range:
  assumes "keeps (unchanged wz_index) on_complete" "in_range steps w"
  shows "in_range steps (wizard_step steps on_complete m w)"
  using assms(2) sameD [OF assms(1), of w]
  by (cases m) (auto simp: in_range_def wizard_next_def wizard_back_def isLastStep_def run run_only_modify)

text \<open>
  Whatever is clicked, a wizard with steps stays on one of them, and completes only from its last.
\<close>

theorem wizard_stays_in_range:
  assumes "keeps (unchanged wz_index) on_complete" "in_range steps w"
  shows "in_range steps (fold (wizard_step steps on_complete) ms w)"
  using assms(2) by (induction ms arbitrary: w) (auto intro: wizard_step_range [OF assms(1)])

section \<open>What counts as healthy\<close>

text \<open>
  The header, the side bar and the dashboard agree: the badge of the dashboard is the one for success exactly when the header calls the
  environment healthy, which in production is when the side bar says all engines are, and never without an answer of the health route. The
  fleet page does not follow: it shows an engine it knows nothing of as healthy.
\<close>

lemma filter_all: "length (filter P xs) = length xs \<longleftrightarrow> list_all P xs"
proof (induction xs)
  case (Cons x xs)
  then show ?case by (cases "P x") (auto, metis Suc_n_not_le_n length_filter_le)
qed simp

theorem health_signals_agree:
  "(overallBadge (dashboard_services isProduction d) = ''success'' \<longleftrightarrow> isEnvHealthy isProduction d) \<and>
   (isEnvHealthy isProduction d \<longleftrightarrow> isProduction \<and> allHealthy d) \<and> \<not> isEnvHealthy isProduction JUndef \<and>
   card_shown [] ty = (''HEALTHY'', ''1'')"
proof -
  let ?s = "elems (js_coalesce (opt_prop d ''services'') (JArr []))"
  have a: "isEnvHealthy isProduction d \<longleftrightarrow> isProduction \<and> ?s \<noteq> [] \<and> list_all is_healthy ?s" by (auto simp: isEnvHealthy_def Let_def)
  have "overallBadge ?s = ''success'' \<longleftrightarrow> ?s \<noteq> [] \<and> list_all is_healthy ?s"
    by (simp add: overallBadge_def Let_def filter_all)
  moreover have "allHealthy d \<longleftrightarrow> ?s \<noteq> [] \<and> list_all is_healthy ?s"
    by (simp add: allHealthy_def Let_def filter_all)
  moreover have "overallBadge [] \<noteq> ''success''" by (simp add: overallBadge_def)
  moreover have "to_str (jint 1) = ''1''" by code_simp
  ultimately show ?thesis unfolding a
    by (auto simp: dashboard_services_def isEnvHealthy_def opt_prop_def js_coalesce_def card_shown_def js_or_def)
qed

end
