(* ===== verification/EnterprisePages.thy ===== *)
theory EnterprisePages
  imports FleetPages SchemasEngines
begin

text \<open>
  The pages of federation under app/enterprise: the page with its queries and the download of the metadata (page.tsx), the table
  of SAML connections, the sheet of one (saml-provider-sheet.tsx), the wizard that registers one (saml-connection-wizard.tsx) and the monitor of the SCIM
  directory (scim-sync-monitor.tsx). The clipboard and the formats of dates are left out; what the page does after a success is a parameter.
\<close>

section \<open>page.tsx\<close>

definition metadata_refused :: "http_response \<Rightarrow> string \<Rightarrow> client_error" where
  "metadata_refused res xml = \<lparr>ae_kind = (if 500 \<le> rs_status res then EngineError else Unknown),
     ae_message = str_or xml (''request failed with status '' @ show_int (rs_status res)), ae_status = Some (rs_status res),
     ae_requestId = None, ae_cause = CauseBody JUndef\<rparr>"

definition metadata_unreachable :: "exn \<Rightarrow> client_error" where
  "metadata_unreachable err = \<lparr>ae_kind = EngineUnreachable, ae_message = err_message err ''network error'', ae_status = None,
     ae_requestId = None, ae_cause = CauseExn err\<rparr>"

definition fetchMetadataXml :: "('w, client_error + string) bact" where
  "fetchMetadataXml = try_catch
     (bnd (fetch (get_request ''/api/enterprise/metadata'')) (\<lambda>res. bnd (lift (rs_text res)) (\<lambda>xml.
        ret (if rs_ok res then Inr xml else Inl (metadata_refused res xml)))))
     (\<lambda>err. ret (Inl (metadata_unreachable err)))"

definition saml_query :: "('w, api_result) bact" where
  "saml_query = fetchAndParse ''/api/enterprise/saml'' samlProviderListSchema no_options"

definition scim_query :: "('w, api_result) bact" where
  "scim_query = fetchAndParse ''/api/enterprise/scim'' scimListResponseSchema no_options"

definition shown_providers :: "jsval \<Rightarrow> jsval list" where
  "shown_providers res = (if truthy res \<and> is_arr res then elems res else [])"

definition scimUsers :: "jsval \<Rightarrow> jsval" where
  "scimUsers d = js_or (opt_prop d ''Resources'') (JArr [])"

definition handleDownloadXml :: "string option \<Rightarrow> ('w, unit) pact" where
  "handleDownloadXml metadataXml = (case metadataXml of
     Some (c # s) \<Rightarrow> modify (\<lambda>w. toast_plain ''success'' ''Downloaded autorix-saml-sp-metadata.xml''
       (download ''autorix-saml-sp-metadata.xml'' (c # s) w))
   | _ \<Rightarrow> ret ())"

section \<open>saml-providers-table.tsx\<close>

definition saml_url :: "string \<Rightarrow> string" where
  "saml_url i = ''/api/enterprise/saml/'' @ encode_uri_component i"

definition bare_post :: "string \<Rightarrow> http_request" where
  "bare_post url = \<lparr>rq_method = ''POST'', rq_url = url, rq_headers = [], rq_body = NoBody\<rparr>"

definition toggle_request :: "string \<Rightarrow> bool \<Rightarrow> http_request" where
  "toggle_request i on = bare_post (saml_url i @ ''/'' @ (if on then ''enable'' else ''disable''))"

definition toggled_message :: "bool \<Rightarrow> string" where
  "toggled_message on = ''Provider '' @ (if on then ''enabled'' else ''disabled'')"

definition table_toggle :: "('w, unit) pact \<Rightarrow> string \<Rightarrow> bool \<Rightarrow> ('w, unit) pact" where
  "table_toggle refresh i on = try_catch
     (bnd (fetch (toggle_request i on)) (\<lambda>res. if \<not> rs_ok res then fail_msg ''Failed to toggle provider''
        else bnd (modify (toast_plain ''success'' (toggled_message on))) (\<lambda>_. refresh)))
     (\<lambda>_. modify (toast_plain ''error'' ''Failed to toggle provider''))"

text \<open>What the table says of the certificate of a connection; \<open>local_date\<close> is \<open>toLocaleDateString\<close>.\<close>

definition certificate_label :: "(jsval \<Rightarrow> string) \<Rightarrow> jsval \<Rightarrow> string list" where
  "certificate_label local_date p = (let cert = opt_prop (member p ''certificates'') ''0'' in
     if truthy cert then
       [if truthy (member cert ''expired'') then ''Expired''
        else if truthy (member cert ''expiring_soon'') then to_str (member cert ''days_until_expiry'') @ ''d left'' else ''Valid'',
        ''Expires '' @ local_date (member cert ''not_after'')]
     else if truthy (member p ''idp_cert_expires_at'') then [''Expires '' @ local_date (member p ''idp_cert_expires_at'')]
     else [''Certificate valid''])"

section \<open>saml-provider-sheet.tsx\<close>

record provider_sheet = pworld +
  ps_provider :: jsval
  ps_open :: bool
  ps_displayName :: string
  ps_ssoUrl :: string
  ps_enabled :: bool
  ps_mapping :: "(string \<times> jsval) list"
  ps_newKey :: string
  ps_newValue :: string
  ps_saving :: bool
  ps_deleting :: bool

type_synonym ('w, 'a) psact = "('w provider_sheet_scheme, 'a) js"

definition load_provider :: "'w provider_sheet_scheme \<Rightarrow> 'w provider_sheet_scheme" where
  "load_provider w = (let p = ps_provider w in if \<not> truthy p then w else
     w\<lparr>ps_displayName := to_str (js_or (member p ''display_name'') (member p ''id'')), ps_ssoUrl := to_str (js_or (member p ''idp_sso_url'') (JStr [])),
       ps_enabled := truthy (member p ''enabled''), ps_mapping := own_props (js_or (member p ''attribute_mapping'') (JObj []))\<rparr>)"

definition provider_id :: "'w provider_sheet_scheme \<Rightarrow> string" where
  "provider_id w = to_str (member (ps_provider w) ''id'')"

definition handleToggleEnabled :: "('w, unit) psact \<Rightarrow> bool \<Rightarrow> ('w, unit) psact" where
  "handleToggleEnabled on_success on = bnd (asks provider_id) (\<lambda>i. try_catch
     (bnd (fetch (toggle_request i on)) (\<lambda>res. if \<not> rs_ok res then fail_msg ''Failed to toggle provider status''
        else bnd (modify (\<lambda>w. toast_plain ''success'' (toggled_message on) (w\<lparr>ps_enabled := on\<rparr>))) (\<lambda>_. on_success)))
     (\<lambda>_. modify (toast_plain ''error'' ''Failed to update status'')))"

definition provider_body :: "'w provider_sheet_scheme \<Rightarrow> jsval" where
  "provider_body w = JObj [(''display_name'', JStr (ps_displayName w)), (''idp_sso_url'', JStr (ps_ssoUrl w)), (''attribute_mapping'', JObj (ps_mapping w))]"

definition sheet_done :: "string \<Rightarrow> ('w, unit) psact \<Rightarrow> ('w, unit) psact" where
  "sheet_done msg on_success = bnd (modify (toast_plain ''success'' msg)) (\<lambda>_. bnd on_success (\<lambda>_. modify (\<lambda>w. w\<lparr>ps_open := False\<rparr>)))"

definition handleSave :: "('w, unit) psact \<Rightarrow> ('w, unit) psact" where
  "handleSave on_success = bnd (asks (\<lambda>w. (provider_id w, provider_body w))) (\<lambda>(i, body).
     bnd (modify (\<lambda>w. w\<lparr>ps_saving := True\<rparr>)) (\<lambda>_. try_finally
       (bnd (fetch (json_send ''PATCH'' (saml_url i) body)) (\<lambda>res.
          if \<not> rs_ok res then fail_msg ''Failed to save changes'' else sheet_done ''SAML Provider updated'' on_success))
       (\<lambda>_. modify (toast_plain ''error'' ''Failed to save provider settings'')) (\<lambda>w. w\<lparr>ps_saving := False\<rparr>)))"

definition provider_delete :: "('w, unit) psact \<Rightarrow> ('w, unit) psact" where
  "provider_delete on_success = bnd (asks (\<lambda>w. (provider_id w,
       p_confirm w (''Are you sure you want to delete SAML provider '' @ quoted (provider_id w) @ ''?'')))) (\<lambda>(i, sure).
     if \<not> sure then ret () else
     bnd (modify (\<lambda>w. w\<lparr>ps_deleting := True\<rparr>)) (\<lambda>_. try_finally
       (bnd (fetch (delete_request (saml_url i))) (\<lambda>res.
          if \<not> rs_ok res then fail_msg ''Failed to delete provider'' else sheet_done ''Provider deleted'' on_success))
       (\<lambda>_. modify (toast_plain ''error'' ''Failed to delete provider'')) (\<lambda>w. w\<lparr>ps_deleting := False\<rparr>)))"

definition addMapping :: "'w provider_sheet_scheme \<Rightarrow> 'w provider_sheet_scheme" where
  "addMapping w = (if trim (ps_newKey w) = [] \<or> trim (ps_newValue w) = [] then w else
     w\<lparr>ps_mapping := al_set (trim (ps_newKey w)) (JStr (trim (ps_newValue w))) (ps_mapping w), ps_newKey := [], ps_newValue := []\<rparr>)"

definition removeMapping :: "string \<Rightarrow> 'w provider_sheet_scheme \<Rightarrow> 'w provider_sheet_scheme" where
  "removeMapping k w = w\<lparr>ps_mapping := filter (\<lambda>(k', v). k' \<noteq> k) (ps_mapping w)\<rparr>"

section \<open>saml-connection-wizard.tsx\<close>

datatype saml_step = IdpDetails | AttributeMapping | ReviewConnect

record saml_wizard = pworld +
  sw_step :: saml_step
  sw_id :: string
  sw_name :: string
  sw_entity :: string
  sw_ssoUrl :: string
  sw_pem :: string
  sw_template :: string
  sw_mapping :: "(string \<times> string) list"
  sw_submitting :: bool
  sw_success :: bool

definition claim_uri :: "string \<Rightarrow> string" where
  "claim_uri c = ''http://schemas.xmlsoap.org/ws/2005/05/identity/claims/'' @ c"

definition SAML_TEMPLATES :: "(string \<times> string \<times> (string \<times> string) list) list" where
  "SAML_TEMPLATES = [
     (''okta'', ''Okta'', [(''user.email'', ''email''), (''user.firstName'', ''first_name''), (''user.lastName'', ''last_name''), (''user.groups'', ''roles'')]),
     (''azure'', ''Microsoft Entra / Azure AD'', [(claim_uri ''emailaddress'', ''email''), (claim_uri ''givenname'', ''first_name''), (claim_uri ''surname'', ''last_name'')]),
     (''google'', ''Google Workspace'', [(''email'', ''email''), (''first_name'', ''first_name''), (''last_name'', ''last_name'')])]"

definition open_saml_wizard :: "'w saml_wizard_scheme \<Rightarrow> 'w saml_wizard_scheme" where
  "open_saml_wizard w = w\<lparr>sw_step := IdpDetails, sw_success := False\<rparr>"

definition selectTemplate :: "string \<Rightarrow> 'w saml_wizard_scheme \<Rightarrow> 'w saml_wizard_scheme" where
  "selectTemplate k w = (let w' = w\<lparr>sw_template := k\<rparr> in case map_of SAML_TEMPLATES k of
     Some (name, m) \<Rightarrow> w'\<lparr>sw_mapping := m\<rparr> | None \<Rightarrow> w')"

text \<open>The buttons \<open>Next\<close> and \<open>Back\<close>; the first is disabled without an identifier and an address.\<close>

definition details_missing :: "'w saml_wizard_scheme \<Rightarrow> bool" where
  "details_missing w \<longleftrightarrow> trim (sw_id w) = [] \<or> trim (sw_ssoUrl w) = []"

fun saml_forth :: "saml_step \<Rightarrow> 'w saml_wizard_scheme \<Rightarrow> 'w saml_wizard_scheme" where
  "saml_forth IdpDetails w = (if details_missing w then w else w\<lparr>sw_step := AttributeMapping\<rparr>)"
| "saml_forth AttributeMapping w = w\<lparr>sw_step := ReviewConnect\<rparr>"
| "saml_forth ReviewConnect w = w"

fun saml_back :: "saml_step \<Rightarrow> 'w saml_wizard_scheme \<Rightarrow> 'w saml_wizard_scheme" where
  "saml_back IdpDetails w = w"
| "saml_back AttributeMapping w = w\<lparr>sw_step := IdpDetails\<rparr>"
| "saml_back ReviewConnect w = (if sw_success w then w else w\<lparr>sw_step := AttributeMapping\<rparr>)"

definition connection_body :: "'w saml_wizard_scheme \<Rightarrow> jsval" where
  "connection_body w = JObj [(''id'', JStr (trim (sw_id w))), (''name'', JStr (str_or (trim (sw_name w)) (trim (sw_id w)))),
     (''idpEntityId'', JStr (str_or (trim (sw_entity w)) (''https://sts.example.com/'' @ trim (sw_id w)))), (''ssoUrl'', JStr (trim (sw_ssoUrl w))),
     (''certificatePem'', if trim (sw_pem w) = [] then JUndef else JStr (trim (sw_pem w))),
     (''attribute_mapping'', JObj (map (\<lambda>(k, v). (k, JStr v)) (sw_mapping w)))]"

definition connection_created :: "('w saml_wizard_scheme, unit) js \<Rightarrow> http_response \<Rightarrow> ('w saml_wizard_scheme, unit) js" where
  "connection_created on_success res = (if \<not> rs_ok res
     then bnd (response_json res) (\<lambda>d. bnd (lift (get_prop d ''error'')) (\<lambda>e. fail_msg (to_str (js_or e (JStr ''Failed to register connection'')))))
     else bnd (modify (\<lambda>w. toast_plain ''success'' ''SAML Provider registered and connection verified!'' (w\<lparr>sw_success := True\<rparr>))) (\<lambda>_. on_success))"

definition connection_create :: "('w saml_wizard_scheme, unit) js \<Rightarrow> ('w saml_wizard_scheme, unit) js" where
  "connection_create on_success = bnd (asks connection_body) (\<lambda>body. bnd (modify (\<lambda>w. w\<lparr>sw_submitting := True\<rparr>)) (\<lambda>_. try_finally
     (bnd (fetch (json_send ''POST'' ''/api/enterprise/saml'' body)) (connection_created on_success))
     (toast_error ''Registration failed'') (\<lambda>w. w\<lparr>sw_submitting := False\<rparr>)))"

section \<open>scim-sync-monitor.tsx\<close>

record scim_world = pworld +
  sy_users :: jsval
  sy_groups :: jsval
  sy_loadingGroups :: bool
  sy_newGroup :: string
  sy_creating :: bool
  sy_history :: jsval
  sy_loadingSync :: bool
  sy_syncing :: bool

type_synonym ('w, 'a) syact = "('w scim_world_scheme, 'a) js"

definition loadGroups :: "('w, unit) syact" where
  "loadGroups = bnd (modify (\<lambda>w. w\<lparr>sy_loadingGroups := True\<rparr>)) (\<lambda>_. try_finally
     (bnd (fetch (get_request ''/api/enterprise/scim/groups'')) (\<lambda>res. if \<not> rs_ok res then fail_msg ''Failed to load SCIM groups''
        else bnd (response_json res) (\<lambda>d. bnd (lift (get_prop d ''Resources'')) (\<lambda>r. modify (\<lambda>w. w\<lparr>sy_groups := js_or r (JArr [])\<rparr>)))))
     (\<lambda>_. modify (toast_plain ''error'' ''Failed to load SCIM groups'')) (\<lambda>w. w\<lparr>sy_loadingGroups := False\<rparr>))"

definition loadSyncHistory :: "('w, unit) syact" where
  "loadSyncHistory = bnd (modify (\<lambda>w. w\<lparr>sy_loadingSync := True\<rparr>)) (\<lambda>_. try_finally
     (bnd (fetch (get_request ''/api/enterprise/scim/sync'')) (\<lambda>res. if \<not> rs_ok res then fail_msg ''Failed to load sync history''
        else bnd (response_json res) (\<lambda>d. modify (\<lambda>w. w\<lparr>sy_history := (if is_arr d then d else JArr [])\<rparr>))))
     (\<lambda>_. modify (toast_plain ''error'' ''Failed to load sync history'')) (\<lambda>w. w\<lparr>sy_loadingSync := False\<rparr>))"

text \<open>The list is loaded again without waiting; here that load runs first.\<close>

definition handleCreateGroup :: "('w, unit) syact" where
  "handleCreateGroup = bnd (asks (\<lambda>w. trim (sy_newGroup w))) (\<lambda>name. if name = [] then ret () else
     bnd (modify (\<lambda>w. w\<lparr>sy_creating := True\<rparr>)) (\<lambda>_. try_finally
       (bnd (fetch (json_send ''POST'' ''/api/enterprise/scim/groups'' (JObj [
            (''schemas'', JArr [JStr ''urn:ietf:params:scim:schemas:core:2.0:Group'']), (''displayName'', JStr name), (''members'', JArr [])]))) (\<lambda>res.
          if \<not> rs_ok res then fail_msg ''Failed to create group''
          else bnd (modify (\<lambda>w. toast_plain ''success'' (''Group '' @ quoted name @ '' created'') (w\<lparr>sy_newGroup := []\<rparr>))) (\<lambda>_. loadGroups)))
       (\<lambda>_. modify (toast_plain ''error'' ''Failed to create SCIM group'')) (\<lambda>w. w\<lparr>sy_creating := False\<rparr>)))"

definition list_length :: "jsval \<Rightarrow> jsval" where
  "list_length v = member v ''length''"

definition sync_report :: "'w scim_world_scheme \<Rightarrow> jsval" where
  "sync_report w = JObj [(''resource_type'', JStr ''All''), (''status'', JStr ''success''),
     (''total_records'', js_plus (list_length (sy_users w)) (list_length (sy_groups w))), (''created_count'', jint 0),
     (''updated_count'', list_length (sy_users w)), (''deleted_count'', jint 0), (''error_count'', jint 0), (''errors'', JArr [])]"

definition sync_request :: "jsval \<Rightarrow> http_request" where
  "sync_request report = json_send ''POST'' ''/api/enterprise/scim/sync'' report"

definition sync_answered :: "('w, unit) syact \<Rightarrow> http_response \<Rightarrow> ('w, unit) syact" where
  "sync_answered on_refresh res = (if \<not> rs_ok res then fail_msg ''Sync trigger failed''
     else bnd (modify (toast_plain ''success'' ''SCIM Directory Synchronization completed'')) (\<lambda>_. bnd loadSyncHistory (\<lambda>_. on_refresh)))"

definition handleTriggerSync :: "('w, unit) syact \<Rightarrow> ('w, unit) syact" where
  "handleTriggerSync on_refresh = bnd (asks sync_report) (\<lambda>report. bnd (modify (\<lambda>w. w\<lparr>sy_syncing := True\<rparr>)) (\<lambda>_. try_finally
     (bnd (fetch (sync_request report)) (sync_answered on_refresh))
     (\<lambda>_. modify (toast_plain ''error'' ''Failed to trigger SCIM synchronization'')) (\<lambda>w. w\<lparr>sy_syncing := False\<rparr>)))"

section \<open>What the pages claim\<close>

text \<open>What only adds to the requests and the messages.\<close>

definition goes_on :: "'w bworld_scheme \<Rightarrow> 'w bworld_scheme \<Rightarrow> bool" where
  "goes_on w w' \<longleftrightarrow> prefix (w_sent w) (w_sent w') \<and> prefix (b_toasts w) (b_toasts w')"

interpretation onward: frame goes_on
  by unfold_locales (auto simp: goes_on_def intro: prefix_order.trans)

lemma goes_fetch: "keeps goes_on (fetch rq)"
  by (simp add: keeps_def goes_on_def fetch_def Let_def)

lemma goes_json: "keeps goes_on (response_json r)"
  by (simp add: keeps_def goes_on_def response_json_def)

lemma goes_modify: "(\<And>w. goes_on w (g w)) \<Longrightarrow> keeps goes_on (modify g)"
  by (simp add: keeps_def modify_def)

lemma goes_try_finally:
  "keeps goes_on m \<Longrightarrow> (\<And>e. keeps goes_on (h e)) \<Longrightarrow> (\<And>w. goes_on w (g w)) \<Longrightarrow> keeps goes_on (try_finally m h g)"
  unfolding try_finally_def by (intro onward.rules goes_modify)

lemma goes_toast: "goes_on w (toast_plain k msg w)"
  by (simp add: goes_on_def toast_plain_def)

lemma goes_loadSyncHistory: "keeps goes_on loadSyncHistory"
  unfolding loadSyncHistory_def fail_msg_def
  by (intro onward.k_bnd goes_modify goes_try_finally goes_fetch same_if onward.k_throw goes_json goes_toast) (simp_all add: goes_on_def)

text \<open>
  Starting a synchronisation synchronises nothing: the page sends Hermes the report of one, which says \<open>success\<close>, no errors and every user on display
  updated before anything has run, and announces a completed synchronisation as soon as the report is accepted.
\<close>

theorem sync_reports_success:
  assumes "keeps goes_on on_refresh"
  shows "prefix (w_sent w @ [sync_request (sync_report w)]) (w_sent (snd (handleTriggerSync on_refresh w))) \<and>
    prefix (b_toasts w @ [case w_upstream w (w_sent w @ [sync_request (sync_report w)]) of
        Inr res \<Rightarrow> if rs_ok res then (''success'', ''SCIM Directory Synchronization completed'', None)
          else (''error'', ''Failed to trigger SCIM synchronization'', None)
      | Inl _ \<Rightarrow> (''error'', ''Failed to trigger SCIM synchronization'', None)]) (b_toasts (snd (handleTriggerSync on_refresh w))) \<and>
    member (sync_report w) ''status'' = JStr ''success'' \<and> member (sync_report w) ''error_count'' = jint 0 \<and>
    member (sync_report w) ''updated_count'' = list_length (sy_users w)"
proof -
  let ?rq = "sync_request (sync_report w)"
  let ?w1 = "log_request ?rq (w\<lparr>sy_syncing := True\<rparr>)"
  have run: "handleTriggerSync on_refresh w = (case (case w_upstream w (w_sent w @ [?rq]) of
      Inl e \<Rightarrow> modify (toast_plain ''error'' ''Failed to trigger SCIM synchronization'') ?w1
    | Inr res \<Rightarrow> try_catch (sync_answered on_refresh res) (\<lambda>_. modify (toast_plain ''error'' ''Failed to trigger SCIM synchronization'')) ?w1)
     of (r, w') \<Rightarrow> (r, w'\<lparr>sy_syncing := False\<rparr>))"
    by (simp add: handleTriggerSync_def run_asks run_modify run_fetch_try)
  have after: "keeps goes_on (bnd loadSyncHistory (\<lambda>_. on_refresh))"
    by (intro onward.k_bnd goes_loadSyncHistory assms)
  have more: "goes_on v (snd (try_catch (bnd loadSyncHistory (\<lambda>_. on_refresh)) (\<lambda>_. modify (toast_plain k msg)) v))" for v k msg
  proof -
    have "keeps goes_on (try_catch (bnd loadSyncHistory (\<lambda>_. on_refresh)) (\<lambda>_. modify (toast_plain k msg)))"
      by (intro onward.k_try after goes_modify goes_toast)
    then show ?thesis by (simp add: keeps_def)
  qed
  show ?thesis
  proof (cases "\<exists>res. w_upstream w (w_sent w @ [?rq]) = Inr res \<and> rs_ok res")
    case True
    then obtain res where res: "w_upstream w (w_sent w @ [?rq]) = Inr res" "rs_ok res" by blast
    let ?v = "toast_plain ''success'' ''SCIM Directory Synchronization completed'' ?w1"
    let ?t = "try_catch (bnd loadSyncHistory (\<lambda>_. on_refresh)) (\<lambda>_. modify (toast_plain ''error'' ''Failed to trigger SCIM synchronization'')) ?v"
    have "snd (handleTriggerSync on_refresh w) = (snd ?t)\<lparr>sy_syncing := False\<rparr>"
      unfolding run using res by (simp add: sync_answered_def try_catch_def run_modify split: prod.split)
    moreover have "goes_on ?v (snd ?t)" by (rule more)
    ultimately show ?thesis
      using res by (simp add: goes_on_def toast_plain_def log_request_def sync_report_def)
  next
    case False
    then show ?thesis
      unfolding run by (auto simp: sync_answered_def fail_msg_def run_only_modify toast_plain_def log_request_def sync_report_def split: sum.split)
  qed
qed

text \<open>A connection about whose certificate nothing is known is shown with a valid one.\<close>

theorem missing_certificate_valid:
  assumes "\<not> truthy (opt_prop (member p ''certificates'') ''0'')" "\<not> truthy (member p ''idp_cert_expires_at'')"
  shows "certificate_label local_date p = [''Certificate valid'']"
  using assms by (simp add: certificate_label_def Let_def)

section \<open>The sheet of a connection\<close>

text \<open>The switch of the sheet follows the engine: it moves exactly when the change was accepted.\<close>

theorem switch_follows_engine:
  assumes "keeps (unchanged ps_enabled) on_success"
  shows "ps_enabled (snd (handleToggleEnabled on_success on w)) =
    (case w_upstream w (w_sent w @ [toggle_request (provider_id w) on]) of Inl _ \<Rightarrow> ps_enabled w
     | Inr res \<Rightarrow> if rs_ok res then on else ps_enabled w)"
proof -
  have k: "ps_enabled (snd (try_catch on_success (\<lambda>_. modify (toast_plain ''error'' m)) v)) = ps_enabled v" for m v
    by (rule sameD [of ps_enabled], intro same.k_try assms same_modify) (simp add: toast_plain_def)
  show ?thesis
  proof (cases "w_upstream w (w_sent w @ [toggle_request (provider_id w) on])")
    case (Inl e)
    then show ?thesis by (simp add: handleToggleEnabled_def run try_catch_def toast_plain_def log_request_def)
  next
    case (Inr res)
    let ?v = "toast_plain ''success'' (toggled_message on) ((log_request (toggle_request (provider_id w) on) w)\<lparr>ps_enabled := on\<rparr>)"
    show ?thesis
    proof (cases "rs_ok res")
      case True
      then have "handleToggleEnabled on_success on w = try_catch on_success (\<lambda>_. modify (toast_plain ''error'' ''Failed to update status'')) ?v"
        using Inr by (simp add: handleToggleEnabled_def run try_catch_def)
      then show ?thesis using Inr True k [of _ ?v] by (simp add: toast_plain_def)
    next
      case False
      then show ?thesis using Inr by (simp add: handleToggleEnabled_def run try_catch_def fail_msg_def toast_plain_def log_request_def)
    qed
  qed
qed

lemma filter_al_set: "k \<notin> fst ` set kvs \<Longrightarrow> filter (\<lambda>(k', v). k' \<noteq> k) (al_set k x kvs) = kvs"
  by (induction kvs) (auto simp: case_prod_unfold)

text \<open>
  The editor of the attribute mapping: an attribute that is added maps to its value and leaves the others as they were, removing one that was new
  restores the mapping, and after removing an attribute it is not mapped.
\<close>

theorem mapping_edited:
  assumes "trim (ps_newKey w) \<noteq> []" "trim (ps_newValue w) \<noteq> []"
  defines "k \<equiv> trim (ps_newKey w)"
  shows "map_of (ps_mapping (addMapping w)) = (map_of (ps_mapping w))(k \<mapsto> JStr (trim (ps_newValue w))) \<and>
    (k \<notin> fst ` set (ps_mapping w) \<longrightarrow> ps_mapping (removeMapping k (addMapping w)) = ps_mapping w) \<and>
    map_of (ps_mapping (removeMapping k w)) k = None"
  using assms by (auto simp: addMapping_def removeMapping_def filter_al_set map_of_eq_None_iff)

section \<open>The steps of the wizard\<close>

text \<open>The fields of the first step can be edited there only; the templates are on the second.\<close>

datatype saml_move = SamlForth | SamlBack | EditId string | EditUrl string | Template string

fun saml_moved :: "saml_move \<Rightarrow> 'w saml_wizard_scheme \<Rightarrow> 'w saml_wizard_scheme" where
  "saml_moved SamlForth w = saml_forth (sw_step w) w"
| "saml_moved SamlBack w = saml_back (sw_step w) w"
| "saml_moved (EditId s) w = (if sw_step w = IdpDetails then w\<lparr>sw_id := s\<rparr> else w)"
| "saml_moved (EditUrl s) w = (if sw_step w = IdpDetails then w\<lparr>sw_ssoUrl := s\<rparr> else w)"
| "saml_moved (Template k) w = (if sw_step w = AttributeMapping then selectTemplate k w else w)"

definition details_given :: "'w saml_wizard_scheme \<Rightarrow> bool" where
  "details_given w \<longleftrightarrow> sw_step w = IdpDetails \<or> \<not> details_missing w"

lemma saml_move_details: "details_given w \<Longrightarrow> details_given (saml_moved m w)"
  by (cases m; cases "sw_step w") (auto simp: details_given_def details_missing_def selectTemplate_def Let_def split: option.split)

text \<open>
  A connection is registered with an identifier and an address: however the wizard is gone through from its opening, at its last step the body it would send
  has both, not empty, and an issuer, which is made up from the identifier when none was typed.
\<close>

theorem connection_has_details:
  assumes "v = fold saml_moved ms (open_saml_wizard w)" "sw_step v = ReviewConnect"
  shows "\<exists>i u e. member (connection_body v) ''id'' = JStr i \<and> i \<noteq> [] \<and> member (connection_body v) ''ssoUrl'' = JStr u \<and> u \<noteq> [] \<and>
    member (connection_body v) ''idpEntityId'' = JStr e \<and> e \<noteq> [] \<and> (trim (sw_entity v) = [] \<longrightarrow> e = ''https://sts.example.com/'' @ i)"
proof -
  have "details_given (fold saml_moved ms u)" if "details_given u" for u :: "'a saml_wizard_scheme"
    using that by (induction ms arbitrary: u) (auto simp: saml_move_details)
  then have "details_given v" by (simp add: assms(1) open_saml_wizard_def details_given_def)
  then show ?thesis
    using assms(2) by (auto simp: details_given_def details_missing_def connection_body_def str_or_def)
qed

end
