(* ===== verification/ExplorerPages.thy ===== *)
theory ExplorerPages
  imports FleetPages
begin

text \<open>
  The explorer (app/explorer: one subject in all engines, effective access, the request simulator, the consistency checks), the pages under
  app/observability that ask something (diagnostics, alerts, the fleet dashboard, the tabs) and the first page of a new installation
  (app/welcome). Most of them ask a question and show the answer they got last; \<open>explorer_view\<close> below is how the explorer does that while several
  questions are under way.
\<close>

section \<open>One question\<close>

text \<open>\<open>if (!res.ok) throw new Error(res.error.message)\<close>\<close>

definition data_or_throw :: "api_result \<Rightarrow> ('w, jsval) bact" where
  "data_or_throw r = (case r of Inl e \<Rightarrow> fail_msg (ae_message e) | Inr d \<Rightarrow> ret d)"

record access_world = pworld +
  ac_subject :: string
  ac_resource :: string
  ac_action :: string
  ac_loading :: bool
  ac_result :: jsval

definition access_body :: "'w access_world_scheme \<Rightarrow> jsval" where
  "access_body w = JObj [(''subject'', JStr (ac_subject w)), (''resource'', JStr (ac_resource w)), (''action'', JStr (ac_action w))]"

definition evaluate_access :: "('w access_world_scheme, unit) js" where
  "evaluate_access = bnd (asks access_body) (\<lambda>body. bnd (modify (\<lambda>w. w\<lparr>ac_loading := True\<rparr>)) (\<lambda>_. try_finally
     (bnd (fetchJSON ''/api/explorer/effective-access'' (json_options ''POST'' body)) (\<lambda>r. bnd (data_or_throw r) (\<lambda>d.
        modify (\<lambda>w. w\<lparr>ac_result := d\<rparr>))))
     (\<lambda>_. modify (toast_plain ''error'' ''Failed to evaluate effective access'')) (\<lambda>w. w\<lparr>ac_loading := False\<rparr>)))"

record subject_world = pworld +
  sv_query :: string
  sv_loading :: bool
  sv_subject :: jsval

definition fetchSubject :: "string \<Rightarrow> ('w subject_world_scheme, unit) js" where
  "fetchSubject i = (if trim i = [] then ret () else bnd (modify (\<lambda>w. w\<lparr>sv_loading := True\<rparr>)) (\<lambda>_. try_finally
     (bnd (fetch (get_request (''/api/explorer/subject/'' @ encode_uri_component (trim i)))) (\<lambda>res.
        if \<not> rs_ok res then fail_msg ''Failed to resolve subject''
        else bnd (response_json res) (\<lambda>d. modify (\<lambda>w. w\<lparr>sv_subject := d\<rparr>))))
     (\<lambda>_. modify (toast_plain ''error'' ''Failed to resolve subject across engines'')) (\<lambda>w. w\<lparr>sv_loading := False\<rparr>)))"

definition subject_search :: "('w subject_world_scheme, unit) js" where
  "subject_search = bnd (asks sv_query) fetchSubject"

record simulator_world = pworld +
  sm_method :: string
  sm_path :: string
  sm_auth :: string
  sm_subject :: string
  sm_loading :: bool
  sm_trace :: jsval

definition simulation_body :: "'w simulator_world_scheme \<Rightarrow> jsval" where
  "simulation_body w = JObj [(''method'', JStr (sm_method w)), (''path'', JStr (sm_path w)),
     (''headers'', JObj (if sm_auth w = [] then [] else [(''authorization'', JStr (sm_auth w))])), (''subject'', JStr (sm_subject w))]"

definition simulate_request :: "('w simulator_world_scheme, unit) js" where
  "simulate_request = bnd (asks simulation_body) (\<lambda>body. bnd (modify (\<lambda>w. w\<lparr>sm_loading := True\<rparr>)) (\<lambda>_. try_finally
     (bnd (fetchJSON ''/api/explorer/simulate'' (json_options ''POST'' body)) (\<lambda>r. bnd (data_or_throw r) (\<lambda>d.
        modify (\<lambda>w. w\<lparr>sm_trace := d\<rparr>))))
     (\<lambda>_. modify (toast_plain ''error'' ''Failed to run request simulation'')) (\<lambda>w. w\<lparr>sm_loading := False\<rparr>)))"

record checker_world = pworld +
  cc_findings :: "jsval list"
  cc_loading :: bool

definition runDiagnostics :: "('w checker_world_scheme, unit) js" where
  "runDiagnostics = bnd (modify (\<lambda>w. w\<lparr>cc_loading := True\<rparr>)) (\<lambda>_. try_finally
     (bnd (fetch (get_request ''/api/explorer/consistency'')) (\<lambda>res. if \<not> rs_ok res then fail_msg ''Diagnostic run failed''
        else bnd (response_json res) (\<lambda>d. modify (\<lambda>w. toast_plain ''success'' ''Cross-engine diagnostic sweep completed''
          (w\<lparr>cc_findings := (if is_arr d then elems d else [])\<rparr>)))))
     (\<lambda>_. modify (toast_plain ''error'' ''Failed to execute consistency checks'')) (\<lambda>w. w\<lparr>cc_loading := False\<rparr>))"

definition severity_count :: "string \<Rightarrow> jsval list \<Rightarrow> nat" where
  "severity_count sev fs = length (filter (\<lambda>f. strict_eq (member f ''severity'') (JStr sev)) fs)"

section \<open>app/observability\<close>

record diagnostics_world = pworld +
  dg_source :: string
  dg_target :: string
  dg_probing :: bool
  dg_probe :: jsval
  dg_drift :: jsval
  dg_migrations :: jsval
  dg_timeline :: jsval
  dg_exporting :: bool

definition runProbe :: "('w diagnostics_world_scheme, unit) js" where
  "runProbe = bnd (asks (\<lambda>w. JObj [(''source_engine'', JStr (dg_source w)), (''target_engine'', JStr (dg_target w))])) (\<lambda>body.
     bnd (modify (\<lambda>w. w\<lparr>dg_probing := True\<rparr>)) (\<lambda>_. try_finally
       (bnd (fetchJSON ''/api/diagnostics/probe'' (json_options ''POST'' body)) (\<lambda>r. bnd (data_or_throw r) (\<lambda>d.
          modify (\<lambda>w. w\<lparr>dg_probe := d\<rparr>))))
       (\<lambda>_. modify (toast_plain ''error'' ''Connectivity probe failed'')) (\<lambda>w. w\<lparr>dg_probing := False\<rparr>)))"

definition on_data :: "api_result \<Rightarrow> (jsval \<Rightarrow> 'w \<Rightarrow> 'w) \<Rightarrow> 'w \<Rightarrow> 'w" where
  "on_data r f w = (case r of Inr d \<Rightarrow> f d w | Inl _ \<Rightarrow> w)"

text \<open>\<open>Promise.all\<close>: all three requests are sent; the first failure is passed on, here to a handler that does nothing.\<close>

definition fetchDiagnosticsData :: "('w diagnostics_world_scheme, unit) js" where
  "fetchDiagnosticsData = try_catch
     (bnd (settle (fetchJSON ''/api/diagnostics/drift'' no_options)) (\<lambda>r1. bnd (settle (fetchJSON ''/api/diagnostics/migrations'' no_options)) (\<lambda>r2.
      bnd (settle (fetchJSON ''/api/diagnostics/timeline'' no_options)) (\<lambda>r3. bnd (lift r1) (\<lambda>drift. bnd (lift r2) (\<lambda>mig. bnd (lift r3) (\<lambda>time.
        modify (\<lambda>w. on_data time (\<lambda>d w. w\<lparr>dg_timeline := d\<rparr>) (on_data mig (\<lambda>d w. w\<lparr>dg_migrations := d\<rparr>)
          (on_data drift (\<lambda>d w. w\<lparr>dg_drift := d\<rparr>) w))))))))))
     (\<lambda>_. ret ())"

definition handleExportBundle :: "('w diagnostics_world_scheme, unit) js" where
  "handleExportBundle = bnd (modify (\<lambda>w. w\<lparr>dg_exporting := True\<rparr>)) (\<lambda>_. try_finally
     (bnd (fetchJSON ''/api/diagnostics/bundle'' \<lparr>fo_method = Some ''POST'', fo_headers = [], fo_body = NoBody\<rparr>) (\<lambda>r. bnd (data_or_throw r) (\<lambda>d.
        bnd (lift (get_prop d ''bundle_id'')) (\<lambda>i.
        modify (toast_plain ''success'' (''Diagnostic bundle '' @ to_str i @ '' generated successfully!''))))))
     (\<lambda>_. modify (toast_plain ''error'' ''Failed to generate diagnostic bundle'')) (\<lambda>w. w\<lparr>dg_exporting := False\<rparr>))"

record alerts_world = pworld +
  al_alerts :: jsval
  al_rules :: jsval
  al_error :: "string option"

definition load_alerts :: "('w alerts_world_scheme, unit) js" where
  "load_alerts = bnd (modify (\<lambda>w. w\<lparr>al_error := None\<rparr>)) (\<lambda>_.
     bnd (settle (fetch (get_request ''/api/observability/alerts''))) (\<lambda>r1. bnd (settle (fetch (get_request ''/api/observability/alerts/rules''))) (\<lambda>r2.
     bnd (lift r1) (\<lambda>alertsResponse. bnd (lift r2) (\<lambda>rulesResponse.
     if \<not> rs_ok alertsResponse \<or> \<not> rs_ok rulesResponse
     then modify (\<lambda>w. w\<lparr>al_error := Some ''Prometheus alerts or rules are unavailable.''\<rparr>)
     else bnd (response_json alertsResponse) (\<lambda>a. bnd (modify (\<lambda>w. w\<lparr>al_alerts := a\<rparr>)) (\<lambda>_.
       bnd (response_json rulesResponse) (\<lambda>r. modify (\<lambda>w. w\<lparr>al_rules := r\<rparr>)))))))))"

text \<open>What the two lists show: the error, that there is nothing, or the entries.\<close>

datatype listing = Unavailable string | NothingToList string | Entries "jsval list"

definition alerts_shown :: "'w alerts_world_scheme \<Rightarrow> listing" where
  "alerts_shown w = (case al_error w of Some (c # e) \<Rightarrow> Unavailable (c # e)
   | _ \<Rightarrow> if elems (al_alerts w) = [] then NothingToList ''No firing alerts reported by Prometheus.'' else Entries (elems (al_alerts w)))"

record metrics_world = pworld +
  mt_metrics :: jsval
  mt_loading :: bool

definition fetchMetrics :: "('w metrics_world_scheme, unit) js" where
  "fetchMetrics = bnd (modify (\<lambda>w. w\<lparr>mt_loading := True\<rparr>)) (\<lambda>_. try_finally
     (bnd (fetch (get_request ''/api/observability/metrics'')) (\<lambda>res. if \<not> rs_ok res then fail_msg ''Failed to load fleet metrics''
        else bnd (response_json res) (\<lambda>d. modify (\<lambda>w. w\<lparr>mt_metrics := d\<rparr>))))
     (\<lambda>_. modify (toast_plain ''error'' ''Error loading fleet metrics summary'')) (\<lambda>w. w\<lparr>mt_loading := False\<rparr>))"

record tabs_view =
  tb_active :: string
  tb_engine :: string
  tb_trace :: "string option"

definition handleSelectEngine :: "string \<Rightarrow> tabs_view \<Rightarrow> tabs_view" where
  "handleSelectEngine eng v = v\<lparr>tb_engine := eng, tb_active := ''engine''\<rparr>"

definition handleSelectTrace :: "string \<Rightarrow> tabs_view \<Rightarrow> tabs_view" where
  "handleSelectTrace i v = v\<lparr>tb_trace := Some i, tb_active := ''traces''\<rparr>"

section \<open>app/welcome/page.tsx\<close>

record welcome_world = pworld +
  we_detected :: bool

definition poll_instances :: "('w welcome_world_scheme, unit) js" where
  "poll_instances = try_catch
     (bnd (fetch (get_request ''/api/fleet/instances'')) (\<lambda>res. if \<not> rs_ok res then ret () else
      bnd (response_json res) (\<lambda>d. bnd (lift (if is_arr d then Inr d else map_sum id (\<lambda>i. js_or i (JArr [])) (get_prop d ''items''))) (\<lambda>l.
        if some_listed l then modify (\<lambda>w. w\<lparr>we_detected := True\<rparr>) else ret ()))))
     (\<lambda>_. ret ())"

section \<open>Several questions under way\<close>

text \<open>
  The explorer's tabs ask again whenever a field changes (the effect depends on the handler, which depends on the fields) and take every answer as it
  comes; nothing cancels or orders them. Here a view has the fields, the questions under way and the answer shown.
\<close>

record 'q explorer_view =
  xv_fields :: 'q
  xv_asked :: "'q list"
  xv_busy :: bool
  xv_shown :: "('q \<times> jsval) option"

datatype 'q explorer_event = Edited 'q | Answered nat "exn + jsval"

fun explorer_step :: "'q explorer_event \<Rightarrow> 'q explorer_view \<Rightarrow> 'q explorer_view" where
  "explorer_step (Edited q) v = v\<lparr>xv_fields := q, xv_asked := xv_asked v @ [q], xv_busy := True\<rparr>"
| "explorer_step (Answered i r) v = v\<lparr>xv_busy := False,
     xv_shown := (case r of Inr d \<Rightarrow> Some (xv_asked v ! i, d) | Inl _ \<Rightarrow> xv_shown v)\<rparr>"

text \<open>Each question is answered at most once, after it was asked.\<close>

fun explorer_order :: "nat \<Rightarrow> nat set \<Rightarrow> 'q explorer_event list \<Rightarrow> bool" where
  "explorer_order n done [] \<longleftrightarrow> True"
| "explorer_order n done (Edited q # es) \<longleftrightarrow> explorer_order (Suc n) done es"
| "explorer_order n done (Answered i r # es) \<longleftrightarrow> i < n \<and> i \<notin> done \<and> explorer_order n (insert i done) es"

definition opened_view :: "'q \<Rightarrow> 'q explorer_view" where
  "opened_view q = explorer_step (Edited q) \<lparr>xv_fields = q, xv_asked = [], xv_busy = False, xv_shown = None\<rparr>"

text \<open>
  A verdict on display can be one on something else: two edits whose answers arrive in the other order leave the verdict on the first question under the
  fields of the second, with nothing loading, and so does a question that fails after one that was answered.
\<close>

theorem verdict_of_another_question:
  assumes "q1 \<noteq> q2"
  shows "(\<exists>es. explorer_order 1 {} es \<and> (let v = fold explorer_step es (opened_view q1) in
      xv_fields v \<noteq> q1 \<and> \<not> xv_busy v \<and> xv_shown v = Some (q1, d1))) \<and>
    (let v = fold explorer_step [Answered 0 (Inr d1), Edited q2, Answered 1 (Inl e)] (opened_view q1) in
      xv_fields v = q2 \<and> \<not> xv_busy v \<and> xv_shown v = Some (q1, d1))"
proof
  show "\<exists>es. explorer_order 1 {} es \<and> (let v = fold explorer_step es (opened_view q1) in
      xv_fields v \<noteq> q1 \<and> \<not> xv_busy v \<and> xv_shown v = Some (q1, d1))"
    using assms by (intro exI [of _ "[Edited q2, Answered 1 (Inr d2), Answered 0 (Inr d1)]"]) (simp add: opened_view_def)
qed (simp add: opened_view_def)

text \<open>When the questions are asked one at a time, each after the answer to the one before, the verdict is the one on the fields.\<close>

fun one_by_one :: "nat \<Rightarrow> 'q explorer_event list \<Rightarrow> bool" where
  "one_by_one n [] \<longleftrightarrow> True"
| "one_by_one n (Edited q # Answered i (Inr d) # es) \<longleftrightarrow> i = n \<and> one_by_one (Suc n) es"
| "one_by_one n _ \<longleftrightarrow> False"

lemma one_by_one_shows:
  "one_by_one (length (xv_asked v)) es \<Longrightarrow> es \<noteq> [] \<Longrightarrow>
    \<exists>d. xv_shown (fold explorer_step es v) = Some (xv_fields (fold explorer_step es v), d) \<and> \<not> xv_busy (fold explorer_step es v)"
proof (induction "length (xv_asked v)" es arbitrary: v rule: one_by_one.induct)
  case (2 q i d es)
  let ?v = "explorer_step (Answered i (Inr d)) (explorer_step (Edited q) v)"
  show ?case
  proof (cases "es = []")
    case True
    then show ?thesis using 2(2) by (auto simp: nth_append)
  next
    case False
    then show ?thesis using 2(1) [of ?v] 2(2) by (simp add: nth_append)
  qed
qed auto

text \<open>One evaluation does to the result what the view says of an answer.\<close>

lemma result_redirect [simp]: "ac_result (redirectToLogin z w) = ac_result w"
  by (simp add: redirectToLogin_def Let_def)

lemma result_fetchJSON: "keeps (unchanged ac_result) (fetchJSON url opts)"
  unfolding fetchJSON_def read_result_def by (auto intro!: same_rules split: sum.split)

lemma evaluate_access_answer:
  fixes w :: "'w access_world_scheme"
  defines "asked \<equiv> fst (fetchJSON ''/api/explorer/effective-access'' (json_options ''POST'' (access_body w)) (w\<lparr>ac_loading := True\<rparr>))"
  shows "ac_result (snd (evaluate_access w)) = (case asked of Inr (Inr d) \<Rightarrow> d | _ \<Rightarrow> ac_result w) \<and> \<not> ac_loading (snd (evaluate_access w))"
proof -
  obtain r v where rv: "fetchJSON ''/api/explorer/effective-access'' (json_options ''POST'' (access_body w)) (w\<lparr>ac_loading := True\<rparr>) = (r, v)"
    by fastforce
  then have "ac_result v = ac_result w"
    using sameD [OF result_fetchJSON, of "''/api/explorer/effective-access''" "json_options ''POST'' (access_body w)" "w\<lparr>ac_loading := True\<rparr>"] by simp
  then show ?thesis
    by (auto simp: asked_def rv evaluate_access_def asks_def try_finally_def bnd_def settle_def try_catch_def lift_def modify_def
        data_or_throw_def fail_msg_def throw_def ret_def toast_plain_def split: sum.split)
qed

text \<open>
  The export of a diagnostic bundle exports nothing: whatever the route answers, no file is handed to the browser; the operator gets a message.
\<close>

lemma files_redirect [simp]: "p_files (redirectToLogin z w) = p_files w"
  by (simp add: redirectToLogin_def Let_def)

lemma files_fetchJSON: "keeps (unchanged p_files) (fetchJSON url opts)"
  unfolding fetchJSON_def read_result_def
  by (auto intro!: same_rules split: sum.split)

lemma files_data: "keeps (unchanged f) (data_or_throw r)"
  by (cases r) (auto simp: data_or_throw_def intro: same_rules)

theorem bundle_not_exported: "p_files (snd (handleExportBundle w)) = p_files w"
proof -
  have "keeps (unchanged p_files) handleExportBundle"
    unfolding handleExportBundle_def
    by (intro same.k_bnd same_modify same_try_finally files_fetchJSON files_data same.k_lift) (simp_all add: toast_plain_def)
  then show ?thesis by (rule sameD)
qed

end
