(* ===== verification/FramePages.thy ===== *)
theory FramePages
  imports Pages
begin

text \<open>
  The frame around the pages: the two command menus (components/layout/command-palette.tsx, command-dialog.tsx), the theme
  (lib/theme-provider.tsx), the operator shown in the header (header.tsx), the choice of the frame (app-shell.tsx), and the widgets for secrets and
  identifiers (components/ui/masked-secret.tsx). The clipboard is left out; times are milliseconds.
\<close>

section \<open>Command menus\<close>

definition matches :: "string \<Rightarrow> string \<Rightarrow> bool" where
  "matches search label \<longleftrightarrow> str_includes (to_lower label) (to_lower search)"

definition navigationItems :: "(string \<times> string) list" where
  "navigationItems = [(''Dashboard'', ''/''), (''Identities (Ego)'', ''/identities''), (''Permissions (Nexus)'', ''/permissions''),
     (''OAuth2 & OIDC (Janus)'', ''/oauth2''), (''Proxy Rules (Aegis)'', ''/proxy-rules''), (''API Keys (Vulcan)'', ''/vulcan''),
     (''Enterprise SSO & SCIM (Hermes)'', ''/enterprise''), (''Policies (Themis)'', ''/policies''), (''Operators & RBAC'', ''/operators''),
     (''Design System & Tokens'', ''/design-system'')]"

datatype palette_action = SwitchTheme string | LogOutAction

definition palette_actions :: "string \<Rightarrow> (string \<times> palette_action) list" where
  "palette_actions resolved = [
     (if resolved = ''dark'' then ''Switch to Light Theme'' else ''Switch to Dark Theme'', SwitchTheme (if resolved = ''dark'' then ''light'' else ''dark'')),
     (''Log Out of Console'', LogOutAction)]"

definition filteredNav :: "string \<Rightarrow> (string \<times> string) list" where
  "filteredNav search = filter (\<lambda>(label, href). matches search label) navigationItems"

definition filteredActions :: "string \<Rightarrow> string \<Rightarrow> (string \<times> palette_action) list" where
  "filteredActions search resolved = filter (\<lambda>(label, a). matches search label) (palette_actions resolved)"

record menu_world = pworld +
  mn_open :: bool
  mn_query :: string
  mn_routes :: "string list"

text \<open>A key press: whether a control or command key is held, and the key.\<close>

definition palette_key :: "bool \<Rightarrow> string \<Rightarrow> 'w menu_world_scheme \<Rightarrow> 'w menu_world_scheme" where
  "palette_key ctrl key w = (let w1 = (if ctrl \<and> key = ''k'' then w\<lparr>mn_open := \<not> mn_open w\<rparr> else w)
     in if key = ''Escape'' \<and> mn_open w then w1\<lparr>mn_open := False\<rparr> else w1)"

definition handleSelectNav :: "string \<Rightarrow> 'w menu_world_scheme \<Rightarrow> 'w menu_world_scheme" where
  "handleSelectNav href w = w\<lparr>mn_open := False, mn_routes := mn_routes w @ [href]\<rparr>"

text \<open>command-dialog.tsx: title and description, the texts that are translated through \<open>tr\<close>.\<close>

definition quickLinks :: "(string \<Rightarrow> string) \<Rightarrow> (string \<times> string \<times> string) list" where
  "quickLinks tr = [(tr ''nav.dashboard'', tr ''dashboard.subtitle'', ''/''), (tr ''nav.ego'', tr ''identities.subtitle'', ''/identities''),
     (tr ''nav.nexus'', tr ''permissions.subtitle'', ''/permissions''), (tr ''nav.janus'', tr ''oauth2.subtitle'', ''/oauth2''),
     (tr ''nav.aegis'', tr ''proxyRules.subtitle'', ''/proxy-rules''), (tr ''nav.vulcan'', tr ''apiKeys.subtitle'', ''/vulcan''),
     (tr ''nav.hermes'', tr ''enterprise.subtitle'', ''/enterprise''),
     (''Policies & Themis'', ''Policy compilation, evaluation and dry-run testing'', ''/policies''),
     (''Console Operators & RBAC'', ''Manage operator principals, break-glass access and role bindings'', ''/operators''),
     (''Design System & Tokens'', ''Visual token palette, typography and component primitives'', ''/design-system'')]"

definition filteredLinks :: "(string \<Rightarrow> string) \<Rightarrow> string \<Rightarrow> (string \<times> string \<times> string) list" where
  "filteredLinks tr query = filter (\<lambda>(title, desc, href). matches query title \<or> matches query desc) (quickLinks tr)"

definition handleOpenChange :: "bool \<Rightarrow> 'w menu_world_scheme \<Rightarrow> 'w menu_world_scheme" where
  "handleOpenChange isOpen w = (if isOpen then w else w\<lparr>mn_query := []\<rparr>)\<lparr>mn_open := isOpen\<rparr>"

definition handleSelect :: "string \<Rightarrow> 'w menu_world_scheme \<Rightarrow> 'w menu_world_scheme" where
  "handleSelect href w = handleOpenChange False (w\<lparr>mn_routes := mn_routes w @ [href]\<rparr>)"

definition dialog_key :: "bool \<Rightarrow> string \<Rightarrow> 'w menu_world_scheme \<Rightarrow> 'w menu_world_scheme" where
  "dialog_key ctrl key w = (if ctrl \<and> key = ''k'' then handleOpenChange (\<not> mn_open w) w else w)"

section \<open>app-shell.tsx\<close>

definition STANDALONE_ROUTES :: "string list" where
  "STANDALONE_ROUTES = [''/login'', ''/setup'', ''/session-expired'', ''/403'']"

definition isStandalone :: "string \<Rightarrow> bool" where
  "isStandalone p = list_ex (\<lambda>r. p = r \<or> starts_with p (r @ ''/'')) STANDALONE_ROUTES"

section \<open>lib/theme-provider.tsx\<close>

record theme_world = pworld +
  th_theme :: string
  th_resolved :: string
  th_local :: "(string \<times> string) list"
  th_classes :: "string list"
  th_prefers_dark :: bool

definition load_theme :: "string \<Rightarrow> 'w theme_world_scheme \<Rightarrow> 'w theme_world_scheme" where
  "load_theme storageKey w = (case map_of (th_local w) storageKey of Some (c # s) \<Rightarrow> w\<lparr>th_theme := c # s\<rparr> | _ \<Rightarrow> w)"

definition class_add :: "string \<Rightarrow> string list \<Rightarrow> string list" where
  "class_add c cs = (if c \<in> set cs then cs else cs @ [c])"

definition apply_theme :: "'w theme_world_scheme \<Rightarrow> 'w theme_world_scheme" where
  "apply_theme w = (let cs = filter (\<lambda>c. c \<notin> {''light'', ''dark''}) (th_classes w);
       t = (if th_theme w = ''system'' then (if th_prefers_dark w then ''dark'' else ''light'') else th_theme w)
     in w\<lparr>th_classes := class_add t cs, th_resolved := t\<rparr>)"

definition setTheme :: "string \<Rightarrow> string \<Rightarrow> 'w theme_world_scheme \<Rightarrow> 'w theme_world_scheme" where
  "setTheme storageKey newTheme w = w\<lparr>th_local := al_set storageKey newTheme (th_local w), th_theme := newTheme\<rparr>"

section \<open>header.tsx\<close>

record profile_world = pworld +
  pr_operator :: jsval

definition load_profile :: "('w profile_world_scheme, unit) js" where
  "load_profile = try_catch
     (bnd (fetch (get_request ''/api/auth/me'')) (\<lambda>res. bnd (if rs_ok res then response_json res else ret JNull) (\<lambda>d.
        if truthy (opt_prop d ''authenticated'') \<and> truthy (member d ''operator'')
        then modify (\<lambda>w. w\<lparr>pr_operator := member d ''operator''\<rparr>) else ret ())))
     (\<lambda>_. ret ())"

text \<open>The name is a string by the answer of the route.\<close>

definition initials :: "jsval \<Rightarrow> string" where
  "initials operator = (case opt_prop operator ''name'' of
     JStr (c # s) \<Rightarrow> take 2 (to_upper (concat (map (take 1) (split_on (CHR '' '') (c # s)))))
   | _ \<Rightarrow> ''OP'')"

section \<open>components/ui/masked-secret.tsx\<close>

record secret_view =
  se_revealed :: bool
  se_timer :: "int option"  \<comment> \<open>when the running timer fires\<close>
  se_reveals :: nat  \<comment> \<open>calls of \<open>onReveal\<close>\<close>

text \<open>The effect on \<open>revealed\<close> starts the timer, its clean-up stops it.\<close>

definition secret_toggle :: "int \<Rightarrow> int \<Rightarrow> secret_view \<Rightarrow> secret_view" where
  "secret_toggle delay now v = (if se_revealed v then v\<lparr>se_revealed := False, se_timer := None\<rparr>
     else v\<lparr>se_revealed := True, se_timer := Some (now + delay), se_reveals := Suc (se_reveals v)\<rparr>)"

definition secret_timer :: "int \<Rightarrow> secret_view \<Rightarrow> secret_view" where
  "secret_timer now v = (case se_timer v of Some t \<Rightarrow> if t \<le> now then v\<lparr>se_revealed := False, se_timer := None\<rparr> else v | None \<Rightarrow> v)"

text \<open>The mask is a bullet in the source, a character outside the model of strings; here it is an argument.\<close>

definition secret_shown :: "char \<Rightarrow> nat \<Rightarrow> string \<Rightarrow> secret_view \<Rightarrow> string" where
  "secret_shown bullet maskLength secret v = (if se_revealed v then secret else replicate maskLength bullet)"

definition displayValue :: "nat \<Rightarrow> string \<Rightarrow> string" where
  "displayValue truncateLength s = (if truncateLength \<noteq> 0 \<and> truncateLength < length s
     then take (truncateLength div 2) s @ ''...'' @
       (if truncateLength div 2 = 0 then s else drop (length s - truncateLength div 2) s) else s)"

section \<open>Properties\<close>

text \<open>A theme that was chosen is the one of the next visit, and the document has exactly its class of the two.\<close>

definition known_theme :: "string \<Rightarrow> bool" where
  "known_theme t \<longleftrightarrow> t \<in> {''dark'', ''light'', ''system''}"

theorem theme_survives_reload:
  fixes key :: string and w :: "'w theme_world_scheme"
  assumes "known_theme t"
  defines "v \<equiv> setTheme key t w"
  shows "th_theme (load_theme key (v\<lparr>th_theme := t0\<rparr>)) = t \<and> th_resolved (apply_theme v) \<in> {''dark'', ''light''} \<and>
    set (th_classes (apply_theme v)) \<inter> {''dark'', ''light''} = {th_resolved (apply_theme v)} \<and>
    (t \<noteq> ''system'' \<longrightarrow> th_resolved (apply_theme v) = t)"
  using assms(1)
  by (auto simp: v_def known_theme_def setTheme_def load_theme_def apply_theme_def class_add_def Let_def)

text \<open>
  A revealed secret is masked again: in any run of clicks and timers at times that do not decrease, a secret that is still shown was
  revealed by the last click, less than the delay before, if the timer has been looked at now.
\<close>

datatype secret_event = Click int | Clock int

fun event_time :: "secret_event \<Rightarrow> int" where
  "event_time (Click t) = t"
| "event_time (Clock t) = t"

fun secret_step :: "int \<Rightarrow> secret_event \<Rightarrow> secret_view \<Rightarrow> secret_view" where
  "secret_step delay (Click t) v = secret_toggle delay t v"
| "secret_step delay (Clock t) v = secret_timer t v"

definition masked_view :: secret_view where
  "masked_view = \<lparr>se_revealed = False, se_timer = None, se_reveals = 0\<rparr>"

fun last_click :: "secret_event list \<Rightarrow> int option" where
  "last_click [] = None"
| "last_click (Click t # es) = (case last_click es of None \<Rightarrow> Some t | s \<Rightarrow> s)"
| "last_click (Clock t # es) = last_click es"

lemma last_click_snoc: "last_click (es @ [e]) = (case e of Click t \<Rightarrow> Some t | Clock t \<Rightarrow> last_click es)"
  by (induction es rule: last_click.induct) (auto split: secret_event.split option.split)

lemma timer_of_last_click:
  "let v = fold (secret_step delay) es masked_view in
    (se_revealed v \<longrightarrow> (\<exists>t. last_click es = Some t \<and> se_timer v = Some (t + delay))) \<and> (\<not> se_revealed v \<longrightarrow> se_timer v = None)"
proof (induction es rule: rev_induct)
  case Nil
  then show ?case by (simp add: masked_view_def)
next
  case (snoc e es)
  then show ?case
    by (cases e) (auto simp: secret_toggle_def secret_timer_def last_click_snoc Let_def split: option.splits)
qed

theorem secret_masked_again:
  assumes "v = fold (secret_step delay) (es @ [Clock now]) masked_view"
  shows "(se_revealed v \<longrightarrow> (\<exists>t. last_click es = Some t \<and> now < t + delay)) \<and>
    (secret_shown b n secret v \<noteq> replicate n b \<longrightarrow> se_revealed v)"
  using assms timer_of_last_click [of delay es]
  by (auto simp: secret_timer_def secret_shown_def Let_def split: option.splits if_splits)

text \<open>An identifier on display has at most three characters more than the limit, and its beginning and end are those of the whole.\<close>

theorem identifier_displayed:
  assumes "2 \<le> n"
  shows "length (displayValue n s) \<le> max (length s) (n + 3) \<and> (n < length s \<longrightarrow> length (displayValue n s) \<le> n + 3 \<and>
    (\<exists>middle. s = take (n div 2) s @ middle @ drop (length s - n div 2) s \<and> displayValue n s = take (n div 2) s @ ''...'' @ drop (length s - n div 2) s))"
proof -
  have "s = take (n div 2) s @ take (length s - n div 2 - n div 2) (drop (n div 2) s) @ drop (length s - n div 2) s" if "n < length s"
  proof -
    have "n div 2 + (length s - n div 2 - n div 2) = length s - n div 2" using that by linarith
    then show ?thesis by (metis append_take_drop_id drop_drop add.commute)
  qed
  with assms show ?thesis by (auto simp: displayValue_def min_def)
qed

text \<open>A menu leads only to the pages it lists, and an empty search lists all of them.\<close>

lemma includes_nil: "str_includes s []"
  by (cases s) simp_all

lemma matches_nil [simp]: "matches [] label"
  by (simp add: matches_def to_lower_def includes_nil)

theorem menus_list_pages:
  "filteredNav [] = navigationItems \<and> filteredLinks tr [] = quickLinks tr \<and> length (filteredActions [] r) = 2 \<and>
   map snd navigationItems = map (\<lambda>(t, d, h). h) (quickLinks tr)"
proof -
  have "filteredNav [] = navigationItems" "filteredLinks tr [] = quickLinks tr"
    unfolding filteredNav_def filteredLinks_def by (rule filter_True, simp add: case_prod_unfold)+
  then show ?thesis by (simp add: filteredActions_def palette_actions_def) (simp add: navigationItems_def quickLinks_def)
qed

end
