(* ===== verification/SdkReact.thy ===== *)
theory SdkReact
  imports SdkClient
begin

text \<open>
  The bindings for React, sdk/typescript/src/react.tsx: the provider of the session and the hooks that ask for a permission,
  for several at once and for a policy. A hook is a state machine: the component renders with some properties and returns what the state holds; when the
  dependencies are not those of the effect before, the effect runs after that render, following the clean-up of the effect before it, and before any
  other render; a question it asks is answered by a promise that settles at some later time, in any order. The machine is an
  inductive relation over the sequence of these events.
\<close>

section \<open>AutorixProvider\<close>

record provider_world = sworld +
  ax_session :: jsval
  ax_loading :: bool

definition refreshSession :: "('w provider_world_scheme, unit) js" where
  "refreshSession = bnd (modify (\<lambda>w. w\<lparr>ax_loading := True\<rparr>)) (\<lambda>_. bnd (whoami None) (\<lambda>s.
     modify (\<lambda>w. w\<lparr>ax_session := s, ax_loading := False\<rparr>)))"

definition isAuthenticated :: "'w provider_world_scheme \<Rightarrow> bool" where
  "isAuthenticated w = truthy (ax_session w)"

definition useAutorix :: "'c option \<Rightarrow> 'c res" where
  "useAutorix ctx = (case ctx of None \<Rightarrow> Inl (Error ''Error'' ''useAutorix must be used within an <AutorixProvider>'') | Some c \<Rightarrow> Inr c)"

definition session_user :: "jsval \<Rightarrow> jsval" where
  "session_user session = js_or (opt_prop session ''identity'') JNull"

definition session_subject :: "jsval \<Rightarrow> jsval" where
  "session_subject session = opt_prop (opt_prop session ''identity'') ''id''"

section \<open>Hooks\<close>

text \<open>
  What an effect does: it settles the hook at once or asks a question. The state has the value shown, whether the hook waits, for each
  question asked so far its closure's \<open>active\<close> and whether its promise is pending, the properties of the last render, and those of the last
  render whose effect has run.
\<close>

datatype ('q, 'v) hook_effect = Settled 'v | Asked 'q

record ('p, 'q, 'v) hook =
  hk_value :: 'v
  hk_busy :: bool
  hk_runs :: "('q \<times> bool \<times> bool) list"
  hk_shown :: "'p option"
  hk_ran :: "'p option"
  hk_mounted :: bool

definition new_hook :: "'v \<Rightarrow> ('p, 'q, 'v) hook" where
  "new_hook v = \<lparr>hk_value = v, hk_busy = True, hk_runs = [], hk_shown = None, hk_ran = None, hk_mounted = True\<rparr>"

text \<open>A render leaves the state alone; the effect is due when the dependencies, a function of the properties, have changed.\<close>

definition render_hook :: "'p \<Rightarrow> ('p, 'q, 'v) hook \<Rightarrow> ('p, 'q, 'v) hook" where
  "render_hook p h = h\<lparr>hk_shown := Some p\<rparr>"

definition effect_due :: "('p \<Rightarrow> 'k) \<Rightarrow> ('p, 'q, 'v) hook \<Rightarrow> bool" where
  "effect_due key h \<longleftrightarrow> hk_mounted h \<and> map_option key (hk_shown h) \<noteq> map_option key (hk_ran h)"

definition clean_up :: "('p, 'q, 'v) hook \<Rightarrow> ('p, 'q, 'v) hook" where
  "clean_up h = h\<lparr>hk_runs := map (\<lambda>(q, active, pending). (q, False, pending)) (hk_runs h)\<rparr>"

definition run_effect :: "('p \<Rightarrow> ('q, 'v) hook_effect) \<Rightarrow> 'p \<Rightarrow> ('p, 'q, 'v) hook \<Rightarrow> ('p, 'q, 'v) hook" where
  "run_effect effect p h = (let h' = (clean_up h)\<lparr>hk_ran := Some p\<rparr> in case effect p of
     Settled v \<Rightarrow> h'\<lparr>hk_value := v, hk_busy := False\<rparr>
   | Asked q \<Rightarrow> h'\<lparr>hk_busy := True, hk_runs := hk_runs h' @ [(q, True, True)]\<rparr>)"

definition unmount :: "('p, 'q, 'v) hook \<Rightarrow> ('p, 'q, 'v) hook" where
  "unmount h = (clean_up h)\<lparr>hk_mounted := False\<rparr>"

text \<open>The two continuations of a promise; \<open>verdict\<close> is the value they set.\<close>

definition settle_run :: "('q \<Rightarrow> exn + 'a \<Rightarrow> 'v) \<Rightarrow> nat \<Rightarrow> exn + 'a \<Rightarrow> ('p, 'q, 'v) hook \<Rightarrow> ('p, 'q, 'v) hook" where
  "settle_run verdict i r h = (case hk_runs h ! i of (q, active, pending) \<Rightarrow>
     let h' = h\<lparr>hk_runs := (hk_runs h)[i := (q, active, False)]\<rparr>
     in if active then h'\<lparr>hk_value := verdict q r, hk_busy := False\<rparr> else h')"

definition pending_run :: "nat \<Rightarrow> ('p, 'q, 'v) hook \<Rightarrow> bool" where
  "pending_run i h \<longleftrightarrow> i < length (hk_runs h) \<and> snd (snd (hk_runs h ! i))"

section \<open>The sequences of events\<close>

datatype ('p, 'a) hook_event = Renders 'p | RunsEffect | Settles nat "exn + 'a" | Unmounts

text \<open>React runs the effect that is due before it renders again or unmounts; promises may settle at any time.\<close>

inductive hook_after ::
    "('p \<Rightarrow> 'k) \<Rightarrow> ('p \<Rightarrow> ('q, 'v) hook_effect) \<Rightarrow> ('q \<Rightarrow> exn + 'a \<Rightarrow> 'v) \<Rightarrow> 'v \<Rightarrow> ('p, 'a) hook_event list \<Rightarrow> ('p, 'q, 'v) hook \<Rightarrow> bool"
  for key :: "'p \<Rightarrow> 'k" and effect :: "'p \<Rightarrow> ('q, 'v) hook_effect" and verdict :: "'q \<Rightarrow> exn + 'a \<Rightarrow> 'v" and v0 :: 'v where
  mounts: "hook_after key effect verdict v0 [] (new_hook v0)"
| renders: "hook_after key effect verdict v0 es h \<Longrightarrow> hk_mounted h \<Longrightarrow> \<not> effect_due key h \<Longrightarrow>
    hook_after key effect verdict v0 (es @ [Renders p]) (render_hook p h)"
| effects: "hook_after key effect verdict v0 es h \<Longrightarrow> effect_due key h \<Longrightarrow> hk_shown h = Some p \<Longrightarrow>
    hook_after key effect verdict v0 (es @ [RunsEffect]) (run_effect effect p h)"
| settles: "hook_after key effect verdict v0 es h \<Longrightarrow> pending_run i h \<Longrightarrow>
    hook_after key effect verdict v0 (es @ [Settles i r]) (settle_run verdict i r h)"
| unmounts: "hook_after key effect verdict v0 es h \<Longrightarrow> hk_mounted h \<Longrightarrow> \<not> effect_due key h \<Longrightarrow>
    hook_after key effect verdict v0 (es @ [Unmounts]) (unmount h)"

section \<open>The three hooks\<close>

text \<open>Each has its properties, its dependencies, its effect, the value of an answer, and a first value.\<close>

definition denied_answer :: jsval where
  "denied_answer = JObj [(''allowed'', JBool False)]"

record permission_props =
  pp_session :: jsval
  pp_namespace :: string
  pp_object :: string
  pp_relation :: string
  pp_context :: jsval

definition permission_key :: "permission_props \<Rightarrow> string \<times> string \<times> string \<times> jsval" where
  "permission_key p = (pp_namespace p, pp_object p, pp_relation p, session_subject (pp_session p))"

definition permission_effect :: "permission_props \<Rightarrow> (jsval, jsval) hook_effect" where
  "permission_effect p = (if \<not> truthy (session_subject (pp_session p)) then Settled (JBool False)
     else Asked (JObj [(''namespace'', JStr (pp_namespace p)), (''object'', JStr (pp_object p)), (''relation'', JStr (pp_relation p)),
       (''subject'', session_subject (pp_session p)), (''context'', pp_context p)]))"

definition permission_verdict :: "jsval \<Rightarrow> exn + jsval \<Rightarrow> jsval" where
  "permission_verdict q r = (case r of Inl _ \<Rightarrow> JBool False | Inr res \<Rightarrow> (case get_prop res ''allowed'' of Inl _ \<Rightarrow> JBool False | Inr v \<Rightarrow> v))"

definition usePermission :: "(permission_props, jsval) hook_event list \<Rightarrow> (permission_props, jsval, jsval) hook \<Rightarrow> bool" where
  "usePermission = hook_after permission_key permission_effect permission_verdict (JBool False)"

record batch_props =
  bp_session :: jsval
  bp_requests :: "jsval list"

definition batch_key :: "batch_props \<Rightarrow> string \<times> jsval" where
  "batch_key p = (json_stringify (JArr (bp_requests p)), session_subject (bp_session p))"

definition batch_effect :: "batch_props \<Rightarrow> (jsval list, jsval list) hook_effect" where
  "batch_effect p = (if \<not> truthy (session_subject (bp_session p)) \<or> bp_requests p = [] then Settled (map (\<lambda>_. denied_answer) (bp_requests p))
     else Asked (map (\<lambda>r. obj_spread r (JObj [(''subject'', session_subject (bp_session p))])) (bp_requests p)))"

definition batch_verdict :: "jsval list \<Rightarrow> exn + jsval list \<Rightarrow> jsval list" where
  "batch_verdict q r = (case r of Inl _ \<Rightarrow> map (\<lambda>_. denied_answer) q | Inr res \<Rightarrow> res)"

definition useBatchPermissions :: "(batch_props, jsval list) hook_event list \<Rightarrow> (batch_props, jsval list, jsval list) hook \<Rightarrow> bool" where
  "useBatchPermissions = hook_after batch_key batch_effect batch_verdict []"

record policy_props =
  yp_context :: jsval
  yp_tenantId :: jsval

definition policy_key :: "policy_props \<Rightarrow> string \<times> jsval" where
  "policy_key p = (json_stringify (yp_context p), yp_tenantId p)"

definition policy_effect :: "policy_props \<Rightarrow> (jsval, jsval) hook_effect" where
  "policy_effect p = Asked (JObj [(''context'', yp_context p), (''tenantId'', yp_tenantId p)])"

definition policy_verdict :: "jsval \<Rightarrow> exn + jsval \<Rightarrow> jsval" where
  "policy_verdict q r = (case r of Inl _ \<Rightarrow> denied_evaluation | Inr res \<Rightarrow> res)"

definition policy_passed :: "jsval \<Rightarrow> jsval" where
  "policy_passed result = js_coalesce (opt_prop result ''allPassed'') (JBool False)"

definition usePolicy :: "(policy_props, jsval) hook_event list \<Rightarrow> (policy_props, jsval, jsval) hook \<Rightarrow> bool" where
  "usePolicy = hook_after policy_key policy_effect policy_verdict JNull"

section \<open>What a hook shows\<close>

text \<open>
  After the events \<open>es\<close> the hook shows the answer for the properties \<open>p\<close>: the value their effect settled, or, when it asked, the verdict on the answer to
  the question asked last, which is busy until that promise has settled.
\<close>

definition shows_answer :: "('p \<Rightarrow> ('q, 'v) hook_effect) \<Rightarrow> ('q \<Rightarrow> exn + 'a \<Rightarrow> 'v) \<Rightarrow> ('p, 'a) hook_event list \<Rightarrow> ('p, 'q, 'v) hook \<Rightarrow> 'p \<Rightarrow> bool" where
  "shows_answer effect verdict es h p \<longleftrightarrow> (case effect p of
     Settled v \<Rightarrow> \<not> hk_busy h \<and> hk_value h = v
   | Asked q \<Rightarrow> \<exists>i. Suc i = length (hk_runs h) \<and> fst (hk_runs h ! i) = q \<and>
       (hk_busy h \<longleftrightarrow> (\<forall>r. Settles i r \<notin> set es)) \<and> (\<forall>r. Settles i r \<in> set es \<longrightarrow> hk_value h = verdict q r))"

definition active_run :: "('p, 'q, 'v) hook \<Rightarrow> nat \<Rightarrow> bool" where
  "active_run h i \<longleftrightarrow> i < length (hk_runs h) \<and> fst (snd (hk_runs h ! i))"

lemmas hook_steps = new_hook_def render_hook_def clean_up_def run_effect_def unmount_def settle_run_def

text \<open>Promises settle once, and only the last question of a mounted hook can be active, if the last effect asked it.\<close>

definition runs_ok :: "('p, 'a) hook_event list \<Rightarrow> ('p, 'q, 'v) hook \<Rightarrow> bool" where
  "runs_ok es h \<longleftrightarrow> (\<forall>i r. Settles i r \<in> set es \<longrightarrow> i < length (hk_runs h)) \<and>
     (\<forall>i < length (hk_runs h). pending_run i h \<longleftrightarrow> (\<forall>r. Settles i r \<notin> set es))"

definition actives_ok :: "('p \<Rightarrow> ('q, 'v) hook_effect) \<Rightarrow> ('p, 'q, 'v) hook \<Rightarrow> bool" where
  "actives_ok effect h \<longleftrightarrow> (\<forall>i. active_run h i \<longleftrightarrow> hk_mounted h \<and> Suc i = length (hk_runs h) \<and>
     (\<exists>p q. hk_ran h = Some p \<and> effect p = Asked q))"

lemma length_clean_up [simp]: "length (hk_runs (clean_up h)) = length (hk_runs h)"
  by (simp add: clean_up_def)

lemma clean_up_rest [simp]:
  "hk_busy (clean_up h) = hk_busy h" "hk_value (clean_up h) = hk_value h" "hk_shown (clean_up h) = hk_shown h"
  "hk_ran (clean_up h) = hk_ran h" "hk_mounted (clean_up h) = hk_mounted h"
  by (simp_all add: clean_up_def)

lemma clean_up_nth: "i < length (hk_runs h) \<Longrightarrow> hk_runs (clean_up h) ! i = (fst (hk_runs h ! i), False, snd (snd (hk_runs h ! i)))"
  by (simp add: clean_up_def split: prod.split)

lemma settle_run_sel [simp]:
  "length (hk_runs (settle_run vd i r h)) = length (hk_runs h)" "hk_shown (settle_run vd i r h) = hk_shown h"
  "hk_ran (settle_run vd i r h) = hk_ran h" "hk_mounted (settle_run vd i r h) = hk_mounted h"
  by (simp_all add: settle_run_def Let_def split: prod.split)

lemma settle_run_nth:
  "i < length (hk_runs h) \<Longrightarrow> k < length (hk_runs h) \<Longrightarrow> hk_runs (settle_run vd i r h) ! k =
     (fst (hk_runs h ! k), fst (snd (hk_runs h ! k)), k \<noteq> i \<and> snd (snd (hk_runs h ! k)))"
  by (auto simp: settle_run_def Let_def nth_list_update split: prod.split)

lemma settle_run_value:
  "pending_run i h \<Longrightarrow> hk_busy (settle_run vd i r h) = (hk_busy h \<and> \<not> active_run h i) \<and>
     hk_value (settle_run vd i r h) = (if active_run h i then vd (fst (hk_runs h ! i)) r else hk_value h)"
  by (auto simp: settle_run_def pending_run_def active_run_def Let_def split: prod.split)

lemma hook_runs_ok: "hook_after key effect verdict v0 es h \<Longrightarrow> runs_ok es h"
proof (induction rule: hook_after.induct)
  case mounts
  show ?case by (simp add: runs_ok_def new_hook_def)
next
  case (renders es h p)
  then show ?case by (simp add: runs_ok_def render_hook_def pending_run_def)
next
  case (effects es h p)
  then show ?case
    by (cases "effect p") (fastforce simp: runs_ok_def run_effect_def pending_run_def Let_def nth_append clean_up_nth less_Suc_eq)+
next
  case (settles es h i r)
  then show ?case by (auto simp: runs_ok_def pending_run_def settle_run_nth)
next
  case (unmounts es h)
  then show ?case by (simp add: runs_ok_def unmount_def pending_run_def clean_up_nth)
qed

lemma hook_actives_ok: "hook_after key effect verdict v0 es h \<Longrightarrow> actives_ok effect h"
proof (induction rule: hook_after.induct)
  case mounts
  show ?case by (simp add: actives_ok_def new_hook_def active_run_def)
next
  case (renders es h p)
  then show ?case by (simp add: actives_ok_def render_hook_def active_run_def)
next
  case (effects es h p)
  then have "hk_mounted h" by (simp add: effect_due_def)
  then show ?case
    by (cases "effect p") (auto simp: actives_ok_def run_effect_def active_run_def Let_def nth_append clean_up_nth less_Suc_eq)
next
  case (settles es h i r)
  then have "i < length (hk_runs h)" by (simp add: pending_run_def)
  then have "active_run (settle_run verdict i r h) k = active_run h k" for k
    by (auto simp: active_run_def settle_run_nth)
  then show ?case using settles.IH by (simp add: actives_ok_def)
next
  case (unmounts es h)
  then show ?case by (auto simp: actives_ok_def unmount_def active_run_def clean_up_nth)
qed

lemma shows_answer_render: "shows_answer effect verdict (es @ [Renders p]) (render_hook p h) p' = shows_answer effect verdict es h p'"
  by (simp add: shows_answer_def render_hook_def split: hook_effect.split)

lemma shows_answer_effect:
  assumes "runs_ok es h"
  shows "shows_answer effect verdict (es @ [RunsEffect]) (run_effect effect p h) p"
proof (cases "effect p")
  case (Asked q)
  have "Settles (length (hk_runs h)) r \<notin> set es" for r using assms by (auto simp: runs_ok_def)
  then show ?thesis by (simp add: shows_answer_def Asked run_effect_def Let_def nth_append)
qed (simp add: shows_answer_def run_effect_def Let_def)

lemma shows_answer_settle:
  assumes "runs_ok es h" "actives_ok effect h" "hk_mounted h" "hk_ran h = Some p" "pending_run i h"
    and shown: "shows_answer effect verdict es h p"
  shows "shows_answer effect verdict (es @ [Settles i r]) (settle_run verdict i r h) p"
proof (cases "effect p")
  case (Settled v)
  then have "\<not> active_run h i" using assms(2,4) by (auto simp: actives_ok_def)
  then show ?thesis using shown settle_run_value [OF assms(5)] by (simp add: shows_answer_def Settled)
next
  case (Asked q)
  then obtain k where k: "Suc k = length (hk_runs h)" "fst (hk_runs h ! k) = q" "hk_busy h \<longleftrightarrow> (\<forall>r. Settles k r \<notin> set es)"
    "\<forall>r. Settles k r \<in> set es \<longrightarrow> hk_value h = verdict q r"
    using shown by (auto simp: shows_answer_def)
  have i: "i < length (hk_runs h)" "\<forall>r. Settles i r \<notin> set es" using assms(1,5) by (auto simp: runs_ok_def pending_run_def)
  have act: "active_run h i \<longleftrightarrow> i = k" using assms(2-4) Asked k(1) by (auto simp: actives_ok_def)
  have "fst (hk_runs (settle_run verdict i r h) ! k) = q" using k(1,2) i(1) by (simp add: settle_run_nth)
  then show ?thesis
    unfolding shows_answer_def Asked hook_effect.case
    using k i(2) act settle_run_value [OF assms(5), of verdict r] by (intro exI [of _ k]) auto
qed

lemma hook_shown_answer:
  "hook_after key effect verdict v0 es h \<Longrightarrow> hk_mounted h \<Longrightarrow> (case hk_ran h of
     None \<Rightarrow> hk_busy h \<and> hk_value h = v0 \<and> hk_runs h = []
   | Some p \<Rightarrow> shows_answer effect verdict es h p \<and> Renders p \<in> set es)"
proof (induction rule: hook_after.induct)
  case mounts
  show ?case by (simp add: new_hook_def)
next
  case (renders es h p)
  then show ?case by (auto simp: shows_answer_render split: option.splits) (simp_all add: render_hook_def)
next
  case (effects es h p)
  have "hk_ran (run_effect effect p h) = Some p"
    by (simp add: run_effect_def Let_def split: hook_effect.split)
  moreover have "Renders p \<in> set es"
    using effects.hyps(1,3) by (induction arbitrary: p rule: hook_after.induct)
      (auto simp: new_hook_def render_hook_def run_effect_def Let_def unmount_def split: hook_effect.splits)
  ultimately show ?case using shows_answer_effect [OF hook_runs_ok [OF effects.hyps(1)]] by simp
next
  case (settles es h i r)
  show ?case
  proof (cases "hk_ran h")
    case None
    then show ?thesis using settles by (simp add: pending_run_def)
  next
    case (Some p)
    then show ?thesis
      using settles shows_answer_settle [OF hook_runs_ok hook_actives_ok, OF settles.hyps(1) settles.hyps(1) _ Some settles.hyps(2)] by simp
  qed
next
  case (unmounts es h)
  then show ?case by (simp add: unmount_def)
qed

text \<open>An effect is due only between the render that made it due and the effect; promises alone may settle there.\<close>

lemma effect_due_window:
  "hook_after key effect verdict v0 es h \<Longrightarrow> effect_due key h \<Longrightarrow> hk_shown h = Some p \<Longrightarrow>
    \<exists>es1 es2. es = es1 @ Renders p # es2 \<and> (\<forall>e \<in> set es2. \<exists>i r. e = Settles i r)"
proof (induction arbitrary: p rule: hook_after.induct)
  case (renders es h q)
  then show ?case by (intro exI [of _ es] exI [of _ "[]"]) (simp add: render_hook_def)
next
  case (effects es h q)
  then show ?case by (simp add: effect_due_def run_effect_def Let_def split: hook_effect.splits)
next
  case (settles es h i r)
  then have "effect_due key h" "hk_shown h = Some p" by (simp_all add: effect_due_def)
  then obtain es1 es2 where "es = es1 @ Renders p # es2" "\<forall>e \<in> set es2. \<exists>i r. e = Settles i r" using settles.IH by blast
  then show ?case by (intro exI [of _ es1] exI [of _ "es2 @ [Settles i r]"]) auto
qed (simp_all add: new_hook_def effect_due_def unmount_def)

text \<open>
  C39. What a mounted hook shows after any sequence of renders, effects and promises that settle in any order, where the last render had the properties
  \<open>p\<close>: before its first effect it is busy with the first value. Afterwards it shows the answer for the properties \<open>p'\<close> of the render whose effect ran last: the
  value that effect settled, or else, busy as long as that promise is pending, the verdict on the answer to its own question, never that of an earlier
  one. These properties have the dependencies of \<open>p\<close>, except from the very render of \<open>p\<close> until its effect runs, where only promises can settle: there the
  answer for the former dependencies is shown, not busy if it was there. The three hooks are instances.
\<close>

theorem hook_shows_last_answer:
  assumes "hook_after key effect verdict v0 es h" "hk_mounted h" "hk_shown h = Some p"
  shows "case hk_ran h of
      None \<Rightarrow> hk_busy h \<and> hk_value h = v0
    | Some p' \<Rightarrow> Renders p' \<in> set es \<and>
        (case effect p' of
           Settled v \<Rightarrow> \<not> hk_busy h \<and> hk_value h = v
         | Asked q \<Rightarrow> \<exists>i. Suc i = length (hk_runs h) \<and> fst (hk_runs h ! i) = q \<and>
             (hk_busy h \<longleftrightarrow> (\<forall>r. Settles i r \<notin> set es)) \<and> (\<forall>r. Settles i r \<in> set es \<longrightarrow> hk_value h = verdict q r)) \<and>
        (key p' = key p \<or> (\<exists>es1 es2. es = es1 @ Renders p # es2 \<and> (\<forall>e \<in> set es2. \<exists>i r. e = Settles i r)))"
proof (cases "hk_ran h")
  case None
  then show ?thesis using hook_shown_answer [OF assms(1,2)] by simp
next
  case (Some p')
  have "key p' = key p \<or> effect_due key h" using assms(2,3) Some by (auto simp: effect_due_def)
  then show ?thesis
    using hook_shown_answer [OF assms(1,2)] effect_due_window [OF assms(1) _ assms(3)] Some by (auto simp: shows_answer_def)
qed

definition doc_props :: "string \<Rightarrow> permission_props" where
  "doc_props doc = \<lparr>pp_session = JObj [(''identity'', JObj [(''id'', JStr ''alice'')])], pp_namespace = ''doc'', pp_object = doc, pp_relation = ''view'',
     pp_context = JUndef\<rparr>"

definition question :: "string \<Rightarrow> jsval" where
  "question doc = JObj [(''namespace'', JStr ''doc''), (''object'', JStr doc), (''relation'', JStr ''view''),
     (''subject'', JStr ''alice''), (''context'', JUndef)]"

lemma question_asked: "permission_effect (doc_props doc) = Asked (question doc)"
  by (simp add: question_def doc_props_def permission_effect_def session_subject_def opt_prop_def)

lemma doc_props_key: "permission_key (doc_props doc) = (''doc'', doc, ''view'', JStr ''alice'')"
  by (simp add: permission_key_def doc_props_def session_subject_def opt_prop_def)

lemmas question_simps = question_asked doc_props_key effect_due_def pending_run_def permission_verdict_def get_prop_def

text \<open>Two questions, the second asked before the first is answered; then the answers in the other order.\<close>

definition answer_yes :: "exn + jsval" where
  "answer_yes = Inr (JObj [(''allowed'', JBool True)])"

definition answer_no :: "exn + jsval" where
  "answer_no = Inr (JObj [(''allowed'', JBool False)])"

abbreviation permission_state :: "bool \<Rightarrow> bool \<Rightarrow> (jsval \<times> bool \<times> bool) list \<Rightarrow> string \<Rightarrow> string \<Rightarrow> (permission_props, jsval, jsval) hook" where
  "permission_state v b rs s e \<equiv> \<lparr>hk_value = JBool v, hk_busy = b, hk_runs = rs, hk_shown = Some (doc_props s), hk_ran = Some (doc_props e),
     hk_mounted = True\<rparr>"

lemma first_question:
  "usePermission [Renders (doc_props ''a''), RunsEffect] (permission_state False True [(question ''a'', True, True)] ''a'' ''a'')"
proof -
  have "usePermission [Renders (doc_props ''a'')] (render_hook (doc_props ''a'') (new_hook (JBool False)))"
    using renders [OF mounts [of permission_key permission_effect permission_verdict "JBool False"], of "doc_props ''a''"]
    by (simp add: usePermission_def hook_steps effect_due_def)
  from effects [OF this [unfolded usePermission_def], of "doc_props ''a''"] show ?thesis
    by (simp add: usePermission_def hook_steps question_simps)
qed

lemma crossed_answers:
  "usePermission [Renders (doc_props ''a''), RunsEffect, Renders (doc_props ''b''), RunsEffect, Settles 1 answer_no, Settles 0 answer_yes]
     (permission_state False False [(question ''a'', False, False), (question ''b'', True, False)] ''b'' ''b'')"
proof -
  from renders [OF first_question [unfolded usePermission_def], of "doc_props ''b''"]
  have "usePermission [Renders (doc_props ''a''), RunsEffect, Renders (doc_props ''b'')] (permission_state False True [(question ''a'', True, True)] ''b'' ''a'')"
    by (simp add: usePermission_def hook_steps question_simps)
  from effects [OF this [unfolded usePermission_def], of "doc_props ''b''"]
  have "usePermission [Renders (doc_props ''a''), RunsEffect, Renders (doc_props ''b''), RunsEffect]
      (permission_state False True [(question ''a'', False, True), (question ''b'', True, True)] ''b'' ''b'')"
    by (simp add: usePermission_def hook_steps question_simps)
  from settles [OF this [unfolded usePermission_def], of 1 answer_no]
  have "usePermission [Renders (doc_props ''a''), RunsEffect, Renders (doc_props ''b''), RunsEffect, Settles 1 answer_no]
      (permission_state False False [(question ''a'', False, True), (question ''b'', True, False)] ''b'' ''b'')"
    by (simp add: usePermission_def hook_steps question_simps answer_no_def)
  from settles [OF this [unfolded usePermission_def], of 0 answer_yes] show ?thesis
    by (simp add: usePermission_def hook_steps question_simps)
qed

theorem hook_shows_last_answer_witness:
  "\<exists>h. usePermission [Renders (doc_props ''a''), RunsEffect, Renders (doc_props ''b''), RunsEffect, Settles 1 answer_no, Settles 0 answer_yes] h \<and>
    hk_shown h = Some (doc_props ''b'') \<and> \<not> hk_busy h \<and> hk_value h = permission_verdict (question ''b'') answer_no"
proof -
  from hook_shows_last_answer [OF crossed_answers [unfolded usePermission_def], of "doc_props ''b''"]
  have "JBool False = permission_verdict (question ''b'') answer_no" by (auto simp: question_asked)
  then show ?thesis by - (intro exI conjI, rule crossed_answers, simp_all)
qed

section \<open>What the hooks show while they ask\<close>

text \<open>
  A render with new dependencies returns the answer for the former ones as if it were final: the permission of one document shows as that of the next,
  with \<open>checking\<close> false, before any question about it was asked.
\<close>

theorem permission_before_effect:
  "\<exists>es h. usePermission es h \<and> hk_shown h = Some (doc_props ''b'') \<and> hk_value h = JBool True \<and> \<not> hk_busy h \<and> question ''b'' \<notin> fst ` set (hk_runs h)"
proof -
  from settles [OF first_question [unfolded usePermission_def], of 0 answer_yes]
  have "usePermission [Renders (doc_props ''a''), RunsEffect, Settles 0 answer_yes] (permission_state True False [(question ''a'', True, False)] ''a'' ''a'')"
    by (simp add: usePermission_def hook_steps question_simps answer_yes_def)
  from renders [OF this [unfolded usePermission_def], of "doc_props ''b''"]
  have "usePermission [Renders (doc_props ''a''), RunsEffect, Settles 0 answer_yes, Renders (doc_props ''b'')]
      (permission_state True False [(question ''a'', True, False)] ''b'' ''a'')"
    by (simp add: usePermission_def hook_steps question_simps)
  then show ?thesis by (intro exI conjI, assumption) (simp_all add: question_def)
qed

text \<open>
  After the effect too, while the hook asks about something else, it goes on showing the answer it had: a component that reads \<open>allowed\<close> and not
  \<open>checking\<close> treats the permission for the last object as one for the next.
\<close>

theorem permission_kept_while_checking:
  assumes "hook_after key effect verdict v0 es h" "effect_due key h" "hk_shown h = Some p" "effect p = Asked q"
  shows "hook_after key effect verdict v0 (es @ [RunsEffect]) (run_effect effect p h) \<and> hk_busy (run_effect effect p h) \<and>
    hk_value (run_effect effect p h) = hk_value h"
  using effects [OF assms(1-3)] assms(4) by (simp add: run_effect_def Let_def)

text \<open>A changed context alone makes no effect due: the answer shown may be one to a question with another context.\<close>

theorem context_ignored: "permission_key (p\<lparr>pp_context := c\<rparr>) = permission_key p"
  by (simp add: permission_key_def)

text \<open>Reading the session does not touch what the provider shows.\<close>

definition same_provider :: "'w provider_world_scheme \<Rightarrow> 'w provider_world_scheme \<Rightarrow> bool" where
  "same_provider w w' \<longleftrightarrow> ax_session w' = ax_session w \<and> ax_loading w' = ax_loading w"

interpretation provider: frame same_provider
  by unfold_locales (auto simp: same_provider_def)

lemma provider_fetch: "keeps same_provider (fetch rq)"
  by (simp add: keeps_def same_provider_def fetch_def Let_def)

lemma provider_json: "keeps same_provider (response_json r)"
  by (simp add: keeps_def same_provider_def response_json_def)

lemma provider_backoff: "keeps same_provider (backoff n)"
  by (simp add: keeps_def same_provider_def backoff_def modify_def)

lemma provider_caught: "keeps same_provider (caught retry again err)"
  unfolding caught_def by (rule provider.k_asks)

lemma provider_attempt: "keeps same_provider (one_attempt rq retry again lastError)"
  unfolding one_attempt_def
  by (intro provider.k_bnd provider.k_settle provider_fetch)
    (auto split: sum.split intro!: provider.rules provider_json provider_caught)

lemma provider_attempts: "keeps same_provider (attempts n rq retry k lastError)"
proof (induction n arbitrary: k lastError)
  case (Suc n)
  show ?case
    by (auto split: step.split intro!: provider.k_bnd provider_attempt provider.k_ret provider_backoff Suc.IH)
qed (simp add: provider.k_ret)

lemma provider_whoami: "keeps same_provider (whoami t)"
  unfolding whoami_def sdk_request_def
  by (auto split: sum.split sdk_error.split intro!: provider.rules provider_attempts)

text \<open>
  A session that cannot be read because an engine fails leaves the provider loading: only 401, 403 and 404 count as no session, any other failure
  rejects the promise, which nothing catches, and the session shown before stays.
\<close>

theorem refresh_stuck:
  assumes "whoami None (w\<lparr>ax_loading := True\<rparr>) = (Inl e, w')"
  shows "refreshSession w = (Inl e, w') \<and> ax_loading w' \<and> ax_session w' = ax_session w"
proof -
  have "same_provider (w\<lparr>ax_loading := True\<rparr>) w'"
    using provider_whoami keepsD [OF provider_whoami assms] by simp
  with assms show ?thesis by (simp add: refreshSession_def bnd_def modify_def same_provider_def)
qed

end
