(* ===== verification/Spec2Isabelle.thy ===== *)
theory Spec2Isabelle
  imports Proxy Middleware GatewayMatcher VulcanRoutes GatewayRoutes IdentityRoutes NexusRoutes PolicyRoutes AuthRoutes
    OpsRoutes ExplorerRoutes SdkClient Redact ConsoleState ResourceTable SignInPages
    IdentityPages NexusPages PolicyPages GatewayPages KeyPages EvidencePages Paging EnterprisePages ExplorerPages FramePages SdkReact
begin

text \<open>
  A verification library for the Autorix console and its runtime client.

  \<^bold>\<open>The program.\<close> Autorix is an access platform of several engines (Ego: identities, Janus: OAuth2, Nexus: relationships,
  Themis: policies, Vulcan: API keys, Hermes: SAML and SCIM, Aegis: the access proxy, Argus: operators, audit and fleet). What is modelled
  is its TypeScript code: the console (src/console/src), a Next.js application whose pages call its own route handlers
  under app/api, which forward to the engines, and the client library (src/sdk/typescript/src) that applications
  link. A request of a page passes the edge middleware (session cookie, CSRF), reaches the handler of its route, and most
  handlers call \<open>proxyRequest\<close> (lib/api/proxy.ts), which checks the destination, the operator's role where a permission is
  required, forwards with the console's own headers and validates the answer with a zod schema. \<open>serve\<close> below composes
  the middleware with a handler.

  \<^bold>\<open>The shape of the model.\<close> A JavaScript value is a \<open>jsval\<close>; an effectful function is an action from a world to an
  exception or a value and the new world (\<open>Inl\<close> an exception, \<open>Inr\<close> a value); \<open>bnd\<close> is sequencing with \<open>await\<close>, \<open>try_catch\<close> and \<open>try_tail\<close> are the two
  forms of \<open>try\<close>. The world has what the code reads as oracles (environment, cookies, clock, random values, zod, the answers of the
  network as a function of all requests sent so far) and the log of the requests sent. Components with state of their own
  extend the record: the key file (\<open>vworld\<close>), the cached schema text (\<open>xworld\<close>), the client's cache (\<open>sworld\<close>), the
  browser (\<open>bworld\<close>), the contexts of the pages (\<open>cworld\<close>), the sign-in forms (\<open>lworld\<close>), the pages (\<open>pworld\<close>). A definition has the name of the
  function it translates, or, for the unnamed handlers of a route, the route and the method (\<open>identity_DELETE\<close>).

  \<^bold>\<open>Theories.\<close>
  \<^item> Prelude, JsValue, Json, Url, JsCalls: the standard library as far as the sources use it: strings, association lists, values and
    their conversions, JSON text, URL encoding and query parameters, dates, stable sorting. Effects: worlds, actions, and the locale \<open>frame\<close>
    for what an action leaves alone, interpreted on the extension of the request log.
  \<^item> ZodSchema, SchemasEngines, SchemasPlatform: the schemas of lib/api/schemas, lib/schemas and the combinators of
    lib/api/schema.ts as data.
  \<^item> Auth, Proxy, Middleware: lib/api-config.ts, lib/auth/types.ts, lib/auth/session.ts; lib/api/proxy.ts; middleware.ts. The lemmas say when a
    request is forwarded, with which headers, what refusals and failures look like, and that higher roles keep the permissions of lower ones.
  \<^item> ShadowDetector, GatewayMatcher, Macaroons, KeyStore, PolicyEval, Redact: app/proxy-rules/shadowing-detector.ts (exactness of the
    report) and the matcher of the gateway it is about, aegis/internal/rule/matcher.go (a reported rule handles no request, on patterns of a
    fragment; where the two disagree), lib/server/macaroons.ts (attenuation verifies; a macaroon determines its caveats unless the hash collides),
    lib/server/db.ts (refines the locale \<open>key_store\<close>, interpreted on the lists of records in the file; a revoked key stays revoked over any calls), lib/server/themis-evaluator.ts
    (agrees with a reference semantics), lib/api/redact.ts.
  \<^item> VulcanRoutes, GatewayRoutes, IdentityRoutes, NexusRoutes, PolicyRoutes, AuthRoutes, OpsRoutes, ExplorerRoutes: all route
    handlers under app/api, grouped by the engine behind them. The lemmas state what is sent and answered, which operators are refused, and
    where a handler answers success although the engine failed.
  \<^item> Sdk, SdkClient: sdk/typescript/src/client.ts and middleware.ts: the request loop with retries and back-off (it ends, its delays are bounded, it
    recovers), the decision cache and every call (decisions fail closed).
  \<^item> Browser: what a page calls: lib/api/client.ts and schema.ts (the taxonomy of errors, the CSRF header, one redirection to the sign-in),
    nexus.ts, lib/query, lib/toast.ts. ConsoleState: lib/auth/use-permission.tsx, lib/capabilities, lib/environment, lib/i18n/context.tsx.
    TableState: lib/table/url-state.ts (the state of a table survives the address bar). ResourceTable: components/resources/resource-table.tsx and
    form-helpers.ts. ConsoleLib: lib/format/date-time.ts, lib/resources, lib/config.ts, lib/server/tls-mesh.ts. SignInPages: app/login, app/setup and the
    log-out of the frame.
  \<^item> Pages: what the pages share: downloads, confirmations, mutations, the printer of indented JSON and the locale \<open>cursor_pager\<close>, the
    contract of a list that is walked by cursors. SchemaForms, IdentityPages, NexusPages, PolicyPages, GatewayPages, KeyPages, EvidencePages: the handlers of the
    pages, by engine: schema forms and the schema editor, identities, permissions and the Nexus playground, policies and the Themis components,
    proxy rules and OAuth2, API keys and macaroons, audit log, compliance and notifications. Paging: the pages that interpret
    \<open>cursor_pager\<close>, together.
  \<^item> FleetPages, EnterprisePages, ExplorerPages: operators, enrollment, instances and the dashboard; SAML and SCIM; the explorer and
    observability. FramePages: command menus, theme, masked secrets. The lemmas say where a page shows something the engines have not said.
  \<^item> SdkReact: the React bindings of the client (sdk/typescript/src/react.tsx): its hooks as a step relation over renders, effects, settled promises
    and unmounting. The lemmas say which answer a hook shows, and that the render with new dependencies shows the former one.
  \<^item> JsonText: an inductive grammar of JSON texts; \<open>print_json\<close> and \<open>pretty\<close> print texts of it and the parser reads every text of it, so
    both printers are inverted by the parser; the key file and the wire form of macaroons rest on this.

  \<^bold>\<open>Bounds and fuel.\<close> \<open>parse_value\<close> of Json recurses on fuel, one unit per value, element and member; \<open>json_parse\<close> gives it twice the length of the text and two more, and every
  such step takes at least one character of the text. \<open>zref\<close>, the reference parser of the examples, has fuel 30 for the depth of a schema; only witnesses use it, the properties
  take zod as it is. \<open>attempts\<close> of Sdk counts down the retries left, as many as the loop of the source can make. Numbers are exact
  rationals with \<open>NaN\<close> and the infinities; rounding of doubles is left out, and \<open>show_rat\<close> prints at most 25 fractional digits. Characters are
  code units below 256. All other recursion is on the data, with its measure given where it is not structural.

  \<^bold>\<open>Parameters.\<close> The network, zod, the parser jsep, HMAC and SHA-256, \<open>new URL\<close>, \<open>Intl\<close>, regular expressions that come from
  data, and the files of the mesh certificates are arguments or fields of the world. Where a property needs something of them it is a
  named hypothesis (such as \<open>digest_shape\<close>), with a concrete function in the witness. Calls the sources make in parallel run in the order of
  their list, which is the order in which their requests leave.

  \<^bold>\<open>Not modelled.\<close> The markup and styling of pages and components, charts, the opening and closing of dialogs without logic, the clipboard, and the event loop
  that decides when handlers run (a handler runs to its end; where the interleaving matters, SdkReact and the last part of
  ExplorerPages have it as sequences of events); the table of components/ui, a wrapper of a third-party one; the texts of the
  translations (their characters are outside the model of strings; \<open>translate\<close> and the pages take them as an argument); pages of fixed text
  (app/design-system, the guide to traits, four tabs of app/observability). The engines are written in Go and are
  other programs: here they are the network, but for the rule matcher of Aegis in GatewayMatcher. The clients in Go and Python, the Terraform provider, scripts, deployment files, tests and
  documents are outside the code this library is about.
\<close>

section \<open>The middleware in front of a handler\<close>

text \<open>The framework runs the handler of a route when the middleware answered \<open>Next\<close>, and only then.\<close>

definition serve :: "mw_env \<Rightarrow> mw_request \<Rightarrow> ('w, response) act \<Rightarrow> ('w, response option) act" where
  "serve env rq handler = (if ma_action (middleware env rq) = Next then bnd handler (\<lambda>r. ret (Some r)) else ret None)"

lemma sends_serve: "sends w (serve env rq m) = (if ma_action (middleware env rq) = Next then sends w m else [])"
  by (cases "m w") (auto simp: serve_def sends_def bnd_def ret_def split: sum.split)

lemma middleware_passes:
  "\<lbrakk>session_present rq; csrf_ok env rq; mw_path rq \<notin> {''/login'', ''/setup''}\<rbrakk> \<Longrightarrow> ma_action (middleware env rq) = Next"
  by (auto simp: middleware_def Let_def)

text \<open>
  Without a session cookie no engine is asked anything: a request to a path that is neither an asset nor public
  runs no handler, whatever the handler of its route would do, and leaves the world as it was.
\<close>

theorem no_session_no_handler:
  "\<lbrakk>\<not> session_present rq; \<not> is_asset_path (mw_path rq); \<not> is_public (mw_path rq)\<rbrakk> \<Longrightarrow> serve env rq handler w = (Inr None, w)"
  by (auto simp: serve_def middleware_def is_public_def Let_def ret_def)

theorem no_session_no_handler_witness:
  "serve example_env (example_request ''DELETE'' ''/api/identities/7'' []) (identity_DELETE ''7'') (example_world [] (\<lambda>_. ok_text [])) =
    (Inr None, example_world [] (\<lambda>_. ok_text []))"
  by (rule no_session_no_handler)
    (simp_all add: example_request_def session_present_def is_asset_path_def is_public_def path_in_def
      PUBLIC_PATHS_def PUBLIC_API_PATHS_def starts_with_def)

text \<open>
  C17. A cookie of any content is a session to most engines: a request that carries some non-empty session cookie
  and, for the CSRF check, a cookie and a header of its own choice passes the middleware, and the handlers in
  front of Ego, Vulcan and Hermes forward a deletion at once, without asking Argus about the session
  and whatever Argus would have answered.
\<close>

theorem forged_session_deletes:
  assumes "session_present rq" "csrf_ok env rq" "mw_path rq \<notin> {''/login'', ''/setup''}"
  shows "sends w (serve env rq (identity_DELETE i)) =
      [proxy_outgoing w (w_uuid w (w_uuids w)) ''ego'' (identity_path i) (Some (po_method_only ''DELETE''))] \<and>
    sends w (serve env rq (vulcan_scope_DELETE name)) =
      [proxy_outgoing w (w_uuid w (w_uuids w)) ''vulcan'' (''/admin/scopes/'' @ encode_uri_component name) (Some (po_method_only ''DELETE''))] \<and>
    sends w (serve env rq (scim_group_DELETE i)) =
      [proxy_outgoing w (w_uuid w (w_uuids w)) ''hermes'' (scim_group_path i) (Some (po_method_only ''DELETE''))]"
proof -
  have r: "required_permissions s (Some (po_method_only ''DELETE'')) = []" if "s \<in> {''ego'', ''vulcan'', ''hermes''}" for s
    by (rule required_method) (use that in \<open>auto simp: permission_domain_def\<close>)
  have e: "{''ego'', ''vulcan'', ''hermes''} \<subseteq> set engines" by (simp add: engines_def)
  show ?thesis
    using r e unfolding sends_serve identity_DELETE_def vulcan_scope_DELETE_def scim_group_DELETE_def
    by (simp add: middleware_passes [OF assms] unguarded_sends)
qed

theorem forged_session_deletes_witness:
  "let forged = [(MW_SESSION_COOKIE, ''forged''), (CSRF_COOKIE_NAME, ''t'')];
       rq = (example_request ''DELETE'' ''/api/identities/7'' forged)\<lparr>mw_headers := [(''x-csrf-token'', ''t'')]\<rparr>;
       w = example_world forged (\<lambda>_. Inl (type_error ''fetch failed''))
   in sends w (serve example_env rq (identity_DELETE ''7'')) =
     [proxy_outgoing w (w_uuid w (w_uuids w)) ''ego'' (identity_path ''7'') (Some (po_method_only ''DELETE''))]"
  unfolding Let_def
  by (rule forged_session_deletes [THEN conjunct1])
    (simp_all add: example_request_def session_present_def csrf_ok_def nonempty_def header_def Let_def
      CSRF_COOKIE_NAME_def MW_SESSION_COOKIE_def)

end
